(* ===== verification/Prelude.thy ===== *)
theory Prelude
  imports Complex_Main "HOL-Library.AList"
begin

text \<open>
  Shared vocabulary of the development: the exceptions the backend raises, a state and
  exception monad for its coroutines, and the collections of facts that carry the
  component proofs.

  A coroutine that reads and writes the database is a function from the database state to
  a result and the new state. An exception keeps the writes made before it, as in the
  program (only a unit of work undoes them, see the theory of the document store). The
  combinators have no infix syntax: \<open>bindM m (\<lambda>x. k)\<close> reads "await \<open>m\<close>, call the result
  \<open>x\<close>, continue with \<open>k\<close>".
\<close>

section \<open>Exceptions\<close>

datatype py_error =
    GovernanceViolation string
  | ConcurrencyError string
  | HTTPException int string
  | ValueError string
  | TypeError string
  | AttributeError string
  | KeyError string
  | PyRuntimeError string
  | DuplicateKeyError string
  | ResourceLockedError string
  | CircuitOpenError string
  | PermissionError string
  | ZeroDivisionError string
  | NotImplementedError string

type_synonym 'a res = "py_error + 'a"

type_synonym ('s, 'a) comp = "'s \<Rightarrow> 'a res \<times> 's"

named_theorems run_iff \<open>inversion of successful runs of the combinators\<close>
named_theorems run_simps \<open>one-step evaluation of the combinators\<close>

section \<open>The combinators\<close>

definition returnM :: "'a \<Rightarrow> ('s, 'a) comp" where
  "returnM x = (\<lambda>s. (Inr x, s))"

definition raiseM :: "py_error \<Rightarrow> ('s, 'a) comp" where
  "raiseM e = (\<lambda>s. (Inl e, s))"

definition bindM :: "('s, 'a) comp \<Rightarrow> ('a \<Rightarrow> ('s, 'b) comp) \<Rightarrow> ('s, 'b) comp" where
  "bindM m f = (\<lambda>s. case m s of (Inl e, t) \<Rightarrow> (Inl e, t) | (Inr x, t) \<Rightarrow> f x t)"

text \<open>A pure computation that may raise, a read of the state, a guard clause.\<close>

definition liftM :: "'a res \<Rightarrow> ('s, 'a) comp" where
  "liftM r = (\<lambda>s. (r, s))"

definition readM :: "('s \<Rightarrow> 'a) \<Rightarrow> ('s, 'a) comp" where
  "readM f = (\<lambda>s. (Inr (f s), s))"

definition raise_if :: "bool \<Rightarrow> py_error \<Rightarrow> ('s, unit) comp" where
  "raise_if b e = (if b then raiseM e else returnM ())"

definition whenM :: "bool \<Rightarrow> ('s, unit) comp \<Rightarrow> ('s, unit) comp" where
  "whenM b m = (if b then m else returnM ())"

text \<open>\<open>try: m finally: cleanup\<close>: an exception of the cleanup replaces the outcome.\<close>

definition finallyM :: "('s, 'a) comp \<Rightarrow> ('s, unit) comp \<Rightarrow> ('s, 'a) comp" where
  "finallyM m cleanup = (\<lambda>s. case m s of (r, t) \<Rightarrow>
     (case cleanup t of (Inl e, u) \<Rightarrow> (Inl e, u) | (Inr _, u) \<Rightarrow> (r, u)))"

text \<open>\<open>try: m except Exception: log\<close>.\<close>

definition attempt :: "('s, 'a) comp \<Rightarrow> ('s, unit) comp" where
  "attempt m = (\<lambda>s. case m s of (_, t) \<Rightarrow> (Inr (), t))"

text \<open>Computations on the parts of a paired state.\<close>

definition on_fst :: "('s, 'a) comp \<Rightarrow> ('s \<times> 't, 'a) comp" where
  "on_fst m = (\<lambda>(s, t). case m s of (r, s') \<Rightarrow> (r, (s', t)))"

definition on_snd :: "('t, 'a) comp \<Rightarrow> ('s \<times> 't, 'a) comp" where
  "on_snd m = (\<lambda>(s, t). case m t of (r, t') \<Rightarrow> (r, (s, t')))"

text \<open>A \<open>for\<close> loop whose body may raise.\<close>

fun forM :: "'a list \<Rightarrow> ('a \<Rightarrow> ('s, unit) comp) \<Rightarrow> ('s, unit) comp" where
  "forM [] body = returnM ()"
| "forM (x # xs) body = bindM (body x) (\<lambda>_. forM xs body)"

text \<open>Pure results: the same combinator without a state.\<close>

definition bindR :: "'a res \<Rightarrow> ('a \<Rightarrow> 'b res) \<Rightarrow> 'b res" where
  "bindR r f = (case r of Inl e \<Rightarrow> Inl e | Inr x \<Rightarrow> f x)"

section \<open>Evaluation and inversion\<close>

lemma returnM_run [run_simps]: "returnM x s = (Inr x, s)"
  by (simp add: returnM_def)

lemma raiseM_run [run_simps]: "raiseM e s = (Inl e, s)"
  by (simp add: raiseM_def)

lemma liftM_run [run_simps]: "liftM r s = (r, s)"
  by (simp add: liftM_def)

lemma readM_run [run_simps]: "readM f s = (Inr (f s), s)"
  by (simp add: readM_def)

lemma bindM_run [run_simps]:
  "bindM m f s = (case m s of (Inl e, t) \<Rightarrow> (Inl e, t) | (Inr x, t) \<Rightarrow> f x t)"
  by (simp add: bindM_def)

lemma raise_if_run [run_simps]: "raise_if b e s = (if b then Inl e else Inr (), s)"
  by (simp add: raise_if_def run_simps)

lemma whenM_run [run_simps]: "whenM b m s = (if b then m s else (Inr (), s))"
  by (simp add: whenM_def run_simps)

lemma returnM_iff [run_iff]: "returnM x s = (Inr y, t) \<longleftrightarrow> x = y \<and> s = t"
  by (auto simp: run_simps)

lemma raiseM_iff [run_iff]: "raiseM e s = (Inr y, t) \<longleftrightarrow> False"
  by (simp add: run_simps)

lemma liftM_iff [run_iff]: "liftM r s = (Inr y, t) \<longleftrightarrow> r = Inr y \<and> s = t"
  by (auto simp: run_simps)

lemma readM_iff [run_iff]: "readM f s = (Inr y, t) \<longleftrightarrow> f s = y \<and> s = t"
  by (auto simp: run_simps)

lemma bindM_iff [run_iff]:
  "bindM m f s = (Inr y, t) \<longleftrightarrow> (\<exists>x u. m s = (Inr x, u) \<and> f x u = (Inr y, t))"
  by (auto simp: run_simps split: prod.splits sum.splits)

lemma bindM_elim:
  assumes "bindM m f s = (Inr y, t)"
  obtains x u where "m s = (Inr x, u)" "f x u = (Inr y, t)"
  using assms by (auto simp: bindM_iff)

lemma raise_if_iff [run_iff]: "raise_if b e s = (Inr y, t) \<longleftrightarrow> \<not> b \<and> s = t"
  by (auto simp: run_simps)

lemma whenM_iff [run_iff]:
  "whenM b m s = (Inr y, t) \<longleftrightarrow> (if b then m s = (Inr y, t) else s = t)"
  by (auto simp: run_simps)

lemma bindR_iff [run_iff]: "bindR r f = Inr y \<longleftrightarrow> (\<exists>x. r = Inr x \<and> f x = Inr y)"
  by (auto simp: bindR_def split: sum.splits)

lemma bindR_Inr [simp]: "bindR (Inr x) f = f x"
  by (simp add: bindR_def)

lemma bindR_Inl [simp]: "bindR (Inl e) f = Inl e"
  by (simp add: bindR_def)

lemma bindM_assoc: "bindM (bindM m f) g = bindM m (\<lambda>x. bindM (f x) g)"
  by (rule ext) (auto simp: run_simps split: prod.splits sum.splits)

text \<open>
  A predicate on states is kept by a computation when every run from a state that satisfies
  it, successful or not, ends in one that does.
\<close>

definition keeps :: "('s \<Rightarrow> bool) \<Rightarrow> ('s, 'a) comp \<Rightarrow> bool" where
  "keeps P m \<longleftrightarrow> (\<forall>s r t. P s \<longrightarrow> m s = (r, t) \<longrightarrow> P t)"

named_theorems keeps_intros \<open>computations that keep a predicate\<close>

lemma keepsI: "(\<And>s r t. P s \<Longrightarrow> m s = (r, t) \<Longrightarrow> P t) \<Longrightarrow> keeps P m"
  by (simp add: keeps_def)

lemma keepsD: "keeps P m \<Longrightarrow> P s \<Longrightarrow> m s = (r, t) \<Longrightarrow> P t"
  by (simp add: keeps_def)

lemma keeps_eqD:
  assumes "\<And>P. keeps (\<lambda>s. P (f s)) m" and "m s = (r, t)"
  shows "f t = f s"
  using keepsD [OF assms(1) [of "\<lambda>x. x = f s"] _ assms(2)] by simp

lemma keeps_returnM [keeps_intros, simp]: "keeps P (returnM x)"
  by (simp add: keeps_def run_simps)

lemma keeps_raiseM [keeps_intros, simp]: "keeps P (raiseM e)"
  by (simp add: keeps_def run_simps)

lemma keeps_liftM [keeps_intros, simp]: "keeps P (liftM r)"
  by (simp add: keeps_def run_simps)

lemma keeps_readM [keeps_intros, simp]: "keeps P (readM f)"
  by (simp add: keeps_def run_simps)

lemma keeps_raise_if [keeps_intros, simp]: "keeps P (raise_if b e)"
  by (simp add: keeps_def run_simps)

lemma keeps_bindM [keeps_intros]:
  assumes m: "keeps P m" and f: "\<And>x. keeps P (f x)"
  shows "keeps P (bindM m f)"
proof (rule keepsI)
  fix s r t
  assume s: "P s" and run: "bindM m f s = (r, t)"
  obtain q u where mq: "m s = (q, u)" by (cases "m s")
  from m s mq have u: "P u" by (rule keepsD)
  show "P t"
  proof (cases q)
    case (Inl e)
    with run mq u show ?thesis by (simp add: run_simps)
  next
    case (Inr x)
    with run mq have "f x u = (r, t)" by (simp add: run_simps)
    with f u show ?thesis by (rule keepsD)
  qed
qed

lemma keeps_whenM [keeps_intros]: "(b \<Longrightarrow> keeps P m) \<Longrightarrow> keeps P (whenM b m)"
  by (cases b) (simp_all add: whenM_def)

lemma keeps_if [keeps_intros]:
  "(b \<Longrightarrow> keeps P m) \<Longrightarrow> (\<not> b \<Longrightarrow> keeps P n) \<Longrightarrow> keeps P (if b then m else n)"
  by simp

lemma keeps_forM [keeps_intros]: "(\<And>x. x \<in> set xs \<Longrightarrow> keeps P (body x)) \<Longrightarrow> keeps P (forM xs body)"
  by (induction xs) (auto intro!: keeps_intros)

lemma keeps_finallyM [keeps_intros]:
  assumes m: "keeps P m" and c: "keeps P c"
  shows "keeps P (finallyM m c)"
proof (rule keepsI)
  fix s r t
  assume s: "P s" and run: "finallyM m c s = (r, t)"
  obtain q u where mq: "m s = (q, u)" by (cases "m s")
  obtain q' v where cq: "c u = (q', v)" by (cases "c u")
  from keepsD [OF c keepsD [OF m s mq] cq] have "P v" .
  with run mq cq show "P t" by (cases q') (auto simp: finallyM_def)
qed

lemma run_of_fst: "fst (m s) = r \<Longrightarrow> m s = (r, snd (m s))"
  by (metis prod.collapse)

lemma on_fst_run: "on_fst m (s, t) = (fst (m s), (snd (m s), t))"
  by (simp add: on_fst_def split: prod.splits)

lemma on_snd_run: "on_snd m (s, t) = (fst (m t), (s, snd (m t)))"
  by (simp add: on_snd_def split: prod.splits)

lemma on_fst_iff [run_iff]: "on_fst m (s, t) = (Inr x, (s', t')) \<longleftrightarrow> m s = (Inr x, s') \<and> t' = t"
  by (auto simp: on_fst_def split: prod.splits)

lemma on_snd_iff [run_iff]: "on_snd m (s, t) = (Inr x, (s', t')) \<longleftrightarrow> m t = (Inr x, t') \<and> s' = s"
  by (auto simp: on_snd_def split: prod.splits)

lemma attempt_iff [run_iff]: "attempt m s = (Inr x, t) \<longleftrightarrow> snd (m s) = t"
  by (auto simp: attempt_def split: prod.splits)

lemma attempt_snd: "attempt m s = (Inr (), snd (m s))"
  by (simp add: attempt_def split: prod.splits)

lemma keeps_attempt [keeps_intros]: "keeps P m \<Longrightarrow> keeps P (attempt m)"
  by (auto simp: keeps_def attempt_def split: prod.splits)

section \<open>Lists\<close>

text \<open>Replacing the first element that satisfies a predicate.\<close>

fun update_first :: "('a \<Rightarrow> bool) \<Rightarrow> ('a \<Rightarrow> 'a) \<Rightarrow> 'a list \<Rightarrow> 'a list" where
  "update_first P f [] = []"
| "update_first P f (x # xs) = (if P x then f x # xs else x # update_first P f xs)"

lemma length_update_first [simp]: "length (update_first P f xs) = length xs"
  by (induction xs) auto

lemma update_first_none: "filter P xs = [] \<Longrightarrow> update_first P f xs = xs"
  by (induction xs) (auto split: if_splits)

lemma find_hd_filter: "List.find P xs = (case filter P xs of [] \<Rightarrow> None | x # _ \<Rightarrow> Some x)"
  by (induction xs) auto

lemma filter_hd_sat: "filter P xs = x # ys \<Longrightarrow> P x \<and> x \<in> set xs"
  by (drule arg_cong [where f = set]) auto

lemma update_first_split:
  assumes "filter P xs = x # ys"
  obtains us vs where "xs = us @ x # vs" "\<forall>u \<in> set us. \<not> P u" "P x"
    "update_first P f xs = us @ f x # vs"
proof -
  from assms have "\<exists>us vs. xs = us @ x # vs \<and> (\<forall>u \<in> set us. \<not> P u) \<and> P x \<and>
    update_first P f xs = us @ f x # vs"
  proof (induction xs)
    case (Cons z zs)
    show ?case
    proof (cases "P z")
      case True
      with Cons.prems show ?thesis by (intro exI [of _ "[]"] exI [of _ zs]) auto
    next
      case False
      with Cons obtain us vs where "zs = us @ x # vs" "\<forall>u \<in> set us. \<not> P u" "P x"
        "update_first P f zs = us @ f x # vs" by auto
      with False show ?thesis by (intro exI [of _ "z # us"] exI [of _ vs]) auto
    qed
  qed simp
  with that show thesis by blast
qed

text \<open>\<open>cursor.to_list(length=n)\<close>, and a slice \<open>xs[:n]\<close> with \<open>n \<ge> 0\<close>.\<close>

fun to_list :: "int \<Rightarrow> 'a list \<Rightarrow> 'a list" where
  "to_list n [] = []"
| "to_list n (x # xs) = (if n \<le> 0 then [] else x # to_list (n - 1) xs)"

lemma to_list_take: "to_list n xs = take (nat n) xs"
  by (induction xs arbitrary: n) (auto simp: take_Cons' nat_diff_distrib')

text \<open>Removing the first element that satisfies a predicate.\<close>

fun remove_first :: "('a \<Rightarrow> bool) \<Rightarrow> 'a list \<Rightarrow> 'a list" where
  "remove_first P [] = []"
| "remove_first P (x # xs) = (if P x then xs else x # remove_first P xs)"

lemma remove_first_none: "filter P xs = [] \<Longrightarrow> remove_first P xs = xs"
  by (induction xs) (auto split: if_splits)

lemma set_remove_first_subset: "set (remove_first P xs) \<subseteq> set xs"
  by (induction xs) auto

lemma set_update_first_subset: "set (update_first P f xs) \<subseteq> set xs \<union> f ` {x \<in> set xs. P x}"
  by (induction xs) auto

lemma filter_update_first:
  assumes "filter P xs = [d]" "Q d" "\<And>x. Q x \<Longrightarrow> P x" "P d'"
  shows "filter P (update_first Q (\<lambda>_. d') xs) = [d']"
  using assms(1)
proof (induction xs)
  case (Cons x xs)
  show ?case
  proof (cases "P x")
    case True
    with Cons.prems have "x = d" "filter P xs = []" by auto
    with assms show ?thesis by simp
  next
    case False
    with assms(3) have "\<not> Q x" by blast
    with False Cons show ?thesis by simp
  qed
qed simp

lemma update_first_agree:
  assumes "filter P xs = [d]" "Q d" "\<And>x. Q x \<Longrightarrow> P x"
  shows "update_first Q f xs = update_first P f xs"
  using assms(1)
proof (induction xs)
  case (Cons x xs)
  then show ?case using assms(2,3) by (cases "P x") auto
qed simp

lemma filter_implies_single:
  assumes "filter P xs = [d]" and "\<And>x. Q x \<Longrightarrow> P x"
  shows "filter Q xs = (if Q d then [d] else [])"
proof -
  have "filter Q xs = filter Q (filter P xs)" using assms(2) by (induction xs) auto
  with assms(1) show ?thesis by simp
qed

end
