(* ===== verification/PyValue.thy ===== *)
theory PyValue
  imports Prelude
begin

text \<open>
  The dynamic values of the program: what a Mongo document or a request payload holds, with
  the operations of the Python language the sources apply to them.

  Modelling choices. Strings are lists of bytes, and case mapping is the ASCII one (the
  status words the program compares are ASCII). A binary64 float is its exact rational
  value, without rounding errors and without the non-finite values; \<open>int\<close> is unbounded. A
  naive datetime is its number of microseconds since the epoch, an aware one carries its
  UTC offset as well. A dict is an association list in insertion order with distinct keys.
  \<open>str()\<close> of a float, a datetime, a list or a dict is the parameter \<open>rp\<close> of
  \<open>py_str\<close>.
\<close>

section \<open>Values\<close>

datatype val =
    VNone
  | VBool bool
  | VInt int
  | VFloat rat
  | VStr string
  | VDate int "int option"
  | VOid string
  | VList "val list"
  | VDict "(string \<times> val) list"

type_synonym doc = "(string \<times> val) list"

type_synonym repr = "val \<Rightarrow> string"

abbreviation naive :: "int \<Rightarrow> val" where
  "naive t \<equiv> VDate t None"

text \<open>\<open>bool(v)\<close>, and \<open>a or b\<close>.\<close>

fun truthy :: "val \<Rightarrow> bool" where
  "truthy VNone = False"
| "truthy (VBool b) = b"
| "truthy (VInt i) = (i \<noteq> 0)"
| "truthy (VFloat q) = (q \<noteq> 0)"
| "truthy (VStr s) = (s \<noteq> [])"
| "truthy (VDate t z) = True"
| "truthy (VOid s) = True"
| "truthy (VList xs) = (xs \<noteq> [])"
| "truthy (VDict d) = (d \<noteq> [])"

definition py_or :: "val \<Rightarrow> val \<Rightarrow> val" where
  "py_or a b = (if truthy a then a else b)"

text \<open>\<open>isinstance\<close> against \<open>dict\<close>, \<open>list\<close>, \<open>str\<close> and the numeric types.\<close>

fun as_dict :: "val \<Rightarrow> doc option" where
  "as_dict (VDict d) = Some d"
| "as_dict _ = None"

fun as_list :: "val \<Rightarrow> val list option" where
  "as_list (VList xs) = Some xs"
| "as_list _ = None"

fun as_string :: "val \<Rightarrow> string option" where
  "as_string (VStr s) = Some s"
| "as_string _ = None"

fun num_of :: "val \<Rightarrow> rat option" where
  "num_of (VBool b) = Some (if b then 1 else 0)"
| "num_of (VInt i) = Some (of_int i)"
| "num_of (VFloat q) = Some q"
| "num_of _ = None"

text \<open>The elements of \<open>v or []\<close> and the entries of \<open>v or {}\<close> in a loop.\<close>

definition list_or_empty :: "val \<Rightarrow> val list" where
  "list_or_empty v = (case as_list v of Some xs \<Rightarrow> xs | None \<Rightarrow> [])"

definition dict_or_empty :: "val \<Rightarrow> doc" where
  "dict_or_empty v = (case as_dict v of Some d \<Rightarrow> d | None \<Rightarrow> [])"

section \<open>Dictionaries\<close>

text \<open>\<open>d.get(k)\<close>, \<open>k in d\<close>, \<open>d[k] = v\<close>, \<open>d.setdefault(k, v)\<close>, \<open>d.update(e)\<close>, \<open>d.pop(k, None)\<close>.\<close>

definition dget :: "doc \<Rightarrow> string \<Rightarrow> val" where
  "dget d k = (case map_of d k of None \<Rightarrow> VNone | Some v \<Rightarrow> v)"

definition dget_or :: "doc \<Rightarrow> string \<Rightarrow> val \<Rightarrow> val" where
  "dget_or d k v = (case map_of d k of None \<Rightarrow> v | Some w \<Rightarrow> w)"

definition dhas :: "doc \<Rightarrow> string \<Rightarrow> bool" where
  "dhas d k = (map_of d k \<noteq> None)"

text \<open>\<open>d[k]\<close>.\<close>

definition ditem :: "doc \<Rightarrow> string \<Rightarrow> val res" where
  "ditem d k = (if dhas d k then Inr (dget d k) else Inl (KeyError k))"

abbreviation dput :: "string \<Rightarrow> val \<Rightarrow> doc \<Rightarrow> doc" where
  "dput \<equiv> AList.update"

definition dset_default :: "string \<Rightarrow> val \<Rightarrow> doc \<Rightarrow> doc" where
  "dset_default k v d = (if dhas d k then d else dput k v d)"

fun dmerge :: "doc \<Rightarrow> doc \<Rightarrow> doc" where
  "dmerge d [] = d"
| "dmerge d ((k, v) # e) = dmerge (dput k v d) e"

abbreviation dpop :: "string \<Rightarrow> doc \<Rightarrow> doc" where
  "dpop \<equiv> AList.delete"

section \<open>Equality\<close>

text \<open>
  \<open>a == b\<close>: numbers by value across the three numeric types, aware datetimes by instant,
  lists elementwise, dicts without regard to order.
\<close>

fun same_instant :: "int \<Rightarrow> int option \<Rightarrow> int \<Rightarrow> int option \<Rightarrow> bool" where
  "same_instant t None u None = (t = u)"
| "same_instant t (Some y) u (Some z) = (t - y = u - z)"
| "same_instant t y u z = False"

fun py_eq :: "val \<Rightarrow> val \<Rightarrow> bool"
  and py_eq_list :: "val list \<Rightarrow> val list \<Rightarrow> bool"
  and py_eq_sub :: "doc \<Rightarrow> doc \<Rightarrow> bool" where
  "py_eq (VList xs) b = (case b of VList ys \<Rightarrow> py_eq_list xs ys | _ \<Rightarrow> False)"
| "py_eq (VDict d) b =
     (case b of VDict e \<Rightarrow> length d = length e \<and> py_eq_sub d e | _ \<Rightarrow> False)"
| "py_eq (VDate t y) b = (case b of VDate u z \<Rightarrow> same_instant t y u z | _ \<Rightarrow> False)"
| "py_eq a b =
     (case (num_of a, num_of b) of
        (Some x, Some y) \<Rightarrow> x = y
      | (None, None) \<Rightarrow> a = b
      | _ \<Rightarrow> False)"
| "py_eq_list [] ys = (ys = [])"
| "py_eq_list (x # xs) ys = (case ys of [] \<Rightarrow> False | y # zs \<Rightarrow> py_eq x y \<and> py_eq_list xs zs)"
| "py_eq_sub [] e = True"
| "py_eq_sub ((k, v) # d) e =
     ((case map_of e k of None \<Rightarrow> False | Some w \<Rightarrow> py_eq v w) \<and> py_eq_sub d e)"

definition py_in :: "val \<Rightarrow> val list \<Rightarrow> bool" where
  "py_in v xs = list_ex (py_eq v) xs"

section \<open>Strings\<close>

definition is_space :: "char \<Rightarrow> bool" where
  "is_space c = (c \<in> {CHR '' '', CHR 0x09, CHR 0x0A, CHR 0x0B, CHR 0x0C, CHR 0x0D,
     CHR 0x1C, CHR 0x1D, CHR 0x1E, CHR 0x1F})"

definition strip :: "string \<Rightarrow> string" where
  "strip s = rev (dropWhile is_space (rev (dropWhile is_space s)))"

definition lower_letters :: string where
  "lower_letters = ''abcdefghijklmnopqrstuvwxyz''"

definition upper_letters :: string where
  "upper_letters = ''ABCDEFGHIJKLMNOPQRSTUVWXYZ''"

definition to_upper :: "char \<Rightarrow> char" where
  "to_upper c = (case map_of (zip lower_letters upper_letters) c of None \<Rightarrow> c | Some d \<Rightarrow> d)"

definition to_lower :: "char \<Rightarrow> char" where
  "to_lower c = (case map_of (zip upper_letters lower_letters) c of None \<Rightarrow> c | Some d \<Rightarrow> d)"

definition upper :: "string \<Rightarrow> string" where
  "upper s = map to_upper s"

definition lower :: "string \<Rightarrow> string" where
  "lower s = map to_lower s"

fun starts_with :: "string \<Rightarrow> string \<Rightarrow> bool" where
  "starts_with s [] = True"
| "starts_with [] (c # p) = False"
| "starts_with (d # s) (c # p) = (d = c \<and> starts_with s p)"

fun join :: "string \<Rightarrow> string list \<Rightarrow> string" where
  "join sep [] = []"
| "join sep [s] = s"
| "join sep (s # t # ts) = s @ sep @ join sep (t # ts)"

text \<open>\<open>s.split(c)\<close> with a one-character separator.\<close>

fun split_at :: "char \<Rightarrow> string \<Rightarrow> string list" where
  "split_at c [] = [[]]"
| "split_at c (d # s) =
     (if d = c then [] # split_at c s
      else (case split_at c s of [] \<Rightarrow> [[d]] | p # ps \<Rightarrow> (d # p) # ps))"

section \<open>Numbers\<close>

definition digit_chars :: string where
  "digit_chars = ''0123456789''"

definition digit_val :: "char \<Rightarrow> nat option" where
  "digit_val c = map_of (zip digit_chars [0 ..< 10]) c"

fun show_nat :: "nat \<Rightarrow> string" where
  "show_nat n =
     (if n < 10 then [digit_chars ! n] else show_nat (n div 10) @ [digit_chars ! (n mod 10)])"

declare show_nat.simps [simp del]

definition show_int :: "int \<Rightarrow> string" where
  "show_int i = (if i < 0 then ''-'' @ show_nat (nat (- i)) else show_nat (nat i))"

text \<open>\<open>str(v)\<close>.\<close>

fun py_str :: "repr \<Rightarrow> val \<Rightarrow> string" where
  "py_str rp VNone = ''None''"
| "py_str rp (VBool b) = (if b then ''True'' else ''False'')"
| "py_str rp (VInt i) = show_int i"
| "py_str rp (VStr s) = s"
| "py_str rp (VOid s) = s"
| "py_str rp v = rp v"

fun parse_digits :: "nat \<Rightarrow> string \<Rightarrow> nat option" where
  "parse_digits acc [] = Some acc"
| "parse_digits acc (c # s) =
     (case digit_val c of None \<Rightarrow> None | Some n \<Rightarrow> parse_digits (10 * acc + n) s)"

fun with_sign :: "(string \<Rightarrow> rat option) \<Rightarrow> string \<Rightarrow> rat option" where
  "with_sign p [] = p []"
| "with_sign p (c # s) =
     (if c = CHR ''-'' then map_option uminus (p s)
      else if c = CHR ''+'' then p s
      else p (c # s))"

definition parse_unsigned :: "string \<Rightarrow> rat option" where
  "parse_unsigned s = (if s = [] then None else map_option of_nat (parse_digits 0 s))"

definition parse_mantissa :: "string \<Rightarrow> rat option" where
  "parse_mantissa s =
     (case split_at (CHR ''.'') s of
        [a] \<Rightarrow> parse_unsigned a
      | [a, b] \<Rightarrow>
          (if a = [] \<and> b = [] then None
           else (case (parse_digits 0 a, parse_digits 0 b) of
             (Some m, Some n) \<Rightarrow> Some (of_nat m + of_nat n / 10 ^ length b)
           | _ \<Rightarrow> None))
      | _ \<Rightarrow> None)"

text \<open>
  The literals \<open>float()\<close> and \<open>int()\<close> accept, less the spelled-out infinities and NaN, digit
  separators and exponents.
\<close>

definition parse_float :: "string \<Rightarrow> rat option" where
  "parse_float s = with_sign parse_mantissa (strip s)"

definition parse_int :: "string \<Rightarrow> rat option" where
  "parse_int s = with_sign parse_unsigned (strip s)"

definition trunc :: "rat \<Rightarrow> int" where
  "trunc q = (if 0 \<le> q then \<lfloor>q\<rfloor> else - \<lfloor>- q\<rfloor>)"

fun to_float :: "val \<Rightarrow> rat res" where
  "to_float (VBool b) = Inr (if b then 1 else 0)"
| "to_float (VInt i) = Inr (of_int i)"
| "to_float (VFloat q) = Inr q"
| "to_float (VStr s) =
     (case parse_float s of
        Some q \<Rightarrow> Inr q
      | None \<Rightarrow> Inl (ValueError (''could not convert string to float: '' @ s)))"
| "to_float _ = Inl (TypeError ''float() argument must be a string or a real number'')"

fun to_int :: "val \<Rightarrow> int res" where
  "to_int (VBool b) = Inr (if b then 1 else 0)"
| "to_int (VInt i) = Inr i"
| "to_int (VFloat q) = Inr (trunc q)"
| "to_int (VStr s) =
     (case parse_int s of
        Some q \<Rightarrow> Inr (trunc q)
      | None \<Rightarrow> Inl (ValueError (''invalid literal for int() with base 10: '' @ s)))"
| "to_int _ = Inl (TypeError ''int() argument must be a string or a real number'')"

text \<open>\<open>round(x, n)\<close> rounds half to even.\<close>

definition round_half_even :: "rat \<Rightarrow> int" where
  "round_half_even q =
     (let f = \<lfloor>q\<rfloor>; r = q - of_int f
      in if r < 1 / 2 then f
         else if 1 / 2 < r then f + 1
         else if even f then f else f + 1)"

definition py_round :: "nat \<Rightarrow> rat \<Rightarrow> rat" where
  "py_round n q = of_int (round_half_even (q * 10 ^ n)) / 10 ^ n"

section \<open>Facts\<close>

named_theorems doc_simps \<open>lookups in updated documents\<close>

lemma dget_dput [doc_simps]: "dget (dput k v d) j = (if j = k then v else dget d j)"
  by (simp add: dget_def update_conv')

lemma dhas_dput [doc_simps]: "dhas (dput k v d) j = (j = k \<or> dhas d j)"
  by (simp add: dhas_def update_conv')

lemma map_of_dput [doc_simps]: "map_of (dput k v d) j = (if j = k then Some v else map_of d j)"
  by (simp add: update_conv')

lemma map_of_dset_default [doc_simps]:
  "map_of (dset_default k v d) j = (if j = k \<and> \<not> dhas d k then Some v else map_of d j)"
  by (auto simp: dset_default_def doc_simps dhas_def)

lemma dget_dset_default [doc_simps]:
  "dget (dset_default k v d) j = (if j = k \<and> \<not> dhas d k then v else dget d j)"
  by (auto simp: dget_def doc_simps)

lemma dhas_dset_default [doc_simps]: "dhas (dset_default k v d) j = (j = k \<or> dhas d j)"
  by (auto simp: dhas_def doc_simps)

lemma map_of_dmerge: "map_of (dmerge d e) = map_of d ++ map_of (rev e)"
proof (induction e arbitrary: d)
  case (Cons p e)
  obtain k v where "p = (k, v)" by (cases p)
  with Cons show ?case by (simp add: update_conv' map_add_def fun_eq_iff split: option.splits)
qed simp

lemma dmerge_distinct:
  assumes "distinct (map fst e)"
  shows "map_of (dmerge d e) = map_of d ++ map_of e"
proof -
  have "map_of (rev e) = map_of e"
    using assms by (metis distinct_rev map_of_inject_set rev_map set_rev)
  then show ?thesis by (simp add: map_of_dmerge)
qed

lemma dget_dmerge_other [doc_simps]: "k \<notin> fst ` set e \<Longrightarrow> dget (dmerge d e) k = dget d k"
  by (simp add: dget_def map_of_dmerge map_add_def map_of_eq_None_iff split: option.splits)
     (metis map_of_eq_None_iff option.distinct(1) set_rev)

lemma dget_dmerge_in:
  assumes "distinct (map fst e)" and "map_of e k = Some v"
  shows "dget (dmerge d e) k = v"
  using assms by (simp add: dget_def dmerge_distinct)

lemma keys_dmerge: "fst ` set (dmerge d e) = fst ` set d \<union> fst ` set e"
proof (induction e arbitrary: d)
  case (Cons p e)
  obtain k v where "p = (k, v)" by (cases p)
  with Cons show ?case by (simp add: dom_update)
qed simp

lemma dmerge_keys_distinct: "distinct (map fst d) \<Longrightarrow> distinct (map fst (dmerge d e))"
proof (induction e arbitrary: d)
  case (Cons p e)
  obtain k v where "p = (k, v)" by (cases p)
  with Cons show ?case by (simp add: distinct_update)
qed simp

lemma py_or_truthy [simp]: "truthy a \<Longrightarrow> py_or a b = a"
  by (simp add: py_or_def)

lemma py_or_falsy [simp]: "\<not> truthy a \<Longrightarrow> py_or a b = b"
  by (simp add: py_or_def)

lemma truthy_py_or [simp]: "truthy (py_or a b) \<longleftrightarrow> truthy a \<or> truthy b"
  by (simp add: py_or_def)

lemma py_eq_refl_scalar:
  "(\<forall>xs. v \<noteq> VList xs) \<Longrightarrow> (\<forall>d. v \<noteq> VDict d) \<Longrightarrow> py_eq v v"
proof (cases v)
  case (VDate t z)
  then show ?thesis by (cases z) simp_all
qed auto

lemma py_eq_VStr [simp]: "py_eq (VStr s) v \<longleftrightarrow> v = VStr s"
  by (cases v) auto

lemma py_eq_to_VStr [simp]: "py_eq v (VStr s) \<longleftrightarrow> v = VStr s"
  by (cases v) (auto split: option.splits)

lemma py_eq_VNone [simp]: "py_eq VNone v \<longleftrightarrow> v = VNone"
  by (cases v) auto

lemma py_eq_to_VNone [simp]: "py_eq v VNone \<longleftrightarrow> v = VNone"
  by (cases v) (auto split: option.splits)

lemma strip_Nil [simp]: "strip [] = []"
  by (simp add: strip_def)

lemma strip_no_space:
  assumes "s \<noteq> []" "\<not> is_space (hd s)" "\<not> is_space (last s)"
  shows "strip s = s"
proof -
  have "dropWhile is_space s = s" using assms by (cases s) auto
  moreover have "dropWhile is_space (rev s) = rev s"
    using assms by (cases s rule: rev_cases) auto
  ultimately show ?thesis by (simp add: strip_def)
qed

lemma is_space_to_upper [simp]: "is_space (to_upper c) = is_space c"
  by (auto simp: is_space_def to_upper_def lower_letters_def upper_letters_def split: option.splits if_splits)

lemma is_space_to_lower [simp]: "is_space (to_lower c) = is_space c"
  by (auto simp: is_space_def to_lower_def lower_letters_def upper_letters_def split: option.splits if_splits)

lemma to_upper_idem [simp]: "to_upper (to_upper c) = to_upper c"
  by (auto simp: to_upper_def lower_letters_def upper_letters_def split: option.splits if_splits)

lemma to_lower_idem [simp]: "to_lower (to_lower c) = to_lower c"
  by (auto simp: to_lower_def lower_letters_def upper_letters_def split: option.splits if_splits)

lemma upper_idem [simp]: "upper (upper s) = upper s"
  by (simp add: upper_def)

lemma lower_idem [simp]: "lower (lower s) = lower s"
  by (simp add: lower_def)

lemma dropWhile_no_head: "dropWhile P (dropWhile P xs) = dropWhile P xs"
  by (induction xs) auto

lemma strip_idem [simp]: "strip (strip s) = strip s"
proof (cases "strip s = []")
  case False
  let ?a = "dropWhile is_space s" and ?b = "dropWhile is_space (rev (dropWhile is_space s))"
  have s: "strip s = rev ?b" by (simp add: strip_def)
  have last: "\<not> is_space (last (strip s))"
    using False by (simp add: s last_rev hd_dropWhile)
  obtain ws where "?a = rev ?b @ ws"
    by (metis rev_append rev_rev_ident takeWhile_dropWhile_id)
  with s have "?a = strip s @ ws" by simp
  with False have "hd (strip s) = hd ?a" by simp
  moreover have "?a \<noteq> []" using \<open>?a = strip s @ ws\<close> False by simp
  ultimately have "\<not> is_space (hd (strip s))" by (simp add: hd_dropWhile)
  with False last show ?thesis by (simp add: strip_no_space)
qed simp

lemma strip_upper: "strip (upper s) = upper (strip s)"
  by (simp add: strip_def upper_def dropWhile_map o_def rev_map)

lemma strip_lower: "strip (lower s) = lower (strip s)"
  by (simp add: strip_def lower_def dropWhile_map o_def rev_map)

lemma upper_eq_Nil [simp]: "upper s = [] \<longleftrightarrow> s = []"
  by (simp add: upper_def)

lemma lower_eq_Nil [simp]: "lower s = [] \<longleftrightarrow> s = []"
  by (simp add: lower_def)

lemma round_half_even_of_int [simp]: "round_half_even (of_int i) = i"
  by (simp add: round_half_even_def)

lemma round_half_even_near: "\<bar>of_int (round_half_even q) - q\<bar> \<le> 1 / 2"
proof -
  have "of_int \<lfloor>q\<rfloor> \<le> q" and "q < of_int \<lfloor>q\<rfloor> + 1"
    by linarith+
  then show ?thesis
    unfolding round_half_even_def Let_def by (auto simp: abs_if) linarith+
qed

lemma py_round_near: "\<bar>py_round n q - q\<bar> \<le> 1 / (2 * 10 ^ n)"
proof -
  have "\<bar>of_int (round_half_even (q * 10 ^ n)) - q * 10 ^ n\<bar> \<le> 1 / 2"
    by (rule round_half_even_near)
  then have "\<bar>of_int (round_half_even (q * 10 ^ n)) - q * 10 ^ n\<bar> / 10 ^ n \<le> (1 / 2) / 10 ^ n"
    by (rule divide_right_mono) simp
  moreover have "py_round n q - q = (of_int (round_half_even (q * 10 ^ n)) - q * 10 ^ n) / 10 ^ n"
    by (simp add: py_round_def diff_divide_distrib)
  ultimately show ?thesis by (simp add: abs_divide)
qed

lemma py_round_zero [simp]: "py_round n 0 = 0"
  by (simp add: py_round_def round_half_even_def)

end
