(* ===== verification/DocumentStore.thy ===== *)
theory DocumentStore
  imports PyValue
begin

text \<open>
  The document database the services are written against, as an interface and as the
  in-memory implementation the repository ships (\<open>backend/tests/utils/in_memory_db.py\<close>).

  The services receive a Motor database, third-party code. It is a parameter here: a record
  of operations over an abstract database state, and the locale \<open>document_store\<close> lists the
  documented behaviour the services rely on, phrased over \<open>docs\<close>, the contents of a
  collection in natural order. Failures of the driver (network errors) are not modelled.
  The in-memory database is translated from its source and satisfies the interface.

  Filters are dictionaries from field names, or the connectives \<open>$or\<close> and \<open>$and\<close>, to
  conditions; the operators are those the governed services use. Update documents are plain
  dictionaries with the operators \<open>$set\<close>, \<open>$inc\<close> and \<open>$push\<close>.

  The last section models the unit of work of \<open>backend/core/uow.py\<close>.
\<close>

section \<open>Filters\<close>

datatype comparison = Lt | Lte | Gt | Gte

datatype cond =
    CEq val
  | CNe val
  | CIn "val list"
  | CNin "val list"
  | CCmp comparison val
  | CExists bool
  | CClauses "(string \<times> cond) list list"

type_synonym query = "(string \<times> cond) list"

fun norm_value :: "val \<Rightarrow> val" where
  "norm_value (VOid s) = VStr s"
| "norm_value v = v"

text \<open>
  The order of values of one kind. The order operators do not hold between values of different
  kinds, as in MongoDB; the in-memory database raises a \<open>TypeError\<close> there.
\<close>

fun string_less :: "string \<Rightarrow> string \<Rightarrow> bool" where
  "string_less s [] = False"
| "string_less [] (d # t) = True"
| "string_less (c # s) (d # t) =
     (if c = d then string_less s t else of_char c < (of_char d :: nat))"

fun val_less :: "val \<Rightarrow> val \<Rightarrow> bool" where
  "val_less (VStr s) (VStr t) = string_less s t"
| "val_less (VDate t None) (VDate u None) = (t < u)"
| "val_less (VDate t (Some y)) (VDate u (Some z)) = (t - y < u - z)"
| "val_less a b = (case (num_of a, num_of b) of (Some x, Some y) \<Rightarrow> x < y | _ \<Rightarrow> False)"

fun compare_values :: "comparison \<Rightarrow> val \<Rightarrow> val \<Rightarrow> bool" where
  "compare_values Lt v w = val_less v w"
| "compare_values Gt v w = val_less w v"
| "compare_values Lte v w = (val_less v w \<or> py_eq v w)"
| "compare_values Gte v w = (val_less w v \<or> py_eq v w)"

text \<open>The operators on one value; \<open>$exists\<close> and the connectives are handled by the caller.\<close>

fun match_condition :: "val \<Rightarrow> cond \<Rightarrow> bool" where
  "match_condition v (CEq e) = py_eq (norm_value v) (norm_value e)"
| "match_condition v (CNe e) = (\<not> py_eq v (norm_value e))"
| "match_condition v (CIn xs) = py_in v xs"
| "match_condition v (CNin xs) = (\<not> py_in v xs)"
| "match_condition v (CCmp c e) = compare_values c v (norm_value e)"
| "match_condition v _ = False"

fun extract_dot_values :: "val \<Rightarrow> string list \<Rightarrow> val list" where
  "extract_dot_values (VList xs) [] = xs"
| "extract_dot_values v [] = [v]"
| "extract_dot_values (VList xs) (p # ps) = concat (map (\<lambda>x. extract_dot_values x (p # ps)) xs)"
| "extract_dot_values (VDict d) (p # ps) =
     (case map_of d p of None \<Rightarrow> [] | Some v \<Rightarrow> extract_dot_values v ps)"
| "extract_dot_values _ (p # ps) = []"

definition field_values :: "doc \<Rightarrow> string \<Rightarrow> val list" where
  "field_values d k =
     (if CHR ''.'' \<in> set k then extract_dot_values (VDict d) (split_at (CHR ''.'') k)
      else (case dget d k of VList xs \<Rightarrow> xs | v \<Rightarrow> [v]))"

primrec match_entry :: "cond \<Rightarrow> string \<Rightarrow> doc \<Rightarrow> bool" where
  "match_entry (CClauses qs) k d =
     (let clause = (\<lambda>q. list_all (\<lambda>(j, m). m j d) q);
          ms = map (map (map_prod id match_entry)) qs
      in if k = ''$or'' then list_ex clause ms
         else if k = ''$and'' then list_all clause ms
         else False)"
| "match_entry (CExists b) k d = (dhas d k = b)"
| "match_entry (CCmp c v) k d = list_ex (\<lambda>w. match_condition w (CCmp c v)) (field_values d k)"
| "match_entry (CEq v) k d = list_ex (\<lambda>w. match_condition w (CEq v)) (field_values d k)"
| "match_entry (CNe v) k d = list_ex (\<lambda>w. match_condition w (CNe v)) (field_values d k)"
| "match_entry (CIn v) k d = list_ex (\<lambda>w. match_condition w (CIn v)) (field_values d k)"
| "match_entry (CNin v) k d = list_ex (\<lambda>w. match_condition w (CNin v)) (field_values d k)"

definition match_filter :: "query \<Rightarrow> doc \<Rightarrow> bool" where
  "match_filter q d = list_all (\<lambda>(k, c). match_entry c k d) q"

lemma match_filter_simps [simp]:
  "match_filter [] d = True"
  "match_filter ((k, c) # q) d = (match_entry c k d \<and> match_filter q d)"
  by (simp_all add: match_filter_def)

lemma match_entry_clauses [simp]:
  "match_entry (CClauses qs) k d =
     (if k = ''$or'' then list_ex (\<lambda>q. match_filter q d) qs
      else if k = ''$and'' then list_all (\<lambda>q. match_filter q d) qs
      else False)"
  by (simp add: Let_def match_filter_def list_ex_iff list_all_iff split_beta)

declare match_entry.simps(1) [simp del]

section \<open>Updates\<close>

text \<open>
  An update is applied to a document in place: a computation over the document that reports
  whether anything changed, and raises where an operator does not fit the stored value.
\<close>

fun py_add :: "val \<Rightarrow> val \<Rightarrow> val option" where
  "py_add (VInt a) (VInt b) = Some (VInt (a + b))"
| "py_add (VBool a) (VInt b) = Some (VInt (of_bool a + b))"
| "py_add (VInt a) (VBool b) = Some (VInt (a + of_bool b))"
| "py_add (VBool a) (VBool b) = Some (VInt (of_bool a + of_bool b))"
| "py_add (VStr a) (VStr b) = Some (VStr (a @ b))"
| "py_add (VList a) (VList b) = Some (VList (a @ b))"
| "py_add a b =
     (case (num_of a, num_of b) of
        (Some x, Some y) \<Rightarrow> Some (VFloat (x + y))
      | _ \<Rightarrow> None)"

fun apply_set :: "doc \<Rightarrow> (doc, bool) comp" where
  "apply_set [] = returnM False"
| "apply_set ((k, v) # e) = (\<lambda>d.
     if py_eq (dget d k) v then apply_set e d
     else bindM (apply_set e) (\<lambda>_. returnM True) (dput k v d))"

fun apply_inc :: "doc \<Rightarrow> (doc, bool) comp" where
  "apply_inc [] = returnM False"
| "apply_inc ((k, v) # e) = (\<lambda>d.
     let current = (case dget_or d k (VInt 0) of VNone \<Rightarrow> VInt 0 | w \<Rightarrow> w)
     in (case py_add current v of
           None \<Rightarrow> (Inl (ValueError (''Unsupported $inc for field '' @ k)), d)
         | Some w \<Rightarrow>
             if py_eq (dget d k) w then apply_inc e d
             else bindM (apply_inc e) (\<lambda>_. returnM True) (dput k w d)))"

fun push_at :: "string list \<Rightarrow> val \<Rightarrow> doc \<Rightarrow> doc res" where
  "push_at [] v d = Inr d"
| "push_at [p] v d = Inr (dput p (VList (list_or_empty (dget d p) @ [v])) d)"
| "push_at (p # ps) v d =
     (case dget_or d p (VDict []) of
        VDict e \<Rightarrow> bindR (push_at ps v e) (\<lambda>e'. Inr (dput p (VDict e') d))
      | _ \<Rightarrow> Inl (TypeError ''cannot push into a scalar''))"

fun apply_push :: "doc \<Rightarrow> (doc, bool) comp" where
  "apply_push [] = returnM False"
| "apply_push ((k, v) # e) = (\<lambda>d.
     case push_at (split_at (CHR ''.'') k) v d of
       Inl err \<Rightarrow> (Inl err, d)
     | Inr d' \<Rightarrow> bindM (apply_push e) (\<lambda>_. returnM True) d')"

definition apply_update :: "doc \<Rightarrow> (doc, bool) comp" where
  "apply_update u =
     bindM (apply_set (dict_or_empty (dget u ''$set''))) (\<lambda>a.
     bindM (apply_inc (dict_or_empty (dget u ''$inc''))) (\<lambda>b.
     bindM (apply_push (dict_or_empty (dget u ''$push''))) (\<lambda>_.
     returnM (a \<or> b \<or> dhas u ''$push''))))"

lemma apply_set_total: "\<exists>b t. apply_set e d = (Inr b, t)"
proof (induction e arbitrary: d)
  case (Cons p e)
  obtain j v where "p = (j, v)" by (cases p)
  moreover obtain b t where "apply_set e d = (Inr b, t)" using Cons.IH by blast
  moreover obtain b' t' where "apply_set e (dput j v d) = (Inr b', t')" using Cons.IH by blast
  ultimately show ?case by (auto simp: run_simps intro: exI [of _ True])
qed (auto simp: run_simps intro: exI [of _ False])

lemma apply_set_Cons:
  "snd (apply_set ((k, v) # e) d) = snd (apply_set e (if py_eq (dget d k) v then d else dput k v d))"
  by (auto simp: run_simps split: prod.splits sum.splits)

lemma apply_set_other: "k \<notin> fst ` set e \<Longrightarrow> dget (snd (apply_set e d)) k = dget d k"
proof (induction e arbitrary: d)
  case (Cons p e)
  obtain j v where "p = (j, v)" by (cases p)
  with Cons show ?case by (simp only: apply_set_Cons) (auto simp: doc_simps)
qed (simp add: run_simps)

lemma apply_inc_Cons:
  assumes "apply_inc ((j, v) # e) d = (Inr b, d')"
  obtains w b' where "py_add (case dget_or d j (VInt 0) of VNone \<Rightarrow> VInt 0 | w \<Rightarrow> w) v = Some w"
    "apply_inc e (if py_eq (dget d j) w then d else dput j w d) = (Inr b', d')"
  using assms by (auto simp: Let_def run_iff split: option.splits if_splits)

lemma apply_inc_other:
  "apply_inc e d = (Inr b, d') \<Longrightarrow> k \<notin> fst ` set e \<Longrightarrow> dget d' k = dget d k"
proof (induction e arbitrary: d b)
  case (Cons x e)
  obtain j v where x: "x = (j, v)" by (cases x)
  from Cons.prems(1) [unfolded x] obtain w b' where
    "apply_inc e (if py_eq (dget d j) w then d else dput j w d) = (Inr b', d')" by (rule apply_inc_Cons)
  from Cons.IH [OF this] Cons.prems(2) x show ?case by (auto simp: doc_simps)
qed (simp add: run_simps)

lemma apply_set_get:
  "distinct (map fst e) \<Longrightarrow> map_of e k = Some v \<Longrightarrow> py_eq v v \<Longrightarrow>
   py_eq (dget (snd (apply_set e d)) k) v"
proof (induction e arbitrary: d)
  case (Cons p e)
  obtain j w where p: "p = (j, w)" by (cases p)
  show ?case
  proof (cases "j = k")
    case True
    with Cons.prems p have "k \<notin> fst ` set e" "w = v" by auto
    with True p Cons.prems(3) show ?thesis
      by (simp only: p apply_set_Cons) (simp add: apply_set_other doc_simps)
  next
    case False
    with Cons p show ?thesis by (simp only: p apply_set_Cons) simp
  qed
qed simp

lemma apply_set_get_string:
  "distinct (map fst e) \<Longrightarrow> map_of e k = Some (VStr s) \<Longrightarrow> dget (snd (apply_set e d)) k = VStr s"
  using apply_set_get [of e k "VStr s" d] by simp

lemma apply_set_has_other: "k \<notin> fst ` set e \<Longrightarrow> dhas (snd (apply_set e d)) k = dhas d k"
proof (induction e arbitrary: d)
  case (Cons p e)
  obtain j v where "p = (j, v)" by (cases p)
  with Cons show ?case by (simp only: apply_set_Cons) (auto simp: doc_simps)
qed (simp add: run_simps)

lemma field_values_cong: "CHR ''.'' \<notin> set k \<Longrightarrow> dget d k = dget e k \<Longrightarrow> field_values d k = field_values e k"
  by (simp add: field_values_def)

lemma apply_set_update: "snd (apply_update [(''$set'', VDict e)] d) = snd (apply_set e d)"
  using apply_set_total [of e d]
  by (auto simp: apply_update_def run_simps dget_def dict_or_empty_def split: prod.splits sum.splits)

lemma apply_set_update_total: "\<exists>m. apply_update [(''$set'', VDict e)] d = (Inr m, snd (apply_set e d))"
  using apply_set_total [of e d]
  by (auto simp: apply_update_def run_simps dget_def dict_or_empty_def)

section \<open>The interface\<close>

record 'db store =
  find_docs :: "string \<Rightarrow> query \<Rightarrow> 'db \<Rightarrow> doc list"
  insert_doc :: "string \<Rightarrow> doc \<Rightarrow> 'db \<Rightarrow> val \<times> 'db"
  update_one_doc :: "string \<Rightarrow> query \<Rightarrow> doc \<Rightarrow> ('db, nat \<times> nat) comp"
  update_many_doc :: "string \<Rightarrow> query \<Rightarrow> doc \<Rightarrow> ('db, nat \<times> nat) comp"
  upsert_one_doc :: "string \<Rightarrow> query \<Rightarrow> doc \<Rightarrow> ('db, nat \<times> nat) comp"
  replace_one_doc :: "string \<Rightarrow> query \<Rightarrow> doc \<Rightarrow> bool \<Rightarrow> 'db \<Rightarrow> (nat \<times> nat) \<times> 'db"
  find_one_and_update_doc :: "string \<Rightarrow> query \<Rightarrow> doc \<Rightarrow> bool \<Rightarrow> bool \<Rightarrow> ('db, doc option) comp"
  delete_one_doc :: "string \<Rightarrow> query \<Rightarrow> 'db \<Rightarrow> nat \<times> 'db"
  delete_many_doc :: "string \<Rightarrow> query \<Rightarrow> 'db \<Rightarrow> nat \<times> 'db"
  hello :: "'db \<Rightarrow> val option"
  oid_valid :: "string \<Rightarrow> bool"

definition docs :: "'db store \<Rightarrow> string \<Rightarrow> 'db \<Rightarrow> doc list" where
  "docs S c db = find_docs S c [] db"

definition find_all :: "'db store \<Rightarrow> string \<Rightarrow> query \<Rightarrow> ('db, doc list) comp" where
  "find_all S c q = readM (find_docs S c q)"

definition find_one :: "'db store \<Rightarrow> string \<Rightarrow> query \<Rightarrow> ('db, doc option) comp" where
  "find_one S c q = readM (\<lambda>db. case find_docs S c q db of [] \<Rightarrow> None | d # _ \<Rightarrow> Some d)"

definition count_documents :: "'db store \<Rightarrow> string \<Rightarrow> query \<Rightarrow> ('db, nat) comp" where
  "count_documents S c q = readM (\<lambda>db. length (find_docs S c q db))"

definition insert_one :: "'db store \<Rightarrow> string \<Rightarrow> doc \<Rightarrow> ('db, val) comp" where
  "insert_one S c d = (\<lambda>db. case insert_doc S c d db of (i, db') \<Rightarrow> (Inr i, db'))"

text \<open>\<open>update_one\<close> and \<open>update_many\<close> return the matched and the modified count.\<close>

abbreviation update_one :: "'db store \<Rightarrow> string \<Rightarrow> query \<Rightarrow> doc \<Rightarrow> ('db, nat \<times> nat) comp" where
  "update_one S \<equiv> update_one_doc S"

abbreviation update_many :: "'db store \<Rightarrow> string \<Rightarrow> query \<Rightarrow> doc \<Rightarrow> ('db, nat \<times> nat) comp" where
  "update_many S \<equiv> update_many_doc S"

text \<open>\<open>update_one(..., upsert=True)\<close>, the deletions and \<open>insert_many\<close>.\<close>

abbreviation upsert_one :: "'db store \<Rightarrow> string \<Rightarrow> query \<Rightarrow> doc \<Rightarrow> ('db, nat \<times> nat) comp" where
  "upsert_one S \<equiv> upsert_one_doc S"

definition delete_one :: "'db store \<Rightarrow> string \<Rightarrow> query \<Rightarrow> ('db, nat) comp" where
  "delete_one S c q = (\<lambda>db. case delete_one_doc S c q db of (n, db') \<Rightarrow> (Inr n, db'))"

text \<open>\<open>replace_one(q, d, upsert)\<close>, and \<open>find_one_and_update(q, u, upsert, after)\<close>.\<close>

definition replace_one :: "'db store \<Rightarrow> string \<Rightarrow> query \<Rightarrow> doc \<Rightarrow> bool \<Rightarrow> ('db, nat \<times> nat) comp" where
  "replace_one S c q d upsert = (\<lambda>db. case replace_one_doc S c q d upsert db of (n, db') \<Rightarrow> (Inr n, db'))"

abbreviation find_one_and_update ::
  "'db store \<Rightarrow> string \<Rightarrow> query \<Rightarrow> doc \<Rightarrow> bool \<Rightarrow> bool \<Rightarrow> ('db, doc option) comp" where
  "find_one_and_update S \<equiv> find_one_and_update_doc S"

definition delete_many :: "'db store \<Rightarrow> string \<Rightarrow> query \<Rightarrow> ('db, nat) comp" where
  "delete_many S c q = (\<lambda>db. case delete_many_doc S c q db of (n, db') \<Rightarrow> (Inr n, db'))"

definition insert_many :: "'db store \<Rightarrow> string \<Rightarrow> doc list \<Rightarrow> ('db, unit) comp" where
  "insert_many S c ds = forM ds (\<lambda>d. bindM (insert_one S c d) (\<lambda>_. returnM ()))"

text \<open>
  The document an upsert starts from: the equality conditions of the filter. The operator
  dictionary of any other condition is copied as it is by the in-memory database.
\<close>

fun comparison_name :: "comparison \<Rightarrow> string" where
  "comparison_name Lt = ''$lt''"
| "comparison_name Lte = ''$lte''"
| "comparison_name Gt = ''$gt''"
| "comparison_name Gte = ''$gte''"

fun cond_value :: "cond \<Rightarrow> val" where
  "cond_value (CEq v) = v"
| "cond_value (CNe v) = VDict [(''$ne'', v)]"
| "cond_value (CIn xs) = VDict [(''$in'', VList xs)]"
| "cond_value (CNin xs) = VDict [(''$nin'', VList xs)]"
| "cond_value (CCmp c v) = VDict [(comparison_name c, v)]"
| "cond_value (CExists b) = VDict [(''$exists'', VBool b)]"
| "cond_value (CClauses qs) = VNone"

definition upsert_base :: "query \<Rightarrow> doc \<Rightarrow> doc" where
  "upsert_base q u =
     dmerge (dmerge [] (map (map_prod id cond_value) (filter (\<lambda>(k, _). \<not> starts_with k ''$'') q)))
       (dict_or_empty (dget u ''$setOnInsert''))"

lemma keeps_find_one [keeps_intros]: "keeps P (find_one S c q)"
  by (simp add: find_one_def)

lemma keeps_find_all [keeps_intros]: "keeps P (find_all S c q)"
  by (simp add: find_all_def)

lemma keeps_count_documents [keeps_intros]: "keeps P (count_documents S c q)"
  by (simp add: count_documents_def)

locale document_store =
  fixes S :: "'db store"
  assumes find_law: "find_docs S c q db = filter (match_filter q) (docs S c db)"
    and insert_law: "insert_doc S c d db = (i, db') \<Longrightarrow>
      docs S c db' = docs S c db @ [dset_default ''_id'' i d]"
    and insert_id: "insert_doc S c d db = (i, db') \<Longrightarrow> dhas d ''_id'' \<Longrightarrow> i = dget d ''_id''"
    and insert_frame: "insert_doc S c d db = (i, db') \<Longrightarrow> k \<noteq> c \<Longrightarrow> docs S k db' = docs S k db"
    and update_one_none: "update_one_doc S c q u db = (r, db') \<Longrightarrow>
      filter (match_filter q) (docs S c db) = [] \<Longrightarrow>
      r = Inr (0, 0) \<and> docs S c db' = docs S c db"
    and update_one_some: "update_one_doc S c q u db = (r, db') \<Longrightarrow>
      filter (match_filter q) (docs S c db) = d # ds \<Longrightarrow> apply_update u d = (Inr m, d') \<Longrightarrow>
      r = Inr (1, if m then 1 else 0) \<and>
      docs S c db' = update_first (match_filter q) (\<lambda>_. d') (docs S c db)"
    and update_one_raise: "update_one_doc S c q u db = (r, db') \<Longrightarrow>
      filter (match_filter q) (docs S c db) = d # ds \<Longrightarrow> apply_update u d = (Inl e, d') \<Longrightarrow>
      r = Inl e"
    and update_one_frame: "update_one_doc S c q u db = (r, db') \<Longrightarrow> k \<noteq> c \<Longrightarrow>
      docs S k db' = docs S k db"
    and update_many_law: "update_many_doc S c q u db = (Inr n, db') \<Longrightarrow>
      docs S c db' =
        map (\<lambda>d. if match_filter q d then snd (apply_update u d) else d) (docs S c db)"
    and update_many_frame: "update_many_doc S c q u db = (r, db') \<Longrightarrow> k \<noteq> c \<Longrightarrow>
      docs S k db' = docs S k db"
    and upsert_hit: "filter (match_filter q) (docs S c db) \<noteq> [] \<Longrightarrow>
      upsert_one_doc S c q u db = update_one_doc S c q u db"
    and upsert_miss: "upsert_one_doc S c q u db = (r, db') \<Longrightarrow>
      filter (match_filter q) (docs S c db) = [] \<Longrightarrow>
      apply_update u (upsert_base q u) = (Inr m, d) \<Longrightarrow> list_all (\<lambda>(_, e). e = CEq (cond_value e)) q \<Longrightarrow>
      \<exists>i. r = Inr (0, 1) \<and> docs S c db' = docs S c db @ [dset_default ''_id'' i d]"
    and upsert_frame: "upsert_one_doc S c q u db = (r, db') \<Longrightarrow> k \<noteq> c \<Longrightarrow>
      docs S k db' = docs S k db"
    and replace_hit: "replace_one_doc S c q d upsert db = (n, db') \<Longrightarrow> dhas d ''_id'' \<Longrightarrow>
      filter (match_filter q) (docs S c db) \<noteq> [] \<Longrightarrow>
      docs S c db' = update_first (match_filter q) (\<lambda>_. d) (docs S c db)"
    and replace_miss: "replace_one_doc S c q d True db = (n, db') \<Longrightarrow> dhas d ''_id'' \<Longrightarrow>
      q = [(''_id'', CEq (dget d ''_id''))] \<Longrightarrow> filter (match_filter q) (docs S c db) = [] \<Longrightarrow>
      docs S c db' = docs S c db @ [d]"
    and replace_frame: "replace_one_doc S c q d upsert db = (n, db') \<Longrightarrow> k \<noteq> c \<Longrightarrow>
      docs S k db' = docs S k db"
    and find_update_law: "filter (match_filter q) (docs S c db) = d # ds \<Longrightarrow>
      find_one_and_update_doc S c q u upsert after db = (found, db') \<Longrightarrow>
      docs S c db' = docs S c (snd (update_one_doc S c q u db))"
    and find_update_frame: "find_one_and_update_doc S c q u upsert after db = (found, db') \<Longrightarrow> k \<noteq> c \<Longrightarrow>
      docs S k db' = docs S k db"
    and delete_one_law: "delete_one_doc S c q db = (del, db') \<Longrightarrow>
      docs S c db' = remove_first (match_filter q) (docs S c db) \<and>
      del = (if filter (match_filter q) (docs S c db) = [] then 0 else 1)"
    and delete_one_frame: "delete_one_doc S c q db = (del, db') \<Longrightarrow> k \<noteq> c \<Longrightarrow>
      docs S k db' = docs S k db"
    and delete_many_law: "delete_many_doc S c q db = (del, db') \<Longrightarrow>
      docs S c db' = filter (Not \<circ> match_filter q) (docs S c db) \<and>
      del = length (filter (match_filter q) (docs S c db))"
    and delete_many_frame: "delete_many_doc S c q db = (del, db') \<Longrightarrow> k \<noteq> c \<Longrightarrow>
      docs S k db' = docs S k db"
begin

lemma find_one_run:
  "find_one S c q db =
     (Inr (case filter (match_filter q) (docs S c db) of [] \<Rightarrow> None | d # _ \<Rightarrow> Some d), db)"
  by (simp add: find_one_def run_simps find_law)

lemma count_documents_run:
  "count_documents S c q db = (Inr (length (filter (match_filter q) (docs S c db))), db)"
  by (simp add: count_documents_def run_simps find_law)

lemma find_all_run: "find_all S c q db = (Inr (filter (match_filter q) (docs S c db)), db)"
  by (simp add: find_all_def run_simps find_law)

lemma insert_one_run: "\<exists>i db'. insert_one S c d db = (Inr i, db')"
  by (simp add: insert_one_def split: prod.splits)

lemma insert_one_docs:
  assumes "insert_one S c d db = (r, db')"
  shows "\<exists>i. r = Inr i \<and> docs S c db' = docs S c db @ [dset_default ''_id'' i d]"
  using assms by (auto simp: insert_one_def dest: insert_law split: prod.splits)

lemma insert_one_frame:
  "insert_one S c d db = (r, db') \<Longrightarrow> k \<noteq> c \<Longrightarrow> docs S k db' = docs S k db"
  by (auto simp: insert_one_def dest: insert_frame split: prod.splits)

lemma keeps_insert_other:
  "k \<noteq> c \<Longrightarrow> keeps (\<lambda>db. P (docs S k db)) (insert_one S c d)"
  by (auto simp: keeps_def dest: insert_one_frame)

lemma keeps_update_other:
  "k \<noteq> c \<Longrightarrow> keeps (\<lambda>db. P (docs S k db)) (update_one S c q u)"
  by (auto simp: keeps_def dest: update_one_frame)

lemma keeps_upsert_other:
  "k \<noteq> c \<Longrightarrow> keeps (\<lambda>db. P (docs S k db)) (upsert_one S c q u)"
  by (auto simp: keeps_def dest: upsert_frame)

lemma keeps_replace_other:
  "k \<noteq> c \<Longrightarrow> keeps (\<lambda>db. P (docs S k db)) (replace_one S c q d upsert)"
  by (auto simp: keeps_def replace_one_def dest: replace_frame split: prod.splits)

lemma keeps_find_update_other:
  "k \<noteq> c \<Longrightarrow> keeps (\<lambda>db. P (docs S k db)) (find_one_and_update S c q u upsert after)"
  by (auto simp: keeps_def dest: find_update_frame)

lemma keeps_update_many_other:
  "k \<noteq> c \<Longrightarrow> keeps (\<lambda>db. P (docs S k db)) (update_many S c q u)"
  by (auto simp: keeps_def dest: update_many_frame)

lemma keeps_delete_one_other:
  "k \<noteq> c \<Longrightarrow> keeps (\<lambda>db. P (docs S k db)) (delete_one S c q)"
  by (auto simp: keeps_def delete_one_def dest: delete_one_frame split: prod.splits)

lemma keeps_delete_many_other:
  "k \<noteq> c \<Longrightarrow> keeps (\<lambda>db. P (docs S k db)) (delete_many S c q)"
  by (auto simp: keeps_def delete_many_def dest: delete_many_frame split: prod.splits)

lemma keeps_insert_many_other:
  "k \<noteq> c \<Longrightarrow> keeps (\<lambda>db. P (docs S k db)) (insert_many S c ds)"
  unfolding insert_many_def by (intro keeps_intros keeps_insert_other)

lemmas keeps_other = keeps_insert_other keeps_update_other keeps_upsert_other keeps_replace_other
  keeps_find_update_other keeps_update_many_other
  keeps_delete_one_other keeps_delete_many_other keeps_insert_many_other

text \<open>An update of fields never fails: it changes the first hit, or nothing.\<close>

lemma update_one_set:
  assumes "filter (match_filter q) (docs S c db) = d # ds"
  obtains m db' where "update_one S c q [(''$set'', VDict e)] db = (Inr (1, m), db')"
    "docs S c db' = update_first (match_filter q) (\<lambda>_. snd (apply_set e d)) (docs S c db)"
    "\<And>k. k \<noteq> c \<Longrightarrow> docs S k db' = docs S k db"
proof -
  obtain r db' where run: "update_one S c q [(''$set'', VDict e)] db = (r, db')"
    by (cases "update_one S c q [(''$set'', VDict e)] db")
  from apply_set_update_total [of e d] obtain m where
    "apply_update [(''$set'', VDict e)] d = (Inr m, snd (apply_set e d))" by blast
  from update_one_some [OF run assms this] run that update_one_frame [OF run] show thesis by auto
qed

lemma update_one_modified:
  assumes run: "update_one S c q u db = (Inr (n, m), db')" and "m \<noteq> 0"
  obtains d ds d' where "filter (match_filter q) (docs S c db) = d # ds"
    "apply_update u d = (Inr True, d')"
    "docs S c db' = update_first (match_filter q) (\<lambda>_. d') (docs S c db)"
proof (cases "filter (match_filter q) (docs S c db)")
  case Nil
  from update_one_none [OF run Nil] \<open>m \<noteq> 0\<close> show ?thesis by simp
next
  case (Cons d ds)
  obtain r d' where a: "apply_update u d = (r, d')" by (cases "apply_update u d")
  show ?thesis
  proof (cases r)
    case (Inl e)
    with update_one_raise [OF run Cons] a show ?thesis by simp
  next
    case (Inr b)
    with a have "apply_update u d = (Inr b, d')" by simp
    from update_one_some [OF run Cons this] \<open>m \<noteq> 0\<close> this Cons that show ?thesis
      by (auto split: if_splits)
  qed
qed

end

context document_store
begin

lemma insert_many_docs:
  "insert_many S c ds db = (r, db') \<Longrightarrow>
   r = Inr () \<and> (\<exists>ids. length ids = length ds \<and>
     docs S c db' = docs S c db @ map2 (\<lambda>i d. dset_default ''_id'' i d) ids ds)"
proof (induction ds arbitrary: db)
  case Nil
  then show ?case by (simp add: insert_many_def run_simps)
next
  case (Cons d ds)
  obtain q u where q: "insert_one S c d db = (q, u)" by (cases "insert_one S c d db")
  from insert_one_docs [OF q] obtain i where i: "q = Inr i"
    "docs S c u = docs S c db @ [dset_default ''_id'' i d]" by blast
  with Cons.prems q have "insert_many S c ds u = (r, db')"
    by (simp add: insert_many_def run_simps)
  from Cons.IH [OF this] obtain ids where "r = Inr ()" "length ids = length ds"
    "docs S c db' = docs S c u @ map2 (\<lambda>i d. dset_default ''_id'' i d) ids ds" by blast
  with i show ?case by (intro conjI exI [of _ "i # ids"]) simp_all
qed

end

section \<open>The in-memory database\<close>

record memdb =
  colls :: "string \<Rightarrow> doc list"
  next_id :: nat

definition mem_find :: "string \<Rightarrow> query \<Rightarrow> memdb \<Rightarrow> doc list" where
  "mem_find c q db = filter (match_filter q) (colls db c)"

text \<open>
  \<open>os.urandom(12).hex()\<close> is the parameter \<open>idgen\<close>, the sequence of identifiers drawn.
\<close>

definition mem_insert :: "(nat \<Rightarrow> string) \<Rightarrow> string \<Rightarrow> doc \<Rightarrow> memdb \<Rightarrow> val \<times> memdb" where
  "mem_insert idgen c d db =
     (let d' = dset_default ''_id'' (VStr (idgen (next_id db))) d
      in (dget d' ''_id'',
          db\<lparr>colls := (colls db)(c := colls db c @ [d']), next_id := Suc (next_id db)\<rparr>))"

fun mem_update_first :: "query \<Rightarrow> doc \<Rightarrow> doc list \<Rightarrow> (nat \<times> nat) res \<times> doc list" where
  "mem_update_first q u [] = (Inr (0, 0), [])"
| "mem_update_first q u (d # ds) =
     (if match_filter q d
      then (case apply_update u d of
          (Inl e, d') \<Rightarrow> (Inl e, d' # ds)
        | (Inr m, d') \<Rightarrow> (Inr (1, if m then 1 else 0), d' # ds))
      else (case mem_update_first q u ds of (r, ds') \<Rightarrow> (r, d # ds')))"

fun mem_update_every :: "query \<Rightarrow> doc \<Rightarrow> doc list \<Rightarrow> (nat \<times> nat) res \<times> doc list" where
  "mem_update_every q u [] = (Inr (0, 0), [])"
| "mem_update_every q u (d # ds) =
     (if match_filter q d
      then (case apply_update u d of
          (Inl e, d') \<Rightarrow> (Inl e, d' # ds)
        | (Inr m, d') \<Rightarrow>
            (case mem_update_every q u ds of
               (Inl e, ds') \<Rightarrow> (Inl e, d' # ds')
             | (Inr (a, b), ds') \<Rightarrow> (Inr (Suc a, if m then Suc b else b), d' # ds')))
      else (case mem_update_every q u ds of (r, ds') \<Rightarrow> (r, d # ds')))"

definition mem_update_one :: "string \<Rightarrow> query \<Rightarrow> doc \<Rightarrow> (memdb, nat \<times> nat) comp" where
  "mem_update_one c q u db =
     (case mem_update_first q u (colls db c) of
        (r, ds) \<Rightarrow> (r, db\<lparr>colls := (colls db)(c := ds)\<rparr>))"

definition mem_update_many :: "string \<Rightarrow> query \<Rightarrow> doc \<Rightarrow> (memdb, nat \<times> nat) comp" where
  "mem_update_many c q u db =
     (case mem_update_every q u (colls db c) of
        (r, ds) \<Rightarrow> (r, db\<lparr>colls := (colls db)(c := ds)\<rparr>))"

definition mem_upsert_one ::
  "(nat \<Rightarrow> string) \<Rightarrow> string \<Rightarrow> query \<Rightarrow> doc \<Rightarrow> (memdb, nat \<times> nat) comp" where
  "mem_upsert_one idgen c q u db =
     (if filter (match_filter q) (colls db c) \<noteq> [] then mem_update_one c q u db
      else (case apply_update u (upsert_base q u) of
          (Inl e, _) \<Rightarrow> (Inl e, db)
        | (Inr _, d) \<Rightarrow> (Inr (0, 1), snd (mem_insert idgen c d db))))"

definition mem_replace_one ::
  "(nat \<Rightarrow> string) \<Rightarrow> string \<Rightarrow> query \<Rightarrow> doc \<Rightarrow> bool \<Rightarrow> memdb \<Rightarrow> (nat \<times> nat) \<times> memdb" where
  "mem_replace_one idgen c q d upsert db =
     (case filter (match_filter q) (colls db c) of
        old # _ \<Rightarrow>
          (let d' = (if \<not> dhas d ''_id'' \<and> truthy (dget old ''_id'') then dput ''_id'' (dget old ''_id'') d else d)
           in ((1, 1), db\<lparr>colls := (colls db)(c := update_first (match_filter q) (\<lambda>_. d') (colls db c))\<rparr>))
      | [] \<Rightarrow>
          (if upsert
           then ((0, 1), snd (mem_insert idgen c
             (fold (\<lambda>(k, v). dset_default k (cond_value v)) (filter (\<lambda>(k, _). \<not> starts_with k ''$'') q) d) db))
           else ((0, 0), db)))"

definition mem_find_one_and_update ::
  "(nat \<Rightarrow> string) \<Rightarrow> string \<Rightarrow> query \<Rightarrow> doc \<Rightarrow> bool \<Rightarrow> bool \<Rightarrow> (memdb, doc option) comp" where
  "mem_find_one_and_update idgen c q u upsert after db =
     (case filter (match_filter q) (colls db c) of
        old # _ \<Rightarrow>
          (case mem_update_one c q u db of
             (Inl e, db') \<Rightarrow> (Inl e, db')
           | (Inr _, db') \<Rightarrow> (Inr (Some (if after then snd (apply_update u old) else old)), db'))
      | [] \<Rightarrow>
          (if \<not> upsert then (Inr None, db)
           else (case apply_update u (upsert_base q u) of
               (Inl e, _) \<Rightarrow> (Inl e, db)
             | (Inr _, d) \<Rightarrow>
                 (case mem_insert idgen c d db of
                    (i, db') \<Rightarrow> (Inr (if after then Some (dset_default ''_id'' i d) else None), db')))))"

definition mem_delete_one :: "string \<Rightarrow> query \<Rightarrow> memdb \<Rightarrow> nat \<times> memdb" where
  "mem_delete_one c q db =
     (if filter (match_filter q) (colls db c) = [] then 0 else 1,
      db\<lparr>colls := (colls db)(c := remove_first (match_filter q) (colls db c))\<rparr>)"

definition mem_delete_many :: "string \<Rightarrow> query \<Rightarrow> memdb \<Rightarrow> nat \<times> memdb" where
  "mem_delete_many c q db =
     (length (filter (match_filter q) (colls db c)),
      db\<lparr>colls := (colls db)(c := filter (Not \<circ> match_filter q) (colls db c))\<rparr>)"

text \<open>
  An in-memory database answers no \<open>hello\<close> command: \<open>getattr(client, "admin")\<close> is a
  collection, which has no \<open>command\<close>. \<open>ObjectId.is_valid\<close> stays a parameter.
\<close>

definition mem_store :: "(nat \<Rightarrow> string) \<Rightarrow> (string \<Rightarrow> bool) \<Rightarrow> memdb store" where
  "mem_store idgen oid =
     \<lparr>find_docs = mem_find, insert_doc = mem_insert idgen, update_one_doc = mem_update_one,
      update_many_doc = mem_update_many, upsert_one_doc = mem_upsert_one idgen,
      replace_one_doc = mem_replace_one idgen, find_one_and_update_doc = mem_find_one_and_update idgen,
      delete_one_doc = mem_delete_one, delete_many_doc = mem_delete_many, hello = (\<lambda>_. None), oid_valid = oid\<rparr>"

lemma docs_mem_store [simp]: "docs (mem_store idgen oid) c db = colls db c"
  by (simp add: docs_def mem_store_def mem_find_def)

lemma mem_update_first_none:
  "filter (match_filter q) ds = [] \<Longrightarrow> mem_update_first q u ds = (Inr (0, 0), ds)"
  by (induction ds) (auto split: if_splits)

lemma mem_update_first_some:
  "filter (match_filter q) ds = d # es \<Longrightarrow> apply_update u d = (r, d') \<Longrightarrow>
   mem_update_first q u ds =
     (case r of Inl e \<Rightarrow> Inl e | Inr m \<Rightarrow> Inr (1, if m then 1 else 0),
      update_first (match_filter q) (\<lambda>_. d') ds)"
  by (induction ds) (auto split: if_splits sum.splits)

lemma mem_update_every_docs:
  "mem_update_every q u ds = (Inr n, ds') \<Longrightarrow>
   ds' = map (\<lambda>d. if match_filter q d then snd (apply_update u d) else d) ds"
  by (induction ds arbitrary: n ds') (auto split: if_splits prod.splits sum.splits)

lemma mem_store_ops [simp]:
  "find_docs (mem_store idgen oid) = mem_find"
  "insert_doc (mem_store idgen oid) = mem_insert idgen"
  "update_one_doc (mem_store idgen oid) = mem_update_one"
  "update_many_doc (mem_store idgen oid) = mem_update_many"
  "upsert_one_doc (mem_store idgen oid) = mem_upsert_one idgen"
  "replace_one_doc (mem_store idgen oid) = mem_replace_one idgen"
  "find_one_and_update_doc (mem_store idgen oid) = mem_find_one_and_update idgen"
  "delete_one_doc (mem_store idgen oid) = mem_delete_one"
  "delete_many_doc (mem_store idgen oid) = mem_delete_many"
  "hello (mem_store idgen oid) db = None"
  "oid_valid (mem_store idgen oid) = oid"
  by (simp_all add: mem_store_def)

lemma mem_insert_docs:
  "mem_insert idgen c d db = (i, db') \<Longrightarrow>
   colls db' = (colls db)(c := colls db c @ [dset_default ''_id'' i d]) \<and>
   (dhas d ''_id'' \<longrightarrow> i = dget d ''_id'')"
  by (auto simp: mem_insert_def Let_def dset_default_def dhas_def dget_def doc_simps
      split: if_splits option.splits)

lemma mem_upsert_hit:
  "filter (match_filter q) (colls db c) \<noteq> [] \<Longrightarrow> mem_upsert_one idgen c q u db = mem_update_one c q u db"
  by (simp add: mem_upsert_one_def)

lemma mem_upsert_miss:
  assumes "mem_upsert_one idgen c q u db = (r, db')" "filter (match_filter q) (colls db c) = []"
    and "apply_update u (upsert_base q u) = (Inr m, d)"
  shows "\<exists>i. r = Inr (0, 1) \<and> colls db' c = colls db c @ [dset_default ''_id'' i d]"
proof -
  obtain i t where "mem_insert idgen c d db = (i, t)" by (cases "mem_insert idgen c d db")
  with assms mem_insert_docs [OF this] show ?thesis by (auto simp: mem_upsert_one_def)
qed

lemma mem_upsert_frame:
  "mem_upsert_one idgen c q u db = (r, db') \<Longrightarrow> k \<noteq> c \<Longrightarrow> colls db' k = colls db k"
  by (auto simp: mem_upsert_one_def mem_update_one_def mem_insert_def Let_def
      split: if_splits prod.splits sum.splits)

lemma mem_replace_hit:
  "mem_replace_one idgen c q d upsert db = (n, db') \<Longrightarrow> dhas d ''_id'' \<Longrightarrow>
   filter (match_filter q) (colls db c) \<noteq> [] \<Longrightarrow>
   colls db' c = update_first (match_filter q) (\<lambda>_. d) (colls db c)"
  by (auto simp: mem_replace_one_def Let_def split: list.splits)

lemma mem_replace_miss:
  "mem_replace_one idgen c [(''_id'', CEq (dget d ''_id''))] d True db = (n, db') \<Longrightarrow> dhas d ''_id'' \<Longrightarrow>
   filter (match_filter [(''_id'', CEq (dget d ''_id''))]) (colls db c) = [] \<Longrightarrow>
   colls db' c = colls db c @ [d]"
  by (auto simp: mem_replace_one_def mem_insert_def Let_def dset_default_def)

lemma mem_replace_frame:
  "mem_replace_one idgen c q d upsert db = (n, db') \<Longrightarrow> k \<noteq> c \<Longrightarrow> colls db' k = colls db k"
  by (auto simp: mem_replace_one_def mem_insert_def Let_def split: list.splits if_splits)

lemma mem_find_update:
  "mem_find_one_and_update idgen c q u upsert after db = (r, db') \<Longrightarrow>
   filter (match_filter q) (colls db c) = d # ds \<Longrightarrow> colls db' c = colls (snd (mem_update_one c q u db)) c"
  by (auto simp: mem_find_one_and_update_def split: prod.splits sum.splits)

lemma mem_find_update_frame:
  "mem_find_one_and_update idgen c q u upsert after db = (r, db') \<Longrightarrow> k \<noteq> c \<Longrightarrow> colls db' k = colls db k"
  by (auto simp: mem_find_one_and_update_def mem_update_one_def mem_insert_def Let_def
      split: list.splits if_splits prod.splits sum.splits)

interpretation mem: document_store "mem_store idgen oid" for idgen oid
  by unfold_locales
     (auto simp: mem_find_def mem_update_one_def mem_update_many_def mem_delete_one_def
        mem_delete_many_def mem_update_first_none mem_update_first_some mem_upsert_hit
        dest: mem_update_every_docs mem_insert_docs mem_upsert_miss mem_upsert_frame
          mem_replace_hit mem_replace_miss mem_replace_frame mem_find_update mem_find_update_frame
        split: prod.splits)

lemma document_store_mem: "document_store (mem_store idgen oid)"
  by (rule mem.document_store_axioms)

section \<open>Units of work\<close>

text \<open>
  \<open>hello\<close> is the reply of the \<open>hello\<close> command, \<open>None\<close> when there is no such command or it
  raised.
\<close>

definition client_supports_transactions :: "val option \<Rightarrow> bool" where
  "client_supports_transactions reply =
     (case reply of
        None \<Rightarrow> True
      | Some h \<Rightarrow>
          (case as_dict h of
             None \<Rightarrow> True
           | Some d \<Rightarrow> py_eq (dget d ''msg'') (VStr ''isdbgrid'') \<or> truthy (dget d ''setName'')))"

text \<open>
  \<open>async with MongoUnitOfWork(client) as uow\<close>: the body returns its result and whether it
  called \<open>uow.commit()\<close>. An exception, or an exit without a commit, rolls the transaction
  back; where transactions are not supported every write stays.
\<close>

definition unit_of_work :: "'db store \<Rightarrow> ('db, 'a \<times> bool) comp \<Rightarrow> ('db, 'a) comp" where
  "unit_of_work S body = (\<lambda>db.
     let tx = client_supports_transactions (hello S db)
     in (case body db of
           (Inl e, db') \<Rightarrow> (Inl e, if tx then db else db')
         | (Inr (x, committed), db') \<Rightarrow> (Inr x, if tx \<and> \<not> committed then db else db')))"

text \<open>The shape all but one of the callers have: the commit is the last step.\<close>

definition committed :: "('db, 'a) comp \<Rightarrow> ('db, 'a \<times> bool) comp" where
  "committed m = bindM m (\<lambda>x. returnM (x, True))"

lemma unit_of_work_error:
  "unit_of_work S body db = (Inl e, db') \<Longrightarrow> client_supports_transactions (hello S db) \<Longrightarrow> db' = db"
  by (auto simp: unit_of_work_def Let_def split: prod.splits sum.splits if_splits)

lemma unit_of_work_committed:
  "unit_of_work S (committed m) db = (Inr x, db') \<longleftrightarrow> m db = (Inr x, db')"
  by (auto simp: unit_of_work_def committed_def Let_def run_simps split: prod.splits sum.splits)

lemma unit_of_work_uncommitted:
  assumes "client_supports_transactions (hello S db)"
    and "\<And>x b t. body db = (Inr (x, b), t) \<Longrightarrow> \<not> b"
  shows "snd (unit_of_work S body db) = db"
  using assms by (auto simp: unit_of_work_def Let_def split: prod.splits sum.splits)

lemma keeps_unit_of_work [keeps_intros]:
  assumes "keeps P (body :: ('db, 'a \<times> bool) comp)"
  shows "keeps P (unit_of_work S body)"
  using assms
  by (auto simp: keeps_def unit_of_work_def Let_def split: prod.splits sum.splits if_splits)

end
