(* ===== verification/Governance.thy ===== *)
theory Governance
  imports DocumentStore
begin

text \<open>
  The governance kernel every write path goes through:
  \<^item> \<open>backend/services/governance_guard.py\<close>: the session state machine (canonical statuses and
    their transitions), the checks on a write (\<open>assert_valid_write\<close>), and the write
    authorities that own the guarded collections;
  \<^item> \<open>backend/services/concurrency.py\<close>: optimistic concurrency control;
  \<^item> \<open>backend/services/governance_audit_service.py\<close>: the audit trail.

  The current authority, a context variable in the program, is an argument of the guarded
  operations. The clock is the argument \<open>now\<close>: one operation sees one instant.
\<close>

section \<open>Session statuses\<close>

definition LEGACY_TO_CANONICAL_STATUS :: "(string \<times> string) list" where
  "LEGACY_TO_CANONICAL_STATUS =
     [(''OPEN'', ''ACTIVE''), (''ACTIVE'', ''ACTIVE''), (''PAUSED'', ''ACTIVE''),
      (''RECONCILE'', ''REVIEW''), (''COMPLETED'', ''FINALIZED''), (''CLOSED'', ''FINALIZED''),
      (''CANCELLED'', ''FINALIZED''), (''FINALIZED'', ''FINALIZED''), (''CREATED'', ''CREATED''),
      (''REVIEW'', ''REVIEW'')]"

definition SESSION_TRANSITIONS :: "(string \<times> string list) list" where
  "SESSION_TRANSITIONS =
     [(''CREATED'', [''ACTIVE'']), (''ACTIVE'', [''REVIEW'']),
      (''REVIEW'', [''FINALIZED'']), (''FINALIZED'', [])]"

definition normalize_session_status :: "repr \<Rightarrow> val \<Rightarrow> string" where
  "normalize_session_status rp v =
     (let raw = upper (strip (py_str rp (py_or v (VStr []))))
      in if raw = [] then ''UNKNOWN''
         else (case map_of LEGACY_TO_CANONICAL_STATUS raw of None \<Rightarrow> raw | Some s \<Rightarrow> s))"

definition session_targets :: "string \<Rightarrow> string list" where
  "session_targets s = (case map_of SESSION_TRANSITIONS s of None \<Rightarrow> [] | Some ts \<Rightarrow> ts)"

definition assert_valid_transition :: "string \<Rightarrow> string \<Rightarrow> unit res" where
  "assert_valid_transition from_state to_state =
     (if to_state \<in> set (session_targets from_state) then Inr ()
      else Inl (GovernanceViolation
        (''CRITICAL: Invalid session transition '' @ from_state @ '' -> '' @ to_state)))"

section \<open>The write checks\<close>

definition extract_session_id :: "repr \<Rightarrow> doc \<Rightarrow> string" where
  "extract_session_id rp ctx =
     (let from_doc = (\<lambda>k. case as_dict (dget ctx k) of
            Some d \<Rightarrow> if truthy (dget d ''session_id'') then Some (py_str rp (dget d ''session_id''))
                      else None
          | None \<Rightarrow> None)
      in if truthy (dget ctx ''session_id'') then py_str rp (dget ctx ''session_id'')
         else (case from_doc ''document'' of
             Some s \<Rightarrow> s
           | None \<Rightarrow> (case from_doc ''count_line'' of Some s \<Rightarrow> s | None \<Rightarrow> [])))"

text \<open>
  \<open>str(v).strip() if v else None\<close>, with the empty string for \<open>None\<close>: the caller only tests
  it for truth.
\<close>

definition context_field :: "repr \<Rightarrow> doc \<Rightarrow> string \<Rightarrow> string" where
  "context_field rp ctx k =
     (let source = (case as_dict (dget ctx ''document'') of
            Some d \<Rightarrow> d
          | None \<Rightarrow> dict_or_empty (dget ctx ''count_line''));
          v = py_or (dget source k) (dget ctx k)
      in if truthy v then strip (py_str rp v) else [])"

definition session_lookup :: "string \<Rightarrow> query" where
  "session_lookup sid =
     [(''$or'', CClauses [[(''id'', CEq (VStr sid))], [(''session_id'', CEq (VStr sid))]])]"

definition opt_doc :: "doc option \<Rightarrow> val" where
  "opt_doc r = (case r of None \<Rightarrow> VNone | Some d \<Rightarrow> VDict d)"

definition resolve_session :: "'db store \<Rightarrow> repr \<Rightarrow> doc \<Rightarrow> ('db, val) comp" where
  "resolve_session S rp ctx =
     (if dget ctx ''session'' \<noteq> VNone then returnM (dget ctx ''session'')
      else (let sid = extract_session_id rp ctx
            in bindM (raise_if (sid = [])
                  (GovernanceViolation ''CRITICAL: Missing session_id for write'')) (\<lambda>_.
               bindM (find_one S ''sessions'' (session_lookup sid)) (\<lambda>r. returnM (opt_doc r)))))"

definition missing_context :: "repr \<Rightarrow> doc \<Rightarrow> string list" where
  "missing_context rp ctx =
     filter (\<lambda>k. context_field rp ctx k = []) [''location_id'', ''floor_id'', ''rack_id'']"

definition session_closed :: "repr \<Rightarrow> doc \<Rightarrow> bool" where
  "session_closed rp session =
     (truthy (dget session ''finalized_at'') \<or>
      normalize_session_status rp (dget session ''status'') = ''FINALIZED'')"

definition check_write :: "repr \<Rightarrow> doc \<Rightarrow> doc \<Rightarrow> unit res" where
  "check_write rp ctx session =
     (let canonical = normalize_session_status rp (dget session ''status'')
      in if session_closed rp session
         then Inl (GovernanceViolation ''Session is finalized. Mutation blocked.'')
         else if truthy (dget_or ctx ''require_active_session'' (VBool True)) \<and> canonical \<noteq> ''ACTIVE''
         then Inl (GovernanceViolation
           (''CRITICAL: Session must be ACTIVE for count-line writes (found '' @ canonical @ '')''))
         else if truthy (dget_or ctx ''require_full_context'' (VBool True)) \<and> missing_context rp ctx \<noteq> []
         then Inl (GovernanceViolation
           (''CRITICAL: Missing required context fields: '' @ join '', '' (missing_context rp ctx)))
         else if truthy (dget ctx ''from_state'') \<and> truthy (dget ctx ''to_state'')
         then assert_valid_transition (py_str rp (dget ctx ''from_state'')) (py_str rp (dget ctx ''to_state''))
         else Inr ())"

definition assert_valid_write :: "'db store \<Rightarrow> repr \<Rightarrow> doc \<Rightarrow> ('db, doc) comp" where
  "assert_valid_write S rp ctx =
     bindM (resolve_session S rp ctx) (\<lambda>s.
     (case as_dict s of
        None \<Rightarrow> raiseM (GovernanceViolation ''CRITICAL: Session not found'')
      | Some session \<Rightarrow>
          bindM (liftM (check_write rp ctx session)) (\<lambda>_. returnM session)))"

section \<open>Write authorities\<close>

definition AUTHORIZED_WRITE_AUTHORITIES :: "(string \<times> string list) list" where
  "AUTHORIZED_WRITE_AUTHORITIES =
     [(''CountLineWriteService'', [''count_lines'']),
      (''SessionLifecycleService'',
        [''sessions'', ''verification_sessions'', ''recount_requests'', ''session_snapshots'']),
      (''UnknownItemService'', [''unknown_items'']),
      (''InventoryAdjustmentService'',
        [''inventory_adjustments'', ''inventory_ledger'', ''inventory_movements'']),
      (''ReconciliationService'', [''reconciliation_records''])]"

definition GUARD_TARGET_COLLECTIONS :: "string list" where
  "GUARD_TARGET_COLLECTIONS =
     [''count_lines'', ''sessions'', ''verification_sessions'', ''recount_requests'',
      ''session_snapshots'', ''unknown_items'', ''inventory_adjustments'', ''inventory_ledger'',
      ''inventory_movements'', ''reconciliation_records'']"

definition GUARD_WRITE_METHODS :: "string list" where
  "GUARD_WRITE_METHODS =
     [''insert_one'', ''insert_many'', ''update_one'', ''update_many'', ''replace_one'',
      ''delete_one'', ''delete_many'', ''find_one_and_update'', ''find_one_and_replace'',
      ''find_one_and_delete'', ''bulk_write'']"

text \<open>\<open>with write_authority(a)\<close>: the value of the context variable inside the block.\<close>

definition write_authority :: "string \<Rightarrow> string option" where
  "write_authority a = (if strip a = [] then None else Some (strip a))"

text \<open>
  The context variable as a state component: set on entry, reset to the previous value on
  exit, also when the block raises.
\<close>

definition with_write_authority ::
  "string \<Rightarrow> (string option \<times> 'db, 'a) comp \<Rightarrow> (string option \<times> 'db, 'a) comp" where
  "with_write_authority a body = (\<lambda>(token, db).
     case body (write_authority a, db) of (r, (_, db')) \<Rightarrow> (r, (token, db')))"

definition require_write_authority :: "string option \<Rightarrow> string \<Rightarrow> unit res" where
  "require_write_authority authority operation =
     (case (case authority of None \<Rightarrow> None | Some a \<Rightarrow> map_of AUTHORIZED_WRITE_AUTHORITIES a) of
        None \<Rightarrow> Inl (GovernanceViolation
          (''CRITICAL: Direct DB write forbidden ('' @ operation @ ''). Use domain service.''))
      | Some owned \<Rightarrow>
          (let c = strip (hd (split_at (CHR ''.'') operation))
           in if c \<noteq> [] \<and> c \<notin> set owned
              then Inl (GovernanceViolation
                (''CRITICAL: '' @ (case authority of None \<Rightarrow> [] | Some a \<Rightarrow> a) @ '' cannot mutate '' @ c @
                 ''. Use the collection's canonical domain service.''))
              else Inr ()))"

definition wrap_collection_method ::
  "string option \<Rightarrow> string \<Rightarrow> string \<Rightarrow> ('db, 'a) comp \<Rightarrow> ('db, 'a) comp" where
  "wrap_collection_method authority c m call =
     bindM (liftM (require_write_authority authority (c @ ''.'' @ m))) (\<lambda>_. call)"

text \<open>
  A method call on a governed collection: the proxy checks the authority and forwards the
  eleven write methods, every other attribute goes to the collection itself.
\<close>

definition governed_call ::
  "string option \<Rightarrow> string \<Rightarrow> string \<Rightarrow> ('db, 'a) comp \<Rightarrow> ('db, 'a) comp" where
  "governed_call authority c m call =
     (if m \<in> set GUARD_WRITE_METHODS
      then bindM (liftM (require_write_authority authority (c @ ''.'' @ m))) (\<lambda>_. call)
      else call)"

text \<open>A method call through a database with the guards installed.\<close>

definition installed_call ::
  "string option \<Rightarrow> string \<Rightarrow> string \<Rightarrow> ('db, 'a) comp \<Rightarrow> ('db, 'a) comp" where
  "installed_call authority c m call =
     (if c \<in> set GUARD_TARGET_COLLECTIONS
      then (if m \<in> set GUARD_WRITE_METHODS
            then wrap_collection_method authority c m (governed_call authority c m call)
            else governed_call authority c m call)
      else call)"

text \<open>\<open>_execute_authorized_write\<close> of a service: the call under the service's authority.\<close>

definition authorized :: "string \<Rightarrow> string \<Rightarrow> string \<Rightarrow> ('db, 'a) comp \<Rightarrow> ('db, 'a) comp" where
  "authorized service c m call = installed_call (write_authority service) c m call"

section \<open>Optimistic concurrency\<close>

definition coerce_version :: "val \<Rightarrow> int" where
  "coerce_version v = (case to_int v of Inl _ \<Rightarrow> 0 | Inr n \<Rightarrow> if 0 \<le> n then n else 0)"

definition build_version_filter :: "int \<Rightarrow> query" where
  "build_version_filter n =
     (if n \<le> 0
      then [(''$or'', CClauses [[(''version'', CEq (VInt 0))], [(''version'', CExists False)]])]
      else [(''version'', CEq (VInt n))])"

section \<open>The audit trail\<close>

definition first_text :: "repr \<Rightarrow> doc \<Rightarrow> string list \<Rightarrow> string" where
  "first_text rp d ks = py_str rp (foldr (\<lambda>k v. py_or (dget d k) v) ks (VStr []))"

definition log_governance_event ::
  "'db store \<Rightarrow> repr \<Rightarrow> int \<Rightarrow> string \<Rightarrow> string \<Rightarrow> val \<Rightarrow> doc \<Rightarrow> val \<Rightarrow> val \<Rightarrow> val \<Rightarrow> val \<Rightarrow> val \<Rightarrow>
   string \<Rightarrow> doc \<Rightarrow> ('db, unit) comp" where
  "log_governance_event S rp now event operation session_id actor item_id location_id version
       idempotency_key semantic_hash status metadata =
     bindM (insert_one S ''governance_events''
       [(''event'', VStr event),
        (''operation'', VStr operation),
        (''session_id'', session_id),
        (''item_id'', item_id),
        (''location_id'', location_id),
        (''version'', version),
        (''idempotency_key'', idempotency_key),
        (''semantic_hash'', semantic_hash),
        (''actor_id'', VStr (first_text rp actor [''user_id'', ''username'', ''id''])),
        (''username'', VStr (first_text rp actor [''username'', ''user_id'', ''id''])),
        (''role'', VStr (first_text rp actor [''role''])),
        (''org_id'', VStr (first_text rp actor [''org_id''])),
        (''timestamp'', naive now),
        (''status'', VStr status),
        (''metadata'', VDict metadata)]) (\<lambda>_. returnM ())"

definition log_write_event ::
  "'db store \<Rightarrow> repr \<Rightarrow> int \<Rightarrow> string \<Rightarrow> string \<Rightarrow> string \<Rightarrow> val \<Rightarrow> val \<Rightarrow> val \<Rightarrow> val \<Rightarrow> val \<Rightarrow> val \<Rightarrow>
   doc \<Rightarrow> ('db, unit) comp" where
  "log_write_event S rp now event operation session_id item_id location_id version idempotency_key
       semantic_hash actor_id metadata =
     (let a = py_or actor_id (VStr ''system'')
      in log_governance_event S rp now event operation (VStr session_id)
           [(''user_id'', a), (''username'', a)] item_id location_id version idempotency_key
           semantic_hash ''SUCCESS'' metadata)"

section \<open>The session state machine\<close>

inductive session_step :: "string \<Rightarrow> string \<Rightarrow> bool" where
  step: "assert_valid_transition s t = Inr () \<Longrightarrow> session_step s t"

inductive_simps session_step_iff: "session_step s t"

definition session_rank :: "string \<Rightarrow> nat" where
  "session_rank s =
     (if s = ''CREATED'' then 0 else if s = ''ACTIVE'' then 1 else if s = ''REVIEW'' then 2 else 3)"

lemma session_targets_simps [simp]:
  "session_targets ''CREATED'' = [''ACTIVE'']"
  "session_targets ''ACTIVE'' = [''REVIEW'']"
  "session_targets ''REVIEW'' = [''FINALIZED'']"
  "session_targets ''FINALIZED'' = []"
  by (simp_all add: session_targets_def SESSION_TRANSITIONS_def)

lemma assert_valid_transition_iff:
  "assert_valid_transition s t = Inr () \<longleftrightarrow>
     (s, t) \<in> {(''CREATED'', ''ACTIVE''), (''ACTIVE'', ''REVIEW''), (''REVIEW'', ''FINALIZED'')}"
  by (auto simp: assert_valid_transition_def session_targets_def SESSION_TRANSITIONS_def
      split: if_splits option.splits)

lemma session_step_rank: "session_step s t \<Longrightarrow> session_rank t = Suc (session_rank s)"
  by (auto simp: session_step_iff assert_valid_transition_iff session_rank_def)

lemma session_steps_rank: "session_step\<^sup>+\<^sup>+ s t \<Longrightarrow> session_rank s < session_rank t"
  by (induction rule: tranclp.induct) (auto dest: session_step_rank)

lemma session_step_from_final: "\<not> session_step ''FINALIZED'' t"
  by (simp add: session_step_iff assert_valid_transition_iff)

lemma session_steps_from_final: "session_step\<^sup>*\<^sup>* ''FINALIZED'' t \<Longrightarrow> t = ''FINALIZED''"
  by (induction rule: rtranclp_induct) (auto simp: session_step_from_final)

lemma canonical_fixed:
  assumes "map_of LEGACY_TO_CANONICAL_STATUS r = Some s"
  shows "upper (strip s) = s \<and> s \<noteq> [] \<and> map_of LEGACY_TO_CANONICAL_STATUS s = Some s"
proof -
  have "list_all (\<lambda>(_, s). upper (strip s) = s \<and> s \<noteq> [] \<and> map_of LEGACY_TO_CANONICAL_STATUS s = Some s)
     LEGACY_TO_CANONICAL_STATUS"
    by code_simp
  with map_of_SomeD [OF assms] show ?thesis by (fastforce simp: list_all_iff)
qed

lemma normalize_session_status_idem:
  "normalize_session_status rp (VStr (normalize_session_status rp v)) = normalize_session_status rp v"
proof -
  let ?raw = "upper (strip (py_str rp (py_or v (VStr []))))"
  have raw: "upper (strip ?raw) = ?raw"
    by (simp add: strip_upper)
  show ?thesis
  proof (cases "?raw = []")
    case True
    then show ?thesis
      by (simp add: normalize_session_status_def Let_def LEGACY_TO_CANONICAL_STATUS_def upper_def
          to_upper_def lower_letters_def upper_letters_def strip_def is_space_def)
  next
    case False
    with raw canonical_fixed [of ?raw] show ?thesis
      by (cases "map_of LEGACY_TO_CANONICAL_STATUS ?raw")
         (auto simp: normalize_session_status_def Let_def)
  qed
qed

section \<open>What a passed write check guarantees\<close>

lemma match_session_lookup:
  "match_filter (session_lookup sid) d \<longleftrightarrow>
     list_ex (\<lambda>v. norm_value v = VStr sid) (field_values d ''id'') \<or>
     list_ex (\<lambda>v. norm_value v = VStr sid) (field_values d ''session_id'')"
  by (simp add: session_lookup_def list_ex_iff)

lemma check_write_iff:
  "check_write rp ctx session = Inr () \<longleftrightarrow>
     \<not> session_closed rp session \<and>
     (truthy (dget_or ctx ''require_active_session'' (VBool True)) \<longrightarrow>
        normalize_session_status rp (dget session ''status'') = ''ACTIVE'') \<and>
     (truthy (dget_or ctx ''require_full_context'' (VBool True)) \<longrightarrow> missing_context rp ctx = []) \<and>
     (truthy (dget ctx ''from_state'') \<and> truthy (dget ctx ''to_state'') \<longrightarrow>
        assert_valid_transition (py_str rp (dget ctx ''from_state''))
          (py_str rp (dget ctx ''to_state'')) = Inr ())"
  by (auto simp: check_write_def Let_def)

lemma keeps_assert_valid_write [keeps_intros]: "keeps P (assert_valid_write S rp ctx)"
  unfolding assert_valid_write_def resolve_session_def Let_def
  by (auto intro!: keeps_intros split: option.splits)

lemma assert_valid_write_with_session:
  assumes "dget ctx ''session'' = VDict session"
  shows "assert_valid_write S rp ctx db =
    (case check_write rp ctx session of Inl e \<Rightarrow> (Inl e, db) | Inr _ \<Rightarrow> (Inr session, db))"
  using assms
  by (simp add: assert_valid_write_def resolve_session_def run_simps split: sum.splits)

lemma resolve_session_run:
  "resolve_session S rp ctx db =
     (if dget ctx ''session'' \<noteq> VNone then (Inr (dget ctx ''session''), db)
      else if extract_session_id rp ctx = []
      then (Inl (GovernanceViolation ''CRITICAL: Missing session_id for write''), db)
      else (Inr (opt_doc (case find_docs S ''sessions'' (session_lookup (extract_session_id rp ctx)) db of
              [] \<Rightarrow> None | d # _ \<Rightarrow> Some d)), db))"
  by (simp add: resolve_session_def run_simps Let_def find_one_def)

lemma opt_doc_dict [simp]: "as_dict (opt_doc r) = r"
  by (cases r) (simp_all add: opt_doc_def)

lemma assert_valid_write_success:
  assumes "assert_valid_write S rp ctx db = (Inr session, db')"
  shows "db' = db \<and> check_write rp ctx session = Inr () \<and>
    (as_dict (dget ctx ''session'') = Some session \<or>
     dget ctx ''session'' = VNone \<and> extract_session_id rp ctx \<noteq> [] \<and>
     find_one S ''sessions'' (session_lookup (extract_session_id rp ctx)) db = (Inr (Some session), db))"
proof -
  from assms obtain s u where r: "resolve_session S rp ctx db = (Inr s, u)"
    and k: "(case as_dict s of
        None \<Rightarrow> raiseM (GovernanceViolation ''CRITICAL: Session not found'')
      | Some session \<Rightarrow> bindM (liftM (check_write rp ctx session)) (\<lambda>_. returnM session)) u =
      (Inr session, db')"
    unfolding assert_valid_write_def bindM_iff by blast
  from r have "u = db" by (simp add: resolve_session_run split: if_splits)
  moreover from k have "as_dict s = Some session" "check_write rp ctx session = Inr ()" "db' = u"
    by (cases "as_dict s"; simp add: run_iff)+
  ultimately show ?thesis
    using r by (auto simp: resolve_session_run find_one_def run_simps split: if_splits)
qed

section \<open>Ownership of the guarded collections\<close>

lemma owner_unique:
  assumes "map_of AUTHORIZED_WRITE_AUTHORITIES a = Some xs" "c \<in> set xs"
    and "map_of AUTHORIZED_WRITE_AUTHORITIES b = Some ys" "c \<in> set ys"
  shows "a = b"
proof -
  have "list_all (\<lambda>(a, xs). list_all (\<lambda>(b, ys). a = b \<or> list_all (\<lambda>c. c \<notin> set ys) xs)
      AUTHORIZED_WRITE_AUTHORITIES) AUTHORIZED_WRITE_AUTHORITIES"
    by code_simp
  with map_of_SomeD [OF assms(1)] map_of_SomeD [OF assms(3)] assms(2,4) show ?thesis by (fastforce simp: list_all_iff)
qed

lemma every_target_owned:
  assumes "c \<in> set GUARD_TARGET_COLLECTIONS"
  shows "\<exists>a. (case map_of AUTHORIZED_WRITE_AUTHORITIES a of None \<Rightarrow> False | Some xs \<Rightarrow> c \<in> set xs)"
proof -
  have "list_all (\<lambda>c. list_ex (\<lambda>(a, _). case map_of AUTHORIZED_WRITE_AUTHORITIES a of
      None \<Rightarrow> False | Some xs \<Rightarrow> c \<in> set xs) AUTHORIZED_WRITE_AUTHORITIES) GUARD_TARGET_COLLECTIONS"
    by code_simp
  with assms show ?thesis by (fastforce simp: list_all_iff list_ex_iff)
qed

lemma split_at_prefix: "c \<notin> set s \<Longrightarrow> split_at c (s @ c # t) = s # split_at c t"
  by (induction s) auto

lemma guarded_name:
  assumes "c \<in> set GUARD_TARGET_COLLECTIONS"
  shows "c \<noteq> [] \<and> strip (hd (split_at (CHR ''.'') (c @ ''.'' @ m))) = c"
proof -
  have "list_all (\<lambda>c. c \<noteq> [] \<and> CHR ''.'' \<notin> set c \<and> strip c = c) GUARD_TARGET_COLLECTIONS"
    by code_simp
  with assms show ?thesis by (simp add: list_all_iff split_at_prefix)
qed

definition owns :: "string option \<Rightarrow> string \<Rightarrow> bool" where
  "owns authority c =
     (case authority of
        None \<Rightarrow> False
      | Some a \<Rightarrow> (case map_of AUTHORIZED_WRITE_AUTHORITIES a of None \<Rightarrow> False | Some xs \<Rightarrow> c \<in> set xs))"

lemma require_write_authority_iff:
  assumes "c \<in> set GUARD_TARGET_COLLECTIONS"
  shows "require_write_authority authority (c @ ''.'' @ m) = Inr () \<longleftrightarrow> owns authority c"
  using guarded_name [OF assms, of m]
  by (auto simp: require_write_authority_def owns_def Let_def split: option.splits)

lemma owns_unique: "owns (Some a) c \<Longrightarrow> owns (Some b) c \<Longrightarrow> a = b"
  by (auto simp: owns_def split: option.splits dest: owner_unique)

lemma installed_call_owner:
  assumes "c \<in> set GUARD_TARGET_COLLECTIONS" and "owns authority c"
  shows "installed_call authority c m call = call"
  using assms require_write_authority_iff [OF assms(1), of authority m]
  by (auto simp: installed_call_def wrap_collection_method_def governed_call_def run_simps fun_eq_iff)

lemma installed_call_stranger:
  assumes "c \<in> set GUARD_TARGET_COLLECTIONS" and "m \<in> set GUARD_WRITE_METHODS" and "\<not> owns authority c"
  shows "\<exists>e. installed_call authority c m call db = (Inl (GovernanceViolation e), db)"
proof -
  let ?r = "require_write_authority authority (c @ ''.'' @ m)"
  from assms require_write_authority_iff [OF assms(1), of authority m] have "?r \<noteq> Inr ()" by simp
  moreover have "?r = Inr () \<or> (\<exists>e. ?r = Inl (GovernanceViolation e))"
    by (auto simp: require_write_authority_def Let_def split: option.splits)
  ultimately obtain e where "?r = Inl (GovernanceViolation e)" by blast
  with assms show ?thesis
    by (auto simp: installed_call_def wrap_collection_method_def run_simps)
qed

lemma keeps_installed_call [keeps_intros]: "keeps P call \<Longrightarrow> keeps P (installed_call a c m call)"
  by (simp add: installed_call_def wrap_collection_method_def governed_call_def keeps_bindM)

lemma keeps_authorized [keeps_intros]: "keeps P call \<Longrightarrow> keeps P (authorized a c m call)"
  by (simp add: authorized_def keeps_installed_call)

lemma authorized_count_lines [simp]:
  "authorized ''CountLineWriteService'' ''count_lines'' m call = call"
  by (simp add: authorized_def write_authority_def strip_def is_space_def installed_call_owner
      GUARD_TARGET_COLLECTIONS_def owns_def AUTHORIZED_WRITE_AUTHORITIES_def)

lemma authorized_sessions [simp]:
  "c \<in> {''sessions'', ''verification_sessions'', ''recount_requests'', ''session_snapshots''} \<Longrightarrow>
   authorized ''SessionLifecycleService'' c m call = call"
  by (auto simp: authorized_def write_authority_def strip_def is_space_def installed_call_owner
      GUARD_TARGET_COLLECTIONS_def owns_def AUTHORIZED_WRITE_AUTHORITIES_def)

lemma authorized_unknown_items [simp]:
  "authorized ''UnknownItemService'' ''unknown_items'' m call = call"
  by (simp add: authorized_def write_authority_def strip_def is_space_def installed_call_owner
      GUARD_TARGET_COLLECTIONS_def owns_def AUTHORIZED_WRITE_AUTHORITIES_def)

lemma authorized_adjustments [simp]:
  "c \<in> {''inventory_adjustments'', ''inventory_ledger'', ''inventory_movements''} \<Longrightarrow>
   authorized ''InventoryAdjustmentService'' c m call = call"
  by (auto simp: authorized_def write_authority_def strip_def is_space_def installed_call_owner
      GUARD_TARGET_COLLECTIONS_def owns_def AUTHORIZED_WRITE_AUTHORITIES_def)

lemma with_write_authority_resets:
  "fst (snd (with_write_authority a body (token, db))) = token"
  by (simp add: with_write_authority_def split: prod.splits)

section \<open>Version filters\<close>

lemma match_version_filter:
  assumes "\<And>xs. dget d ''version'' \<noteq> VList xs"
  shows "match_filter (build_version_filter n) d \<longleftrightarrow>
     py_eq (norm_value (dget d ''version'')) (VInt (max n 0)) \<or> n \<le> 0 \<and> \<not> dhas d ''version''"
proof -
  have "field_values d ''version'' = [dget d ''version'']"
    using assms by (auto simp: field_values_def split: val.splits)
  then show ?thesis by (auto simp: build_version_filter_def max_def)
qed

lemma trunc_of_int [simp]: "trunc (of_int n) = n"
  by (simp add: trunc_def flip: of_int_minus)

lemma coerce_of_matching:
  assumes "py_eq (norm_value v) (VInt n)" and "0 \<le> n"
  shows "coerce_version v = n"
  using assms by (cases v) (auto simp: coerce_version_def split: if_splits)

lemma match_version_coerce:
  assumes "\<And>xs. dget d ''version'' \<noteq> VList xs" and "match_filter (build_version_filter n) d"
  shows "coerce_version (dget d ''version'') = max n 0"
proof (cases "dhas d ''version''")
  case True
  with assms show ?thesis by (auto simp: match_version_filter coerce_of_matching)
next
  case False
  then have "dget d ''version'' = VNone" by (simp add: dget_def dhas_def)
  with False assms show ?thesis
    by (auto simp: match_version_filter coerce_version_def max_def)
qed

section \<open>The audit trail appends\<close>

context document_store
begin

lemma log_governance_event_frame:
  assumes "log_governance_event S rp now event operation sid actor item loc ver idem hash status meta db =
     (r, db')"
  shows "r = Inr () \<and> (k \<noteq> ''governance_events'' \<longrightarrow> docs S k db' = docs S k db)"
  using assms
  by (auto simp: log_governance_event_def run_simps insert_one_def dest: insert_frame split: prod.splits)

lemma log_governance_event_appends:
  assumes "log_governance_event S rp now event operation sid actor item loc ver idem hash status meta db =
     (r, db')"
  shows "\<exists>d. docs S ''governance_events'' db' = docs S ''governance_events'' db @ [d] \<and>
      dget d ''event'' = VStr event \<and> dget d ''operation'' = VStr operation \<and>
      dget d ''session_id'' = sid \<and> dget d ''version'' = ver"
  using assms
  by (auto simp: log_governance_event_def run_simps insert_one_def dget_def doc_simps
      dest!: insert_law [where c = "''governance_events''"] split: prod.splits)

lemma keeps_log_governance_event:
  "k \<noteq> ''governance_events'' \<Longrightarrow>
   keeps (\<lambda>db. P (docs S k db))
     (log_governance_event S rp now event operation sid actor item loc ver idem hash status meta)"
  by (auto simp: keeps_def dest: log_governance_event_frame)

lemma keeps_log_write_event:
  "k \<noteq> ''governance_events'' \<Longrightarrow>
   keeps (\<lambda>db. P (docs S k db))
     (log_write_event S rp now event operation sid item loc ver idem hash actor meta)"
  by (simp add: log_write_event_def Let_def keeps_log_governance_event)

lemma log_write_event_run:
  "log_write_event S rp now event operation sid item loc ver idem hash actor meta db = (r, db') \<Longrightarrow>
   r = Inr () \<and> (k \<noteq> ''governance_events'' \<longrightarrow> docs S k db' = docs S k db)"
  by (auto simp: log_write_event_def Let_def dest: log_governance_event_frame)

end

section \<open>Properties\<close>

text \<open>The session state machine only moves forward, CREATED to ACTIVE to REVIEW to
  FINALIZED: any non-empty run of accepted transitions strictly increases the stage, so no
  status can be revisited and a finalized session has no successor.\<close>

theorem session_machine_forward:
  assumes "session_step\<^sup>+\<^sup>+ s t"
  shows "session_rank s < session_rank t \<and> s \<noteq> ''FINALIZED'' \<and>
    t \<in> {''ACTIVE'', ''REVIEW'', ''FINALIZED''}"
proof -
  from assms obtain u where "session_step u t" by (cases rule: tranclp.cases) auto
  then have "t \<in> {''ACTIVE'', ''REVIEW'', ''FINALIZED''}"
    by (auto simp: session_step_iff assert_valid_transition_iff)
  moreover have "session_rank t \<le> 3" by (simp add: session_rank_def)
  ultimately show ?thesis
    using session_steps_rank [OF assms] by (auto simp: session_rank_def)
qed

lemma session_machine_forward_witness:
  "session_step\<^sup>+\<^sup>+ ''CREATED'' ''REVIEW'' \<and> session_rank ''CREATED'' < session_rank ''REVIEW''"
proof -
  have "session_step ''CREATED'' ''ACTIVE''" "session_step ''ACTIVE'' ''REVIEW''"
    by (simp_all add: session_step_iff assert_valid_transition_iff)
  then have "session_step\<^sup>+\<^sup>+ ''CREATED'' ''REVIEW''" by auto
  with session_machine_forward [OF this] show ?thesis by simp
qed

text \<open>Status normalisation is idempotent: normalising a stored canonical status again
  changes nothing, whatever value (legacy word, blank, non-string) it came from.\<close>

theorem normalize_session_status_stable:
  "normalize_session_status rp (VStr (normalize_session_status rp v)) = normalize_session_status rp v"
  by (rule normalize_session_status_idem)

lemma missing_context_Nil:
  "missing_context rp ctx = [] \<longleftrightarrow>
     (\<forall>k \<in> {''location_id'', ''floor_id'', ''rack_id''}. context_field rp ctx k \<noteq> [])"
  by (simp add: missing_context_def)



text \<open>(C30) One writer per collection: each guarded collection has exactly one authority whose write
  calls pass unchanged, and under every other authority, or none, each of the eleven write
  methods raises a governance violation and leaves the database as it was.\<close>

theorem single_write_authority:
  assumes "c \<in> set GUARD_TARGET_COLLECTIONS"
  shows "\<exists>a. (\<forall>m call. installed_call (Some a) c m call = call) \<and>
    (\<forall>b m call db. b \<noteq> Some a \<longrightarrow> m \<in> set GUARD_WRITE_METHODS \<longrightarrow>
       (\<exists>e. installed_call b c m call db = (Inl (GovernanceViolation e), db)))"
proof -
  from every_target_owned [OF assms] obtain a where a: "owns (Some a) c"
    by (auto simp: owns_def split: option.splits)
  have "\<not> owns b c" if "b \<noteq> Some a" for b
    using that owns_unique [OF a] by (cases b) (auto simp: owns_def)
  note others = this
  show ?thesis
  proof (rule exI [of _ a], intro conjI allI impI)
    show "installed_call (Some a) c m call = call" for m call
      by (rule installed_call_owner [OF assms a])
    show "\<exists>e. installed_call b c m call db = (Inl (GovernanceViolation e), db)"
      if "b \<noteq> Some a" "m \<in> set GUARD_WRITE_METHODS" for b m call db
      using installed_call_stranger [OF assms that(2) others [OF that(1)]] .
  qed
qed

lemma single_write_authority_witness:
  "\<exists>a. \<forall>b call db. b \<noteq> Some a \<longrightarrow>
     (\<exists>e. installed_call b ''count_lines'' ''update_one'' call db = (Inl (GovernanceViolation e), db))"
proof -
  have "''count_lines'' \<in> set GUARD_TARGET_COLLECTIONS" "''update_one'' \<in> set GUARD_WRITE_METHODS"
    by (simp_all add: GUARD_TARGET_COLLECTIONS_def GUARD_WRITE_METHODS_def)
  then show ?thesis using single_write_authority [of "''count_lines''"] by (metis (no_types, lifting))
qed

end
