(* ===== verification/CanonicalInventory.thy ===== *)
theory CanonicalInventory
  imports Governance
begin

text \<open>
  \<open>backend/services/canonical_inventory.py\<close>: the review state of a count line, what blocks
  the finalization of a session, duplicate detection and the totals of a session.

  An optional document is a document, the empty one standing for \<open>None\<close>: the sources test
  both with \<open>not count_line\<close>. The parsing of timestamps that are not datetimes
  (\<open>datetime.fromtimestamp\<close>, \<open>datetime.fromisoformat\<close>) is the parameter \<open>parse_time\<close>,
  \<open>None\<close> where the source falls back to \<open>None\<close>.
\<close>

section \<open>Status words\<close>

definition ACTIVE_SESSION_STATUSES :: "string list" where
  "ACTIVE_SESSION_STATUSES = [''OPEN'', ''ACTIVE'', ''PAUSED'', ''RECONCILE'']"

definition FINALIZED_SESSION_STATUSES :: "string list" where
  "FINALIZED_SESSION_STATUSES = [''COMPLETED'', ''CLOSED'', ''CANCELLED'']"

definition APPROVED_COUNT_LINE_STATUSES :: "string list" where
  "APPROVED_COUNT_LINE_STATUSES = [''approved'', ''locked'']"

definition BLOCKING_APPROVAL_STATUSES :: "string list" where
  "BLOCKING_APPROVAL_STATUSES = [''NEEDS_REVIEW'', ''REJECTED'']"

definition normalize_location_value :: "repr \<Rightarrow> val \<Rightarrow> val" where
  "normalize_location_value rp v =
     (if v = VNone then VNone
      else (let s = strip (py_str rp v) in if s = [] then VNone else VStr s))"

definition canonical_session_status :: "val \<Rightarrow> val \<Rightarrow> string" where
  "canonical_session_status value reconciled_at =
     (case value of
        VStr s \<Rightarrow>
          (if strip s = [] then ''UNKNOWN''
           else (let n0 = upper (strip s);
                     n1 = (if n0 = ''IN_PROGRESS'' then ''ACTIVE'' else n0);
                     n2 = (if n1 = ''RECONCILING'' then ''RECONCILE'' else n1)
                 in if n2 = ''ACTIVE'' \<and> truthy reconciled_at then ''RECONCILE'' else n2))
      | _ \<Rightarrow> ''UNKNOWN'')"

definition normalize_count_line_status :: "val \<Rightarrow> string" where
  "normalize_count_line_status value =
     (case value of
        VStr s \<Rightarrow> if strip s = [] then ''pending'' else lower (strip s)
      | _ \<Rightarrow> ''pending'')"

definition normalize_approval_status :: "val \<Rightarrow> string" where
  "normalize_approval_status value =
     (case value of
        VStr s \<Rightarrow> if strip s = [] then ''PENDING'' else upper (strip s)
      | _ \<Rightarrow> ''PENDING'')"

section \<open>Review state\<close>

definition requires_supervisor_review_for_variance :: "val \<Rightarrow> bool" where
  "requires_supervisor_review_for_variance variance =
     (case to_float (py_or variance (VFloat 0)) of Inl _ \<Rightarrow> False | Inr q \<Rightarrow> \<bar>q\<bar> > 0)"

definition count_line_requires_supervisor_review :: "doc \<Rightarrow> bool" where
  "count_line_requires_supervisor_review line =
     (if line = [] then False else requires_supervisor_review_for_variance (dget line ''variance''))"

definition is_count_line_effectively_reviewed :: "doc \<Rightarrow> bool" where
  "is_count_line_effectively_reviewed line =
     (if line = [] then False
      else (let line_status = normalize_count_line_status (dget line ''status'')
            in if truthy (dget line ''verified'') \<or> line_status \<in> set APPROVED_COUNT_LINE_STATUSES
               then True
               else if normalize_approval_status (dget line ''approval_status'') \<in> set BLOCKING_APPROVAL_STATUSES
               then False
               else if truthy (dget line ''assigned_to'') \<and> truthy (dget line ''recount_requested_at'')
               then False
               else \<not> count_line_requires_supervisor_review line \<and> line_status \<noteq> ''rejected''))"

definition get_effective_count_line_status :: "doc \<Rightarrow> string" where
  "get_effective_count_line_status line =
     (if line = [] then ''pending''
      else (let line_status = normalize_count_line_status (dget line ''status'')
            in if line_status \<in> {''rejected'', ''locked'', ''approved''} then line_status
               else if is_count_line_effectively_reviewed line then ''approved''
               else line_status))"

definition get_effective_approval_status :: "doc \<Rightarrow> string" where
  "get_effective_approval_status line =
     (if line = [] then ''PENDING''
      else (let approval_status = normalize_approval_status (dget line ''approval_status'')
            in if approval_status \<in> {''REJECTED'', ''APPROVED''} then approval_status
               else if is_count_line_effectively_reviewed line then ''APPROVED''
               else approval_status))"

definition materialize_count_line_review_state :: "doc \<Rightarrow> doc" where
  "materialize_count_line_review_state line =
     dput ''approval_status'' (VStr (get_effective_approval_status line))
       (dput ''status'' (VStr (get_effective_count_line_status line)) line)"

section \<open>Identity, finality, supersession\<close>

definition find_session :: "'db store \<Rightarrow> string \<Rightarrow> ('db, doc option) comp" where
  "find_session S sid = find_one S ''sessions'' (session_lookup sid)"

definition extract_document_id :: "repr \<Rightarrow> doc \<Rightarrow> string option" where
  "extract_document_id rp d =
     (let v = py_or (dget d ''id'') (dget d ''_id'') in if v = VNone then None else Some (py_str rp v))"

definition is_session_finalized :: "doc \<Rightarrow> bool" where
  "is_session_finalized session =
     (if session = [] then False
      else if truthy (dget session ''finalized_at'') then True
      else canonical_session_status (dget session ''status'') (dget session ''reconciled_at'')
             \<in> set FINALIZED_SESSION_STATUSES)"

definition is_count_line_locked :: "doc \<Rightarrow> bool" where
  "is_count_line_locked line =
     (if line = [] then False
      else if truthy (dget line ''finalized_at'') then True
      else normalize_count_line_status (dget line ''status'') = ''locked'')"

definition is_superseded_count_line :: "doc \<Rightarrow> bool" where
  "is_superseded_count_line line =
     (if line = [] then False
      else if normalize_count_line_status (dget line ''status'') = ''superseded'' then True
      else if truthy (dget line ''superseded_by_version_id'') then True
      else truthy (dget line ''superseded_at''))"

section \<open>Duplicates and recounts\<close>

definition build_count_line_duplicate_filter :: "repr \<Rightarrow> doc \<Rightarrow> query" where
  "build_count_line_duplicate_filter rp line_data =
     [(''session_id'', CEq (VStr (py_str rp (py_or (dget line_data ''session_id'') (VStr []))))),
      (''item_code'', CEq (VStr (py_str rp (py_or (dget line_data ''item_code'') (VStr []))))),
      (''floor_no'', CEq (normalize_location_value rp (dget line_data ''floor_no''))),
      (''rack_no'', CEq (normalize_location_value rp (dget line_data ''rack_no'')))]"

definition is_explicit_recount :: "doc \<Rightarrow> bool" where
  "is_explicit_recount line_data =
     (if truthy (dget line_data ''recount_of_id'') then True
      else if (case dget line_data ''recount_mode'' of
                 VStr s \<Rightarrow> upper (strip s) = ''RECOUNT'' | _ \<Rightarrow> False) then True
      else truthy (dget line_data ''recount''))"

definition find_duplicate_count_line ::
  "'db store \<Rightarrow> repr \<Rightarrow> doc \<Rightarrow> string option \<Rightarrow> ('db, doc option) comp" where
  "find_duplicate_count_line S rp line_data exclude_id =
     bindM (find_all S ''count_lines'' (build_count_line_duplicate_filter rp line_data)) (\<lambda>lines.
     returnM (List.find (\<lambda>existing.
       \<not> (exclude_id \<noteq> None \<and> exclude_id \<noteq> Some [] \<and> extract_document_id rp existing = exclude_id) \<and>
       \<not> is_superseded_count_line existing) lines))"

definition can_reuse_rejected_count_line :: "repr \<Rightarrow> doc \<Rightarrow> doc \<Rightarrow> bool" where
  "can_reuse_rejected_count_line rp existing line_data =
     (if existing = [] \<or> \<not> is_explicit_recount line_data then False
      else if truthy (dget line_data ''recount_of_id'') \<and>
              extract_document_id rp existing \<noteq> Some (py_str rp (dget line_data ''recount_of_id''))
      then False
      else normalize_count_line_status (dget existing ''status'') = ''rejected'')"

definition is_blocking_finalization :: "doc \<Rightarrow> bool" where
  "is_blocking_finalization line =
     (if is_superseded_count_line line then False
      else if is_count_line_locked line then False
      else if normalize_count_line_status (dget line ''status'') = ''rejected'' then True
      else if truthy (dget line ''assigned_to'') \<and> truthy (dget line ''recount_requested_at'') then True
      else if normalize_approval_status (dget line ''approval_status'') \<in> set BLOCKING_APPROVAL_STATUSES
      then True
      else if \<not> count_line_requires_supervisor_review line then False
      else normalize_approval_status (dget line ''approval_status'') \<noteq> ''APPROVED'')"

definition get_session_count_lines ::
  "'db store \<Rightarrow> string \<Rightarrow> bool \<Rightarrow> ('db, doc list) comp" where
  "get_session_count_lines S sid include_superseded =
     bindM (find_all S ''count_lines'' [(''session_id'', CEq (VStr sid))]) (\<lambda>lines.
     returnM (filter (\<lambda>line. include_superseded \<or> \<not> is_superseded_count_line line) lines))"

section \<open>Session totals\<close>

record totals =
  total_items :: int
  total_variance :: rat
  verified_items :: int
  damage_items :: int
  last_activity :: "int option"

definition no_totals :: totals where
  "no_totals = \<lparr>total_items = 0, total_variance = 0, verified_items = 0, damage_items = 0,
     last_activity = None\<rparr>"

text \<open>The instant of a datetime, an aware one converted to UTC.\<close>

fun instant :: "val \<Rightarrow> int option" where
  "instant (VDate t None) = Some t"
| "instant (VDate t (Some off)) = Some (t - off)"
| "instant _ = None"

definition later :: "int option \<Rightarrow> int option \<Rightarrow> int option" where
  "later prev candidate =
     (case candidate of
        None \<Rightarrow> prev
      | Some c \<Rightarrow> (case prev of None \<Rightarrow> Some c | Some l \<Rightarrow> if c > l then Some c else Some l))"

definition activity_of :: "doc \<Rightarrow> val" where
  "activity_of line =
     py_or (dget line ''updated_at'') (py_or (dget line ''approved_at'') (dget line ''counted_at''))"

text \<open>One iteration of the loop over the lines; \<open>clock\<close> reads the activity timestamp.\<close>

definition totals_step :: "(val \<Rightarrow> int option) \<Rightarrow> totals \<Rightarrow> doc \<Rightarrow> totals res" where
  "totals_step clock t line =
     (if is_superseded_count_line line then Inr t
      else bindR (to_float (py_or (dget line ''variance'') (VFloat 0))) (\<lambda>v.
           bindR (to_float (py_or (dget line ''damaged_qty'') (VFloat 0))) (\<lambda>dmg.
           Inr \<lparr>total_items = total_items t + 1,
                total_variance = total_variance t + v,
                verified_items = verified_items t +
                  (if is_count_line_effectively_reviewed line then 1 else 0),
                damage_items = damage_items t + trunc dmg,
                last_activity = later (last_activity t) (clock (activity_of line))\<rparr>)))"

fun totals_loop :: "(val \<Rightarrow> int option) \<Rightarrow> totals \<Rightarrow> doc list \<Rightarrow> totals res" where
  "totals_loop clock t [] = Inr t"
| "totals_loop clock t (line # lines) =
     bindR (totals_step clock t line) (\<lambda>t'. totals_loop clock t' lines)"

definition totals_fields :: "totals \<Rightarrow> doc" where
  "totals_fields t =
     [(''total_items'', VInt (total_items t)),
      (''total_variance'', VFloat (total_variance t)),
      (''verified_items'', VInt (verified_items t)),
      (''pending_items'', VInt (max (total_items t - verified_items t) 0)),
      (''damage_items'', VInt (damage_items t))]"

definition last_activity_field :: "totals \<Rightarrow> doc" where
  "last_activity_field t =
     (case last_activity t of None \<Rightarrow> [] | Some a \<Rightarrow> [(''last_activity'', naive a)])"

text \<open>
  \<open>recompute_session_totals\<close>: numbers and strings are accepted as timestamps; \<open>update\<close> is
  \<open>lifecycle_service.update_session_totals\<close>.
\<close>

definition lenient_instant :: "(val \<Rightarrow> int option) \<Rightarrow> val \<Rightarrow> int option" where
  "lenient_instant parse_time v =
     (case v of
        VDate t z \<Rightarrow> instant v
      | VBool b \<Rightarrow> parse_time v
      | VInt i \<Rightarrow> parse_time v
      | VFloat q \<Rightarrow> parse_time v
      | VStr s \<Rightarrow> parse_time v
      | _ \<Rightarrow> None)"

definition recompute_session_totals ::
  "'db store \<Rightarrow> (val \<Rightarrow> int option) \<Rightarrow> (string \<Rightarrow> doc \<Rightarrow> ('db, unit) comp) \<Rightarrow> string \<Rightarrow> ('db, doc) comp" where
  "recompute_session_totals S parse_time update sid =
     bindM (find_all S ''count_lines'' [(''session_id'', CEq (VStr sid))]) (\<lambda>lines.
     bindM (liftM (totals_loop (lenient_instant parse_time) no_totals lines)) (\<lambda>t.
     let session_update = totals_fields t @ last_activity_field t
     in bindM (update sid session_update) (\<lambda>_. returnM session_update)))"

section \<open>Duplicate observations\<close>

definition build_count_observation_duplicate_filter :: "repr \<Rightarrow> doc \<Rightarrow> query res" where
  "build_count_observation_duplicate_filter rp ob =
     bindR (to_float (py_or (dget ob ''counted_qty'') (VInt 0))) (\<lambda>qty.
     Inr [(''session_id'', CEq (VStr (py_str rp (py_or (dget ob ''session_id'') (VStr []))))),
          (''item_code'', CEq (VStr (py_str rp (py_or (dget ob ''item_code'') (VStr []))))),
          (''counted_qty'', CEq (VFloat qty)),
          (''is_recount'', CEq (VBool (truthy (dget ob ''is_recount'')))),
          (''recount_of_id'', CEq (dget ob ''recount_of_id''))])"

definition find_duplicate_count_observation ::
  "'db store \<Rightarrow> repr \<Rightarrow> doc \<Rightarrow> string \<Rightarrow> ('db, doc option) comp" where
  "find_duplicate_count_observation S rp ob exclude_id =
     bindM (liftM (build_count_observation_duplicate_filter rp ob)) (\<lambda>q.
     bindM (find_all S ''count_observations'' q) (\<lambda>found.
     returnM (List.find (\<lambda>existing.
       \<not> (exclude_id \<noteq> [] \<and> py_str rp (py_or (dget existing ''id'') (VStr [])) = exclude_id) \<and>
       upper (py_str rp (py_or (dget existing ''status'') (VStr [])))
         \<notin> {''SUPERSEDED'', ''REJECTED'', ''CANCELLED''}) (take 1 found))))"

definition record_duplicate_governance_event ::
  "'db store \<Rightarrow> int \<Rightarrow> string \<Rightarrow> string \<Rightarrow> string \<Rightarrow> string \<Rightarrow> string \<Rightarrow> string \<Rightarrow> val \<Rightarrow> ('db, doc) comp" where
  "record_duplicate_governance_event S now uid observation_id session_id actor duplicate_of_id action reason =
     (let event =
        [(''id'', VStr uid), (''observation_id'', VStr observation_id),
         (''session_id'', VStr session_id), (''actor'', VStr actor),
         (''duplicate_of_id'', VStr duplicate_of_id), (''action'', VStr action),
         (''reason'', reason), (''created_at'', naive now)]
      in bindM (insert_one S ''approval_decisions'' event) (\<lambda>i.
         returnM (dset_default ''_id'' i event)))"

section \<open>Facts\<close>

lemma normalize_count_line_status_lower:
  "normalize_count_line_status (VStr (normalize_count_line_status v)) = normalize_count_line_status v"
proof -
  have p: "lower ''pending'' = ''pending'' \<and> strip ''pending'' = ''pending''" by code_simp
  show ?thesis by (cases v) (auto simp: normalize_count_line_status_def p strip_lower)
qed

lemma normalize_approval_status_upper:
  "normalize_approval_status (VStr (normalize_approval_status v)) = normalize_approval_status v"
proof -
  have p: "upper ''PENDING'' = ''PENDING'' \<and> strip ''PENDING'' = ''PENDING''" by code_simp
  show ?thesis by (cases v) (auto simp: normalize_approval_status_def p strip_upper)
qed

lemma normalize_words [simp]:
  "normalize_count_line_status (VStr ''approved'') = ''approved''"
  "normalize_count_line_status (VStr ''rejected'') = ''rejected''"
  "normalize_count_line_status (VStr ''locked'') = ''locked''"
  "normalize_count_line_status (VStr ''superseded'') = ''superseded''"
  "normalize_approval_status (VStr ''APPROVED'') = ''APPROVED''"
  "normalize_approval_status (VStr ''REJECTED'') = ''REJECTED''"
  "normalize_approval_status (VStr ''NEEDS_REVIEW'') = ''NEEDS_REVIEW''"
  by code_simp+

lemma status_sets [simp]:
  "set APPROVED_COUNT_LINE_STATUSES = {''approved'', ''locked''}"
  "set BLOCKING_APPROVAL_STATUSES = {''NEEDS_REVIEW'', ''REJECTED''}"
  by (simp_all add: APPROVED_COUNT_LINE_STATUSES_def BLOCKING_APPROVAL_STATUSES_def)

lemma totals_loop_append:
  "totals_loop clock t (xs @ ys) = bindR (totals_loop clock t xs) (\<lambda>t'. totals_loop clock t' ys)"
  by (induction xs arbitrary: t) (auto simp: bindR_def split: sum.splits)

lemma totals_step_counts:
  assumes "totals_step clock t line = Inr t'"
  shows "total_items t' = total_items t + (if is_superseded_count_line line then 0 else 1)"
    and "verified_items t' = verified_items t +
      (if \<not> is_superseded_count_line line \<and> is_count_line_effectively_reviewed line then 1 else 0)"
  using assms by (auto simp: totals_step_def run_iff split: if_splits)

lemma totals_loop_counts:
  assumes "totals_loop clock t lines = Inr t'"
  shows "total_items t' = total_items t + int (length (filter (Not \<circ> is_superseded_count_line) lines))
    \<and> verified_items t' = verified_items t + int (length (filter
        (\<lambda>l. \<not> is_superseded_count_line l \<and> is_count_line_effectively_reviewed l) lines))"
  using assms
proof (induction lines arbitrary: t)
  case (Cons l lines)
  from Cons.prems obtain u where u: "totals_step clock t l = Inr u" "totals_loop clock u lines = Inr t'"
    by (auto simp: run_iff)
  from Cons.IH [OF u(2)] totals_step_counts [OF u(1)] show ?case by auto
qed simp

section \<open>Properties\<close>

lemma materialized_fields:
  "dget (materialize_count_line_review_state line) k =
     (if k = ''approval_status'' then VStr (get_effective_approval_status line)
      else if k = ''status'' then VStr (get_effective_count_line_status line)
      else dget line k)"
  by (simp add: materialize_count_line_review_state_def doc_simps)

lemma dput_not_Nil [simp]: "dput k v d \<noteq> []"
  by (cases d) auto

lemma dput_same: "map_of d k = Some v \<Longrightarrow> dput k v d = d"
  by (induction d) (auto split: if_splits)

lemma materialized_not_Nil [simp]: "materialize_count_line_review_state line \<noteq> []"
  by (simp add: materialize_count_line_review_state_def)

lemma reviewed_cong:
  assumes "line \<noteq> []" "m \<noteq> []"
    and "normalize_count_line_status (dget m ''status'') = normalize_count_line_status (dget line ''status'')"
    and "normalize_approval_status (dget m ''approval_status'') = normalize_approval_status (dget line ''approval_status'')"
    and "\<And>k. k \<in> {''verified'', ''assigned_to'', ''recount_requested_at'', ''variance''} \<Longrightarrow> dget m k = dget line k"
  shows "is_count_line_effectively_reviewed m = is_count_line_effectively_reviewed line"
  using assms(1,2) assms(3,4) assms(5) [of "''verified''"] assms(5) [of "''assigned_to''"]
    assms(5) [of "''recount_requested_at''"] assms(5) [of "''variance''"]
  by (simp add: is_count_line_effectively_reviewed_def count_line_requires_supervisor_review_def)

lemma reviewed_when_approved:
  "line \<noteq> [] \<Longrightarrow> normalize_count_line_status (dget line ''status'') \<in> {''approved'', ''locked''} \<Longrightarrow>
   is_count_line_effectively_reviewed line"
  by (auto simp: is_count_line_effectively_reviewed_def)

lemma unreviewed_materialized:
  assumes "line \<noteq> []" "\<not> is_count_line_effectively_reviewed line"
  shows "\<not> is_count_line_effectively_reviewed (materialize_count_line_review_state line)"
proof -
  have "get_effective_count_line_status line = normalize_count_line_status (dget line ''status'')"
    "get_effective_approval_status line = normalize_approval_status (dget line ''approval_status'')"
    using assms by (simp_all add: get_effective_count_line_status_def get_effective_approval_status_def Let_def)
  then have "is_count_line_effectively_reviewed (materialize_count_line_review_state line) =
      is_count_line_effectively_reviewed line"
    by (intro reviewed_cong [OF assms(1) materialized_not_Nil])
       (auto simp: materialized_fields normalize_count_line_status_lower normalize_approval_status_upper)
  with assms show ?thesis by simp
qed

lemma effective_count_line_status_normal:
  "normalize_count_line_status (VStr (get_effective_count_line_status line)) = get_effective_count_line_status line"
proof -
  have "normalize_count_line_status (VStr ''pending'') = ''pending''" by code_simp
  then show ?thesis
    by (auto simp: get_effective_count_line_status_def Let_def normalize_count_line_status_lower)
qed

lemma effective_approval_status_normal:
  "normalize_approval_status (VStr (get_effective_approval_status line)) = get_effective_approval_status line"
proof -
  have "normalize_approval_status (VStr ''PENDING'') = ''PENDING''" by code_simp
  then show ?thesis
    by (auto simp: get_effective_approval_status_def Let_def normalize_approval_status_upper)
qed

text \<open>Materialising the review state of a count line is idempotent: the stored effective
  status and approval status are computed again from the stored line without change.\<close>

theorem materialize_review_state_idempotent:
  assumes "line \<noteq> []"
  shows "materialize_count_line_review_state (materialize_count_line_review_state line) =
    materialize_count_line_review_state line"
proof -
  let ?m = "materialize_count_line_review_state line"
  let ?s = "get_effective_count_line_status line" and ?a = "get_effective_approval_status line"
  note fields = materialized_fields effective_count_line_status_normal effective_approval_status_normal
  have s: "get_effective_count_line_status ?m = ?s"
  proof (cases "?s \<in> {''rejected'', ''locked'', ''approved''}")
    case True
    then show ?thesis by (subst get_effective_count_line_status_def) (auto simp: fields)
  next
    case False
    then have "\<not> is_count_line_effectively_reviewed line"
      using assms by (auto simp: get_effective_count_line_status_def Let_def split: if_splits)
    from unreviewed_materialized [OF assms this] show ?thesis
      by (subst get_effective_count_line_status_def) (simp add: fields Let_def)
  qed
  have a: "get_effective_approval_status ?m = ?a"
  proof (cases "?a \<in> {''REJECTED'', ''APPROVED''}")
    case True
    then show ?thesis by (subst get_effective_approval_status_def) (auto simp: fields)
  next
    case False
    then have "\<not> is_count_line_effectively_reviewed line"
      using assms by (auto simp: get_effective_approval_status_def Let_def split: if_splits)
    from unreviewed_materialized [OF assms this] show ?thesis
      by (subst get_effective_approval_status_def) (simp add: fields Let_def)
  qed
  have "map_of ?m ''status'' = Some (VStr ?s)" "map_of ?m ''approval_status'' = Some (VStr ?a)"
    by (simp_all add: materialize_count_line_review_state_def doc_simps)
  then show ?thesis
    by (subst materialize_count_line_review_state_def) (simp add: s a dput_same)
qed

lemma materialize_review_state_idempotent_witness:
  "materialize_count_line_review_state (materialize_count_line_review_state
     [(''status'', VStr ''Pending''), (''variance'', VInt 0)]) =
   [(''status'', VStr ''approved''), (''variance'', VInt 0), (''approval_status'', VStr ''APPROVED'')]"
proof -
  have "materialize_count_line_review_state [(''status'', VStr ''Pending''), (''variance'', VInt 0)] =
     [(''status'', VStr ''approved''), (''variance'', VInt 0), (''approval_status'', VStr ''APPROVED'')]"
    by code_simp
  with materialize_review_state_idempotent [of "[(''status'', VStr ''Pending''), (''variance'', VInt 0)]"]
  show ?thesis by simp
qed

text \<open>No unreviewed line slips through finalization: a line that is not superseded, not locked,
  not effectively reviewed and not explicitly APPROVED blocks the finalization of its session.\<close>

theorem unreviewed_line_blocks:
  assumes "line \<noteq> []" and "\<not> is_superseded_count_line line" and "\<not> is_count_line_locked line"
    and "\<not> is_count_line_effectively_reviewed line"
    and "normalize_approval_status (dget line ''approval_status'') \<noteq> ''APPROVED''"
  shows "is_blocking_finalization line"
  using assms
  by (auto simp: is_blocking_finalization_def is_count_line_effectively_reviewed_def Let_def split: if_splits)

lemma unreviewed_line_blocks_witness:
  "is_blocking_finalization [(''status'', VStr ''pending''), (''variance'', VInt 2)]"
proof -
  let ?l = "[(''status'', VStr ''pending''), (''variance'', VInt 2)]"
  have "\<not> is_superseded_count_line ?l" "\<not> is_count_line_locked ?l" "\<not> is_count_line_effectively_reviewed ?l"
    "normalize_approval_status (dget ?l ''approval_status'') \<noteq> ''APPROVED''" by code_simp+
  from unreviewed_line_blocks [OF _ this] show ?thesis by simp
qed

text \<open>Session totals: when the recomputation of the totals succeeds, the total is the number of
  lines of the session that are not superseded, the verified count is the number of those
  that are effectively reviewed, verified and pending add up to the total, and the totals
  are what is handed to the session update.\<close>

theorem recomputed_totals_correct:
  assumes "document_store S"
    and "recompute_session_totals S parse_time update sid db = (Inr res, db')"
  shows "\<exists>n v. dget res ''total_items'' = VInt n \<and> dget res ''verified_items'' = VInt v \<and>
    dget res ''pending_items'' = VInt (n - v) \<and>
    n = int (length (filter (Not \<circ> is_superseded_count_line)
          (filter (match_filter [(''session_id'', CEq (VStr sid))]) (docs S ''count_lines'' db)))) \<and>
    v = int (length (filter (\<lambda>l. \<not> is_superseded_count_line l \<and> is_count_line_effectively_reviewed l)
          (filter (match_filter [(''session_id'', CEq (VStr sid))]) (docs S ''count_lines'' db)))) \<and>
    update sid res db = (Inr (), db')"
proof -
  let ?lines = "filter (match_filter [(''session_id'', CEq (VStr sid))]) (docs S ''count_lines'' db)"
  from assms(2) obtain t where t: "totals_loop (lenient_instant parse_time) no_totals ?lines = Inr t"
    "res = totals_fields t @ last_activity_field t" "update sid res db = (Inr (), db')"
    by (auto simp: recompute_session_totals_def run_iff document_store.find_all_run [OF assms(1)] Let_def)
  from totals_loop_counts [OF t(1)] have n:
    "total_items t = int (length (filter (Not \<circ> is_superseded_count_line) ?lines))"
    "verified_items t = int (length (filter
       (\<lambda>l. \<not> is_superseded_count_line l \<and> is_count_line_effectively_reviewed l) ?lines))"
    by (simp_all add: no_totals_def)
  have "length (filter (\<lambda>l. \<not> is_superseded_count_line l \<and> is_count_line_effectively_reviewed l) ?lines) \<le>
      length (filter (Not \<circ> is_superseded_count_line) ?lines)"
    using length_filter_le [of is_count_line_effectively_reviewed "filter (Not \<circ> is_superseded_count_line) ?lines"]
    by (simp add: conj_commute o_def)
  with n have "verified_items t \<le> total_items t" by linarith
  with n t show ?thesis by (simp add: totals_fields_def dget_def max_def)
qed


definition demo_lines :: memdb where
  "demo_lines = \<lparr>colls = (\<lambda>c. if c = ''count_lines''
     then [[(''session_id'', VStr ''s1''), (''variance'', VInt 0)],
           [(''session_id'', VStr ''s1''), (''variance'', VInt 3)],
           [(''session_id'', VStr ''s1''), (''status'', VStr ''superseded'')]] else []), next_id = 0\<rparr>"

lemma recomputed_totals_correct_witness:
  "\<exists>res. fst (recompute_session_totals (mem_store show_nat (\<lambda>_. False)) (\<lambda>_. None) (\<lambda>_ _. returnM ()) ''s1'' demo_lines) =
     Inr res \<and> dget res ''total_items'' = VInt 2 \<and> dget res ''verified_items'' = VInt 1 \<and>
     dget res ''pending_items'' = VInt 1"
proof -
  let ?S = "mem_store show_nat (\<lambda>_. False)"
  let ?run = "recompute_session_totals ?S (\<lambda>_. None) (\<lambda>_ _. returnM ()) ''s1''"
  have "case fst (?run demo_lines) of Inl _ \<Rightarrow> False | Inr _ \<Rightarrow> True" by code_simp
  then obtain res db' where run: "?run demo_lines = (Inr res, db')"
    by (cases "?run demo_lines") (auto split: sum.splits)
  have n: "length (filter (Not \<circ> is_superseded_count_line)
      (filter (match_filter [(''session_id'', CEq (VStr ''s1''))]) (colls demo_lines ''count_lines''))) = 2"
    "length (filter (\<lambda>l. \<not> is_superseded_count_line l \<and> is_count_line_effectively_reviewed l)
      (filter (match_filter [(''session_id'', CEq (VStr ''s1''))]) (colls demo_lines ''count_lines''))) = 1"
    by code_simp+
  from recomputed_totals_correct [OF document_store_mem run, unfolded docs_mem_store n] run show ?thesis by auto
qed

text \<open>The duplicate lookup for observations reads one candidate only: when the first stored
  observation with the same key is superseded, rejected or cancelled, or is the excluded one,
  the lookup reports no duplicate even if a live one follows.\<close>

theorem observation_lookup_misses_duplicates:
  assumes "document_store S"
    and "build_count_observation_duplicate_filter rp ob = Inr q"
    and "filter (match_filter q) (docs S ''count_observations'' db) = first # rest"
    and "upper (py_str rp (py_or (dget first ''status'') (VStr []))) \<in> {''SUPERSEDED'', ''REJECTED'', ''CANCELLED''}"
  shows "find_duplicate_count_observation S rp ob exclude_id db = (Inr None, db)"
  using assms
  by (simp add: find_duplicate_count_observation_def run_simps document_store.find_all_run)

definition demo_observations :: memdb where
  "demo_observations = \<lparr>colls = (\<lambda>c. if c = ''count_observations''
     then [[(''session_id'', VStr ''s1''), (''item_code'', VStr ''i''), (''counted_qty'', VInt 1),
            (''is_recount'', VBool False), (''status'', VStr ''rejected'')],
           [(''session_id'', VStr ''s1''), (''item_code'', VStr ''i''), (''counted_qty'', VInt 1),
            (''is_recount'', VBool False), (''status'', VStr ''SUBMITTED'')]] else []), next_id = 0\<rparr>"

definition demo_observation :: doc where
  "demo_observation = [(''session_id'', VStr ''s1''), (''item_code'', VStr ''i''), (''counted_qty'', VInt 1)]"

lemma observation_lookup_misses_duplicates_witness:
  "find_duplicate_count_observation (mem_store show_nat (\<lambda>_. False)) (\<lambda>_. []) demo_observation [] demo_observations =
     (Inr None, demo_observations)"
proof -
  let ?q = "[(''session_id'', CEq (VStr ''s1'')), (''item_code'', CEq (VStr ''i'')), (''counted_qty'', CEq (VFloat 1)),
     (''is_recount'', CEq (VBool False)), (''recount_of_id'', CEq VNone)]"
  let ?d = "docs (mem_store show_nat (\<lambda>_. False)) ''count_observations'' demo_observations"
  have q: "build_count_observation_duplicate_filter (\<lambda>_. []) demo_observation = Inr ?q" by code_simp
  have f: "filter (match_filter ?q) ?d = hd ?d # tl ?d" by code_simp
  have u: "upper (py_str (\<lambda>_. []) (py_or (dget (hd ?d) ''status'') (VStr []))) \<in> {''SUPERSEDED'', ''REJECTED'', ''CANCELLED''}"
    by code_simp
  from observation_lookup_misses_duplicates [OF document_store_mem q f u] show ?thesis .
qed

end
