(* ===== verification/ProjectionWriter.thy ===== *)
theory ProjectionWriter
  imports CanonicalInventory "HOL-Library.Char_ord" "HOL-Library.List_Lexorder"
begin

text \<open>
  \<open>backend/services/projections/writer.py\<close>: the projection collections that are rebuilt in the
  transaction of every governed write.

  The file carries its own copies of the review-state functions of the canonical inventory;
  they are translated again under the prefix \<open>writer_\<close> and shown equal to the originals. The
  service object is the record \<open>projector\<close>. \<open>acquire\<close> and \<open>release\<close> are
  \<open>_acquire_session_lock\<close> and \<open>_release_session_lock\<close>, which work on the collection \<open>locks\<close>
  of another service; \<open>time_of\<close> parses the timestamps that are not datetimes.
\<close>

section \<open>Helpers\<close>

definition PROJECTION_VERSION :: string where
  "PROJECTION_VERSION = ''write.sync.v1''"

definition as_float :: "val \<Rightarrow> rat" where
  "as_float v =
     (if v = VNone \<or> v = VStr [] then 0
      else (case to_float v of Inl _ \<Rightarrow> 0 | Inr q \<Rightarrow> q))"

definition as_datetime :: "(val \<Rightarrow> int option) \<Rightarrow> val \<Rightarrow> int option" where
  "as_datetime time_of v =
     (case v of
        VDate t None \<Rightarrow> Some t
      | VDate t (Some off) \<Rightarrow> Some (t - off)
      | VBool _ \<Rightarrow> time_of v
      | VInt _ \<Rightarrow> time_of v
      | VFloat _ \<Rightarrow> time_of v
      | VStr s \<Rightarrow> if strip s = [] then None else time_of v
      | _ \<Rightarrow> None)"

definition set_value :: "val \<Rightarrow> bool" where
  "set_value v = (v \<noteq> VNone \<and> v \<noteq> VStr [])"

definition resolve_unit_value :: "doc \<Rightarrow> rat" where
  "resolve_unit_value line =
     (case List.find set_value
        (map (dget line) [''mrp_counted'', ''mrp_erp'', ''last_cost'', ''sale_price'', ''sales_price'']) of
        None \<Rightarrow> 0
      | Some raw \<Rightarrow> as_float raw)"

definition compute_variance_percentage :: "rat \<Rightarrow> rat \<Rightarrow> rat" where
  "compute_variance_percentage variance stock_qty =
     (if stock_qty = 0 then 0 else py_round 4 (variance / stock_qty * 100))"

section \<open>The copies of the review state\<close>

definition writer_normalize_count_line_status :: "val \<Rightarrow> string" where
  "writer_normalize_count_line_status v =
     (case v of VStr s \<Rightarrow> if strip s = [] then ''pending'' else lower (strip s) | _ \<Rightarrow> ''pending'')"

definition writer_normalize_approval_status :: "val \<Rightarrow> string" where
  "writer_normalize_approval_status v =
     (case v of VStr s \<Rightarrow> if strip s = [] then ''PENDING'' else upper (strip s) | _ \<Rightarrow> ''PENDING'')"

definition writer_requires_supervisor_review :: "doc \<Rightarrow> bool" where
  "writer_requires_supervisor_review line =
     (if line = [] then False
      else (case to_float (py_or (dget line ''variance'') (VFloat 0)) of
              Inl _ \<Rightarrow> False
            | Inr q \<Rightarrow> \<bar>q\<bar> > 0))"

definition writer_is_count_line_effectively_reviewed :: "doc \<Rightarrow> bool" where
  "writer_is_count_line_effectively_reviewed line =
     (if line = [] then False
      else (let line_status = writer_normalize_count_line_status (dget line ''status'')
            in if truthy (dget line ''verified'') \<or> line_status \<in> {''approved'', ''locked''} then True
               else if writer_normalize_approval_status (dget line ''approval_status'')
                         \<in> {''NEEDS_REVIEW'', ''REJECTED''} then False
               else if truthy (dget line ''assigned_to'') \<and> truthy (dget line ''recount_requested_at'')
               then False
               else \<not> writer_requires_supervisor_review line \<and> line_status \<noteq> ''rejected''))"

definition writer_get_effective_count_line_status :: "doc \<Rightarrow> string" where
  "writer_get_effective_count_line_status line =
     (if line = [] then ''pending''
      else (let line_status = writer_normalize_count_line_status (dget line ''status'')
            in if line_status \<in> {''rejected'', ''locked'', ''approved''} then line_status
               else if writer_is_count_line_effectively_reviewed line then ''approved''
               else line_status))"

definition writer_get_effective_approval_status :: "doc \<Rightarrow> string" where
  "writer_get_effective_approval_status line =
     (if line = [] then ''PENDING''
      else (let approval_status = writer_normalize_approval_status (dget line ''approval_status'')
            in if approval_status \<in> {''REJECTED'', ''APPROVED''} then approval_status
               else if writer_is_count_line_effectively_reviewed line then ''APPROVED''
               else approval_status))"

definition writer_is_superseded_count_line :: "doc \<Rightarrow> bool" where
  "writer_is_superseded_count_line line =
     (if line = [] then False
      else if writer_normalize_count_line_status (dget line ''status'') \<in> {''superseded''} then True
      else if truthy (dget line ''superseded_by_version_id'') then True
      else if truthy (dget line ''superseded_at'') then True
      else False)"

section \<open>Aggregates\<close>

record aggregates =
  ag_total :: nat
  ag_verified :: nat
  ag_pending_approvals :: nat
  ag_damage :: int
  ag_variance :: rat
  ag_positive :: rat
  ag_negative :: rat
  ag_last :: "int option"

definition no_aggregates :: aggregates where
  "no_aggregates = \<lparr>ag_total = 0, ag_verified = 0, ag_pending_approvals = 0, ag_damage = 0,
     ag_variance = 0, ag_positive = 0, ag_negative = 0, ag_last = None\<rparr>"

definition aggregate_line :: "(val \<Rightarrow> int option) \<Rightarrow> aggregates \<Rightarrow> doc \<Rightarrow> aggregates" where
  "aggregate_line time_of a line =
     (let variance = as_float (dget line ''variance'')
      in \<lparr>ag_total = ag_total a + 1,
          ag_verified = ag_verified a + (if writer_is_count_line_effectively_reviewed line then 1 else 0),
          ag_pending_approvals = ag_pending_approvals a +
            (if writer_get_effective_approval_status line \<noteq> ''APPROVED'' then 1 else 0),
          ag_damage = ag_damage a + trunc (as_float (dget line ''damaged_qty'')),
          ag_variance = ag_variance a + variance,
          ag_positive = ag_positive a + (if variance > 0 then variance else 0),
          ag_negative = ag_negative a + (if variance < 0 then variance else 0),
          ag_last = foldl (\<lambda>l k. later l (as_datetime time_of (dget line k))) (ag_last a)
            [''updated_at'', ''approved_at'', ''counted_at'']\<rparr>)"

definition percent :: "nat \<Rightarrow> nat \<Rightarrow> rat" where
  "percent part whole = (if whole = 0 then 0 else py_round 2 (of_nat part / of_nat whole * 100))"

definition opt_instant :: "int option \<Rightarrow> val" where
  "opt_instant t = (case t of None \<Rightarrow> VNone | Some u \<Rightarrow> naive u)"

definition aggregates_of :: "(val \<Rightarrow> int option) \<Rightarrow> doc list \<Rightarrow> aggregates" where
  "aggregates_of time_of lines = foldl (aggregate_line time_of) no_aggregates lines"

definition compute_aggregates :: "(val \<Rightarrow> int option) \<Rightarrow> doc list \<Rightarrow> doc" where
  "compute_aggregates time_of lines =
     (let a = aggregates_of time_of lines
      in [(''total_items'', VInt (int (ag_total a))),
          (''verified_items'', VInt (int (ag_verified a))),
          (''pending_items'', VInt (max (int (ag_total a) - int (ag_verified a)) 0)),
          (''pending_approvals'', VInt (int (ag_pending_approvals a))),
          (''damage_items'', VInt (ag_damage a)),
          (''total_variance'', VFloat (py_round 4 (ag_variance a))),
          (''positive_variance'', VFloat (py_round 4 (ag_positive a))),
          (''negative_variance'', VFloat (py_round 4 (ag_negative a))),
          (''completion_percent'', VFloat (percent (ag_verified a) (ag_total a))),
          (''last_activity'', opt_instant (ag_last a))])"

section \<open>The service\<close>

record 'db projector =
  pstore :: "'db store"
  prepr :: repr
  time_of :: "val \<Rightarrow> int option"
  lock_enabled :: bool
  acquire :: "string \<Rightarrow> ('db, bool) comp"
  release :: "string \<Rightarrow> ('db, unit) comp"

definition load_active_count_lines :: "'db projector \<Rightarrow> string \<Rightarrow> ('db, doc list) comp" where
  "load_active_count_lines W sid =
     bindM (find_all (pstore W) ''count_lines''
       [(''session_id'', CEq (VStr sid)), (''archived'', CNe (VBool True))]) (\<lambda>raw_lines.
     returnM (filter (\<lambda>line. \<not> writer_is_superseded_count_line line) (to_list 10000 raw_lines)))"

definition resolve_source_updated_at :: "(val \<Rightarrow> int option) \<Rightarrow> doc \<Rightarrow> int option" where
  "resolve_source_updated_at time session_doc =
     (case List.find (\<lambda>t. t \<noteq> None)
        (map (\<lambda>k. as_datetime time (dget session_doc k))
          [''updated_at'', ''completed_at'', ''closed_at'', ''last_activity'', ''started_at'']) of
        None \<Rightarrow> None
      | Some t \<Rightarrow> t)"

definition session_projection_doc :: "'db projector \<Rightarrow> int \<Rightarrow> string \<Rightarrow> doc \<Rightarrow> string \<Rightarrow> doc list \<Rightarrow> doc" where
  "session_projection_doc W now sid s trigger lines =
     (let a = compute_aggregates (time_of W) lines;
          source_updated_at = (case resolve_source_updated_at (time_of W) s of None \<Rightarrow> now | Some t \<Rightarrow> t)
      in [(''session_id'', VStr sid), (''warehouse'', dget s ''warehouse''),
          (''floor'', py_or (dget s ''floor'') (dget s ''floor_no'')), (''floor_no'', dget s ''floor_no''),
          (''location_name'', dget s ''location_name''), (''location_type'', dget s ''location_type''),
          (''rack_no'', dget s ''rack_no''), (''rack_id'', dget s ''rack_id''),
          (''staff_user'', dget s ''staff_user''),
          (''username'', py_or (dget s ''username'') (dget s ''staff_user'')),
          (''staff_name'', dget s ''staff_name''), (''user_id'', dget s ''user_id''),
          (''status'', dget s ''status''), (''finalization_status'', dget s ''finalization_status''),
          (''started_at'', dget s ''started_at''),
          (''created_at'', py_or (dget s ''created_at'') (dget s ''started_at'')),
          (''completed_at'', dget s ''completed_at''), (''closed_at'', dget s ''closed_at''),
          (''finalized_at'', dget s ''finalized_at''), (''finalized_by'', dget s ''finalized_by''),
          (''reconciled_at'', dget s ''reconciled_at''), (''last_heartbeat'', dget s ''last_heartbeat''),
          (''last_activity'', py_or (dget a ''last_activity'') (dget s ''last_activity'')),
          (''total_items'', dget a ''total_items''), (''verified_items'', dget a ''verified_items''),
          (''pending_items'', dget a ''pending_items''), (''damage_items'', dget a ''damage_items''),
          (''total_variance'', dget a ''total_variance''),
          (''positive_variance'', dget a ''positive_variance''),
          (''negative_variance'', dget a ''negative_variance''),
          (''pending_approvals'', dget a ''pending_approvals''),
          (''completion_percent'', dget a ''completion_percent''),
          (''snapshot_hash'', dget s ''snapshot_hash''),
          (''snapshot_item_count'', dget s ''snapshot_item_count''),
          (''notes'', py_or (dget s ''notes'') (dget s ''lifecycle_note'')), (''type'', dget s ''type''),
          (''version'', VInt (coerce_version (dget s ''version''))), (''last_event_id'', VNone),
          (''last_event_type'', VStr trigger), (''last_event_ts'', naive now),
          (''source_updated_at'', naive source_updated_at), (''updated_at'', naive now),
          (''projection_updated_at'', naive now), (''projection_version'', VStr PROJECTION_VERSION),
          (''archived'', VBool False), (''backfill_source'', VStr (''write:'' @ trigger)),
          (''backfilled_at'', naive now)])"

section \<open>Item projections\<close>

definition line_id :: "repr \<Rightarrow> doc \<Rightarrow> val" where
  "line_id rp line =
     py_or (dget line ''id'') (VStr (py_str rp (py_or (dget line ''_id'') (VStr []))))"

definition financial_impact :: "doc \<Rightarrow> rat" where
  "financial_impact line =
     (let f = as_float (dget line ''financial_impact''); u = resolve_unit_value line
      in if f = 0 \<and> u \<noteq> 0
         then (as_float (dget line ''counted_qty'') - as_float (dget line ''erp_qty'')) * u else f)"

definition verified_doc :: "repr \<Rightarrow> int \<Rightarrow> string \<Rightarrow> doc \<Rightarrow> doc \<Rightarrow> doc" where
  "verified_doc rp now sid session_doc line =
     (let stock_qty = as_float (dget line ''erp_qty''); variance = as_float (dget line ''variance'');
          flag = (\<lambda>k. VBool (truthy (dget_or line k (VBool False))))
      in [(''count_line_id'', line_id rp line),
          (''approval_status'', VStr (writer_get_effective_approval_status line)),
          (''approved_at'', dget line ''approved_at''), (''approved_by'', dget line ''approved_by''),
          (''barcode'', dget line ''barcode''), (''batch_id'', dget line ''batch_id''),
          (''blind_recount_required'', flag ''blind_recount_required''),
          (''category'', dget line ''category''), (''counted_at'', dget line ''counted_at''),
          (''counted_by'', dget line ''counted_by''),
          (''counted_qty'', VFloat (as_float (dget line ''counted_qty''))),
          (''damaged_qty'', VFloat (as_float (dget line ''damaged_qty''))),
          (''dual_verification_required'', flag ''dual_verification_required''),
          (''floor'', py_or (dget line ''floor_no'') (dget line ''floor'')),
          (''financial_impact'', VFloat (financial_impact line)), (''id'', line_id rp line),
          (''is_removed'', flag ''is_removed''), (''item_code'', dget line ''item_code''),
          (''item_id'', py_or (dget line ''item_id'') (dget line ''item_code'')),
          (''item_name'', dget line ''item_name''), (''last_event_id'', VNone),
          (''last_event_type'', VStr ''write_sync''), (''last_event_ts'', naive now),
          (''mrp'', if set_value (dget line ''mrp_counted'') then dget line ''mrp_counted''
                    else dget line ''mrp_erp''),
          (''mrp_erp'', dget line ''mrp_erp''),
          (''notes'', py_or (dget line ''notes'') (py_or (dget line ''remark'') (dget line ''variance_note''))),
          (''original_count_hidden'', flag ''original_count_hidden''),
          (''projection_version'', VStr PROJECTION_VERSION),
          (''rack_id'', py_or (dget line ''rack_id'') (dget line ''rack_no'')),
          (''rack_no'', py_or (dget line ''rack_no'') (dget line ''rack_id'')),
          (''session_id'', VStr sid), (''status'', VStr (writer_get_effective_count_line_status line)),
          (''stock_qty'', VFloat stock_qty), (''unit_value'', VFloat (resolve_unit_value line)),
          (''updated_at'', naive now), (''projection_updated_at'', naive now),
          (''variance'', VFloat variance),
          (''variance_percentage'', VFloat (compute_variance_percentage variance stock_qty)),
          (''verified'', VBool (writer_is_count_line_effectively_reviewed line)),
          (''verified_at'', dget line ''verified_at''), (''verified_by'', dget line ''verified_by''),
          (''warehouse'', dget session_doc ''warehouse''), (''archived'', VBool False)])"

definition variance_doc :: "repr \<Rightarrow> int \<Rightarrow> string \<Rightarrow> doc \<Rightarrow> doc \<Rightarrow> doc" where
  "variance_doc rp now sid session_doc line =
     verified_doc rp now sid session_doc line @
     [(''assigned_to'', dget line ''assigned_to''), (''rejection_reason'', dget line ''rejection_reason'')]"

record financial =
  stock_qty_sum :: rat
  counted_qty_sum :: rat
  stock_value :: rat
  counted_value :: rat
  overage_value :: rat
  shortage_value :: rat
  damage_value :: rat

definition no_financial :: financial where
  "no_financial = \<lparr>stock_qty_sum = 0, counted_qty_sum = 0, stock_value = 0, counted_value = 0,
     overage_value = 0, shortage_value = 0, damage_value = 0\<rparr>"

definition financial_line :: "financial \<Rightarrow> doc \<Rightarrow> financial" where
  "financial_line f line =
     (let stock_qty = as_float (dget line ''erp_qty''); counted_qty = as_float (dget line ''counted_qty'');
          u = resolve_unit_value line; delta = (counted_qty - stock_qty) * u
      in \<lparr>stock_qty_sum = stock_qty_sum f + stock_qty,
          counted_qty_sum = counted_qty_sum f + counted_qty,
          stock_value = stock_value f + stock_qty * u,
          counted_value = counted_value f + counted_qty * u,
          overage_value = overage_value f + (if delta \<ge> 0 then delta else 0),
          shortage_value = shortage_value f + (if delta \<ge> 0 then 0 else \<bar>delta\<bar>),
          damage_value = damage_value f + as_float (dget line ''damaged_qty'') * u\<rparr>)"

definition financial_totals :: "doc list \<Rightarrow> financial" where
  "financial_totals lines = foldl financial_line no_financial lines"

definition financial_doc :: "int \<Rightarrow> string \<Rightarrow> doc list \<Rightarrow> doc" where
  "financial_doc now sid lines =
     (let f = financial_totals lines
      in [(''session_id'', VStr sid),
          (''complete_percent'', VFloat (percent
             (length (filter writer_is_count_line_effectively_reviewed lines)) (length lines))),
          (''damage_value'', VFloat (py_round 4 (damage_value f))),
          (''overage_value'', VFloat (py_round 4 (overage_value f))),
          (''projection_version'', VStr PROJECTION_VERSION),
          (''shortage_value'', VFloat (py_round 4 (shortage_value f))),
          (''last_event_ts'', naive now),
          (''total_counted_qty'', VFloat (py_round 4 (counted_qty_sum f))),
          (''total_counted_value'', VFloat (py_round 4 (counted_value f))),
          (''total_stock_qty'', VFloat (py_round 4 (stock_qty_sum f))),
          (''total_stock_value'', VFloat (py_round 4 (stock_value f))),
          (''updated_at'', naive now), (''projection_updated_at'', naive now),
          (''valuation_basis'', VStr ''last_cost''), (''archived'', VBool False)])"

text \<open>\<open>scopes\<close> is \<open>item_projection_scopes\<close>; the empty list stands for \<open>None\<close> or the empty set.\<close>

definition live_rows :: "string \<Rightarrow> query" where
  "live_rows sid = [(''session_id'', CEq (VStr sid)), (''archived'', CNe (VBool True))]"

definition clear_rows :: "'db projector \<Rightarrow> string \<Rightarrow> string \<Rightarrow> ('db, unit) comp" where
  "clear_rows W c sid = bindM (delete_many (pstore W) c (live_rows sid)) (\<lambda>_. returnM ())"

definition rebuild_item_projections ::
  "'db projector \<Rightarrow> int \<Rightarrow> string \<Rightarrow> doc \<Rightarrow> doc list \<Rightarrow> string list \<Rightarrow> ('db, unit) comp" where
  "rebuild_item_projections W now sid session_doc active_lines item_scopes =
     (let scopes = (if item_scopes = [] then [''verified'', ''variance'', ''financial''] else item_scopes)
      in bindM (whenM (''verified'' \<in> set scopes) (clear_rows W ''verified_items_projection'' sid)) (\<lambda>_.
         bindM (whenM (''variance'' \<in> set scopes) (clear_rows W ''variance_summary_projection'' sid)) (\<lambda>_.
         bindM (whenM (''financial'' \<in> set scopes) (clear_rows W ''financial_projection'' sid)) (\<lambda>_.
         bindM (whenM (active_lines \<noteq> [] \<and> ''verified'' \<in> set scopes)
           (insert_many (pstore W) ''verified_items_projection''
             (map (verified_doc (prepr W) now sid session_doc) active_lines))) (\<lambda>_.
         bindM (whenM (active_lines \<noteq> [] \<and> ''variance'' \<in> set scopes)
           (insert_many (pstore W) ''variance_summary_projection''
             (map (variance_doc (prepr W) now sid session_doc) active_lines))) (\<lambda>_.
         whenM (''financial'' \<in> set scopes)
           (bindM (insert_one (pstore W) ''financial_projection'' (financial_doc now sid active_lines))
             (\<lambda>_. returnM ()))))))))"

definition sync_single_session ::
  "'db projector \<Rightarrow> int \<Rightarrow> string \<Rightarrow> doc \<Rightarrow> string \<Rightarrow> string \<Rightarrow> bool \<Rightarrow> string list \<Rightarrow> ('db, unit) comp" where
  "sync_single_session W now sid session_doc trigger actor rebuild item_scopes =
     bindM (load_active_count_lines W sid) (\<lambda>active_lines.
     bindM (upsert_one (pstore W) ''session_dashboard_projection'' [(''session_id'', CEq (VStr sid))]
       [(''$set'', VDict (session_projection_doc W now sid session_doc trigger active_lines))]) (\<lambda>_.
     bindM (whenM rebuild
       (rebuild_item_projections W now sid session_doc active_lines item_scopes)) (\<lambda>_.
     bindM (insert_one (pstore W) ''event_log''
       [(''session_id'', VStr sid), (''event_type'', VStr trigger), (''actor'', VStr actor),
        (''session_version'', VInt (coerce_version (dget session_doc ''version''))),
        (''source_updated_at'', naive (case resolve_source_updated_at (time_of W) session_doc of
            None \<Rightarrow> now | Some t \<Rightarrow> t)),
        (''projection_updated_at'', naive now), (''projection_version'', VStr PROJECTION_VERSION),
        (''created_at'', naive now)]) (\<lambda>_. returnM ()))))"

definition sync_body ::
  "'db projector \<Rightarrow> int \<Rightarrow> string \<Rightarrow> string \<Rightarrow> bool \<Rightarrow> string list \<Rightarrow> string \<Rightarrow> ('db, unit) comp" where
  "sync_body W now trigger actor rebuild item_scopes sid =
     bindM (find_one (pstore W) ''sessions'' (session_lookup sid)) (\<lambda>r.
     (case r of
        None \<Rightarrow> returnM ()
      | Some session_doc \<Rightarrow>
          sync_single_session W now sid session_doc trigger actor rebuild item_scopes))"

definition sync_locked ::
  "'db projector \<Rightarrow> int \<Rightarrow> string \<Rightarrow> string \<Rightarrow> bool \<Rightarrow> string list \<Rightarrow> bool \<Rightarrow> string \<Rightarrow> ('db, unit) comp" where
  "sync_locked W now trigger actor rebuild item_scopes skip_session_lock sid =
     (if lock_enabled W \<and> \<not> skip_session_lock
      then bindM (acquire W sid) (\<lambda>lock_acquired.
           finallyM (sync_body W now trigger actor rebuild item_scopes sid)
             (whenM lock_acquired (release W sid)))
      else sync_body W now trigger actor rebuild item_scopes sid)"

definition unique_session_ids :: "string list \<Rightarrow> string list" where
  "unique_session_ids ids = sort (remdups (filter (\<lambda>s. s \<noteq> []) (map strip ids)))"

definition sync_for_sessions ::
  "'db projector \<Rightarrow> int \<Rightarrow> string list \<Rightarrow> string \<Rightarrow> string \<Rightarrow> bool \<Rightarrow> string list \<Rightarrow> bool \<Rightarrow> ('db, unit) comp" where
  "sync_for_sessions W now ids trigger actor rebuild item_scopes skip_session_lock =
     forM (unique_session_ids ids) (sync_locked W now trigger actor rebuild item_scopes skip_session_lock)"


section \<open>The copies agree with the canonical inventory\<close>

lemma writer_normalize_eq:
  "writer_normalize_count_line_status = normalize_count_line_status"
  "writer_normalize_approval_status = normalize_approval_status"
  by (simp_all add: fun_eq_iff writer_normalize_count_line_status_def normalize_count_line_status_def
      writer_normalize_approval_status_def normalize_approval_status_def)

lemma writer_requires_eq:
  "writer_requires_supervisor_review = count_line_requires_supervisor_review"
  by (simp add: fun_eq_iff writer_requires_supervisor_review_def count_line_requires_supervisor_review_def
      requires_supervisor_review_for_variance_def)

lemma writer_reviewed_eq:
  "writer_is_count_line_effectively_reviewed = is_count_line_effectively_reviewed"
  by (simp add: fun_eq_iff writer_is_count_line_effectively_reviewed_def
      is_count_line_effectively_reviewed_def writer_normalize_eq writer_requires_eq)

lemma writer_superseded_eq: "writer_is_superseded_count_line = is_superseded_count_line"
  by (simp add: fun_eq_iff writer_is_superseded_count_line_def is_superseded_count_line_def
      writer_normalize_eq)

lemma writer_status_eq:
  "writer_get_effective_count_line_status = get_effective_count_line_status"
  "writer_get_effective_approval_status = get_effective_approval_status"
  by (simp_all add: fun_eq_iff writer_get_effective_count_line_status_def
      get_effective_count_line_status_def writer_get_effective_approval_status_def
      get_effective_approval_status_def writer_normalize_eq writer_reviewed_eq Let_def)

section \<open>Aggregates\<close>

lemma aggregates_fold:
  "let a = foldl (aggregate_line tm) b lines in
     ag_total a = ag_total b + length lines \<and>
     ag_verified a = ag_verified b + length (filter is_count_line_effectively_reviewed lines) \<and>
     ag_pending_approvals a = ag_pending_approvals b +
       length (filter (\<lambda>l. get_effective_approval_status l \<noteq> ''APPROVED'') lines) \<and>
     ag_variance a - ag_positive a - ag_negative a = ag_variance b - ag_positive b - ag_negative b"
proof (induction lines arbitrary: b)
  case (Cons l lines)
  from Cons.IH [of "aggregate_line tm b l"] show ?case
    by (simp add: Let_def aggregate_line_def writer_reviewed_eq writer_status_eq)
qed simp

lemma aggregates_counts:
  "ag_total (aggregates_of tm lines) = length lines"
  "ag_verified (aggregates_of tm lines) = length (filter is_count_line_effectively_reviewed lines)"
  "ag_pending_approvals (aggregates_of tm lines) =
     length (filter (\<lambda>l. get_effective_approval_status l \<noteq> ''APPROVED'') lines)"
  using aggregates_fold [of tm no_aggregates lines]
  by (simp_all add: aggregates_of_def no_aggregates_def Let_def)

lemma aggregates_variance:
  "ag_positive (aggregates_of tm lines) + ag_negative (aggregates_of tm lines) =
     ag_variance (aggregates_of tm lines)"
  using aggregates_fold [of tm no_aggregates lines]
  by (simp add: aggregates_of_def no_aggregates_def Let_def)

lemma aggregates_signs_fold:
  "ag_positive b \<ge> 0 \<Longrightarrow> ag_negative b \<le> 0 \<Longrightarrow>
   ag_positive (foldl (aggregate_line tm) b lines) \<ge> 0 \<and>
   ag_negative (foldl (aggregate_line tm) b lines) \<le> 0"
  by (induction lines arbitrary: b) (simp_all add: aggregate_line_def Let_def)

lemma round_half_even_mono_int: "q \<le> of_int n \<Longrightarrow> round_half_even q \<le> n"
proof -
  assume q: "q \<le> of_int n"
  show ?thesis
  proof (cases "q = of_int n")
    case False
    with q have "q < of_int n" by simp
    then have "\<lfloor>q\<rfloor> + 1 \<le> n" by linarith
    then show ?thesis by (auto simp: round_half_even_def Let_def)
  qed simp
qed

lemma round_half_even_nonneg: "0 \<le> q \<Longrightarrow> 0 \<le> round_half_even q"
  by (auto simp: round_half_even_def Let_def)

lemma percent_bounds:
  assumes "part \<le> whole"
  shows "0 \<le> percent part whole \<and> percent part whole \<le> 100"
proof (cases "whole = 0")
  case False
  let ?q = "of_nat part / of_nat whole * 100 * 10 ^ 2 :: rat"
  have "of_nat part / of_nat whole \<le> (1 :: rat)" using assms False by simp
  then have "?q \<le> of_int 10000" by simp
  then have "round_half_even ?q \<le> 10000" by (rule round_half_even_mono_int)
  moreover have "0 \<le> round_half_even ?q" by (rule round_half_even_nonneg) simp
  ultimately have "(of_int (round_half_even ?q) :: rat) \<le> 10000" "(0 :: rat) \<le> of_int (round_half_even ?q)"
    by linarith+
  with False show ?thesis by (simp add: percent_def py_round_def)
qed (simp add: percent_def)

definition imbalance :: "financial \<Rightarrow> rat" where
  "imbalance f = counted_value f - stock_value f - (overage_value f - shortage_value f)"

lemma financial_line_balance: "imbalance (financial_line f line) = imbalance f"
  by (simp add: imbalance_def financial_line_def Let_def left_diff_distrib)

lemma financial_balance_fold: "imbalance (foldl financial_line f lines) = imbalance f"
  by (induction lines arbitrary: f) (simp_all add: financial_line_balance)

lemma financial_signs_fold:
  "overage_value f \<ge> 0 \<Longrightarrow> shortage_value f \<ge> 0 \<Longrightarrow>
   overage_value (foldl financial_line f lines) \<ge> 0 \<and> shortage_value (foldl financial_line f lines) \<ge> 0"
  by (induction lines arbitrary: f) (simp_all add: financial_line_def Let_def)

section \<open>What the writer touches\<close>

definition PROJECTION_COLLECTIONS :: "string list" where
  "PROJECTION_COLLECTIONS =
     [''session_dashboard_projection'', ''verified_items_projection'', ''variance_summary_projection'',
      ''financial_projection'', ''event_log'']"

text \<open>
  The contract of a projection writer towards the services that call it: the lock operations
  stay inside \<open>locks\<close>, and the collection named \<open>k\<close> is neither.
\<close>

locale projection_writer = document_store "pstore W" for W :: "'db projector" +
  assumes acquire_frame: "k \<noteq> ''locks'' \<Longrightarrow> keeps (\<lambda>db. P (docs (pstore W) k db)) (acquire W sid)"
    and release_frame: "k \<noteq> ''locks'' \<Longrightarrow> keeps (\<lambda>db. P (docs (pstore W) k db)) (release W sid)"
begin

lemma keeps_rebuild_item_projections:
  assumes "k \<notin> set PROJECTION_COLLECTIONS"
  shows "keeps (\<lambda>db. P (docs (pstore W) k db))
    (rebuild_item_projections W now sid session_doc lines item_scopes)"
  using assms unfolding rebuild_item_projections_def clear_rows_def Let_def PROJECTION_COLLECTIONS_def
  by (intro keeps_intros keeps_other) auto

lemma keeps_sync_single_session:
  assumes "k \<notin> set PROJECTION_COLLECTIONS"
  shows "keeps (\<lambda>db. P (docs (pstore W) k db))
    (sync_single_session W now sid session_doc trigger actor rebuild item_scopes)"
  using assms keeps_rebuild_item_projections [OF assms]
  unfolding sync_single_session_def load_active_count_lines_def PROJECTION_COLLECTIONS_def
  by (intro keeps_intros keeps_other) auto

lemma keeps_sync_body:
  assumes "k \<notin> set PROJECTION_COLLECTIONS"
  shows "keeps (\<lambda>db. P (docs (pstore W) k db)) (sync_body W now trigger actor rebuild item_scopes sid)"
  unfolding sync_body_def
  by (intro keeps_intros) (auto intro: keeps_sync_single_session [OF assms] split: option.split)

lemma keeps_sync_for_sessions:
  assumes "k \<notin> set PROJECTION_COLLECTIONS" and "k \<noteq> ''locks''"
  shows "keeps (\<lambda>db. P (docs (pstore W) k db))
    (sync_for_sessions W now ids trigger actor rebuild item_scopes skip_session_lock)"
  unfolding sync_for_sessions_def sync_locked_def
  by (intro keeps_intros keeps_sync_body [OF assms(1)] acquire_frame [OF assms(2)]
      release_frame [OF assms(2)])

end

section \<open>Rebuilt rows\<close>

lemma live_row_of_line:
  "match_filter (live_rows sid) (dset_default ''_id'' i (verified_doc rp now sid s line))"
  by (simp add: live_rows_def verified_doc_def Let_def field_values_def dget_def doc_simps)

lemma row_line_id: "dget (dset_default ''_id'' i (verified_doc rp now sid s line)) ''count_line_id'' = line_id rp line"
  by (simp add: verified_doc_def Let_def dget_def doc_simps)

lemma rows_line_ids:
  "length ids = length lines \<Longrightarrow>
   map (\<lambda>row. dget row ''count_line_id'')
     (map2 (\<lambda>i l. dset_default ''_id'' i (verified_doc rp now sid s l)) ids lines) = map (line_id rp) lines"
  by (induction ids lines rule: list_induct2) (simp_all add: row_line_id)

context document_store
begin

lemma rebuild_verified_rows:
  assumes W: "pstore W = S" and scope: "item_scopes = [] \<or> ''verified'' \<in> set item_scopes"
    and run: "rebuild_item_projections W now sid session_doc lines item_scopes db = (Inr (), db')"
  shows "map (\<lambda>row. dget row ''count_line_id'')
      (filter (match_filter (live_rows sid)) (docs S ''verified_items_projection'' db')) =
    map (line_id (prepr W)) lines"
proof -
  let ?c = "''verified_items_projection''"
  let ?scopes = "if item_scopes = [] then [''verified'', ''variance'', ''financial''] else item_scopes"
  let ?ds = "map (verified_doc (prepr W) now sid session_doc) lines"
  have v: "''verified'' \<in> set ?scopes" using scope by auto
  define mid where "mid = bindM (whenM (''variance'' \<in> set ?scopes) (clear_rows W ''variance_summary_projection'' sid)) (\<lambda>_.
         whenM (''financial'' \<in> set ?scopes) (clear_rows W ''financial_projection'' sid))"
  define tail where "tail = bindM (whenM (lines \<noteq> [] \<and> ''variance'' \<in> set ?scopes)
           (insert_many (pstore W) ''variance_summary_projection''
             (map (variance_doc (prepr W) now sid session_doc) lines))) (\<lambda>_.
         whenM (''financial'' \<in> set ?scopes)
           (bindM (insert_one (pstore W) ''financial_projection'' (financial_doc now sid lines))
             (\<lambda>_. returnM ())))"
  have eq: "rebuild_item_projections W now sid session_doc lines item_scopes =
      bindM (clear_rows W ?c sid) (\<lambda>_. bindM mid (\<lambda>_.
      bindM (whenM (lines \<noteq> []) (insert_many S ?c ?ds)) (\<lambda>_. tail)))"
    using v by (simp add: rebuild_item_projections_def Let_def mid_def tail_def bindM_assoc W whenM_def)
  have mid_keeps: "keeps (\<lambda>db. P (docs S ?c db)) mid" for P
    unfolding mid_def clear_rows_def W by (intro keeps_intros keeps_other) simp_all
  have tail_keeps: "keeps (\<lambda>db. P (docs S ?c db)) tail" for P
    unfolding tail_def W by (intro keeps_intros keeps_other) simp_all
  obtain n d1 where "delete_many_doc S ?c (live_rows sid) db = (n, d1)"
    by (cases "delete_many_doc S ?c (live_rows sid) db")
  note del = this delete_many_law [OF this]
  have 1: "clear_rows W ?c sid db = (Inr (), d1)"
    using del(1) by (simp add: clear_rows_def delete_many_def run_simps W)
  from run 1 obtain x d2 y d3 where
    2: "mid d1 = (Inr x, d2)" and 3: "whenM (lines \<noteq> []) (insert_many S ?c ?ds) d2 = (Inr y, d3)"
    and 4: "tail d3 = (Inr (), db')"
    unfolding eq by (auto simp: run_iff)
  have "\<exists>ids. length ids = length ?ds \<and>
      docs S ?c d3 = docs S ?c d2 @ map2 (\<lambda>i d. dset_default ''_id'' i d) ids ?ds"
    using 3 insert_many_docs [of ?c ?ds d2] by (cases "lines = []") (auto simp: run_iff)
  then obtain ids where ids: "length ids = length ?ds"
    "docs S ?c d3 = docs S ?c d2 @ map2 (\<lambda>i d. dset_default ''_id'' i d) ids ?ds" by blast
  have "docs S ?c db' = filter (Not \<circ> match_filter (live_rows sid)) (docs S ?c db) @
      map2 (\<lambda>i l. dset_default ''_id'' i (verified_doc (prepr W) now sid session_doc l)) ids lines"
    using del(2) keeps_eqD [where f = "docs S ?c", OF mid_keeps 2]
      keeps_eqD [where f = "docs S ?c", OF tail_keeps 4] ids(2)
    by (simp add: zip_map2 split_beta)
  moreover have "filter (match_filter (live_rows sid))
      (map2 (\<lambda>i l. dset_default ''_id'' i (verified_doc (prepr W) now sid session_doc l)) ids lines) =
      map2 (\<lambda>i l. dset_default ''_id'' i (verified_doc (prepr W) now sid session_doc l)) ids lines"
    by (rule filter_True) (auto simp: live_row_of_line)
  moreover have "map (\<lambda>row. dget row ''count_line_id'')
      (map2 (\<lambda>i l. dset_default ''_id'' i (verified_doc (prepr W) now sid session_doc l)) ids lines) =
      map (line_id (prepr W)) lines"
    using ids(1) by (intro rows_line_ids) simp
  ultimately show ?thesis by (simp add: filter_empty_conv)
qed
end

section \<open>Properties\<close>

text \<open>The projection writer's own copies of the review-state functions agree with the
  canonical inventory on every count line.\<close>

theorem writer_copies_canonical:
  "writer_is_count_line_effectively_reviewed line = is_count_line_effectively_reviewed line \<and>
   writer_get_effective_count_line_status line = get_effective_count_line_status line \<and>
   writer_get_effective_approval_status line = get_effective_approval_status line \<and>
   writer_is_superseded_count_line line = is_superseded_count_line line"
  by (simp add: writer_reviewed_eq writer_status_eq writer_superseded_eq)

text \<open>The dashboard aggregates of a set of active lines: the total counts the lines, verified
  and pending add up to it, pending approvals are the lines whose effective approval is not
  APPROVED, the positive and the negative variance add up to the total variance before
  rounding, and the completion percentage lies between 0 and 100.\<close>

theorem dashboard_aggregates_consistent:
  "dget (compute_aggregates tm lines) ''total_items'' = VInt (int (length lines)) \<and>
   dget (compute_aggregates tm lines) ''verified_items'' =
     VInt (int (length (filter is_count_line_effectively_reviewed lines))) \<and>
   dget (compute_aggregates tm lines) ''pending_items'' =
     VInt (int (length lines) - int (length (filter is_count_line_effectively_reviewed lines))) \<and>
   dget (compute_aggregates tm lines) ''pending_approvals'' =
     VInt (int (length (filter (\<lambda>l. get_effective_approval_status l \<noteq> ''APPROVED'') lines))) \<and>
   ag_positive (aggregates_of tm lines) + ag_negative (aggregates_of tm lines) = ag_variance (aggregates_of tm lines) \<and>
   (\<exists>p. dget (compute_aggregates tm lines) ''completion_percent'' = VFloat p \<and> 0 \<le> p \<and> p \<le> 100)"
proof -
  have "length (filter is_count_line_effectively_reviewed lines) \<le> length lines" by simp
  then show ?thesis
    using percent_bounds [of "length (filter is_count_line_effectively_reviewed lines)" "length lines"]
      aggregates_variance [of tm lines]
    by (simp add: compute_aggregates_def Let_def dget_def aggregates_counts)
qed

text \<open>The financial projection balances: before rounding, overage minus shortage is the counted
  value minus the stock value, and neither is negative.\<close>

theorem financial_projection_balances:
  "overage_value (financial_totals lines) - shortage_value (financial_totals lines) =
     counted_value (financial_totals lines) - stock_value (financial_totals lines) \<and>
   overage_value (financial_totals lines) \<ge> 0 \<and> shortage_value (financial_totals lines) \<ge> 0"
  using financial_balance_fold [of no_financial lines] financial_signs_fold [of no_financial lines]
  by (simp add: financial_totals_def imbalance_def no_financial_def)

text \<open>Projections never touch the books: whether it succeeds or raises, a synchronisation leaves
  every collection outside the projections, the event log and the locks as it was.\<close>

theorem sync_leaves_sources_alone:
  assumes "projection_writer W" and "k \<notin> set PROJECTION_COLLECTIONS" and "k \<noteq> ''locks''"
    and "sync_for_sessions W now ids trigger actor rebuild item_scopes skip db = (r, db')"
  shows "docs (pstore W) k db' = docs (pstore W) k db"
  by (rule keeps_eqD [where f = "docs (pstore W) k", OF projection_writer.keeps_sync_for_sessions [OF assms(1-3)] assms(4)])


end
