(* ===== verification/MongoLocks.thy ===== *)
theory MongoLocks
  imports ProjectionWriter
begin

text \<open>
  \<open>backend/services/locking/mongo_service.py\<close> (\<open>LockService\<close>, locks as documents of the
  collection \<open>locks\<close> whose \<open>_id\<close> is the key) and the waiting loop with which the projection
  writer takes its session lock (\<open>_acquire_session_lock\<close>, \<open>_release_session_lock\<close>).

  Mongo refuses a second document with the same \<open>_id\<close>; the in-memory database does not. The
  insertion is therefore a field of the record \<open>lock_service\<close>, with the documented behaviour
  as the locale \<open>unique_inserts\<close>, and \<open>unique_insert\<close> is an insertion that has it on any
  document store.

  Instants are microseconds. In the waiting loop \<open>clock n\<close> is the time of the \<open>n\<close>-th attempt
  and \<open>env n\<close> what the other tasks did to the database during the sleep after it.
\<close>

section \<open>Locks\<close>

record 'db lock_service =
  kstore :: "'db store"
  unique_insert_doc :: "string \<Rightarrow> doc \<Rightarrow> ('db, val) comp"

definition lock_filter :: "string \<Rightarrow> query" where
  "lock_filter key = [(''_id'', CEq (VStr key))]"

definition lock_doc :: "int \<Rightarrow> string \<Rightarrow> string \<Rightarrow> int \<Rightarrow> doc" where
  "lock_doc now key owner ttl_seconds =
     [(''_id'', VStr key), (''owner'', VStr owner), (''created_at'', naive now),
      (''expires_at'', naive (now + ttl_seconds * 1000000))]"

text \<open>\<open>existing_lock["expires_at"] < now\<close>: a missing key and a value that is no naive datetime raise.\<close>

definition stale :: "int \<Rightarrow> doc \<Rightarrow> bool res" where
  "stale now lock =
     (if \<not> dhas lock ''expires_at'' then Inl (KeyError ''expires_at'')
      else (case dget lock ''expires_at'' of
              VDate t None \<Rightarrow> Inr (t < now)
            | _ \<Rightarrow> Inl (TypeError ''not a naive datetime'')))"

definition handle_duplicate :: "'db lock_service \<Rightarrow> int \<Rightarrow> string \<Rightarrow> string \<Rightarrow> ('db, bool) comp" where
  "handle_duplicate K now key owner =
     (let refuse = raiseM (ResourceLockedError (''Resource '' @ key @ '' is currently locked.''))
      in bindM (find_one (kstore K) ''locks'' (lock_filter key)) (\<lambda>r.
         (case r of
            None \<Rightarrow> refuse
          | Some lock \<Rightarrow>
              if lock = [] then refuse
              else bindM (liftM (stale now lock)) (\<lambda>old.
                   bindM (whenM old (bindM (delete_one (kstore K) ''locks''
                     (lock_filter key @ [(''expires_at'', CEq (dget lock ''expires_at''))]))
                     (\<lambda>_. returnM ()))) (\<lambda>_.
                   if py_eq (dget lock ''owner'') (VStr owner) then returnM True else refuse)))))"

definition acquire_lock ::
  "'db lock_service \<Rightarrow> int \<Rightarrow> string \<Rightarrow> string \<Rightarrow> int \<Rightarrow> ('db, bool) comp" where
  "acquire_lock K now key owner ttl_seconds = (\<lambda>db.
     case unique_insert_doc K ''locks'' (lock_doc now key owner ttl_seconds) db of
       (Inr _, db') \<Rightarrow> (Inr True, db')
     | (Inl e, db') \<Rightarrow>
         (case e of
            DuplicateKeyError _ \<Rightarrow> handle_duplicate K now key owner db'
          | _ \<Rightarrow> (Inl e, db')))"

definition release_lock :: "'db lock_service \<Rightarrow> string \<Rightarrow> string \<Rightarrow> ('db, unit) comp" where
  "release_lock K key owner =
     bindM (delete_one (kstore K) ''locks'' (lock_filter key @ [(''owner'', CEq (VStr owner))]))
       (\<lambda>_. returnM ())"

section \<open>The waiting loop of the projection writer\<close>

definition session_lock_key :: "string \<Rightarrow> string" where
  "session_lock_key sid = ''projection_session:'' @ sid"

text \<open>\<open>None\<close> means that the attempts ran out before the loop ended.\<close>

fun acquire_loop ::
  "'db lock_service \<Rightarrow> (nat \<Rightarrow> int) \<Rightarrow> (nat \<Rightarrow> 'db \<Rightarrow> 'db) \<Rightarrow> int \<Rightarrow> int \<Rightarrow> int \<Rightarrow> string \<Rightarrow> string \<Rightarrow>
   nat \<Rightarrow> nat \<Rightarrow> 'db \<Rightarrow> (bool res \<times> 'db) option" where
  "acquire_loop K clock env started timeout_ms ttl sid owner 0 n db = None"
| "acquire_loop K clock env started timeout_ms ttl sid owner (Suc attempts) n db =
     (case acquire_lock K (clock n) (session_lock_key sid) owner ttl db of
        (Inr _, db') \<Rightarrow> Some (Inr True, db')
      | (Inl e, db') \<Rightarrow>
          (case e of
             ResourceLockedError _ \<Rightarrow>
               if (clock n - started) div 1000 \<ge> timeout_ms then Some (Inl e, db')
               else acquire_loop K clock env started timeout_ms ttl sid owner attempts (Suc n) (env n db')
           | TypeError _ \<Rightarrow> Some (Inr False, db')
           | _ \<Rightarrow> Some (Inl e, db')))"

definition attempts_enough :: "int \<Rightarrow> int \<Rightarrow> nat" where
  "attempts_enough timeout_ms delay_ms = nat (timeout_ms div delay_ms) + 2"

definition acquire_session_lock ::
  "'db lock_service \<Rightarrow> (nat \<Rightarrow> int) \<Rightarrow> (nat \<Rightarrow> 'db \<Rightarrow> 'db) \<Rightarrow> int \<Rightarrow> int \<Rightarrow> int \<Rightarrow> string \<Rightarrow> string \<Rightarrow>
   ('db, bool) comp" where
  "acquire_session_lock K clock env timeout_ms delay_ms ttl owner sid = (\<lambda>db.
     case acquire_loop K clock env (clock 0) timeout_ms ttl sid owner
            (attempts_enough timeout_ms delay_ms) 0 db of
       Some r \<Rightarrow> r
     | None \<Rightarrow> (Inl (PyRuntimeError ''out of attempts''), db))"

definition release_session_lock :: "'db lock_service \<Rightarrow> string \<Rightarrow> string \<Rightarrow> ('db, unit) comp" where
  "release_session_lock K owner sid = release_lock K (session_lock_key sid) owner"

section \<open>The insertion contract\<close>

definition unique_insert :: "'db store \<Rightarrow> string \<Rightarrow> doc \<Rightarrow> ('db, val) comp" where
  "unique_insert S c d = (\<lambda>db.
     if list_ex (\<lambda>e. dget e ''_id'' = dget d ''_id'') (docs S c db)
     then (Inl (DuplicateKeyError (''E11000 duplicate key '' @ c)), db)
     else insert_one S c d db)"

locale unique_inserts = document_store "kstore K" for K :: "'db lock_service" +
  assumes unique_ok: "\<forall>e \<in> set (docs (kstore K) c db). dget e ''_id'' \<noteq> dget d ''_id'' \<Longrightarrow>
      \<exists>i db'. unique_insert_doc K c d db = (Inr i, db') \<and>
        docs (kstore K) c db' = docs (kstore K) c db @ [dset_default ''_id'' i d]"
    and unique_dup: "e \<in> set (docs (kstore K) c db) \<Longrightarrow> dget e ''_id'' = dget d ''_id'' \<Longrightarrow>
      \<exists>m. unique_insert_doc K c d db = (Inl (DuplicateKeyError m), db)"
    and unique_frame: "unique_insert_doc K c d db = (r, db') \<Longrightarrow> k \<noteq> c \<Longrightarrow>
      docs (kstore K) k db' = docs (kstore K) k db"

lemma unique_inserts_store:
  assumes "document_store S"
  shows "unique_inserts \<lparr>kstore = S, unique_insert_doc = unique_insert S\<rparr>"
proof -
  let ?K = "\<lparr>kstore = S, unique_insert_doc = unique_insert S\<rparr>"
  from assms have "document_store (kstore ?K)" by simp
  moreover have "unique_inserts_axioms ?K"
    using document_store.insert_one_docs [OF assms] document_store.insert_one_frame [OF assms]
      document_store.insert_one_run [OF assms]
    by unfold_locales
       (auto simp: unique_insert_def list_ex_iff split: if_splits, metis+)
  ultimately show ?thesis by (simp add: unique_inserts_def)
qed


text \<open>
  A well-formed lock table: string keys, each at most once. It is what the unique index and
  \<open>acquire_lock\<close> maintain.
\<close>

definition locks_wf :: "'db lock_service \<Rightarrow> 'db \<Rightarrow> bool" where
  "locks_wf K db \<longleftrightarrow>
     distinct (map (\<lambda>d. dget d ''_id'') (docs (kstore K) ''locks'' db)) \<and>
     (\<forall>d \<in> set (docs (kstore K) ''locks'' db). (\<exists>s. dget d ''_id'' = VStr s) \<and>
        (\<exists>s. dget d ''owner'' = VStr s) \<and> dhas d ''expires_at'' \<and> (\<exists>t. dget d ''expires_at'' = naive t))"

text \<open>The lock of a key and the instant until which it is held.\<close>

definition held :: "'db lock_service \<Rightarrow> 'db \<Rightarrow> string \<Rightarrow> string \<Rightarrow> int \<Rightarrow> bool" where
  "held K db key owner t \<longleftrightarrow>
     (\<exists>d \<in> set (docs (kstore K) ''locks'' db).
        dget d ''_id'' = VStr key \<and> dget d ''owner'' = VStr owner \<and> dget d ''expires_at'' = naive t)"

definition unlocked :: "'db lock_service \<Rightarrow> 'db \<Rightarrow> string \<Rightarrow> bool" where
  "unlocked K db key \<longleftrightarrow> (\<forall>d \<in> set (docs (kstore K) ''locks'' db). dget d ''_id'' \<noteq> VStr key)"

lemma field_value_scalar: "CHR ''.'' \<notin> set k \<Longrightarrow> \<forall>xs. dget d k \<noteq> VList xs \<Longrightarrow> field_values d k = [dget d k]"
  by (auto simp: field_values_def split: val.splits)

lemma match_lock_filter:
  assumes "dget d ''_id'' = VStr s"
  shows "match_filter (lock_filter key) d \<longleftrightarrow> s = key"
  using assms field_value_scalar [of "''_id''" d] by (auto simp: lock_filter_def)

lemma filter_single:
  assumes "distinct (map f xs)" "x \<in> set xs" "\<And>y. y \<in> set xs \<Longrightarrow> P y \<longleftrightarrow> f y = f x"
  shows "filter P xs = [x]"
  using assms
proof (induction xs)
  case (Cons y ys)
  show ?case
  proof (cases "y = x")
    case True
    with Cons.prems have "\<forall>z \<in> set ys. \<not> P z" by (metis distinct.simps(2) image_eqI list.map(2) list.set_intros(2) set_map)
    with True Cons.prems show ?thesis by (simp add: filter_empty_conv)
  next
    case False
    with Cons.prems have "x \<in> set ys" by simp
    with Cons.prems have "f y \<noteq> f x" by auto
    with Cons \<open>x \<in> set ys\<close> show ?thesis by simp
  qed
qed simp

context unique_inserts
begin

lemma locks_wf_id: "locks_wf K db \<Longrightarrow> d \<in> set (docs (kstore K) ''locks'' db) \<Longrightarrow> \<exists>s. dget d ''_id'' = VStr s"
  by (simp add: locks_wf_def)

lemma find_lock:
  assumes wf: "locks_wf K db" and d: "d \<in> set (docs (kstore K) ''locks'' db)" "dget d ''_id'' = VStr key"
  shows "filter (match_filter (lock_filter key)) (docs (kstore K) ''locks'' db) = [d]"
proof (rule filter_single)
  show "distinct (map (\<lambda>d. dget d ''_id'') (docs (kstore K) ''locks'' db))"
    using wf by (simp add: locks_wf_def)
  fix e assume "e \<in> set (docs (kstore K) ''locks'' db)"
  with wf obtain s where "dget e ''_id'' = VStr s" by (auto dest: locks_wf_id)
  with d(2) show "match_filter (lock_filter key) e \<longleftrightarrow> dget e ''_id'' = dget d ''_id''"
    by (simp add: match_lock_filter)
qed (rule d)

lemma acquire_free:
  assumes "unlocked K db key"
  shows "\<exists>db'. acquire_lock K now key owner ttl db = (Inr True, db') \<and>
    docs (kstore K) ''locks'' db' = docs (kstore K) ''locks'' db @ [lock_doc now key owner ttl]"
proof -
  have "\<forall>e \<in> set (docs (kstore K) ''locks'' db). dget e ''_id'' \<noteq> dget (lock_doc now key owner ttl) ''_id''"
    using assms by (simp add: unlocked_def lock_doc_def dget_def)
  from unique_ok [OF this] obtain i db' where
    "unique_insert_doc K ''locks'' (lock_doc now key owner ttl) db = (Inr i, db')"
    "docs (kstore K) ''locks'' db' = docs (kstore K) ''locks'' db @
       [dset_default ''_id'' i (lock_doc now key owner ttl)]" by blast
  then show ?thesis by (simp add: acquire_lock_def dset_default_def dhas_def lock_doc_def)
qed

lemma acquire_taken:
  assumes "locks_wf K db" "held K db key other t"
  shows "acquire_lock K now key owner ttl db = handle_duplicate K now key owner db"
proof -
  from assms(2) obtain d where "d \<in> set (docs (kstore K) ''locks'' db)" "dget d ''_id'' = VStr key"
    by (auto simp: held_def)
  with unique_dup [of d "''locks''" db "lock_doc now key owner ttl"] obtain m where
    "unique_insert_doc K ''locks'' (lock_doc now key owner ttl) db = (Inl (DuplicateKeyError m), db)"
    by (auto simp: lock_doc_def dget_def)
  then show ?thesis by (simp add: acquire_lock_def)
qed

lemma acquire_live:
  assumes wf: "locks_wf K db" and h: "held K db key other t" and live: "now \<le> t"
  shows "acquire_lock K now key owner ttl db =
    (if other = owner then Inr True
     else Inl (ResourceLockedError (''Resource '' @ key @ '' is currently locked.'')), db)"
proof -
  from h obtain d where d: "d \<in> set (docs (kstore K) ''locks'' db)" "dget d ''_id'' = VStr key"
    "dget d ''owner'' = VStr other" "dget d ''expires_at'' = naive t" by (auto simp: held_def)
  from wf d(1) have "dhas d ''expires_at''" by (simp add: locks_wf_def)
  moreover from d(2) have "d \<noteq> []" by (auto simp: dget_def)
  ultimately show ?thesis
    using d live find_lock [OF wf d(1,2)]
    by (simp add: acquire_taken [OF wf h] handle_duplicate_def run_simps find_one_run stale_def Let_def)
qed

lemma acquire_stale:
  assumes wf: "locks_wf K db" and h: "held K db key other t" and old: "t < now"
  shows "\<exists>db'. acquire_lock K now key owner ttl db =
      (if other = owner then Inr True
       else Inl (ResourceLockedError (''Resource '' @ key @ '' is currently locked.'')), db') \<and>
    unlocked K db' key"
proof -
  from h obtain d where d: "d \<in> set (docs (kstore K) ''locks'' db)" "dget d ''_id'' = VStr key"
    "dget d ''owner'' = VStr other" "dget d ''expires_at'' = naive t" by (auto simp: held_def)
  let ?q = "lock_filter key @ [(''expires_at'', CEq (naive t))]"
  let ?L = "docs (kstore K) ''locks'' db"
  obtain n db' where del: "delete_one_doc (kstore K) ''locks'' ?q db = (n, db')"
    by (cases "delete_one_doc (kstore K) ''locks'' ?q db")
  from wf d(1) have "dhas d ''expires_at''" by (simp add: locks_wf_def)
  moreover from d(2) have "d \<noteq> []" by (auto simp: dget_def)
  ultimately have run: "acquire_lock K now key owner ttl db =
      (if other = owner then Inr True
       else Inl (ResourceLockedError (''Resource '' @ key @ '' is currently locked.'')), db')"
    using d old del find_lock [OF wf d(1,2)]
    by (simp add: acquire_taken [OF wf h] handle_duplicate_def run_simps find_one_run stale_def
        delete_one_def Let_def)
  from d(1) obtain us vs where split: "?L = us @ d # vs" by (meson split_list)
  have hit: "match_filter ?q d"
    using d(2,4) field_value_scalar [of "''expires_at''" d] match_lock_filter [OF d(2)]
    by (simp add: match_filter_def)
  have miss: "\<not> match_filter ?q e" if "e \<in> set us" for e
  proof -
    from that split wf obtain s where s: "dget e ''_id'' = VStr s" by (auto dest: locks_wf_id)
    from that split wf d(2) s have "s \<noteq> key" by (auto simp: locks_wf_def image_iff)
    with match_lock_filter [OF s] show ?thesis by (auto simp: match_filter_def)
  qed
  have "remove_first (match_filter ?q) (us @ d # vs) = us @ vs"
    using miss by (induction us) (auto simp: hit)
  with delete_one_law [OF del] split have "docs (kstore K) ''locks'' db' = us @ vs" by simp
  moreover from wf split d(2) have "\<forall>e \<in> set (us @ vs). dget e ''_id'' \<noteq> VStr key"
    by (auto simp: locks_wf_def image_iff)
  ultimately have "unlocked K db' key" by (simp add: unlocked_def)
  with run show ?thesis by blast
qed

lemma release_lock_docs:
  "release_lock K key owner db = (r, db') \<Longrightarrow>
   r = Inr () \<and> docs (kstore K) ''locks'' db' =
     remove_first (match_filter (lock_filter key @ [(''owner'', CEq (VStr owner))]))
       (docs (kstore K) ''locks'' db)"
  by (auto simp: release_lock_def run_simps delete_one_def dest: delete_one_law split: prod.splits)

lemma release_foreign:
  assumes wf: "locks_wf K db" and h: "held K db key other t" and "other \<noteq> owner"
    and run: "release_lock K key owner db = (r, db')"
  shows "docs (kstore K) ''locks'' db' = docs (kstore K) ''locks'' db"
proof -
  from h obtain d where d: "d \<in> set (docs (kstore K) ''locks'' db)" "dget d ''_id'' = VStr key"
    "dget d ''owner'' = VStr other" by (auto simp: held_def)
  let ?q = "lock_filter key @ [(''owner'', CEq (VStr owner))]"
  have "\<not> match_filter ?q e" if e: "e \<in> set (docs (kstore K) ''locks'' db)" for e
  proof
    assume m: "match_filter ?q e"
    then have "e \<in> set (filter (match_filter (lock_filter key)) (docs (kstore K) ''locks'' db))"
      using e by (simp add: match_filter_def)
    with find_lock [OF wf d(1,2)] have "e = d" by simp
    with m d(3) \<open>other \<noteq> owner\<close> field_value_scalar [of "''owner''" d] show False
      by (simp add: match_filter_def)
  qed
  then have "filter (match_filter ?q) (docs (kstore K) ''locks'' db) = []"
    by (simp add: filter_empty_conv)
  with release_lock_docs [OF run] show ?thesis by (simp add: remove_first_none)
qed

lemma keeps_acquire_lock:
  assumes "k \<noteq> ''locks''"
  shows "keeps (\<lambda>db. P (docs (kstore K) k db)) (acquire_lock K now key owner ttl)"
proof (rule keepsI)
  fix db r db'
  assume P: "P (docs (kstore K) k db)" and run: "acquire_lock K now key owner ttl db = (r, db')"
  obtain q t where ins: "unique_insert_doc K ''locks'' (lock_doc now key owner ttl) db = (q, t)"
    by (cases "unique_insert_doc K ''locks'' (lock_doc now key owner ttl) db")
  from unique_frame [OF ins assms] P have t: "P (docs (kstore K) k t)" by simp
  have h: "keeps (\<lambda>db. P (docs (kstore K) k db)) (handle_duplicate K now key owner)"
    unfolding handle_duplicate_def Let_def using assms
    by (auto intro!: keeps_intros keeps_other split: option.splits)
  from run ins t keepsD [OF h t, of r db'] show "P (docs (kstore K) k db')"
    by (auto simp: acquire_lock_def split: sum.splits py_error.splits)
qed

lemma keeps_release_lock:
  "k \<noteq> ''locks'' \<Longrightarrow> keeps (\<lambda>db. P (docs (kstore K) k db)) (release_lock K key owner)"
  unfolding release_lock_def by (intro keeps_intros keeps_other)

lemma acquire_loop_frame:
  assumes k: "k \<noteq> ''locks''"
    and env: "\<And>n db. docs (kstore K) k (env n db) = docs (kstore K) k db"
  shows "P (docs (kstore K) k db) \<Longrightarrow>
    acquire_loop K clock env started timeout ttl sid owner attempts n db = Some (r, db') \<Longrightarrow>
    P (docs (kstore K) k db')"
proof (induction attempts arbitrary: n db)
  case (Suc attempts)
  obtain q t where acq: "acquire_lock K (clock n) (session_lock_key sid) owner ttl db = (q, t)"
    by (cases "acquire_lock K (clock n) (session_lock_key sid) owner ttl db")
  have t: "P (docs (kstore K) k t)"
    using keeps_acquire_lock [OF k, of P] Suc.prems(1) acq unfolding keeps_def by blast
  with env have u: "P (docs (kstore K) k (env n t))" by simp
  from Suc.prems(2) t Suc.IH [OF u] show ?case
    by (auto simp: acq split: sum.splits py_error.splits if_splits)
qed simp

lemma keeps_acquire_session_lock:
  assumes "k \<noteq> ''locks''" and "\<And>n db. docs (kstore K) k (env n db) = docs (kstore K) k db"
  shows "keeps (\<lambda>db. P (docs (kstore K) k db))
    (acquire_session_lock K clock env timeout delay ttl owner sid)"
  using acquire_loop_frame [OF assms]
  by (auto simp: keeps_def acquire_session_lock_def split: option.splits)

end

text \<open>Enough attempts: every sleep lasts at least the retry delay.\<close>

lemma clock_progress:
  assumes "\<And>n. clock (Suc n) \<ge> clock n + 1000 * delay"
  shows "clock n \<ge> clock 0 + int n * (1000 * (delay :: int))"
proof (induction n)
  case (Suc n)
  with assms [of n] show ?case by (simp add: algebra_simps)
qed simp

lemma acquire_loop_returns:
  assumes tick: "\<And>n. clock (Suc n) \<ge> clock n + 1000 * delay" and "delay > 0"
  shows "attempts > 0 \<Longrightarrow> (int n + int attempts - 1) * delay \<ge> timeout \<Longrightarrow>
    acquire_loop K clock env (clock 0) timeout ttl sid owner attempts n db \<noteq> None"
proof (induction attempts arbitrary: n db)
  case (Suc attempts)
  obtain q t where acq: "acquire_lock K (clock n) (session_lock_key sid) owner ttl db = (q, t)"
    by (cases "acquire_lock K (clock n) (session_lock_key sid) owner ttl db")
  show ?case
  proof (cases "(clock n - clock 0) div 1000 \<ge> timeout")
    case False
    have "clock n - clock 0 \<ge> 1000 * (int n * delay)"
      using clock_progress [of clock delay n] tick by (simp add: algebra_simps)
    then have "(clock n - clock 0) div 1000 \<ge> int n * delay"
      using zdiv_mono1 [of "1000 * (int n * delay)" "clock n - clock 0" 1000] by simp
    with False have "int n * delay < timeout" by linarith
    with Suc.prems(2) have "attempts > 0" by (cases attempts) auto
    moreover have "(int (Suc n) + int attempts - 1) * delay \<ge> timeout" using Suc.prems(2) by simp
    ultimately have "acquire_loop K clock env (clock 0) timeout ttl sid owner attempts (Suc n) u \<noteq> None" for u
      by (rule Suc.IH)
    then show ?thesis by (auto simp: acq split: sum.splits py_error.splits)
  qed (auto simp: acq split: sum.splits py_error.splits)
qed simp

lemma attempts_enough_bound:
  assumes "delay > 0"
  shows "(int (attempts_enough timeout delay) - 1) * delay \<ge> timeout"
proof -
  have "timeout = timeout div delay * delay + timeout mod delay" by simp
  moreover have "timeout mod delay < delay" using assms by simp
  moreover have "timeout div delay * delay \<le> int (nat (timeout div delay)) * delay"
    using assms by (intro mult_right_mono) auto
  ultimately have "timeout \<le> int (nat (timeout div delay)) * delay + delay" by linarith
  moreover have "(int (attempts_enough timeout delay) - 1) * delay =
      int (nat (timeout div delay)) * delay + delay"
    by (simp only: attempts_enough_def of_nat_add) (simp add: algebra_simps)
  ultimately show ?thesis by simp
qed

section \<open>The projection writer with its locks\<close>

definition projection_service ::
  "'db lock_service \<Rightarrow> repr \<Rightarrow> (val \<Rightarrow> int option) \<Rightarrow> bool \<Rightarrow> (nat \<Rightarrow> int) \<Rightarrow> (nat \<Rightarrow> 'db \<Rightarrow> 'db) \<Rightarrow>
   int \<Rightarrow> int \<Rightarrow> int \<Rightarrow> string \<Rightarrow> 'db projector" where
  "projection_service K rp tm enabled clock env timeout_ms delay_ms ttl owner_prefix =
     \<lparr>pstore = kstore K, prepr = rp, time_of = tm, lock_enabled = enabled,
      acquire = (\<lambda>sid. acquire_session_lock K clock env (max 0 timeout_ms) (max 10 delay_ms) (max 30 ttl)
        (owner_prefix @ '':'' @ sid) sid),
      release = (\<lambda>sid. release_session_lock K (owner_prefix @ '':'' @ sid) sid)\<rparr>"

lemma projection_writer_service:
  assumes "unique_inserts K"
    and "\<And>k n db. k \<noteq> ''locks'' \<Longrightarrow> docs (kstore K) k (env n db) = docs (kstore K) k db"
  shows "projection_writer
    (projection_service K rp tm enabled clock env timeout_ms delay_ms ttl owner_prefix)"
proof -
  have "document_store (kstore K)" using assms(1) by (simp add: unique_inserts_def)
  moreover have "keeps (\<lambda>db. P (docs (kstore K) k db))
      (acquire_session_lock K clock env t d l w sid)" if "k \<noteq> ''locks''" for P k t d l w sid
    by (rule unique_inserts.keeps_acquire_session_lock [OF assms(1) that assms(2) [OF that]])
  moreover have "keeps (\<lambda>db. P (docs (kstore K) k db)) (release_session_lock K w sid)"
    if "k \<noteq> ''locks''" for P k w sid
    unfolding release_session_lock_def by (rule unique_inserts.keeps_release_lock [OF assms(1) that])
  ultimately show ?thesis
    by (simp add: projection_writer_def projection_writer_axioms_def projection_service_def)
qed

text \<open>The in-memory database with unique keys; the other tasks of the loop only move locks.\<close>

definition mem_locks :: "(nat \<Rightarrow> string) \<Rightarrow> (string \<Rightarrow> bool) \<Rightarrow> memdb lock_service" where
  "mem_locks idgen oid =
     \<lparr>kstore = mem_store idgen oid, unique_insert_doc = unique_insert (mem_store idgen oid)\<rparr>"

definition locks_env :: "(nat \<Rightarrow> doc list \<Rightarrow> doc list) \<Rightarrow> nat \<Rightarrow> memdb \<Rightarrow> memdb" where
  "locks_env f n db = db\<lparr>colls := (colls db)(''locks'' := f n (colls db ''locks''))\<rparr>"

definition mem_projection ::
  "(nat \<Rightarrow> string) \<Rightarrow> (string \<Rightarrow> bool) \<Rightarrow> (nat \<Rightarrow> int) \<Rightarrow> (nat \<Rightarrow> doc list \<Rightarrow> doc list) \<Rightarrow> string \<Rightarrow> memdb projector" where
  "mem_projection idgen oid clock f owner_prefix =
     projection_service (mem_locks idgen oid) (\<lambda>_. []) (\<lambda>_. None) True clock (locks_env f) 5000 50 90 owner_prefix"

interpretation mem_unique: unique_inserts "mem_locks idgen oid" for idgen oid
  unfolding mem_locks_def by (rule unique_inserts_store) (rule document_store_mem)

interpretation mem_writer: projection_writer "mem_projection idgen oid clock f owner_prefix"
  for idgen oid clock f owner_prefix
  unfolding mem_projection_def
  by (rule projection_writer_service [OF mem_unique.unique_inserts_axioms])
     (simp add: mem_locks_def locks_env_def)

section \<open>Properties\<close>

text \<open>(C33) Mutual exclusion of the Mongo locks: once a free key has been acquired, nobody else can
  acquire it before the lease ends and nobody else's release removes it.\<close>

theorem lock_mutual_exclusion:
  assumes "unique_inserts K" and "locks_wf K db" and "unlocked K db key"
    and "acquire_lock K now key owner ttl db = (Inr b, db')"
    and "other \<noteq> owner" and "later_time \<le> now + ttl * 1000000"
  shows "held K db' key owner (now + ttl * 1000000) \<and> locks_wf K db' \<and>
    (\<exists>m. acquire_lock K later_time key other ttl' db' = (Inl (ResourceLockedError m), db')) \<and>
    (\<forall>r db''. release_lock K key other db' = (r, db'') \<longrightarrow>
       docs (kstore K) ''locks'' db'' = docs (kstore K) ''locks'' db')"
proof -
  from unique_inserts.acquire_free [OF assms(1,3), of now owner ttl] assms(4) have
    d: "docs (kstore K) ''locks'' db' = docs (kstore K) ''locks'' db @ [lock_doc now key owner ttl]" by auto
  have h: "held K db' key owner (now + ttl * 1000000)"
    by (simp add: held_def d lock_doc_def dget_def)
  have "VStr key \<notin> (\<lambda>d. dget d ''_id'') ` set (docs (kstore K) ''locks'' db)"
    using assms(3) by (auto simp: unlocked_def)
  with assms(2) have wf: "locks_wf K db'"
    by (auto simp: locks_wf_def d lock_doc_def dget_def dhas_def)
  show ?thesis
    using h wf unique_inserts.acquire_live [OF assms(1) wf h assms(6), of other ttl'] assms(5)
      unique_inserts.release_foreign [OF assms(1) wf h, of other] by auto
qed

text \<open>(C37) Waiting for a session lock ends: if every sleep lasts at least the retry delay, the
  acquisition loop returns within timeout / delay + 2 attempts, whatever the other tasks do.\<close>

theorem session_lock_wait_ends:
  assumes "\<And>n. clock (Suc n) \<ge> clock n + 1000 * delay" and "delay > 0"
  shows "\<exists>r. acquire_loop K clock env (clock 0) timeout ttl sid owner (attempts_enough timeout delay) 0 db = Some r"
  using acquire_loop_returns [of clock delay "attempts_enough timeout delay" timeout 0 K env ttl sid owner db] assms
    attempts_enough_bound [OF assms(2), of timeout]
  by (auto simp: attempts_enough_def)

text \<open>An expired lock of the caller's own is deleted and the acquisition still reports success:
  afterwards nobody holds the key, although the caller was told that it does.\<close>

theorem stale_own_lock_vanishes:
  assumes "unique_inserts K" and "locks_wf K db" and "held K db key owner t" and "t < now"
    and "acquire_lock K now key owner ttl db = (r, db')"
  shows "r = Inr True \<and> unlocked K db' key"
  using unique_inserts.acquire_stale [OF assms(1-4), of owner ttl] assms(5) by auto

definition demo_locks_db :: memdb where
  "demo_locks_db = \<lparr>colls = (\<lambda>c. if c = ''locks'' then [lock_doc 0 ''k'' ''me'' 30] else []), next_id = 0\<rparr>"

definition empty_db :: memdb where
  "empty_db = \<lparr>colls = (\<lambda>_. []), next_id = 0\<rparr>"

definition demo_locks :: "memdb lock_service" where
  "demo_locks = mem_locks show_nat (\<lambda>_. False)"

lemma demo_locks_unique: "unique_inserts demo_locks"
  unfolding demo_locks_def by (rule mem_unique.unique_inserts_axioms)

lemma demo_locks_store [simp]: "kstore demo_locks = mem_store show_nat (\<lambda>_. False)"
  by (simp add: demo_locks_def mem_locks_def)

lemma lock_mutual_exclusion_witness:
  "\<exists>m. fst (acquire_lock demo_locks 20000000 ''k'' ''b'' 30
      (snd (acquire_lock demo_locks 0 ''k'' ''a'' 30 empty_db))) = Inl (ResourceLockedError m)"
proof -
  have "fst (acquire_lock demo_locks 0 ''k'' ''a'' 30 empty_db) = Inr True" by code_simp
  from run_of_fst [where m = "acquire_lock demo_locks 0 ''k'' ''a'' 30", OF this] obtain db' where
    run: "acquire_lock demo_locks 0 ''k'' ''a'' 30 empty_db = (Inr True, db')" by blast
  have "locks_wf demo_locks empty_db" "unlocked demo_locks empty_db ''k''"
    by (simp_all add: locks_wf_def unlocked_def empty_db_def)
  from lock_mutual_exclusion [OF demo_locks_unique this run, of "''b''" 20000000 30] run show ?thesis by auto
qed

lemma session_lock_wait_ends_witness:
  "\<exists>r. acquire_loop demo_locks (\<lambda>n. int n * 50000) (\<lambda>_ db. db) 0 5000 90 ''s1'' ''w''
     (attempts_enough 5000 50) 0 empty_db = Some r"
  using session_lock_wait_ends [of "\<lambda>n. int n * 50000" 50 demo_locks "\<lambda>_ db. db" 5000 90 "''s1''" "''w''" empty_db]
  by (simp add: algebra_simps)

lemma stale_own_lock_vanishes_witness:
  "fst (acquire_lock demo_locks 90000000 ''k'' ''me'' 30 demo_locks_db) = Inr True \<and>
   unlocked demo_locks (snd (acquire_lock demo_locks 90000000 ''k'' ''me'' 30 demo_locks_db)) ''k''"
proof -
  have "locks_wf demo_locks demo_locks_db" "held demo_locks demo_locks_db ''k'' ''me'' 30000000"
    by (simp_all add: locks_wf_def held_def demo_locks_db_def lock_doc_def dget_def dhas_def)
  from stale_own_lock_vanishes [OF demo_locks_unique this, of 90000000 30]
  show ?thesis by (cases "acquire_lock demo_locks 90000000 ''k'' ''me'' 30 demo_locks_db") simp
qed

lemma sync_leaves_sources_alone_witness:
  "docs (mem_store show_nat (\<lambda>_. False)) ''count_lines''
     (snd (sync_for_sessions (mem_projection show_nat (\<lambda>_. False) (\<lambda>n. int n) (\<lambda>_ ds. ds) ''w'') 1 [''s1''] ''t'' ''a''
        True [] False empty_db)) = []"
proof -
  let ?W = "mem_projection show_nat (\<lambda>_. False) (\<lambda>n. int n) (\<lambda>_ ds. ds) ''w''"
  obtain r db' where run: "sync_for_sessions ?W 1 [''s1''] ''t'' ''a'' True [] False empty_db = (r, db')"
    by (cases "sync_for_sessions ?W 1 [''s1''] ''t'' ''a'' True [] False empty_db")
  have "pstore ?W = mem_store show_nat (\<lambda>_. False)"
    by (simp add: mem_projection_def projection_service_def mem_locks_def)
  with sync_leaves_sources_alone [OF mem_writer.projection_writer_axioms _ _ run, of "''count_lines''"] run
  show ?thesis by (simp add: PROJECTION_COLLECTIONS_def empty_db_def)
qed


end
