(* ===== verification/Validation.thy ===== *)
theory Validation
  imports Governance
begin

text \<open>
  \<open>backend/services/validation_service.py\<close>: quantities and units of measure, serial numbers,
  and the runtime validation of count lines and sessions.

  A \<open>Decimal\<close> is its exact rational value (the 28-digit context precision is not modelled),
  \<open>Decimal(str(x))\<close> of a float is the float's value. The number of decimal places is found by
  trying one more digit at a time; 350 digits cover the shortest representation of every
  binary64 float. The service object is the record \<open>validator\<close> of its two flags.
\<close>

section \<open>Helpers\<close>

definition FRACTIONAL_UOMS :: "string list" where
  "FRACTIONAL_UOMS =
     [''KG'', ''KGS'', ''L'', ''LTR'', ''LTRS'', ''LITER'', ''LITRE'', ''M'', ''MTR'', ''METER'', ''METRE'']"

definition as_bool :: "repr \<Rightarrow> val \<Rightarrow> bool \<Rightarrow> bool" where
  "as_bool rp v dflt =
     (case v of
        VNone \<Rightarrow> dflt
      | VBool b \<Rightarrow> b
      | _ \<Rightarrow>
          (let n = lower (strip (py_str rp v))
           in if n \<in> {''1'', ''true'', ''yes'', ''y'', ''on''} then True
              else if n \<in> {''0'', ''false'', ''no'', ''n'', ''off'', ''''} then False
              else dflt))"

text \<open>The result of the two normalisers is \<open>VNone\<close> or a non-empty string.\<close>

definition normalize_string :: "repr \<Rightarrow> val \<Rightarrow> val" where
  "normalize_string rp v =
     (if v = VNone then VNone
      else (let n = strip (py_str rp v) in if n = [] then VNone else VStr n))"

definition normalize_uom :: "repr \<Rightarrow> val \<Rightarrow> val" where
  "normalize_uom rp v = (case normalize_string rp v of VStr n \<Rightarrow> VStr (upper n) | _ \<Rightarrow> VNone)"

definition as_decimal :: "repr \<Rightarrow> val \<Rightarrow> rat res" where
  "as_decimal rp v =
     (if v = VNone \<or> v = VStr [] then Inr 0
      else (case v of
          VInt i \<Rightarrow> Inr (of_int i)
        | VFloat q \<Rightarrow> Inr q
        | _ \<Rightarrow>
            (case parse_float (py_str rp v) of
               Some q \<Rightarrow> Inr q
             | None \<Rightarrow> Inl (GovernanceViolation (''INVALID_QUANTITY: '' @ py_str rp v)))))"

fun add_serial :: "repr \<Rightarrow> string list \<Rightarrow> val \<Rightarrow> string list" where
  "add_serial rp acc v =
     (case normalize_string rp v of
        VStr s \<Rightarrow> if upper s \<in> set acc then acc else acc @ [upper s]
      | _ \<Rightarrow> acc)"

definition entry_serial :: "val \<Rightarrow> val" where
  "entry_serial e = (case as_dict e of Some d \<Rightarrow> dget d ''serial_number'' | None \<Rightarrow> VNone)"

definition normalize_serials :: "repr \<Rightarrow> doc \<Rightarrow> string list" where
  "normalize_serials rp d =
     foldl (add_serial rp)
       (foldl (add_serial rp) [] (list_or_empty (dget d ''serial_numbers'')))
       (map entry_serial (list_or_empty (dget d ''serial_entries'')))"

definition is_integral :: "rat \<Rightarrow> bool" where
  "is_integral q = (q = of_int \<lfloor>q\<rfloor>)"

fun decimal_places_upto :: "nat \<Rightarrow> rat \<Rightarrow> nat" where
  "decimal_places_upto 0 q = 0"
| "decimal_places_upto (Suc n) q = (if is_integral q then 0 else Suc (decimal_places_upto n (q * 10)))"

definition decimal_places :: "rat \<Rightarrow> nat" where
  "decimal_places q = decimal_places_upto 350 q"

section \<open>Item master and serial conflicts\<close>

record validator =
  strict_mode :: bool
  write_logs :: bool

text \<open>An absent item is \<open>None\<close>; a document without a master record resolves to the empty one.\<close>

definition resolve_item_master :: "'db store \<Rightarrow> repr \<Rightarrow> doc \<Rightarrow> doc option \<Rightarrow> ('db, doc) comp" where
  "resolve_item_master S rp d item =
     (case item of
        Some i \<Rightarrow> returnM i
      | None \<Rightarrow>
          (let barcode = normalize_string rp (dget d ''barcode'');
               item_code = normalize_string rp (dget d ''item_code'')
           in bindM (if truthy barcode then find_one S ''erp_items'' [(''barcode'', CEq barcode)]
                     else returnM None) (\<lambda>by_barcode.
              (case by_barcode of
                 Some e \<Rightarrow> returnM e
               | None \<Rightarrow>
                   bindM (if truthy item_code then find_one S ''erp_items'' [(''item_code'', CEq item_code)]
                          else returnM None) (\<lambda>by_code.
                   returnM (case by_code of Some e \<Rightarrow> e | None \<Rightarrow> []))))))"

definition scoped :: "query \<Rightarrow> val \<Rightarrow> query" where
  "scoped clause item_code =
     (if truthy item_code
      then [(''$and'', CClauses
             [clause,
              [(''$or'', CClauses [[(''item_id'', CEq item_code)], [(''item_code'', CEq item_code)]])]])]
      else clause)"

definition conflict_report :: "string \<Rightarrow> string \<Rightarrow> doc \<Rightarrow> val \<Rightarrow> val \<Rightarrow> val \<Rightarrow> doc" where
  "conflict_report source serial m flr rack line_id =
     [(''source'', VStr source), (''serial_no'', VStr serial),
      (''item_id'', dget m ''item_id''), (''item_code'', dget m ''item_code''),
      (''item_name'', dget m ''item_name''), (''counted_by'', dget m ''counted_by''),
      (''floor_no'', flr), (''rack_no'', rack), (''status'', dget m ''status''),
      (''session_id'', dget m ''session_id''), (''count_line_id'', line_id)]"

text \<open>
  The registry first, then the legacy collection, then the count lines themselves. A registry
  or count-line hit on the line being written (\<open>current\<close>) is not a conflict.
\<close>

definition find_serial_conflict ::
  "'db store \<Rightarrow> repr \<Rightarrow> val \<Rightarrow> val \<Rightarrow> val \<Rightarrow> ('db, doc option) comp" where
  "find_serial_conflict S rp serial_no item_code current =
     (case normalize_string rp serial_no of
        VStr s \<Rightarrow>
          (let serial = upper s; code = normalize_string rp item_code in
           bindM (find_one S ''serial_registry'' (scoped [(''serial_no'', CEq (VStr serial))] code)) (\<lambda>reg.
           let reg_conflict = (case reg of
                 None \<Rightarrow> None
               | Some m \<Rightarrow>
                   (let lid = normalize_string rp (py_or (dget m ''count_line_id'') (dget m ''line_id''))
                    in if \<not> truthy current \<or> \<not> py_eq lid current
                       then Some (conflict_report ''serial_registry'' serial m
                              (py_or (dget m ''floor_id'') (dget m ''floor_no''))
                              (py_or (dget m ''rack_id'') (dget m ''rack_no'')) lid)
                       else None))
           in (case reg_conflict of
             Some c \<Rightarrow> returnM (Some c)
           | None \<Rightarrow>
               bindM (find_one S ''item_serials'' (scoped [(''serial_number'', CEq (VStr serial))] code)) (\<lambda>leg.
               (case leg of
                  Some m \<Rightarrow> returnM (Some (conflict_report ''item_serials'' serial m (dget m ''floor_no'')
                               (dget m ''rack_no'') (normalize_string rp (dget m ''count_line_id''))))
                | None \<Rightarrow>
                    bindM (find_one S ''count_lines'' (scoped
                      [(''$or'', CClauses [[(''serial_numbers'', CEq (VStr serial))],
                                           [(''serial_entries.serial_number'', CEq (VStr serial))]])] code))
                      (\<lambda>line.
                    returnM (case line of
                        None \<Rightarrow> None
                      | Some m \<Rightarrow>
                          (let lid = normalize_string rp (py_or (dget m ''id'') (dget m ''_id''))
                           in if \<not> truthy current \<or> \<not> py_eq lid current
                              then Some (conflict_report ''legacy_count_lines'' serial m (dget m ''floor_no'')
                                     (dget m ''rack_no'') lid)
                              else None))))))))
      | _ \<Rightarrow> returnM None)"

definition assert_item_serial_uniqueness ::
  "'db store \<Rightarrow> repr \<Rightarrow> val \<Rightarrow> string list \<Rightarrow> val \<Rightarrow> ('db, unit) comp" where
  "assert_item_serial_uniqueness S rp item_code serials current =
     forM serials (\<lambda>serial.
       bindM (find_serial_conflict S rp (VStr serial) item_code current) (\<lambda>conflict.
       raise_if (conflict \<noteq> None) (GovernanceViolation (''SERIAL_DUPLICATE: '' @ serial))))"

section \<open>Quantities\<close>

text \<open>The first truthy of several values, \<open>a or b or c\<close>.\<close>

definition first_of :: "val list \<Rightarrow> val" where
  "first_of vs = foldr py_or vs VNone"

definition input_uom :: "repr \<Rightarrow> doc \<Rightarrow> doc \<Rightarrow> val" where
  "input_uom rp item d =
     first_of (map (normalize_uom rp)
       [dget d ''input_uom'', dget d ''uom_code'', dget d ''uom_name'',
        dget item ''uom_code'', dget item ''uom_name'', dget item ''uom''])"

definition base_uom :: "repr \<Rightarrow> doc \<Rightarrow> doc \<Rightarrow> val" where
  "base_uom rp item d =
     py_or (first_of (map (normalize_uom rp)
       [dget d ''base_uom'', dget item ''base_uom'', dget item ''uom_code''])) (input_uom rp item d)"

definition uom_fractional :: "val \<Rightarrow> bool" where
  "uom_fractional u = (case u of VStr s \<Rightarrow> s \<in> set FRACTIONAL_UOMS | _ \<Rightarrow> False)"

definition allow_fraction :: "repr \<Rightarrow> doc \<Rightarrow> doc \<Rightarrow> rat \<Rightarrow> bool" where
  "allow_fraction rp item d qty =
     (if dget item ''allow_fraction'' = VNone
      then (if truthy (input_uom rp item d) \<or> truthy (base_uom rp item d)
            then uom_fractional (input_uom rp item d) \<or> uom_fractional (base_uom rp item d)
            else as_bool rp (dget d ''allow_fraction'') False \<or> decimal_places qty > 0)
      else as_bool rp (dget item ''allow_fraction'') False)"

definition quantity_precision :: "repr \<Rightarrow> doc \<Rightarrow> doc \<Rightarrow> rat \<Rightarrow> int res" where
  "quantity_precision rp item d qty =
     (let p = (if dget d ''quantity_precision'' = VNone then dget item ''uom_precision''
               else dget d ''quantity_precision'');
          p' = (if p = VNone
                then VInt (max (int (decimal_places qty)) (if allow_fraction rp item d qty then 3 else 0))
                else p)
      in bindR (to_int p') (\<lambda>n. Inr (max n 0)))"

definition check_quantity ::
  "bool \<Rightarrow> int \<Rightarrow> rat \<Rightarrow> rat \<Rightarrow> string list \<Rightarrow> bool \<Rightarrow> unit res" where
  "check_quantity fraction precision qty base_qty serials item_serialized =
     (if \<not> fraction \<and> \<not> is_integral qty then Inl (GovernanceViolation ''FRACTION_NOT_ALLOWED'')
      else if int (decimal_places qty) > precision then Inl (GovernanceViolation ''PRECISION_EXCEEDED'')
      else if \<not> fraction \<and> \<not> is_integral base_qty then Inl (GovernanceViolation ''FRACTION_NOT_ALLOWED'')
      else if serials \<noteq> []
      then (if qty \<noteq> of_nat (length serials) then Inl (GovernanceViolation ''SERIAL_QTY_MISMATCH'')
            else Inr ())
      else if item_serialized \<and> qty \<noteq> 1 then Inl (GovernanceViolation ''SERIAL_QTY_MUST_BE_ONE'')
      else Inr ())"

definition normalize_quantity_for_item :: "repr \<Rightarrow> doc \<Rightarrow> doc \<Rightarrow> doc res" where
  "normalize_quantity_for_item rp item d =
     bindR (as_decimal rp (dget d ''counted_qty'')) (\<lambda>qty.
     bindR (as_decimal rp (py_or (dget d ''conversion_factor'')
              (py_or (dget item ''uom_conversion_factor'') (VInt 1)))) (\<lambda>factor.
     if factor \<le> 0 then Inl (GovernanceViolation ''INVALID_UOM_CONVERSION'')
     else
       bindR (quantity_precision rp item d qty) (\<lambda>precision.
       let fraction = allow_fraction rp item d qty;
           serials = normalize_serials rp d;
           serialized = as_bool rp (dget item ''is_serialized'') False;
           base_qty = qty * factor
       in bindR (check_quantity fraction precision qty base_qty serials serialized) (\<lambda>_.
          Inr [(''counted_qty'', VFloat base_qty),
               (''input_qty'', VFloat qty),
               (''input_uom'', input_uom rp item d),
               (''base_uom'', base_uom rp item d),
               (''uom_code'', py_or (normalize_uom rp (dget item ''uom_code'')) (input_uom rp item d)),
               (''uom_name'', py_or (normalize_string rp (dget item ''uom_name'')) (input_uom rp item d)),
               (''conversion_factor'', VFloat factor),
               (''quantity_precision'', VInt precision),
               (''allow_fraction'', VBool fraction),
               (''serial_numbers'', VList (map VStr serials)),
               (''is_serial_item'', VBool (serialized \<or> serials \<noteq> []))]))))"

definition rule_fields :: "val \<Rightarrow> doc \<Rightarrow> doc \<Rightarrow> doc" where
  "rule_fields item_code n d =
     [(''item_code'', py_or item_code (dget d ''item_code'')),
      (''counted_qty'', dget n ''counted_qty''), (''input_qty'', dget n ''input_qty''),
      (''input_uom'', dget n ''input_uom''), (''base_uom'', dget n ''base_uom''),
      (''uom_code'', dget n ''uom_code''), (''uom_name'', dget n ''uom_name''),
      (''conversion_factor'', dget n ''conversion_factor''),
      (''quantity_precision'', dget n ''quantity_precision''),
      (''allow_fraction'', dget n ''allow_fraction''),
      (''serial_numbers'', py_or (dget n ''serial_numbers'') (dget d ''serial_numbers'')),
      (''is_serial_item'', dget n ''is_serial_item'')]"

text \<open>Returns the item master, the normalised quantity and the updated document.\<close>

definition enforce_count_line_business_rules ::
  "'db store \<Rightarrow> repr \<Rightarrow> doc \<Rightarrow> doc option \<Rightarrow> ('db, doc \<times> doc \<times> doc) comp" where
  "enforce_count_line_business_rules S rp d item =
     bindM (resolve_item_master S rp d item) (\<lambda>master.
     bindM (liftM (normalize_quantity_for_item rp master d)) (\<lambda>n.
     let serials = normalize_serials rp d;
         current = normalize_string rp (py_or (dget d ''id'') (dget d ''_id''));
         code = normalize_string rp
           (py_or (dget d ''item_code'') (py_or (dget d ''item_id'') (dget master ''item_code'')))
     in bindM (whenM (serials \<noteq> [])
          (bindM (raise_if (\<not> truthy code) (GovernanceViolation ''MISSING_ITEM_CODE'')) (\<lambda>_.
           assert_item_serial_uniqueness S rp code serials current))) (\<lambda>_.
        returnM (master, n, dmerge d (rule_fields code n d)))))"

section \<open>Runtime validation\<close>

definition log_violation ::
  "'db store \<Rightarrow> repr \<Rightarrow> validator \<Rightarrow> int \<Rightarrow> string \<Rightarrow> doc \<Rightarrow> string list \<Rightarrow> ('db, unit) comp" where
  "log_violation S rp V now entity d errors =
     whenM (write_logs V)
       (bindM (insert_one S ''validation_logs''
          [(''entity'', VStr entity),
           (''doc_id'', VStr (py_str rp (py_or (dget d ''_id'') (VStr [])))),
           (''session_id'', VStr (py_str rp (py_or (dget d ''session_id'') (VStr [])))),
           (''errors'', VList (map VStr errors)),
           (''timestamp'', naive now)]) (\<lambda>_. returnM ()))"

definition handle_errors ::
  "'db store \<Rightarrow> repr \<Rightarrow> validator \<Rightarrow> int \<Rightarrow> string \<Rightarrow> doc \<Rightarrow> string list \<Rightarrow> bool option \<Rightarrow> ('db, unit) comp" where
  "handle_errors S rp V now entity d errors raise_on_error =
     (if errors = [] then returnM ()
      else bindM (log_violation S rp V now entity d errors) (\<lambda>_.
           raise_if (case raise_on_error of None \<Rightarrow> strict_mode V | Some b \<Rightarrow> b)
             (GovernanceViolation (''Validation failed for '' @ entity @ '': '' @ join ''; '' errors))))"

text \<open>
  \<open>except GovernanceViolation as exc: errors.append(str(exc))\<close>: the message of a governance
  violation is collected, every other exception passes.
\<close>

definition collect_violation :: "('s, 'a) comp \<Rightarrow> ('s, string list) comp" where
  "collect_violation m = (\<lambda>s. case m s of
      (Inr _, t) \<Rightarrow> (Inr [], t)
    | (Inl e, t) \<Rightarrow> (case e of GovernanceViolation msg \<Rightarrow> (Inr [msg], t) | _ \<Rightarrow> (Inl e, t)))"

definition missing_fields :: "doc \<Rightarrow> string list" where
  "missing_fields d =
     map (\<lambda>k. ''Missing '' @ k)
       (filter (\<lambda>k. \<not> truthy (dget d k)) [''session_id'', ''location_id'', ''floor_id'', ''rack_id''])"

definition validate_count_line ::
  "'db store \<Rightarrow> repr \<Rightarrow> validator \<Rightarrow> int \<Rightarrow> doc \<Rightarrow> bool option \<Rightarrow> ('db, string list) comp" where
  "validate_count_line S rp V now d raise_on_error =
     (let status = upper (strip (py_str rp (py_or (dget d ''status'') (VStr []))));
          early = missing_fields d @
            (if status = ''FINALIZED'' \<and> truthy (dget_or d ''mutable'' (VBool False))
             then [''Finalized line is mutable''] else [])
      in bindM (collect_violation (enforce_count_line_business_rules S rp d None)) (\<lambda>late.
         bindM (handle_errors S rp V now ''count_line'' d (early @ late) raise_on_error) (\<lambda>_.
         returnM (early @ late))))"

definition validate_session ::
  "'db store \<Rightarrow> repr \<Rightarrow> validator \<Rightarrow> int \<Rightarrow> doc \<Rightarrow> bool option \<Rightarrow> ('db, string list) comp" where
  "validate_session S rp V now session raise_on_error =
     (let status = upper (strip (py_str rp (py_or (dget session ''status'') (VStr []))));
          errors = (if truthy (dget session ''session_id'') then [] else [''Missing session_id'']) @
            (if status = ''FINALIZED'' \<and> \<not> truthy (dget session ''finalized_at'')
             then [''Finalized session missing timestamp''] else [])
      in bindM (handle_errors S rp V now ''session'' session errors raise_on_error) (\<lambda>_.
         returnM errors))"

section \<open>Facts\<close>

lemma normalize_string_cases: "normalize_string rp v = VNone \<or> (\<exists>s. normalize_string rp v = VStr s \<and> s \<noteq> [])"
  by (auto simp: normalize_string_def Let_def)

lemma add_serial_distinct: "distinct acc \<Longrightarrow> distinct (add_serial rp acc v)"
  by (auto split: val.splits)

lemma add_serial_upper:
  "(\<forall>s \<in> set acc. upper s = s \<and> s \<noteq> []) \<Longrightarrow> (\<forall>s \<in> set (add_serial rp acc v). upper s = s \<and> s \<noteq> [])"
  using normalize_string_cases [of rp v] by (auto split: val.splits if_splits)

lemma foldl_add_serial:
  assumes "distinct acc" and "\<forall>s \<in> set acc. upper s = s \<and> s \<noteq> []"
  shows "distinct (foldl (add_serial rp) acc vs) \<and>
    (\<forall>s \<in> set (foldl (add_serial rp) acc vs). upper s = s \<and> s \<noteq> [])"
  using assms
proof (induction vs arbitrary: acc)
  case (Cons v vs)
  have "distinct (add_serial rp acc v)" using Cons.prems(1) by (rule add_serial_distinct)
  moreover have "\<forall>s \<in> set (add_serial rp acc v). upper s = s \<and> s \<noteq> []"
    using Cons.prems(2) by (rule add_serial_upper)
  ultimately show ?case
    using Cons.IH [of "add_serial rp acc v"] by (simp del: add_serial.simps)
qed simp

lemma normalize_serials_distinct: "distinct (normalize_serials rp d)"
  using foldl_add_serial [of "[]" rp "list_or_empty (dget d ''serial_numbers'')"]
    foldl_add_serial [of "foldl (add_serial rp) [] (list_or_empty (dget d ''serial_numbers''))" rp]
  by (simp add: normalize_serials_def del: add_serial.simps)

lemma check_quantity_iff:
  "check_quantity fraction precision qty base_qty serials serialized = Inr () \<longleftrightarrow>
     (\<not> fraction \<longrightarrow> is_integral qty \<and> is_integral base_qty) \<and>
     int (decimal_places qty) \<le> precision \<and>
     (serials \<noteq> [] \<longrightarrow> qty = of_nat (length serials)) \<and>
     (serials = [] \<and> serialized \<longrightarrow> qty = 1)"
  by (auto simp: check_quantity_def)

lemma decimal_places_upto_integral:
  "decimal_places_upto n q < n \<Longrightarrow> is_integral (q * 10 ^ decimal_places_upto n q)"
proof (induction n arbitrary: q)
  case (Suc n)
  with Suc.IH [of "q * 10"] show ?case by (auto simp: mult.assoc)
qed simp

lemma keeps_find_serial_conflict [keeps_intros]:
  "keeps P (find_serial_conflict S rp serial code current)"
  unfolding find_serial_conflict_def Let_def
  by (auto intro!: keeps_intros split: val.splits option.splits)

lemma keeps_assert_item_serial_uniqueness [keeps_intros]:
  "keeps P (assert_item_serial_uniqueness S rp code serials current)"
  unfolding assert_item_serial_uniqueness_def by (intro keeps_intros)

lemma keeps_resolve_item_master [keeps_intros]: "keeps P (resolve_item_master S rp d item)"
  unfolding resolve_item_master_def Let_def
  by (auto intro!: keeps_intros split: option.splits)

lemma keeps_enforce_count_line_business_rules [keeps_intros]:
  "keeps P (enforce_count_line_business_rules S rp d item)"
  unfolding enforce_count_line_business_rules_def Let_def by (intro keeps_intros)

lemma keeps_collect_violation [keeps_intros]: "keeps P m \<Longrightarrow> keeps P (collect_violation m)"
  by (auto simp: keeps_def collect_violation_def split: prod.splits sum.splits py_error.splits)

context document_store
begin

lemma keeps_handle_errors:
  "k \<noteq> ''validation_logs'' \<Longrightarrow>
   keeps (\<lambda>db. P (docs S k db)) (handle_errors S rp V now entity d errors rs)"
  unfolding handle_errors_def log_violation_def
  by (auto intro!: keeps_intros keeps_insert_other)

lemma keeps_validate_session:
  "k \<noteq> ''validation_logs'' \<Longrightarrow>
   keeps (\<lambda>db. P (docs S k db)) (validate_session S rp V now session rs)"
  unfolding validate_session_def Let_def by (intro keeps_intros keeps_handle_errors)

lemma keeps_validate_count_line:
  "k \<noteq> ''validation_logs'' \<Longrightarrow>
   keeps (\<lambda>db. P (docs S k db)) (validate_count_line S rp V now d rs)"
  unfolding validate_count_line_def Let_def by (intro keeps_intros keeps_handle_errors)

end

section \<open>Properties\<close>

lemma normalize_quantity_success:
  assumes "normalize_quantity_for_item rp item d = Inr n"
  obtains qty factor precision where
    "as_decimal rp (dget d ''counted_qty'') = Inr qty" "factor > 0"
    "quantity_precision rp item d qty = Inr precision"
    "check_quantity (allow_fraction rp item d qty) precision qty (qty * factor) (normalize_serials rp d)
       (as_bool rp (dget item ''is_serialized'') False) = Inr ()"
    "dget n ''counted_qty'' = VFloat (qty * factor)" "dget n ''input_qty'' = VFloat qty"
    "dget n ''conversion_factor'' = VFloat factor" "dget n ''quantity_precision'' = VInt precision"
    "dget n ''allow_fraction'' = VBool (allow_fraction rp item d qty)"
    "dget n ''serial_numbers'' = VList (map VStr (normalize_serials rp d))"
  using assms
  by (auto simp: normalize_quantity_for_item_def run_iff Let_def dget_def split: if_splits)



lemma forM_success:
  "forM xs body db = (Inr (), db') \<Longrightarrow> (\<And>x s r t. body x s = (r, t) \<Longrightarrow> t = s) \<Longrightarrow>
   db' = db \<and> (\<forall>x \<in> set xs. body x db = (Inr (), db))"
proof (induction xs)
  case (Cons x xs)
  from Cons.prems(1) obtain u where u: "body x db = (Inr (), u)" "forM xs body u = (Inr (), db')"
    by (auto simp: run_iff)
  with Cons.prems(2) have "u = db" by blast
  with u Cons show ?case by simp
qed (simp add: run_iff)

lemma uniqueness_body_pure:
  "bindM (find_serial_conflict S rp v code current) (\<lambda>c. raise_if (c \<noteq> None) e) s = (r, t) \<Longrightarrow> t = s"
proof (rule keeps_eqD [where f = "\<lambda>x. x" and m = "bindM (find_serial_conflict S rp v code current) (\<lambda>c. raise_if (c \<noteq> None) e)"])
  show "keeps (\<lambda>s. P s) (bindM (find_serial_conflict S rp v code current) (\<lambda>c. raise_if (c \<noteq> None) e))" for P
    by (intro keeps_intros)
qed

text \<open>Serial numbers are unique across the store: when a count line passes the business rules,
  the database is unchanged and none of its serial numbers is in conflict, for its item, with
  the serial registry, the legacy serial collection or another count line.\<close>

theorem accepted_serials_unique:
  assumes "enforce_count_line_business_rules S rp d item db = (Inr (master, n, d'), db')"
  shows "db' = db \<and>
    (\<forall>serial \<in> set (normalize_serials rp d). find_serial_conflict S rp (VStr serial)
       (normalize_string rp (py_or (dget d ''item_code'') (py_or (dget d ''item_id'') (dget master ''item_code''))))
       (normalize_string rp (py_or (dget d ''id'') (dget d ''_id''))) db = (Inr None, db)) \<and>
    (normalize_serials rp d \<noteq> [] \<longrightarrow>
       truthy (normalize_string rp
         (py_or (dget d ''item_code'') (py_or (dget d ''item_id'') (dget master ''item_code'')))))"
proof -
  let ?code = "normalize_string rp (py_or (dget d ''item_code'') (py_or (dget d ''item_id'') (dget master ''item_code'')))"
  let ?cur = "normalize_string rp (py_or (dget d ''id'') (dget d ''_id''))"
  let ?s = "normalize_serials rp d"
  let ?body = "\<lambda>serial. bindM (find_serial_conflict S rp (VStr serial) ?code ?cur) (\<lambda>conflict.
       raise_if (conflict \<noteq> None) (GovernanceViolation (''SERIAL_DUPLICATE: '' @ serial)))"
  have same: "db' = db"
    using keeps_enforce_count_line_business_rules [of "\<lambda>x. x = db" S rp d item] assms
    by (auto simp: keeps_def)
  from assms obtain u v w where
    w: "whenM (?s \<noteq> []) (bindM (raise_if (\<not> truthy ?code) (GovernanceViolation ''MISSING_ITEM_CODE'')) (\<lambda>_.
           assert_item_serial_uniqueness S rp ?code ?s ?cur)) u = (Inr v, w)" and "w = db'"
    by (auto simp: enforce_count_line_business_rules_def Let_def run_iff)
  have "keeps (\<lambda>x. x = u) (whenM (?s \<noteq> []) (bindM (raise_if (\<not> truthy ?code) (GovernanceViolation ''MISSING_ITEM_CODE'')) (\<lambda>_.
           assert_item_serial_uniqueness S rp ?code ?s ?cur)))"
    by (intro keeps_intros)
  from keepsD [OF this refl w] have "u = w" by simp
  show ?thesis
  proof (cases "?s = []")
    case False
    with w have t: "truthy ?code" and "assert_item_serial_uniqueness S rp ?code ?s ?cur u = (Inr (), w)"
      by (auto simp: run_iff)
    then have f: "forM ?s ?body u = (Inr (), w)" by (simp add: assert_item_serial_uniqueness_def)
    have "\<forall>x \<in> set ?s. ?body x u = (Inr (), u)"
      using forM_success [OF f] uniqueness_body_pure by metis
    then have "\<forall>x \<in> set ?s. find_serial_conflict S rp (VStr x) ?code ?cur u = (Inr None, u)"
      by (fastforce simp: run_iff)
    with \<open>u = w\<close> \<open>w = db'\<close> same t show ?thesis by simp
  qed (simp add: same)
qed

definition demo_registry :: memdb where
  "demo_registry = \<lparr>colls = (\<lambda>c. if c = ''serial_registry''
     then [[(''serial_no'', VStr ''SN9''), (''item_code'', VStr ''I1'')]] else []), next_id = 0\<rparr>"

lemma accepted_serials_unique_witness:
  "find_serial_conflict (mem_store show_nat (\<lambda>_. False)) (\<lambda>_. []) (VStr ''SN1'') (VStr ''I1'') VNone demo_registry =
     (Inr None, demo_registry)"
proof -
  let ?S = "mem_store show_nat (\<lambda>_. False)"
  let ?d = "[(''item_code'', VStr ''I1''), (''counted_qty'', VInt 1), (''serial_numbers'', VList [VStr ''sn1''])]"
  let ?run = "enforce_count_line_business_rules ?S (\<lambda>_. []) ?d (Some [])"
  have "case fst (?run demo_registry) of Inl _ \<Rightarrow> False | Inr _ \<Rightarrow> True" by code_simp
  then obtain m n d' db' where run: "?run demo_registry = (Inr (m, n, d'), db')"
    by (cases "?run demo_registry") (auto split: sum.splits)
  have n: "normalize_serials (\<lambda>_. []) ?d = [''SN1'']" by code_simp
  have c: "normalize_string (\<lambda>_. []) (py_or (dget ?d ''item_code'') (py_or (dget ?d ''item_id'') v)) = VStr ''I1''" for v
    by (simp add: dget_def normalize_string_def strip_def is_space_def)
  have i: "normalize_string (\<lambda>_. []) (py_or (dget ?d ''id'') (dget ?d ''_id'')) = VNone"
    by (simp add: dget_def normalize_string_def)
  from accepted_serials_unique [OF run, unfolded n c i] show ?thesis by simp
qed

end
