(* ===== verification/SessionLifecycle.thy ===== *)
theory SessionLifecycle
  imports MongoLocks Validation
begin

text \<open>
  \<open>backend/services/session_lifecycle_service.py\<close>: the single writer of the collections
  \<open>sessions\<close>, \<open>verification_sessions\<close>, \<open>recount_requests\<close> and \<open>session_snapshots\<close>.

  The service object is a record of its collaborators: the store, the validator, the
  projection writer and the injected \<open>count_line_finalizer\<close>. A public operation called without a
  database session (\<open>in_tx = False\<close>) opens a unit of work around its core. An optional
  string argument is \<open>VNone\<close> or a \<open>VStr\<close>. The driver's \<open>insert_one\<close> adds the \<open>_id\<close> to the
  document it is given, so the operations that return the inserted document return it with
  the identifier.
\<close>

section \<open>The service\<close>

record 'db lifecycle =
  lstore :: "'db store"
  lrepr :: repr
  lvalid :: validator
  projection :: "'db projector"
  finalizer :: "(string \<Rightarrow> string \<Rightarrow> int \<Rightarrow> val \<Rightarrow> ('db, nat) comp) option"

definition RECOUNT_ALLOWED_TRANSITIONS :: "(string \<times> string list) list" where
  "RECOUNT_ALLOWED_TRANSITIONS =
     [(''pending'', [''assigned'', ''in_progress'', ''completed'', ''cancelled'', ''expired'']),
      (''assigned'', [''in_progress'', ''completed'', ''cancelled'', ''expired'']),
      (''in_progress'', [''completed'', ''cancelled'', ''expired'']),
      (''completed'', []), (''cancelled'', []), (''expired'', [])]"

definition get_session :: "'db lifecycle \<Rightarrow> string \<Rightarrow> ('db, doc option) comp" where
  "get_session L sid = find_one (lstore L) ''sessions'' (session_lookup sid)"

definition ensure_session_exists :: "'db lifecycle \<Rightarrow> string \<Rightarrow> ('db, doc) comp" where
  "ensure_session_exists L sid =
     bindM (get_session L sid) (\<lambda>r.
     (case r of
        None \<Rightarrow> raiseM (GovernanceViolation (''CRITICAL: Session not found: '' @ sid))
      | Some session \<Rightarrow>
          (if session = [] then raiseM (GovernanceViolation (''CRITICAL: Session not found: '' @ sid))
           else returnM session)))"

definition ensure_session_not_finalized :: "'db lifecycle \<Rightarrow> string \<Rightarrow> ('db, doc) comp" where
  "ensure_session_not_finalized L sid =
     bindM (ensure_session_exists L sid) (\<lambda>session.
     bindM (raise_if (session_closed (lrepr L) session)
       (GovernanceViolation ''Session is finalized. Mutation blocked.'')) (\<lambda>_.
     returnM session))"

definition ensure_session_active :: "'db lifecycle \<Rightarrow> string \<Rightarrow> ('db, doc) comp" where
  "ensure_session_active L sid =
     bindM (ensure_session_not_finalized L sid) (\<lambda>session.
     let canonical = normalize_session_status (lrepr L) (dget session ''status'')
     in bindM (raise_if (canonical \<noteq> ''ACTIVE'')
          (GovernanceViolation
            (''CRITICAL: Session must be ACTIVE for count-line writes (found '' @ canonical @ '')''))) (\<lambda>_.
        returnM session))"

section \<open>Optimistic session updates\<close>

definition occ_filter :: "string \<Rightarrow> int \<Rightarrow> query" where
  "occ_filter sid expected = [(''$and'', CClauses [session_lookup sid, build_version_filter expected])]"

definition occ_update :: "doc \<Rightarrow> doc" where
  "occ_update set_doc = [(''$set'', VDict set_doc), (''$inc'', VDict [(''version'', VInt 1)])]"

definition update_session_with_occ :: "'db lifecycle \<Rightarrow> string \<Rightarrow> doc \<Rightarrow> int \<Rightarrow> ('db, unit) comp" where
  "update_session_with_occ L sid set_doc expected =
     bindM (authorized ''SessionLifecycleService'' ''sessions'' ''update_one''
       (update_one (lstore L) ''sessions'' (occ_filter sid expected) (occ_update set_doc))) (\<lambda>(_, modified).
     raise_if (modified = 0)
       (ConcurrencyError (''CRITICAL: Session version mismatch for '' @ sid @ '' (expected '' @
          show_int expected @ '')'')))"

definition apply_ownership_transition ::
  "'db lifecycle \<Rightarrow> string \<Rightarrow> doc \<Rightarrow> doc \<Rightarrow> ('db, unit) comp" where
  "apply_ownership_transition L sid set_fields ownership_event =
     bindM (raise_if (set_fields = [])
       (GovernanceViolation ''CRITICAL: ownership transition requires set_fields'')) (\<lambda>_.
     let update_doc = (''$set'', VDict set_fields) #
           (if ownership_event = [] then []
            else [(''$push'', VDict [(''ownership_events'', VDict ownership_event)])])
     in bindM (authorized ''SessionLifecycleService'' ''sessions'' ''update_one''
          (update_one (lstore L) ''sessions'' (session_lookup sid) update_doc)) (\<lambda>_. returnM ()))"

definition compute_session_totals :: "'db lifecycle \<Rightarrow> int \<Rightarrow> string \<Rightarrow> ('db, doc) comp" where
  "compute_session_totals L now sid =
     bindM (find_all (lstore L) ''count_lines'' [(''session_id'', CEq (VStr sid))]) (\<lambda>lines.
     bindM (liftM (totals_loop instant no_totals lines)) (\<lambda>t.
     returnM (totals_fields t @ [(''updated_at'', naive now)] @ last_activity_field t)))"

definition sync_session_projection ::
  "'db lifecycle \<Rightarrow> int \<Rightarrow> string \<Rightarrow> string \<Rightarrow> string \<Rightarrow> ('db, unit) comp" where
  "sync_session_projection L now sid trigger actor =
     sync_for_sessions (projection L) now [sid] trigger actor False [] False"

section \<open>Snapshots\<close>

definition record_session_snapshot ::
  "'db lifecycle \<Rightarrow> int \<Rightarrow> string \<Rightarrow> doc \<Rightarrow> string \<Rightarrow> ('db, doc) comp" where
  "record_session_snapshot L now sid snapshot_doc actor =
     bindM (raise_if (snapshot_doc = [])
       (GovernanceViolation ''CRITICAL: snapshot_doc is required'')) (\<lambda>_.
     bindM (find_one (lstore L) ''session_snapshots'' [(''session_id'', CEq (VStr sid))]) (\<lambda>existing.
     bindM (raise_if (existing \<noteq> None)
       (GovernanceViolation ''CRITICAL: Baseline snapshot already exists and is immutable'')) (\<lambda>_.
     bindM (get_session L sid) (\<lambda>session.
     bindM (raise_if (case session of None \<Rightarrow> False | Some s \<Rightarrow> session_closed (lrepr L) s)
       (GovernanceViolation ''Session is finalized. Mutation blocked.'')) (\<lambda>_.
     let snapshot = dput ''session_id'' (VStr sid) snapshot_doc
     in bindM (authorized ''SessionLifecycleService'' ''session_snapshots'' ''insert_one''
          (insert_one (lstore L) ''session_snapshots'' snapshot)) (\<lambda>i.
        bindM (log_write_event (lstore L) (lrepr L) now ''SESSION_WRITE'' ''SNAPSHOT_CREATE'' sid
          VNone VNone VNone VNone VNone (VStr actor)
          [(''snapshot_hash'', dget snapshot ''snapshot_hash''),
           (''item_count'', dget snapshot ''item_count'')]) (\<lambda>_.
        returnM (dset_default ''_id'' i snapshot))))))))"

section \<open>Creating a session\<close>

definition created_session_doc :: "int \<Rightarrow> doc \<Rightarrow> doc" where
  "created_session_doc now session_doc =
     (let d0 = dput ''status'' (VStr ''CREATED'') session_doc;
          d1 = dset_default ''id'' (dget d0 ''session_id'') d0;
          d2 = dset_default ''started_at'' (naive now) d1;
          d3 = dset_default ''last_heartbeat'' (naive now) d2;
          d4 = dset_default ''session_id'' (dget d3 ''id'') d3
      in dset_default ''version'' (VInt 0) d4)"

definition create_session_core ::
  "'db lifecycle \<Rightarrow> int \<Rightarrow> doc \<Rightarrow> string \<Rightarrow> ('db, doc) comp" where
  "create_session_core L now session_doc username =
     (let created = created_session_doc now session_doc;
          sid = dget created ''id''
      in bindM (raise_if (\<not> truthy sid)
           (GovernanceViolation (''Session document must include 'id' or 'session_id'' @ [CHR 0x27]))) (\<lambda>_.
         bindM (validate_session (lstore L) (lrepr L) (lvalid L) now created None) (\<lambda>_.
         bindM (authorized ''SessionLifecycleService'' ''sessions'' ''insert_one''
           (insert_one (lstore L) ''sessions'' created)) (\<lambda>i.
         bindM (authorized ''SessionLifecycleService'' ''verification_sessions'' ''insert_one''
           (insert_one (lstore L) ''verification_sessions''
             [(''session_id'', sid), (''user_id'', VStr username), (''status'', VStr ''CREATED''),
              (''started_at'', naive now), (''last_heartbeat'', naive now),
              (''rack_id'', dget created ''rack_no''), (''floor'', dget created ''floor_id''),
              (''location_id'', dget created ''location_id'')])) (\<lambda>_.
         bindM (liftM (to_int (py_or (dget_or created ''version'' (VInt 0)) (VInt 0)))) (\<lambda>version.
         bindM (log_write_event (lstore L) (lrepr L) now ''SESSION_WRITE'' ''CREATE'' (py_str (lrepr L) sid)
           VNone VNone (VInt version) VNone VNone (VStr username) []) (\<lambda>_.
         bindM (sync_session_projection L now (py_str (lrepr L) sid) ''session.create'' username) (\<lambda>_.
         returnM (dset_default ''_id'' i created)))))))))"

definition in_transaction :: "'db lifecycle \<Rightarrow> bool \<Rightarrow> ('db, 'a) comp \<Rightarrow> ('db, 'a) comp" where
  "in_transaction L in_tx core = (if in_tx then core else unit_of_work (lstore L) (committed core))"

definition create_session ::
  "'db lifecycle \<Rightarrow> int \<Rightarrow> bool \<Rightarrow> doc \<Rightarrow> string \<Rightarrow> ('db, doc) comp" where
  "create_session L now in_tx session_doc username =
     in_transaction L in_tx (create_session_core L now session_doc username)"

section \<open>Transitions\<close>

definition blocker :: "nat \<Rightarrow> string \<Rightarrow> string list" where
  "blocker n what = (if n > 0 then [show_nat n @ '' '' @ what] else [])"

definition open_unknown_items :: "string \<Rightarrow> query" where
  "open_unknown_items sid =
     [(''session_id'', CEq (VStr sid)), (''status'', CNin [VStr ''RESOLVED'', VStr ''DISMISSED''])]"

definition open_recounts :: "string \<Rightarrow> query" where
  "open_recounts sid =
     [(''session_id'', CEq (VStr sid)),
      (''status'', CNin [VStr ''completed'', VStr ''cancelled'', VStr ''expired''])]"

definition lines_awaiting_approval :: "string \<Rightarrow> query" where
  "lines_awaiting_approval sid =
     [(''session_id'', CEq (VStr sid)),
      (''approval_status'', CIn [VStr ''NEEDS_REVIEW'', VStr ''PENDING'']),
      (''status'', CNin [VStr ''SUPERSEDED'', VStr ''superseded''])]"

definition assert_session_ready_to_finalize :: "'db lifecycle \<Rightarrow> string \<Rightarrow> ('db, unit) comp" where
  "assert_session_ready_to_finalize L sid =
     bindM (count_documents (lstore L) ''unknown_items'' (open_unknown_items sid)) (\<lambda>unknown.
     bindM (count_documents (lstore L) ''recount_requests'' (open_recounts sid)) (\<lambda>recounts.
     bindM (count_documents (lstore L) ''count_lines'' (lines_awaiting_approval sid)) (\<lambda>review.
     let blockers = blocker unknown ''unresolved unknown item(s)'' @
           blocker recounts ''pending recount request(s)'' @
           blocker review ''unresolved count lines pending approval''
     in raise_if (blockers \<noteq> [])
          (GovernanceViolation (''CRITICAL: Session cannot be finalized '' @
             [CHR 0xE2, CHR 0x80, CHR 0x94] @ '' blockers: '' @ join ''; '' blockers)))))"

definition lifecycle_context :: "doc \<Rightarrow> string \<Rightarrow> doc" where
  "lifecycle_context session sid =
     [(''session'', VDict session), (''session_id'', VStr sid),
      (''require_active_session'', VBool False), (''require_full_context'', VBool False)]"

definition transition_fields :: "int \<Rightarrow> string \<Rightarrow> string \<Rightarrow> val \<Rightarrow> doc" where
  "transition_fields now target actor note =
     [(''status'', VStr target), (''last_heartbeat'', naive now), (''updated_at'', naive now),
      (''updated_by'', VStr actor)] @
     (if target = ''REVIEW'' then [(''review_started_at'', naive now)] else []) @
     (if target = ''FINALIZED''
      then [(''finalized_at'', naive now), (''finalized_by'', VStr actor)] else []) @
     (if truthy note then [(''lifecycle_note'', note)] else [])"

definition transition_session_core ::
  "'db lifecycle \<Rightarrow> int \<Rightarrow> string \<Rightarrow> string \<Rightarrow> string \<Rightarrow> val \<Rightarrow> int option \<Rightarrow> ('db, doc) comp" where
  "transition_session_core L now sid target_status actor note expected_version =
     bindM (ensure_session_exists L sid) (\<lambda>session.
     let current = normalize_session_status (lrepr L) (dget session ''status'');
         target = normalize_session_status (lrepr L) (VStr target_status)
     in bindM (liftM (assert_valid_transition current target)) (\<lambda>_.
        bindM (assert_valid_write (lstore L) (lrepr L)
          (lifecycle_context session sid @ [(''from_state'', VStr current), (''to_state'', VStr target)])) (\<lambda>_.
        bindM (whenM (target = ''FINALIZED'') (assert_session_ready_to_finalize L sid)) (\<lambda>_.
        let update_doc = transition_fields now target actor note;
            expected = (case expected_version of None \<Rightarrow> coerce_version (dget session ''version'') | Some v \<Rightarrow> v)
        in bindM (validate_session (lstore L) (lrepr L) (lvalid L) now (dmerge session update_doc) None) (\<lambda>_.
           bindM (update_session_with_occ L sid update_doc expected) (\<lambda>_.
           bindM (authorized ''SessionLifecycleService'' ''verification_sessions'' ''update_one''
             (update_one (lstore L) ''verification_sessions'' [(''session_id'', CEq (VStr sid))]
               [(''$set'', VDict [(''status'', VStr target), (''last_heartbeat'', naive now)])])) (\<lambda>_.
           bindM (log_write_event (lstore L) (lrepr L) now ''SESSION_WRITE'' ''TRANSITION'' sid
             VNone VNone (VInt (expected + 1)) VNone VNone (VStr actor)
             [(''from'', VStr current), (''to'', VStr target), (''note'', note)]) (\<lambda>_.
           bindM (sync_session_projection L now sid ''session.transition'' actor) (\<lambda>_.
           ensure_session_exists L sid)))))))))"

definition transition_session ::
  "'db lifecycle \<Rightarrow> int \<Rightarrow> bool \<Rightarrow> string \<Rightarrow> string \<Rightarrow> string \<Rightarrow> val \<Rightarrow> int option \<Rightarrow> ('db, doc) comp" where
  "transition_session L now in_tx sid target_status actor note expected_version =
     in_transaction L in_tx
       (transition_session_core L now sid target_status actor note expected_version)"

section \<open>Field updates\<close>

text \<open>
  The part \<open>update_session_totals\<close> and \<open>update_session_fields\<close> share: the guards, the
  optimistic update and the audit record.
\<close>

definition guarded_session_update ::
  "'db lifecycle \<Rightarrow> int \<Rightarrow> string \<Rightarrow> doc \<Rightarrow> int option \<Rightarrow> string \<Rightarrow> string \<Rightarrow> ('db, unit) comp" where
  "guarded_session_update L now sid new_fields expected_version actor operation =
     bindM (ensure_session_not_finalized L sid) (\<lambda>session.
     bindM (assert_valid_write (lstore L) (lrepr L) (lifecycle_context session sid)) (\<lambda>_.
     let expected = (case expected_version of None \<Rightarrow> coerce_version (dget session ''version'') | Some v \<Rightarrow> v)
     in bindM (update_session_with_occ L sid new_fields expected) (\<lambda>_.
        log_write_event (lstore L) (lrepr L) now ''SESSION_WRITE'' operation sid
          VNone VNone (VInt (expected + 1)) VNone VNone (VStr actor) [])))"

definition update_session_totals ::
  "'db lifecycle \<Rightarrow> int \<Rightarrow> string \<Rightarrow> doc \<Rightarrow> int option \<Rightarrow> string \<Rightarrow> bool \<Rightarrow> ('db, unit) comp" where
  "update_session_totals L now sid totals expected_version actor sync_projection =
     bindM (guarded_session_update L now sid totals expected_version actor ''UPDATE_TOTALS'') (\<lambda>_.
     whenM sync_projection (sync_session_projection L now sid ''session.update_totals'' actor))"

definition update_session_fields ::
  "'db lifecycle \<Rightarrow> int \<Rightarrow> string \<Rightarrow> doc \<Rightarrow> int option \<Rightarrow> string \<Rightarrow> ('db, unit) comp" where
  "update_session_fields L now sid new_fields expected_version actor =
     (if new_fields = [] then returnM ()
      else bindM (guarded_session_update L now sid new_fields expected_version actor ''UPDATE_FIELDS'') (\<lambda>_.
           sync_session_projection L now sid ''session.update_fields'' actor))"

definition persist_logic_pin ::
  "'db lifecycle \<Rightarrow> int \<Rightarrow> string \<Rightarrow> val \<Rightarrow> val \<Rightarrow> int option \<Rightarrow> string \<Rightarrow> ('db, unit) comp" where
  "persist_logic_pin L now sid logic_version logic_scope_source expected_version actor =
     update_session_fields L now sid
       [(''logic_version'', logic_version), (''logic_scope_source'', logic_scope_source)]
       expected_version actor"

section \<open>Recount requests\<close>

definition recount_lookup :: "'db lifecycle \<Rightarrow> string \<Rightarrow> query" where
  "recount_lookup L rid =
     (if oid_valid (lstore L) rid then [(''_id'', CEq (VOid rid))] else [(''id'', CEq (VStr rid))])"

definition normalize_recount_status :: "val \<Rightarrow> string" where
  "normalize_recount_status v =
     (case v of VStr s \<Rightarrow> if strip s = [] then ''pending'' else lower (strip s) | _ \<Rightarrow> ''pending'')"

definition get_recount_request :: "'db lifecycle \<Rightarrow> string \<Rightarrow> ('db, doc option) comp" where
  "get_recount_request L rid = find_one (lstore L) ''recount_requests'' (recount_lookup L rid)"

definition create_recount_request_core ::
  "'db lifecycle \<Rightarrow> int \<Rightarrow> doc \<Rightarrow> string \<Rightarrow> ('db, doc) comp" where
  "create_recount_request_core L now recount_doc actor =
     bindM (raise_if (recount_doc = []) (GovernanceViolation ''CRITICAL: recount_doc is required'')) (\<lambda>_.
     let sid = strip (py_str (lrepr L) (py_or (dget recount_doc ''session_id'') (VStr [])))
     in bindM (whenM (sid \<noteq> []) (bindM (ensure_session_not_finalized L sid) (\<lambda>_. returnM ()))) (\<lambda>_.
        let d0 = dset_default ''status'' (VStr ''pending'') recount_doc;
            d1 = dset_default ''created_at'' (naive now) d0;
            d2 = dset_default ''updated_at'' (naive now) d1
        in bindM (authorized ''SessionLifecycleService'' ''recount_requests'' ''insert_one''
             (insert_one (lstore L) ''recount_requests'' d2)) (\<lambda>i.
           let d3 = dput ''_id'' i d2;
               d4 = dput ''id'' (VStr (if truthy i then py_str (lrepr L) i
                      else py_str (lrepr L) (py_or (dget recount_doc ''id'') (VStr [])))) d3
           in bindM (log_write_event (lstore L) (lrepr L) now ''SESSION_WRITE'' ''RECOUNT_CREATE''
                (if sid = [] then ''UNKNOWN'' else sid) VNone VNone VNone VNone VNone (VStr actor)
                [(''recount_id'', dget d4 ''id''), (''count_line_id'', dget d4 ''count_line_id''),
                 (''status'', dget d4 ''status'')]) (\<lambda>_.
              returnM d4))))"

definition create_recount_request ::
  "'db lifecycle \<Rightarrow> int \<Rightarrow> bool \<Rightarrow> doc \<Rightarrow> string \<Rightarrow> ('db, doc) comp" where
  "create_recount_request L now in_tx recount_doc actor =
     in_transaction L in_tx (create_recount_request_core L now recount_doc actor)"

definition assert_recount_transition :: "string \<Rightarrow> string \<Rightarrow> unit res" where
  "assert_recount_transition current_status target_status =
     (let current = normalize_recount_status (VStr current_status);
          target = normalize_recount_status (VStr target_status)
      in (case map_of RECOUNT_ALLOWED_TRANSITIONS current of
            None \<Rightarrow> Inl (GovernanceViolation (''CRITICAL: Unknown recount status '' @ [CHR 0x27] @ current @ [CHR 0x27]))
          | Some allowed \<Rightarrow>
              if target \<notin> set allowed \<and> target \<noteq> current
              then Inl (GovernanceViolation
                (''CRITICAL: Invalid recount transition '' @ current @ '' -> '' @ target))
              else Inr ()))"

definition transition_recount_request_core ::
  "'db lifecycle \<Rightarrow> int \<Rightarrow> string \<Rightarrow> string \<Rightarrow> string \<Rightarrow> doc \<Rightarrow> ('db, doc) comp" where
  "transition_recount_request_core L now rid target_status actor new_fields =
     bindM (get_recount_request L rid) (\<lambda>r.
     (case r of
        None \<Rightarrow> raiseM (GovernanceViolation (''CRITICAL: Recount request not found: '' @ rid))
      | Some recount \<Rightarrow>
          (if recount = [] then raiseM (GovernanceViolation (''CRITICAL: Recount request not found: '' @ rid))
           else
          (let current = normalize_recount_status (dget recount ''status'');
               target = normalize_recount_status (VStr target_status);
               sid = strip (py_str (lrepr L) (py_or (dget recount ''session_id'') (VStr [])))
           in bindM (liftM (assert_recount_transition current target)) (\<lambda>_.
              bindM (whenM (sid \<noteq> []) (bindM (ensure_session_not_finalized L sid) (\<lambda>_. returnM ()))) (\<lambda>_.
              let update_fields = dset_default ''updated_at'' (naive now) (dput ''status'' (VStr target) new_fields);
                  lookup = (if dget recount ''_id'' \<noteq> VNone then [(''_id'', CEq (dget recount ''_id''))]
                            else recount_lookup L rid)
              in bindM (authorized ''SessionLifecycleService'' ''recount_requests'' ''update_one''
                   (update_one (lstore L) ''recount_requests'' lookup [(''$set'', VDict update_fields)])) (\<lambda>_.
                 bindM (get_recount_request L rid) (\<lambda>again.
                 let refreshed = (case again of
                       Some d \<Rightarrow> if d = [] then dmerge recount update_fields else d
                     | None \<Rightarrow> dmerge recount update_fields)
                 in bindM (log_write_event (lstore L) (lrepr L) now ''SESSION_WRITE'' ''RECOUNT_TRANSITION''
                      (if sid = [] then ''UNKNOWN'' else sid) VNone VNone VNone VNone VNone (VStr actor)
                      [(''recount_id'', VStr (py_str (lrepr L)
                          (py_or (dget recount ''_id'') (py_or (dget recount ''id'') (VStr rid))))),
                       (''from_status'', VStr current), (''to_status'', VStr target)]) (\<lambda>_.
                    returnM refreshed)))))))))"

definition transition_recount_request ::
  "'db lifecycle \<Rightarrow> int \<Rightarrow> bool \<Rightarrow> string \<Rightarrow> string \<Rightarrow> string \<Rightarrow> doc \<Rightarrow> ('db, doc) comp" where
  "transition_recount_request L now in_tx rid target_status actor new_fields =
     in_transaction L in_tx (transition_recount_request_core L now rid target_status actor new_fields)"

section \<open>Finalization\<close>

definition line_to_finalize :: "repr \<Rightarrow> doc \<Rightarrow> bool" where
  "line_to_finalize rp line =
     (py_str rp (py_or (dget line ''status'') (VStr [])) \<notin> {''locked'', ''SUPERSEDED'', ''superseded''} \<and>
      py_str rp (py_or (dget line ''approval_status'') (VStr [])) \<notin> {''REJECTED'', ''NEEDS_REVIEW''})"

definition finalized_fields :: "int \<Rightarrow> string \<Rightarrow> val \<Rightarrow> doc \<Rightarrow> doc" where
  "finalized_fields now actor note totals =
     dmerge
       [(''status'', VStr ''FINALIZED''), (''finalization_status'', VStr ''FINALIZED''),
        (''completed_at'', naive now), (''closed_at'', naive now), (''last_heartbeat'', naive now),
        (''finalized_at'', naive now), (''finalized_by'', VStr actor), (''updated_at'', naive now),
        (''updated_by'', VStr actor)] totals @
     (if truthy note then [(''finalization_note'', note)] else [])"

definition run_finalizer ::
  "'db lifecycle \<Rightarrow> doc list \<Rightarrow> string \<Rightarrow> string \<Rightarrow> int \<Rightarrow> val \<Rightarrow> ('db, unit) comp" where
  "run_finalizer L lines sid actor now note =
     whenM (filter (line_to_finalize (lrepr L)) lines \<noteq> [])
       (case finalizer L of
          None \<Rightarrow> raiseM (GovernanceViolation
            ''CRITICAL: Session finalization requires configured count-line finalizer'')
        | Some f \<Rightarrow> bindM (f sid actor now note) (\<lambda>_. returnM ()))"

definition finalize_session_canonical_core ::
  "'db lifecycle \<Rightarrow> int \<Rightarrow> string \<Rightarrow> string \<Rightarrow> val \<Rightarrow> ('db, doc \<times> int \<times> doc) comp" where
  "finalize_session_canonical_core L now sid actor note =
     bindM (ensure_session_exists L sid) (\<lambda>session.
     let current = normalize_session_status (lrepr L) (dget session ''status'')
     in bindM (raise_if (session_closed (lrepr L) session)
          (GovernanceViolation ''Session is finalized. Mutation blocked.'')) (\<lambda>_.
        bindM (raise_if (current \<noteq> ''REVIEW'')
          (GovernanceViolation ''CRITICAL: Session must be in REVIEW before FINALIZED'')) (\<lambda>_.
        bindM (liftM (assert_valid_transition current ''FINALIZED'')) (\<lambda>_.
        bindM (assert_valid_write (lstore L) (lrepr L)
          (lifecycle_context session sid @
           [(''from_state'', VStr current), (''to_state'', VStr ''FINALIZED'')])) (\<lambda>_.
        bindM (assert_session_ready_to_finalize L sid) (\<lambda>_.
        bindM (find_all (lstore L) ''count_lines'' [(''session_id'', CEq (VStr sid))]) (\<lambda>all_lines.
        let lines = to_list 50000 all_lines
        in bindM (raise_if (filter is_blocking_finalization lines \<noteq> [])
             (GovernanceViolation ''CRITICAL: Session has unresolved count lines and cannot be finalized'')) (\<lambda>_.
           bindM (run_finalizer L lines sid actor now note) (\<lambda>_.
           bindM (compute_session_totals L now sid) (\<lambda>totals.
           let session_update = finalized_fields now actor note totals;
               expected = coerce_version (dget session ''version'')
           in bindM (update_session_with_occ L sid session_update expected) (\<lambda>_.
              bindM (authorized ''SessionLifecycleService'' ''verification_sessions'' ''update_one''
                (update_one (lstore L) ''verification_sessions'' [(''session_id'', CEq (VStr sid))]
                  [(''$set'', VDict [(''status'', VStr ''FINALIZED''), (''last_heartbeat'', naive now),
                                    (''completed_at'', naive now), (''updated_by'', VStr actor)])])) (\<lambda>_.
              bindM (log_write_event (lstore L) (lrepr L) now ''SESSION_WRITE'' ''FINALIZE'' sid
                VNone VNone (VInt (expected + 1)) VNone VNone (VStr actor) [(''note'', note)]) (\<lambda>_.
              bindM (sync_session_projection L now sid ''session.finalize'' actor) (\<lambda>_.
              bindM (ensure_session_exists L sid) (\<lambda>refreshed.
              returnM (refreshed, now, totals))))))))))))))))"

definition finalize_session_canonical ::
  "'db lifecycle \<Rightarrow> int \<Rightarrow> bool \<Rightarrow> string \<Rightarrow> string \<Rightarrow> val \<Rightarrow> ('db, doc \<times> int \<times> doc) comp" where
  "finalize_session_canonical L now in_tx sid actor note =
     in_transaction L in_tx (finalize_session_canonical_core L now sid actor note)"

section \<open>Optimistic concurrency\<close>

text \<open>A session document as the service writes it: a non-negative version, or none yet.\<close>

definition versioned :: "doc \<Rightarrow> bool" where
  "versioned d =
     (case map_of d ''version'' of None \<Rightarrow> True | Some v \<Rightarrow> (case v of VInt n \<Rightarrow> 0 \<le> n | _ \<Rightarrow> False))"

definition untouched :: "doc \<Rightarrow> bool" where
  "untouched set_doc \<longleftrightarrow> {''id'', ''session_id'', ''version''} \<inter> fst ` set set_doc = {}"

lemma match_occ_filter:
  "match_filter (occ_filter sid n) d \<longleftrightarrow>
     match_filter (session_lookup sid) d \<and> match_filter (build_version_filter n) d"
  by (simp add: occ_filter_def)

lemma versioned_cases:
  assumes "versioned d"
  obtains (missing) "\<not> dhas d ''version''" "dget d ''version'' = VNone" "coerce_version (dget d ''version'') = 0"
    | (version) n where "0 \<le> n" "dhas d ''version''" "dget d ''version'' = VInt n"
        "coerce_version (dget d ''version'') = n"
  using assms
  by (auto simp: versioned_def dhas_def dget_def coerce_version_def split: option.splits val.splits)

lemma versioned_match:
  assumes "versioned d"
  shows "match_filter (build_version_filter n) d \<longleftrightarrow> coerce_version (dget d ''version'') = max n 0"
  using assms
  by (cases rule: versioned_cases) (auto simp: match_version_filter)

lemma apply_occ_update:
  assumes "versioned d" and "''version'' \<notin> fst ` set set_doc"
  shows "\<exists>d'. apply_update (occ_update set_doc) d = (Inr True, d') \<and>
    dget d' ''version'' = VInt (coerce_version (dget d ''version'') + 1) \<and>
    (\<forall>k. k \<noteq> ''version'' \<longrightarrow> dget d' k = dget (snd (apply_set set_doc d)) k)"
proof -
  obtain b e where e: "apply_set set_doc d = (Inr b, e)"
    using apply_set_total [of set_doc d] by blast
  have ver: "dget e ''version'' = dget d ''version''"
    using apply_set_other [OF assms(2), of d] e by simp
  let ?n = "coerce_version (dget d ''version'')"
  have inc: "apply_inc [(''version'', VInt 1)] e = (Inr True, dput ''version'' (VInt (?n + 1)) e)"
    using assms(1)
    by (cases rule: versioned_cases)
       (use ver in \<open>auto simp: dget_or_def dget_def run_simps split: option.splits\<close>)
  have "apply_update (occ_update set_doc) d = (Inr True, dput ''version'' (VInt (?n + 1)) e)"
    using e inc
    by (simp add: apply_update_def occ_update_def dget_def dhas_def dict_or_empty_def run_simps
        del: apply_inc.simps(2))
  then show ?thesis using e by (simp add: doc_simps)
qed

context document_store
begin

lemma update_session_with_occ_cases:
  assumes L: "lstore L = S" and run: "update_session_with_occ L sid set_doc n db = (r, db')"
    and wf: "\<forall>d \<in> set (docs S ''sessions'' db). versioned d"
    and safe: "''version'' \<notin> fst ` set set_doc"
  shows "(\<exists>d d' ds. filter (match_filter (occ_filter sid n)) (docs S ''sessions'' db) = d # ds \<and>
      apply_update (occ_update set_doc) d = (Inr True, d') \<and> r = Inr () \<and>
      docs S ''sessions'' db' =
        update_first (match_filter (occ_filter sid n)) (\<lambda>_. d') (docs S ''sessions'' db)) \<or>
    (filter (match_filter (occ_filter sid n)) (docs S ''sessions'' db) = [] \<and>
      (\<exists>m. r = Inl (ConcurrencyError m)) \<and> docs S ''sessions'' db' = docs S ''sessions'' db)"
proof -
  obtain q t where up: "update_one S ''sessions'' (occ_filter sid n) (occ_update set_doc) db = (q, t)"
    by (cases "update_one S ''sessions'' (occ_filter sid n) (occ_update set_doc) db")
  show ?thesis
  proof (cases "filter (match_filter (occ_filter sid n)) (docs S ''sessions'' db)")
    case Nil
    from update_one_none [OF up Nil] up run L Nil show ?thesis
      by (auto simp: update_session_with_occ_def run_simps)
  next
    case (Cons d ds)
    then have "d \<in> set (docs S ''sessions'' db)" using filter_hd_sat by fastforce
    with wf have "versioned d" by simp
    from apply_occ_update [OF this safe] obtain d' where
      d': "apply_update (occ_update set_doc) d = (Inr True, d')" by blast
    from update_one_some [OF up Cons d'] up run L have
      "r = Inr ()" "docs S ''sessions'' db' =
        update_first (match_filter (occ_filter sid n)) (\<lambda>_. d') (docs S ''sessions'' db)"
      by (auto simp: update_session_with_occ_def run_simps)
    with Cons d' show ?thesis by blast
  qed
qed

lemma keeps_update_session_with_occ:
  assumes L: "lstore L = S" and k: "k \<noteq> ''sessions''"
  shows "keeps (\<lambda>db. P (docs S k db)) (update_session_with_occ L sid set_doc n)"
  unfolding update_session_with_occ_def L
  by (rule keeps_bindM, simp add: keeps_update_other k) (simp split: prod.split)

end

lemma untouched_lookup:
  assumes "untouched set_doc" "apply_update (occ_update set_doc) d = (Inr True, d')" "versioned d"
  shows "match_filter (session_lookup sid) d' = match_filter (session_lookup sid) d"
proof -
  from assms have "''version'' \<notin> fst ` set set_doc" by (auto simp: untouched_def)
  from apply_occ_update [OF assms(3) this] assms(1,2)
  have "dget d' ''id'' = dget d ''id''" "dget d' ''session_id'' = dget d ''session_id''"
    by (auto simp: untouched_def apply_set_other)
  then show ?thesis
    using field_values_cong [of "''id''" d' d] field_values_cong [of "''session_id''" d' d]
    by (simp add: match_session_lookup)
qed

context document_store
begin

text \<open>The whole behaviour of an optimistic update of a session whose identifier is unique.\<close>

lemma occ_single:
  assumes L: "lstore L = S" and one: "filter (match_filter (session_lookup sid)) (docs S ''sessions'' db) = [d]"
    and wf: "\<forall>e \<in> set (docs S ''sessions'' db). versioned e" and safe: "untouched set_doc"
    and run: "update_session_with_occ L sid set_doc n db = (r, db')"
  shows "if coerce_version (dget d ''version'') = max n 0
    then r = Inr () \<and> (\<exists>d'. apply_update (occ_update set_doc) d = (Inr True, d') \<and>
      filter (match_filter (session_lookup sid)) (docs S ''sessions'' db') = [d'] \<and>
      dget d' ''version'' = VInt (max n 0 + 1) \<and> versioned d' \<and>
      docs S ''sessions'' db' =
        update_first (match_filter (session_lookup sid)) (\<lambda>_. d') (docs S ''sessions'' db))
    else (\<exists>m. r = Inl (ConcurrencyError m)) \<and> docs S ''sessions'' db' = docs S ''sessions'' db"
proof -
  let ?P = "match_filter (session_lookup sid)" and ?Q = "match_filter (occ_filter sid n)"
  have QP: "\<And>x. ?Q x \<Longrightarrow> ?P x" by (simp add: match_occ_filter)
  have "?P d" "d \<in> set (docs S ''sessions'' db)" using filter_hd_sat [OF one] by auto
  with wf have vd: "versioned d" by simp
  have safe': "''version'' \<notin> fst ` set set_doc" using safe by (auto simp: untouched_def)
  have Qd: "?Q d \<longleftrightarrow> coerce_version (dget d ''version'') = max n 0"
    using \<open>?P d\<close> vd by (simp add: match_occ_filter versioned_match)
  have filt: "filter ?Q (docs S ''sessions'' db) = (if ?Q d then [d] else [])"
    using filter_implies_single [of ?P _ d ?Q] one QP by blast
  show ?thesis
  proof (cases "coerce_version (dget d ''version'') = max n 0")
    case True
    with Qd filt update_session_with_occ_cases [OF L run wf safe'] obtain d' where
      d': "apply_update (occ_update set_doc) d = (Inr True, d')" and r: "r = Inr ()"
      and up: "docs S ''sessions'' db' = update_first ?Q (\<lambda>_. d') (docs S ''sessions'' db)" by auto
    from apply_occ_update [OF vd safe'] d' True have ver: "dget d' ''version'' = VInt (max n 0 + 1)" by auto
    then have "versioned d'"
      by (auto simp: versioned_def dget_def max_def split: option.splits)
    have "?P d'" using untouched_lookup [OF safe d' vd] \<open>?P d\<close> by simp
    have Qd': "?Q d" using Qd True by simp
    have "update_first ?Q (\<lambda>_. d') (docs S ''sessions'' db) = update_first ?P (\<lambda>_. d') (docs S ''sessions'' db)"
      using update_first_agree [of ?P _ d ?Q] one Qd' QP by blast
    moreover have "filter ?P (update_first ?Q (\<lambda>_. d') (docs S ''sessions'' db)) = [d']"
      using filter_update_first [of ?P _ d ?Q d'] one Qd' QP \<open>?P d'\<close> by blast
    ultimately show ?thesis using r d' up ver \<open>versioned d'\<close> True by auto
  next
    case False
    with Qd filt update_session_with_occ_cases [OF L run wf safe'] show ?thesis by auto
  qed
qed

end

section \<open>The service contract\<close>

text \<open>
  What the service relies on: a document store, a projection writer that stays inside the
  projection collections, and a count-line finalizer that leaves the sessions alone.
\<close>

locale lifecycle_service = document_store "lstore L" for L :: "'db lifecycle" +
  assumes sync_frame: "k \<notin> set PROJECTION_COLLECTIONS \<Longrightarrow> k \<noteq> ''locks'' \<Longrightarrow>
      keeps (\<lambda>db. P (docs (lstore L) k db))
        (sync_for_sessions (projection L) now ids trigger actor rebuild item_scopes skip)"
    and finalizer_frame: "finalizer L = Some f \<Longrightarrow>
      keeps (\<lambda>db. P (docs (lstore L) ''sessions'' db)) (f sid actor now note)"
begin

abbreviation sessions :: "'db \<Rightarrow> doc list" where
  "sessions db \<equiv> docs (lstore L) ''sessions'' db"

abbreviation named :: "string \<Rightarrow> doc \<Rightarrow> bool" where
  "named sid \<equiv> match_filter (session_lookup sid)"

lemma sessions_not_projected: "''sessions'' \<notin> set PROJECTION_COLLECTIONS" "''sessions'' \<noteq> ''locks''"
  by (simp_all add: PROJECTION_COLLECTIONS_def)

lemma ensure_session_exists_iff:
  "ensure_session_exists L sid db = (Inr s, db') \<longleftrightarrow>
     db' = db \<and> s \<noteq> [] \<and> (\<exists>ds. filter (named sid) (sessions db) = s # ds)"
  by (auto simp: ensure_session_exists_def get_session_def run_simps find_one_run split: list.splits)

lemma keeps_ensure_session_exists [keeps_intros]: "keeps P (ensure_session_exists L sid)"
  unfolding ensure_session_exists_def get_session_def
  by (auto intro!: keeps_intros split: option.splits)

lemma keeps_ensure_session_not_finalized [keeps_intros]: "keeps P (ensure_session_not_finalized L sid)"
  unfolding ensure_session_not_finalized_def by (intro keeps_intros)

lemma keeps_ready [keeps_intros]: "keeps P (assert_session_ready_to_finalize L sid)"
  unfolding assert_session_ready_to_finalize_def Let_def by (intro keeps_intros)

lemma ready_iff:
  "assert_session_ready_to_finalize L sid db = (Inr (), db') \<longleftrightarrow>
     db' = db \<and>
     filter (match_filter (open_unknown_items sid)) (docs (lstore L) ''unknown_items'' db) = [] \<and>
     filter (match_filter (open_recounts sid)) (docs (lstore L) ''recount_requests'' db) = [] \<and>
     filter (match_filter (lines_awaiting_approval sid)) (docs (lstore L) ''count_lines'' db) = []"
  by (auto simp: assert_session_ready_to_finalize_def Let_def run_iff count_documents_run blocker_def
      split: if_splits)

lemma context_fields:
  "dget (lifecycle_context session sid @ extra) ''session'' = VDict session"
  "dget (lifecycle_context session sid) ''session'' = VDict session"
  "\<not> truthy (dget_or (lifecycle_context session sid @ extra) ''require_active_session'' v)"
  "\<not> truthy (dget_or (lifecycle_context session sid @ extra) ''require_full_context'' v)"
  "\<not> truthy (dget_or (lifecycle_context session sid) ''require_active_session'' v)"
  "\<not> truthy (dget_or (lifecycle_context session sid) ''require_full_context'' v)"
  by (simp_all add: lifecycle_context_def dget_def dget_or_def)

lemma check_write_open:
  "check_write rp (lifecycle_context session sid @ extra) session = Inr () \<Longrightarrow> \<not> session_closed rp session"
  "check_write rp (lifecycle_context session sid) session = Inr () \<Longrightarrow> \<not> session_closed rp session"
  by (simp_all add: check_write_iff)

lemma assert_write_run:
  "assert_valid_write (lstore L) rp (lifecycle_context session sid @ extra) db = (Inr x, db') \<Longrightarrow>
   db' = db \<and> check_write rp (lifecycle_context session sid @ extra) session = Inr ()"
  by (auto simp: assert_valid_write_with_session context_fields split: sum.splits)

lemma keeps_sync_sessions:
  "keeps (\<lambda>db. P (sessions db)) (sync_session_projection L now sid trigger actor)"
  unfolding sync_session_projection_def by (rule sync_frame [OF sessions_not_projected])

lemma keeps_verification_update:
  "keeps (\<lambda>db. P (sessions db)) (authorized ''SessionLifecycleService'' ''verification_sessions'' m
     (update_one (lstore L) ''verification_sessions'' q u))"
  by (simp add: keeps_update_other)

abbreviation lines_of :: "'db \<Rightarrow> doc list" where
  "lines_of db \<equiv> docs (lstore L) ''count_lines'' db"

lemma keeps_lines:
  "keeps (\<lambda>db. P (lines_of db)) (update_session_with_occ L sid upd v)"
  "keeps (\<lambda>db. P (lines_of db)) (sync_session_projection L now sid trigger actor)"
  "keeps (\<lambda>db. P (lines_of db)) (authorized ''SessionLifecycleService'' ''verification_sessions'' m
     (update_one (lstore L) ''verification_sessions'' q u))"
  by (auto simp: update_session_with_occ_def sync_session_projection_def PROJECTION_COLLECTIONS_def Let_def
      intro!: keeps_intros keeps_other sync_frame split: option.splits)

lemma transition_steps:
  assumes "transition_session_core L now sid target_status actor note ev db = (Inr res, db')"
  obtains session d1 errs d2 where
    "ensure_session_exists L sid db = (Inr session, db)"
    "assert_valid_transition (normalize_session_status (lrepr L) (dget session ''status''))
       (normalize_session_status (lrepr L) (VStr target_status)) = Inr ()"
    "\<not> session_closed (lrepr L) session"
    "normalize_session_status (lrepr L) (VStr target_status) = ''FINALIZED'' \<Longrightarrow>
       assert_session_ready_to_finalize L sid db = (Inr (), db)"
    "validate_session (lstore L) (lrepr L) (lvalid L) now (dmerge session
       (transition_fields now (normalize_session_status (lrepr L) (VStr target_status)) actor note))
       None db = (Inr errs, d1)"
    "update_session_with_occ L sid
       (transition_fields now (normalize_session_status (lrepr L) (VStr target_status)) actor note)
       (case ev of None \<Rightarrow> coerce_version (dget session ''version'') | Some v \<Rightarrow> v) d1 = (Inr (), d2)"
    "sessions db' = sessions d2"
    "ensure_session_exists L sid db' = (Inr res, db')"
  using assms unfolding transition_session_core_def Let_def
proof (elim bindM_elim)
  fix session u0 u1 u2 u3 u4 u5 errs d1 d2 x y1 y2 y3 y4 y5 y6 z
  let ?t = "normalize_session_status (lrepr L) (VStr target_status)"
  let ?v = "case ev of None \<Rightarrow> coerce_version (dget session ''version'') | Some v \<Rightarrow> v"
  assume 1: "ensure_session_exists L sid db = (Inr session, u0)"
    and 2: "liftM (assert_valid_transition (normalize_session_status (lrepr L) (dget session ''status'')) ?t) u0 =
      (Inr u1, u2)"
    and 3: "assert_valid_write (lstore L) (lrepr L) (lifecycle_context session sid @
       [(''from_state'', VStr (normalize_session_status (lrepr L) (dget session ''status''))),
        (''to_state'', VStr ?t)]) u2 = (Inr x, u3)"
    and 4: "whenM (?t = ''FINALIZED'') (assert_session_ready_to_finalize L sid) u3 = (Inr u4, u5)"
    and 5: "validate_session (lstore L) (lrepr L) (lvalid L) now
       (dmerge session (transition_fields now ?t actor note)) None u5 = (Inr errs, d1)"
    and 6: "update_session_with_occ L sid (transition_fields now ?t actor note) ?v d1 = (Inr z, d2)"
    and 7: "authorized ''SessionLifecycleService'' ''verification_sessions'' ''update_one''
             (update_one (lstore L) ''verification_sessions'' [(''session_id'', CEq (VStr sid))]
               [(''$set'', VDict [(''status'', VStr ?t), (''last_heartbeat'', naive now)])]) d2 = (Inr y1, y2)"
    and 8: "log_write_event (lstore L) (lrepr L) now ''SESSION_WRITE'' ''TRANSITION'' sid
             VNone VNone (VInt (?v + 1)) VNone VNone (VStr actor)
             [(''from'', VStr (normalize_session_status (lrepr L) (dget session ''status''))),
              (''to'', VStr ?t), (''note'', note)] y2 = (Inr y3, y4)"
    and 9: "sync_session_projection L now sid ''session.transition'' actor y4 = (Inr y5, y6)"
    and 10: "ensure_session_exists L sid y6 = (Inr res, db')"
  from 1 2 have u: "u0 = db" "u2 = db" and t: "assert_valid_transition
      (normalize_session_status (lrepr L) (dget session ''status'')) ?t = Inr ()"
    by (auto simp: ensure_session_exists_iff run_iff)
  from assert_write_run [OF 3] u have w: "u3 = db" "\<not> session_closed (lrepr L) session"
    by (auto dest: check_write_open)
  from 4 w have r: "u5 = db" "?t = ''FINALIZED'' \<Longrightarrow> assert_session_ready_to_finalize L sid db = (Inr (), db)"
    by (auto simp: run_iff ready_iff split: if_splits)
  have "sessions y2 = sessions d2"
    by (rule keeps_eqD [where f = sessions, OF keeps_verification_update 7])
  moreover have "sessions y4 = sessions y2"
    by (rule keeps_eqD [where f = sessions, OF keeps_log_write_event 8]) simp
  moreover have "sessions y6 = sessions y4"
    by (rule keeps_eqD [where f = sessions, OF keeps_sync_sessions 9])
  moreover from 10 have "y6 = db'" by (simp add: ensure_session_exists_iff)
  ultimately show thesis
    using that [of session errs d1 d2] 1 u t w r 5 6 10 by simp
qed

lemma transition_fields_safe: "untouched (transition_fields now target actor note)"
  by (auto simp: untouched_def transition_fields_def)

lemma transition_fields_distinct: "distinct (map fst (transition_fields now target actor note))"
  by (auto simp: transition_fields_def)

lemma occ_update_string:
  assumes "versioned d" "untouched set_doc" "distinct (map fst set_doc)" "map_of set_doc k = Some (VStr v)"
    and "apply_update (occ_update set_doc) d = (Inr True, d')"
  shows "dget d' k = VStr v"
proof -
  have "''version'' \<notin> fst ` set set_doc" using assms(2) by (auto simp: untouched_def)
  moreover from this assms(4) have "k \<noteq> ''version''"
    by (metis map_of_SomeD fst_conv image_eqI)
  ultimately show ?thesis
    using apply_occ_update [OF assms(1), of set_doc] assms(5) apply_set_get_string [OF assms(3,4), of d]
    by auto
qed

text \<open>A successful transition, in terms of the one session it is about.\<close>

lemma transition_core_success:
  assumes run: "transition_session_core L now sid target_status actor note ev db = (Inr res, db')"
    and one: "filter (named sid) (sessions db) = [d]" and wf: "\<forall>e \<in> set (sessions db). versioned e"
  defines "target \<equiv> normalize_session_status (lrepr L) (VStr target_status)"
  shows "session_step (normalize_session_status (lrepr L) (dget d ''status'')) target \<and>
    \<not> session_closed (lrepr L) d \<and>
    (target = ''FINALIZED'' \<longrightarrow> assert_session_ready_to_finalize L sid db = (Inr (), db)) \<and>
    coerce_version (dget d ''version'') =
      max (case ev of None \<Rightarrow> coerce_version (dget d ''version'') | Some v \<Rightarrow> v) 0 \<and>
    dget res ''status'' = VStr target \<and>
    dget res ''version'' = VInt (coerce_version (dget d ''version'') + 1) \<and>
    sessions db' = update_first (named sid) (\<lambda>_. res) (sessions db)"
  using run
proof (cases rule: transition_steps)
  case (1 session d1 errs d2)
  have "session = d" using 1(1) one by (simp add: ensure_session_exists_iff)
  note 1 = 1 [unfolded this]
  let ?v = "case ev of None \<Rightarrow> coerce_version (dget d ''version'') | Some v \<Rightarrow> v"
  have same: "sessions d1 = sessions db"
    by (rule keeps_eqD [where f = sessions, OF keeps_validate_session 1(5)]) simp
  have one1: "filter (named sid) (sessions d1) = [d]" and wf1: "\<forall>e \<in> set (sessions d1). versioned e"
    using same one wf by simp_all
  have "update_session_with_occ L sid (transition_fields now target actor note) ?v d1 = (Inr (), d2)"
    using 1(6) by (simp add: target_def)
  note occ = occ_single [OF refl one1 wf1 transition_fields_safe this]
  from occ have ver: "coerce_version (dget d ''version'') = max ?v 0" by (simp split: if_splits)
  with occ obtain d' where d': "apply_update (occ_update (transition_fields now target actor note)) d = (Inr True, d')"
    "filter (named sid) (sessions d2) = [d']" "dget d' ''version'' = VInt (max ?v 0 + 1)"
    "sessions d2 = update_first (named sid) (\<lambda>_. d') (sessions d1)" by auto
  have "res = d'" using 1(7,8) d'(2) by (simp add: ensure_session_exists_iff)
  moreover have "dget d' ''status'' = VStr target"
  proof (rule occ_update_string [OF _ transition_fields_safe transition_fields_distinct _ d'(1)])
    show "versioned d" using filter_hd_sat [OF one] wf by simp
  qed (simp add: transition_fields_def)
  moreover have "session_step (normalize_session_status (lrepr L) (dget d ''status'')) target"
    using 1(2) by (simp add: session_step_iff target_def)
  ultimately show ?thesis
    using 1(3,4,7) d' same ver by (simp add: target_def)
qed

lemma finalize_steps:
  assumes "finalize_session_canonical_core L now sid actor note db = (Inr res, db')"
  obtains session totals d1 d2 where
    "ensure_session_exists L sid db = (Inr session, db)"
    "\<not> session_closed (lrepr L) session"
    "normalize_session_status (lrepr L) (dget session ''status'') = ''REVIEW''"
    "assert_session_ready_to_finalize L sid db = (Inr (), db)"
    "filter is_blocking_finalization (to_list 50000
       (filter (match_filter [(''session_id'', CEq (VStr sid))]) (docs (lstore L) ''count_lines'' db))) = []"
    "sessions d1 = sessions db"
    "compute_session_totals L now sid d1 = (Inr totals, d1)"
    "update_session_with_occ L sid (finalized_fields now actor note totals)
       (coerce_version (dget session ''version'')) d1 = (Inr (), d2)"
    "sessions db' = sessions d2"
    "\<exists>refreshed. res = (refreshed, now, totals) \<and> ensure_session_exists L sid db' = (Inr refreshed, db')"
    "run_finalizer L (to_list 50000 (filter (match_filter [(''session_id'', CEq (VStr sid))])
       (docs (lstore L) ''count_lines'' db))) sid actor now note db = (Inr (), d1)"
    "docs (lstore L) ''count_lines'' db' = docs (lstore L) ''count_lines'' d1"
  using assms unfolding finalize_session_canonical_core_def Let_def
proof (elim bindM_elim)
  fix lines :: "doc list" and session u0 u1 u2 u3 u4 u5 u6 x u7 u8 u9 u10 u11 u12 u13 u14 totals u15 z d2
    y1 y2 y3 y4 y5 y6 refreshed y7
  let ?c = "normalize_session_status (lrepr L) (dget session ''status'')"
  let ?v = "coerce_version (dget session ''version'')"
  let ?lines = "to_list 50000 lines"
  assume 1: "ensure_session_exists L sid db = (Inr session, u0)"
    and 2: "raise_if (session_closed (lrepr L) session)
      (GovernanceViolation ''Session is finalized. Mutation blocked.'') u0 = (Inr u1, u2)"
    and 3: "raise_if (?c \<noteq> ''REVIEW'')
      (GovernanceViolation ''CRITICAL: Session must be in REVIEW before FINALIZED'') u2 = (Inr u3, u4)"
    and 4: "liftM (assert_valid_transition ?c ''FINALIZED'') u4 = (Inr u5, u6)"
    and 5: "assert_valid_write (lstore L) (lrepr L) (lifecycle_context session sid @
       [(''from_state'', VStr ?c), (''to_state'', VStr ''FINALIZED'')]) u6 = (Inr x, u7)"
    and 6: "assert_session_ready_to_finalize L sid u7 = (Inr u8, u9)"
    and 7: "find_all (lstore L) ''count_lines'' [(''session_id'', CEq (VStr sid))] u9 = (Inr lines, u10)"
    and 8: "raise_if (filter is_blocking_finalization ?lines \<noteq> [])
       (GovernanceViolation ''CRITICAL: Session has unresolved count lines and cannot be finalized'') u10 =
       (Inr u11, u12)"
    and 9: "run_finalizer L ?lines sid actor now note u12 = (Inr u13, u14)"
    and 10: "compute_session_totals L now sid u14 = (Inr totals, u15)"
    and 11: "update_session_with_occ L sid (finalized_fields now actor note totals) ?v u15 = (Inr z, d2)"
    and 12: "authorized ''SessionLifecycleService'' ''verification_sessions'' ''update_one''
        (update_one (lstore L) ''verification_sessions'' [(''session_id'', CEq (VStr sid))]
          [(''$set'', VDict [(''status'', VStr ''FINALIZED''), (''last_heartbeat'', naive now),
                            (''completed_at'', naive now), (''updated_by'', VStr actor)])]) d2 = (Inr y1, y2)"
    and 13: "log_write_event (lstore L) (lrepr L) now ''SESSION_WRITE'' ''FINALIZE'' sid
        VNone VNone (VInt (?v + 1)) VNone VNone (VStr actor) [(''note'', note)] y2 = (Inr y3, y4)"
    and 14: "sync_session_projection L now sid ''session.finalize'' actor y4 = (Inr y5, y6)"
    and 15: "ensure_session_exists L sid y6 = (Inr refreshed, y7)"
    and 16: "returnM (refreshed, now, totals) y7 = (Inr res, db')"
  from 1 2 3 4 have u: "u0 = db" "u2 = db" "u4 = db" "u6 = db"
    "\<not> session_closed (lrepr L) session" "?c = ''REVIEW''"
    by (auto simp: ensure_session_exists_iff run_iff)
  from assert_write_run [OF 5] u have w: "u7 = db" by simp
  with 6 have r: "u9 = db" "assert_session_ready_to_finalize L sid db = (Inr (), db)"
    by (auto simp: ready_iff)
  from 7 8 r have l: "u12 = db" "lines = filter (match_filter [(''session_id'', CEq (VStr sid))])
      (docs (lstore L) ''count_lines'' db)" "filter is_blocking_finalization ?lines = []"
    by (auto simp: find_all_run run_iff)
  have "keeps (\<lambda>db. P (sessions db)) (run_finalizer L ?lines sid actor now note)" for P
    unfolding run_finalizer_def by (auto intro!: keeps_intros finalizer_frame split: option.splits)
  from keeps_eqD [where f = sessions, OF this 9] l have f: "sessions u14 = sessions db" by simp
  from 10 have c: "u15 = u14" by (auto simp: compute_session_totals_def run_iff find_all_run)
  have "sessions y2 = sessions d2"
    by (rule keeps_eqD [where f = sessions, OF keeps_verification_update 12])
  moreover have "sessions y4 = sessions y2"
    by (rule keeps_eqD [where f = sessions, OF keeps_log_write_event 13]) simp
  moreover have "sessions y6 = sessions y4"
    by (rule keeps_eqD [where f = sessions, OF keeps_sync_sessions 14])
  moreover from 15 16 have e: "y6 = db'" "y7 = db'" "res = (refreshed, now, totals)"
    by (auto simp: ensure_session_exists_iff run_iff)
  moreover have "lines_of y6 = lines_of u14"
    using keeps_eqD [where f = lines_of, OF keeps_lines(1) 11] keeps_eqD [where f = lines_of, OF keeps_lines(3) 12]
      keeps_eqD [where f = lines_of, OF keeps_log_write_event 13] keeps_eqD [where f = lines_of, OF keeps_lines(2) 14] c
    by simp
  ultimately show thesis
    using that [of session u14 totals d2] 1 u r l f 9 10 c 11 15 by simp
qed

lemma session_totals_keys:
  assumes "compute_session_totals L now sid db = (Inr totals, db')"
  shows "fst ` set totals \<subseteq> {''total_items'', ''total_variance'', ''verified_items'', ''pending_items'',
    ''damage_items'', ''updated_at'', ''last_activity''}"
  using assms
  by (auto simp: compute_session_totals_def run_iff totals_fields_def last_activity_field_def
      split: option.splits)

lemma finalized_fields_props:
  assumes "compute_session_totals L now sid db = (Inr totals, db')"
  shows "untouched (finalized_fields now actor note totals)"
    and "distinct (map fst (finalized_fields now actor note totals))"
    and "map_of (finalized_fields now actor note totals) ''status'' = Some (VStr ''FINALIZED'')"
proof -
  let ?base = "[(''status'', VStr ''FINALIZED''), (''finalization_status'', VStr ''FINALIZED''),
        (''completed_at'', naive now), (''closed_at'', naive now), (''last_heartbeat'', naive now),
        (''finalized_at'', naive now), (''finalized_by'', VStr actor), (''updated_at'', naive now),
        (''updated_by'', VStr actor)]"
  note keys = session_totals_keys [OF assms]
  have k: "fst ` set (dmerge ?base totals) = fst ` set ?base \<union> fst ` set totals" by (rule keys_dmerge)
  let ?ids = "{''id'', ''session_id'', ''version''}"
  let ?tk = "{''total_items'', ''total_variance'', ''verified_items'', ''pending_items'',
    ''damage_items'', ''updated_at'', ''last_activity''}"
  have sub: "A \<inter> B = {} \<Longrightarrow> C \<subseteq> B \<Longrightarrow> A \<inter> C = {}" for A B C :: "string set" by blast
  have t: "?ids \<inter> fst ` set totals = {}" by (rule sub [OF _ keys]) simp
  have b: "?ids \<inter> fst ` set ?base = {}" by simp
  have n: "?ids \<inter> fst ` set (if truthy note then [(''finalization_note'', note)] else []) = {}"
    by (cases "truthy note") simp_all
  show "untouched (finalized_fields now actor note totals)"
    unfolding untouched_def finalized_fields_def set_append image_Un k Int_Un_distrib t b n by simp
  have "{''finalization_note''} \<inter> fst ` set totals = {}" by (rule sub [OF _ keys]) simp
  moreover have "{''finalization_note''} \<inter> fst ` set ?base = {}" by simp
  ultimately have f: "''finalization_note'' \<notin> fst ` set (dmerge ?base totals)" unfolding k by simp
  have "{''status''} \<inter> fst ` set totals = {}" by (rule sub [OF _ keys]) simp
  then have st: "''status'' \<notin> fst ` set totals" by simp
  have "distinct (map fst (dmerge ?base totals))" by (rule dmerge_keys_distinct) simp
  moreover note f
  ultimately show "distinct (map fst (finalized_fields now actor note totals))"
    by (simp add: finalized_fields_def)
  from st have "map_of (rev totals) ''status'' = None"
    by (simp add: map_of_eq_None_iff)
  then have "map_of (dmerge ?base totals) ''status'' = Some (VStr ''FINALIZED'')"
    by (simp add: map_of_dmerge map_add_def)
  then show "map_of (finalized_fields now actor note totals) ''status'' = Some (VStr ''FINALIZED'')"
    by (simp add: finalized_fields_def)
qed

lemma finalize_core_success:
  assumes run: "finalize_session_canonical_core L now sid actor note db = (Inr res, db')"
    and one: "filter (named sid) (sessions db) = [d]" and wf: "\<forall>e \<in> set (sessions db). versioned e"
  shows "normalize_session_status (lrepr L) (dget d ''status'') = ''REVIEW'' \<and>
    \<not> session_closed (lrepr L) d \<and> assert_session_ready_to_finalize L sid db = (Inr (), db) \<and>
    filter is_blocking_finalization (to_list 50000
       (filter (match_filter [(''session_id'', CEq (VStr sid))]) (docs (lstore L) ''count_lines'' db))) = [] \<and>
    dget (fst res) ''status'' = VStr ''FINALIZED'' \<and>
    dget (fst res) ''version'' = VInt (coerce_version (dget d ''version'') + 1) \<and>
    sessions db' = update_first (named sid) (\<lambda>_. fst res) (sessions db)"
  using run
proof (cases rule: finalize_steps)
  case (1 session totals d1 d2)
  have "session = d" using 1(1) one by (simp add: ensure_session_exists_iff)
  note 1 = 1 [unfolded this]
  let ?v = "coerce_version (dget d ''version'')" and ?f = "finalized_fields now actor note totals"
  have one1: "filter (named sid) (sessions d1) = [d]" and wf1: "\<forall>e \<in> set (sessions d1). versioned e"
    using 1(6) one wf by simp_all
  note props = finalized_fields_props [OF 1(7), of actor "note"]
  note occ = occ_single [OF refl one1 wf1 props(1) 1(8)]
  have "0 \<le> ?v" by (simp add: coerce_version_def split: sum.splits)
  with occ obtain d' where d': "apply_update (occ_update ?f) d = (Inr True, d')"
    "filter (named sid) (sessions d2) = [d']" "dget d' ''version'' = VInt (?v + 1)"
    "sessions d2 = update_first (named sid) (\<lambda>_. d') (sessions d1)"
    by (auto simp: max_def)
  have "fst res = d'" using 1(9,10) d'(2) by (auto simp: ensure_session_exists_iff)
  moreover have "dget d' ''status'' = VStr ''FINALIZED''"
  proof (rule occ_update_string [OF _ props(1,2) _ d'(1)])
    show "versioned d" using filter_hd_sat [OF one] wf by simp
  qed (rule props(3))
  ultimately show ?thesis
    using 1 d' by simp
qed

lemma in_transaction_success:
  "in_transaction L in_tx core db = (Inr x, db') \<longleftrightarrow> core db = (Inr x, db')"
  by (simp add: in_transaction_def unit_of_work_committed)

lemma in_transaction_rollback:
  "in_transaction L False core db = (Inl e, db') \<Longrightarrow>
   client_supports_transactions (hello (lstore L) db) \<Longrightarrow> db' = db"
  by (simp add: in_transaction_def unit_of_work_error)

section \<open>Closed sessions\<close>

lemma ensure_exists_hit:
  "filter (named sid) (sessions db) = d # ds \<Longrightarrow> d \<noteq> [] \<Longrightarrow> ensure_session_exists L sid db = (Inr d, db)"
  by (simp add: ensure_session_exists_iff)

lemma not_finalized_closed:
  assumes "filter (named sid) (sessions db) = d # ds" "session_closed (lrepr L) d" "d \<noteq> []"
  shows "ensure_session_not_finalized L sid db =
    (Inl (GovernanceViolation ''Session is finalized. Mutation blocked.''), db)"
  using ensure_exists_hit [OF assms(1,3)] assms(2)
  by (simp add: ensure_session_not_finalized_def run_simps)

lemma transition_closed:
  assumes "filter (named sid) (sessions db) = d # ds" "session_closed (lrepr L) d" "d \<noteq> []"
  shows "\<exists>m. transition_session_core L now sid target_status actor note ev db =
    (Inl (GovernanceViolation m), db)"
proof -
  let ?c = "normalize_session_status (lrepr L) (dget d ''status'')"
  let ?t = "normalize_session_status (lrepr L) (VStr target_status)"
  have w: "assert_valid_write (lstore L) (lrepr L) (lifecycle_context d sid @ extra) db =
      (Inl (GovernanceViolation ''Session is finalized. Mutation blocked.''), db)" for extra
    using assms(2) by (simp add: assert_valid_write_with_session context_fields check_write_def)
  from ensure_exists_hit [OF assms(1,3)] w show ?thesis
    by (auto simp: transition_session_core_def Let_def run_simps assert_valid_transition_def)
qed

lemma finalize_closed:
  assumes "filter (named sid) (sessions db) = d # ds" "session_closed (lrepr L) d" "d \<noteq> []"
  shows "finalize_session_canonical_core L now sid actor note db =
    (Inl (GovernanceViolation ''Session is finalized. Mutation blocked.''), db)"
  using ensure_exists_hit [OF assms(1,3)] assms(2)
  by (simp add: finalize_session_canonical_core_def Let_def run_simps)

lemma guarded_update_closed:
  assumes "filter (named sid) (sessions db) = d # ds" "session_closed (lrepr L) d" "d \<noteq> []"
  shows "guarded_session_update L now sid upd ev actor operation db =
    (Inl (GovernanceViolation ''Session is finalized. Mutation blocked.''), db)"
  using not_finalized_closed [OF assms] by (simp add: guarded_session_update_def run_simps)

lemma in_transaction_error_same:
  "core db = (Inl e, db) \<Longrightarrow> in_transaction L in_tx core db = (Inl e, db)"
  by (simp add: in_transaction_def unit_of_work_def committed_def Let_def run_simps)

end

section \<open>Recount requests\<close>

definition recount_rank :: "string \<Rightarrow> nat" where
  "recount_rank s =
     (if s = ''pending'' then 0 else if s = ''assigned'' then 1 else if s = ''in_progress'' then 2 else 3)"

inductive recount_step :: "string \<Rightarrow> string \<Rightarrow> bool" where
  recount: "assert_recount_transition s t = Inr () \<Longrightarrow>
    recount_step (normalize_recount_status (VStr s)) (normalize_recount_status (VStr t))"

inductive_cases recount_stepE: "recount_step s t"

lemma assert_recount_transition_table:
  assumes "assert_recount_transition s t = Inr ()"
  shows "\<exists>allowed. map_of RECOUNT_ALLOWED_TRANSITIONS (normalize_recount_status (VStr s)) = Some allowed \<and>
    (normalize_recount_status (VStr t) \<in> set allowed \<or>
     normalize_recount_status (VStr t) = normalize_recount_status (VStr s))"
  using assms by (auto simp: assert_recount_transition_def Let_def split: option.splits if_splits)

lemma recount_table:
  assumes "map_of RECOUNT_ALLOWED_TRANSITIONS s = Some allowed" "t \<in> set allowed"
  shows "recount_rank s < recount_rank t \<and> s \<notin> {''completed'', ''cancelled'', ''expired''} \<and>
    map_of RECOUNT_ALLOWED_TRANSITIONS t \<noteq> None"
proof -
  have "list_all (\<lambda>(s, allowed). list_all (\<lambda>t. recount_rank s < recount_rank t \<and>
      s \<notin> {''completed'', ''cancelled'', ''expired''} \<and>
      map_of RECOUNT_ALLOWED_TRANSITIONS t \<noteq> None) allowed) RECOUNT_ALLOWED_TRANSITIONS"
    by code_simp
  with map_of_SomeD [OF assms(1)] assms(2) show ?thesis by (fastforce simp: list_all_iff)
qed

lemma recount_step_rank: "recount_step s t \<Longrightarrow> t = s \<or> recount_rank s < recount_rank t"
  by (erule recount_stepE) (metis assert_recount_transition_table recount_table)

lemma recount_step_terminal:
  "recount_step s t \<Longrightarrow> s \<in> {''completed'', ''cancelled'', ''expired''} \<Longrightarrow> t = s"
  by (erule recount_stepE) (metis assert_recount_transition_table recount_table)

section \<open>Snapshots\<close>

context lifecycle_service
begin

lemma snapshot_second:
  assumes run: "record_session_snapshot L now sid snapshot_doc actor db = (Inr snap, db')"
  shows "record_session_snapshot L now' sid other actor' db' =
    (if other = [] then (Inl (GovernanceViolation ''CRITICAL: snapshot_doc is required''), db')
     else (Inl (GovernanceViolation ''CRITICAL: Baseline snapshot already exists and is immutable''), db'))"
  using run [unfolded record_session_snapshot_def Let_def]
proof (elim bindM_elim)
  fix u1 u2 u3 u4 u5 u6 u7 u8 u9 u10 i u12 u13 u14
  let ?snap = "dput ''session_id'' (VStr sid) snapshot_doc"
  let ?q = "[(''session_id'', CEq (VStr sid))]"
  assume ins: "authorized ''SessionLifecycleService'' ''session_snapshots'' ''insert_one''
      (insert_one (lstore L) ''session_snapshots'' ?snap) u10 = (Inr i, u12)"
    and log: "log_write_event (lstore L) (lrepr L) now ''SESSION_WRITE'' ''SNAPSHOT_CREATE'' sid
          VNone VNone VNone VNone VNone (VStr actor)
          [(''snapshot_hash'', dget ?snap ''snapshot_hash''), (''item_count'', dget ?snap ''item_count'')] u12 =
          (Inr u13, u14)"
    and ret: "returnM (dset_default ''_id'' i ?snap) u14 = (Inr snap, db')"
  have "insert_one (lstore L) ''session_snapshots'' ?snap u10 = (Inr i, u12)" using ins by simp
  from insert_one_docs [OF this] obtain j where
    "docs (lstore L) ''session_snapshots'' u12 =
       docs (lstore L) ''session_snapshots'' u10 @ [dset_default ''_id'' j ?snap]" by blast
  moreover from log_write_event_run [OF log, of "''session_snapshots''"] ret
  have "docs (lstore L) ''session_snapshots'' db' = docs (lstore L) ''session_snapshots'' u12"
    by (simp add: run_iff)
  moreover have "field_values (dset_default ''_id'' j ?snap) ''session_id'' = [VStr sid]"
    by (simp add: field_values_def doc_simps)
  then have "match_filter ?q (dset_default ''_id'' j ?snap)" by simp
  ultimately have "filter (match_filter ?q) (docs (lstore L) ''session_snapshots'' db') \<noteq> []"
    by simp
  then obtain e es where "filter (match_filter ?q) (docs (lstore L) ''session_snapshots'' db') = e # es"
    by (cases "filter (match_filter ?q) (docs (lstore L) ''session_snapshots'' db')") auto
  then show ?thesis by (simp add: record_session_snapshot_def run_simps find_one_run)
qed

end

section \<open>The in-memory service\<close>

definition mem_lifecycle ::
  "(nat \<Rightarrow> string) \<Rightarrow> (string \<Rightarrow> bool) \<Rightarrow> (nat \<Rightarrow> int) \<Rightarrow> (nat \<Rightarrow> doc list \<Rightarrow> doc list) \<Rightarrow> memdb lifecycle" where
  "mem_lifecycle idgen oid clock f =
     \<lparr>lstore = mem_store idgen oid, lrepr = (\<lambda>_. []),
      lvalid = \<lparr>strict_mode = True, write_logs = True\<rparr>,
      projection = mem_projection idgen oid clock f ''projection-write'', finalizer = None\<rparr>"

lemma mem_projection_store [simp]: "pstore (mem_projection idgen oid clock f w) = mem_store idgen oid"
  by (simp add: mem_projection_def projection_service_def mem_locks_def)

lemma lstore_mem_lifecycle [simp]: "lstore (mem_lifecycle idgen oid clock f) = mem_store idgen oid"
  by (simp add: mem_lifecycle_def)

interpretation mem_lifecycle: lifecycle_service "mem_lifecycle idgen oid clock f" for idgen oid clock f
  using mem_writer.keeps_sync_for_sessions [of _ _ idgen oid clock f] document_store_mem
  by (auto simp: lifecycle_service_def lifecycle_service_axioms_def mem_lifecycle_def)

text \<open>A database with one session, for the instances below.\<close>

definition demo_session :: "string \<Rightarrow> doc" where
  "demo_session status =
     [(''id'', VStr ''s1''), (''session_id'', VStr ''s1''), (''status'', VStr status), (''version'', VInt 3)]"

definition demo_db :: "string \<Rightarrow> memdb" where
  "demo_db status = \<lparr>colls = (\<lambda>c. if c = ''sessions'' then [demo_session status] else []), next_id = 0\<rparr>"

definition demo_lifecycle :: "memdb lifecycle" where
  "demo_lifecycle = mem_lifecycle show_nat (\<lambda>_. False) (\<lambda>n. int n * 1000000) (\<lambda>_ ds. ds)"

lemma demo_lifecycle_service: "lifecycle_service demo_lifecycle"
  unfolding demo_lifecycle_def by (rule mem_lifecycle.lifecycle_service_axioms)

lemma demo_lstore [simp]: "lstore demo_lifecycle = mem_store show_nat (\<lambda>_. False)"
  by (simp add: demo_lifecycle_def)

lemma demo_sessions [simp]: "colls (demo_db status) ''sessions'' = [demo_session status]"
  by (simp add: demo_db_def)

lemma demo_named [simp]: "match_filter (session_lookup ''s1'') (demo_session status)"
  by (simp add: match_session_lookup demo_session_def field_values_def dget_def)

lemma demo_version [simp]: "coerce_version (dget (demo_session status) ''version'') = 3"
  by (simp add: demo_session_def dget_def coerce_version_def)

lemma demo_status [simp]: "dget (demo_session status) ''status'' = VStr status"
  by (simp add: demo_session_def dget_def)

lemma demo_nonempty [simp]: "demo_session status \<noteq> []"
  by (simp add: demo_session_def)

lemma demo_versioned [simp]: "versioned (demo_session status)"
  by (simp add: versioned_def demo_session_def)

section \<open>Properties\<close>

text \<open>(C1) No lost update on a session: when an optimistic session update succeeds for an expected
  version, the version moves on by one and every other session document is untouched, and a
  second writer that expects the same version is refused with a concurrency error and changes
  no session.\<close>

theorem occ_second_writer_refused:
  assumes "document_store (lstore L)"
    and "filter (match_filter (session_lookup sid)) (docs (lstore L) ''sessions'' db) = [d]"
    and "\<forall>e \<in> set (docs (lstore L) ''sessions'' db). versioned e"
    and "untouched a" and "untouched b"
    and "update_session_with_occ L sid a n db = (Inr (), db1)"
    and "update_session_with_occ L sid b n db1 = (r, db2)"
  shows "\<exists>d'. docs (lstore L) ''sessions'' db1 =
      update_first (match_filter (session_lookup sid)) (\<lambda>_. d') (docs (lstore L) ''sessions'' db) \<and>
    dget d' ''version'' = VInt (coerce_version (dget d ''version'') + 1) \<and>
    (\<exists>m. r = Inl (ConcurrencyError m)) \<and>
    docs (lstore L) ''sessions'' db2 = docs (lstore L) ''sessions'' db1"
proof -
  note occ = document_store.occ_single [OF assms(1) refl]
  from occ [OF assms(2,3,4,6)] obtain d' where d': "coerce_version (dget d ''version'') = max n 0"
    "filter (match_filter (session_lookup sid)) (docs (lstore L) ''sessions'' db1) = [d']"
    "dget d' ''version'' = VInt (max n 0 + 1)" "versioned d'"
    "docs (lstore L) ''sessions'' db1 =
       update_first (match_filter (session_lookup sid)) (\<lambda>_. d') (docs (lstore L) ''sessions'' db)"
    by (auto split: if_splits)
  have "\<forall>e \<in> set (docs (lstore L) ''sessions'' db1). versioned e"
    using assms(3) d'(4,5)
      set_update_first_subset [of "match_filter (session_lookup sid)" "\<lambda>_. d'" "docs (lstore L) ''sessions'' db"]
    by auto
  from occ [OF d'(2) this assms(5,7)] d'(1,3,5) show ?thesis
    by (auto simp: coerce_version_def)
qed

text \<open>(C2) A successful session transition: it follows the session state machine, started from an
  unfinalized session whose stored version is the one expected, and leaves exactly that
  session with the canonical target status and the next version; nothing else of the
  collection changes. A transition to FINALIZED also passed the readiness gate.\<close>

theorem transition_session_effect:
  assumes "lifecycle_service L"
    and "transition_session L now in_tx sid target_status actor note ev db = (Inr res, db')"
    and "filter (match_filter (session_lookup sid)) (docs (lstore L) ''sessions'' db) = [d]"
    and "\<forall>e \<in> set (docs (lstore L) ''sessions'' db). versioned e"
  shows "session_step (normalize_session_status (lrepr L) (dget d ''status''))
      (normalize_session_status (lrepr L) (VStr target_status)) \<and>
    \<not> session_closed (lrepr L) d \<and>
    (normalize_session_status (lrepr L) (VStr target_status) = ''FINALIZED'' \<longrightarrow>
       assert_session_ready_to_finalize L sid db = (Inr (), db)) \<and>
    coerce_version (dget d ''version'') =
      max (case ev of None \<Rightarrow> coerce_version (dget d ''version'') | Some v \<Rightarrow> v) 0 \<and>
    dget res ''status'' = VStr (normalize_session_status (lrepr L) (VStr target_status)) \<and>
    dget res ''version'' = VInt (coerce_version (dget d ''version'') + 1) \<and>
    docs (lstore L) ''sessions'' db' =
      update_first (match_filter (session_lookup sid)) (\<lambda>_. res) (docs (lstore L) ''sessions'' db)"
  using lifecycle_service.transition_core_success [OF assms(1) _ assms(3,4)] assms(2)
  by (simp add: transition_session_def lifecycle_service.in_transaction_success [OF assms(1)])

text \<open>(C3) A successful canonical finalization started from a session in REVIEW without blockers
  (no open unknown item, no open recount request, no line awaiting approval, and no line of
  the session that blocks finalization among those it reads) and leaves that session
  FINALIZED with the next version and every other session as it was.\<close>

theorem finalize_session_effect:
  assumes "lifecycle_service L"
    and "finalize_session_canonical L now in_tx sid actor note db = (Inr res, db')"
    and "filter (match_filter (session_lookup sid)) (docs (lstore L) ''sessions'' db) = [d]"
    and "\<forall>e \<in> set (docs (lstore L) ''sessions'' db). versioned e"
  shows "normalize_session_status (lrepr L) (dget d ''status'') = ''REVIEW'' \<and>
    filter (match_filter (open_unknown_items sid)) (docs (lstore L) ''unknown_items'' db) = [] \<and>
    filter (match_filter (open_recounts sid)) (docs (lstore L) ''recount_requests'' db) = [] \<and>
    filter (match_filter (lines_awaiting_approval sid)) (docs (lstore L) ''count_lines'' db) = [] \<and>
    filter is_blocking_finalization (to_list 50000
       (filter (match_filter [(''session_id'', CEq (VStr sid))]) (docs (lstore L) ''count_lines'' db))) = [] \<and>
    dget (fst res) ''status'' = VStr ''FINALIZED'' \<and>
    dget (fst res) ''version'' = VInt (coerce_version (dget d ''version'') + 1) \<and>
    docs (lstore L) ''sessions'' db' =
      update_first (match_filter (session_lookup sid)) (\<lambda>_. fst res) (docs (lstore L) ''sessions'' db)"
  using lifecycle_service.finalize_core_success [OF assms(1) _ assms(3,4)] assms(2)
  by (simp add: finalize_session_canonical_def lifecycle_service.in_transaction_success [OF assms(1)]
      lifecycle_service.ready_iff [OF assms(1)])


text \<open>All or nothing: when the database supports transactions, an error of creating,
  transitioning or finalizing a session, or of creating or moving a recount request, outside a
  transaction of the caller leaves the database exactly as it was.\<close>

theorem lifecycle_error_rolls_back:
  assumes "client_supports_transactions (hello (lstore L) db)"
  shows "(create_session L now False session_doc username db = (Inl e, db1) \<longrightarrow> db1 = db) \<and>
    (transition_session L now False sid target_status actor note ev db = (Inl e, db2) \<longrightarrow> db2 = db) \<and>
    (finalize_session_canonical L now False sid actor note db = (Inl e, db3) \<longrightarrow> db3 = db) \<and>
    (create_recount_request L now False recount_doc actor db = (Inl e, db4) \<longrightarrow> db4 = db) \<and>
    (transition_recount_request L now False rid target_status actor upd db = (Inl e, db5) \<longrightarrow> db5 = db)"
  using assms
  by (simp add: create_session_def transition_session_def finalize_session_canonical_def
      create_recount_request_def transition_recount_request_def in_transaction_def unit_of_work_error)

text \<open>Recount requests move forward only: along any sequence of accepted transitions the
  status never returns to an earlier one, and a completed, cancelled or expired request keeps
  its status for ever.\<close>

theorem recount_runs_forward:
  assumes "recount_step\<^sup>*\<^sup>* s t"
  shows "(t = s \<or> recount_rank s < recount_rank t) \<and>
    (s \<in> {''completed'', ''cancelled'', ''expired''} \<longrightarrow> t = s)"
  using assms
proof (induction rule: rtranclp_induct)
  case (step t u)
  then show ?case using recount_step_rank [OF step(2)] recount_step_terminal [OF step(2)] by auto
qed simp

text \<open>The baseline snapshot of a session is immutable: after one has been recorded, recording
  another for the same session raises and leaves the database as it was.\<close>

theorem snapshot_recorded_once:
  assumes "lifecycle_service L"
    and "record_session_snapshot L now sid snapshot_doc actor db = (Inr snap, db')"
  shows "\<exists>m. record_session_snapshot L now' sid other actor' db' = (Inl (GovernanceViolation m), db')"
  using lifecycle_service.snapshot_second [OF assms] by (simp split: if_splits)

section \<open>Instances\<close>

lemma occ_second_writer_refused_witness:
  "\<exists>m. fst (update_session_with_occ demo_lifecycle ''s1'' [(''notes'', VStr ''b'')] 3
      (snd (update_session_with_occ demo_lifecycle ''s1'' [(''notes'', VStr ''a'')] 3 (demo_db ''ACTIVE'')))) =
    Inl (ConcurrencyError m)"
proof -
  let ?a = "[(''notes'', VStr ''a'')]" and ?b = "[(''notes'', VStr ''b'')]"
  have "fst (update_session_with_occ demo_lifecycle ''s1'' ?a 3 (demo_db ''ACTIVE'')) = Inr ()"
    by code_simp
  from run_of_fst [where m = "update_session_with_occ demo_lifecycle ''s1'' ?a 3", OF this]
  obtain db1 where 1: "update_session_with_occ demo_lifecycle ''s1'' ?a 3 (demo_db ''ACTIVE'') = (Inr (), db1)"
    by blast
  obtain r db2 where 2: "update_session_with_occ demo_lifecycle ''s1'' ?b 3 db1 = (r, db2)"
    by (cases "update_session_with_occ demo_lifecycle ''s1'' ?b 3 db1")
  have "document_store (lstore demo_lifecycle)"
    using demo_lifecycle_service by (simp add: lifecycle_service_def)
  from occ_second_writer_refused [OF this _ _ _ _ 1 2, of "demo_session ''ACTIVE''"] 1 2 show ?thesis
    by (auto simp: untouched_def)
qed

lemma transition_session_effect_witness:
  "\<exists>res db'. transition_session demo_lifecycle 1 False ''s1'' ''active'' ''sup'' VNone None (demo_db ''CREATED'') =
      (Inr res, db') \<and>
    dget res ''status'' = VStr ''ACTIVE'' \<and> dget res ''version'' = VInt 4 \<and>
    colls db' ''sessions'' = [res]"
proof -
  let ?run = "transition_session demo_lifecycle 1 False ''s1'' ''active'' ''sup'' VNone None"
  have "case fst (?run (demo_db ''CREATED'')) of Inl _ \<Rightarrow> False | Inr _ \<Rightarrow> True" by code_simp
  then obtain res db' where run: "?run (demo_db ''CREATED'') = (Inr res, db')"
    by (cases "?run (demo_db ''CREATED'')") (auto split: sum.splits)
  have n: "normalize_session_status (lrepr demo_lifecycle) (VStr ''active'') = ''ACTIVE''" by code_simp
  from transition_session_effect [OF demo_lifecycle_service run, of "demo_session ''CREATED''"] run n
  show ?thesis by auto
qed


lemma lifecycle_error_rolls_back_witness:
  "finalize_session_canonical demo_lifecycle 1 False ''s1'' ''sup'' VNone (demo_db ''ACTIVE'') =
     (Inl (GovernanceViolation ''CRITICAL: Session must be in REVIEW before FINALIZED''), demo_db ''ACTIVE'')"
proof -
  let ?run = "finalize_session_canonical demo_lifecycle 1 False ''s1'' ''sup'' VNone"
  let ?e = "GovernanceViolation ''CRITICAL: Session must be in REVIEW before FINALIZED''"
  have "fst (?run (demo_db ''ACTIVE'')) = Inl ?e" by code_simp
  from run_of_fst [where m = ?run, OF this]
  obtain db' where run: "?run (demo_db ''ACTIVE'') = (Inl ?e, db')" by blast
  have "client_supports_transactions (hello (lstore demo_lifecycle) (demo_db ''ACTIVE''))"
    by (simp add: client_supports_transactions_def)
  from lifecycle_error_rolls_back [OF this] run show ?thesis by blast
qed

lemma recount_runs_forward_witness:
  "recount_step ''pending'' ''assigned'' \<and> recount_rank ''pending'' < recount_rank ''assigned''"
proof -
  have "assert_recount_transition '' Pending '' ''ASSIGNED'' = Inr ()" by code_simp
  then have "recount_step (normalize_recount_status (VStr '' Pending '')) (normalize_recount_status (VStr ''ASSIGNED''))"
    by (rule recount_step.intros)
  moreover have "normalize_recount_status (VStr '' Pending '') = ''pending''"
    "normalize_recount_status (VStr ''ASSIGNED'') = ''assigned''" by code_simp+
  ultimately have s: "recount_step ''pending'' ''assigned''" by simp
  then have "recount_step\<^sup>*\<^sup>* ''pending'' ''assigned''" by blast
  from recount_runs_forward [OF this] s show ?thesis by simp
qed

lemma snapshot_recorded_once_witness:
  "\<exists>m. fst (record_session_snapshot demo_lifecycle 2 ''s1'' [(''snapshot_hash'', VStr ''y'')] ''sup''
      (snd (record_session_snapshot demo_lifecycle 1 ''s1'' [(''snapshot_hash'', VStr ''x'')] ''sup'' (demo_db ''ACTIVE'')))) =
    Inl (GovernanceViolation m)"
proof -
  let ?run = "record_session_snapshot demo_lifecycle 1 ''s1'' [(''snapshot_hash'', VStr ''x'')] ''sup''"
  have "case fst (?run (demo_db ''ACTIVE'')) of Inl _ \<Rightarrow> False | Inr _ \<Rightarrow> True" by code_simp
  then obtain snap db' where run: "?run (demo_db ''ACTIVE'') = (Inr snap, db')"
    by (cases "?run (demo_db ''ACTIVE'')") (auto split: sum.splits)
  from snapshot_recorded_once [OF demo_lifecycle_service run, of 2 "[(''snapshot_hash'', VStr ''y'')]" "''sup''"] run
  show ?thesis by auto
qed

lemma finalize_session_effect_witness:
  "\<exists>res db'. finalize_session_canonical demo_lifecycle 1 False ''s1'' ''sup'' VNone (demo_db ''REVIEW'') =
      (Inr res, db') \<and>
    dget (fst res) ''status'' = VStr ''FINALIZED'' \<and> colls db' ''sessions'' = [fst res]"
proof -
  let ?run = "finalize_session_canonical demo_lifecycle 1 False ''s1'' ''sup'' VNone"
  have "case fst (?run (demo_db ''REVIEW'')) of Inl _ \<Rightarrow> False | Inr _ \<Rightarrow> True" by code_simp
  then obtain res db' where run: "?run (demo_db ''REVIEW'') = (Inr res, db')"
    by (cases "?run (demo_db ''REVIEW'')") (auto split: sum.splits)
  from finalize_session_effect [OF demo_lifecycle_service run, of "demo_session ''REVIEW''"] run
  show ?thesis by auto
qed

end
