(* ===== verification/Variance.thy ===== *)
theory Variance
  imports DocumentStore
begin

text \<open>
  \<open>backend/services/variance_service.py\<close>: the variance of a count against the expected quantity
  and the configurable thresholds that make supervisor approval necessary.

  A threshold configuration is a document; a missing key of a threshold, or a threshold value
  that is no number, raises as the subscript and the comparison do.
\<close>

section \<open>Variance\<close>

record variance_data =
  quantity_variance :: rat
  value_variance :: rat
  percentage_variance :: rat
  expected_qty :: rat
  counted_qty :: rat
  unit_price :: rat
  expected_value :: rat
  counted_val :: rat
  valuation_basis :: string

definition calculate_variance :: "rat \<Rightarrow> rat \<Rightarrow> rat \<Rightarrow> string \<Rightarrow> variance_data" where
  "calculate_variance counted expected price basis =
     (let qv = counted - expected; ev = expected * price; cv = counted * price; vv = cv - ev;
          pv = (if expected \<noteq> 0 then qv / expected * 100 else 0)
      in \<lparr>quantity_variance = py_round 2 qv, value_variance = py_round 2 vv,
          percentage_variance = py_round 2 pv, expected_qty = expected, counted_qty = counted,
          unit_price = price, expected_value = py_round 2 ev, counted_val = py_round 2 cv,
          valuation_basis = basis\<rparr>)"

section \<open>Thresholds\<close>

definition subscript :: "doc \<Rightarrow> string \<Rightarrow> val res" where
  "subscript d k = (case map_of d k of None \<Rightarrow> Inl (KeyError k) | Some v \<Rightarrow> Inr v)"

definition actual_value :: "variance_data \<Rightarrow> val \<Rightarrow> rat option" where
  "actual_value vd threshold_type =
     (if py_eq threshold_type (VStr ''quantity'') then Some \<bar>quantity_variance vd\<bar>
      else if py_eq threshold_type (VStr ''value'') then Some \<bar>value_variance vd\<bar>
      else if py_eq threshold_type (VStr ''percentage'') then Some \<bar>percentage_variance vd\<bar>
      else None)"

definition compare_with :: "(rat \<Rightarrow> rat \<Rightarrow> bool) \<Rightarrow> rat \<Rightarrow> val \<Rightarrow> bool res" where
  "compare_with rel actual v =
     (case num_of v of
        Some q \<Rightarrow> Inr (rel actual q)
      | None \<Rightarrow> Inl (TypeError ''comparison of a number with another type''))"

definition is_violated :: "val \<Rightarrow> rat \<Rightarrow> val \<Rightarrow> bool res" where
  "is_violated operator actual threshold_value =
     (if py_eq operator (VStr ''gte'') then compare_with (\<ge>) actual threshold_value
      else if py_eq operator (VStr ''lte'') then compare_with (\<le>) actual threshold_value
      else if py_eq operator (VStr ''eq'') then Inr (num_of threshold_value = Some actual)
      else Inr False)"

text \<open>The violation a threshold reports, if any.\<close>

definition check_threshold :: "variance_data \<Rightarrow> doc \<Rightarrow> doc option res" where
  "check_threshold vd threshold =
     (if \<not> truthy (dget_or threshold ''enabled'' (VBool True)) then Inr None
      else
        bindR (subscript threshold ''threshold_type'') (\<lambda>threshold_type.
        bindR (subscript threshold ''operator'') (\<lambda>operator.
        bindR (subscript threshold ''value'') (\<lambda>threshold_value.
        (case actual_value vd threshold_type of
           None \<Rightarrow> Inr None
         | Some actual \<Rightarrow>
             bindR (is_violated operator actual threshold_value) (\<lambda>violated.
             Inr (if violated
               then Some
                 [(''threshold_type'', threshold_type), (''threshold_value'', threshold_value),
                  (''actual_value'', VFloat actual), (''operator'', operator),
                  (''require_supervisor'', dget_or threshold ''require_supervisor'' (VBool True)),
                  (''require_reason'', dget_or threshold ''require_reason'' (VBool False)),
                  (''currency'', dget_or threshold ''currency'' (VStr ''INR''))]
               else None)))))))"

fun thresholds_loop :: "variance_data \<Rightarrow> val list \<Rightarrow> doc list res" where
  "thresholds_loop vd [] = Inr []"
| "thresholds_loop vd (t # ts) =
     (case as_dict t of
        None \<Rightarrow> Inl (AttributeError ''get'')
      | Some threshold \<Rightarrow>
          bindR (check_threshold vd threshold) (\<lambda>v.
          bindR (thresholds_loop vd ts) (\<lambda>vs.
          Inr (case v of None \<Rightarrow> vs | Some d \<Rightarrow> d # vs))))"

definition thresholds_of :: "doc \<Rightarrow> val list res" where
  "thresholds_of cfg =
     (case dget_or cfg ''thresholds'' (VList []) of
        VList ts \<Rightarrow> Inr ts
      | VDict d \<Rightarrow> Inr (map (VStr \<circ> fst) d)
      | VStr s \<Rightarrow> Inr (map (\<lambda>c. VStr [c]) s)
      | _ \<Rightarrow> Inl (TypeError ''thresholds is not iterable''))"

section \<open>Choosing the configuration\<close>

definition CONFIGS :: string where
  "CONFIGS = ''variance_threshold_configs''"

definition DEFAULT_NAME :: string where
  "DEFAULT_NAME = ''Default Variance Thresholds''"

text \<open>An optional string is \<open>VNone\<close> or a \<open>VStr\<close>; an absent configuration is the empty document.\<close>

definition lookup_config :: "'db store \<Rightarrow> query \<Rightarrow> ('db, doc) comp" where
  "lookup_config S q = bindM (find_one S CONFIGS q) (\<lambda>r. returnM (case r of None \<Rightarrow> [] | Some d \<Rightarrow> d))"

definition or_else :: "('s, doc) comp \<Rightarrow> ('s, doc) comp \<Rightarrow> ('s, doc) comp" where
  "or_else m n = bindM m (\<lambda>d. if d = [] then n else returnM d)"

definition get_applicable_config :: "'db store \<Rightarrow> val \<Rightarrow> val \<Rightarrow> ('db, doc) comp" where
  "get_applicable_config S category location =
     or_else (if truthy category \<and> truthy location
              then lookup_config S [(''apply_to_categories'', CEq category), (''apply_to_locations'', CEq location)]
              else returnM [])
    (or_else (if truthy category
              then lookup_config S [(''apply_to_categories'', CEq category), (''apply_to_locations'', CEq VNone)]
              else returnM [])
    (or_else (if truthy location
              then lookup_config S [(''apply_to_categories'', CEq VNone), (''apply_to_locations'', CEq location)]
              else returnM [])
      (lookup_config S [(''name'', CEq (VStr DEFAULT_NAME))])))"

definition default_thresholds :: "val list" where
  "default_thresholds =
     [VDict [(''threshold_type'', VStr ''quantity''), (''operator'', VStr ''gte''), (''value'', VFloat 1),
             (''require_supervisor'', VBool True), (''require_reason'', VBool False), (''enabled'', VBool True)],
      VDict [(''threshold_type'', VStr ''value''), (''operator'', VStr ''gte''), (''value'', VFloat 500),
             (''currency'', VStr ''INR''), (''require_supervisor'', VBool True),
             (''require_reason'', VBool True), (''enabled'', VBool True)]]"

definition default_config_doc :: "int \<Rightarrow> doc" where
  "default_config_doc now =
     [(''name'', VStr DEFAULT_NAME), (''description'', VStr ''Standard thresholds for all items''),
      (''thresholds'', VList default_thresholds), (''apply_to_categories'', VNone),
      (''apply_to_locations'', VNone), (''created_at'', naive now), (''updated_at'', naive now)]"

definition get_default_config :: "'db store \<Rightarrow> int \<Rightarrow> ('db, doc) comp" where
  "get_default_config S now =
     or_else (lookup_config S [(''name'', CEq (VStr DEFAULT_NAME))])
       (bindM (insert_one S CONFIGS (default_config_doc now)) (\<lambda>i.
        returnM (dput ''_id'' i (default_config_doc now))))"

definition requires_supervisor :: "doc \<Rightarrow> bool" where
  "requires_supervisor violation = truthy (dget violation ''require_supervisor'')"

definition check_thresholds ::
  "'db store \<Rightarrow> int \<Rightarrow> variance_data \<Rightarrow> val \<Rightarrow> val \<Rightarrow> ('db, bool \<times> doc list) comp" where
  "check_thresholds S now vd item_category location =
     bindM (or_else (get_applicable_config S item_category location) (get_default_config S now)) (\<lambda>cfg.
     bindM (liftM (thresholds_of cfg)) (\<lambda>ts.
     bindM (liftM (thresholds_loop vd ts)) (\<lambda>violations.
     returnM (list_ex requires_supervisor violations, violations))))"

section \<open>Facts\<close>

lemma keeps_lookup_config [keeps_intros]: "keeps P (lookup_config S q)"
  unfolding lookup_config_def by (intro keeps_intros)

lemma keeps_or_else [keeps_intros]: "keeps P m \<Longrightarrow> keeps P n \<Longrightarrow> keeps P (or_else m n)"
  unfolding or_else_def by (auto intro!: keeps_intros)

lemma keeps_get_applicable_config [keeps_intros]: "keeps P (get_applicable_config S category location)"
  unfolding get_applicable_config_def by (auto intro!: keeps_intros)

lemma default_thresholds_loop:
  "thresholds_loop vd default_thresholds = Inr vs \<Longrightarrow>
   list_ex requires_supervisor vs \<longleftrightarrow> \<bar>quantity_variance vd\<bar> \<ge> 1 \<or> \<bar>value_variance vd\<bar> \<ge> 500"
  by (cases "1 \<le> \<bar>quantity_variance vd\<bar>"; cases "500 \<le> \<bar>value_variance vd\<bar>")
     (auto simp: default_thresholds_def check_threshold_def subscript_def actual_value_def is_violated_def
      compare_with_def dget_or_def requires_supervisor_def dget_def)

lemma default_thresholds_total: "\<exists>vs. thresholds_loop vd default_thresholds = Inr vs"
  by (auto simp: default_thresholds_def check_threshold_def subscript_def actual_value_def is_violated_def
      compare_with_def dget_or_def)

lemma thresholds_of_default [simp]: "thresholds_of (default_config_doc now) = Inr default_thresholds"
  by (simp add: thresholds_of_def default_config_doc_def dget_or_def)

lemma thresholds_of_stored: "thresholds_of (dput ''_id'' i d) = thresholds_of d"
  by (simp add: thresholds_of_def dget_or_def doc_simps)

context document_store
begin

lemma lookup_config_run:
  "lookup_config S q db =
     (Inr (case filter (match_filter q) (docs S CONFIGS db) of [] \<Rightarrow> [] | d # _ \<Rightarrow> d), db)"
  by (simp add: lookup_config_def run_simps find_one_run split: list.splits)

lemma get_applicable_config_none:
  assumes "docs S CONFIGS db = []"
  shows "get_applicable_config S category location db = (Inr [], db)"
  using assms by (simp add: get_applicable_config_def or_else_def run_simps lookup_config_run)

lemma get_default_config_creates:
  assumes "docs S CONFIGS db = []"
  shows "\<exists>i db'. get_default_config S now db = (Inr (dput ''_id'' i (default_config_doc now)), db') \<and>
    docs S CONFIGS db' = [dset_default ''_id'' i (default_config_doc now)]"
proof -
  obtain r db' where ins: "insert_one S CONFIGS (default_config_doc now) db = (r, db')"
    by (cases "insert_one S CONFIGS (default_config_doc now) db")
  obtain i t where i: "insert_doc S CONFIGS (default_config_doc now) db = (i, t)"
    by (cases "insert_doc S CONFIGS (default_config_doc now) db")
  with insert_law [OF i] ins assms show ?thesis
    by (auto simp: get_default_config_def or_else_def run_simps lookup_config_run insert_one_def)
qed

end

section \<open>Properties\<close>

text \<open>Variance figures are exact up to rounding: each of the rounded quantity, value and
  percentage variances is within half a cent of the exact one, and an exact count has no
  variance at all.\<close>

theorem variance_within_rounding:
  "\<bar>quantity_variance (calculate_variance counted expected price basis) - (counted - expected)\<bar> \<le> 1 / 200 \<and>
   \<bar>value_variance (calculate_variance counted expected price basis) - (counted - expected) * price\<bar> \<le> 1 / 200 \<and>
   (expected \<noteq> 0 \<longrightarrow>
     \<bar>percentage_variance (calculate_variance counted expected price basis) - (counted - expected) / expected * 100\<bar> \<le> 1 / 200) \<and>
   (counted = expected \<longrightarrow>
     quantity_variance (calculate_variance counted expected price basis) = 0 \<and>
     value_variance (calculate_variance counted expected price basis) = 0 \<and>
     percentage_variance (calculate_variance counted expected price basis) = 0)"
  using py_round_near [of 2 "counted - expected"] py_round_near [of 2 "(counted - expected) * price"]
    py_round_near [of 2 "(counted - expected) / expected * 100"]
  by (simp add: calculate_variance_def Let_def left_diff_distrib)

lemma variance_within_rounding_witness:
  "\<bar>quantity_variance (calculate_variance 7 5 10 ''last_cost'') - 2\<bar> \<le> 1 / 200"
  using variance_within_rounding [of 7 5 10 "''last_cost''"] by simp

text \<open>The default thresholds: with no configuration stored, approval is required exactly when the
  variance is at least one unit or at least 500 in value; the default configuration is then
  stored, and a second check finds it, decides the same way and stores nothing more.\<close>

theorem default_thresholds_decide:
  assumes "document_store S" and "docs S CONFIGS db = []"
  shows "\<exists>vs db'. check_thresholds S now vd category location db =
      (Inr (\<bar>quantity_variance vd\<bar> \<ge> 1 \<or> \<bar>value_variance vd\<bar> \<ge> 500, vs), db') \<and>
    length (docs S CONFIGS db') = 1 \<and>
    check_thresholds S now' vd VNone VNone db' =
      (Inr (\<bar>quantity_variance vd\<bar> \<ge> 1 \<or> \<bar>value_variance vd\<bar> \<ge> 500, vs), db')"
proof -
  note S = assms(1)
  obtain vs where vs: "thresholds_loop vd default_thresholds = Inr vs" using default_thresholds_total by blast
  from document_store.get_default_config_creates [OF assms, of now] obtain i db' where
    new: "get_default_config S now db = (Inr (dput ''_id'' i (default_config_doc now)), db')"
    "docs S CONFIGS db' = [dset_default ''_id'' i (default_config_doc now)]" by blast
  have ne: "dset_default ''_id'' i (default_config_doc now) \<noteq> []"
    by (simp add: dset_default_def dhas_def default_config_doc_def)
  have "field_values (dset_default ''_id'' i (default_config_doc now)) ''name'' = [VStr DEFAULT_NAME]"
    by (simp add: field_values_def doc_simps) (simp add: default_config_doc_def dget_def)
  then have hit: "match_filter [(''name'', CEq (VStr DEFAULT_NAME))] (dset_default ''_id'' i (default_config_doc now))"
    by simp
  have th: "thresholds_of (dset_default ''_id'' i (default_config_doc now)) = Inr default_thresholds"
    by (simp add: thresholds_of_stored dset_default_def)
  have 1: "check_thresholds S now vd category location db = (Inr (list_ex requires_supervisor vs, vs), db')"
    using new(1) vs document_store.get_applicable_config_none [OF assms, of category location]
    by (simp add: check_thresholds_def or_else_def run_simps thresholds_of_stored)
  have 2: "check_thresholds S now' vd VNone VNone db' = (Inr (list_ex requires_supervisor vs, vs), db')"
    using new(2) vs hit ne th
    by (simp add: check_thresholds_def get_applicable_config_def or_else_def run_simps
        document_store.lookup_config_run [OF S])
  from 1 2 default_thresholds_loop [OF vs] new(2) show ?thesis by auto
qed

lemma default_thresholds_decide_witness:
  "\<exists>vs. fst (check_thresholds (mem_store show_nat (\<lambda>_. False)) 0 (calculate_variance 7 5 10 ''last_cost'')
     VNone VNone \<lparr>colls = (\<lambda>_. []), next_id = 0\<rparr>) = Inr (True, vs)"
proof -
  have "docs (mem_store show_nat (\<lambda>_. False)) CONFIGS \<lparr>colls = (\<lambda>_. []), next_id = 0\<rparr> = []" by simp
  from default_thresholds_decide [OF document_store_mem this, of 0 "calculate_variance 7 5 10 ''last_cost''" VNone VNone 0]
  have *: "\<exists>vs db'. check_thresholds (mem_store show_nat (\<lambda>_. False)) 0 (calculate_variance 7 5 10 ''last_cost'')
     VNone VNone \<lparr>colls = (\<lambda>_. []), next_id = 0\<rparr> =
     (Inr (\<bar>quantity_variance (calculate_variance 7 5 10 ''last_cost'')\<bar> \<ge> 1 \<or>
       \<bar>value_variance (calculate_variance 7 5 10 ''last_cost'')\<bar> \<ge> 500, vs), db')" by blast
  have "\<bar>quantity_variance (calculate_variance 7 5 10 ''last_cost'')\<bar> \<ge> 1"
    by (simp add: calculate_variance_def Let_def py_round_def round_half_even_def)
  with * show ?thesis by fastforce
qed

end
