(* ===== verification/CountLineGovernance.thy ===== *)
theory CountLineGovernance
  imports SessionLifecycle Variance "HOL-Library.List_Lexorder" "HOL-Library.Char_ord"
begin

text \<open>
  The decision part of the count line writer, the mixins of \<open>backend/services/count_lines\<close>:
  governance modes, the preview of an update, the baseline of a session, the policy decision
  and the authoritative fields stamped on a line.

  The documents that the program mutates in place are returned updated. SHA-256 over the
  canonical JSON of a dictionary is the field \<open>digest\<close> of the service record, a function of
  the dictionary. The service object caches session snapshots; the two caches are fields of
  the record and \<open>resolve_baseline\<close> returns them updated.
\<close>

section \<open>Shared helpers\<close>

text \<open>\<open>_normalize_reason\<close>: \<open>VNone\<close> or a non-empty string.\<close>

definition normalize_reason :: "val \<Rightarrow> val" where
  "normalize_reason v =
     (case v of VStr s \<Rightarrow> if strip s = [] then VNone else VStr (strip s) | _ \<Rightarrow> VNone)"

definition as_float_or :: "rat \<Rightarrow> val \<Rightarrow> rat" where
  "as_float_or dflt v =
     (if v = VNone \<or> v = VStr [] then dflt
      else (case to_float v of Inl _ \<Rightarrow> dflt | Inr q \<Rightarrow> q))"

definition line_superseded :: "doc \<Rightarrow> bool" where
  "line_superseded line =
     ((case dget line ''status'' of VStr s \<Rightarrow> lower (strip s) = ''superseded'' | _ \<Rightarrow> False) \<or>
      truthy (dget line ''superseded_by_version_id'') \<or> truthy (dget line ''superseded_at''))"

fun first_price :: "doc \<Rightarrow> string list \<Rightarrow> rat" where
  "first_price item [] = 0"
| "first_price item (k # ks) =
     (if as_float_or 0 (dget item k) \<noteq> 0 \<or> \<not> (dget item k = VNone \<or> dget item k = VStr [])
      then as_float_or 0 (dget item k) else first_price item ks)"

definition resolve_unit_price :: "doc \<Rightarrow> rat" where
  "resolve_unit_price item = first_price item [''last_cost'', ''sale_price'', ''sales_price'', ''mrp'']"

text \<open>\<open>str(d.get(k) or "")\<close>, and \<open>int(d.get("version", n) or n)\<close>.\<close>

definition text_field :: "repr \<Rightarrow> doc \<Rightarrow> string \<Rightarrow> string" where
  "text_field rp d k = py_str rp (py_or (dget d k) (VStr []))"

definition version_or :: "int \<Rightarrow> doc \<Rightarrow> int res" where
  "version_or n d = to_int (py_or (dget_or d ''version'' (VInt n)) (VInt n))"

text \<open>The dictionary that is hashed to fingerprint the logical identity of a count line.\<close>

definition semantic_payload :: "repr \<Rightarrow> doc \<Rightarrow> doc res" where
  "semantic_payload rp d =
     bindR (version_or 1 d) (\<lambda>v.
     Inr [(''session_id'', VStr (text_field rp d ''session_id'')),
          (''item_id'', VStr (py_str rp (py_or (dget d ''item_code'') (py_or (dget d ''item_id'') (VStr []))))),
          (''location_id'', VStr (text_field rp d ''location_id'')),
          (''floor_no'', VStr (py_str rp (py_or (dget d ''floor_no'') (py_or (dget d ''floor_id'') (VStr []))))),
          (''rack_no'', VStr (py_str rp (py_or (dget d ''rack_no'') (py_or (dget d ''rack_id'') (VStr []))))),
          (''barcode'', VStr (text_field rp d ''barcode'')),
          (''counted_qty'', VFloat (as_float_or 0 (dget d ''counted_qty''))),
          (''version'', VInt v)])"

definition build_semantic_hash :: "repr \<Rightarrow> (doc \<Rightarrow> string) \<Rightarrow> doc \<Rightarrow> string res" where
  "build_semantic_hash rp digest_of d = bindR (semantic_payload rp d) (\<lambda>p. Inr (digest_of p))"

section \<open>Previewing an update\<close>

definition normalize_update_array_values :: "val \<Rightarrow> val list" where
  "normalize_update_array_values v =
     (case v of
        VDict d \<Rightarrow> (case as_list (dget d ''$each'') of Some xs \<Rightarrow> xs | None \<Rightarrow> [v])
      | VList xs \<Rightarrow> xs
      | _ \<Rightarrow> [v])"

text \<open>Adding numbers; a field that is no number is overwritten, a delta that is none is ignored.\<close>

fun merge_inc :: "doc \<Rightarrow> doc \<Rightarrow> doc" where
  "merge_inc [] m = m"
| "merge_inc ((k, delta) # e) m =
     merge_inc e (case num_of delta of
        None \<Rightarrow> m
      | Some _ \<Rightarrow> dput k (case py_add (dget m k) delta of Some w \<Rightarrow> w | None \<Rightarrow> delta) m)"

fun merge_unset :: "string list \<Rightarrow> doc \<Rightarrow> doc" where
  "merge_unset [] m = m"
| "merge_unset (k # ks) m = merge_unset ks (AList.delete k m)"

definition array_of :: "val \<Rightarrow> val list" where
  "array_of v = (case v of VList xs \<Rightarrow> xs | VNone \<Rightarrow> [] | w \<Rightarrow> [w])"

fun add_to_set :: "val list \<Rightarrow> val list \<Rightarrow> val list" where
  "add_to_set xs [] = xs"
| "add_to_set xs (v # vs) = add_to_set (if py_in v xs then xs else xs @ [v]) vs"

fun merge_push :: "bool \<Rightarrow> doc \<Rightarrow> doc \<Rightarrow> doc" where
  "merge_push unique [] m = m"
| "merge_push unique ((k, raw) # e) m =
     merge_push unique e
       (let existing = array_of (dget m k); values = normalize_update_array_values raw
        in dput k (VList (if unique then add_to_set existing values else existing @ values)) m)"

fun merge_pull :: "doc \<Rightarrow> doc \<Rightarrow> doc" where
  "merge_pull [] m = m"
| "merge_pull ((k, raw) # e) m =
     merge_pull e
       (case as_list (dget m k) of
          None \<Rightarrow> m
        | Some existing \<Rightarrow>
            (case as_dict raw of
               Some c \<Rightarrow>
                 (case as_list (dget c ''$in'') of
                    Some bad \<Rightarrow> dput k (VList (filter (\<lambda>v. \<not> py_in v bad) existing)) m
                  | None \<Rightarrow> dput k (VList (filter (\<lambda>v. \<not> py_eq v raw) existing)) m)
             | None \<Rightarrow> dput k (VList (filter (\<lambda>v. \<not> py_eq v raw) existing)) m))"

definition apply_update_document_to_merged :: "doc \<Rightarrow> doc \<Rightarrow> doc" where
  "apply_update_document_to_merged u m =
     (if \<not> list_ex (\<lambda>(k, _). starts_with k ''$'') u then dmerge m u
      else (let m1 = dmerge m (dict_or_empty (dget u ''$set''));
                m2 = merge_inc (dict_or_empty (dget u ''$inc'')) m1;
                m3 = merge_unset (map fst (dict_or_empty (dget u ''$unset''))) m2;
                m4 = merge_push False (dict_or_empty (dget u ''$push'')) m3;
                m5 = merge_push True (dict_or_empty (dget u ''$addToSet'')) m4
            in merge_pull (dict_or_empty (dget u ''$pull'')) m5))"

section \<open>Modes\<close>

record mode_profile =
  require_active_session :: bool
  require_full_context :: bool

definition GOVERNANCE_MODE_PROFILES :: "(string \<times> mode_profile) list" where
  "GOVERNANCE_MODE_PROFILES =
     [(''active_session'', \<lparr>require_active_session = True, require_full_context = True\<rparr>),
      (''mutable_session'', \<lparr>require_active_session = False, require_full_context = True\<rparr>),
      (''finalization'', \<lparr>require_active_session = False, require_full_context = False\<rparr>),
      (''repair'', \<lparr>require_active_session = False, require_full_context = False\<rparr>)]"

definition resolve_governance_mode_profile :: "repr \<Rightarrow> doc \<Rightarrow> mode_profile res" where
  "resolve_governance_mode_profile rp ctx =
     (if dhas ctx ''require_active_session'' \<or> dhas ctx ''require_full_context''
      then Inl (GovernanceViolation
        ''CRITICAL: free-form governance flags have been removed. Use governance_mode.'')
      else (let mode_name = lower (strip (py_str rp
                  (py_or (dget ctx ''governance_mode'') (VStr ''active_session''))))
            in (case map_of GOVERNANCE_MODE_PROFILES mode_name of
                  None \<Rightarrow> Inl (GovernanceViolation
                    (''CRITICAL: Unsupported governance_mode '' @ [CHR 0x27] @ mode_name @ [CHR 0x27]))
                | Some profile \<Rightarrow> Inr profile)))"

definition should_run_runtime_validation :: "repr \<Rightarrow> doc \<Rightarrow> bool res" where
  "should_run_runtime_validation rp ctx =
     (if dhas ctx ''skip_runtime_validation''
      then Inl (GovernanceViolation
        ''CRITICAL: skip_runtime_validation has been removed. Use validation_mode.'')
      else (let validation_mode = lower (strip (py_str rp
                  (py_or (dget ctx ''validation_mode'') (VStr ''enforce''))));
                governance_mode = lower (strip (text_field rp ctx ''governance_mode''))
            in if validation_mode \<notin> {''enforce'', ''repair_skip''}
               then Inl (GovernanceViolation
                 (''CRITICAL: Unsupported validation_mode '' @ [CHR 0x27] @ validation_mode @ [CHR 0x27]))
               else if validation_mode = ''repair_skip''
               then (if governance_mode \<noteq> ''repair''
                     then Inl (GovernanceViolation
                       (''CRITICAL: validation_mode='repair_skip' requires governance_mode='repair'' @ [CHR 0x27]))
                     else Inr False)
               else Inr True))"

section \<open>The service\<close>

type_synonym item_stock = "(string \<times> rat) list"

record 'db line_service =
  wstore :: "'db store"
  wrepr :: repr
  wvalid :: validator
  wlife :: "'db lifecycle"
  wproj :: "'db projector"
  digest :: "doc \<Rightarrow> string"
  snapshot_cache :: "(string \<times> doc option) list"
  item_index :: "(string \<times> item_stock) list"

text \<open>
  \<open>SnapshotService\<close> has no method \<open>assert_session_snapshot_integrity\<close>, so the integrity check
  of a session finds nothing to call and returns.
\<close>

definition assert_session_integrity :: "'db line_service \<Rightarrow> ('db, unit) comp" where
  "assert_session_integrity W = returnM ()"

section \<open>The baseline of a session\<close>

fun index_items :: "repr \<Rightarrow> val list \<Rightarrow> item_stock \<Rightarrow> item_stock res" where
  "index_items rp [] acc = Inr acc"
| "index_items rp (v # vs) acc =
     (case as_dict v of
        None \<Rightarrow> Inl (AttributeError ''get'')
      | Some item \<Rightarrow>
          (let code = strip (text_field rp item ''item_code'')
           in index_items rp vs
                (if code = [] then acc
                 else AList.update code (as_float_or 0 (dget item ''stock_qty'')) acc)))"

definition snapshot_items :: "doc \<Rightarrow> val list res" where
  "snapshot_items snapshot =
     (case py_or (dget snapshot ''items'') (VList []) of
        VList xs \<Rightarrow> Inr xs
      | VDict d \<Rightarrow> Inr (map (VStr \<circ> fst) d)
      | VStr s \<Rightarrow> Inr (map (\<lambda>c. VStr [c]) s)
      | _ \<Rightarrow> Inl (TypeError ''items is not iterable''))"

definition snapshot_index :: "'db line_service \<Rightarrow> string \<Rightarrow> doc \<Rightarrow> item_stock res" where
  "snapshot_index W sid snapshot =
     (case map_of (item_index W) sid of
        Some idx \<Rightarrow> Inr idx
      | None \<Rightarrow> bindR (snapshot_items snapshot) (\<lambda>xs. index_items (wrepr W) xs []))"

text \<open>Looking an item up in the frozen baseline; an item it does not list counts as zero.\<close>

definition baseline_in :: "item_stock \<Rightarrow> string \<Rightarrow> string \<Rightarrow> rat \<times> string" where
  "baseline_in idx code snapshot_hash =
     (case map_of idx code of
        Some q \<Rightarrow> (q, if snapshot_hash = [] then ''SESSION_SNAPSHOT'' else snapshot_hash)
      | None \<Rightarrow> (0, if snapshot_hash = [] then ''SESSION_SNAPSHOT_MISS'' else snapshot_hash))"

definition load_snapshot ::
  "'db line_service \<Rightarrow> bool \<Rightarrow> string \<Rightarrow> ('db, doc option \<times> (string \<times> doc option) list) comp" where
  "load_snapshot W has_session sid =
     (case (has_session, map_of (snapshot_cache W) sid) of
        (False, Some cached) \<Rightarrow> returnM (cached, snapshot_cache W)
      | _ \<Rightarrow>
          bindM (find_one (wstore W) ''session_snapshots'' [(''session_id'', CEq (VStr sid))]) (\<lambda>r.
          returnM (r, if has_session then snapshot_cache W else AList.update sid r (snapshot_cache W))))"

definition legacy_baseline :: "'db line_service \<Rightarrow> string \<Rightarrow> string \<Rightarrow> ('db, rat \<times> string) comp" where
  "legacy_baseline W sid code =
     bindM (find_one (wstore W) ''stock_snapshots''
       [(''session_id'', CEq (VStr sid)), (''item_code'', CEq (VStr code))]) (\<lambda>r.
     (case r of
        None \<Rightarrow> raiseM (HTTPException 409
          ''Baseline snapshot missing for session/item. Write blocked.'')
      | Some legacy \<Rightarrow>
          bindM (liftM (to_float (py_or (dget legacy ''erp_qty'') (VFloat 0)))) (\<lambda>q.
          returnM (q, py_str (wrepr W) (py_or (dget legacy ''baseline_hash'') (VStr ''STOCK_SNAPSHOT''))))))"

text \<open>Returns the baseline with its hash, and the service with its caches updated.\<close>

definition resolve_baseline ::
  "'db line_service \<Rightarrow> bool \<Rightarrow> string \<Rightarrow> string \<Rightarrow> ('db, (rat \<times> string) \<times> 'db line_service) comp" where
  "resolve_baseline W has_session sid item_code =
     (let code = strip item_code
      in bindM (load_snapshot W has_session sid) (\<lambda>(session_snapshot, cache).
         (case session_snapshot of
            Some snapshot \<Rightarrow>
              bindM (liftM (snapshot_index W sid snapshot)) (\<lambda>idx.
              returnM (baseline_in idx code (strip (text_field (wrepr W) snapshot ''snapshot_hash'')),
                W\<lparr>snapshot_cache := cache, item_index := AList.update sid idx (item_index W)\<rparr>))
          | None \<Rightarrow>
              bindM (legacy_baseline W sid code) (\<lambda>b. returnM (b, W\<lparr>snapshot_cache := cache\<rparr>)))))"

section \<open>The policy decision\<close>

record decision =
  gov_approval_status :: string
  gov_approved_at :: val
  gov_approved_by :: val
  gov_requires_approval :: bool
  gov_status :: string
  gov_variance :: rat
  gov_variance_data :: variance_data
  gov_violated :: "doc list"

definition variance_doc_of :: "variance_data \<Rightarrow> doc" where
  "variance_doc_of vd =
     [(''quantity_variance'', VFloat (quantity_variance vd)), (''value_variance'', VFloat (value_variance vd)),
      (''percentage_variance'', VFloat (percentage_variance vd)), (''expected_qty'', VFloat (expected_qty vd)),
      (''counted_qty'', VFloat (counted_qty vd)), (''unit_price'', VFloat (unit_price vd)),
      (''expected_value'', VFloat (expected_value vd)), (''counted_value'', VFloat (counted_val vd)),
      (''valuation_basis'', VStr (valuation_basis vd))]"

definition evaluate_policy ::
  "'db line_service \<Rightarrow> int \<Rightarrow> rat \<Rightarrow> rat \<Rightarrow> doc \<Rightarrow> val \<Rightarrow> val \<Rightarrow> val \<Rightarrow> bool \<Rightarrow> ('db, decision) comp" where
  "evaluate_policy W now counted expected item location variance_reason correction_reason require_reason =
     (let variance = counted - expected;
          reason_present = (truthy (normalize_reason variance_reason) \<or> truthy correction_reason);
          vd = calculate_variance counted expected (resolve_unit_price item) ''last_cost''
      in bindM (raise_if (require_reason \<and> \<bar>variance\<bar> > 0 \<and> \<not> reason_present)
           (HTTPException 400 ''Correction reason is mandatory when variance exists'')) (\<lambda>_.
         bindM (check_thresholds (wstore W) now vd (dget item ''category'') location) (\<lambda>(approval, violated).
         bindM (raise_if (list_ex (\<lambda>t. truthy (dget t ''require_reason'')) violated \<and> \<not> reason_present)
           (HTTPException 400 ''Variance reason is required for this count'')) (\<lambda>_.
         returnM \<lparr>gov_approval_status = (if approval then ''NEEDS_REVIEW'' else ''APPROVED''),
                  gov_approved_at = (if approval then VNone else naive now),
                  gov_approved_by = (if approval then VNone else VStr ''system''),
                  gov_requires_approval = approval,
                  gov_status = (if approval then ''pending'' else ''approved''),
                  gov_variance = variance, gov_variance_data = vd, gov_violated = violated\<rparr>))))"

text \<open>The two entry points the routes call before they build a document.\<close>

definition evaluate_new_count_line ::
  "'db line_service \<Rightarrow> int \<Rightarrow> rat \<Rightarrow> doc \<Rightarrow> rat \<Rightarrow> val \<Rightarrow> val \<Rightarrow> val \<Rightarrow> ('db, decision) comp" where
  "evaluate_new_count_line W now counted erp_item expected variance_reason correction_reason location =
     bindM (assert_session_integrity W) (\<lambda>_.
     evaluate_policy W now counted expected erp_item location variance_reason correction_reason True)"

definition evaluate_existing_count_line ::
  "'db line_service \<Rightarrow> int \<Rightarrow> doc \<Rightarrow> rat \<Rightarrow> doc \<Rightarrow> val \<Rightarrow> val \<Rightarrow> val \<Rightarrow> bool \<Rightarrow> ('db, decision) comp" where
  "evaluate_existing_count_line W now count_line counted erp_item variance_reason correction_reason location req =
     bindM (assert_session_integrity W) (\<lambda>_.
     bindM (liftM (to_float (py_or (dget count_line ''erp_qty'') (VFloat 0)))) (\<lambda>expected.
     evaluate_policy W now counted expected erp_item location variance_reason correction_reason req))"

section \<open>Evaluating a document\<close>

definition barcode_lookup :: "string \<Rightarrow> query" where
  "barcode_lookup barcode =
     [(''$or'', CClauses (map (\<lambda>k. [(k, CEq (VStr barcode))])
        [''barcode'', ''manual_barcode'', ''carton_barcode'', ''pack_barcode'', ''unit_barcode'',
         ''alternate_barcodes'']))]"

definition find_erp_item :: "'db line_service \<Rightarrow> doc \<Rightarrow> doc \<Rightarrow> string \<Rightarrow> ('db, doc) comp" where
  "find_erp_item W d ctx code =
     (case as_dict (dget ctx ''erp_item'') of
        Some item \<Rightarrow> returnM item
      | None \<Rightarrow>
          (let barcode = strip (text_field (wrepr W) d ''barcode'')
           in bindM (if barcode \<noteq> [] then find_one (wstore W) ''erp_items'' (barcode_lookup barcode)
                     else returnM None) (\<lambda>r.
              bindM (case r of
                  Some item \<Rightarrow> returnM (Some item)
                | None \<Rightarrow> find_one (wstore W) ''erp_items'' [(''item_code'', CEq (VStr code))]) (\<lambda>r'.
              returnM (case r' of None \<Rightarrow> [] | Some item \<Rightarrow> item)))))"

definition resolve_session_document :: "'db line_service \<Rightarrow> doc \<Rightarrow> doc \<Rightarrow> ('db, doc option) comp" where
  "resolve_session_document W d ctx =
     (case as_dict (dget ctx ''session'') of
        Some session \<Rightarrow> returnM (Some session)
      | None \<Rightarrow>
          (let sid = strip (py_str (wrepr W)
                 (py_or (dget d ''session_id'') (py_or (dget ctx ''session_id'') (VStr []))))
           in if sid = [] then returnM None else find_one (wstore W) ''sessions'' (session_lookup sid)))"

text \<open>The expected quantity and the document with the baseline written into it.\<close>

definition stamp_baseline ::
  "'db line_service \<Rightarrow> bool \<Rightarrow> string \<Rightarrow> string \<Rightarrow> rat \<Rightarrow> doc \<Rightarrow> doc \<Rightarrow> ('db, rat \<times> doc) comp" where
  "stamp_baseline W has_session sid code expected erp_item d =
     (if sid \<noteq> []
      then bindM (resolve_baseline W has_session sid code) (\<lambda>((q, h), _).
           returnM (q, dput ''baseline_hash'' (VStr h) (dput ''erp_qty'' (VFloat q) d)))
      else if expected = 0
      then bindM (liftM (to_float (py_or (dget erp_item ''stock_qty'') (VFloat 0)))) (\<lambda>q.
           returnM (q, dset_default ''erp_qty'' (VFloat q) d))
      else returnM (expected, d))"

definition evaluate_governance_for_document ::
  "'db line_service \<Rightarrow> int \<Rightarrow> bool \<Rightarrow> doc \<Rightarrow> doc \<Rightarrow> ('db, decision \<times> doc \<times> doc option \<times> doc) comp" where
  "evaluate_governance_for_document W now has_session d ctx =
     (let rp = wrepr W;
          code = strip (py_str rp (py_or (dget d ''item_code'') (py_or (dget ctx ''item_code'') (VStr []))))
      in bindM (raise_if (code = []) (HTTPException 409 ''Count line is missing item_code'')) (\<lambda>_.
         bindM (liftM (to_float (py_or (dget d ''counted_qty'') (VFloat 0)))) (\<lambda>counted.
         bindM (raise_if (counted < 0) (HTTPException 400 ''Negative quantity is not allowed'')) (\<lambda>_.
         bindM (raise_if (\<not> truthy (dget d ''remark'')) (HTTPException 400 ''Item remark is mandatory'')) (\<lambda>_.
         bindM (liftM (to_float (py_or (dget d ''erp_qty'') (VFloat 0)))) (\<lambda>expected0.
         let sid = strip (py_str rp (py_or (dget d ''session_id'') (py_or (dget ctx ''session_id'') (VStr []))))
         in bindM (find_erp_item W d ctx code) (\<lambda>erp_item.
            bindM (liftM (if erp_item \<noteq> [] then normalize_quantity_for_item rp erp_item d else Inr [])) (\<lambda>_.
            bindM (stamp_baseline W has_session sid code expected0 erp_item d) (\<lambda>(expected, d').
            bindM (evaluate_policy W now counted expected erp_item
              (py_or (dget ctx ''location'') (dget d' ''floor_no''))
              (py_or (dget ctx ''variance_reason'') (dget d' ''variance_reason''))
              (if dhas ctx ''correction_reason'' then dget ctx ''correction_reason''
               else dget d' ''correction_reason'')
              (truthy (dget_or ctx ''require_correction_reason_for_variance'' (VBool False)))) (\<lambda>gov.
            bindM (resolve_session_document W d' ctx) (\<lambda>session.
            returnM (gov, erp_item, session, d'))))))))))))"

section \<open>Risk flags and authoritative fields\<close>

text \<open>\<open>(erp_item.get("source_data") or {}).get(k)\<close>.\<close>

definition source_field :: "doc \<Rightarrow> string \<Rightarrow> val res" where
  "source_field erp_item k =
     (case py_or (dget erp_item ''source_data'') (VDict []) of
        VDict d \<Rightarrow> Inr (dget d k)
      | _ \<Rightarrow> Inl (AttributeError ''get''))"

definition expected_place :: "repr \<Rightarrow> doc \<Rightarrow> string \<Rightarrow> string \<Rightarrow> string res" where
  "expected_place rp erp_item k1 k2 =
     bindR (let v = py_or (dget erp_item k1) (dget erp_item k2)
            in if truthy v then Inr v
               else bindR (source_field erp_item k1) (\<lambda>a.
                    if truthy a then Inr a
                    else bindR (source_field erp_item k2) (\<lambda>b. Inr (py_or b (VStr []))))) (\<lambda>v.
     Inr (upper (strip (py_str rp v))))"

definition variance_percent :: "rat \<Rightarrow> rat \<Rightarrow> rat \<Rightarrow> rat" where
  "variance_percent variance counted expected =
     (if expected > 0 then \<bar>variance\<bar> / expected * 100 else if counted = 0 then 0 else 100)"

definition mrp_change_percent :: "rat \<Rightarrow> rat \<Rightarrow> rat" where
  "mrp_change_percent mrp_erp mrp_counted =
     (if mrp_erp > 0 then (mrp_counted - mrp_erp) / mrp_erp * 100 else 0)"

definition flag_if :: "bool \<Rightarrow> string \<Rightarrow> string list" where
  "flag_if b s = (if b then [s] else [])"

definition quantity_flags :: "doc \<Rightarrow> rat \<Rightarrow> rat \<Rightarrow> rat \<Rightarrow> rat \<Rightarrow> rat \<Rightarrow> string list" where
  "quantity_flags d variance counted expected mrp_erp mrp_counted =
     (let vp = variance_percent variance counted expected;
          mp = mrp_change_percent mrp_erp mrp_counted;
          unexplained = (\<not> truthy (dget d ''correction_reason'') \<and> \<not> truthy (dget d ''variance_reason''));
          photo_required = (\<bar>variance\<bar> > 100 \<or> vp > 50 \<or> \<bar>mp\<bar> > 20 \<or> mrp_erp > 10000)
      in flag_if (\<bar>variance\<bar> > 100 \<or> vp > 50) ''LARGE_VARIANCE'' @
         flag_if (mp < - 20) ''MRP_REDUCED_SIGNIFICANTLY'' @
         flag_if (mrp_erp > 10000 \<and> vp > 5) ''HIGH_VALUE_VARIANCE'' @
         flag_if (mrp_erp > 5000 \<and> \<not> truthy (dget d ''serial_numbers'')) ''SERIAL_MISSING_HIGH_VALUE'' @
         flag_if (\<bar>variance\<bar> > 0 \<and> unexplained) ''MISSING_CORRECTION_REASON'' @
         flag_if (\<bar>mp\<bar> > 5 \<and> unexplained) ''MRP_CHANGE_WITHOUT_REASON'' @
         flag_if (photo_required \<and> \<not> truthy (dget d ''photo_base64'') \<and> \<not> truthy (dget d ''photo_proofs''))
           ''PHOTO_PROOF_REQUIRED'')"

definition misplaced :: "string \<Rightarrow> string \<Rightarrow> bool" where
  "misplaced found expected \<longleftrightarrow> found \<noteq> [] \<and> expected \<noteq> [] \<and> found \<noteq> expected"

definition stamp_placement :: "doc \<Rightarrow> string \<Rightarrow> string \<Rightarrow> string \<Rightarrow> string \<Rightarrow> bool \<Rightarrow> doc" where
  "stamp_placement d expected_floor expected_rack found_floor found_rack wrong =
     (if wrong
      then dput ''relocation_status'' (py_or (dget d ''relocation_status'') (VStr ''PENDING''))
             (dput ''found_location'' (VStr (found_floor @ ''/'' @ found_rack))
             (dput ''expected_location'' (VStr (expected_floor @ ''/'' @ expected_rack))
             (dput ''is_misplaced'' (VBool True) d)))
      else dput ''is_misplaced'' (VBool (truthy (dget_or d ''is_misplaced'' (VBool False)))) d)"

definition collect_risk_flags ::
  "repr \<Rightarrow> doc \<Rightarrow> doc \<Rightarrow> rat \<Rightarrow> doc option \<Rightarrow> rat \<Rightarrow> rat \<Rightarrow> rat \<Rightarrow> rat \<Rightarrow> (string list \<times> doc) res" where
  "collect_risk_flags rp d erp_item variance session counted expected mrp_erp mrp_counted =
     bindR (expected_place rp erp_item ''floor'' ''floor_no'') (\<lambda>expected_floor.
     bindR (expected_place rp erp_item ''rack'' ''rack_no'') (\<lambda>expected_rack.
     let found_floor = upper (strip (text_field rp d ''floor_no''));
         found_rack = upper (strip (text_field rp d ''rack_no''));
         wrong = (misplaced found_floor expected_floor \<or> misplaced found_rack expected_rack);
         strict = (upper (text_field rp (case session of None \<Rightarrow> [] | Some s \<Rightarrow> s) ''type'') = ''STRICT'');
         flags = quantity_flags d variance counted expected mrp_erp mrp_counted @
           flag_if wrong ''MISPLACED_ITEM'' @
           flag_if (strict \<and> \<bar>variance\<bar> > 0) ''STRICT_MODE_VARIANCE''
     in Inr (sort (remdups flags),
             stamp_placement d expected_floor expected_rack found_floor found_rack wrong)))"

definition review_reset_fields :: doc where
  "review_reset_fields =
     [(''assigned_to'', VNone), (''recount_requested_at'', VNone), (''recount_requested_by'', VNone),
      (''rejected_at'', VNone), (''rejected_by'', VNone), (''rejection_reason'', VNone),
      (''verified'', VBool False), (''verified_at'', VNone), (''verified_by'', VNone)]"

definition apply_review_reset_fields :: "doc \<Rightarrow> doc" where
  "apply_review_reset_fields target =
     (if dhas target ''approval_note'' then dput ''approval_note'' VNone else (\<lambda>t. t))
       (dmerge target review_reset_fields)"

definition mrp_of_erp :: "doc \<Rightarrow> doc \<Rightarrow> rat" where
  "mrp_of_erp target erp_item =
     as_float_or 0 (py_or (dget target ''mrp_erp'') (py_or (dget erp_item ''mrp'')
       (py_or (dget erp_item ''sale_price'') (dget erp_item ''sales_price''))))"

definition mrp_of_count :: "doc \<Rightarrow> rat \<Rightarrow> rat" where
  "mrp_of_count target mrp_erp =
     as_float_or 0 (py_or (dget target ''mrp_counted'') (py_or (dget target ''counted_mrp'')
       (py_or (dget target ''mrp'') (VFloat mrp_erp))))"

definition gap_fields :: "rat \<Rightarrow> rat \<Rightarrow> rat \<Rightarrow> rat \<Rightarrow> rat \<Rightarrow> doc" where
  "gap_fields counted expected current mrp_erp mrp_counted =
     [(''current_sql_qty'', VFloat current), (''erp_drift'', VFloat (current - expected)),
      (''final_gap'', VFloat (counted - current)), (''mrp_erp'', VFloat mrp_erp),
      (''mrp_counted'', VFloat mrp_counted),
      (''financial_impact'', VFloat (mrp_counted * counted - mrp_erp * expected))]"

definition decision_fields :: "decision \<Rightarrow> doc" where
  "decision_fields gov =
     [(''variance'', VFloat (gov_variance gov)), (''approval_status'', VStr (gov_approval_status gov)),
      (''approved_at'', gov_approved_at gov), (''approved_by'', gov_approved_by gov),
      (''requires_supervisor_approval'', VBool (gov_requires_approval gov)),
      (''variance_data'', VDict (variance_doc_of (gov_variance_data gov))),
      (''violated_thresholds'', VList (map VDict (gov_violated gov)))]"

text \<open>The name and the barcode of the item, where the line has none.\<close>

definition fill_barcode :: "doc \<Rightarrow> doc \<Rightarrow> doc" where
  "fill_barcode erp_item t =
     (if \<not> truthy (dget t ''barcode'') \<and> truthy (dget erp_item ''barcode'')
      then dput ''barcode'' (dget erp_item ''barcode'') t else t)"

definition stamp_item :: "doc \<Rightarrow> doc \<Rightarrow> doc" where
  "stamp_item erp_item target =
     fill_barcode erp_item (dput ''item_name'' (py_or (dget target ''item_name'')
       (py_or (dget erp_item ''item_name'') (VStr ''Unknown''))) target)"

definition stamp_decision :: "decision \<Rightarrow> doc \<Rightarrow> string list \<Rightarrow> doc \<Rightarrow> doc" where
  "stamp_decision gov ctx flags t =
     (if truthy (dget_or ctx ''set_status_from_governance'' (VBool True)) then dput ''status'' (VStr (gov_status gov))
      else (\<lambda>t. t))
       (dmerge (apply_review_reset_fields (dput ''risk_flags'' (VList (map VStr flags)) t)) (decision_fields gov))"

definition stamp_figures ::
  "repr \<Rightarrow> doc \<Rightarrow> decision \<Rightarrow> doc \<Rightarrow> doc option \<Rightarrow> doc \<Rightarrow> rat \<Rightarrow> rat \<Rightarrow> rat \<Rightarrow> rat \<Rightarrow> doc res" where
  "stamp_figures rp target gov erp_item session ctx counted expected mrp_erp mrp_counted =
     bindR (collect_risk_flags rp
       (dmerge (stamp_item erp_item target)
          (gap_fields counted expected (as_float_or expected (dget erp_item ''stock_qty'')) mrp_erp mrp_counted))
       erp_item (gov_variance gov) session counted expected mrp_erp mrp_counted) (\<lambda>(flags, t).
     Inr (stamp_decision gov ctx flags t))"

definition apply_authoritative_fields ::
  "repr \<Rightarrow> doc \<Rightarrow> decision \<Rightarrow> doc \<Rightarrow> doc option \<Rightarrow> doc \<Rightarrow> doc res" where
  "apply_authoritative_fields rp target gov erp_item session ctx =
     stamp_figures rp target gov erp_item session ctx
       (as_float_or 0 (dget target ''counted_qty'')) (as_float_or 0 (dget target ''erp_qty''))
       (mrp_of_erp target erp_item) (mrp_of_count target (mrp_of_erp target erp_item))"

lemmas stamping_defs = apply_authoritative_fields_def stamp_figures_def stamp_decision_def stamp_item_def
  fill_barcode_def

text \<open>\<open>_copy_authoritative_baseline_fields\<close>.\<close>

definition copy_baseline_field :: "doc \<Rightarrow> string \<Rightarrow> doc \<Rightarrow> doc" where
  "copy_baseline_field source k target =
     (if dhas source k \<and> \<not> dhas target k then dput k (dget source k) target else target)"

definition copy_authoritative_baseline_fields :: "doc \<Rightarrow> doc \<Rightarrow> doc" where
  "copy_authoritative_baseline_fields source target =
     copy_baseline_field source ''baseline_hash'' (copy_baseline_field source ''erp_qty'' target)"

end
