(* ===== verification/CountLineWrite.thy ===== *)
theory CountLineWrite
  imports CountLineGovernance
begin

text \<open>
  The count line writer itself: \<open>backend/services/count_lines\<close> (\<open>validation.py\<close>,
  \<open>session_aggregator.py\<close>, \<open>write_core.py\<close>, \<open>observation.py\<close>) and the repository it saves through.

  A write request is a record. Its filter is a query, \<open>None\<close> when the request has no filter
  dictionary; an absent update is \<open>None\<close>, since \<open>setdefault\<close> tells it from a null one. The
  context is a dictionary; the database session in it is the flag \<open>has_session\<close>. The retries of
  a driver call with other argument styles after a \<open>TypeError\<close> are one call here, and the
  collection is the one called \<open>count_lines\<close>.
\<close>

section \<open>Requests\<close>

record payload =
  p_operation :: val
  p_document :: val
  p_filter :: "query option"
  p_update :: "val option"
  p_upsert :: val
  p_return :: val

datatype write_result =
    Saved doc
  | Updated nat nat
  | Found "doc option"
  | Deleted nat

definition operation_of :: "repr \<Rightarrow> payload \<Rightarrow> string" where
  "operation_of rp p = lower (strip (py_str rp (py_or (p_operation p) (VStr []))))"

definition update_value :: "payload \<Rightarrow> val" where
  "update_value p = (case p_update p of None \<Rightarrow> VNone | Some v \<Rightarrow> v)"

definition should_apply_governance :: "repr \<Rightarrow> payload \<Rightarrow> doc \<Rightarrow> bool res" where
  "should_apply_governance rp p ctx =
     (if dhas ctx ''skip_governance''
      then Inl (GovernanceViolation
        ''CRITICAL: skip_governance bypass has been removed from CountLineWriteService'')
      else (let operation = operation_of rp p
            in if operation = ''insert_one''
               then Inr (case as_dict (p_document p) of None \<Rightarrow> False | Some d \<Rightarrow> dhas d ''counted_qty'')
               else if operation \<in> {''update_one'', ''find_one_and_update''}
               then Inr (case as_dict (update_value p) of
                   None \<Rightarrow> False
                 | Some u \<Rightarrow>
                     (case as_dict (dget u ''$set'') of None \<Rightarrow> False | Some s \<Rightarrow> dhas s ''counted_qty''))
               else Inr (truthy (dget ctx ''enforce_variance''))))"

section \<open>Mandatory invariants\<close>

definition previous_version_filter :: "'db line_service \<Rightarrow> string \<Rightarrow> query" where
  "previous_version_filter W pid =
     (if oid_valid (wstore W) pid
      then [(''$or'', CClauses [[(''id'', CEq (VStr pid))], [(''_id'', CEq (VOid pid))]])]
      else [(''id'', CEq (VStr pid))])"

definition assert_idempotency_key :: "'db line_service \<Rightarrow> val \<Rightarrow> doc \<Rightarrow> ('db, unit) comp" where
  "assert_idempotency_key W session_id d =
     whenM (truthy session_id \<and> truthy (dget d ''idempotency_key''))
       (bindM (find_one (wstore W) ''count_lines''
          [(''session_id'', CEq session_id), (''idempotency_key'', CEq (dget d ''idempotency_key''))]) (\<lambda>r.
        raise_if (r \<noteq> None)
          (GovernanceViolation ''CRITICAL: Duplicate idempotency_key for count-line write'')))"

definition assert_version_progression :: "'db line_service \<Rightarrow> doc \<Rightarrow> ('db, unit) comp" where
  "assert_version_progression W d =
     whenM (truthy (dget d ''previous_version_id''))
       (bindM (find_one (wstore W) ''count_lines''
          (previous_version_filter W (py_str (wrepr W) (dget d ''previous_version_id'')))) (\<lambda>r.
        (case r of
           None \<Rightarrow> raiseM (GovernanceViolation
             ''CRITICAL: previous_version_id references missing count line'')
         | Some previous \<Rightarrow>
             bindM (liftM (version_or 0 d)) (\<lambda>incoming.
             bindM (liftM (version_or 1 previous)) (\<lambda>v.
             raise_if (incoming \<noteq> v + 1)
               (GovernanceViolation ''CRITICAL: Invalid version progression for recount write''))))))"

definition write_context :: "mode_profile \<Rightarrow> doc \<Rightarrow> val \<Rightarrow> doc \<Rightarrow> doc" where
  "write_context profile ctx session_id d =
     [(''session'', dget ctx ''session''), (''session_id'', session_id), (''document'', VDict d),
      (''require_active_session'', VBool (require_active_session profile)),
      (''require_full_context'', VBool (require_full_context profile))]"

definition duplicate_hash :: py_error where
  "duplicate_hash = GovernanceViolation ''CRITICAL: Duplicate semantic hash for logical count write''"

definition insert_invariants ::
  "'db line_service \<Rightarrow> mode_profile \<Rightarrow> doc \<Rightarrow> doc \<Rightarrow> ('db, doc) comp" where
  "insert_invariants W profile ctx d =
     (let session_id = py_or (dget d ''session_id'') (dget ctx ''session_id'')
      in bindM (assert_idempotency_key W session_id d) (\<lambda>_.
         bindM (assert_version_progression W d) (\<lambda>_.
         bindM (if truthy (dget d ''semantic_hash'') then returnM (dget d ''semantic_hash'')
                else bindM (liftM (build_semantic_hash (wrepr W) (digest W) d)) (\<lambda>h. returnM (VStr h))) (\<lambda>h.
         let d' = dput ''semantic_hash'' h d
         in bindM (find_one (wstore W) ''count_lines'' [(''semantic_hash'', CEq h)]) (\<lambda>r.
            bindM (raise_if (r \<noteq> None) duplicate_hash) (\<lambda>_.
            bindM (assert_valid_write (wstore W) (wrepr W) (write_context profile ctx session_id d')) (\<lambda>_.
            returnM d')))))))"

definition line_identity :: "repr \<Rightarrow> doc \<Rightarrow> string" where
  "line_identity rp d = py_str rp (py_or (dget d ''id'') (dget d ''_id''))"

text \<open>
  The hash of the updated line is written into the update, into a \<open>$set\<close> that is created if
  it is missing.
\<close>

definition stamp_update_hash :: "doc \<Rightarrow> string \<Rightarrow> doc" where
  "stamp_update_hash u h =
     (let u' = dset_default ''$set'' (VDict []) u
      in (case as_dict (dget u' ''$set'') of
            None \<Rightarrow> u'
          | Some s \<Rightarrow> dput ''$set'' (VDict (dput ''semantic_hash'' (VStr h) s)) u'))"

definition assert_hash_free :: "'db line_service \<Rightarrow> doc \<Rightarrow> string \<Rightarrow> ('db, unit) comp" where
  "assert_hash_free W existing h =
     bindM (find_one (wstore W) ''count_lines'' [(''semantic_hash'', CEq (VStr h))]) (\<lambda>r.
     (case r of
        None \<Rightarrow> returnM ()
      | Some collision \<Rightarrow>
          raise_if (line_identity (wrepr W) collision \<noteq> [] \<and>
              line_identity (wrepr W) collision \<noteq>
                py_str (wrepr W) (py_or (dget existing ''id'') (py_or (dget existing ''_id'') (VStr []))))
            duplicate_hash))"

definition single_invariants ::
  "'db line_service \<Rightarrow> mode_profile \<Rightarrow> doc \<Rightarrow> payload \<Rightarrow> bool \<Rightarrow> ('db, payload) comp" where
  "single_invariants W profile ctx p updating =
     (case p_filter p of
        None \<Rightarrow> raiseM (GovernanceViolation ''CRITICAL: Missing filter for single-document mutation'')
      | Some q \<Rightarrow>
          bindM (find_one (wstore W) ''count_lines'' q) (\<lambda>r.
          (case r of
             None \<Rightarrow> raiseM (GovernanceViolation ''CRITICAL: Count line not found for guarded mutation'')
           | Some existing \<Rightarrow>
               (let merged = (if updating
                      then (case as_dict (update_value p) of
                          None \<Rightarrow> existing
                        | Some u \<Rightarrow> apply_update_document_to_merged u existing)
                      else existing)
                in bindM (if updating \<and> dhas merged ''counted_qty''
                     then bindM (liftM (build_semantic_hash (wrepr W) (digest W) merged)) (\<lambda>h.
                          bindM (assert_hash_free W existing h) (\<lambda>_.
                          returnM (case as_dict (update_value p) of
                              None \<Rightarrow> p
                            | Some u \<Rightarrow> p\<lparr>p_update := Some (VDict (stamp_update_hash u h))\<rparr>)))
                     else returnM p) (\<lambda>p'.
                   bindM (assert_valid_write (wstore W) (wrepr W) (write_context profile ctx
                     (py_or (dget merged ''session_id'') (dget ctx ''session_id'')) merged)) (\<lambda>_.
                   returnM p'))))))"

definition bulk_candidates :: "'db line_service \<Rightarrow> doc \<Rightarrow> payload \<Rightarrow> ('db, val list) comp" where
  "bulk_candidates W ctx p =
     (case as_list (dget ctx ''candidate_lines'') of
        Some xs \<Rightarrow> returnM xs
      | None \<Rightarrow>
          (case p_filter p of
             None \<Rightarrow> raiseM (GovernanceViolation ''CRITICAL: Missing filter for bulk mutation'')
           | Some q \<Rightarrow>
               bindM (find_all (wstore W) ''count_lines'' q) (\<lambda>ds. returnM (map VDict (to_list 5000 ds)))))"

definition bulk_invariants ::
  "'db line_service \<Rightarrow> mode_profile \<Rightarrow> doc \<Rightarrow> payload \<Rightarrow> ('db, unit) comp" where
  "bulk_invariants W profile ctx p =
     bindM (bulk_candidates W ctx p) (\<lambda>xs.
     bindM (raise_if (xs = [])
       (GovernanceViolation ''CRITICAL: No candidate lines for guarded bulk mutation'')) (\<lambda>_.
     forM xs (\<lambda>v.
       (case as_dict v of
          None \<Rightarrow> returnM ()
        | Some line \<Rightarrow>
            bindM (assert_valid_write (wstore W) (wrepr W) (write_context profile ctx
              (py_or (dget line ''session_id'') (dget ctx ''session_id'')) line)) (\<lambda>_. returnM ())))))"

definition assert_mandatory_write_invariants ::
  "'db line_service \<Rightarrow> payload \<Rightarrow> doc \<Rightarrow> ('db, payload) comp" where
  "assert_mandatory_write_invariants W p ctx =
     bindM (liftM (resolve_governance_mode_profile (wrepr W) ctx)) (\<lambda>profile.
     let operation = operation_of (wrepr W) p
     in if operation = ''insert_one''
        then (case as_dict (p_document p) of
            None \<Rightarrow> raiseM (GovernanceViolation ''CRITICAL: insert_one requires document context'')
          | Some d \<Rightarrow>
              bindM (insert_invariants W profile ctx d) (\<lambda>d'. returnM (p\<lparr>p_document := VDict d'\<rparr>)))
        else if operation \<in> {''update_one'', ''find_one_and_update'', ''delete_one''}
        then single_invariants W profile ctx p (operation \<noteq> ''delete_one'')
        else if operation \<in> {''update_many'', ''delete_many''}
        then bindM (bulk_invariants W profile ctx p) (\<lambda>_. returnM p)
        else returnM p)"

section \<open>State transitions\<close>

definition transition_actor :: "repr \<Rightarrow> doc \<Rightarrow> string" where
  "transition_actor rp ctx =
     (let a = strip (py_str rp (py_or (dget ctx ''username'') (py_or (dget ctx ''user_id'')
                (py_or (dget ctx ''actor'') (VStr ''system'')))))
      in if a = [] then ''system'' else a)"

definition transition_time :: "int \<Rightarrow> doc \<Rightarrow> val" where
  "transition_time now ctx =
     (case dget ctx ''transitioned_at'' of VDate t z \<Rightarrow> VDate t z | _ \<Rightarrow> naive now)"

definition verify_fields :: "string \<Rightarrow> val \<Rightarrow> doc" where
  "verify_fields actor at_time =
     [(''verified'', VBool True), (''verified_by'', VStr actor), (''verified_at'', at_time)]"

definition unverify_fields :: doc where
  "unverify_fields = [(''verified'', VBool False), (''verified_by'', VNone), (''verified_at'', VNone)]"

definition approve_fields :: "doc \<Rightarrow> string \<Rightarrow> val \<Rightarrow> doc" where
  "approve_fields ctx actor at_time =
     [(''status'', VStr ''approved''), (''approval_status'', VStr ''APPROVED''),
      (''approved_by'', VStr actor), (''approved_at'', at_time),
      (''approval_note'', normalize_reason (dget ctx ''approval_note'')),
      (''rejected_by'', VNone), (''rejected_at'', VNone), (''rejection_reason'', VNone),
      (''assigned_to'', VNone), (''recount_requested_at'', VNone), (''recount_requested_by'', VNone)] @
     (if truthy (dget_or ctx ''mark_verified_on_approval'' (VBool False))
      then verify_fields actor at_time else [])"

definition reject_fields :: "doc \<Rightarrow> string \<Rightarrow> val \<Rightarrow> doc" where
  "reject_fields ctx actor at_time =
     [(''status'', VStr ''rejected''), (''approval_status'', VStr ''REJECTED''),
      (''approved_by'', VNone), (''approved_at'', VNone), (''approval_note'', VNone),
      (''verified'', VBool False), (''verified_by'', VNone), (''verified_at'', VNone),
      (''rejected_by'', VStr actor), (''rejected_at'', at_time),
      (''rejection_reason'', normalize_reason (py_or (dget ctx ''rejection_reason'')
         (py_or (dget ctx ''approval_note'') (dget ctx ''transition_note''))))] @
     (if truthy (dget_or ctx ''mark_recount_requested'' (VBool True))
      then [(''recount_requested_at'', at_time), (''recount_requested_by'', VStr actor),
            (''assigned_to'', normalize_reason (dget ctx ''assigned_to''))]
      else [(''recount_requested_at'', VNone), (''recount_requested_by'', VNone), (''assigned_to'', VNone)])"

definition state_transition_fields :: "int \<Rightarrow> repr \<Rightarrow> string \<Rightarrow> doc \<Rightarrow> doc res" where
  "state_transition_fields now rp tr ctx =
     (let actor = transition_actor rp ctx; at_time = transition_time now ctx
      in if tr = ''verify'' then Inr (verify_fields actor at_time)
         else if tr = ''unverify'' then Inr unverify_fields
         else if tr = ''approve'' then Inr (approve_fields ctx actor at_time)
         else if tr = ''reject'' then Inr (reject_fields ctx actor at_time)
         else Inl (ValueError (''Unsupported count-line state transition: '' @ tr)))"

definition apply_state_transition_for_write :: "int \<Rightarrow> repr \<Rightarrow> payload \<Rightarrow> doc \<Rightarrow> payload res" where
  "apply_state_transition_for_write now rp p ctx =
     (let tr = lower (strip (text_field rp ctx ''transition''))
      in if tr = [] then Inr p
         else if operation_of rp p \<notin> {''update_one'', ''update_many''}
         then Inl (ValueError (''State transition '' @ [CHR 0x27] @ tr @ [CHR 0x27] @
                '' requires update_one or update_many''))
         else (case as_dict (case p_update p of None \<Rightarrow> VDict [] | Some v \<Rightarrow> v) of
             None \<Rightarrow> Inl (ValueError ''State transition writes require an update document'')
           | Some u \<Rightarrow>
               (let u' = dset_default ''$set'' (VDict []) u
                in (case as_dict (dget u' ''$set'') of
                      None \<Rightarrow> Inl (ValueError (''State transition writes require a '' @ [CHR 0x27] @
                        ''$set'' @ [CHR 0x27] @ '' dictionary''))
                    | Some s \<Rightarrow>
                        bindR (state_transition_fields now rp tr ctx) (\<lambda>e.
                        Inr (p\<lparr>p_update := Some (VDict (dput ''$set'' (VDict (dmerge s e)) u'))\<rparr>))))))"

section \<open>Variance for a write\<close>

text \<open>What is done with the decision on the document of an insert, and on the line of an update.\<close>

fun stamp_insert ::
  "'db line_service \<Rightarrow> payload \<Rightarrow> doc \<Rightarrow> decision \<times> doc \<times> doc option \<times> doc \<Rightarrow> ('db, payload) comp" where
  "stamp_insert W p ctx (gov, erp_item, session, d') =
     bindM (liftM (apply_authoritative_fields (wrepr W) d' gov erp_item session ctx)) (\<lambda>t.
     returnM (p\<lparr>p_document := VDict t\<rparr>))"

fun stamp_update ::
  "'db line_service \<Rightarrow> payload \<Rightarrow> doc \<Rightarrow> doc \<Rightarrow> doc \<Rightarrow> decision \<times> doc \<times> doc option \<times> doc \<Rightarrow> ('db, payload) comp" where
  "stamp_update W p ctx u s (gov, erp_item, session, merged') =
     bindM (liftM (apply_authoritative_fields (wrepr W)
       (copy_authoritative_baseline_fields merged' s) gov erp_item session ctx)) (\<lambda>t.
     returnM (p\<lparr>p_update := Some (VDict (dput ''$set'' (VDict t) u))\<rparr>))"

definition enforce_variance_for_write ::
  "'db line_service \<Rightarrow> int \<Rightarrow> bool \<Rightarrow> payload \<Rightarrow> doc \<Rightarrow> ('db, payload) comp" where
  "enforce_variance_for_write W now has_session p ctx =
     (let operation = operation_of (wrepr W) p
      in if operation = ''insert_one''
         then (case as_dict (p_document p) of
             None \<Rightarrow> returnM p
           | Some d \<Rightarrow>
               (if \<not> dhas d ''counted_qty'' then returnM p
                else bindM (evaluate_governance_for_document W now has_session d ctx) (stamp_insert W p ctx)))
         else if operation = ''update_one''
         then (case as_dict (update_value p) of
             None \<Rightarrow> returnM p
           | Some u \<Rightarrow>
               (case as_dict (dget u ''$set'') of
                  None \<Rightarrow> returnM p
                | Some s \<Rightarrow>
                    (if \<not> dhas s ''counted_qty'' then returnM p
                     else bindM (find_one (wstore W) ''count_lines'' (case p_filter p of None \<Rightarrow> [] | Some q \<Rightarrow> q)) (\<lambda>r.
                       bindM (evaluate_governance_for_document W now has_session
                         (dmerge (case r of None \<Rightarrow> [] | Some e \<Rightarrow> e) s) ctx) (stamp_update W p ctx u s)))))
         else returnM p)"

section \<open>Sessions of a write\<close>

text \<open>Session identifiers that occur in the context, the document and the filter.\<close>

definition named_session :: "repr \<Rightarrow> val \<Rightarrow> string list" where
  "named_session rp v = (if truthy v then [py_str rp v] else [])"

definition query_session :: "repr \<Rightarrow> query \<Rightarrow> string list" where
  "query_session rp q =
     (case map_of q ''session_id'' of None \<Rightarrow> [] | Some c \<Rightarrow> named_session rp (cond_value c))"

definition query_sessions :: "repr \<Rightarrow> query \<Rightarrow> string list" where
  "query_sessions rp q =
     query_session rp q @
     (case map_of q ''$or'' of
        Some (CClauses qs) \<Rightarrow> concat (map (query_session rp) qs)
      | _ \<Rightarrow> [])"

definition line_session :: "repr \<Rightarrow> val \<Rightarrow> string list" where
  "line_session rp v = (case as_dict v of None \<Rightarrow> [] | Some d \<Rightarrow> named_session rp (dget d ''session_id''))"

definition explicit_session_ids :: "repr \<Rightarrow> payload \<Rightarrow> doc \<Rightarrow> string list" where
  "explicit_session_ids rp p ctx =
     named_session rp (dget ctx ''session_id'') @
     concat (map (named_session rp) (list_or_empty (dget ctx ''session_ids''))) @
     concat (map (line_session rp) (list_or_empty (dget ctx ''candidate_lines''))) @
     line_session rp (p_document p) @
     (case p_filter p of None \<Rightarrow> [] | Some q \<Rightarrow> query_sessions rp q)"

text \<open>\<open>sorted(set(ids))\<close>.\<close>

definition sorted_ids :: "string list \<Rightarrow> string list" where
  "sorted_ids ids = sort (remdups ids)"

definition collect_session_ids_for_write ::
  "'db line_service \<Rightarrow> payload \<Rightarrow> doc \<Rightarrow> ('db, string list) comp" where
  "collect_session_ids_for_write W p ctx =
     (let rp = wrepr W; ids = explicit_session_ids rp p ctx; operation = operation_of rp p
      in if ids \<noteq> [] then returnM (sorted_ids ids)
         else if operation \<notin> {''update_one'', ''update_many'', ''find_one_and_update'', ''bulk_write'',
                ''delete_one'', ''delete_many''} then returnM []
         else (case p_filter p of
             None \<Rightarrow> returnM []
           | Some q \<Rightarrow>
               (if operation \<in> {''update_one'', ''find_one_and_update'', ''delete_one''}
                then bindM (find_one (wstore W) ''count_lines'' q) (\<lambda>r.
                     returnM (case r of None \<Rightarrow> [] | Some e \<Rightarrow> named_session rp (dget e ''session_id'')))
                else bindM (find_all (wstore W) ''count_lines'' q) (\<lambda>ds.
                     returnM (sorted_ids (concat (map (\<lambda>d. named_session rp (dget d ''session_id''))
                       (to_list 5000 ds))))))))"

definition assert_snapshot_integrity_for_write ::
  "'db line_service \<Rightarrow> payload \<Rightarrow> doc \<Rightarrow> ('db, unit) comp" where
  "assert_snapshot_integrity_for_write W p ctx =
     (if dget_or ctx ''enforce_snapshot'' (VBool True) = VBool False then returnM ()
      else if as_dict (dget ctx ''session'') \<noteq> None then assert_session_integrity W
      else bindM (collect_session_ids_for_write W p ctx) (\<lambda>ids.
           bindM (raise_if (ids = [] \<and> \<not> truthy (dget_or ctx ''allow_missing_session'' (VBool False)))
             (HTTPException 409 ''Count line mutation requires session context'')) (\<lambda>_.
           forM ids (\<lambda>_. assert_session_integrity W))))"

definition load_session_for_write :: "'db line_service \<Rightarrow> string \<Rightarrow> ('db, doc) comp" where
  "load_session_for_write W sid =
     bindM (find_one (wstore W) ''sessions'' (session_lookup sid)) (\<lambda>r.
     (case r of
        None \<Rightarrow> raiseM (GovernanceViolation (''CRITICAL: Session not found: '' @ sid))
      | Some session \<Rightarrow> returnM session))"

text \<open>The version the caller expects of a session, if it said so.\<close>

definition expected_session_version :: "val \<Rightarrow> string \<Rightarrow> int option res" where
  "expected_session_version v sid =
     (case v of
        VInt n \<Rightarrow> Inr (Some n)
      | VBool b \<Rightarrow> Inr (Some (of_bool b))
      | VDict d \<Rightarrow> (if dhas d sid then bindR (to_int (dget d sid)) (\<lambda>n. Inr (Some n)) else Inr None)
      | _ \<Rightarrow> Inr None)"

fun capture_session_versions ::
  "'db line_service \<Rightarrow> string list \<Rightarrow> (string \<Rightarrow> int option) \<Rightarrow> ('db, (string \<times> int) list) comp" where
  "capture_session_versions W [] expected = returnM []"
| "capture_session_versions W (sid # sids) expected =
     bindM (load_session_for_write W sid) (\<lambda>session.
     let current = coerce_version (dget session ''version'')
     in bindM (raise_if (expected sid \<noteq> None \<and> expected sid \<noteq> Some current)
          (ConcurrencyError (''CRITICAL: Session version mismatch for '' @ sid @ '': expected '' @
             (case expected sid of None \<Rightarrow> [] | Some n \<Rightarrow> show_int n) @ '', current '' @ show_int current))) (\<lambda>_.
        bindM (capture_session_versions W sids expected) (\<lambda>vs.
        returnM ((sid, current) # vs))))"

fun expected_versions :: "val \<Rightarrow> string list \<Rightarrow> (string \<times> int) list res" where
  "expected_versions v [] = Inr []"
| "expected_versions v (sid # sids) =
     bindR (expected_session_version v sid) (\<lambda>e.
     bindR (expected_versions v sids) (\<lambda>es.
     Inr ((case e of None \<Rightarrow> [] | Some n \<Rightarrow> [(sid, n)]) @ es)))"

definition capture_versions :: "'db line_service \<Rightarrow> string list \<Rightarrow> doc \<Rightarrow> ('db, (string \<times> int) list) comp" where
  "capture_versions W sids ctx =
     bindM (liftM (expected_versions (dget ctx ''expected_session_version'') sids)) (\<lambda>es.
     capture_session_versions W sids (map_of es))"

section \<open>Executing the operation\<close>

text \<open>\<open>CountLineRepository.save\<close>: replace by identifier, or insert and take the identifier over.\<close>

definition save_line :: "'db store \<Rightarrow> doc \<Rightarrow> ('db, doc) comp" where
  "save_line S d =
     (if dhas d ''_id''
      then bindM (authorized ''CountLineWriteService'' ''count_lines'' ''replace_one''
             (replace_one S ''count_lines'' [(''_id'', CEq (dget d ''_id''))] d True)) (\<lambda>_. returnM d)
      else bindM (authorized ''CountLineWriteService'' ''count_lines'' ''insert_one''
             (insert_one S ''count_lines'' d)) (\<lambda>i. returnM (dput ''_id'' i d)))"

abbreviation line_call :: "string \<Rightarrow> ('db, 'a) comp \<Rightarrow> ('db, 'a) comp" where
  "line_call m call \<equiv> authorized ''CountLineWriteService'' ''count_lines'' m call"

definition filter_and_update :: "payload \<Rightarrow> string \<Rightarrow> (query \<times> doc) res" where
  "filter_and_update p operation =
     (case (p_filter p, as_dict (update_value p)) of
        (Some q, Some u) \<Rightarrow> Inr (q, u)
      | _ \<Rightarrow> Inl (ValueError (operation @ '' payload requires 'filter' and 'update' dictionaries'')))"

definition only_filter :: "payload \<Rightarrow> string \<Rightarrow> query res" where
  "only_filter p operation =
     (case p_filter p of
        Some q \<Rightarrow> Inr q
      | None \<Rightarrow> Inl (ValueError (operation @ '' payload requires a 'filter' dictionary'')))"

text \<open>
  The bulk write branch of the method is not reachable: the caller refuses every operation
  but the six below.
\<close>

definition execute_count_line_operation :: "'db line_service \<Rightarrow> payload \<Rightarrow> ('db, write_result) comp" where
  "execute_count_line_operation W p =
     (let operation = operation_of (wrepr W) p; S = wstore W
      in if operation = ''insert_one''
         then (case as_dict (p_document p) of
             None \<Rightarrow> raiseM (ValueError ''insert_one payload requires a 'document' dictionary'')
           | Some d \<Rightarrow> bindM (save_line S d) (\<lambda>e. returnM (Saved e)))
         else if operation = ''update_one''
         then bindM (liftM (filter_and_update p operation)) (\<lambda>(q, u).
              bindM (line_call ''update_one'' (if truthy (p_upsert p) then upsert_one S ''count_lines'' q u
                 else update_one S ''count_lines'' q u)) (\<lambda>(n, m). returnM (Updated n m)))
         else if operation = ''find_one_and_update''
         then bindM (liftM (filter_and_update p operation)) (\<lambda>(q, u).
              bindM (line_call ''find_one_and_update'' (find_one_and_update S ''count_lines'' q u
                 (truthy (p_upsert p)) (truthy (p_return p)))) (\<lambda>r. returnM (Found r)))
         else if operation = ''update_many''
         then bindM (liftM (filter_and_update p operation)) (\<lambda>(q, u).
              bindM (line_call ''update_many'' (update_many S ''count_lines'' q u)) (\<lambda>(n, m). returnM (Updated n m)))
         else if operation = ''delete_one''
         then bindM (liftM (only_filter p operation)) (\<lambda>q.
              bindM (line_call ''delete_one'' (delete_one S ''count_lines'' q)) (\<lambda>n. returnM (Deleted n)))
         else bindM (liftM (only_filter p ''delete_many'')) (\<lambda>q.
              bindM (line_call ''delete_many'' (delete_many S ''count_lines'' q)) (\<lambda>n. returnM (Deleted n))))"

section \<open>After the write\<close>

text \<open>
  The saved document already carries its identifier, and no update inserts: the mandatory
  invariants found the line it is about.
\<close>

definition run_post_write_validation ::
  "'db line_service \<Rightarrow> int \<Rightarrow> payload \<Rightarrow> doc \<Rightarrow> write_result \<Rightarrow> ('db, unit) comp" where
  "run_post_write_validation W now p ctx result =
     (let operation = operation_of (wrepr W) p;
          validate = (\<lambda>d. bindM (validate_count_line (wstore W) (wrepr W) (wvalid W) now d None) (\<lambda>_. returnM ()))
      in bindM (liftM (should_run_runtime_validation (wrepr W) ctx)) (\<lambda>run.
         if \<not> run then returnM ()
         else if operation = ''insert_one''
         then (case result of Saved d \<Rightarrow> validate d | _ \<Rightarrow> returnM ())
         else if operation \<in> {''update_one'', ''find_one_and_update''}
         then (case p_filter p of
             None \<Rightarrow> returnM ()
           | Some q \<Rightarrow>
               bindM (find_one (wstore W) ''count_lines'' q) (\<lambda>r.
               (case r of None \<Rightarrow> returnM () | Some d \<Rightarrow> validate d)))
         else if operation = ''update_many''
         then (case p_filter p of
             None \<Rightarrow> returnM ()
           | Some q \<Rightarrow>
               bindM (find_all (wstore W) ''count_lines'' q) (\<lambda>ds. forM (to_list 5000 ds) validate))
         else returnM ()))"

definition line_session_totals :: "'db line_service \<Rightarrow> int \<Rightarrow> string \<Rightarrow> ('db, doc) comp" where
  "line_session_totals W now sid =
     bindM (find_all (wstore W) ''count_lines'' [(''session_id'', CEq (VStr sid))]) (\<lambda>lines.
     bindM (liftM (totals_loop instant no_totals (filter (\<lambda>line. \<not> line_superseded line) lines))) (\<lambda>t.
     returnM (totals_fields t @ [(''updated_at'', naive now)] @ last_activity_field t)))"

definition context_actor :: "repr \<Rightarrow> doc \<Rightarrow> string" where
  "context_actor rp ctx =
     py_str rp (py_or (dget ctx ''username'') (py_or (dget ctx ''actor'') (VStr ''system'')))"

definition update_session_totals_for_sessions ::
  "'db line_service \<Rightarrow> int \<Rightarrow> string list \<Rightarrow> doc \<Rightarrow> (string \<times> int) list \<Rightarrow> ('db, unit) comp" where
  "update_session_totals_for_sessions W now sids ctx versions =
     forM sids (\<lambda>sid.
       bindM (line_session_totals W now sid) (\<lambda>totals.
       update_session_totals (wlife W) now sid totals (map_of versions sid)
         (context_actor (wrepr W) ctx) False))"

definition text_or_none :: "string \<Rightarrow> val" where
  "text_or_none s = (if s = [] then VNone else VStr s)"

definition log_count_line_audit ::
  "'db line_service \<Rightarrow> int \<Rightarrow> payload \<Rightarrow> doc \<Rightarrow> string list \<Rightarrow> ('db, unit) comp" where
  "log_count_line_audit W now p ctx sids =
     (let rp = wrepr W; d = dict_or_empty (p_document p); username = context_actor rp ctx;
          actor = [(''user_id'', VStr (py_str rp (py_or (dget ctx ''user_id'') (VStr username)))),
                   (''username'', VStr username), (''role'', VStr (text_field rp ctx ''role'')),
                   (''org_id'', VStr (text_field rp ctx ''org_id''))];
          audit_operation = (if operation_of rp p = ''insert_one'' \<and> truthy (dget d ''previous_version_id'')
             then ''RECOUNT'' else ''COUNT'');
          item_id = py_str rp (py_or (dget d ''item_code'') (py_or (dget d ''item_id'') (VStr [])))
      in bindM (liftM (version_or 1 d)) (\<lambda>v.
         forM sids (\<lambda>sid.
           log_governance_event (wstore W) rp now ''COUNT_LINE_WRITE'' audit_operation (VStr sid) actor
             (text_or_none item_id) (text_or_none (text_field rp d ''location_id'')) (VInt v)
             (if truthy (dget d ''idempotency_key'') then VStr (py_str rp (dget d ''idempotency_key'')) else VNone)
             (if truthy (dget d ''semantic_hash'') then VStr (py_str rp (dget d ''semantic_hash'')) else VNone)
             ''SUCCESS'' [])))"

section \<open>The whole write\<close>

definition WRITE_OPERATIONS :: "string list" where
  "WRITE_OPERATIONS =
     [''insert_one'', ''update_one'', ''update_many'', ''find_one_and_update'', ''delete_one'', ''delete_many'']"

definition process_write_core ::
  "'db line_service \<Rightarrow> int \<Rightarrow> bool \<Rightarrow> payload \<Rightarrow> doc \<Rightarrow> ('db, write_result) comp" where
  "process_write_core W now has_session p0 ctx =
     (let rp = wrepr W; operation = operation_of rp p0
      in bindM (raise_if (operation \<notin> set WRITE_OPERATIONS)
           (ValueError (''Unsupported count-line write operation: '' @ operation))) (\<lambda>_.
         bindM (assert_snapshot_integrity_for_write W p0 ctx) (\<lambda>_.
         bindM (assert_mandatory_write_invariants W p0 ctx) (\<lambda>p1.
         bindM (liftM (apply_state_transition_for_write now rp p1 ctx)) (\<lambda>p2.
         bindM (liftM (should_apply_governance rp p2 ctx)) (\<lambda>governed.
         bindM (if governed then enforce_variance_for_write W now has_session p2 ctx else returnM p2) (\<lambda>p3.
         bindM (collect_session_ids_for_write W p3 ctx) (\<lambda>sids.
         bindM (capture_versions W sids ctx) (\<lambda>versions.
         bindM (execute_count_line_operation W p3) (\<lambda>result.
         bindM (run_post_write_validation W now p3 ctx result) (\<lambda>_.
         bindM (whenM (\<not> truthy (dget_or ctx ''skip_session_totals_update'' (VBool False)))
           (update_session_totals_for_sessions W now sids ctx versions)) (\<lambda>_.
         bindM (whenM (sids \<noteq> [] \<and> \<not> truthy (dget_or ctx ''skip_projection_sync'' (VBool False)))
           (sync_for_sessions (wproj W) now sids (''count_line.'' @ operation) (context_actor rp ctx)
             (\<not> truthy (dget_or ctx ''skip_projection_items_sync'' (VBool False))) [] False)) (\<lambda>_.
         bindM (log_count_line_audit W now
           (case result of Saved d \<Rightarrow> p3\<lparr>p_document := VDict d\<rparr> | _ \<Rightarrow> p3) ctx sids) (\<lambda>_.
         returnM result))))))))))))))"

definition commit_write ::
  "'db line_service \<Rightarrow> int \<Rightarrow> bool \<Rightarrow> payload \<Rightarrow> doc \<Rightarrow> ('db, write_result) comp" where
  "commit_write W now in_tx p ctx =
     bindM (raise_if (dhas ctx ''skip_transaction'') (GovernanceViolation
       ''CRITICAL: skip_transaction bypass has been removed from CountLineWriteService'')) (\<lambda>_.
     if in_tx then process_write_core W now True p ctx
     else (\<lambda>db. unit_of_work (wstore W) (committed (process_write_core W now
            (client_supports_transactions (hello (wstore W) db)) p ctx)) db))"

section \<open>Finalization and archiving\<close>

definition finalization_fields :: "string \<Rightarrow> int \<Rightarrow> val \<Rightarrow> doc" where
  "finalization_fields actor finalized_at note =
     [(''status'', VStr ''locked''), (''approval_status'', VStr ''APPROVED''), (''verified'', VBool True),
      (''verified_by'', VStr actor), (''verified_at'', naive finalized_at), (''approved_by'', VStr actor),
      (''approved_at'', naive finalized_at), (''finalized_by'', VStr actor),
      (''finalized_at'', naive finalized_at), (''updated_at'', naive finalized_at),
      (''updated_by'', VStr actor)] @
     (if truthy note then [(''finalization_note'', note)] else [])"

definition finalization_filter :: "string \<Rightarrow> query" where
  "finalization_filter sid =
     [(''session_id'', CEq (VStr sid)),
      (''status'', CNin [VStr ''locked'', VStr ''SUPERSEDED'', VStr ''superseded'']),
      (''approval_status'', CNin [VStr ''REJECTED'', VStr ''NEEDS_REVIEW''])]"

definition finalize_session_count_lines ::
  "'db line_service \<Rightarrow> string \<Rightarrow> string \<Rightarrow> int \<Rightarrow> val \<Rightarrow> ('db, nat) comp" where
  "finalize_session_count_lines W sid actor finalized_at note =
     bindM (line_call ''update_many'' (update_many (wstore W) ''count_lines'' (finalization_filter sid)
       [(''$set'', VDict (finalization_fields actor finalized_at note))])) (\<lambda>(_, m). returnM m)"

definition archive_orphan_session_lines ::
  "'db line_service \<Rightarrow> string list \<Rightarrow> doc \<Rightarrow> ('db, (nat \<times> nat) option) comp" where
  "archive_orphan_session_lines W session_ids archive_marker =
     (let ids = sorted_ids (filter (\<lambda>s. s \<noteq> []) (map strip session_ids))
      in if ids = [] then returnM None
         else bindM (line_call ''update_many'' (update_many (wstore W) ''count_lines''
                [(''session_id'', CIn (map VStr ids)), (''archived'', CNe (VBool True))]
                [(''$set'', VDict archive_marker)])) (\<lambda>r. returnM (Some r)))"

section \<open>Observations\<close>

definition observation_payload :: "repr \<Rightarrow> doc \<Rightarrow> doc res" where
  "observation_payload rp d =
     (case dget_or d ''quantity_observation'' (VDict []) of
        VDict obs \<Rightarrow>
          bindR (to_float (py_or (dget obs ''quantity'') (VFloat 0))) (\<lambda>q.
          bindR (version_or 1 d) (\<lambda>v.
          Inr [(''session_id'', VStr (text_field rp d ''session_id'')),
               (''item_code'', VStr (py_str rp (py_or (dget d ''item_code'') (py_or (dget d ''item_id'') (VStr []))))),
               (''qty'', VFloat q), (''version'', VInt v)]))
      | _ \<Rightarrow> Inl (AttributeError ''get''))"

definition observation_defaults :: "string \<Rightarrow> int \<Rightarrow> doc \<Rightarrow> doc res" where
  "observation_defaults fresh_id now d =
     (let d1 = dset_default ''quantity_observation'' (VDict []) (dset_default ''status'' (VStr ''draft'')
                (dset_default ''version'' (VInt 1) (dset_default ''id'' (VStr fresh_id) d)))
      in (case py_or (dget d1 ''quantity_observation'') (VDict []) of
            VDict obs \<Rightarrow>
              Inr (if \<not> truthy (dget obs ''observed_at'') \<and> \<not> truthy (dget d1 ''submitted_at'')
                   then dput ''quantity_observation'' (VDict (dput ''observed_at'' (naive now) obs)) d1
                   else d1)
          | _ \<Rightarrow> Inl (AttributeError ''get'')))"

definition observation_lineage :: "'db line_service \<Rightarrow> doc \<Rightarrow> ('db, doc) comp" where
  "observation_lineage W d =
     (let rp = wrepr W
      in if \<not> truthy (dget d ''previous_version_id'')
         then returnM (dset_default ''lineage'' (VList [dget d ''id'']) d)
         else bindM (find_one (wstore W) ''count_observation''
                (previous_version_filter W (py_str rp (dget d ''previous_version_id'')))) (\<lambda>r.
              (case r of
                 None \<Rightarrow> raiseM (GovernanceViolation
                   ''CRITICAL: previous_version_id references missing count observation'')
               | Some previous \<Rightarrow>
                   bindM (liftM (version_or 0 d)) (\<lambda>incoming.
                   bindM (liftM (version_or 1 previous)) (\<lambda>v.
                   bindM (raise_if (incoming \<noteq> v + 1)
                     (GovernanceViolation ''CRITICAL: Invalid version progression for recount observation'')) (\<lambda>_.
                   let pid = py_str rp (dget previous ''id'')
                   in returnM (dput ''lineage'' (VList (list_or_empty (dget previous ''lineage'') @ [VStr pid]))
                        (dset_default ''parent_observation_id'' (VStr pid) (dput ''version'' (VInt (v + 1)) d)))))))))"

definition build_count_line_projection :: "int \<Rightarrow> doc \<Rightarrow> doc res" where
  "build_count_line_projection now d =
     (case py_or (dget d ''quantity_observation'') (VDict []) of
        VDict obs \<Rightarrow>
          Inr [(''id'', dget d ''id''), (''session_id'', dget d ''session_id''),
            (''item_code'', dget d ''item_code''), (''item_name'', dget d ''item_name''),
            (''counted_qty'', dget_or obs ''quantity'' (VFloat 0)), (''floor_id'', dget d ''floor_id''),
            (''rack_id'', dget d ''rack_id''), (''floor_no'', dget d ''floor_no''),
            (''rack_no'', dget d ''rack_no''), (''barcode'', dget d ''barcode''),
            (''batches'', dget d ''batches''), (''remark'', py_or (dget d ''remark'') (dget obs ''remark'')),
            (''counted_at'', py_or (dget obs ''observed_at'') (naive now)),
            (''variance_reason'', dget d ''variance_reason''), (''variance_note'', dget d ''variance_note''),
            (''version'', dget_or d ''version'' (VInt 1)),
            (''previous_version_id'', dget d ''previous_version_id''), (''status'', VStr ''draft''),
            (''verified'', VBool False), (''approval_status'', VNone), (''created_at'', naive now),
            (''updated_at'', naive now)]
      | _ \<Rightarrow> Inl (AttributeError ''get''))"

definition write_count_observation ::
  "'db line_service \<Rightarrow> int \<Rightarrow> string \<Rightarrow> doc \<Rightarrow> doc \<Rightarrow> ('db, val) comp" where
  "write_count_observation W now fresh_id document ctx =
     (let S = wstore W; rp = wrepr W
      in bindM (liftM (observation_defaults fresh_id now document)) (\<lambda>d1.
         bindM (observation_lineage W d1) (\<lambda>d2.
         bindM (liftM (observation_payload rp d2)) (\<lambda>pl.
         let h = VStr (digest W pl); d3 = dput ''semantic_hash'' h d2
         in bindM (find_one S ''count_observation'' [(''semantic_hash'', CEq h)]) (\<lambda>r.
            bindM (raise_if (r \<noteq> None)
              (GovernanceViolation ''CRITICAL: Duplicate semantic hash for count observation'')) (\<lambda>_.
            bindM (whenM (truthy (dget d3 ''idempotency_key''))
              (bindM (find_one S ''count_observation'' [(''idempotency_key'', CEq (dget d3 ''idempotency_key''))]) (\<lambda>r.
               raise_if (r \<noteq> None)
                 (GovernanceViolation ''CRITICAL: Duplicate idempotency_key for count observation'')))) (\<lambda>_.
            bindM (authorized ''CountLineWriteService'' ''count_observation'' ''insert_one''
              (insert_one S ''count_observation'' d3)) (\<lambda>i.
            let d4 = dput ''_id'' i d3;
                sid = py_str rp (py_or (dget d4 ''session_id'') (py_or (dget ctx ''session_id'') (VStr [])))
            in bindM (whenM (sid \<noteq> [])
                 (bindM (liftM (build_count_line_projection now d4)) (\<lambda>line.
                  bindM (line_call ''insert_one'' (insert_one S ''count_lines'' line)) (\<lambda>_. returnM ())))) (\<lambda>_.
               returnM i)))))))))"

end
