(* ===== verification/CountLineSafety.thy ===== *)
theory CountLineSafety
  imports CountLineWrite
begin

text \<open>
  What the count line writer guarantees: which writes it admits, what an admitted write leaves
  in the store, and what it never touches. The locale \<open>line_writer\<close> collects what the writer
  needs of the services it is built from; it is interpreted on the in-memory services.
\<close>

section \<open>Reads\<close>

lemma keeps_assert_session_integrity [keeps_intros]: "keeps P (assert_session_integrity W)"
  by (simp add: assert_session_integrity_def)

lemma keeps_collect_session_ids [keeps_intros]: "keeps P (collect_session_ids_for_write W p ctx)"
  unfolding collect_session_ids_for_write_def Let_def by (auto intro!: keeps_intros split: option.splits)

lemma keeps_assert_snapshot_integrity [keeps_intros]: "keeps P (assert_snapshot_integrity_for_write W p ctx)"
  unfolding assert_snapshot_integrity_for_write_def by (auto intro!: keeps_intros)

lemma keeps_assert_idempotency_key [keeps_intros]: "keeps P (assert_idempotency_key W sid d)"
  unfolding assert_idempotency_key_def by (intro keeps_intros)

lemma keeps_assert_version_progression [keeps_intros]: "keeps P (assert_version_progression W d)"
  unfolding assert_version_progression_def by (auto intro!: keeps_intros split: option.splits)

lemma keeps_insert_invariants [keeps_intros]: "keeps P (insert_invariants W profile ctx d)"
  unfolding insert_invariants_def Let_def by (intro keeps_intros)

lemma keeps_assert_hash_free [keeps_intros]: "keeps P (assert_hash_free W existing h)"
  unfolding assert_hash_free_def by (auto intro!: keeps_intros split: option.splits)

lemma keeps_single_invariants [keeps_intros]: "keeps P (single_invariants W profile ctx p updating)"
  unfolding single_invariants_def Let_def by (auto intro!: keeps_intros split: option.splits)

lemma keeps_bulk_candidates [keeps_intros]: "keeps P (bulk_candidates W ctx p)"
  unfolding bulk_candidates_def by (auto intro!: keeps_intros split: option.splits)

lemma keeps_bulk_invariants [keeps_intros]: "keeps P (bulk_invariants W profile ctx p)"
  unfolding bulk_invariants_def by (auto intro!: keeps_intros split: option.splits)

lemma keeps_mandatory_invariants [keeps_intros]: "keeps P (assert_mandatory_write_invariants W p ctx)"
  unfolding assert_mandatory_write_invariants_def Let_def by (auto intro!: keeps_intros split: option.splits)

lemma keeps_load_session_for_write [keeps_intros]: "keeps P (load_session_for_write W sid)"
  unfolding load_session_for_write_def by (auto intro!: keeps_intros split: option.splits)

lemma keeps_capture_session_versions [keeps_intros]: "keeps P (capture_session_versions W sids expected)"
  by (induction W sids expected rule: capture_session_versions.induct) (auto simp: Let_def intro!: keeps_intros)

lemma keeps_capture_versions [keeps_intros]: "keeps P (capture_versions W sids ctx)"
  unfolding capture_versions_def by (intro keeps_intros)

lemma keeps_load_snapshot [keeps_intros]: "keeps P (load_snapshot W has_session sid)"
  unfolding load_snapshot_def by (auto intro!: keeps_intros split: option.splits bool.splits)

lemma keeps_legacy_baseline [keeps_intros]: "keeps P (legacy_baseline W sid code)"
  unfolding legacy_baseline_def by (auto intro!: keeps_intros split: option.splits)

lemma keeps_resolve_baseline [keeps_intros]: "keeps P (resolve_baseline W has_session sid code)"
  unfolding resolve_baseline_def Let_def by (auto intro!: keeps_intros split: option.splits)

lemma keeps_stamp_baseline [keeps_intros]: "keeps P (stamp_baseline W has_session sid code expected item d)"
  unfolding stamp_baseline_def by (auto intro!: keeps_intros split: prod.splits)

lemma keeps_find_erp_item [keeps_intros]: "keeps P (find_erp_item W d ctx code)"
  unfolding find_erp_item_def Let_def by (auto intro!: keeps_intros split: option.splits)

lemma keeps_resolve_session_document [keeps_intros]: "keeps P (resolve_session_document W d ctx)"
  unfolding resolve_session_document_def Let_def by (auto intro!: keeps_intros split: option.splits)

lemma keeps_stamp_insert [keeps_intros]: "keeps P (stamp_insert W p ctx x)"
  by (cases x) (auto intro!: keeps_intros)

lemma keeps_stamp_update [keeps_intros]: "keeps P (stamp_update W p ctx u s x)"
  by (cases x) (auto intro!: keeps_intros)

lemma keeps_line_session_totals [keeps_intros]: "keeps P (line_session_totals W now sid)"
  unfolding line_session_totals_def by (intro keeps_intros)

text \<open>A computation that keeps every predicate leaves the state as it is.\<close>

lemma keeps_same:
  assumes "\<And>P. keeps P m" and "m s = (r, t)"
  shows "t = s"
  using keepsD [OF assms(1) [of "\<lambda>x. x = s"] refl assms(2)] .

section \<open>Frames\<close>

context document_store
begin

lemma keeps_check_thresholds:
  "k \<noteq> CONFIGS \<Longrightarrow> keeps (\<lambda>db. P (docs S k db)) (check_thresholds S now vd category location)"
  unfolding check_thresholds_def get_default_config_def
  by (intro keeps_intros keeps_insert_other)

lemma keeps_evaluate_policy:
  assumes "wstore W = S" and "k \<noteq> CONFIGS"
  shows "keeps (\<lambda>db. P (docs S k db)) (evaluate_policy W now counted expected item loc vr cr req)"
  unfolding evaluate_policy_def Let_def assms(1)
  by (auto intro!: keeps_intros keeps_check_thresholds [OF assms(2)] split: prod.splits)

lemma keeps_evaluate_governance:
  assumes "wstore W = S" and "k \<noteq> CONFIGS"
  shows "keeps (\<lambda>db. P (docs S k db)) (evaluate_governance_for_document W now has_session d ctx)"
  unfolding evaluate_governance_for_document_def Let_def
  by (auto intro!: keeps_intros keeps_evaluate_policy [OF assms] split: prod.splits)

lemma keeps_enforce_variance:
  assumes "wstore W = S" and "k \<noteq> CONFIGS"
  shows "keeps (\<lambda>db. P (docs S k db)) (enforce_variance_for_write W now has_session p ctx)"
  unfolding enforce_variance_for_write_def Let_def
  by (auto intro!: keeps_intros keeps_evaluate_governance [OF assms] split: option.splits prod.splits)

lemma keeps_save_line:
  "k \<noteq> ''count_lines'' \<Longrightarrow> keeps (\<lambda>db. P (docs S k db)) (save_line S d)"
  unfolding save_line_def by (intro keeps_intros keeps_other)

lemma keeps_execute:
  assumes "wstore W = S" and "k \<noteq> ''count_lines''"
  shows "keeps (\<lambda>db. P (docs S k db)) (execute_count_line_operation W p)"
  using assms(2) unfolding execute_count_line_operation_def Let_def assms(1)
  by (auto intro!: keeps_intros keeps_save_line keeps_other split: option.splits prod.splits)

lemma keeps_post_write_validation:
  assumes "wstore W = S" and "k \<noteq> ''validation_logs''"
  shows "keeps (\<lambda>db. P (docs S k db)) (run_post_write_validation W now p ctx result)"
  using assms(2) unfolding run_post_write_validation_def Let_def assms(1)
  by (auto intro!: keeps_intros keeps_validate_count_line split: option.splits write_result.splits)

lemma keeps_log_count_line_audit:
  assumes "wstore W = S" and "k \<noteq> ''governance_events''"
  shows "keeps (\<lambda>db. P (docs S k db)) (log_count_line_audit W now p ctx sids)"
  using assms(2) unfolding log_count_line_audit_def Let_def assms(1)
  by (intro keeps_intros keeps_log_governance_event)

lemma keeps_guarded_session_update:
  assumes "lstore L = S" and "k \<notin> {''sessions'', ''governance_events''}"
  shows "keeps (\<lambda>db. P (docs S k db)) (guarded_session_update L now sid e v actor operation)"
  using assms(2)
  unfolding guarded_session_update_def Let_def ensure_session_not_finalized_def ensure_session_exists_def
    get_session_def update_session_with_occ_def assms(1)
  by (auto intro!: keeps_intros keeps_log_write_event keeps_other split: option.splits)

end

section \<open>The writer's contract\<close>

text \<open>
  The services the writer is built from share its database, and its projection writer stays
  inside the projection collections.
\<close>

locale line_writer = document_store "wstore W" for W :: "'db line_service" +
  assumes life_store: "lstore (wlife W) = wstore W"
    and line_sync_frame: "k \<notin> set PROJECTION_COLLECTIONS \<Longrightarrow> k \<noteq> ''locks'' \<Longrightarrow>
      keeps (\<lambda>db. P (docs (wstore W) k db))
        (sync_for_sessions (wproj W) now ids trigger actor rebuild item_scopes skip)"
begin

abbreviation count_lines :: "'db \<Rightarrow> doc list" where
  "count_lines db \<equiv> docs (wstore W) ''count_lines'' db"

lemma keeps_update_totals:
  assumes "k \<notin> {''sessions'', ''governance_events''}"
  shows "keeps (\<lambda>db. P (docs (wstore W) k db)) (update_session_totals_for_sessions W now sids ctx versions)"
  using keeps_guarded_session_update [OF life_store assms]
  unfolding update_session_totals_for_sessions_def update_session_totals_def by (auto intro!: keeps_intros)

lemma line_collection: "''count_lines'' \<notin> set PROJECTION_COLLECTIONS" "''count_lines'' \<noteq> ''locks''"
  "''count_lines'' \<noteq> CONFIGS" "''count_lines'' \<noteq> ''validation_logs''" "''count_lines'' \<noteq> ''governance_events''"
  "''count_lines'' \<notin> {''sessions'', ''governance_events''}"
  by (simp_all add: PROJECTION_COLLECTIONS_def CONFIGS_def)

text \<open>The steps of a successful write, with the states in which the lines are touched.\<close>

lemma core_steps:
  assumes "process_write_core W now has_session p0 ctx db = (Inr res, db')"
  obtains p1 p2 p3 governed d1 d2 where
    "operation_of (wrepr W) p0 \<in> set WRITE_OPERATIONS"
    "assert_mandatory_write_invariants W p0 ctx db = (Inr p1, db)"
    "apply_state_transition_for_write now (wrepr W) p1 ctx = Inr p2"
    "should_apply_governance (wrepr W) p2 ctx = Inr governed"
    "(if governed then enforce_variance_for_write W now has_session p2 ctx else returnM p2) db = (Inr p3, d1)"
    "execute_count_line_operation W p3 d1 = (Inr res, d2)"
    "count_lines d1 = count_lines db" "count_lines db' = count_lines d2"
  using assms unfolding process_write_core_def Let_def
proof (elim bindM_elim)
  fix u0 e0 u1 e1 p1 e2 p2 e3 governed e4 p3 d1 sids e5 versions e6 result d2 u7 e7 u8 e8 u9 e9 u10 e10
  assume 0: "raise_if (operation_of (wrepr W) p0 \<notin> set WRITE_OPERATIONS)
      (ValueError (''Unsupported count-line write operation: '' @ operation_of (wrepr W) p0)) db = (Inr u0, e0)"
    and 1: "assert_snapshot_integrity_for_write W p0 ctx e0 = (Inr u1, e1)"
    and 2: "assert_mandatory_write_invariants W p0 ctx e1 = (Inr p1, e2)"
    and 3: "liftM (apply_state_transition_for_write now (wrepr W) p1 ctx) e2 = (Inr p2, e3)"
    and 4: "liftM (should_apply_governance (wrepr W) p2 ctx) e3 = (Inr governed, e4)"
    and 5: "(if governed then enforce_variance_for_write W now has_session p2 ctx else returnM p2) e4 = (Inr p3, d1)"
    and 6: "collect_session_ids_for_write W p3 ctx d1 = (Inr sids, e5)"
    and 7: "capture_versions W sids ctx e5 = (Inr versions, e6)"
    and 8: "execute_count_line_operation W p3 e6 = (Inr result, d2)"
    and 9: "run_post_write_validation W now p3 ctx result d2 = (Inr u7, e7)"
    and 10: "whenM (\<not> truthy (dget_or ctx ''skip_session_totals_update'' (VBool False)))
      (update_session_totals_for_sessions W now sids ctx versions) e7 = (Inr u8, e8)"
    and 11: "whenM (sids \<noteq> [] \<and> \<not> truthy (dget_or ctx ''skip_projection_sync'' (VBool False)))
      (sync_for_sessions (wproj W) now sids (''count_line.'' @ operation_of (wrepr W) p0)
        (context_actor (wrepr W) ctx)
        (\<not> truthy (dget_or ctx ''skip_projection_items_sync'' (VBool False))) [] False) e8 = (Inr u9, e9)"
    and 12: "log_count_line_audit W now (case result of Saved d \<Rightarrow> p3\<lparr>p_document := VDict d\<rparr> | _ \<Rightarrow> p3) ctx sids e9 =
      (Inr u10, e10)"
    and 13: "returnM result e10 = (Inr res, db')"
  from 0 have op: "operation_of (wrepr W) p0 \<in> set WRITE_OPERATIONS" "e0 = db" by (auto simp: run_iff)
  have e1: "e1 = e0" by (rule keeps_same [OF keeps_assert_snapshot_integrity 1])
  have e2: "e2 = e1" by (rule keeps_same [OF keeps_mandatory_invariants 2])
  from 3 4 have e4: "e3 = e2" "e4 = e2" and t: "apply_state_transition_for_write now (wrepr W) p1 ctx = Inr p2"
    "should_apply_governance (wrepr W) p2 ctx = Inr governed" by (auto simp: run_iff)
  have e5: "e5 = d1" by (rule keeps_same [OF keeps_collect_session_ids 6])
  have e6: "e6 = e5" by (rule keeps_same [OF keeps_capture_versions 7])
  have "keeps (\<lambda>db. P (count_lines db)) (if governed then enforce_variance_for_write W now has_session p2 ctx else returnM p2)" for P
    using keeps_enforce_variance [OF refl line_collection(3)] by (intro keeps_intros)
  from keeps_eqD [where f = count_lines, OF this 5] have c1: "count_lines d1 = count_lines e4" .
  have "count_lines e7 = count_lines d2"
    by (rule keeps_eqD [where f = count_lines, OF keeps_post_write_validation [OF refl line_collection(4)] 9])
  moreover have "count_lines e8 = count_lines e7"
    by (rule keeps_eqD [where f = count_lines, OF keeps_whenM [OF keeps_update_totals [OF line_collection(6)]] 10])
  moreover have "count_lines e9 = count_lines e8"
    by (rule keeps_eqD [where f = count_lines, OF keeps_whenM [OF line_sync_frame [OF line_collection(1,2)]] 11])
  moreover have "count_lines e10 = count_lines e9"
    by (rule keeps_eqD [where f = count_lines, OF keeps_log_count_line_audit [OF refl line_collection(5)] 12])
  moreover from 13 have "res = result" "db' = e10" by (auto simp: run_iff)
  ultimately show thesis
    using that [of p1 p2 governed p3 d1 d2] op 2 t 5 8 e1 e2 e4 e5 e6 c1 by simp
qed

end

section \<open>What the mandatory invariants establish\<close>

lemma commit_success:
  assumes "commit_write W now in_tx p ctx db = (Inr res, db')"
  obtains has_session where "process_write_core W now has_session p ctx db = (Inr res, db')"
  using assms
  by (auto simp: commit_write_def run_iff unit_of_work_committed split: if_splits)

text \<open>A refusal by the mandatory invariants comes before any write.\<close>

lemma core_refused:
  assumes "assert_mandatory_write_invariants W p ctx db = (Inl e, u)"
  shows "\<exists>e. process_write_core W now has_session p ctx db = (Inl e, db)"
proof -
  obtain r t where s: "assert_snapshot_integrity_for_write W p ctx db = (r, t)"
    by (cases "assert_snapshot_integrity_for_write W p ctx db")
  have "t = db" by (rule keeps_same [OF keeps_assert_snapshot_integrity s])
  moreover have "u = db" by (rule keeps_same [OF keeps_mandatory_invariants assms])
  ultimately show ?thesis
    using s assms by (cases r) (auto simp: process_write_core_def Let_def run_simps)
qed

lemma commit_refused:
  assumes "assert_mandatory_write_invariants W p ctx db = (Inl e, u)"
  shows "\<exists>e. commit_write W now in_tx p ctx db = (Inl e, db)"
proof -
  from core_refused [OF assms] obtain f where
    "\<And>h. process_write_core W now h p ctx db = (Inl (f h), db)" by metis
  then show ?thesis
    by (auto simp: commit_write_def run_simps unit_of_work_def committed_def Let_def)
qed

lemma commit_refused_unless:
  assumes "\<And>p1. assert_mandatory_write_invariants W p ctx db \<noteq> (Inr p1, db)"
  shows "\<exists>e. commit_write W now in_tx p ctx db = (Inl e, db)"
proof -
  obtain r u where m: "assert_mandatory_write_invariants W p ctx db = (r, u)"
    by (cases "assert_mandatory_write_invariants W p ctx db")
  have "u = db" by (rule keeps_same [OF keeps_mandatory_invariants m])
  with m assms obtain e where "r = Inl e" by (cases r) auto
  with m have "assert_mandatory_write_invariants W p ctx db = (Inl e, u)" by simp
  then show ?thesis by (rule commit_refused)
qed

text \<open>The session a write is judged by, and the verdict on one line.\<close>

definition line_admitted :: "'db line_service \<Rightarrow> mode_profile \<Rightarrow> doc \<Rightarrow> doc \<Rightarrow> 'db \<Rightarrow> bool" where
  "line_admitted W profile ctx line db \<longleftrightarrow>
     (\<exists>s. (as_dict (dget ctx ''session'') = Some s \<or>
           dget ctx ''session'' = VNone \<and>
           find_one (wstore W) ''sessions'' (session_lookup (py_str (wrepr W)
             (py_or (dget line ''session_id'') (dget ctx ''session_id'')))) db = (Inr (Some s), db)) \<and>
          \<not> session_closed (wrepr W) s \<and>
          (require_active_session profile \<longrightarrow>
             normalize_session_status (wrepr W) (dget s ''status'') = ''ACTIVE'') \<and>
          (require_full_context profile \<longrightarrow>
             (\<forall>k \<in> {''location_id'', ''floor_id'', ''rack_id''}. strip (text_field (wrepr W) line k) \<noteq> [])))"

lemma write_context_fields:
  "dget (write_context profile ctx sid d) ''session'' = dget ctx ''session''"
  "dget_or (write_context profile ctx sid d) ''require_active_session'' v = VBool (require_active_session profile)"
  "dget_or (write_context profile ctx sid d) ''require_full_context'' v = VBool (require_full_context profile)"
  by (simp_all add: write_context_def dget_def dget_or_def)

lemma write_context_session_id:
  assumes "sid = py_or (dget d ''session_id'') (dget ctx ''session_id'')"
  shows "extract_session_id rp (write_context profile ctx sid d) = (if truthy sid then py_str rp sid else [])"
  using assms by (simp add: extract_session_id_def write_context_def dget_def Let_def)

lemma write_context_field:
  assumes "k \<in> {''location_id'', ''floor_id'', ''rack_id''}"
  shows "context_field rp (write_context profile ctx sid d) k =
    (if truthy (dget d k) then strip (py_str rp (dget d k)) else [])"
  using assms by (auto simp: context_field_def write_context_def dget_def Let_def)

lemma admitted_write:
  assumes "assert_valid_write (wstore W) (wrepr W) (write_context profile ctx
      (py_or (dget d ''session_id'') (dget ctx ''session_id'')) d) db = (Inr s, db')"
  shows "line_admitted W profile ctx d db"
proof -
  let ?sid = "py_or (dget d ''session_id'') (dget ctx ''session_id'')"
  let ?c = "write_context profile ctx ?sid d"
  from assert_valid_write_success [OF assms] have c: "check_write (wrepr W) ?c s = Inr ()"
    and s: "as_dict (dget ctx ''session'') = Some s \<or>
     dget ctx ''session'' = VNone \<and> extract_session_id (wrepr W) ?c \<noteq> [] \<and>
     find_one (wstore W) ''sessions'' (session_lookup (extract_session_id (wrepr W) ?c)) db = (Inr (Some s), db)"
    by (simp_all add: write_context_fields)
  from s have "as_dict (dget ctx ''session'') = Some s \<or> dget ctx ''session'' = VNone \<and>
     find_one (wstore W) ''sessions'' (session_lookup (py_str (wrepr W) ?sid)) db = (Inr (Some s), db)"
    using write_context_session_id [OF refl] by (auto split: if_splits)
  moreover from c have "\<not> session_closed (wrepr W) s"
    "require_active_session profile \<longrightarrow> normalize_session_status (wrepr W) (dget s ''status'') = ''ACTIVE''"
    "require_full_context profile \<longrightarrow> missing_context (wrepr W) ?c = []"
    by (simp_all add: check_write_iff write_context_fields)
  moreover have "strip (text_field (wrepr W) d k) \<noteq> []"
    if "missing_context (wrepr W) ?c = []" "k \<in> {''location_id'', ''floor_id'', ''rack_id''}" for k
  proof -
    from that have "context_field (wrepr W) ?c k \<noteq> []" by (auto simp: missing_context_Nil)
    then show ?thesis
      by (auto simp: write_context_field [OF that(2)] text_field_def split: if_splits)
  qed
  ultimately show ?thesis by (auto simp: line_admitted_def)
qed

text \<open>The lines a request is about, as the invariants see them.\<close>

definition touched_lines :: "'db line_service \<Rightarrow> payload \<Rightarrow> doc \<Rightarrow> 'db \<Rightarrow> doc list" where
  "touched_lines W p ctx db =
     (let operation = operation_of (wrepr W) p;
          hits = (case p_filter p of None \<Rightarrow> [] | Some q \<Rightarrow> find_docs (wstore W) ''count_lines'' q db)
      in if operation = ''insert_one'' then (case as_dict (p_document p) of None \<Rightarrow> [] | Some d \<Rightarrow> [d])
         else if operation = ''delete_one'' then take 1 hits
         else if operation \<in> {''update_one'', ''find_one_and_update''}
         then map (\<lambda>d. case as_dict (update_value p) of None \<Rightarrow> d | Some u \<Rightarrow> apply_update_document_to_merged u d)
                (take 1 hits)
         else (case as_list (dget ctx ''candidate_lines'') of
             Some vs \<Rightarrow> List.map_filter as_dict vs
           | None \<Rightarrow> to_list 5000 hits))"

lemma line_admitted_cong:
  assumes "\<And>k. k \<in> {''session_id'', ''location_id'', ''floor_id'', ''rack_id''} \<Longrightarrow> dget d k = dget e k"
  shows "line_admitted W profile ctx d db = line_admitted W profile ctx e db"
  using assms by (auto simp: line_admitted_def text_field_def)

context document_store
begin

lemma find_one_none_iff:
  "find_one S c q db = (Inr None, db') \<longleftrightarrow> db' = db \<and> filter (match_filter q) (docs S c db) = []"
  by (auto simp: find_one_run split: list.splits)

lemma find_one_some_iff:
  "find_one S c q db = (Inr (Some d), db') \<longleftrightarrow>
     db' = db \<and> (\<exists>ds. filter (match_filter q) (docs S c db) = d # ds)"
  by (auto simp: find_one_run split: list.splits)

lemma insert_invariants_success:
  assumes "wstore W = S" and "insert_invariants W profile ctx d db = (Inr d', db')"
  shows "\<exists>h. d' = dput ''semantic_hash'' h d \<and>
    filter (match_filter [(''semantic_hash'', CEq h)]) (docs S ''count_lines'' db) = [] \<and>
    assert_idempotency_key W (py_or (dget d ''session_id'') (dget ctx ''session_id'')) d db = (Inr (), db) \<and>
    assert_version_progression W d db = (Inr (), db) \<and>
    line_admitted W profile ctx d db"
  using assms(2) unfolding insert_invariants_def Let_def
proof (elim bindM_elim)
  fix u1 e1 u2 e2 h e3 r e4 u5 e5 s e6
  let ?sid = "py_or (dget d ''session_id'') (dget ctx ''session_id'')"
  let ?d = "dput ''semantic_hash'' h d"
  assume 1: "assert_idempotency_key W ?sid d db = (Inr u1, e1)"
    and 2: "assert_version_progression W d e1 = (Inr u2, e2)"
    and 3: "(if truthy (dget d ''semantic_hash'') then returnM (dget d ''semantic_hash'')
      else bindM (liftM (build_semantic_hash (wrepr W) (digest W) d)) (\<lambda>h. returnM (VStr h))) e2 = (Inr h, e3)"
    and 4: "find_one (wstore W) ''count_lines'' [(''semantic_hash'', CEq h)] e3 = (Inr r, e4)"
    and 5: "raise_if (r \<noteq> None) duplicate_hash e4 = (Inr u5, e5)"
    and 6: "assert_valid_write (wstore W) (wrepr W) (write_context profile ctx ?sid ?d) e5 = (Inr s, e6)"
    and 7: "returnM ?d e6 = (Inr d', db')"
  have e: "e1 = db" by (rule keeps_same [OF keeps_assert_idempotency_key 1])
  have e2: "e2 = e1" by (rule keeps_same [OF keeps_assert_version_progression 2])
  from 3 have e3: "e3 = e2" by (auto simp: run_iff split: if_splits)
  from 4 5 have r: "find_one S ''count_lines'' [(''semantic_hash'', CEq h)] e3 = (Inr None, e4)" "e5 = e4"
    by (auto simp: run_iff assms(1))
  then have hash: "filter (match_filter [(''semantic_hash'', CEq h)]) (docs S ''count_lines'' db) = []" "e5 = db"
    using e e2 e3 by (simp_all add: find_one_none_iff)
  have "?sid = py_or (dget ?d ''session_id'') (dget ctx ''session_id'')" by (simp add: doc_simps)
  from 6 [unfolded this] have "line_admitted W profile ctx ?d db" using hash(2) by (auto dest: admitted_write)
  then have "line_admitted W profile ctx d db"
    by (subst line_admitted_cong [where e = ?d]) (auto simp: doc_simps)
  with 1 2 7 e e2 hash(1) show ?thesis by (auto simp: run_iff)
qed

lemma single_invariants_success:
  assumes "wstore W = S" and "single_invariants W profile ctx p updating db = (Inr p1, db')"
  shows "\<exists>q d ds. p_filter p = Some q \<and> filter (match_filter q) (docs S ''count_lines'' db) = d # ds \<and>
    line_admitted W profile ctx
      (if updating then (case as_dict (update_value p) of None \<Rightarrow> d | Some u \<Rightarrow> apply_update_document_to_merged u d)
       else d) db"
proof -
  from assms(2) obtain q where q: "p_filter p = Some q"
    by (cases "p_filter p") (auto simp: single_invariants_def run_iff)
  let ?m = "\<lambda>d. if updating then (case as_dict (update_value p) of None \<Rightarrow> d | Some u \<Rightarrow> apply_update_document_to_merged u d) else d"
  from assms q obtain d ds where d: "filter (match_filter q) (docs S ''count_lines'' db) = d # ds"
    by (cases "filter (match_filter q) (docs S ''count_lines'' db)")
       (auto simp: single_invariants_def run_simps find_one_run)
  from assms(2) q d have "\<exists>x u s. (if updating \<and> dhas (?m d) ''counted_qty''
       then bindM (liftM (build_semantic_hash (wrepr W) (digest W) (?m d))) (\<lambda>h.
            bindM (assert_hash_free W d h) (\<lambda>_.
            returnM (case as_dict (update_value p) of
                None \<Rightarrow> p
              | Some u \<Rightarrow> p\<lparr>p_update := Some (VDict (stamp_update_hash u h))\<rparr>)))
       else returnM p) db = (Inr x, u) \<and>
     assert_valid_write (wstore W) (wrepr W) (write_context profile ctx
       (py_or (dget (?m d) ''session_id'') (dget ctx ''session_id'')) (?m d)) u = (Inr s, db')"
    unfolding single_invariants_def Let_def
    by (auto simp: assms(1) find_one_run bindM_iff returnM_iff)
  then obtain x u s where x: "(if updating \<and> dhas (?m d) ''counted_qty''
       then bindM (liftM (build_semantic_hash (wrepr W) (digest W) (?m d))) (\<lambda>h.
            bindM (assert_hash_free W d h) (\<lambda>_.
            returnM (case as_dict (update_value p) of
                None \<Rightarrow> p
              | Some u \<Rightarrow> p\<lparr>p_update := Some (VDict (stamp_update_hash u h))\<rparr>)))
       else returnM p) db = (Inr x, u)"
    and s: "assert_valid_write (wstore W) (wrepr W) (write_context profile ctx
       (py_or (dget (?m d) ''session_id'') (dget ctx ''session_id'')) (?m d)) u = (Inr s, db')" by blast
  from x have "u = db"
    by (auto simp: run_iff dest: keeps_same [OF keeps_assert_hash_free] split: if_splits)
  with admitted_write [OF s] q d show ?thesis by blast
qed

end

context document_store
begin

lemma bulk_candidates_run:
  assumes "wstore W = S" and "bulk_candidates W ctx p db = (Inr xs, db')"
  shows "List.map_filter as_dict xs =
    (case as_list (dget ctx ''candidate_lines'') of
       Some vs \<Rightarrow> List.map_filter as_dict vs
     | None \<Rightarrow> to_list 5000 (case p_filter p of None \<Rightarrow> [] | Some q \<Rightarrow> find_docs S ''count_lines'' q db))"
proof -
  have m: "List.map_filter as_dict (map VDict ds) = ds" for ds
    by (induction ds) (simp_all add: List.map_filter_simps)
  show ?thesis
    using assms
    by (auto simp: bulk_candidates_def run_iff find_all_def m split: option.splits)
qed

lemma bulk_invariants_success:
  assumes "wstore W = S" and "bulk_invariants W profile ctx p db = (Inr (), db')"
  shows "\<exists>xs. xs \<noteq> [] \<and> bulk_candidates W ctx p db = (Inr xs, db) \<and>
    (\<forall>line \<in> set (List.map_filter as_dict xs). line_admitted W profile ctx line db)"
  using assms(2) unfolding bulk_invariants_def
proof (elim bindM_elim)
  fix xs e1 u2 e2
  let ?body = "\<lambda>v. case as_dict v of None \<Rightarrow> returnM () | Some line \<Rightarrow>
    bindM (assert_valid_write (wstore W) (wrepr W) (write_context profile ctx
      (py_or (dget line ''session_id'') (dget ctx ''session_id'')) line)) (\<lambda>_. returnM ())"
  assume 1: "bulk_candidates W ctx p db = (Inr xs, e1)"
    and 2: "raise_if (xs = []) (GovernanceViolation ''CRITICAL: No candidate lines for guarded bulk mutation'') e1 =
      (Inr u2, e2)"
    and 3: "forM xs ?body e2 = (Inr (), db')"
  have e: "e1 = db" by (rule keeps_same [OF keeps_bulk_candidates 1])
  with 2 have ne: "xs \<noteq> []" "e2 = db" by (auto simp: run_iff)
  have same: "t = s" if "?body v s = (r, t)" for v s r t
    using that by (auto simp: run_simps split: option.splits prod.splits sum.splits dest: keeps_same [OF keeps_assert_valid_write])
  from forM_success [OF 3 [unfolded ne(2)]] same have all: "\<forall>v \<in> set xs. ?body v db = (Inr (), db)" by blast
  have "line_admitted W profile ctx line db" if "line \<in> set (List.map_filter as_dict xs)" for line
  proof -
    from that obtain v where "v \<in> set xs" "as_dict v = Some line"
      by (auto simp: List.map_filter_def)
    moreover from all \<open>v \<in> set xs\<close> have "?body v db = (Inr (), db)" by blast
    ultimately have "\<exists>s. assert_valid_write (wstore W) (wrepr W) (write_context profile ctx
      (py_or (dget line ''session_id'') (dget ctx ''session_id'')) line) db = (Inr s, db)"
      by (simp add: bindM_iff returnM_iff)
    then show ?thesis by (blast intro: admitted_write)
  qed
  with ne 1 e show ?thesis by blast
qed

lemma mandatory_success:
  assumes "wstore W = S" and "assert_mandatory_write_invariants W p ctx db = (Inr p1, db')"
    and "operation_of (wrepr W) p \<in> set WRITE_OPERATIONS"
  shows "\<exists>profile. resolve_governance_mode_profile (wrepr W) ctx = Inr profile \<and>
    (\<forall>line \<in> set (touched_lines W p ctx db). line_admitted W profile ctx line db)"
proof -
  from assms(2) obtain profile where prof: "resolve_governance_mode_profile (wrepr W) ctx = Inr profile"
    by (auto simp: assert_mandatory_write_invariants_def run_iff)
  consider (ins) "operation_of (wrepr W) p = ''insert_one''"
    | (one) "operation_of (wrepr W) p \<in> {''update_one'', ''find_one_and_update'', ''delete_one''}"
    | (many) "operation_of (wrepr W) p \<in> {''update_many'', ''delete_many''}"
    using assms(3) by (auto simp: WRITE_OPERATIONS_def)
  then have "\<forall>line \<in> set (touched_lines W p ctx db). line_admitted W profile ctx line db"
  proof cases
    case ins
    with assms(2) prof obtain d d' u where "as_dict (p_document p) = Some d"
      "insert_invariants W profile ctx d db = (Inr d', u)"
      by (auto simp: assert_mandatory_write_invariants_def run_iff split: option.splits)
    with insert_invariants_success [OF assms(1)] ins show ?thesis
      by (fastforce simp: touched_lines_def Let_def)
  next
    case one
    let ?up = "operation_of (wrepr W) p \<noteq> ''delete_one''"
    from one assms(2) prof have "single_invariants W profile ctx p ?up db = (Inr p1, db')"
      by (auto simp: assert_mandatory_write_invariants_def run_iff)
    from single_invariants_success [OF assms(1) this] obtain q d ds where
      q: "p_filter p = Some q" "filter (match_filter q) (docs S ''count_lines'' db) = d # ds"
      "line_admitted W profile ctx
      (if ?up then (case as_dict (update_value p) of None \<Rightarrow> d | Some u \<Rightarrow> apply_update_document_to_merged u d)
       else d) db" by blast
    have "touched_lines W p ctx db = [if ?up then (case as_dict (update_value p) of None \<Rightarrow> d
       | Some u \<Rightarrow> apply_update_document_to_merged u d) else d]"
      using one q(1,2) by (auto simp: touched_lines_def Let_def assms(1) find_law)
    with q(3) show ?thesis by simp
  next
    case many
    with assms(2) prof obtain t where "bulk_invariants W profile ctx p db = (Inr (), t)"
      by (auto simp: assert_mandatory_write_invariants_def run_iff)
    from bulk_invariants_success [OF assms(1) this] obtain xs where
      xs: "bulk_candidates W ctx p db = (Inr xs, db)"
      "\<forall>line \<in> set (List.map_filter as_dict xs). line_admitted W profile ctx line db" by blast
    from many bulk_candidates_run [OF assms(1) xs(1)] have "touched_lines W p ctx db = List.map_filter as_dict xs"
      unfolding touched_lines_def Let_def assms(1) by auto
    with xs(2) show ?thesis by simp
  qed
  with prof show ?thesis by blast
qed

end

section \<open>The stamped fields\<close>

text \<open>The fields of a line that the writer decides itself.\<close>

definition AUTHORITATIVE_FIELDS :: "string list" where
  "AUTHORITATIVE_FIELDS =
     [''item_name'', ''barcode'', ''risk_flags'', ''is_misplaced'', ''expected_location'', ''found_location'',
      ''relocation_status'', ''approval_note'', ''status''] @
     map fst (gap_fields 0 0 0 0 0) @ map fst review_reset_fields @
     [''variance'', ''approval_status'', ''approved_at'', ''approved_by'', ''requires_supervisor_approval'',
      ''variance_data'', ''violated_thresholds'']"

lemma keys_gap_fields: "map fst (gap_fields a b c d e) = map fst (gap_fields 0 0 0 0 0)"
  by (simp add: gap_fields_def)

lemma keys_decision_fields: "map fst (decision_fields gov) =
   [''variance'', ''approval_status'', ''approved_at'', ''approved_by'', ''requires_supervisor_approval'',
      ''variance_data'', ''violated_thresholds'']"
  by (simp add: decision_fields_def)

lemma dget_stamp_placement:
  "k \<notin> {''is_misplaced'', ''expected_location'', ''found_location'', ''relocation_status''} \<Longrightarrow>
   dget (stamp_placement d a b c e w) k = dget d k"
  by (simp add: stamp_placement_def doc_simps)

lemma dget_merge_keys: "map fst e = ks \<Longrightarrow> k \<notin> set ks \<Longrightarrow> dget (dmerge d e) k = dget d k"
  by (rule dget_dmerge_other) (metis list.set_map)

lemma dget_review_reset:
  assumes "k \<notin> set (map fst review_reset_fields)" "k \<noteq> ''approval_note''"
  shows "dget (apply_review_reset_fields d) k = dget d k"
  using assms dget_merge_keys [OF refl assms(1)] by (simp add: apply_review_reset_fields_def Let_def doc_simps)

lemma apply_authoritative_other:
  assumes "apply_authoritative_fields rp target gov item session ctx = Inr t"
    and "k \<notin> set AUTHORITATIVE_FIELDS"
  shows "dget t k = dget target k"
proof -
  from assms(2) have k: "k \<noteq> ''item_name''" "k \<noteq> ''barcode''" "k \<noteq> ''risk_flags''" "k \<noteq> ''approval_note''"
    "k \<noteq> ''status''" "k \<notin> {''is_misplaced'', ''expected_location'', ''found_location'', ''relocation_status''}"
    "k \<notin> set (map fst review_reset_fields)" "k \<notin> set (map fst (gap_fields 0 0 0 0 0))"
    "k \<notin> set (map fst (decision_fields gov))"
    by (auto simp: AUTHORITATIVE_FIELDS_def keys_decision_fields)
  note drop = dget_merge_keys [OF keys_gap_fields k(8)] dget_merge_keys [OF refl k(9)]
    dget_review_reset [OF k(7,4)] dget_stamp_placement [OF k(6)]
  from assms(1) show ?thesis
    using k(1-5) by (auto simp: stamping_defs collect_risk_flags_def Let_def run_iff drop doc_simps)
qed

lemma apply_authoritative_decision:
  assumes "apply_authoritative_fields rp target gov item session ctx = Inr t"
    and "map_of (decision_fields gov) k = Some v"
  shows "dget t k = v"
proof -
  have d: "distinct (map fst (decision_fields gov))" by (simp add: keys_decision_fields)
  from assms(2) have "k \<in> set (map fst (decision_fields gov))" by (metis domI dom_map_of_conv_image_fst list.set_map)
  then have "k \<noteq> ''status''" by (auto simp: keys_decision_fields)
  with assms dget_dmerge_in [OF d assms(2)] show ?thesis
    by (auto simp: stamping_defs Let_def run_iff doc_simps)
qed

lemma apply_authoritative_status:
  assumes "apply_authoritative_fields rp target gov item session ctx = Inr t"
    and "truthy (dget_or ctx ''set_status_from_governance'' (VBool True))"
  shows "dget t ''status'' = VStr (gov_status gov)"
  using assms by (auto simp: stamping_defs Let_def run_iff doc_simps)
lemma apply_authoritative_unverified:
  assumes "apply_authoritative_fields rp target gov item session ctx = Inr t"
  shows "dget t ''verified'' = VBool False"
proof -
  have r: "dget (apply_review_reset_fields d) ''verified'' = VBool False" for d
    using dget_dmerge_in [of review_reset_fields "''verified''" "VBool False" d]
    by (simp add: apply_review_reset_fields_def Let_def doc_simps) (simp add: review_reset_fields_def)
  have "dget (dmerge d (decision_fields gov)) ''verified'' = dget d ''verified''" for d
    by (rule dget_merge_keys [OF refl]) (simp add: keys_decision_fields)
  then have "dget (dmerge (apply_review_reset_fields d) (decision_fields gov)) ''verified'' = VBool False" for d
    by (simp add: r)
  with assms show ?thesis
    by (auto simp: stamping_defs Let_def run_iff dget_dput)
qed

section \<open>Inserting a line\<close>

context document_store
begin

lemma save_line_docs:
  assumes "save_line S d db = (Inr e, db')"
  shows "e \<in> set (docs S ''count_lines'' db') \<and> (\<forall>k. k \<noteq> ''_id'' \<longrightarrow> dget e k = dget d k)"
proof (cases "dhas d ''_id''")
  case True
  let ?q = "[(''_id'', CEq (dget d ''_id''))]"
  from assms True obtain n where r: "replace_one_doc S ''count_lines'' ?q d True db = (n, db')" and "e = d"
    by (cases "replace_one_doc S ''count_lines'' ?q d True db") (auto simp: save_line_def replace_one_def run_iff)
  have "d \<in> set (docs S ''count_lines'' db')"
  proof (cases "filter (match_filter ?q) (docs S ''count_lines'' db)")
    case Nil
    with replace_miss [OF r True refl] show ?thesis by simp
  next
    case (Cons x xs)
    with replace_hit [OF r True] have "docs S ''count_lines'' db' =
      update_first (match_filter ?q) (\<lambda>_. d) (docs S ''count_lines'' db)" by simp
    moreover obtain us vs where "update_first (match_filter ?q) (\<lambda>_. d) (docs S ''count_lines'' db) = us @ d # vs"
      by (rule update_first_split [OF Cons, of "\<lambda>_. d"])
    ultimately show ?thesis by simp
  qed
  with \<open>e = d\<close> show ?thesis by simp
next
  case False
  with assms obtain i where r: "insert_one S ''count_lines'' d db = (Inr i, db')" and e: "e = dput ''_id'' i d"
    by (auto simp: save_line_def run_iff)
  from insert_one_docs [OF r] False e show ?thesis by (auto simp: dset_default_def doc_simps)
qed

end

text \<open>The document a governed insert stores, and how the decision on it was made.\<close>

lemma enforce_insert:
  assumes "operation_of (wrepr W) p = ''insert_one''" and "as_dict (p_document p) = Some d"
    and "dhas d ''counted_qty''"
    and "enforce_variance_for_write W now has_session p ctx db = (Inr p3, db')"
  obtains gov item session d' t u where
    "evaluate_governance_for_document W now has_session d ctx db = (Inr (gov, item, session, d'), u)"
    "apply_authoritative_fields (wrepr W) d' gov item session ctx = Inr t"
    "p3 = p\<lparr>p_document := VDict t\<rparr>"
  using assms by (auto simp: enforce_variance_for_write_def Let_def run_iff)

lemma stamp_baseline_other:
  "stamp_baseline W has_session sid code expected item d db = (Inr (q, d'), db') \<Longrightarrow>
   k \<notin> {''erp_qty'', ''baseline_hash''} \<Longrightarrow> dget d' k = dget d k"
  by (auto simp: stamp_baseline_def run_iff doc_simps split: if_splits prod.splits)

lemma evaluate_other:
  assumes "evaluate_governance_for_document W now has_session d ctx db = (Inr (gov, item, session, d'), db')"
    and "k \<notin> {''erp_qty'', ''baseline_hash''}"
  shows "dget d' k = dget d k"
proof -
  from assms(1) obtain code expected0 item0 sid q t u where
    "stamp_baseline W has_session sid code expected0 item0 d t = (Inr (q, d'), u)"
    by (auto simp: evaluate_governance_for_document_def Let_def run_iff split: prod.splits)
  from stamp_baseline_other [OF this assms(2)] show ?thesis .
qed

definition WRITER_FIELDS :: "string list" where
  "WRITER_FIELDS = [''_id'', ''semantic_hash'', ''erp_qty'', ''baseline_hash''] @ AUTHORITATIVE_FIELDS"

context line_writer
begin

lemma insert_pipeline:
  assumes "process_write_core W now has_session p ctx db = (Inr res, db')"
    and "operation_of (wrepr W) p = ''insert_one''"
  obtains profile d h e d1 where "as_dict (p_document p) = Some d"
    "insert_invariants W profile ctx d db = (Inr (dput ''semantic_hash'' h d), db)"
    "res = Saved e" "e \<in> set (count_lines db')" "count_lines d1 = count_lines db"
    "\<And>k. k \<notin> set WRITER_FIELDS \<Longrightarrow> dget e k = dget d k"
    "dget e ''semantic_hash'' = h"
    "dhas d ''counted_qty'' \<Longrightarrow> \<exists>gov item session d' u.
       evaluate_governance_for_document W now has_session (dput ''semantic_hash'' h d) ctx db =
         (Inr (gov, item, session, d'), u) \<and>
       (\<exists>t. apply_authoritative_fields (wrepr W) d' gov item session ctx = Inr t \<and>
         (\<forall>k. k \<noteq> ''_id'' \<longrightarrow> dget e k = dget t k))"
proof -
  obtain p1 p2 p3 governed d1 d2 where s:
    "assert_mandatory_write_invariants W p ctx db = (Inr p1, db)"
    "apply_state_transition_for_write now (wrepr W) p1 ctx = Inr p2"
    "should_apply_governance (wrepr W) p2 ctx = Inr governed"
    "(if governed then enforce_variance_for_write W now has_session p2 ctx else returnM p2) db = (Inr p3, d1)"
    "execute_count_line_operation W p3 d1 = (Inr res, d2)"
    "count_lines d1 = count_lines db" "count_lines db' = count_lines d2"
    by (rule core_steps [OF assms(1)])
  from s(1) assms(2) obtain profile d d' u where d: "as_dict (p_document p) = Some d"
    "insert_invariants W profile ctx d db = (Inr d', db)" "p1 = p\<lparr>p_document := VDict d'\<rparr>"
    by (auto simp: assert_mandatory_write_invariants_def run_iff split: option.splits)
  from insert_invariants_success [OF refl d(2)] obtain h where h: "d' = dput ''semantic_hash'' h d" by blast
  have op: "operation_of (wrepr W) p1 = ''insert_one''" using assms(2) d(3) by (simp add: operation_of_def)
  from s(2) op have p2: "p2 = p1" by (auto simp: apply_state_transition_for_write_def Let_def split: if_splits)
  from s(3) op d(3) p2 have g: "governed = dhas d ''counted_qty''"
    by (auto simp: should_apply_governance_def Let_def h doc_simps split: if_splits)
  have "\<exists>t. p3 = p1\<lparr>p_document := VDict t\<rparr> \<and> (\<forall>k. k \<notin> set WRITER_FIELDS \<longrightarrow> dget t k = dget d k) \<and>
    dget t ''semantic_hash'' = h \<and> (dhas d ''counted_qty'' \<longrightarrow> (\<exists>gov item session d'' u.
       evaluate_governance_for_document W now has_session d' ctx db = (Inr (gov, item, session, d''), u) \<and>
       apply_authoritative_fields (wrepr W) d'' gov item session ctx = Inr t))"
  proof (cases "dhas d ''counted_qty''")
    case True
    with s(4) g p2 have "enforce_variance_for_write W now has_session p1 ctx db = (Inr p3, d1)" by simp
    moreover have "as_dict (p_document p1) = Some d'" "dhas d' ''counted_qty''"
      using True d(3) h by (simp_all add: doc_simps)
    ultimately obtain gov item session d'' t v where e:
      "evaluate_governance_for_document W now has_session d' ctx db = (Inr (gov, item, session, d''), v)"
      "apply_authoritative_fields (wrepr W) d'' gov item session ctx = Inr t"
      "p3 = p1\<lparr>p_document := VDict t\<rparr>"
      using enforce_insert [OF op] by metis
    have "dget t k = dget d' k" if "k \<notin> set AUTHORITATIVE_FIELDS" "k \<notin> {''erp_qty'', ''baseline_hash''}" for k
      using apply_authoritative_other [OF e(2) that(1)] evaluate_other [OF e(1) that(2)] by simp
    moreover have "''semantic_hash'' \<notin> set AUTHORITATIVE_FIELDS"
      by (simp add: AUTHORITATIVE_FIELDS_def gap_fields_def review_reset_fields_def)
    ultimately show ?thesis using e h by (intro exI [of _ t]) (auto simp: WRITER_FIELDS_def doc_simps)
  next
    case False
    with s(4) g p2 have "p3 = p1" by (auto simp: run_iff)
    with False d(3) h show ?thesis by (intro exI [of _ d']) (auto simp: WRITER_FIELDS_def doc_simps)
  qed
  then obtain t where t: "p3 = p1\<lparr>p_document := VDict t\<rparr>" "\<And>k. k \<notin> set WRITER_FIELDS \<Longrightarrow> dget t k = dget d k"
    "dget t ''semantic_hash'' = h" "dhas d ''counted_qty'' \<Longrightarrow> \<exists>gov item session d'' u.
       evaluate_governance_for_document W now has_session d' ctx db = (Inr (gov, item, session, d''), u) \<and>
       apply_authoritative_fields (wrepr W) d'' gov item session ctx = Inr t" by blast
  have "operation_of (wrepr W) p3 = ''insert_one''" using op t(1) by (simp add: operation_of_def)
  with s(5) t(1) obtain e where e: "save_line (wstore W) t d1 = (Inr e, d2)" "res = Saved e"
    by (auto simp: execute_count_line_operation_def run_iff)
  from save_line_docs [OF e(1)] have f: "e \<in> set (count_lines d2)" "\<And>k. k \<noteq> ''_id'' \<Longrightarrow> dget e k = dget t k" by auto
  show thesis
  proof (rule that [of d profile h e d1])
    show "dget e k = dget d k" if "k \<notin> set WRITER_FIELDS" for k
      using that f(2) t(2) by (simp add: WRITER_FIELDS_def)
    show "dhas d ''counted_qty'' \<Longrightarrow> \<exists>gov item session d' u.
       evaluate_governance_for_document W now has_session (dput ''semantic_hash'' h d) ctx db =
         (Inr (gov, item, session, d'), u) \<and>
       (\<exists>t. apply_authoritative_fields (wrepr W) d' gov item session ctx = Inr t \<and>
         (\<forall>k. k \<noteq> ''_id'' \<longrightarrow> dget e k = dget t k))"
      using t(4) f(2) unfolding h by blast
  qed (use d h e(2) f s(6,7) t(3) in auto)
qed

end

end
