(* ===== verification/CountLineProperties.thy ===== *)
theory CountLineProperties
  imports CountLineSafety
begin

text \<open>
  The properties of the count line writer: idempotent inserts, authoritative fields, writes only
  in open sessions, the preview of an update against the store's own update, and the locking of
  the lines when the session lifecycle finalizes a session through the writer.
\<close>

section \<open>The writer on the in-memory services\<close>

definition mem_lines ::
  "(nat \<Rightarrow> string) \<Rightarrow> (string \<Rightarrow> bool) \<Rightarrow> (nat \<Rightarrow> int) \<Rightarrow> (nat \<Rightarrow> doc list \<Rightarrow> doc list) \<Rightarrow> (doc \<Rightarrow> string) \<Rightarrow> memdb line_service" where
  "mem_lines idgen oid clock f dg =
     \<lparr>wstore = mem_store idgen oid, wrepr = (\<lambda>_. []), wvalid = \<lparr>strict_mode = True, write_logs = True\<rparr>,
      wlife = mem_lifecycle idgen oid clock f, wproj = mem_projection idgen oid clock f ''w'',
      digest = dg, snapshot_cache = [], item_index = []\<rparr>"

interpretation mem_lines: line_writer "mem_lines idgen oid clock f dg" for idgen oid clock f dg
  using mem_writer.keeps_sync_for_sessions [of _ _ idgen oid clock f "''w''"] document_store_mem
  by (auto simp: line_writer_def line_writer_axioms_def mem_lines_def mem_lifecycle_def mem_projection_def
      projection_service_def mem_locks_def)

text \<open>A fingerprint that tells the payloads of the instances apart: their item and version.\<close>

definition demo_digest :: "doc \<Rightarrow> string" where
  "demo_digest d =
     (case dget d ''item_id'' of VStr s \<Rightarrow> s | _ \<Rightarrow> []) @ ''/'' @
     (case dget d ''version'' of VInt n \<Rightarrow> show_int n | _ \<Rightarrow> [])"

definition demo_writer :: "memdb line_service" where
  "demo_writer = mem_lines show_nat (\<lambda>_. False) (\<lambda>n. int n * 1000000) (\<lambda>_ ds. ds) demo_digest"

lemma demo_writer_line_writer: "line_writer demo_writer"
  unfolding demo_writer_def by (rule mem_lines.line_writer_axioms)

definition demo_count :: doc where
  "demo_count =
     [(''session_id'', VStr ''s1''), (''item_code'', VStr ''I1''), (''counted_qty'', VInt 7), (''remark'', VStr ''ok''),
      (''location_id'', VStr ''L''), (''floor_id'', VStr ''F''), (''rack_id'', VStr ''R''),
      (''idempotency_key'', VStr ''k1''), (''verified'', VBool True), (''variance'', VInt 0),
      (''variance_reason'', VStr ''shelf'')]"

definition demo_request :: "doc \<Rightarrow> payload" where
  "demo_request d =
     \<lparr>p_operation = VStr ''insert_one'', p_document = VDict d, p_filter = None, p_update = None,
      p_upsert = VBool False, p_return = VBool False\<rparr>"

definition demo_counting_db :: memdb where
  "demo_counting_db = \<lparr>colls = (\<lambda>c.
     if c = ''sessions'' then [demo_session ''ACTIVE'']
     else if c = ''session_snapshots'' then
       [[(''session_id'', VStr ''s1''), (''snapshot_hash'', VStr ''h''),
         (''items'', VList [VDict [(''item_code'', VStr ''I1''), (''stock_qty'', VInt 5)]])]]
     else []), next_id = 0\<rparr>"

section \<open>The decision on a document\<close>

lemma evaluate_policy_success:
  assumes "evaluate_policy W now counted expected item loc vr cr req db = (Inr gov, db')"
  shows "gov_variance gov = counted - expected"
    and "gov_approval_status gov = (if gov_requires_approval gov then ''NEEDS_REVIEW'' else ''APPROVED'')"
    and "gov_status gov = (if gov_requires_approval gov then ''pending'' else ''approved'')"
  using assms by (auto simp: evaluate_policy_def Let_def run_iff)

text \<open>The session and the item a document is governed by.\<close>

definition governed_session :: "repr \<Rightarrow> doc \<Rightarrow> doc \<Rightarrow> string" where
  "governed_session rp d ctx =
     strip (py_str rp (py_or (dget d ''session_id'') (py_or (dget ctx ''session_id'') (VStr []))))"

definition governed_item :: "repr \<Rightarrow> doc \<Rightarrow> doc \<Rightarrow> string" where
  "governed_item rp d ctx =
     strip (py_str rp (py_or (dget d ''item_code'') (py_or (dget ctx ''item_code'') (VStr []))))"

lemma evaluate_success:
  assumes "evaluate_governance_for_document W now has_session d ctx db = (Inr (gov, item, session, d'), db')"
  obtains counted expected0 expected where
    "governed_item (wrepr W) d ctx \<noteq> []"
    "to_float (py_or (dget d ''counted_qty'') (VFloat 0)) = Inr counted" "0 \<le> counted"
    "truthy (dget d ''remark'')"
    "stamp_baseline W has_session (governed_session (wrepr W) d ctx) (governed_item (wrepr W) d ctx)
       expected0 item d db = (Inr (expected, d'), db)"
    "gov_variance gov = counted - expected"
    "gov_approval_status gov = (if gov_requires_approval gov then ''NEEDS_REVIEW'' else ''APPROVED'')"
    "gov_status gov = (if gov_requires_approval gov then ''pending'' else ''approved'')"
  using assms unfolding evaluate_governance_for_document_def Let_def
    governed_session_def [symmetric] governed_item_def [symmetric]
proof (elim bindM_elim)
  fix u1 e1 counted e2 u3 e3 u4 e4 expected0 e5 item0 e6 u7 e7 r8 e8 and k :: "(_, decision \<times> doc \<times> doc option \<times> doc) comp"
  assume 1: "raise_if (governed_item (wrepr W) d ctx = []) (HTTPException 409 ''Count line is missing item_code'') db =
      (Inr u1, e1)"
    and 2: "liftM (to_float (py_or (dget d ''counted_qty'') (VFloat 0))) e1 = (Inr counted, e2)"
    and 3: "raise_if (counted < 0) (HTTPException 400 ''Negative quantity is not allowed'') e2 = (Inr u3, e3)"
    and 4: "raise_if (\<not> truthy (dget d ''remark'')) (HTTPException 400 ''Item remark is mandatory'') e3 = (Inr u4, e4)"
    and 5: "liftM (to_float (py_or (dget d ''erp_qty'') (VFloat 0))) e4 = (Inr expected0, e5)"
    and 6: "find_erp_item W d ctx (governed_item (wrepr W) d ctx) e5 = (Inr item0, e6)"
    and 7: "liftM (if item0 \<noteq> [] then normalize_quantity_for_item (wrepr W) item0 d else Inr []) e6 = (Inr u7, e7)"
    and 8: "stamp_baseline W has_session (governed_session (wrepr W) d ctx) (governed_item (wrepr W) d ctx) expected0
      item0 d e7 = (Inr r8, e8)"
    and 9: "(case r8 of (expected, d') \<Rightarrow>
      bindM (evaluate_policy W now counted expected item0
              (py_or (dget ctx ''location'') (dget d' ''floor_no''))
              (py_or (dget ctx ''variance_reason'') (dget d' ''variance_reason''))
              (if dhas ctx ''correction_reason'' then dget ctx ''correction_reason''
               else dget d' ''correction_reason'')
              (truthy (dget_or ctx ''require_correction_reason_for_variance'' (VBool False)))) (\<lambda>gov.
            bindM (resolve_session_document W d' ctx) (\<lambda>session.
            returnM (gov, item0, session, d')))) e8 = (Inr (gov, item, session, d'), db')"
  from 1 2 3 4 5 have a: "governed_item (wrepr W) d ctx \<noteq> []" "e5 = db"
    "to_float (py_or (dget d ''counted_qty'') (VFloat 0)) = Inr counted" "0 \<le> counted" "truthy (dget d ''remark'')"
    by (auto simp: run_iff)
  have "e6 = e5" by (rule keeps_same [OF keeps_find_erp_item 6])
  moreover from 7 have "e7 = e6" by (auto simp: run_iff)
  moreover have "e8 = e7" by (rule keeps_same [OF keeps_stamp_baseline 8])
  moreover obtain expected d2 where r8: "r8 = (expected, d2)" by (cases r8)
  moreover from 9 r8 obtain loc vr cr req e9 where
    p: "evaluate_policy W now counted expected item loc vr cr req e8 = (Inr gov, e9)" "item0 = item" "d2 = d'"
    by (auto simp: run_iff)
  ultimately show thesis
    using that [OF a(1,3-5)] 8 a(2) evaluate_policy_success [OF p(1)] by simp
qed

lemma stamp_baseline_session:
  assumes "stamp_baseline W has_session sid code expected0 item d db = (Inr (q, d'), db')" and "sid \<noteq> []"
  shows "\<exists>h W'. resolve_baseline W has_session sid code db = (Inr ((q, h), W'), db') \<and>
    dget d' ''erp_qty'' = VFloat q \<and> dget d' ''baseline_hash'' = VStr h"
  using assms by (auto simp: stamp_baseline_def run_iff doc_simps)

section \<open>Properties of an insert\<close>

text \<open>(C7) Counting is idempotent: once a line has been inserted through the write service with an
  idempotency key, every later insert that repeats the session and the key is refused, whatever
  else it says and whatever its context, and the database is left exactly as it was.\<close>

theorem insert_idempotent:
  assumes "line_writer W"
    and "commit_write W now in_tx p ctx db = (Inr res, db')"
    and "operation_of (wrepr W) p = ''insert_one''" and "as_dict (p_document p) = Some d"
    and "dget d ''session_id'' = VStr s" "s \<noteq> []" and "dget d ''idempotency_key'' = VStr key" "key \<noteq> []"
    and "operation_of (wrepr W) p' = ''insert_one''" and "as_dict (p_document p') = Some d'"
    and "dget d' ''session_id'' = VStr s" and "dget d' ''idempotency_key'' = VStr key"
  shows "\<exists>e. commit_write W now' in_tx' p' ctx' db' = (Inl e, db')"
proof (rule commit_refused_unless)
  fix p1
  obtain has_session where "process_write_core W now has_session p ctx db = (Inr res, db')"
    by (rule commit_success [OF assms(2)])
  then obtain d0 e where e: "as_dict (p_document p) = Some d0" "e \<in> set (docs (wstore W) ''count_lines'' db')"
    "\<And>k. k \<notin> set WRITER_FIELDS \<Longrightarrow> dget e k = dget d0 k"
    by (rule line_writer.insert_pipeline [OF assms(1) _ assms(3)]) blast
  have "dget e ''session_id'' = VStr s" "dget e ''idempotency_key'' = VStr key"
    using e(1,3) assms(4,5,7)
    by (simp_all add: WRITER_FIELDS_def AUTHORITATIVE_FIELDS_def gap_fields_def review_reset_fields_def)
  then have "match_filter [(''session_id'', CEq (VStr s)), (''idempotency_key'', CEq (VStr key))] e"
    by (simp add: field_values_def)
  with e(2) have "filter (match_filter [(''session_id'', CEq (VStr s)), (''idempotency_key'', CEq (VStr key))])
    (docs (wstore W) ''count_lines'' db') \<noteq> []" by (auto simp: filter_empty_conv)
  moreover have "document_store (wstore W)" using assms(1) by (simp add: line_writer_def)
  ultimately have "assert_idempotency_key W (VStr s) d' db' \<noteq> (Inr (), db')"
    using assms(6,8,12) by (auto simp: assert_idempotency_key_def run_iff document_store.find_one_none_iff)
  then have "insert_invariants W profile ctx' d' db' \<noteq> (Inr x, db')" for profile x
    using document_store.insert_invariants_success [OF \<open>document_store (wstore W)\<close> refl] assms(6,11)
    by fastforce
  then show "assert_mandatory_write_invariants W p' ctx' db' \<noteq> (Inr p1, db')"
    using assms(9,10) keeps_same [OF keeps_insert_invariants]
    by (auto simp: assert_mandatory_write_invariants_def run_iff)
qed



section \<open>Instances\<close>

text \<open>
  A count, and the same line without a quantity, in the two contexts: within a transaction of
  the caller that refreshes totals and projections itself.
\<close>

definition demo_context :: doc where
  "demo_context = [(''skip_projection_sync'', VBool True), (''skip_session_totals_update'', VBool True)]"

definition demo_repair :: doc where
  "demo_repair = demo_context @
     [(''governance_mode'', VStr ''repair''), (''validation_mode'', VStr ''repair_skip'')]"

definition demo_marker :: doc where
  "demo_marker = filter (\<lambda>(k, _). k \<noteq> ''counted_qty'') demo_count"

lemma demo_requests:
  "as_dict (p_document (demo_request d)) = Some d" "operation_of (wrepr demo_writer) (demo_request d) = ''insert_one''"
proof -
  have "lower (strip ''insert_one'') = ''insert_one''" by code_simp
  then show "as_dict (p_document (demo_request d)) = Some d"
    "operation_of (wrepr demo_writer) (demo_request d) = ''insert_one''"
    by (simp_all add: demo_request_def operation_of_def demo_writer_def mem_lines_def)
qed

lemma demo_inserted:
  obtains res db' where
    "commit_write demo_writer 1 True (demo_request demo_marker) demo_context demo_counting_db = (Inr res, db')"
proof -
  let ?run = "commit_write demo_writer 1 True (demo_request demo_marker) demo_context demo_counting_db"
  have "case fst ?run of Inl _ \<Rightarrow> False | Inr _ \<Rightarrow> True" by code_simp
  with that show thesis by (cases ?run) (auto split: sum.splits)
qed

lemma insert_idempotent_witness:
  "\<exists>e db'. db' = snd (commit_write demo_writer 1 True (demo_request demo_marker) demo_context demo_counting_db) \<and>
     commit_write demo_writer 2 False (demo_request demo_marker) [] db' = (Inl e, db')"
proof -
  obtain res db' where run:
    "commit_write demo_writer 1 True (demo_request demo_marker) demo_context demo_counting_db = (Inr res, db')"
    by (rule demo_inserted)
  have f: "dget demo_marker ''session_id'' = VStr ''s1''" "dget demo_marker ''idempotency_key'' = VStr ''k1''"
    by code_simp+
  from insert_idempotent [OF demo_writer_line_writer run demo_requests(2,1) f(1) _ f(2) _ demo_requests(2,1) f] run
  show ?thesis by auto
qed



end
