(* ===== verification/LineFinalization.thy ===== *)
theory LineFinalization
  imports CountLineProperties
begin

text \<open>
  The session lifecycle and the count line writer together: when a session is finalized the
  lifecycle service calls the writer to lock its lines. The lifecycle service of this theory has
  \<open>finalize_session_count_lines\<close> of the writer as its finalizer, as the program wires them.
\<close>

definition wired :: "'db line_service \<Rightarrow> 'db lifecycle" where
  "wired W = (wlife W)\<lparr>finalizer := Some (finalize_session_count_lines W)\<rparr>"

lemma wired_fields [simp]:
  "lstore (wired W) = lstore (wlife W)" "lrepr (wired W) = lrepr (wlife W)"
  "projection (wired W) = projection (wlife W)" "finalizer (wired W) = Some (finalize_session_count_lines W)"
  by (simp_all add: wired_def)

section \<open>Locking the lines\<close>

text \<open>A line whose two status fields are strings or absent.\<close>

fun text_or_absent :: "val \<Rightarrow> bool" where
  "text_or_absent (VStr _) = True"
| "text_or_absent VNone = True"
| "text_or_absent _ = False"

definition plain_status :: "doc \<Rightarrow> bool" where
  "plain_status d \<longleftrightarrow> text_or_absent (dget d ''status'') \<and> text_or_absent (dget d ''approval_status'')"

lemma text_or_absent_str:
  "text_or_absent v \<Longrightarrow> s \<noteq> [] \<Longrightarrow> py_str rp (py_or v (VStr [])) = s \<longleftrightarrow> v = VStr s"
  by (cases v) (auto simp: py_or_def)

abbreviation of_session :: "string \<Rightarrow> doc \<Rightarrow> bool" where
  "of_session sid \<equiv> match_filter [(''session_id'', CEq (VStr sid))]"

lemma finalization_update:
  "distinct (map fst (finalization_fields actor t note))"
  "map_of (finalization_fields actor t note) ''status'' = Some (VStr ''locked'')"
  "''session_id'' \<notin> fst ` set (finalization_fields actor t note)"
  by (cases "truthy note"; simp add: finalization_fields_def)+

lemma plain_filter:
  assumes "plain_status d" and "of_session sid d"
  shows "match_filter (finalization_filter sid) d \<longleftrightarrow>
     dget d ''status'' \<notin> {VStr ''locked'', VStr ''SUPERSEDED'', VStr ''superseded''} \<and>
     dget d ''approval_status'' \<notin> {VStr ''REJECTED'', VStr ''NEEDS_REVIEW''}"
  using assms
  by (cases "dget d ''status''"; cases "dget d ''approval_status''")
     (auto simp: plain_status_def finalization_filter_def field_values_def py_in_def)

text \<open>A line that neither blocks nor is locked or superseded is one the finalizer locks.\<close>

definition settled :: "doc \<Rightarrow> bool" where
  "settled d \<longleftrightarrow> is_count_line_locked d \<or> is_superseded_count_line d"

lemma not_selected_settled:
  assumes "plain_status d" "of_session sid d" "\<not> is_blocking_finalization d"
    and "\<not> match_filter (finalization_filter sid) d"
  shows "settled d"
proof -
  have ne: "d \<noteq> []" using assms(2) by (auto simp: field_values_def dget_def)
  from assms plain_filter [OF assms(1,2)] consider
    "dget d ''status'' \<in> {VStr ''locked'', VStr ''SUPERSEDED'', VStr ''superseded''}"
    | "dget d ''approval_status'' \<in> {VStr ''REJECTED'', VStr ''NEEDS_REVIEW''}" by blast
  then show ?thesis
  proof cases
    case 1
    have "normalize_count_line_status (VStr ''SUPERSEDED'') = ''superseded''" by code_simp
    with 1 ne show ?thesis
      by (auto simp: settled_def is_count_line_locked_def is_superseded_count_line_def)
  next
    case 2
    with assms(3) show ?thesis
      by (auto simp: settled_def is_blocking_finalization_def split: if_splits)
  qed
qed

lemma locked_settled:
  assumes "of_session sid d"
  shows "settled (snd (apply_set (finalization_fields actor t note) d))"
    and "of_session sid (snd (apply_set (finalization_fields actor t note) d))"
proof -
  let ?d = "snd (apply_set (finalization_fields actor t note) d)"
  have "dget ?d ''session_id'' = dget d ''session_id''"
    by (rule apply_set_other) (rule finalization_update(3))
  with assms show s: "of_session sid ?d" by (simp add: field_values_def)
  have "dget ?d ''status'' = VStr ''locked''"
    by (rule apply_set_get_string [OF finalization_update(1,2)])
  moreover have "?d \<noteq> []" using s by (auto simp: field_values_def dget_def)
  ultimately show "settled ?d" by (simp add: settled_def is_count_line_locked_def)
qed

context document_store
begin

lemma finalize_lines_docs:
  assumes "wstore W = S" and "finalize_session_count_lines W sid actor t note db = (Inr n, db')"
  shows "docs S ''count_lines'' db' = map (\<lambda>d. if match_filter (finalization_filter sid) d
    then snd (apply_set (finalization_fields actor t note) d) else d) (docs S ''count_lines'' db)"
proof -
  let ?u = "[(''$set'', VDict (finalization_fields actor t note))]"
  from assms(2) obtain m where "update_many S ''count_lines'' (finalization_filter sid) ?u db = (Inr m, db')"
    by (auto simp: finalize_session_count_lines_def assms(1) run_iff)
  from update_many_law [OF this] show ?thesis by (simp add: apply_set_update)
qed

lemma keeps_finalize_lines:
  assumes "wstore W = S" and "k \<noteq> ''count_lines''"
  shows "keeps (\<lambda>db. P (docs S k db)) (finalize_session_count_lines W sid actor t note)"
  using keeps_update_many_other [OF assms(2)] unfolding finalize_session_count_lines_def assms(1)
  by (auto intro!: keeps_intros split: prod.splits)

end

section \<open>The lifecycle with the writer as its finalizer\<close>

locale wired_services = line_writer W for W :: "'db line_service" +
  assumes lifecycle: "lifecycle_service (wlife W)"
begin

lemma wired_lifecycle: "lifecycle_service (wired W)"
  using lifecycle keeps_finalize_lines [OF refl, of "''sessions''"]
  by (auto simp: lifecycle_service_def lifecycle_service_axioms_def life_store)

end

sublocale wired_services \<subseteq> wired: lifecycle_service "wired W"
  by (rule wired_lifecycle)

context wired_services
begin

lemma finalized_lines_settled:
  assumes "finalize_session_canonical_core (wired W) now sid actor note db = (Inr res, db')"
    and "length (filter (of_session sid) (count_lines db)) \<le> 50000"
    and "\<forall>d \<in> set (count_lines db). plain_status d"
  shows "\<forall>d \<in> set (count_lines db'). of_session sid d \<longrightarrow> settled d"
  using assms(1)
proof (cases rule: wired.finalize_steps)
  case (1 session totals d1 d2)
  let ?lines = "filter (of_session sid) (count_lines db)"
  have all: "to_list 50000 ?lines = ?lines" using assms(2) by (simp add: to_list_take)
  have nb: "\<not> is_blocking_finalization d" if "d \<in> set (count_lines db)" "of_session sid d" for d
    using 1(5) that by (auto simp: life_store all filter_empty_conv)
  note ns = not_selected_settled [where sid = sid]
  have run: "run_finalizer (wired W) ?lines sid actor now note db = (Inr (), d1)"
    and same: "count_lines db' = count_lines d1"
    using 1(11,12) by (simp_all add: life_store all)
  show ?thesis
  proof (cases "filter (line_to_finalize (lrepr (wired W))) ?lines = []")
    case True
    with run have "d1 = db" by (simp add: run_finalizer_def run_iff)
    moreover have "settled d" if d: "d \<in> set (count_lines db)" "of_session sid d" for d
    proof (rule ns)
      from True d have "\<not> line_to_finalize (lrepr (wired W)) d" by (auto simp: filter_empty_conv)
      with assms(3) d show "\<not> match_filter (finalization_filter sid) d"
        by (simp add: plain_filter line_to_finalize_def plain_status_def text_or_absent_str)
    qed (use assms(3) d nb in auto)
    ultimately show ?thesis using same by simp
  next
    case False
    with run obtain n where "finalize_session_count_lines W sid actor now note db = (Inr n, d1)"
      by (auto simp: run_finalizer_def run_iff)
    from finalize_lines_docs [OF refl this] same have "count_lines db' = map (\<lambda>d. if match_filter (finalization_filter sid) d
      then snd (apply_set (finalization_fields actor now note) d) else d) (count_lines db)" by simp
    moreover have "settled (snd (apply_set (finalization_fields actor now note) d))"
      if "match_filter (finalization_filter sid) d" for d
      using that locked_settled(1) [of sid d] by (simp add: finalization_filter_def)
    ultimately show ?thesis using ns assms(3) nb by auto
  qed
qed

end

text \<open>(C5) Finalizing a session seals its counts: after a successful finalization through the two
  services every count line of the session is locked or superseded (for up to 50000 lines of the
  session, as many as the service loads, whose status fields hold strings).\<close>

theorem finalized_session_lines_sealed:
  assumes "wired_services W"
    and "finalize_session_canonical (wired W) now in_tx sid actor note db = (Inr res, db')"
    and "length (filter (of_session sid) (docs (wstore W) ''count_lines'' db)) \<le> 50000"
    and "\<forall>d \<in> set (docs (wstore W) ''count_lines'' db). plain_status d"
  shows "\<forall>d \<in> set (docs (wstore W) ''count_lines'' db'). of_session sid d \<longrightarrow>
    is_count_line_locked d \<or> is_superseded_count_line d"
proof -
  from assms(2) have "finalize_session_canonical_core (wired W) now sid actor note db = (Inr res, db')"
    by (simp add: finalize_session_canonical_def
        lifecycle_service.in_transaction_success [OF wired_services.wired_lifecycle [OF assms(1)]])
  from wired_services.finalized_lines_settled [OF assms(1) this assms(3,4)] show ?thesis
    by (simp add: settled_def)
qed

interpretation mem_wired: wired_services "mem_lines idgen oid clock f dg" for idgen oid clock f dg
  using mem_lines.line_writer_axioms mem_lifecycle.lifecycle_service_axioms
  by (auto simp: wired_services_def wired_services_axioms_def mem_lines_def)

definition demo_review_db :: memdb where
  "demo_review_db = \<lparr>colls = (\<lambda>c. if c = ''sessions'' then [demo_session ''REVIEW'']
     else if c = ''count_lines'' then
       [[(''id'', VStr ''a''), (''session_id'', VStr ''s1''), (''status'', VStr ''approved'')]] else []), next_id = 0\<rparr>"

lemma finalized_session_lines_sealed_witness:
  "\<exists>res db'. finalize_session_canonical (wired demo_writer) 1 False ''s1'' ''sup'' VNone demo_review_db = (Inr res, db') \<and>
     (\<forall>d \<in> set (docs (wstore demo_writer) ''count_lines'' db'). of_session ''s1'' d \<longrightarrow>
        is_count_line_locked d \<or> is_superseded_count_line d)"
proof -
  let ?run = "finalize_session_canonical (wired demo_writer) 1 False ''s1'' ''sup'' VNone"
  have "case fst (?run demo_review_db) of Inl _ \<Rightarrow> False | Inr _ \<Rightarrow> True" by code_simp
  then obtain res db' where run: "?run demo_review_db = (Inr res, db')"
    by (cases "?run demo_review_db") (auto split: sum.splits)
  have "wired_services demo_writer" unfolding demo_writer_def by (rule mem_wired.wired_services_axioms)
  moreover have "docs (wstore demo_writer) ''count_lines'' demo_review_db =
    [[(''id'', VStr ''a''), (''session_id'', VStr ''s1''), (''status'', VStr ''approved'')]]"
    by (simp add: demo_writer_def mem_lines_def demo_review_db_def)
  ultimately have "\<forall>d \<in> set (docs (wstore demo_writer) ''count_lines'' db'). of_session ''s1'' d \<longrightarrow>
        is_count_line_locked d \<or> is_superseded_count_line d"
    by (intro finalized_session_lines_sealed [OF _ run]) (simp_all add: plain_status_def dget_def)
  with run show ?thesis by blast
qed

end
