(* ===== verification/UpdatePreview.thy ===== *)
theory UpdatePreview
  imports CountLineGovernance
begin

text \<open>
  The preview that the count line writer makes of an update
  (\<open>_apply_update_document_to_merged\<close>) against the update the document store performs.
\<close>

section \<open>The preview of an update\<close>

text \<open>Two values that the store does not tell apart.\<close>

definition same_value :: "val \<Rightarrow> val \<Rightarrow> bool" where
  "same_value v w \<longleftrightarrow> v = w \<or> py_eq v w"

lemma preview_set:
  "distinct (map fst e) \<Longrightarrow> same_value (dget (snd (apply_set e d)) k) (dget (dmerge d e) k)"
proof (induction e arbitrary: d)
  case (Cons x e)
  obtain j v where x: "x = (j, v)" by (cases x)
  with Cons.prems have e: "distinct (map fst e)" "j \<notin> fst ` set e" by auto
  show ?case
  proof (cases "k = j")
    case True
    with e x show ?thesis
      by (simp only: x apply_set_Cons dmerge.simps) (auto simp: apply_set_other doc_simps same_value_def)
  next
    case False
    have "dget (dmerge (dput j v d) e) k = dget (dmerge d e) k"
      using False by (simp add: dget_def map_of_dmerge map_of_dput map_add_def split: option.splits)
    with Cons.IH [OF e(1)] False x show ?thesis
      by (simp only: x apply_set_Cons dmerge.simps) (metis (full_types))
  qed
qed (simp add: run_simps same_value_def)


lemma inc_value:
  assumes "num_of v \<noteq> None"
    and "py_add (case dget_or d k (VInt 0) of VNone \<Rightarrow> VInt 0 | w \<Rightarrow> w) v = Some w"
  shows "w = (case py_add (dget d k) v of Some w \<Rightarrow> w | None \<Rightarrow> v) \<or> dget d k = VNone \<and> w \<noteq> VNone \<and>
    py_eq w (case py_add (dget d k) v of Some w \<Rightarrow> w | None \<Rightarrow> v)"
proof (cases "dget d k = VNone")
  case True
  then have "(case dget_or d k (VInt 0) of VNone \<Rightarrow> VInt 0 | w \<Rightarrow> w) = VInt 0"
    by (auto simp: dget_def dget_or_def split: option.splits)
  with assms True show ?thesis by (cases v) auto
next
  case False
  then have "dget_or d k (VInt 0) = dget d k" by (auto simp: dget_def dget_or_def split: option.splits)
  with False have "(case dget_or d k (VInt 0) of VNone \<Rightarrow> VInt 0 | w \<Rightarrow> w) = dget d k" by (cases "dget d k") auto
  with assms show ?thesis by simp
qed

lemma merge_inc_other: "k \<notin> fst ` set e \<Longrightarrow> dget (merge_inc e m) k = dget m k"
  by (induction e m rule: merge_inc.induct) (auto simp: doc_simps split: option.splits)

lemma preview_inc:
  assumes "apply_inc e d = (Inr b, d')" "distinct (map fst e)" "\<forall>(k, v) \<in> set e. num_of v \<noteq> None"
    and "\<forall>j \<in> fst ` set e. dget d j = dget m j" and "k \<in> fst ` set e"
  shows "same_value (dget d' k) (dget (merge_inc e m) k)"
  using assms
proof (induction e arbitrary: d m b)
  case (Cons x e)
  obtain j v where x: "x = (j, v)" by (cases x)
  with Cons.prems have e: "distinct (map fst e)" "j \<notin> fst ` set e" "num_of v \<noteq> None" "dget d j = dget m j" by auto
  from Cons.prems(1) [unfolded x] obtain w b' where
    w: "py_add (case dget_or d j (VInt 0) of VNone \<Rightarrow> VInt 0 | w \<Rightarrow> w) v = Some w"
    and r: "apply_inc e (if py_eq (dget d j) w then d else dput j w d) = (Inr b', d')" by (rule apply_inc_Cons)
  let ?n = "case py_add (dget m j) v of Some w \<Rightarrow> w | None \<Rightarrow> v"
  have m: "merge_inc (x # e) m = merge_inc e (dput j ?n m)" using e(3) x by (auto split: option.splits)
  show ?case
  proof (cases "k = j")
    case True
    have "dget d' j = dget (if py_eq (dget d j) w then d else dput j w d) j" by (rule apply_inc_other [OF r e(2)])
    moreover have "dget (merge_inc (x # e) m) j = ?n" using merge_inc_other [OF e(2)] m by (simp add: doc_simps)
    moreover have "w = ?n \<or> dget d j = VNone \<and> w \<noteq> VNone \<and> py_eq w ?n" using inc_value [OF e(3) w] e(4) by simp
    ultimately show ?thesis using True by (auto simp: doc_simps same_value_def split: option.splits if_splits)
  next
    case False
    with Cons.prems e(2) x have "k \<in> fst ` set e"
      "\<forall>i \<in> fst ` set e. dget (if py_eq (dget d j) w then d else dput j w d) i = dget (dput j ?n m) i"
      by (auto simp: doc_simps)
    with Cons.IH [OF r e(1)] Cons.prems(3) m show ?thesis by simp
  qed
qed simp


text \<open>(C35) The preview by which the guard judges an update shows what the update will do: for an
  update of \<open>$set\<close> and \<open>$inc\<close> that the store accepts (numbers are added, no field twice), the
  store leaves in every field a value equal to the previewed one.\<close>

theorem update_preview_agrees:
  assumes "apply_update u d = (Inr m, d')"
    and "u = [(''$set'', VDict e), (''$inc'', VDict i)]"
    and "distinct (map fst e)" "distinct (map fst i)" "fst ` set e \<inter> fst ` set i = {}"
    and "\<forall>(k, v) \<in> set i. num_of v \<noteq> None"
  shows "same_value (dget d' k) (dget (apply_update_document_to_merged u d) k)"
proof -
  have u: "dget u ''$set'' = VDict e" "dget u ''$inc'' = VDict i" "dget u ''$push'' = VNone" "dget u ''$unset'' = VNone"
    "dget u ''$addToSet'' = VNone" "dget u ''$pull'' = VNone" "list_ex (\<lambda>(k, _). starts_with k ''$'') u"
    by (simp_all add: assms(2) dget_def)
  let ?s = "snd (apply_set e d)"
  from assms(1) u obtain b where i: "apply_inc i ?s = (Inr b, d')"
    using apply_set_total [of e d] by (auto simp: apply_update_def run_iff dict_or_empty_def)
  have p: "apply_update_document_to_merged u d = merge_inc i (dmerge d e)"
    by (simp add: apply_update_document_to_merged_def u Let_def dict_or_empty_def)
  show ?thesis
  proof (cases "k \<in> fst ` set i")
    case True
    have "\<forall>j \<in> fst ` set i. dget ?s j = dget (dmerge d e) j"
    proof
      fix j assume "j \<in> fst ` set i"
      with assms(5) have "j \<notin> fst ` set e" by blast
      then show "dget ?s j = dget (dmerge d e) j" by (simp add: apply_set_other dget_dmerge_other)
    qed
    from preview_inc [OF i assms(4,6) this True] p show ?thesis by simp
  next
    case False
    with apply_inc_other [OF i] merge_inc_other [of k i] preview_set [OF assms(3)] p show ?thesis by simp
  qed
qed

lemma update_preview_agrees_witness:
  "same_value (dget (snd (apply_update [(''$set'', VDict [(''a'', VInt 2)]), (''$inc'', VDict [(''n'', VInt 3)])] [(''n'', VInt 4)])) ''n'')
     (VInt 7)"
proof -
  let ?u = "[(''$set'', VDict [(''a'', VInt 2)]), (''$inc'', VDict [(''n'', VInt 3)])]"
  have r: "apply_update ?u [(''n'', VInt 4)] = (Inr True, [(''n'', VInt 7), (''a'', VInt 2)])" by code_simp
  moreover have "dget (apply_update_document_to_merged ?u [(''n'', VInt 4)]) ''n'' = VInt 7" by code_simp
  ultimately show ?thesis using update_preview_agrees [OF r refl, of "''n''"] by simp
qed

end
