(* ===== verification/PinAuth.thy ===== *)
theory PinAuth
  imports Governance
begin

text \<open>
  \<open>backend/services/pin_auth_service.py\<close>: PIN login with lockout, and the single-use override
  tokens that authorise a privileged action.

  Password hashing (passlib) and HMAC-SHA256 are parameters of the service record, functions of
  what the program passes to them; the salt of a new hash and the random part of a token are
  arguments of the methods that draw them. Times are in microseconds, as everywhere. A method
  that catches every exception and answers false is wrapped in \<open>or_false\<close>.
\<close>

section \<open>The service\<close>

record 'db pin_service =
  pin_store :: "'db store"
  hash_pin :: "string \<Rightarrow> string \<Rightarrow> string"
  verify_hash :: "string \<Rightarrow> val \<Rightarrow> bool res"
  token_secret :: "string option"
  hmac_hex :: "string \<Rightarrow> string \<Rightarrow> string"

definition max_attempts :: int where
  "max_attempts = 3"

definition lockout_micros :: int where
  "lockout_micros = 15 * 60 * 1000000"

definition OVERRIDE_REQUIRED_ACTIONS :: "string list" where
  "OVERRIDE_REQUIRED_ACTIONS =
     [''approve'', ''reject'', ''force_close'', ''variance_override'', ''recount_approve'', ''inventory_adjust'']"

definition OVERRIDE_TOKEN_TTL_SECONDS :: int where
  "OVERRIDE_TOKEN_TTL_SECONDS = 300"

definition or_false :: "('db, bool) comp \<Rightarrow> ('db, bool) comp" where
  "or_false m = (\<lambda>db. case m db of (Inl _, db') \<Rightarrow> (Inr False, db') | (Inr b, db') \<Rightarrow> (Inr b, db'))"

abbreviation PINS :: string where "PINS \<equiv> ''pin_authentication''"

abbreviation TOKENS :: string where "TOKENS \<equiv> ''supervisor_override_tokens''"

section \<open>PINs\<close>

text \<open>\<open>str.isdigit\<close> on Latin-1: the decimal digits and the superscripts one, two and three.\<close>

definition is_digit_char :: "char \<Rightarrow> bool" where
  "is_digit_char c = (let n = of_char c :: nat in 48 \<le> n \<and> n \<le> 57 \<or> n \<in> {178, 179, 185})"

definition validate_pin_format :: "string \<Rightarrow> bool" where
  "validate_pin_format pin = (length pin \<ge> 4 \<and> length pin \<le> 6 \<and> list_all is_digit_char pin)"

definition user_filter :: "string \<Rightarrow> query" where
  "user_filter uid = [(''user_id'', CEq (VStr uid))]"

definition set_pin :: "'db pin_service \<Rightarrow> int \<Rightarrow> string \<Rightarrow> string \<Rightarrow> string \<Rightarrow> ('db, bool) comp" where
  "set_pin P now salt uid pin =
     or_false (
       bindM (raise_if (\<not> validate_pin_format pin) (ValueError ''PIN must be 4-6 digits'')) (\<lambda>_.
       bindM (upsert_one (pin_store P) PINS (user_filter uid)
         [(''$set'', VDict [(''pin_hash'', VStr (hash_pin P salt pin)), (''created_at'', naive now),
            (''enabled'', VBool True), (''failed_attempts'', VInt 0)])]) (\<lambda>_.
       returnM True)))"

text \<open>\<open>now < v\<close> for a stored value.\<close>

definition before_stored :: "int \<Rightarrow> val \<Rightarrow> bool res" where
  "before_stored now v =
     (case v of
        VDate t None \<Rightarrow> Inr (now < t)
      | _ \<Rightarrow> Inl (TypeError ''can't compare datetime with the stored value''))"

definition unlock_update :: doc where
  "unlock_update = [(''$set'', VDict [(''locked_until'', VNone), (''failed_attempts'', VInt 0)])]"

definition success_update :: "int \<Rightarrow> doc" where
  "success_update now = [(''$set'', VDict [(''last_used'', naive now), (''failed_attempts'', VInt 0)])]"

definition failure_update :: "int \<Rightarrow> val \<Rightarrow> doc" where
  "failure_update now failed =
     [(''$set'', VDict ([(''failed_attempts'', failed)] @
        (if (case num_of failed of None \<Rightarrow> False | Some n \<Rightarrow> n \<ge> of_int max_attempts)
         then [(''locked_until'', naive (now + lockout_micros))] else [])))]"

text \<open>True when the account is still locked; an expired lock is cleared in the database.\<close>

definition pin_locked :: "'db pin_service \<Rightarrow> int \<Rightarrow> string \<Rightarrow> doc \<Rightarrow> ('db, bool) comp" where
  "pin_locked P now uid r =
     (if \<not> truthy (dget r ''locked_until'') then returnM False
      else bindM (liftM (before_stored now (dget r ''locked_until''))) (\<lambda>locked.
           if locked then returnM True
           else bindM (update_one (pin_store P) PINS (user_filter uid) unlock_update) (\<lambda>_.
                returnM False)))"

definition check_pin :: "'db pin_service \<Rightarrow> int \<Rightarrow> string \<Rightarrow> string \<Rightarrow> doc \<Rightarrow> ('db, bool) comp" where
  "check_pin P now uid pin r =
     bindM (liftM (verify_hash P pin (dget_or r ''pin_hash'' (VStr [])))) (\<lambda>ok.
     if ok
     then bindM (update_one (pin_store P) PINS (user_filter uid) (success_update now)) (\<lambda>_. returnM True)
     else (case py_add (dget_or r ''failed_attempts'' (VInt 0)) (VInt 1) of
             None \<Rightarrow> raiseM (TypeError ''unsupported operand for +'')
           | Some failed \<Rightarrow>
               bindM (update_one (pin_store P) PINS (user_filter uid) (failure_update now failed)) (\<lambda>_.
               returnM False)))"

definition verify_pin :: "'db pin_service \<Rightarrow> int \<Rightarrow> string \<Rightarrow> string \<Rightarrow> ('db, bool) comp" where
  "verify_pin P now uid pin =
     or_false (
       bindM (find_one (pin_store P) PINS (user_filter uid)) (\<lambda>found.
       (case found of
          None \<Rightarrow> returnM False
        | Some r \<Rightarrow>
            (if r = [] \<or> \<not> truthy (dget r ''enabled'') then returnM False
             else bindM (pin_locked P now uid r) (\<lambda>locked.
                  if locked then returnM False else check_pin P now uid pin r)))))"

definition disable_pin :: "'db pin_service \<Rightarrow> string \<Rightarrow> ('db, bool) comp" where
  "disable_pin P uid =
     or_false (
       bindM (update_one (pin_store P) PINS (user_filter uid) [(''$set'', VDict [(''enabled'', VBool False)])]) (\<lambda>(_, m).
       returnM (m > 0)))"

definition pin_status_doc :: "doc \<Rightarrow> bool \<Rightarrow> doc" where
  "pin_status_doc r locked =
     [(''enabled'', dget_or r ''enabled'' (VBool False)), (''status'', VStr (if locked then ''locked'' else ''active'')),
      (''failed_attempts'', dget_or r ''failed_attempts'' (VInt 0)), (''last_used'', dget r ''last_used''),
      (''locked_until'', if locked then dget r ''locked_until'' else VNone)]"

definition get_pin_status :: "'db pin_service \<Rightarrow> int \<Rightarrow> string \<Rightarrow> ('db, doc) comp" where
  "get_pin_status P now uid =
     bindM (find_one (pin_store P) PINS (user_filter uid)) (\<lambda>found.
     (case found of
        None \<Rightarrow> returnM [(''enabled'', VBool False), (''status'', VStr ''not_set'')]
      | Some r \<Rightarrow>
          (if r = [] then returnM [(''enabled'', VBool False), (''status'', VStr ''not_set'')]
           else if \<not> truthy (dget r ''locked_until'') then returnM (pin_status_doc r False)
           else (case before_stored now (dget r ''locked_until'') of
                   Inl _ \<Rightarrow> returnM [(''enabled'', VBool False), (''status'', VStr ''error'')]
                 | Inr locked \<Rightarrow> returnM (pin_status_doc r locked)))))"

section \<open>Override tokens\<close>

definition sign_token :: "'db pin_service \<Rightarrow> string \<Rightarrow> string res" where
  "sign_token P payload =
     (case token_secret P of
        Some (c # s) \<Rightarrow> Inr (hmac_hex P (c # s) payload)
      | _ \<Rightarrow> Inl (PyRuntimeError ''OVERRIDE_TOKEN_SECRET environment variable is not set.''))"

definition signature_payload :: "string \<Rightarrow> string \<Rightarrow> string \<Rightarrow> string" where
  "signature_payload raw uid action = raw @ '':'' @ uid @ '':'' @ action"

definition token_doc :: "int \<Rightarrow> string \<Rightarrow> string \<Rightarrow> string \<Rightarrow> int \<Rightarrow> doc" where
  "token_doc now token uid action expires_at =
     [(''token'', VStr token), (''user_id'', VStr uid), (''action'', VStr action),
      (''expires_at'', naive expires_at), (''used'', VBool False), (''created_at'', naive now)]"

definition generate_override_token ::
  "'db pin_service \<Rightarrow> int \<Rightarrow> string \<Rightarrow> string \<Rightarrow> string \<Rightarrow> string \<Rightarrow> int \<Rightarrow> ('db, string \<times> int) comp" where
  "generate_override_token P now raw uid pin action ttl_seconds =
     bindM (raise_if (action \<notin> set OVERRIDE_REQUIRED_ACTIONS)
       (ValueError (''Unknown privileged action: '' @ action))) (\<lambda>_.
     bindM (verify_pin P now uid pin) (\<lambda>pin_ok.
     bindM (raise_if (\<not> pin_ok) (PermissionError ''PIN verification failed'')) (\<lambda>_.
     let expires_at = now + ttl_seconds * 1000000
     in bindM (liftM (sign_token P (signature_payload raw uid action))) (\<lambda>signature.
        let token = raw @ ''.'' @ signature
        in bindM (insert_one (pin_store P) TOKENS (token_doc now token uid action expires_at)) (\<lambda>_.
           returnM (token, expires_at))))))"

text \<open>\<open>token.rsplit(".", 1)\<close>, \<open>None\<close> when there is no dot.\<close>

definition rsplit_dot :: "string \<Rightarrow> (string \<times> string) option" where
  "rsplit_dot s =
     (if CHR ''.'' \<notin> set s then None
      else Some (rev (tl (dropWhile (\<lambda>c. c \<noteq> CHR ''.'') (rev s))),
                 rev (takeWhile (\<lambda>c. c \<noteq> CHR ''.'') (rev s))))"

text \<open>\<open>hmac.compare_digest\<close>: strings with characters outside ASCII are refused.\<close>

definition compare_digest :: "string \<Rightarrow> string \<Rightarrow> bool res" where
  "compare_digest a b =
     (if list_ex (\<lambda>c. (of_char c :: nat) \<ge> 128) (a @ b)
      then Inl (TypeError ''comparing strings with non-ASCII characters is not supported'')
      else Inr (a = b))"

definition consume_filter :: "int \<Rightarrow> string \<Rightarrow> string \<Rightarrow> string \<Rightarrow> query" where
  "consume_filter now token uid action =
     [(''token'', CEq (VStr token)), (''user_id'', CEq (VStr uid)), (''action'', CEq (VStr action)),
      (''used'', CEq (VBool False)), (''expires_at'', CCmp Gt (naive now))]"

definition consume_update :: "int \<Rightarrow> doc" where
  "consume_update now = [(''$set'', VDict [(''used'', VBool True), (''used_at'', naive now)])]"

definition token_refusal :: "int \<Rightarrow> doc option \<Rightarrow> py_error" where
  "token_refusal now existing =
     (case existing of
        None \<Rightarrow> PermissionError ''Override token not found''
      | Some e \<Rightarrow>
          (if e = [] then PermissionError ''Override token not found''
           else if truthy (dget e ''used'') then PermissionError ''Override token has already been used''
           else if truthy (dget e ''expires_at'') then
             (case before_stored now (dget e ''expires_at'') of
                Inl err \<Rightarrow> err
              | Inr False \<Rightarrow> PermissionError ''Override token has expired''
              | Inr True \<Rightarrow> PermissionError ''Override token is invalid for this user or action'')
           else PermissionError ''Override token is invalid for this user or action''))"

definition check_signature :: "'db pin_service \<Rightarrow> string \<Rightarrow> string \<Rightarrow> string \<Rightarrow> unit res" where
  "check_signature P token uid action =
     (if token = [] then Inl (PermissionError ''Override token is required for privileged action'')
      else (case rsplit_dot token of
              None \<Rightarrow> Inl (PermissionError ''Malformed override token'')
            | Some (raw, provided) \<Rightarrow>
                bindR (sign_token P (signature_payload raw uid action)) (\<lambda>expected.
                bindR (compare_digest provided expected) (\<lambda>same.
                if same then Inr () else Inl (PermissionError ''Override token signature invalid'')))))"

definition validate_override_token ::
  "'db pin_service \<Rightarrow> int \<Rightarrow> string \<Rightarrow> string \<Rightarrow> string \<Rightarrow> ('db, bool) comp" where
  "validate_override_token P now token uid action =
     bindM (liftM (check_signature P token uid action)) (\<lambda>_.
     bindM (update_one (pin_store P) TOKENS (consume_filter now token uid action) (consume_update now)) (\<lambda>(_, modified).
     if modified = 0
     then bindM (find_one (pin_store P) TOKENS [(''token'', CEq (VStr token))]) (\<lambda>existing.
          raiseM (token_refusal now existing))
     else returnM True))"

section \<open>Facts\<close>

lemma or_false_run:
  "m db = (Inr b, db') \<Longrightarrow> or_false m db = (Inr b, db')"
  "m db = (Inl e, db') \<Longrightarrow> or_false m db = (Inr False, db')"
  by (simp_all add: or_false_def)

lemma keeps_or_false [keeps_intros]: "keeps Q m \<Longrightarrow> keeps Q (or_false m)"
  by (auto simp: keeps_def or_false_def split: prod.splits sum.splits)

lemma match_user_filter:
  "match_filter (user_filter uid) r \<longleftrightarrow> list_ex (\<lambda>v. norm_value v = VStr uid) (field_values r ''user_id'')"
  by (simp add: user_filter_def)

lemma user_filter_kept:
  "''user_id'' \<notin> fst ` set e \<Longrightarrow>
   match_filter (user_filter uid) (snd (apply_set e r)) = match_filter (user_filter uid) r"
  unfolding match_user_filter by (subst field_values_cong [of _ _ r]) (simp_all add: apply_set_other)

lemma rsplit_dot_append: "CHR ''.'' \<notin> set b \<Longrightarrow> rsplit_dot (a @ ''.'' @ b) = Some (a, b)"
  by (simp add: rsplit_dot_def takeWhile_append dropWhile_append)

text \<open>A value equal to true is a scalar, and not equal to false.\<close>

lemma eq_true_not_false: "py_eq v (VBool True) \<Longrightarrow> \<not> list_ex (\<lambda>w. match_condition w (CEq (VBool False))) (case v of VList xs \<Rightarrow> xs | w \<Rightarrow> [w])"
  by (cases v) (auto split: option.splits)

lemma eq_false_not_true: "list_ex (\<lambda>w. match_condition w (CEq (VBool False))) (case v of VList xs \<Rightarrow> xs | w \<Rightarrow> [w]) \<Longrightarrow> \<not> py_eq v (VBool True)"
  using eq_true_not_false by blast

lemma consumed_token:
  assumes "match_filter (consume_filter now token uid action) d"
  shows "\<exists>d'. apply_update (consume_update now) d = (Inr True, d') \<and> d' = snd (apply_set [(''used'', VBool True), (''used_at'', naive now)] d)"
    and "\<not> match_filter (consume_filter now' token' uid' action') (snd (apply_set [(''used'', VBool True), (''used_at'', naive t)] d))"
proof -
  from assms have n: "\<not> py_eq (dget d ''used'') (VBool True)"
    by (intro eq_false_not_true) (simp add: consume_filter_def field_values_def)
  then show "\<exists>d'. apply_update (consume_update now) d = (Inr True, d') \<and> d' = snd (apply_set [(''used'', VBool True), (''used_at'', naive now)] d)"
    by (auto simp: apply_update_def consume_update_def run_simps dget_def dict_or_empty_def dhas_def)
  have "py_eq (dget (snd (apply_set [(''used'', VBool True), (''used_at'', naive t)] d)) ''used'') (VBool True)"
    by (rule apply_set_get) simp_all
  from eq_true_not_false [OF this]
  show "\<not> match_filter (consume_filter now' token' uid' action') (snd (apply_set [(''used'', VBool True), (''used_at'', naive t)] d))"
    by (simp add: consume_filter_def field_values_def)
qed

context document_store
begin

lemma validate_success:
  assumes "pin_store P = S" and "validate_override_token P now token uid action db = (Inr b, db')"
  obtains d ds where "b" "check_signature P token uid action = Inr ()"
    "filter (match_filter (consume_filter now token uid action)) (docs S TOKENS db) = d # ds"
    "docs S TOKENS db' = update_first (match_filter (consume_filter now token uid action))
       (\<lambda>_. snd (apply_set [(''used'', VBool True), (''used_at'', naive now)] d)) (docs S TOKENS db)"
    "\<And>k. k \<noteq> TOKENS \<Longrightarrow> docs S k db' = docs S k db"
proof -
  from assms obtain n m where sig: "check_signature P token uid action = Inr ()" "b" "m \<noteq> 0" and
    run: "update_one S TOKENS (consume_filter now token uid action) (consume_update now) db = (Inr (n, m), db')"
    by (auto simp: validate_override_token_def run_iff split: if_splits)
  obtain d ds d' where d: "filter (match_filter (consume_filter now token uid action)) (docs S TOKENS db) = d # ds"
    "apply_update (consume_update now) d = (Inr True, d')"
    "docs S TOKENS db' = update_first (match_filter (consume_filter now token uid action)) (\<lambda>_. d') (docs S TOKENS db)"
    by (rule update_one_modified [OF run sig(3)])
  from filter_hd_sat [OF d(1)] consumed_token(1) [of now token uid action d] d(2)
  have "d' = snd (apply_set [(''used'', VBool True), (''used_at'', naive now)] d)" by auto
  with that sig d(1,3) update_one_frame [OF run] show thesis by blast
qed

lemma validate_refused:
  assumes "pin_store P = S" and "filter (match_filter (consume_filter now token uid action)) (docs S TOKENS db) = []"
  shows "\<exists>e db'. validate_override_token P now token uid action db = (Inl e, db') \<and> (\<forall>c. docs S c db' = docs S c db)"
proof (cases "check_signature P token uid action")
  case (Inl e)
  then show ?thesis by (simp add: validate_override_token_def run_simps)
next
  case (Inr u)
  obtain r db' where run: "update_one S TOKENS (consume_filter now token uid action) (consume_update now) db = (r, db')"
    by (cases "update_one S TOKENS (consume_filter now token uid action) (consume_update now) db")
  note none = update_one_none [OF run assms(2)]
  then have "docs S c db' = docs S c db" for c using update_one_frame [OF run] by (cases "c = TOKENS") simp_all
  moreover from none have "r = Inr (0, 0)" by simp
  ultimately have "r = Inr (0, 0)" "\<forall>c. docs S c db' = docs S c db" by simp_all
  with run Inr assms(1) show ?thesis
    by (auto simp: validate_override_token_def run_simps find_one_run)
qed

lemma validate_accepted:
  assumes "pin_store P = S" and "check_signature P token uid action = Inr ()"
    and "filter (match_filter (consume_filter now token uid action)) (docs S TOKENS db) = d # ds"
  shows "\<exists>db'. validate_override_token P now token uid action db = (Inr True, db')"
proof -
  obtain r db' where run: "update_one S TOKENS (consume_filter now token uid action) (consume_update now) db = (r, db')"
    by (cases "update_one S TOKENS (consume_filter now token uid action) (consume_update now) db")
  from filter_hd_sat [OF assms(3)] consumed_token(1) [of now token uid action d]
  obtain d' where "apply_update (consume_update now) d = (Inr True, d')" by auto
  from update_one_some [OF run assms(3) this] run assms(1,2) show ?thesis
    by (auto simp: validate_override_token_def run_simps)
qed

lemma keeps_verify_pin:
  assumes "pin_store P = S" and "k \<noteq> PINS"
  shows "keeps (\<lambda>db. Q (docs S k db)) (verify_pin P now uid pin)"
  using keeps_update_other [OF assms(2)]
  unfolding verify_pin_def pin_locked_def check_pin_def assms(1)
  by (auto intro!: keeps_intros split: option.splits)

end


lemma token_doc_fields:
  "k \<noteq> ''_id'' \<Longrightarrow> dget (dset_default ''_id'' i (token_doc now token uid action t)) k = dget (token_doc now token uid action t) k"
  "dget (token_doc now token uid action t) ''token'' = VStr token"
  "dget (token_doc now token uid action t) ''user_id'' = VStr uid"
  "dget (token_doc now token uid action t) ''action'' = VStr action"
  "dget (token_doc now token uid action t) ''used'' = VBool False"
  "dget (token_doc now token uid action t) ''expires_at'' = naive t"
  by (simp_all add: doc_simps) (simp_all add: token_doc_def dget_def)

text \<open>(C23) Issue and redeem: a token that the service issues to a user for an action is accepted for
  that user and action at every time before its expiry. A hexadecimal signature has only ASCII
  characters and no dot.\<close>

theorem override_token_roundtrip:
  assumes "document_store (pin_store P)"
    and "generate_override_token P now raw uid pin action ttl db = (Inr (token, expires_at), db')"
    and "\<forall>s payload. \<forall>c \<in> set (hmac_hex P s payload). c \<noteq> CHR ''.'' \<and> (of_char c :: nat) < 128"
    and "later < expires_at"
  shows "\<exists>db''. validate_override_token P later token uid action db' = (Inr True, db'')"
proof -
  from assms(2) obtain sig d1 i where sig: "sign_token P (signature_payload raw uid action) = Inr sig"
    "token = raw @ ''.'' @ sig"
    and ins: "insert_one (pin_store P) TOKENS (token_doc now token uid action expires_at) d1 = (Inr i, db')"
    by (auto simp: generate_override_token_def Let_def run_iff)
  from sig(1) obtain s where s: "sig = hmac_hex P s (signature_payload raw uid action)"
    by (auto simp: sign_token_def split: option.splits list.splits)
  with assms(3) have "CHR ''.'' \<notin> set sig" "\<forall>c \<in> set sig. (of_char c :: nat) < 128" by blast+
  then have "check_signature P token uid action = Inr ()"
    using rsplit_dot_append [of sig raw] sig
    by (auto simp: check_signature_def compare_digest_def list_ex_iff bindR_def not_le)
  moreover from document_store.insert_one_docs [OF assms(1) ins]
  have "dset_default ''_id'' i (token_doc now token uid action expires_at) \<in> set (docs (pin_store P) TOKENS db')" by simp
  moreover have "match_filter (consume_filter later token uid action) (dset_default ''_id'' i (token_doc now token uid action expires_at))"
    using assms(4) token_doc_fields by (simp add: consume_filter_def field_values_def)
  ultimately show ?thesis
    using document_store.validate_accepted [OF assms(1) refl]
    by (metis (no_types, lifting) filter_empty_conv list.exhaust)
qed

section \<open>Lockout\<close>

definition failure_fields :: "int \<Rightarrow> int \<Rightarrow> doc" where
  "failure_fields now n =
     [(''failed_attempts'', VInt n)] @ (if n \<ge> max_attempts then [(''locked_until'', naive (now + lockout_micros))] else [])"

lemma failure_update_int: "failure_update now (VInt n) = [(''$set'', VDict (failure_fields now n))]"
  by (simp add: failure_update_def failure_fields_def)

lemma failure_fields_keys:
  "k \<notin> {''failed_attempts'', ''locked_until''} \<Longrightarrow> k \<notin> fst ` set (failure_fields now n)"
  by (auto simp: failure_fields_def)

lemmas failure_fields_kept = apply_set_other [OF failure_fields_keys] apply_set_has_other [OF failure_fields_keys]

text \<open>What a wrong attempt writes, on a record without a pending lock whose count it raises.\<close>

lemma failure_fields_written:
  assumes "dget r ''failed_attempts'' = VNone \<or> dget r ''failed_attempts'' = VInt m \<and> m \<noteq> n"
    and "\<not> truthy (dget r ''locked_until'')"
  shows "dget (snd (apply_set (failure_fields now n) r)) ''failed_attempts'' = VInt n"
    and "dget (snd (apply_set (failure_fields now n) r)) ''locked_until'' =
      (if n \<ge> max_attempts then naive (now + lockout_micros) else dget r ''locked_until'')"
proof -
  from assms(1) have "\<not> py_eq (dget r ''failed_attempts'') (VInt n)" by auto
  moreover from assms(2) have "\<not> py_eq (dget r ''locked_until'') (naive t)" for t
    by (cases "dget r ''locked_until''") auto
  ultimately show "dget (snd (apply_set (failure_fields now n) r)) ''failed_attempts'' = VInt n"
    "dget (snd (apply_set (failure_fields now n) r)) ''locked_until'' =
      (if n \<ge> max_attempts then naive (now + lockout_micros) else dget r ''locked_until'')"
    by (simp_all add: failure_fields_def run_simps doc_simps)
qed

lemma dget_or_int: "dget_or r k (VInt 0) = VInt n \<Longrightarrow> dget r k = VInt n \<or> dget r k = VNone \<and> n = 0"
  by (auto simp: dget_or_def dget_def split: option.splits)

text \<open>An account ready for an attempt: enabled, no pending lock, so many failures.\<close>

definition attempts_of :: "doc \<Rightarrow> int \<Rightarrow> bool" where
  "attempts_of r n \<longleftrightarrow> r \<noteq> [] \<and> truthy (dget r ''enabled'') \<and> \<not> truthy (dget r ''locked_until'') \<and>
     dget_or r ''failed_attempts'' (VInt 0) = VInt n"

definition locked_record :: "doc \<Rightarrow> int \<Rightarrow> bool" where
  "locked_record r t \<longleftrightarrow> dget r ''locked_until'' = naive t"

definition stored_hash :: "doc \<Rightarrow> val" where
  "stored_hash r = dget_or r ''pin_hash'' (VStr [])"

lemma stored_hash_cong: "dget r k = dget s k \<Longrightarrow> dhas r k = dhas s k \<Longrightarrow> dget_or r k v = dget_or s k v"
  by (auto simp: dget_or_def dget_def dhas_def split: option.splits)

lemma wrong_attempt_record:
  assumes "attempts_of r n" and "0 \<le> n"
  shows "stored_hash (snd (apply_set (failure_fields now (n + 1)) r)) = stored_hash r"
    and "n + 1 < max_attempts \<Longrightarrow> attempts_of (snd (apply_set (failure_fields now (n + 1)) r)) (n + 1)"
    and "max_attempts \<le> n + 1 \<Longrightarrow> locked_record (snd (apply_set (failure_fields now (n + 1)) r)) (now + lockout_micros)"
proof -
  let ?r = "snd (apply_set (failure_fields now (n + 1)) r)"
  show "stored_hash ?r = stored_hash r"
    unfolding stored_hash_def by (rule stored_hash_cong) (simp_all add: failure_fields_kept)
  from assms have "dget r ''failed_attempts'' = VNone \<or> dget r ''failed_attempts'' = VInt n \<and> n \<noteq> n + 1"
    by (auto simp: attempts_of_def dest: dget_or_int)
  from failure_fields_written [OF this] assms(1)
  have w: "dget ?r ''failed_attempts'' = VInt (n + 1)" "dget ?r ''locked_until'' =
      (if n + 1 \<ge> max_attempts then naive (now + lockout_micros) else dget r ''locked_until'')"
    by (auto simp: attempts_of_def)
  moreover have "dget ?r ''enabled'' = dget r ''enabled''" by (rule failure_fields_kept) simp
  moreover have "dget_or ?r ''failed_attempts'' (VInt 0) = VInt (n + 1)"
    using w(1) by (auto simp: dget_or_def dget_def split: option.splits)
  moreover have "?r \<noteq> []" using w(1) by (auto simp: dget_def)
  ultimately show "n + 1 < max_attempts \<Longrightarrow> attempts_of ?r (n + 1)"
    "max_attempts \<le> n + 1 \<Longrightarrow> locked_record ?r (now + lockout_micros)"
    using assms(1) by (auto simp: attempts_of_def locked_record_def)
qed

context document_store
begin

abbreviation pin_records :: "string \<Rightarrow> 'db \<Rightarrow> doc list" where
  "pin_records uid db \<equiv> filter (match_filter (user_filter uid)) (docs S PINS db)"

lemma wrong_attempt:
  assumes "pin_store P = S" and "pin_records uid db = [r]" and "attempts_of r n"
    and "verify_hash P pin (stored_hash r) = Inr False"
  obtains db' where "verify_pin P now uid pin db = (Inr False, db')"
    "pin_records uid db' = [snd (apply_set (failure_fields now (n + 1)) r)]"
proof -
  let ?f = "failure_fields now (n + 1)"
  obtain m db' where u: "update_one S PINS (user_filter uid) [(''$set'', VDict ?f)] db = (Inr (1, m), db')"
    "docs S PINS db' = update_first (match_filter (user_filter uid)) (\<lambda>_. snd (apply_set ?f r)) (docs S PINS db)"
    by (rule update_one_set [OF assms(2)])
  have "match_filter (user_filter uid) (snd (apply_set ?f r))"
    using filter_hd_sat [OF assms(2)] by (subst user_filter_kept) (auto simp: failure_fields_def)
  with filter_update_first [OF assms(2), of "match_filter (user_filter uid)"] filter_hd_sat [OF assms(2)] u(2)
  have "pin_records uid db' = [snd (apply_set ?f r)]" by simp
  moreover have "verify_pin P now uid pin db = (Inr False, db')"
    unfolding verify_pin_def using assms u(1)
    by (intro or_false_run) (simp add: find_one_run run_simps attempts_of_def pin_locked_def check_pin_def
        stored_hash_def failure_update_int)
  ultimately show thesis using that by blast
qed

lemma locked_refuses:
  assumes "pin_store P = S" and "pin_records uid db = [r]" and "locked_record r t" and "now < t"
  shows "verify_pin P now uid pin db = (Inr False, db)"
  unfolding verify_pin_def using assms
  by (intro or_false_run)
     (auto simp: find_one_run run_simps locked_record_def pin_locked_def before_stored_def)

end

text \<open>Guessing is limited: after three wrong PINs in a row for an enabled account with no
  failures on record, every further attempt during the next fifteen minutes is refused, even with
  the right PIN, and changes nothing. Accounts are unique per user, by the index the service
  creates.\<close>

theorem pin_lockout:
  assumes "document_store (pin_store P)"
    and "filter (match_filter (user_filter uid)) (docs (pin_store P) PINS db) = [r]" and "attempts_of r 0"
    and "\<forall>pin \<in> {p1, p2, p3}. verify_hash P pin (stored_hash r) = Inr False"
    and "bindM (verify_pin P t1 uid p1) (\<lambda>_. bindM (verify_pin P t2 uid p2) (\<lambda>_. verify_pin P t3 uid p3)) db = (res, db')"
    and "now < t3 + 15 * 60 * 1000000"
  shows "res = Inr False \<and> verify_pin P now uid pin db' = (Inr False, db')"
proof -
  note step = document_store.wrong_attempt [OF assms(1) refl]
  have m: "max_attempts = 3" by (simp add: max_attempts_def)
  obtain d1 where 1: "verify_pin P t1 uid p1 db = (Inr False, d1)"
    "filter (match_filter (user_filter uid)) (docs (pin_store P) PINS d1) = [snd (apply_set (failure_fields t1 (0 + 1)) r)]"
    using step [OF assms(2,3)] assms(4) by blast
  let ?r1 = "snd (apply_set (failure_fields t1 (0 + 1)) r)"
  note a1 = wrong_attempt_record(1,2) [OF assms(3), of t1]
  then have r1: "stored_hash ?r1 = stored_hash r" "attempts_of ?r1 (0 + 1)" by (simp_all add: m)
  obtain d2 where 2: "verify_pin P t2 uid p2 d1 = (Inr False, d2)"
    "filter (match_filter (user_filter uid)) (docs (pin_store P) PINS d2) = [snd (apply_set (failure_fields t2 (0 + 1 + 1)) ?r1)]"
    using step [OF 1(2) r1(2)] assms(4) r1(1) by auto
  let ?r2 = "snd (apply_set (failure_fields t2 (0 + 1 + 1)) ?r1)"
  note a2 = wrong_attempt_record(1,2) [OF r1(2), of t2]
  then have r2: "stored_hash ?r2 = stored_hash r" "attempts_of ?r2 (0 + 1 + 1)" using r1(1) by (simp_all add: m)
  obtain d3 where 3: "verify_pin P t3 uid p3 d2 = (Inr False, d3)"
    "filter (match_filter (user_filter uid)) (docs (pin_store P) PINS d3) = [snd (apply_set (failure_fields t3 (0 + 1 + 1 + 1)) ?r2)]"
    using step [OF 2(2) r2(2)] assms(4) r2(1) by auto
  have "locked_record (snd (apply_set (failure_fields t3 (0 + 1 + 1 + 1)) ?r2)) (t3 + lockout_micros)"
    by (rule wrong_attempt_record(3) [OF r2(2)]) (simp_all add: m)
  from document_store.locked_refuses [OF assms(1) refl 3(2) this] assms(5,6) 1(1) 2(1) 3(1) show ?thesis
    by (simp add: run_simps lockout_micros_def)
qed

text \<open>After a lockout has run out a single wrong PIN locks the account again: the counter is
  reset in the database, but the attempt is counted from the value read before the reset.\<close>

theorem expired_lock_relocks:
  assumes "document_store (pin_store P)"
    and "filter (match_filter (user_filter uid)) (docs (pin_store P) PINS db) = [r]"
    and "truthy (dget r ''enabled'')" and "dget r ''locked_until'' = naive t0" "t0 \<le> now"
    and "dget r ''failed_attempts'' = VInt n" "2 \<le> n" and "verify_hash P pin (stored_hash r) = Inr False"
  shows "\<exists>db'. verify_pin P now uid pin db = (Inr False, db') \<and>
    (\<forall>t pin'. t < now + 15 * 60 * 1000000 \<longrightarrow> verify_pin P t uid pin' db' = (Inr False, db'))"
proof -
  let ?u = "match_filter (user_filter uid)" and ?f = "failure_fields now (n + 1)"
  let ?reset = "[(''locked_until'', VNone), (''failed_attempts'', VInt 0)]"
  let ?r1 = "snd (apply_set ?reset r)" and ?r2 = "snd (apply_set ?f (snd (apply_set ?reset r)))"
  note set_one = document_store.update_one_set [OF assms(1)]
  have next_record: "filter ?u (docs (pin_store P) PINS d') = [snd (apply_set e s)]"
    if "filter ?u (docs (pin_store P) PINS d) = [s]" "''user_id'' \<notin> fst ` set e"
      "docs (pin_store P) PINS d' = update_first ?u (\<lambda>_. snd (apply_set e s)) (docs (pin_store P) PINS d)" for d d' s e
    using filter_update_first [OF that(1), of ?u] filter_hd_sat [OF that(1)] that(2,3) user_filter_kept by simp
  obtain m1 d1 where 1: "update_one (pin_store P) PINS (user_filter uid) unlock_update db = (Inr (1, m1), d1)"
    "docs (pin_store P) PINS d1 = update_first ?u (\<lambda>_. ?r1) (docs (pin_store P) PINS db)"
    unfolding unlock_update_def by (rule set_one [OF assms(2)])
  have f1: "filter ?u (docs (pin_store P) PINS d1) = [?r1]" by (rule next_record [OF assms(2) _ 1(2)]) simp
  obtain m2 d2 where 2: "update_one (pin_store P) PINS (user_filter uid) [(''$set'', VDict ?f)] d1 = (Inr (1, m2), d2)"
    "docs (pin_store P) PINS d2 = update_first ?u (\<lambda>_. ?r2) (docs (pin_store P) PINS d1)"
    by (rule set_one [OF f1])
  have f2: "filter ?u (docs (pin_store P) PINS d2) = [?r2]"
    by (rule next_record [OF f1 _ 2(2)]) (simp add: failure_fields_keys)
  have "dget ?r1 ''failed_attempts'' = VInt 0" "dget ?r1 ''locked_until'' = VNone"
    using assms(4,6,7) by (simp_all add: run_simps doc_simps)
  then have "locked_record ?r2 (now + lockout_micros)"
    using failure_fields_written(2) [of ?r1 0 "n + 1" now] assms(7) by (simp add: locked_record_def max_attempts_def)
  note locked = document_store.locked_refuses [OF assms(1) refl f2 this]
  have "dget_or r ''failed_attempts'' (VInt 0) = VInt n" "r \<noteq> []"
    using assms(6) by (auto simp: dget_or_def dget_def split: option.splits)
  then have "verify_pin P now uid pin db = (Inr False, d2)"
    unfolding verify_pin_def using assms(1-8) 1(1) 2(1)
    by (intro or_false_run) (simp add: document_store.find_one_run run_simps pin_locked_def before_stored_def
        check_pin_def stored_hash_def failure_update_int)
  with locked show ?thesis by (auto simp: lockout_micros_def)
qed

section \<open>Instances\<close>

definition demo_pins :: "memdb pin_service" where
  "demo_pins = \<lparr>pin_store = mem_store show_nat (\<lambda>_. False), hash_pin = (\<lambda>salt pin. salt @ pin),
     verify_hash = (\<lambda>pin h. Inr (h = VStr (''x'' @ pin))), token_secret = Some ''secret'',
     hmac_hex = (\<lambda>key payload. ''a1'')\<rparr>"

lemma demo_pins_store: "document_store (pin_store demo_pins)"
  by (simp add: demo_pins_def document_store_mem)

definition demo_pin_db :: "doc \<Rightarrow> memdb" where
  "demo_pin_db r = \<lparr>colls = (\<lambda>c. if c = PINS then [r] else []), next_id = 0\<rparr>"

definition demo_pin_record :: doc where
  "demo_pin_record = [(''user_id'', VStr ''u''), (''enabled'', VBool True), (''pin_hash'', VStr ''x1234'')]"

lemma pin_lockout_witness:
  "fst (verify_pin demo_pins 4 ''u'' ''1234'' (snd (bindM (verify_pin demo_pins 1 ''u'' ''1111'') (\<lambda>_.
     bindM (verify_pin demo_pins 2 ''u'' ''2222'') (\<lambda>_. verify_pin demo_pins 3 ''u'' ''3333'')) (demo_pin_db demo_pin_record)))) =
   Inr False"
proof -
  let ?run = "bindM (verify_pin demo_pins 1 ''u'' ''1111'') (\<lambda>_.
     bindM (verify_pin demo_pins 2 ''u'' ''2222'') (\<lambda>_. verify_pin demo_pins 3 ''u'' ''3333'')) (demo_pin_db demo_pin_record)"
  have "filter (match_filter (user_filter ''u'')) (docs (pin_store demo_pins) PINS (demo_pin_db demo_pin_record)) = [demo_pin_record]"
    "attempts_of demo_pin_record 0"
    "\<forall>pin \<in> {''1111'', ''2222'', ''3333''}. verify_hash demo_pins pin (stored_hash demo_pin_record) = Inr False"
    by code_simp+
  from pin_lockout [OF demo_pins_store this prod.collapse [symmetric], of 4] show ?thesis by simp
qed

lemma expired_lock_relocks_witness:
  "\<exists>db'. verify_pin demo_pins 10 ''u'' ''1111'' (demo_pin_db (demo_pin_record @
      [(''failed_attempts'', VInt 3), (''locked_until'', naive 9)])) = (Inr False, db') \<and>
     verify_pin demo_pins 11 ''u'' ''1234'' db' = (Inr False, db')"
proof -
  let ?r = "demo_pin_record @ [(''failed_attempts'', VInt 3), (''locked_until'', naive 9)]"
  have "filter (match_filter (user_filter ''u'')) (docs (pin_store demo_pins) PINS (demo_pin_db ?r)) = [?r]"
    "truthy (dget ?r ''enabled'')" "dget ?r ''locked_until'' = naive 9" "(9::int) \<le> 10"
    "dget ?r ''failed_attempts'' = VInt 3" "(2::int) \<le> 3" "verify_hash demo_pins ''1111'' (stored_hash ?r) = Inr False"
    by code_simp+
  from expired_lock_relocks [OF demo_pins_store this] show ?thesis by auto
qed

definition demo_token_db :: memdb where
  "demo_token_db = snd (generate_override_token demo_pins 0 ''raw'' ''u'' ''1234'' ''inventory_adjust'' 300 (demo_pin_db demo_pin_record))"

lemma override_token_roundtrip_witness:
  "\<exists>db'. validate_override_token demo_pins 299999999 ''raw.a1'' ''u'' ''inventory_adjust'' demo_token_db = (Inr True, db')"
proof -
  let ?gen = "generate_override_token demo_pins 0 ''raw'' ''u'' ''1234'' ''inventory_adjust'' 300 (demo_pin_db demo_pin_record)"
  have "fst ?gen = Inr (''raw.a1'', 300000000)" by code_simp
  then have gen: "?gen = (Inr (''raw.a1'', 300000000), demo_token_db)"
    by (cases ?gen) (simp add: demo_token_db_def)
  have "\<forall>s payload. \<forall>c \<in> set (hmac_hex demo_pins s payload). c \<noteq> CHR ''.'' \<and> (of_char c :: nat) < 128"
    by (simp add: demo_pins_def)
  from override_token_roundtrip [OF demo_pins_store gen this] show ?thesis by simp
qed


end
