(* ===== verification/InventoryAdjustment.thy ===== *)
theory InventoryAdjustment
  imports PinAuth
begin

text \<open>
  \<open>backend/services/inventory_adjustment_service.py\<close>: stock adjustments from proposal to
  ledger posting. Identifiers drawn from \<open>uuid4\<close> are arguments; \<open>datetime.isoformat\<close> and the
  text of an enum member inside an f-string, which differs between Python versions, are fields
  of the service record. The arrow in the text of a refused transition is written in ASCII.
\<close>

section \<open>States\<close>

definition ADJUSTMENT_STATES :: "string list" where
  "ADJUSTMENT_STATES =
     [''DRAFT'', ''PROPOSED'', ''PENDING_AUTHORIZATION'', ''AUTHORIZED'', ''POSTED'', ''FINALIZED'', ''VOIDED'',
      ''ROLLED_BACK'']"

definition ADJUSTMENT_TRANSITIONS :: "(string \<times> string list) list" where
  "ADJUSTMENT_TRANSITIONS =
     [(''DRAFT'', [''PENDING_AUTHORIZATION'']),
      (''PROPOSED'', [''PENDING_AUTHORIZATION'', ''VOIDED'']),
      (''PENDING_AUTHORIZATION'', [''AUTHORIZED'', ''VOIDED'']),
      (''AUTHORIZED'', [''POSTED'', ''VOIDED'']),
      (''POSTED'', [''FINALIZED'', ''ROLLED_BACK'']),
      (''FINALIZED'', []), (''VOIDED'', []), (''ROLLED_BACK'', [])]"

definition adjustment_targets :: "string \<Rightarrow> string list" where
  "adjustment_targets s = (case map_of ADJUSTMENT_TRANSITIONS s of None \<Rightarrow> [] | Some ts \<Rightarrow> ts)"

fun quoted_list :: "string list \<Rightarrow> string" where
  "quoted_list [] = []"
| "quoted_list [s] = [CHR 0x27] @ s @ [CHR 0x27]"
| "quoted_list (s # ss) = [CHR 0x27] @ s @ [CHR 0x27] @ '', '' @ quoted_list ss"

definition assert_adjustment_transition :: "string \<Rightarrow> string \<Rightarrow> unit res" where
  "assert_adjustment_transition fs ts =
     (if ts \<in> set (adjustment_targets fs) then Inr ()
      else Inl (GovernanceViolation (''Invalid adjustment transition: '' @ fs @ '' -> '' @ ts @ ''. Allowed: '' @
        (if adjustment_targets fs = [] then ''none'' else ''['' @ quoted_list (adjustment_targets fs) @ '']''))))"

section \<open>The service\<close>

record 'db adjustments =
  astore :: "'db store"
  arepr :: repr
  apins :: "'db pin_service"
  enum_text :: "string \<Rightarrow> string"
  isoformat :: "int \<Rightarrow> string"

abbreviation ADJUSTMENTS :: string where "ADJUSTMENTS \<equiv> ''inventory_adjustments''"

abbreviation LEDGER :: string where "LEDGER \<equiv> ''inventory_ledger''"

definition adjustment_id_filter :: "string \<Rightarrow> query" where
  "adjustment_id_filter i = [(''id'', CEq (VStr i))]"

definition require_real_actor :: "repr \<Rightarrow> doc \<Rightarrow> unit res" where
  "require_real_actor rp actor =
     (let username = strip (py_str rp (py_or (dget actor ''username'') (py_or (dget actor ''user_id'') (VStr []))))
      in if username = [] \<or> username \<in> {''system'', ''conflict_resolver''}
         then Inl (GovernanceViolation ''CRITICAL: inventory adjustment requires a real authenticated actor'')
         else Inr ())"

definition history_entry :: "'db adjustments \<Rightarrow> int \<Rightarrow> string \<Rightarrow> doc \<Rightarrow> doc" where
  "history_entry A now state actor =
     [(''state'', VStr state), (''actor'', VDict actor), (''timestamp'', VStr (isoformat A now))]"

definition proposal_doc ::
  "'db adjustments \<Rightarrow> int \<Rightarrow> string \<Rightarrow> string \<Rightarrow> string \<Rightarrow> string \<Rightarrow> rat \<Rightarrow> rat \<Rightarrow> string \<Rightarrow> doc \<Rightarrow> doc" where
  "proposal_doc A now adjustment_id session_id item_code location_id counted expected variance_reason actor =
     [(''id'', VStr adjustment_id), (''session_id'', VStr session_id), (''item_code'', VStr item_code),
      (''location_id'', VStr location_id), (''counted_qty'', VFloat counted), (''expected_qty'', VFloat expected),
      (''variance'', VFloat (counted - expected)), (''variance_reason'', VStr variance_reason),
      (''state'', VStr ''DRAFT''), (''actor_history'', VList [VDict (history_entry A now ''DRAFT'' actor)]),
      (''created_by'', dget actor ''username''), (''created_at'', naive now), (''updated_at'', naive now)]"

definition state_result :: "string \<Rightarrow> string \<Rightarrow> doc" where
  "state_result adjustment_id state = [(''id'', VStr adjustment_id), (''state'', VStr state)]"

definition create_proposal ::
  "'db adjustments \<Rightarrow> int \<Rightarrow> string \<Rightarrow> string \<Rightarrow> string \<Rightarrow> string \<Rightarrow> rat \<Rightarrow> rat \<Rightarrow> string \<Rightarrow> doc \<Rightarrow> ('db, doc) comp" where
  "create_proposal A now adjustment_id session_id item_code location_id counted expected variance_reason actor =
     bindM (liftM (require_real_actor (arepr A) actor)) (\<lambda>_.
     bindM (authorized ''InventoryAdjustmentService'' ADJUSTMENTS ''insert_one''
       (insert_one (astore A) ADJUSTMENTS (proposal_doc A now adjustment_id session_id item_code location_id
          counted expected variance_reason actor))) (\<lambda>_.
     bindM (log_governance_event (astore A) (arepr A) now ''ADJUSTMENT_DRAFT'' ''CREATE_PROPOSAL'' (VStr session_id)
       actor (VStr item_code) (VStr location_id) VNone VNone VNone ''SUCCESS'' []) (\<lambda>_.
     returnM (state_result adjustment_id ''DRAFT''))))"

definition find_adjustment :: "'db adjustments \<Rightarrow> string \<Rightarrow> ('db, doc) comp" where
  "find_adjustment A adjustment_id =
     bindM (find_one (astore A) ADJUSTMENTS (adjustment_id_filter adjustment_id)) (\<lambda>r.
     (case r of
        None \<Rightarrow> raiseM (GovernanceViolation (''Adjustment not found: '' @ adjustment_id))
      | Some d \<Rightarrow>
          (if d = [] then raiseM (GovernanceViolation (''Adjustment not found: '' @ adjustment_id)) else returnM d)))"

definition state_of_doc :: "repr \<Rightarrow> doc \<Rightarrow> string" where
  "state_of_doc rp d = py_str rp (py_or (dget d ''state'') (VStr []))"

definition load_and_assert_state :: "'db adjustments \<Rightarrow> string \<Rightarrow> string \<Rightarrow> ('db, doc) comp" where
  "load_and_assert_state A adjustment_id expected_state =
     bindM (find_adjustment A adjustment_id) (\<lambda>d.
     let current = state_of_doc (arepr A) d
     in bindM (raise_if (current \<noteq> expected_state)
          (GovernanceViolation (''Adjustment '' @ adjustment_id @ '' is in state '' @ [CHR 0x27] @ current @ [CHR 0x27] @
             '', expected '' @ [CHR 0x27] @ enum_text A expected_state @ [CHR 0x27]))) (\<lambda>_.
        returnM d))"

definition transition_fields_of :: "int \<Rightarrow> string \<Rightarrow> doc \<Rightarrow> doc \<Rightarrow> doc" where
  "transition_fields_of now to_state actor extra =
     dmerge [(''state'', VStr to_state), (''updated_at'', naive now),
             (lower to_state @ ''_by'', dget actor ''username''), (lower to_state @ ''_at'', naive now)] extra"

definition transition_update :: "'db adjustments \<Rightarrow> int \<Rightarrow> string \<Rightarrow> doc \<Rightarrow> doc \<Rightarrow> doc" where
  "transition_update A now to_state actor extra =
     [(''$set'', VDict (transition_fields_of now to_state actor extra)),
      (''$push'', VDict [(''actor_history'', VDict (history_entry A now to_state actor))])]"

definition adjustment_transition ::
  "'db adjustments \<Rightarrow> int \<Rightarrow> string \<Rightarrow> string \<Rightarrow> doc \<Rightarrow> string \<Rightarrow> doc \<Rightarrow> ('db, doc) comp" where
  "adjustment_transition A now adjustment_id to_state actor operation extra =
     bindM (liftM (require_real_actor (arepr A) actor)) (\<lambda>_.
     bindM (find_adjustment A adjustment_id) (\<lambda>d.
     bindM (liftM (assert_adjustment_transition (state_of_doc (arepr A) d) to_state)) (\<lambda>_.
     bindM (authorized ''InventoryAdjustmentService'' ADJUSTMENTS ''update_one''
       (update_one (astore A) ADJUSTMENTS (adjustment_id_filter adjustment_id)
          (transition_update A now to_state actor extra))) (\<lambda>_.
     bindM (log_governance_event (astore A) (arepr A) now (''ADJUSTMENT_'' @ enum_text A to_state) operation
       (VStr (first_text (arepr A) d [''session_id''])) actor (VStr (first_text (arepr A) d [''item_code'']))
       (VStr (first_text (arepr A) d [''location_id''])) VNone VNone VNone ''SUCCESS'' []) (\<lambda>_.
     returnM (state_result adjustment_id to_state))))))"

definition submit_for_review :: "'db adjustments \<Rightarrow> int \<Rightarrow> string \<Rightarrow> doc \<Rightarrow> ('db, doc) comp" where
  "submit_for_review A now adjustment_id actor =
     adjustment_transition A now adjustment_id ''PENDING_AUTHORIZATION'' actor ''SUBMIT_FOR_REVIEW'' []"

definition authorize :: "'db adjustments \<Rightarrow> int \<Rightarrow> string \<Rightarrow> doc \<Rightarrow> string \<Rightarrow> ('db, doc) comp" where
  "authorize A now adjustment_id actor override_token =
     bindM (validate_override_token (apins A) now override_token
       (first_text (arepr A) actor [''user_id'', ''username'']) ''inventory_adjust'') (\<lambda>_.
     adjustment_transition A now adjustment_id ''AUTHORIZED'' actor ''AUTHORIZE'' [])"

text \<open>\<open>d[k]\<close>, and the unary minus.\<close>

definition subscript :: "doc \<Rightarrow> string \<Rightarrow> val res" where
  "subscript d k = (if dhas d k then Inr (dget d k) else Inl (KeyError k))"

fun negated :: "val \<Rightarrow> val res" where
  "negated (VInt i) = Inr (VInt (- i))"
| "negated (VBool b) = Inr (VInt (- of_bool b))"
| "negated (VFloat q) = Inr (VFloat (- q))"
| "negated _ = Inl (TypeError ''bad operand type for unary -'')"

definition ledger_base :: "string \<Rightarrow> string \<Rightarrow> doc \<Rightarrow> (val \<Rightarrow> val res) \<Rightarrow> doc res" where
  "ledger_base entry_id adjustment_id d f =
     bindR (subscript d ''session_id'') (\<lambda>s.
     bindR (subscript d ''item_code'') (\<lambda>i.
     bindR (subscript d ''location_id'') (\<lambda>l.
     bindR (subscript d ''variance'') (\<lambda>v.
     bindR (f v) (\<lambda>w.
     Inr [(''id'', VStr entry_id), (''adjustment_id'', VStr adjustment_id), (''session_id'', s), (''item_code'', i),
          (''location_id'', l), (''variance'', w)])))))"

definition post_to_ledger :: "'db adjustments \<Rightarrow> int \<Rightarrow> string \<Rightarrow> string \<Rightarrow> doc \<Rightarrow> ('db, doc) comp" where
  "post_to_ledger A now entry_id adjustment_id actor =
     bindM (liftM (require_real_actor (arepr A) actor)) (\<lambda>_.
     bindM (load_and_assert_state A adjustment_id ''AUTHORIZED'') (\<lambda>d.
     bindM (liftM (ledger_base entry_id adjustment_id d Inr)) (\<lambda>base.
     bindM (authorized ''InventoryAdjustmentService'' LEDGER ''insert_one''
       (insert_one (astore A) LEDGER
          (base @ [(''posted_by'', dget actor ''username''), (''posted_at'', naive now)]))) (\<lambda>_.
     bindM (adjustment_transition A now adjustment_id ''POSTED'' actor ''POST_TO_LEDGER'' []) (\<lambda>result.
     bindM (log_governance_event (astore A) (arepr A) now ''ADJUSTMENT_POSTED'' ''POST_TO_LEDGER''
       (dget d ''session_id'') actor (dget d ''item_code'') (dget d ''location_id'') VNone VNone VNone ''SUCCESS'' []) (\<lambda>_.
     returnM result))))))"

definition finalize_adjustment :: "'db adjustments \<Rightarrow> int \<Rightarrow> string \<Rightarrow> doc \<Rightarrow> ('db, doc) comp" where
  "finalize_adjustment A now adjustment_id actor =
     adjustment_transition A now adjustment_id ''FINALIZED'' actor ''FINALIZE'' []"

definition void_adjustment :: "'db adjustments \<Rightarrow> int \<Rightarrow> string \<Rightarrow> doc \<Rightarrow> string \<Rightarrow> ('db, doc) comp" where
  "void_adjustment A now adjustment_id actor reason =
     adjustment_transition A now adjustment_id ''VOIDED'' actor ''VOID'' [(''void_reason'', VStr reason)]"

definition rollback_adjustment ::
  "'db adjustments \<Rightarrow> int \<Rightarrow> string \<Rightarrow> string \<Rightarrow> doc \<Rightarrow> string \<Rightarrow> ('db, doc) comp" where
  "rollback_adjustment A now entry_id adjustment_id actor reason =
     bindM (liftM (require_real_actor (arepr A) actor)) (\<lambda>_.
     bindM (load_and_assert_state A adjustment_id ''POSTED'') (\<lambda>d.
     bindM (liftM (ledger_base entry_id adjustment_id d negated)) (\<lambda>base.
     bindM (authorized ''InventoryAdjustmentService'' LEDGER ''insert_one''
       (insert_one (astore A) LEDGER
          (base @ [(''reversal_reason'', VStr reason), (''reversed_by'', dget actor ''username''),
                   (''reversed_at'', naive now)]))) (\<lambda>_.
     adjustment_transition A now adjustment_id ''ROLLED_BACK'' actor ''ROLLBACK'' [(''rollback_reason'', VStr reason)]))))"

section \<open>The state machine\<close>

inductive adjustment_step :: "string \<Rightarrow> string \<Rightarrow> bool" where
  step: "assert_adjustment_transition s t = Inr () \<Longrightarrow> adjustment_step s t"

definition adjustment_rank :: "string \<Rightarrow> nat" where
  "adjustment_rank s =
     (case map_of [(''DRAFT'', 0), (''PROPOSED'', 1), (''PENDING_AUTHORIZATION'', 2), (''AUTHORIZED'', 3),
        (''POSTED'', 4)] s of Some n \<Rightarrow> n | None \<Rightarrow> 5)"

lemma adjustment_table:
  "list_all (\<lambda>(s, ts). list_all (\<lambda>t. adjustment_rank s < adjustment_rank t) ts) ADJUSTMENT_TRANSITIONS"
  by code_simp

lemma adjustment_target_rank: "t \<in> set (adjustment_targets s) \<Longrightarrow> adjustment_rank s < adjustment_rank t"
  using adjustment_table
  by (cases "map_of ADJUSTMENT_TRANSITIONS s") (auto simp: adjustment_targets_def list_all_iff dest!: map_of_SomeD)

lemma adjustment_step_rank: "adjustment_step s t \<Longrightarrow> adjustment_rank s < adjustment_rank t"
  by (auto simp: assert_adjustment_transition_def adjustment_target_rank elim!: adjustment_step.cases split: if_splits)

lemma closed_targets: "s \<in> {''FINALIZED'', ''VOIDED'', ''ROLLED_BACK''} \<Longrightarrow> adjustment_targets s = []"
  by (auto simp: adjustment_targets_def ADJUSTMENT_TRANSITIONS_def)

section \<open>What an update of an adjustment does\<close>

definition transition_keys :: "string \<Rightarrow> string list" where
  "transition_keys to_state = [''state'', ''updated_at'', lower to_state @ ''_by'', lower to_state @ ''_at'']"

text \<open>The fields a ledger entry is made of and the identifier: no transition touches them.\<close>

definition KEPT_FIELDS :: "string list" where
  "KEPT_FIELDS = [''id'', ''session_id'', ''item_code'', ''location_id'', ''variance'']"

definition transition_call :: "string \<Rightarrow> doc \<Rightarrow> bool" where
  "transition_call to_state extra \<longleftrightarrow>
     (to_state, map fst extra) \<in> set [(''PENDING_AUTHORIZATION'', []), (''AUTHORIZED'', []), (''POSTED'', []),
       (''FINALIZED'', []), (''VOIDED'', [''void_reason'']), (''ROLLED_BACK'', [''rollback_reason''])]"

lemma transition_call_keys:
  "list_all (\<lambda>(t, ks). list_all (\<lambda>k. k \<notin> set (transition_keys t @ ks) \<and> k \<noteq> ''actor_history'') KEPT_FIELDS \<and>
       ''state'' \<notin> set ks \<and> distinct (transition_keys t))
     [(''PENDING_AUTHORIZATION'', []), (''AUTHORIZED'', []), (''POSTED'', []),
       (''FINALIZED'', []), (''VOIDED'', [''void_reason'']), (''ROLLED_BACK'', [''rollback_reason''])]"
  by code_simp

lemma transition_fields_keys: "fst ` set (transition_fields_of now t actor extra) = set (transition_keys t) \<union> set (map fst extra)"
  by (simp add: transition_fields_of_def keys_dmerge transition_keys_def)

lemma transition_applied:
  assumes "transition_call to_state extra"
  obtains d' where "apply_update (transition_update A now to_state actor extra) d = (Inr True, d')"
    "dget d' ''state'' = VStr to_state"
    "\<forall>k \<in> set KEPT_FIELDS. dget d' k = dget d k \<and> dhas d' k = dhas d k"
proof -
  let ?f = "transition_fields_of now to_state actor extra" and ?h = "VDict (history_entry A now to_state actor)"
  obtain b s where s: "apply_set ?f d = (Inr b, s)" using apply_set_total [of ?f d] by auto
  let ?d = "dput ''actor_history'' (VList (list_or_empty (dget s ''actor_history'') @ [?h])) s"
  from assms transition_call_keys have k: "\<And>k. k \<in> set KEPT_FIELDS \<Longrightarrow> k \<notin> fst ` set ?f \<and> k \<noteq> ''actor_history''"
    "''state'' \<notin> set (map fst extra)" "distinct (transition_keys to_state)"
    unfolding transition_fields_keys by (auto simp: transition_call_def list_all_iff simp del: map_map)
  let ?u = "transition_update A now to_state actor extra"
  have u: "dget ?u ''$set'' = VDict ?f" "dget ?u ''$inc'' = VNone"
    "dget ?u ''$push'' = VDict [(''actor_history'', ?h)]" "dhas ?u ''$push''"
    by (simp_all add: transition_update_def dget_def dhas_def)
  have sp: "split_at (CHR ''.'') ''actor_history'' = [''actor_history'']" by code_simp
  have "apply_update (transition_update A now to_state actor extra) d = (Inr True, ?d)"
    using u by (simp add: apply_update_def dict_or_empty_def run_simps sp s)
  moreover have "distinct (map fst ?f)"
    unfolding transition_fields_of_def using k(3) by (intro dmerge_keys_distinct) (simp add: transition_keys_def)
  moreover have "map_of ?f ''state'' = Some (VStr to_state)"
  proof -
    have "map_of (rev extra) ''state'' = None" using k(2) by (simp add: map_of_eq_None_iff)
    then show ?thesis by (simp add: transition_fields_of_def map_of_dmerge map_add_def)
  qed
  ultimately show thesis
    using that [of ?d] apply_set_get_string [of ?f "''state''" to_state d] k(1)
      apply_set_other [of _ ?f d] apply_set_has_other [of _ ?f d] by (simp add: doc_simps s)
qed

section \<open>The service on a document store\<close>

locale adjustment_service = document_store "astore A" for A :: "'db adjustments" +
  assumes pins_store: "pin_store (apins A) = astore A"
begin

abbreviation adjustments_of :: "string \<Rightarrow> 'db \<Rightarrow> doc list" where
  "adjustments_of i db \<equiv> filter (match_filter (adjustment_id_filter i)) (docs (astore A) ADJUSTMENTS db)"

abbreviation ledger :: "'db \<Rightarrow> doc list" where
  "ledger db \<equiv> docs (astore A) LEDGER db"

lemma find_adjustment_iff:
  "find_adjustment A i db = (Inr d, db') \<longleftrightarrow> db' = db \<and> d \<noteq> [] \<and> (\<exists>ds. adjustments_of i db = d # ds)"
  by (auto simp: find_adjustment_def run_simps find_one_run split: list.splits)

lemma adjustment_id_kept:
  "dget d' ''id'' = dget d ''id'' \<Longrightarrow>
   match_filter (adjustment_id_filter i) d' = match_filter (adjustment_id_filter i) d"
  using field_values_cong [of "''id''" d' d] by (simp add: adjustment_id_filter_def)

lemma transition_effect:
  assumes "adjustment_transition A now i to_state actor operation extra db = (Inr res, db')"
    and "transition_call to_state extra" and "adjustments_of i db = [d]"
  obtains d' where "require_real_actor (arepr A) actor = Inr ()" "to_state \<in> set (adjustment_targets (state_of_doc (arepr A) d))"
    "adjustments_of i db' = [d']" "dget d' ''state'' = VStr to_state"
    "\<forall>k \<in> set KEPT_FIELDS. dget d' k = dget d k \<and> dhas d' k = dhas d k" "ledger db' = ledger db"
proof -
  let ?u = "transition_update A now to_state actor extra" and ?q = "match_filter (adjustment_id_filter i)"
  obtain d' where d': "apply_update ?u d = (Inr True, d')" "dget d' ''state'' = VStr to_state"
    "\<forall>k \<in> set KEPT_FIELDS. dget d' k = dget d k \<and> dhas d' k = dhas d k"
    by (rule transition_applied [OF assms(2), where A = A and now = now and actor = actor and d = d])
  from assms(1,3) obtain n d1 u where s: "require_real_actor (arepr A) actor = Inr ()"
    "assert_adjustment_transition (state_of_doc (arepr A) d) to_state = Inr ()"
    and up: "update_one (astore A) ADJUSTMENTS (adjustment_id_filter i) ?u db = (Inr n, d1)"
    and lg: "log_governance_event (astore A) (arepr A) now (''ADJUSTMENT_'' @ enum_text A to_state) operation
       (VStr (first_text (arepr A) d [''session_id''])) actor (VStr (first_text (arepr A) d [''item_code'']))
       (VStr (first_text (arepr A) d [''location_id''])) VNone VNone VNone ''SUCCESS'' [] d1 = (Inr u, db')"
    by (auto simp: adjustment_transition_def run_iff find_adjustment_iff)
  from update_one_some [OF up assms(3) d'(1)]
  have "docs (astore A) ADJUSTMENTS d1 = update_first ?q (\<lambda>_. d') (docs (astore A) ADJUSTMENTS db)" by simp
  moreover have "docs (astore A) k db' = docs (astore A) k d1" if "k \<noteq> ''governance_events''" for k
    using log_governance_event_frame [OF lg] that by blast
  moreover have "?q d'" using filter_hd_sat [OF assms(3)] d'(3) adjustment_id_kept [of d' d]
    by (simp add: KEPT_FIELDS_def)
  ultimately have "adjustments_of i db' = [d']" "ledger db' = ledger db"
    using filter_update_first [OF assms(3), of ?q] filter_hd_sat [OF assms(3)] update_one_frame [OF up, of LEDGER]
    by simp_all
  with that [OF s(1)] s(2) d'(2,3) show thesis
    by (auto simp: assert_adjustment_transition_def split: if_splits)
qed

lemma load_state_iff:
  "load_and_assert_state A i s db = (Inr d, db') \<longleftrightarrow>
     db' = db \<and> d \<noteq> [] \<and> (\<exists>ds. adjustments_of i db = d # ds) \<and> state_of_doc (arepr A) d = s"
  by (auto simp: load_and_assert_state_def Let_def run_iff find_adjustment_iff)

lemma stored_state: "dget d ''state'' = VStr s \<Longrightarrow> state_of_doc (arepr A) d = s"
  by (cases s) (simp_all add: state_of_doc_def py_or_def)

lemma keeps_find_adjustment [keeps_intros]: "keeps P (find_adjustment A i)"
  unfolding find_adjustment_def by (auto intro!: keeps_intros split: option.splits)

text \<open>In a state without successors every transition is refused before anything is written.\<close>

lemma transition_refused:
  assumes "adjustments_of i db = [d]" "to_state \<notin> set (adjustment_targets (state_of_doc (arepr A) d))"
  shows "\<exists>e. adjustment_transition A now i to_state actor operation extra db = (Inl e, db)"
proof (cases "require_real_actor (arepr A) actor")
  case (Inr u)
  have "\<exists>r. find_adjustment A i db = (r, db) \<and> (r = Inr d \<or> (\<exists>e. r = Inl e))"
    using assms(1) by (auto simp: find_adjustment_def run_simps find_one_run)
  with Inr assms(2) show ?thesis
    by (auto simp: adjustment_transition_def run_simps assert_adjustment_transition_def)
qed (simp add: adjustment_transition_def run_simps)

lemma load_refused:
  assumes "adjustments_of i db = [d]" "state_of_doc (arepr A) d \<noteq> s"
  shows "\<exists>e. load_and_assert_state A i s db = (Inl e, db)"
  using assms by (auto simp: load_and_assert_state_def Let_def find_adjustment_def run_simps find_one_run)

lemma ledger_base_fields:
  assumes "ledger_base e i d f = Inr base"
  obtains w where "f (dget d ''variance'') = Inr w" "dhas d ''variance''"
    "dget (dset_default ''_id'' x (base @ rest)) ''variance'' = w"
    "dget (dset_default ''_id'' x (base @ rest)) ''adjustment_id'' = VStr i"
  using assms that
  by (auto simp: ledger_base_def subscript_def bindR_iff doc_simps dget_def split: if_splits)

lemma posting:
  assumes "post_to_ledger A now e i actor db = (Inr res, db')" and "adjustments_of i db = [d]"
  obtains d' entry where "state_of_doc (arepr A) d = ''AUTHORIZED''" "adjustments_of i db' = [d']"
    "dget d' ''state'' = VStr ''POSTED''" "dget d' ''variance'' = dget d ''variance''"
    "ledger db' = ledger db @ [entry]" "dget entry ''variance'' = dget d ''variance''"
    "dget entry ''adjustment_id'' = VStr i"
proof -
  from assms obtain base x d1 d2 u where r: "state_of_doc (arepr A) d = ''AUTHORIZED''"
    "ledger_base e i d Inr = Inr base"
    and ins: "insert_one (astore A) LEDGER (base @ [(''posted_by'', dget actor ''username''), (''posted_at'', naive now)]) db = (Inr x, d1)"
    and tr: "adjustment_transition A now i ''POSTED'' actor ''POST_TO_LEDGER'' [] d1 = (Inr res, d2)"
    and lg: "log_governance_event (astore A) (arepr A) now ''ADJUSTMENT_POSTED'' ''POST_TO_LEDGER''
       (dget d ''session_id'') actor (dget d ''item_code'') (dget d ''location_id'') VNone VNone VNone ''SUCCESS'' [] d2 = (Inr u, db')"
    by (auto simp: post_to_ledger_def run_iff load_state_iff)
  let ?entry = "dset_default ''_id'' x (base @ [(''posted_by'', dget actor ''username''), (''posted_at'', naive now)])"
  have one: "adjustments_of i d1 = [d]" using insert_one_frame [OF ins, of ADJUSTMENTS] assms(2) by simp
  obtain d' where d': "adjustments_of i d2 = [d']" "dget d' ''state'' = VStr ''POSTED''"
    "\<forall>k \<in> set KEPT_FIELDS. dget d' k = dget d k \<and> dhas d' k = dhas d k" "ledger d2 = ledger d1"
    by (rule transition_effect [OF tr _ one]) (auto simp: transition_call_def)
  have "docs (astore A) k db' = docs (astore A) k d2" if "k \<noteq> ''governance_events''" for k
    using log_governance_event_frame [OF lg] that by blast
  then have "ledger db' = ledger db @ [?entry]" "adjustments_of i db' = [d']"
    using d'(1,4) insert_one_docs [OF ins] by simp_all
  with that [of d' ?entry] r(1) d'(2,3) ledger_base_fields [OF r(2)] show thesis
    by (auto simp: KEPT_FIELDS_def)
qed

lemma rolling_back:
  assumes "rollback_adjustment A now e i actor reason db = (Inr res, db')" and "adjustments_of i db = [d]"
  obtains d' entry w where "state_of_doc (arepr A) d = ''POSTED''" "adjustments_of i db' = [d']"
    "dget d' ''state'' = VStr ''ROLLED_BACK''" "ledger db' = ledger db @ [entry]"
    "negated (dget d ''variance'') = Inr (dget entry ''variance'')" "dget entry ''adjustment_id'' = VStr i"
proof -
  let ?rest = "[(''reversal_reason'', VStr reason), (''reversed_by'', dget actor ''username''), (''reversed_at'', naive now)]"
  from assms obtain base x d1 where r: "state_of_doc (arepr A) d = ''POSTED''" "ledger_base e i d negated = Inr base"
    and ins: "insert_one (astore A) LEDGER (base @ ?rest) db = (Inr x, d1)"
    and tr: "adjustment_transition A now i ''ROLLED_BACK'' actor ''ROLLBACK'' [(''rollback_reason'', VStr reason)] d1 = (Inr res, db')"
    by (auto simp: rollback_adjustment_def run_iff load_state_iff)
  have one: "adjustments_of i d1 = [d]" using insert_one_frame [OF ins, of ADJUSTMENTS] assms(2) by simp
  obtain d' where d': "adjustments_of i db' = [d']" "dget d' ''state'' = VStr ''ROLLED_BACK''" "ledger db' = ledger d1"
    by (rule transition_effect [OF tr _ one]) (auto simp: transition_call_def)
  with that [of d' "dset_default ''_id'' x (base @ ?rest)"] r(1) ledger_base_fields [OF r(2)] insert_one_docs [OF ins]
  show thesis by auto
qed

lemma authorizing:
  assumes "authorize A now i actor token db = (Inr res, db')" and "adjustments_of i db = [d]"
  obtains tok d' where "tok \<in> set (docs (astore A) TOKENS db)"
    "match_filter (consume_filter now token (first_text (arepr A) actor [''user_id'', ''username'']) ''inventory_adjust'') tok"
    "state_of_doc (arepr A) d = ''PENDING_AUTHORIZATION''" "adjustments_of i db' = [d']" "dget d' ''state'' = VStr ''AUTHORIZED''"
proof -
  let ?uid = "first_text (arepr A) actor [''user_id'', ''username'']"
  from assms(1) obtain b d1 where v: "validate_override_token (apins A) now token ?uid ''inventory_adjust'' db = (Inr b, d1)"
    and tr: "adjustment_transition A now i ''AUTHORIZED'' actor ''AUTHORIZE'' [] d1 = (Inr res, db')"
    by (auto simp: authorize_def run_iff)
  obtain tok ds where tok: "filter (match_filter (consume_filter now token ?uid ''inventory_adjust''))
      (docs (astore A) TOKENS db) = tok # ds" and same: "docs (astore A) ADJUSTMENTS d1 = docs (astore A) ADJUSTMENTS db"
    by (rule validate_success [OF pins_store v]) simp
  have one: "adjustments_of i d1 = [d]" using same assms(2) by simp
  obtain d' where d': "''AUTHORIZED'' \<in> set (adjustment_targets (state_of_doc (arepr A) d))"
    "adjustments_of i db' = [d']" "dget d' ''state'' = VStr ''AUTHORIZED''"
    by (rule transition_effect [OF tr _ one]) (auto simp: transition_call_def)
  have "s = ''PENDING_AUTHORIZATION''" if "''AUTHORIZED'' \<in> set (adjustment_targets s)" for s
    using that by (auto simp: adjustment_targets_def ADJUSTMENT_TRANSITIONS_def split: if_splits)
  with that [of tok d'] d' filter_hd_sat [OF tok] show thesis by blast
qed

end

section \<open>Properties\<close>

definition ledger_total :: "string \<Rightarrow> doc list \<Rightarrow> rat" where
  "ledger_total i es =
     sum_list (map (\<lambda>e. case num_of (dget e ''variance'') of Some q \<Rightarrow> q | None \<Rightarrow> 0)
       (filter (\<lambda>e. dget e ''adjustment_id'' = VStr i) es))"

lemma negated_num: "negated v = Inr w \<Longrightarrow>
  (case num_of w of Some q \<Rightarrow> q | None \<Rightarrow> 0) = - (case num_of v of Some q \<Rightarrow> q | None \<Rightarrow> 0)"
  by (cases v) auto

text \<open>(C21) An adjustment reaches the stock ledger once: posting succeeds only from AUTHORIZED, appends
  exactly one entry with the variance of the proposal, leaves the adjustment POSTED, and every
  further posting of it is refused with the database unchanged.\<close>

theorem adjustment_posts_once:
  assumes "adjustment_service A"
    and "filter (match_filter (adjustment_id_filter i)) (docs (astore A) ADJUSTMENTS db) = [d]"
    and "post_to_ledger A now entry_id i actor db = (Inr res, db')"
  shows "state_of_doc (arepr A) d = ''AUTHORIZED'' \<and>
    (\<exists>entry. docs (astore A) LEDGER db' = docs (astore A) LEDGER db @ [entry] \<and>
       dget entry ''adjustment_id'' = VStr i \<and> dget entry ''variance'' = dget d ''variance'') \<and>
    (\<exists>e. post_to_ledger A now' entry_id' i actor' db' = (Inl e, db'))"
proof -
  obtain d' entry where p: "state_of_doc (arepr A) d = ''AUTHORIZED''"
    "filter (match_filter (adjustment_id_filter i)) (docs (astore A) ADJUSTMENTS db') = [d']"
    "dget d' ''state'' = VStr ''POSTED''" "docs (astore A) LEDGER db' = docs (astore A) LEDGER db @ [entry]"
    "dget entry ''variance'' = dget d ''variance''" "dget entry ''adjustment_id'' = VStr i"
    by (rule adjustment_service.posting [OF assms(1,3,2)])
  have "state_of_doc (arepr A) d' \<noteq> ''AUTHORIZED''"
    using adjustment_service.stored_state [OF assms(1) p(3)] by simp
  from adjustment_service.load_refused [OF assms(1) p(2) this] obtain e where
    "load_and_assert_state A i ''AUTHORIZED'' db' = (Inl e, db')" by blast
  then have "\<exists>e. post_to_ledger A now' entry_id' i actor' db' = (Inl e, db')"
    by (cases "require_real_actor (arepr A) actor'") (auto simp: post_to_ledger_def run_simps)
  with p show ?thesis by blast
qed

text \<open>A rollback cancels the posting: after an adjustment has been posted and then rolled back,
  the ledger keeps both entries and they add up to nothing.\<close>

theorem rollback_nets_to_zero:
  assumes "adjustment_service A"
    and "filter (match_filter (adjustment_id_filter i)) (docs (astore A) ADJUSTMENTS db) = [d]"
    and "post_to_ledger A now entry_id i actor db = (Inr res, db1)"
    and "rollback_adjustment A now' entry_id' i actor' reason db1 = (Inr res', db2)"
  shows "length (docs (astore A) LEDGER db2) = length (docs (astore A) LEDGER db) + 2 \<and>
    ledger_total j (docs (astore A) LEDGER db2) = ledger_total j (docs (astore A) LEDGER db)"
proof -
  obtain d1 e1 where p: "filter (match_filter (adjustment_id_filter i)) (docs (astore A) ADJUSTMENTS db1) = [d1]"
    "dget d1 ''variance'' = dget d ''variance''" "docs (astore A) LEDGER db1 = docs (astore A) LEDGER db @ [e1]"
    "dget e1 ''variance'' = dget d ''variance''" "dget e1 ''adjustment_id'' = VStr i"
    by (rule adjustment_service.posting [OF assms(1,3,2)])
  obtain e2 where r: "docs (astore A) LEDGER db2 = docs (astore A) LEDGER db1 @ [e2]"
    "negated (dget d1 ''variance'') = Inr (dget e2 ''variance'')" "dget e2 ''adjustment_id'' = VStr i"
    by (rule adjustment_service.rolling_back [OF assms(1,4) p(1)])
  from p r negated_num [OF r(2)] show ?thesis by (simp add: ledger_total_def)
qed

text \<open>Closed adjustments stay closed: once an adjustment is finalized, voided or rolled back,
  submitting, posting, finalizing, voiding and rolling it back are refused and leave the database
  as it was.\<close>

theorem closed_adjustment_immutable:
  assumes "adjustment_service A"
    and "filter (match_filter (adjustment_id_filter i)) (docs (astore A) ADJUSTMENTS db) = [d]"
    and "state_of_doc (arepr A) d \<in> {''FINALIZED'', ''VOIDED'', ''ROLLED_BACK''}"
  shows "(\<exists>e. submit_for_review A now i actor db = (Inl e, db)) \<and>
    (\<exists>e. post_to_ledger A now entry_id i actor db = (Inl e, db)) \<and>
    (\<exists>e. finalize_adjustment A now i actor db = (Inl e, db)) \<and>
    (\<exists>e. void_adjustment A now i actor reason db = (Inl e, db)) \<and>
    (\<exists>e. rollback_adjustment A now entry_id i actor reason db = (Inl e, db))"
proof -
  have "adjustment_targets (state_of_doc (arepr A) d) = []" using closed_targets assms(3) by blast
  then have t: "\<exists>e. adjustment_transition A now i s actor operation extra db = (Inl e, db)" for s operation extra
    using adjustment_service.transition_refused [OF assms(1,2)] by simp
  have l: "\<exists>e. load_and_assert_state A i s db = (Inl e, db)" if "s \<in> {''AUTHORIZED'', ''POSTED''}" for s
    using adjustment_service.load_refused [OF assms(1,2)] assms(3) that by fastforce
  from l [of "''AUTHORIZED''"] l [of "''POSTED''"]
  have "(\<exists>e. post_to_ledger A now entry_id i actor db = (Inl e, db)) \<and>
    (\<exists>e. rollback_adjustment A now entry_id i actor reason db = (Inl e, db))"
    by (cases "require_real_actor (arepr A) actor")
       (auto simp: post_to_ledger_def rollback_adjustment_def run_simps)
  with t show ?thesis
    by (simp add: submit_for_review_def finalize_adjustment_def void_adjustment_def)
qed

text \<open>Authorization takes a supervisor's token: an adjustment becomes AUTHORIZED only from
  PENDING_AUTHORIZATION and only by consuming an unused, unexpired override token that was issued
  to the authorizing user for inventory adjustments.\<close>

theorem authorization_needs_token:
  assumes "adjustment_service A"
    and "filter (match_filter (adjustment_id_filter i)) (docs (astore A) ADJUSTMENTS db) = [d]"
    and "authorize A now i actor token db = (Inr res, db')"
  shows "state_of_doc (arepr A) d = ''PENDING_AUTHORIZATION'' \<and>
    (\<exists>tok \<in> set (docs (astore A) TOKENS db). match_filter (consume_filter now token
       (first_text (arepr A) actor [''user_id'', ''username'']) ''inventory_adjust'') tok) \<and>
    (\<exists>d'. filter (match_filter (adjustment_id_filter i)) (docs (astore A) ADJUSTMENTS db') = [d'] \<and>
       dget d' ''state'' = VStr ''AUTHORIZED'')"
  by (rule adjustment_service.authorizing [OF assms(1,3,2)]) blast

section \<open>Instances\<close>

definition mem_adjustments :: "memdb pin_service \<Rightarrow> memdb adjustments" where
  "mem_adjustments P =
     \<lparr>astore = pin_store P, arepr = (\<lambda>_. []), apins = P, enum_text = (\<lambda>s. s), isoformat = (\<lambda>_. [])\<rparr>"

interpretation demo_adjustments: adjustment_service "mem_adjustments demo_pins"
  using demo_pins_store by (simp add: adjustment_service_def adjustment_service_axioms_def mem_adjustments_def)

definition demo_adjustment :: "string \<Rightarrow> doc" where
  "demo_adjustment s =
     [(''id'', VStr ''a1''), (''session_id'', VStr ''s1''), (''item_code'', VStr ''I1''), (''location_id'', VStr ''L''),
      (''variance'', VFloat 2), (''state'', VStr s)]"

definition demo_adjustment_db :: "string \<Rightarrow> memdb" where
  "demo_adjustment_db s = \<lparr>colls = (\<lambda>c. if c = ADJUSTMENTS then [demo_adjustment s]
     else if c = TOKENS then [token_doc 0 ''raw.a1'' ''u'' ''inventory_adjust'' 100] else []), next_id = 0\<rparr>"

definition demo_actor :: doc where
  "demo_actor = [(''user_id'', VStr ''u''), (''username'', VStr ''u'')]"

lemma demo_adjustment_unique:
  "filter (match_filter (adjustment_id_filter ''a1'')) (docs (astore (mem_adjustments demo_pins)) ADJUSTMENTS (demo_adjustment_db s)) =
   [demo_adjustment s]"
  by (simp add: mem_adjustments_def demo_pins_def demo_adjustment_db_def adjustment_id_filter_def demo_adjustment_def
      field_values_def dget_def)

lemma demo_posted:
  obtains res db' where "post_to_ledger (mem_adjustments demo_pins) 1 ''e1'' ''a1'' demo_actor (demo_adjustment_db ''AUTHORIZED'') = (Inr res, db')"
    "case fst (rollback_adjustment (mem_adjustments demo_pins) 2 ''e2'' ''a1'' demo_actor ''wrong'' db') of Inl _ \<Rightarrow> False | Inr _ \<Rightarrow> True"
proof -
  let ?run = "post_to_ledger (mem_adjustments demo_pins) 1 ''e1'' ''a1'' demo_actor (demo_adjustment_db ''AUTHORIZED'')"
  have "case ?run of (Inl _, _) \<Rightarrow> False | (Inr _, db') \<Rightarrow>
    (case fst (rollback_adjustment (mem_adjustments demo_pins) 2 ''e2'' ''a1'' demo_actor ''wrong'' db') of Inl _ \<Rightarrow> False | Inr _ \<Rightarrow> True)"
    by code_simp
  with that show thesis by (cases ?run) (auto split: sum.splits)
qed

lemma adjustment_posts_once_witness:
  "\<exists>e db'. db' = snd (post_to_ledger (mem_adjustments demo_pins) 1 ''e1'' ''a1'' demo_actor (demo_adjustment_db ''AUTHORIZED'')) \<and>
     post_to_ledger (mem_adjustments demo_pins) 2 ''e2'' ''a1'' demo_actor db' = (Inl e, db')"
proof -
  obtain res db' where r: "post_to_ledger (mem_adjustments demo_pins) 1 ''e1'' ''a1'' demo_actor (demo_adjustment_db ''AUTHORIZED'') = (Inr res, db')"
    by (rule demo_posted)
  from adjustment_posts_once [OF demo_adjustments.adjustment_service_axioms demo_adjustment_unique r] r show ?thesis by auto
qed

lemma rollback_nets_to_zero_witness:
  "\<exists>db'. ledger_total ''a1'' (docs (astore (mem_adjustments demo_pins)) LEDGER db') = 0 \<and>
     length (docs (astore (mem_adjustments demo_pins)) LEDGER db') = 2"
proof -
  let ?A = "mem_adjustments demo_pins"
  obtain res db' where r: "post_to_ledger ?A 1 ''e1'' ''a1'' demo_actor (demo_adjustment_db ''AUTHORIZED'') = (Inr res, db')"
    and b: "case fst (rollback_adjustment ?A 2 ''e2'' ''a1'' demo_actor ''wrong'' db') of Inl _ \<Rightarrow> False | Inr _ \<Rightarrow> True"
    by (rule demo_posted)
  from b obtain res2 db2 where r2: "rollback_adjustment ?A 2 ''e2'' ''a1'' demo_actor ''wrong'' db' = (Inr res2, db2)"
    by (cases "rollback_adjustment ?A 2 ''e2'' ''a1'' demo_actor ''wrong'' db'") (auto split: sum.splits)
  have "docs (astore ?A) LEDGER (demo_adjustment_db ''AUTHORIZED'') = []"
    by (simp add: mem_adjustments_def demo_pins_def demo_adjustment_db_def)
  with rollback_nets_to_zero [OF demo_adjustments.adjustment_service_axioms demo_adjustment_unique r r2, of "''a1''"]
  show ?thesis by (auto simp: ledger_total_def)
qed

lemma closed_adjustment_immutable_witness:
  "\<exists>e. void_adjustment (mem_adjustments demo_pins) 1 ''a1'' demo_actor ''r'' (demo_adjustment_db ''FINALIZED'') =
     (Inl e, demo_adjustment_db ''FINALIZED'')"
proof -
  have "state_of_doc (arepr (mem_adjustments demo_pins)) (demo_adjustment ''FINALIZED'') \<in> {''FINALIZED'', ''VOIDED'', ''ROLLED_BACK''}"
    by code_simp
  from closed_adjustment_immutable [OF demo_adjustments.adjustment_service_axioms demo_adjustment_unique this] show ?thesis by blast
qed

lemma authorization_needs_token_witness:
  "\<exists>tok \<in> set (docs (astore (mem_adjustments demo_pins)) TOKENS (demo_adjustment_db ''PENDING_AUTHORIZATION'')).
     match_filter (consume_filter 5 ''raw.a1'' ''u'' ''inventory_adjust'') tok"
proof -
  let ?run = "authorize (mem_adjustments demo_pins) 5 ''a1'' demo_actor ''raw.a1'' (demo_adjustment_db ''PENDING_AUTHORIZATION'')"
  have "case fst ?run of Inl _ \<Rightarrow> False | Inr _ \<Rightarrow> True" by code_simp
  then obtain res db' where r: "?run = (Inr res, db')" by (cases ?run) (auto split: sum.splits)
  have "first_text (arepr (mem_adjustments demo_pins)) demo_actor [''user_id'', ''username''] = ''u''" by code_simp
  with authorization_needs_token [OF demo_adjustments.adjustment_service_axioms demo_adjustment_unique r] show ?thesis by simp
qed

end
