(* ===== verification/ApprovalEngine.thy ===== *)
theory ApprovalEngine
  imports DocumentStore
begin

text \<open>
  The approval engine (\<open>services/approval_engine.py\<close>): an observation is approved
  automatically when its count agrees with the ERP quantity and fourteen rules pass, otherwise it
  goes to a supervisor.

  The argument \<open>db\<close> of the source is the record \<open>database\<close>: its store, and the outcome of the
  truth test of the database and of its collections (\<open>if db\<close>). \<open>None\<close> tests false, the
  in-memory database tests true, and a driver may refuse the test. \<open>rp\<close> is \<open>str()\<close> of the values
  the sources only print.
\<close>

section \<open>Values\<close>

text \<open>Iteration over a value, \<open>v.get(k)\<close>, \<open>hash(v)\<close> and \<open>sep.join(vs)\<close>.\<close>

fun iter_values :: "val \<Rightarrow> val list res" where
  "iter_values (VList xs) = Inr xs"
| "iter_values (VStr s) = Inr (map (\<lambda>c. VStr [c]) s)"
| "iter_values (VDict d) = Inr (map (VStr \<circ> fst) d)"
| "iter_values _ = Inl (TypeError ''object is not iterable'')"

fun attr_get :: "val \<Rightarrow> string \<Rightarrow> val res" where
  "attr_get (VDict d) k = Inr (dget d k)"
| "attr_get _ k = Inl (AttributeError ''get'')"

fun hashable :: "val \<Rightarrow> bool" where
  "hashable (VList _) = False"
| "hashable (VDict _) = False"
| "hashable _ = True"

fun join_values :: "val list \<Rightarrow> string list \<Rightarrow> string res" where
  "join_values [] acc = Inr (join '','' acc)"
| "join_values (VStr s # vs) acc = join_values vs (acc @ [s])"
| "join_values (_ # vs) acc = Inl (TypeError ''sequence item: expected str instance'')"

text \<open>\<open>float(v or 0)\<close>, and the sum of \<open>float(b.get(k) or 0)\<close> over a list.\<close>

definition float_or_zero :: "val \<Rightarrow> rat res" where
  "float_or_zero v = to_float (py_or v (VInt 0))"

fun sum_field :: "string \<Rightarrow> val list \<Rightarrow> rat \<Rightarrow> rat res" where
  "sum_field k [] acc = Inr acc"
| "sum_field k (b # bs) acc =
     bindR (attr_get b k) (\<lambda>v. bindR (float_or_zero v) (\<lambda>q. sum_field k bs (acc + q)))"

text \<open>\<open>f"{q:.1f}"\<close> of a number that is not negative.\<close>

definition format_1f :: "rat \<Rightarrow> string" where
  "format_1f q =
     (let n = nat (round_half_even (q * 10)) in show_nat (n div 10) @ ''.'' @ show_nat (n mod 10))"

section \<open>Results of rules\<close>

record rule_result =
  passed :: bool
  detail :: string

definition rule_ok :: "string \<Rightarrow> rule_result" where
  "rule_ok d = \<lparr>passed = True, detail = d\<rparr>"

definition rule_fail :: "string \<Rightarrow> string \<Rightarrow> rule_result" where
  "rule_fail d extra = \<lparr>passed = False, detail = (if extra = [] then d else d @ '':'' @ extra)\<rparr>"

record 'db database =
  db_store :: "'db store"
  db_truth :: "bool res"
  coll_truth :: "bool res"

section \<open>The rules\<close>

definition compute_variance :: "rat \<Rightarrow> val \<Rightarrow> rat res" where
  "compute_variance physical sql_qty =
     (case num_of sql_qty of
        None \<Rightarrow> Inl (TypeError ''unsupported operand type(s) for -'')
      | Some q \<Rightarrow> Inr (py_round 4 (physical - q)))"

definition check_batch_variance :: "repr \<Rightarrow> doc \<Rightarrow> rule_result res" where
  "check_batch_variance rp obs =
     (let batches = dget obs ''batches'' in
      if \<not> truthy batches then Inr (rule_ok ''no_batches'')
      else bindR (iter_values batches) (\<lambda>bs.
        bindR (sum_field ''counted_qty'' bs 0) (\<lambda>physical.
        bindR (sum_field ''sql_qty'' bs 0) (\<lambda>sql.
          Inr (if \<bar>physical - sql\<bar> > 1 / 10000
               then rule_fail ''batch_wise_variance''
                 (''physical='' @ py_str rp (VFloat physical) @ '', sql='' @ py_str rp (VFloat sql))
               else rule_ok ''batch_variance_match'')))))"

fun serials_of :: "val list \<Rightarrow> val list res" where
  "serials_of [] = Inr []"
| "serials_of (e # es) =
     bindR (attr_get e ''serial_number'') (\<lambda>v.
       bindR (serials_of es) (\<lambda>vs. Inr (if truthy v then v # vs else vs)))"

fun duplicates_loop :: "val list \<Rightarrow> val list \<Rightarrow> val list \<Rightarrow> val list res" where
  "duplicates_loop [] seen dupes = Inr dupes"
| "duplicates_loop (s # ss) seen dupes =
     (if \<not> hashable s then Inl (TypeError ''unhashable type'')
      else duplicates_loop ss (s # seen) (if py_in s seen then dupes @ [s] else dupes))"

definition check_serial_integrity :: "doc \<Rightarrow> rule_result res" where
  "check_serial_integrity obs =
     (let entries = dget obs ''serial_entries'' in
      if \<not> truthy entries then Inr (rule_ok ''no_serials'')
      else bindR (iter_values entries) (\<lambda>es.
        bindR (serials_of es) (\<lambda>serials.
        bindR (duplicates_loop serials [] []) (\<lambda>dupes.
          if dupes \<noteq> [] then bindR (join_values dupes []) (\<lambda>s. Inr (rule_fail ''duplicate_serials'' s))
          else Inr (rule_ok ''serial_unique'')))))"

definition dates_differ :: "val \<Rightarrow> val \<Rightarrow> bool" where
  "dates_differ a b = (truthy a \<and> truthy b \<and> \<not> py_eq a b)"

definition check_attribute_mismatch :: "repr \<Rightarrow> doc \<Rightarrow> rule_result res" where
  "check_attribute_mismatch rp obs =
     (let counted = dget obs ''mrp_counted''; sql = dget obs ''mrp_sql'' in
      if counted \<noteq> VNone \<and> sql \<noteq> VNone \<and> \<not> py_eq counted sql
      then Inr (rule_fail ''mrp_mismatch'' (''counted='' @ py_str rp counted @ '', sql='' @ py_str rp sql))
      else if dates_differ (dget obs ''manufacturing_date'') (dget obs ''manufacturing_date_sql'') \<or>
        dates_differ (dget obs ''expiry_date'') (dget obs ''expiry_date_sql'')
      then Inr (rule_fail ''date_mismatch'' [])
      else Inr (rule_ok ''attributes_match''))"

definition actual_location :: "doc \<Rightarrow> val" where
  "actual_location obs =
     py_or (py_or (dget obs ''location_id'') (dget obs ''mark_location'')) (dget obs ''rack_no'')"

definition check_location_policy :: "repr \<Rightarrow> doc \<Rightarrow> rule_result res" where
  "check_location_policy rp obs =
     (let expected = dget obs ''expected_location''; actual = actual_location obs in
      Inr (if truthy expected \<and> truthy actual \<and> \<not> py_eq expected actual
           then rule_fail ''location_mismatch''
             (''expected='' @ py_str rp expected @ '', actual='' @ py_str rp actual)
           else rule_ok ''location_ok''))"

definition check_damaged_stock :: "repr \<Rightarrow> doc \<Rightarrow> rule_result res" where
  "check_damaged_stock rp obs =
     bindR (float_or_zero (dget obs ''damaged_qty'')) (\<lambda>damaged.
     bindR (float_or_zero (dget obs ''non_returnable_damaged_qty'')) (\<lambda>nr.
       let condition = dget obs ''item_condition'' in
       Inr (if damaged > 0 \<or> nr > 0 \<or> truthy condition
            then rule_fail ''damaged_or_condition''
              (''damaged='' @ py_str rp (VFloat damaged) @ '', nr='' @ py_str rp (VFloat nr) @
               '', condition='' @ py_str rp condition)
            else rule_ok ''no_damage'')))"

definition check_provisional :: "doc \<Rightarrow> rule_result res" where
  "check_provisional obs =
     (if truthy (py_or (py_or (dget obs ''is_provisional_batch'') (dget obs ''is_provisional_bundle''))
        (dget obs ''is_new_bundle''))
      then Inr (rule_fail ''provisional_or_internal_barcode'' [])
      else (case py_or (dget obs ''barcode'') (VStr []) of
          VStr s \<Rightarrow> Inr (if starts_with s ''500100'' then rule_fail ''provisional_or_internal_barcode'' []
             else rule_ok ''not_provisional'')
        | _ \<Rightarrow> Inl (AttributeError ''startswith'')))"

definition check_mandatory_remark :: "doc \<Rightarrow> rule_result res" where
  "check_mandatory_remark obs =
     (case py_or (dget obs ''remark'') (VStr []) of
        VStr s \<Rightarrow> Inr (if strip s = [] then rule_fail ''missing_remark'' [] else rule_ok ''remark_present'')
      | _ \<Rightarrow> Inl (AttributeError ''strip''))"

definition missing_keys :: "doc \<Rightarrow> string list" where
  "missing_keys checks = map fst (filter (\<lambda>(_, v). \<not> truthy v) checks)"

definition check_required_parameters :: "doc \<Rightarrow> rule_result res" where
  "check_required_parameters obs =
     (case py_or (dget obs ''parameter_checks'') (VDict []) of
        VDict checks \<Rightarrow> Inr (if missing_keys checks \<noteq> []
          then rule_fail ''missing_parameters'' (join '','' (missing_keys checks))
          else rule_ok ''parameters_complete'')
      | _ \<Rightarrow> Inl (AttributeError ''items''))"

definition check_accessory_completeness :: "doc \<Rightarrow> rule_result res" where
  "check_accessory_completeness obs =
     (case py_or (dget obs ''accessory_checks'') (VDict []) of
        VDict checks \<Rightarrow> Inr (if missing_keys checks \<noteq> []
          then rule_fail ''missing_accessories'' (join '','' (missing_keys checks))
          else rule_ok ''accessories_complete'')
      | _ \<Rightarrow> Inr (rule_ok ''no_checks''))"

definition check_photo_evidence :: "doc \<Rightarrow> rule_result res" where
  "check_photo_evidence obs =
     Inr (if truthy (dget obs ''photo_proofs'') then rule_ok ''photos_present''
          else rule_fail ''missing_photos'' [])"

definition check_sync_conflict :: "doc \<Rightarrow> rule_result res" where
  "check_sync_conflict obs =
     (let status = dget obs ''sync_status'' in
      Inr (if status = VStr ''conflict'' then rule_fail ''sync_conflict'' ''conflict''
           else if status = VStr ''failed'' then rule_fail ''sync_conflict'' ''failed''
           else rule_ok ''sync_ok''))"

definition check_policy_thresholds :: "doc \<Rightarrow> rule_result res" where
  "check_policy_thresholds obs =
     bindR (float_or_zero (dget obs ''variance'')) (\<lambda>variance.
     bindR (float_or_zero (dget obs ''counted_qty'')) (\<lambda>counted.
       let pct = \<bar>variance / counted\<bar> * 100 in
       Inr (if counted > 0 \<and> pct > 50 then rule_fail ''high_variance_pct'' (format_1f pct @ ''%'')
            else rule_ok ''threshold_ok'')))"

text \<open>
  The two rules that read the database. \<open>with_collection\<close> is
  \<open>coll = db[name] if db else None; if not coll: return ok\<close>.
\<close>

definition checkable :: "doc \<Rightarrow> bool" where
  "checkable obs = (truthy (dget obs ''session_id'') \<and> truthy (dget obs ''item_code''))"

definition with_collection ::
  "'db database \<Rightarrow> ('db, rule_result) comp \<Rightarrow> ('db, rule_result) comp" where
  "with_collection D body =
     bindM (liftM (db_truth D)) (\<lambda>present.
       if \<not> present then returnM (rule_ok ''no_db'')
       else bindM (liftM (coll_truth D)) (\<lambda>usable.
         if \<not> usable then returnM (rule_ok ''no_db'') else body))"

definition investigation_filter :: "doc \<Rightarrow> query" where
  "investigation_filter obs =
     [(''observation_id'', CEq (dget obs ''id'')), (''response'', CEq (VStr ''NOT_CHECKED''))]"

definition check_additional_location_investigation ::
  "'db database \<Rightarrow> doc \<Rightarrow> ('db, rule_result) comp" where
  "check_additional_location_investigation D obs =
     (if \<not> checkable obs then returnM (rule_ok ''no_investigation_checkable'')
      else with_collection D
        (bindM (find_all (db_store D) ''additional_location_investigations'' (investigation_filter obs))
          (\<lambda>found. returnM (if to_list 1 found \<noteq> [] then rule_fail ''pending_investigation'' []
             else rule_ok ''investigation_clear''))))"

definition concurrent_filter :: "doc \<Rightarrow> query" where
  "concurrent_filter obs =
     [(''session_id'', CEq (dget obs ''session_id'')), (''item_code'', CEq (dget obs ''item_code'')),
      (''status'', CNin [VStr ''APPROVED'', VStr ''AUTO_APPROVED''])]"

definition check_concurrent_conflict :: "repr \<Rightarrow> 'db database \<Rightarrow> doc \<Rightarrow> ('db, rule_result) comp" where
  "check_concurrent_conflict rp D obs =
     (if \<not> checkable obs then returnM (rule_ok ''no_conflict_checkable'')
      else with_collection D
        (bindM (find_all (db_store D) ''count_observations'' (concurrent_filter obs))
          (\<lambda>found. returnM
             (if list_ex (\<lambda>d. py_str rp (dget d ''id'') \<noteq> py_str rp (dget obs ''id'')) (to_list 2 found)
              then rule_fail ''concurrent_observation'' [] else rule_ok ''no_conflict''))))"

section \<open>Evaluation\<close>

datatype sql_availability = AVAILABLE_AT_SUBMISSION | AVAILABLE_AT_SYNC | RECONSTRUCTED | UNAVAILABLE

fun sql_availability_value :: "sql_availability \<Rightarrow> string" where
  "sql_availability_value AVAILABLE_AT_SUBMISSION = ''AVAILABLE_AT_SUBMISSION''"
| "sql_availability_value AVAILABLE_AT_SYNC = ''AVAILABLE_AT_SYNC''"
| "sql_availability_value RECONSTRUCTED = ''RECONSTRUCTED''"
| "sql_availability_value UNAVAILABLE = ''UNAVAILABLE''"

definition determine_sql_source :: "doc \<Rightarrow> sql_availability" where
  "determine_sql_source obs =
     (if dget obs ''sql_qty_at_submission'' \<noteq> VNone then AVAILABLE_AT_SUBMISSION
      else if dget obs ''reconstructed_qty'' \<noteq> VNone then RECONSTRUCTED
      else if py_or (dget obs ''sql_qty_at_recount'') (dget obs ''sql_quantity'') \<noteq> VNone
      then AVAILABLE_AT_SYNC else UNAVAILABLE)"

record approval_result =
  observation_id :: string
  approved :: bool
  rules_passed :: "doc list"
  sql_quantity_source :: sql_availability
  sql_comparison_source :: "string option"
  block_reason :: "string option"

definition rule_doc :: "string \<Rightarrow> bool \<Rightarrow> string \<Rightarrow> doc" where
  "rule_doc name ok d = [(''rule_name'', VStr name), (''passed'', VBool ok), (''detail'', VStr d)]"

text \<open>The rules in the order of the source: name, the exception of a failure, the check.\<close>

definition approval_rules ::
  "repr \<Rightarrow> 'db database \<Rightarrow> doc \<Rightarrow> (string \<times> string \<times> ('db, rule_result) comp) list" where
  "approval_rules rp D obs =
     [(''batch_variance'', ''BATCH_VARIANCE'', liftM (check_batch_variance rp obs)),
      (''serial_integrity'', ''SERIAL_CONFLICT'', liftM (check_serial_integrity obs)),
      (''attribute_match'', ''ATTRIBUTE_MISMATCH'', liftM (check_attribute_mismatch rp obs)),
      (''location_policy'', ''LOCATION_MISMATCH'', liftM (check_location_policy rp obs)),
      (''damaged_stock'', ''DAMAGED_STOCK'', liftM (check_damaged_stock rp obs)),
      (''provisional_items'', ''PROVISIONAL_BATCH'', liftM (check_provisional obs)),
      (''additional_location'', ''LOCATION_INVESTIGATION'', check_additional_location_investigation D obs),
      (''mandatory_remark'', ''INCOMPLETE_EVIDENCE'', liftM (check_mandatory_remark obs)),
      (''required_parameters'', ''ATTRIBUTE_MISMATCH'', liftM (check_required_parameters obs)),
      (''accessory_checks'', ''INCOMPLETE_EVIDENCE'', liftM (check_accessory_completeness obs)),
      (''photo_evidence'', ''INCOMPLETE_EVIDENCE'', liftM (check_photo_evidence obs)),
      (''concurrent_conflict'', ''CONCURRENT_OBSERVATION'', check_concurrent_conflict rp D obs),
      (''sync_conflict'', ''SYNC_CONFLICT'', liftM (check_sync_conflict obs)),
      (''policy_thresholds'', ''POLICY_THRESHOLD'', liftM (check_policy_thresholds obs))]"

type_synonym failures = "(string \<times> string) list"

fun run_rules ::
  "(string \<times> string \<times> ('db, rule_result) comp) list \<Rightarrow> doc list \<Rightarrow> failures \<Rightarrow>
   ('db, doc list \<times> failures) comp" where
  "run_rules [] rules fails = returnM (rules, fails)"
| "run_rules ((name, exc, check) # rs) rules fails =
     bindM check (\<lambda>r. run_rules rs (rules @ [rule_doc name (passed r) (detail r)])
       (if passed r then fails else fails @ [(exc, detail r)]))"

definition exception_doc :: "string \<times> string \<Rightarrow> val" where
  "exception_doc = (\<lambda>(exc, d).
     VDict [(''exception_type'', VStr exc), (''description'', VStr d), (''is_blocking'', VBool True)])"

definition recommendation :: "bool \<Rightarrow> sql_availability \<Rightarrow> string" where
  "recommendation ok source =
     (if source = UNAVAILABLE then ''PENDING_SQL''
      else if ok then ''AUTO_APPROVE'' else ''SUPERVISOR_REVIEW'')"

definition review_status :: "bool \<Rightarrow> val" where
  "review_status ok = VStr (if ok then ''AUTO_APPROVED'' else ''SUPERVISOR_REVIEW'')"

definition stamp_observation :: "bool \<Rightarrow> sql_availability \<Rightarrow> rat \<Rightarrow> failures \<Rightarrow> doc \<Rightarrow> doc" where
  "stamp_observation ok source variance fails obs =
     dmerge obs
       [(''exception_types'', VList (map (VStr \<circ> fst) fails)),
        (''exception_details'', VList (map exception_doc fails)),
        (''system_recommendation'', VStr (recommendation ok source)),
        (''variance'', VFloat variance),
        (''status'', review_status ok),
        (''approval_status'', review_status ok)]"

definition comparison_source :: "sql_availability \<Rightarrow> string option" where
  "comparison_source source =
     (if source = UNAVAILABLE then None else Some (sql_availability_value source))"

definition reason_text :: "failures \<Rightarrow> string" where
  "reason_text fails = join ''; '' (map (\<lambda>(exc, d). if d = [] then exc else d) fails)"

text \<open>The outcome of the rules: the result and the observation with its verdict.\<close>

definition conclude ::
  "string \<Rightarrow> sql_availability \<Rightarrow> rat \<Rightarrow> doc \<Rightarrow> doc list \<times> failures \<Rightarrow> approval_result \<times> doc" where
  "conclude oid source variance obs = (\<lambda>(rules, fails).
     let ok = (fails = [] \<and> variance = 0) in
     (\<lparr>observation_id = oid, approved = ok, rules_passed = rules, sql_quantity_source = source,
       sql_comparison_source = comparison_source source,
       block_reason = (if ok then None else Some (reason_text fails))\<rparr>,
      stamp_observation ok source variance fails obs))"

definition evaluate_quantities ::
  "repr \<Rightarrow> 'db database \<Rightarrow> string \<Rightarrow> val \<Rightarrow> doc \<Rightarrow> ('db, approval_result \<times> doc) comp" where
  "evaluate_quantities rp D oid sql_qty obs =
     bindM (liftM (float_or_zero (dget obs ''counted_qty''))) (\<lambda>physical.
     bindM (liftM (compute_variance physical sql_qty)) (\<lambda>variance.
       let obs' = dput ''variance'' (VFloat variance) obs in
       bindM (run_rules (approval_rules rp D obs')
           [rule_doc ''sql_fetched_at_submission'' True (py_str rp sql_qty)] [])
         (\<lambda>out. returnM (conclude oid (determine_sql_source obs) variance obs' out))))"

definition blocked :: "string \<Rightarrow> doc list \<Rightarrow> sql_availability \<Rightarrow> string \<Rightarrow> approval_result" where
  "blocked oid rules source reason =
     \<lparr>observation_id = oid, approved = False, rules_passed = rules, sql_quantity_source = source,
      sql_comparison_source = None, block_reason = Some reason\<rparr>"

definition evaluate :: "repr \<Rightarrow> 'db database \<Rightarrow> doc \<Rightarrow> ('db, approval_result \<times> doc) comp" where
  "evaluate rp D obs =
     (let oid = py_or (dget obs ''id'') (dget obs ''_id'');
          sql_qty = dget obs ''sql_qty_at_submission'';
          source = determine_sql_source obs in
      if \<not> truthy oid then returnM (blocked ''unknown'' [] UNAVAILABLE ''missing_observation_id'', obs)
      else if \<not> truthy sql_qty \<and> source \<noteq> AVAILABLE_AT_SYNC
      then returnM (blocked (py_str rp oid)
        [rule_doc ''sql_fetched_at_submission'' False ''SQL unavailable at submission''] source
        ''sql_unavailable'', obs)
      else evaluate_quantities rp D (py_str rp oid)
        (if sql_qty = VNone then VFloat 0 else sql_qty) obs)"

section \<open>Clean runs\<close>

definition reads_only :: "('db, 'a) comp \<Rightarrow> bool" where
  "reads_only m \<longleftrightarrow> (\<forall>P. keeps P m)"

lemma reads_only_run: "reads_only m \<Longrightarrow> m db = (r, db') \<Longrightarrow> db' = db"
  by (auto simp: reads_only_def intro: keeps_eqD [of "\<lambda>s. s"])

lemma reads_only_rules: "(name, exc, check) \<in> set (approval_rules rp D obs) \<Longrightarrow> reads_only check"
  unfolding reads_only_def approval_rules_def
  by (auto simp: check_additional_location_investigation_def check_concurrent_conflict_def
      with_collection_def intro!: keeps_intros)

lemma run_rules_clean:
  assumes "run_rules rs rules fails db = (Inr (out, out_fails), db')"
    and "\<forall>(_, _, check) \<in> set rs. reads_only check"
  shows "db' = db \<and> (out_fails = [] \<longrightarrow>
    fails = [] \<and> (\<forall>(_, _, check) \<in> set rs. \<exists>r. check db = (Inr r, db) \<and> passed r))"
  using assms
proof (induction rs arbitrary: rules fails)
  case Nil
  then show ?case by (simp add: run_iff)
next
  case (Cons rule rs)
  obtain name exc check where rule: "rule = (name, exc, check)" by (cases rule)
  with Cons.prems(1) obtain r t where r: "check db = (Inr r, t)"
    and rest: "run_rules rs (rules @ [rule_doc name (passed r) (detail r)])
      (if passed r then fails else fails @ [(exc, detail r)]) t = (Inr (out, out_fails), db')"
    by (auto simp: run_iff)
  from Cons.prems(2) rule r have "t = db" by (auto dest: reads_only_run)
  with rest Cons.prems(2) rule have "db' = db \<and> (out_fails = [] \<longrightarrow>
    (if passed r then fails else fails @ [(exc, detail r)]) = [] \<and>
    (\<forall>(_, _, check) \<in> set rs. \<exists>r. check db = (Inr r, db) \<and> passed r))"
    by (intro Cons.IH) auto
  with rule r \<open>t = db\<close> show ?case by (cases "passed r") auto
qed

text \<open>An approval was concluded from a clean run of the rules on equal quantities.\<close>

lemma approved_run:
  assumes "evaluate rp D obs db = (Inr (res, obs'), db')" and "approved res"
  obtains physical sql where "float_or_zero (dget obs ''counted_qty'') = Inr physical"
    "num_of (if dget obs ''sql_qty_at_submission'' = VNone then VFloat 0
       else dget obs ''sql_qty_at_submission'') = Some sql"
    "py_round 4 (physical - sql) = 0" "db' = db"
    "\<forall>(_, _, check) \<in> set (approval_rules rp D (dput ''variance'' (VFloat 0) obs)).
       \<exists>r. check db = (Inr r, db) \<and> passed r"
    "obs' = stamp_observation True (determine_sql_source obs) 0 [] (dput ''variance'' (VFloat 0) obs)"
proof -
  define q where "q = (if dget obs ''sql_qty_at_submission'' = VNone then VFloat 0
    else dget obs ''sql_qty_at_submission'')"
  from assms obtain oid where "evaluate_quantities rp D oid q obs db = (Inr (res, obs'), db')"
    by (auto simp: evaluate_def Let_def q_def blocked_def run_iff split: if_splits)
  then obtain physical variance rules fails where p: "float_or_zero (dget obs ''counted_qty'') = Inr physical"
    and v: "compute_variance physical q = Inr variance"
    and run: "run_rules (approval_rules rp D (dput ''variance'' (VFloat variance) obs))
      [rule_doc ''sql_fetched_at_submission'' True (py_str rp q)] [] db = (Inr (rules, fails), db')"
    and out: "conclude oid (determine_sql_source obs) variance (dput ''variance'' (VFloat variance) obs)
      (rules, fails) = (res, obs')"
    by (auto simp: evaluate_quantities_def Let_def run_iff)
  from out assms(2) have ok: "fails = []" "variance = 0"
    "obs' = stamp_observation True (determine_sql_source obs) 0 [] (dput ''variance'' (VFloat 0) obs)"
    by (auto simp: conclude_def Let_def)
  from v ok obtain sql where "num_of q = Some sql" "py_round 4 (physical - sql) = 0"
    by (auto simp: compute_variance_def split: option.splits)
  moreover from run_rules_clean [OF run] ok reads_only_rules have "db' = db"
    "\<forall>(_, _, check) \<in> set (approval_rules rp D (dput ''variance'' (VFloat 0) obs)).
       \<exists>r. check db = (Inr r, db) \<and> passed r" by blast+
  ultimately show thesis using p ok that unfolding q_def by blast
qed

lemma passed_ok [simp]: "passed (rule_ok d)" "\<not> passed (rule_fail d e)" "rule_fail d e \<noteq> rule_ok k"
  by (simp_all add: rule_ok_def rule_fail_def)

text \<open>What a passed rule says of the observation.\<close>

lemma damaged_stock_passed:
  assumes "check_damaged_stock rp obs = Inr r" "passed r"
  shows "\<exists>damaged nr. float_or_zero (dget obs ''damaged_qty'') = Inr damaged \<and> damaged \<le> 0 \<and>
    float_or_zero (dget obs ''non_returnable_damaged_qty'') = Inr nr \<and> nr \<le> 0 \<and>
    \<not> truthy (dget obs ''item_condition'')"
  using assms by (auto simp: check_damaged_stock_def Let_def run_iff split: if_splits)

lemma mandatory_remark_passed:
  assumes "check_mandatory_remark obs = Inr r" "passed r"
  shows "\<exists>s. dget obs ''remark'' = VStr s \<and> strip s \<noteq> []"
  using assms by (auto simp: check_mandatory_remark_def py_or_def strip_def split: val.splits if_splits)

lemma duplicates_loop_free:
  assumes "duplicates_loop ss seen dupes = Inr []"
  shows "dupes = [] \<and> sorted_wrt (\<lambda>a b. \<not> py_eq b a) ss \<and> (\<forall>s \<in> set ss. \<not> py_in s seen)"
  using assms
  by (induction ss arbitrary: seen dupes) (fastforce simp: py_in_def split: if_splits)+

lemma serial_integrity_passed:
  assumes "check_serial_integrity obs = Inr r" "passed r" "dget obs ''serial_entries'' = VList es"
  shows "\<exists>serials. serials_of es = Inr serials \<and> sorted_wrt (\<lambda>a b. \<not> py_eq b a) serials"
  using assms
  by (cases es) (auto simp: check_serial_integrity_def Let_def run_iff split: if_splits
      dest!: duplicates_loop_free)

lemma batch_variance_passed:
  assumes "check_batch_variance rp obs = Inr r" "passed r" "dget obs ''batches'' = VList bs" "bs \<noteq> []"
  shows "\<exists>physical sql. sum_field ''counted_qty'' bs 0 = Inr physical \<and>
    sum_field ''sql_qty'' bs 0 = Inr sql \<and> \<bar>physical - sql\<bar> \<le> 1 / 10000"
  using assms by (auto simp: check_batch_variance_def Let_def run_iff split: if_splits)

lemma investigation_passed:
  assumes "check_additional_location_investigation D obs db = (Inr r, db)" "passed r"
    and "checkable obs" "db_truth D = Inr True" "coll_truth D = Inr True"
  shows "find_docs (db_store D) ''additional_location_investigations'' (investigation_filter obs) db = []"
  using assms
  by (cases "find_docs (db_store D) ''additional_location_investigations'' (investigation_filter obs) db")
     (auto simp: check_additional_location_investigation_def with_collection_def find_all_def run_iff)

lemma first_two_same:
  assumes "distinct (map f xs)" "\<forall>x \<in> set (to_list 2 xs). f x = y" "x \<in> set xs"
  shows "f x = y"
proof (cases xs)
  case (Cons a as)
  with assms show ?thesis by (cases as) auto
qed (use assms in simp)

lemma concurrent_conflict_passed:
  assumes "check_concurrent_conflict rp D obs db = (Inr r, db)" "passed r"
    and "checkable obs" "db_truth D = Inr True" "coll_truth D = Inr True"
    and "distinct (map (\<lambda>d. py_str rp (dget d ''id''))
      (find_docs (db_store D) ''count_observations'' (concurrent_filter obs) db))"
    and "d \<in> set (find_docs (db_store D) ''count_observations'' (concurrent_filter obs) db)"
  shows "py_str rp (dget d ''id'') = py_str rp (dget obs ''id'')"
proof (rule first_two_same [OF assms(6) _ assms(7)])
  show "\<forall>x \<in> set (to_list 2 (find_docs (db_store D) ''count_observations'' (concurrent_filter obs) db)).
    py_str rp (dget x ''id'') = py_str rp (dget obs ''id'')"
    using assms(1-5)
    by (auto simp: check_concurrent_conflict_def with_collection_def find_all_def run_iff list_ex_iff
        split: if_splits)
qed

section \<open>Automatic approval\<close>

text \<open>
  What an automatic approval promises of the observation itself: the count equals the ERP
  quantity up to half of the last of four decimals, there is a remark and a photo, nothing is
  damaged, serial numbers are not repeated, and the batches add up.
\<close>

definition sql_quantity :: "doc \<Rightarrow> val" where
  "sql_quantity obs =
     (if dget obs ''sql_qty_at_submission'' = VNone then VFloat 0 else dget obs ''sql_qty_at_submission'')"

definition quantities_agree :: "doc \<Rightarrow> bool" where
  "quantities_agree obs =
     (case (float_or_zero (dget obs ''counted_qty''), num_of (sql_quantity obs)) of
        (Inr physical, Some sql) \<Rightarrow> \<bar>physical - sql\<bar> \<le> 1 / 20000
      | _ \<Rightarrow> False)"

definition has_remark :: "doc \<Rightarrow> bool" where
  "has_remark obs = (case dget obs ''remark'' of VStr s \<Rightarrow> strip s \<noteq> [] | _ \<Rightarrow> False)"

definition undamaged :: "doc \<Rightarrow> bool" where
  "undamaged obs =
     (case (float_or_zero (dget obs ''damaged_qty''), float_or_zero (dget obs ''non_returnable_damaged_qty'')) of
        (Inr damaged, Inr nr) \<Rightarrow> damaged \<le> 0 \<and> nr \<le> 0 \<and> \<not> truthy (dget obs ''item_condition'')
      | _ \<Rightarrow> False)"

definition serials_unique :: "doc \<Rightarrow> bool" where
  "serials_unique obs =
     (case dget obs ''serial_entries'' of
        VList es \<Rightarrow> (case serials_of es of
            Inr serials \<Rightarrow> sorted_wrt (\<lambda>a b. \<not> py_eq b a) serials
          | Inl _ \<Rightarrow> False)
      | _ \<Rightarrow> True)"

definition batches_balanced :: "doc \<Rightarrow> bool" where
  "batches_balanced obs =
     (case dget obs ''batches'' of
        VList (b # bs) \<Rightarrow>
          (case (sum_field ''counted_qty'' (b # bs) 0, sum_field ''sql_qty'' (b # bs) 0) of
             (Inr physical, Inr sql) \<Rightarrow> \<bar>physical - sql\<bar> \<le> 1 / 10000
           | _ \<Rightarrow> False)
      | _ \<Rightarrow> True)"

definition clean_evidence :: "doc \<Rightarrow> bool" where
  "clean_evidence obs =
     (quantities_agree obs \<and> has_remark obs \<and> truthy (dget obs ''photo_proofs'') \<and> undamaged obs \<and>
      serials_unique obs \<and> batches_balanced obs)"

lemma rule_passes:
  assumes "\<forall>(_, _, check) \<in> set (approval_rules rp D obs). \<exists>r. check db = (Inr r, db) \<and> passed r"
    and "(name, exc, check) \<in> set (approval_rules rp D obs)"
  obtains r where "check db = (Inr r, db)" "passed r"
  using assms by blast

lemma clean_evidence_of_rules:
  assumes all: "\<forall>(_, _, check) \<in> set (approval_rules rp D obs). \<exists>r. check db = (Inr r, db) \<and> passed r"
  shows "has_remark obs" "truthy (dget obs ''photo_proofs'')" "undamaged obs" "serials_unique obs"
    "batches_balanced obs"
proof -
  from all obtain r1 r2 r3 r4 r5 where
    r: "check_mandatory_remark obs = Inr r1" "passed r1" "check_photo_evidence obs = Inr r2" "passed r2"
      "check_damaged_stock rp obs = Inr r3" "passed r3" "check_serial_integrity obs = Inr r4" "passed r4"
      "check_batch_variance rp obs = Inr r5" "passed r5"
    by (auto simp: approval_rules_def run_iff)
  from mandatory_remark_passed [OF r(1,2)] show "has_remark obs" by (auto simp: has_remark_def)
  from r(3,4) show "truthy (dget obs ''photo_proofs'')"
    by (auto simp: check_photo_evidence_def split: if_splits)
  from damaged_stock_passed [OF r(5,6)] show "undamaged obs" by (auto simp: undamaged_def)
  from serial_integrity_passed [OF r(7,8)] show "serials_unique obs"
    by (auto simp: serials_unique_def split: val.splits)
  from batch_variance_passed [OF r(9,10)] show "batches_balanced obs"
    by (fastforce simp: batches_balanced_def split: val.splits list.splits)
qed

lemma clean_evidence_variance [simp]:
  "has_remark (dput ''variance'' v obs) = has_remark obs"
  "undamaged (dput ''variance'' v obs) = undamaged obs"
  "serials_unique (dput ''variance'' v obs) = serials_unique obs"
  "batches_balanced (dput ''variance'' v obs) = batches_balanced obs"
  by (simp_all add: has_remark_def undamaged_def serials_unique_def batches_balanced_def doc_simps
      split: sum.splits)

lemma filters_variance [simp]:
  "checkable (dput ''variance'' v obs) = checkable obs"
  "investigation_filter (dput ''variance'' v obs) = investigation_filter obs"
  "concurrent_filter (dput ''variance'' v obs) = concurrent_filter obs"
  by (simp_all add: checkable_def investigation_filter_def concurrent_filter_def doc_simps)

lemma approved_quantities:
  assumes "evaluate rp D obs db = (Inr (res, obs'), db')" and "approved res"
  shows "quantities_agree obs"
proof -
  obtain physical sql where "float_or_zero (dget obs ''counted_qty'') = Inr physical"
    "num_of (sql_quantity obs) = Some sql" "py_round 4 (physical - sql) = 0"
    unfolding sql_quantity_def by (rule approved_run [OF assms])
  with py_round_near [of 4 "physical - sql"] show ?thesis
    by (simp add: quantities_agree_def abs_minus_commute)
qed


definition demo_observation :: doc where
  "demo_observation =
     [(''id'', VStr ''o1''), (''session_id'', VStr ''s1''), (''item_code'', VStr ''i1''),
      (''counted_qty'', VInt 7), (''sql_qty_at_submission'', VFloat 7), (''remark'', VStr '' shelf 4 ''),
      (''photo_proofs'', VList [VStr ''p1'']), (''status'', VStr ''DRAFT''),
      (''serial_entries'', VList [VDict [(''serial_number'', VStr ''a'')], VDict [(''serial_number'', VStr ''b'')]]),
      (''batches'', VList [VDict [(''counted_qty'', VInt 7), (''sql_qty'', VInt 7)]])]"

definition demo_approvals :: memdb where
  "demo_approvals = \<lparr>colls = (\<lambda>c. if c = ''count_observations'' then [demo_observation] else []), next_id = 0\<rparr>"

definition demo_database :: "memdb database" where
  "demo_database = \<lparr>db_store = mem_store show_nat (\<lambda>_. False), db_truth = Inr True, coll_truth = Inr True\<rparr>"


text \<open>
  A quantity that only arrived at synchronisation is never compared: the variance is taken
  from zero, so such an observation is approved only when nothing was counted.
\<close>

theorem sync_quantity_ignored:
  assumes "evaluate rp D obs db = (Inr (res, obs'), db')" and "approved res"
    and "dget obs ''sql_qty_at_submission'' = VNone"
  shows "\<exists>physical. float_or_zero (dget obs ''counted_qty'') = Inr physical \<and> \<bar>physical\<bar> \<le> 1 / 20000"
  using approved_quantities [OF assms(1,2)] assms(3)
  by (auto simp: quantities_agree_def sql_quantity_def split: sum.splits)

text \<open>An item the ERP knows to be out of stock counts as one without an ERP quantity.\<close>

theorem zero_sql_quantity_blocked:
  assumes "truthy (dget obs ''id'')" and "num_of (dget obs ''sql_qty_at_submission'') = Some 0"
  shows "evaluate rp D obs db =
    (Inr (blocked (py_str rp (dget obs ''id''))
       [rule_doc ''sql_fetched_at_submission'' False ''SQL unavailable at submission'']
       AVAILABLE_AT_SUBMISSION ''sql_unavailable'', obs), db)"
proof -
  from assms(2) have "\<not> truthy (dget obs ''sql_qty_at_submission'')"
    "dget obs ''sql_qty_at_submission'' \<noteq> VNone"
    by (cases "dget obs ''sql_qty_at_submission''"; auto split: if_splits)+
  with assms(1) show ?thesis
    by (simp add: evaluate_def Let_def py_or_def determine_sql_source_def run_simps)
qed

end
