(* ===== verification/ApprovalReview.thy ===== *)
theory ApprovalReview
  imports ApprovalEngine Governance
begin

text \<open>
  Blind recounts (\<open>services/recount_service.py\<close>) and the routes of supervisors
  (\<open>api/approval_api.py\<close>): evaluation, decisions, recount requests, additional locations and
  the summary of a session. A route is the body of its handler; \<open>current_user\<close> is what the
  permission check in front of it returned.

  Every write goes through the write guards the application installs on its database; \<open>authority\<close>
  is the value of the authority variable when a method is called. Constructing a model class is
  \<open>build_model\<close>; how the validation library converts one field is the parameter \<open>coerce\<close>. Request
  identifiers are the argument \<open>uid\<close>, the text of a datetime is the parameter \<open>isoformat\<close>.
\<close>

section \<open>Model classes\<close>

datatype field_kind = KStr | KOptStr | KOptStrList | KBool | KFloat | KOptFloat | KDate | KOptDate

type_synonym model_field = "string \<times> field_kind \<times> val option"

fun build_model :: "(field_kind \<Rightarrow> val \<Rightarrow> val res) \<Rightarrow> model_field list \<Rightarrow> doc \<Rightarrow> doc res" where
  "build_model coerce [] d = Inr []"
| "build_model coerce ((k, kind, dflt) # fs) d =
     bindR (case map_of d k of
         Some v \<Rightarrow> coerce kind v
       | None \<Rightarrow> (case dflt of Some v \<Rightarrow> Inr v | None \<Rightarrow> Inl (ValueError (''Field required: '' @ k))))
       (\<lambda>v. bindR (build_model coerce fs d) (\<lambda>m. Inr ((k, v) # m)))"

definition RecountRequest :: "int \<Rightarrow> model_field list" where
  "RecountRequest now =
     [(''id'', KStr, None), (''observation_id'', KStr, None), (''session_id'', KStr, None),
      (''item_code'', KStr, None), (''requested_by'', KStr, None), (''request_reason'', KStr, None),
      (''scope'', KStr, Some (VStr ''ITEM'')), (''batch_or_serial_scope'', KOptStr, Some VNone),
      (''location_id'', KOptStr, Some VNone), (''required_evidence'', KOptStrList, Some VNone),
      (''priority'', KStr, Some (VStr ''NORMAL'')), (''is_blind'', KBool, Some (VBool True)),
      (''status'', KStr, Some (VStr ''RECOUNT_REQUESTED'')), (''assigned_to'', KOptStr, Some VNone),
      (''assigned_at'', KOptDate, Some VNone), (''started_at'', KOptDate, Some VNone),
      (''submitted_at'', KOptDate, Some VNone), (''resolved_at'', KOptDate, Some VNone),
      (''created_at'', KDate, Some (naive now)), (''updated_at'', KDate, Some (naive now)),
      (''linked_recount_observation_id'', KOptStr, Some VNone)]"

definition RecountComparisonResult :: "model_field list" where
  "RecountComparisonResult =
     [(''original_observation_id'', KStr, None), (''recount_observation_id'', KStr, None),
      (''original_count'', KFloat, None), (''recount_count'', KFloat, None),
      (''sql_at_recount'', KFloat, None), (''difference'', KFloat, None),
      (''matches_sql'', KBool, None), (''decision'', KStr, None),
      (''original_variance'', KOptFloat, Some VNone), (''recount_variance'', KOptFloat, Some VNone)]"

definition AdditionalLocationInvestigation :: "int \<Rightarrow> model_field list" where
  "AdditionalLocationInvestigation now =
     [(''id'', KStr, None), (''observation_id'', KStr, None), (''session_id'', KStr, None),
      (''item_code'', KStr, None), (''response'', KStr, None), (''suspected_location'', KOptStr, Some VNone),
      (''observed_or_estimated_qty'', KOptFloat, Some VNone), (''staff_remark'', KOptStr, Some VNone),
      (''photo_urls'', KOptStrList, Some VNone), (''staff_confidence'', KOptStr, Some VNone),
      (''linked_verification_task_id'', KOptStr, Some VNone), (''created_by'', KOptStr, Some VNone),
      (''created_at'', KDate, Some (naive now)), (''updated_at'', KDate, Some (naive now))]"

section \<open>The recount service\<close>

record 'db recounts =
  rdb :: "'db database"
  authority :: "string option"
  coerce :: "field_kind \<Rightarrow> val \<Rightarrow> val res"
  isoformat :: "int \<Rightarrow> string"

abbreviation rstore :: "'db recounts \<Rightarrow> 'db store" where
  "rstore R \<equiv> db_store (rdb R)"

definition guarded_insert :: "'db recounts \<Rightarrow> string \<Rightarrow> doc \<Rightarrow> ('db, val) comp" where
  "guarded_insert R c d = installed_call (authority R) c ''insert_one'' (insert_one (rstore R) c d)"

definition guarded_update :: "'db recounts \<Rightarrow> string \<Rightarrow> query \<Rightarrow> doc \<Rightarrow> ('db, nat \<times> nat) comp" where
  "guarded_update R c q u = installed_call (authority R) c ''update_one'' (update_one (rstore R) c q u)"

definition guarded_find_and_update ::
  "'db recounts \<Rightarrow> string \<Rightarrow> query \<Rightarrow> doc \<Rightarrow> bool \<Rightarrow> ('db, doc option) comp" where
  "guarded_find_and_update R c q u after =
     installed_call (authority R) c ''find_one_and_update''
       (find_one_and_update (rstore R) c q u False after)"

text \<open>The keyword arguments of \<open>create_request\<close> are the document \<open>kw\<close>.\<close>

definition request_fields :: "int \<Rightarrow> string \<Rightarrow> doc \<Rightarrow> doc" where
  "request_fields now uid kw =
     [(''id'', VStr uid), (''observation_id'', dget kw ''observation_id''),
      (''session_id'', dget kw ''session_id''), (''item_code'', dget kw ''item_code''),
      (''requested_by'', dget kw ''requested_by''), (''request_reason'', dget kw ''reason''),
      (''scope'', dget_or kw ''scope'' (VStr ''ITEM'')),
      (''batch_or_serial_scope'', dget kw ''batch_or_serial_scope''),
      (''location_id'', dget kw ''location_id''),
      (''required_evidence'', py_or (dget kw ''required_evidence'') (VList [])),
      (''priority'', dget_or kw ''priority'' (VStr ''NORMAL'')),
      (''is_blind'', dget_or kw ''is_blind'' (VBool True)),
      (''status'', VStr ''RECOUNT_REQUESTED''), (''assigned_to'', dget kw ''assigned_to''),
      (''assigned_at'', if truthy (dget kw ''assigned_to'') then naive now else VNone)]"

definition create_request :: "'db recounts \<Rightarrow> int \<Rightarrow> string \<Rightarrow> doc \<Rightarrow> ('db, doc) comp" where
  "create_request R now uid kw =
     bindM (liftM (build_model (coerce R) (RecountRequest now) (request_fields now uid kw))) (\<lambda>request.
     bindM (guarded_insert R ''recount_requests'' request) (\<lambda>_. returnM request))"

definition request_id_filter :: "string \<Rightarrow> query" where
  "request_id_filter rid = [(''id'', CEq (VStr rid))]"

definition parse_request :: "'db recounts \<Rightarrow> int \<Rightarrow> doc option \<Rightarrow> ('db, doc option) comp" where
  "parse_request R now result =
     (case result of
        None \<Rightarrow> returnM None
      | Some d \<Rightarrow> (if d = [] then returnM None
          else bindM (liftM (build_model (coerce R) (RecountRequest now) d)) (\<lambda>m. returnM (Some m))))"

definition assign_request :: "'db recounts \<Rightarrow> int \<Rightarrow> string \<Rightarrow> string \<Rightarrow> ('db, doc option) comp" where
  "assign_request R now rid assigned_to =
     bindM (guarded_find_and_update R ''recount_requests'' (request_id_filter rid)
       [(''$set'', VDict
          [(''assigned_to'', VStr assigned_to), (''assigned_at'', naive now),
           (''status'', VStr ''RECOUNT_ASSIGNED''), (''updated_at'', naive now)])] True)
     (parse_request R now)"

definition start_request :: "'db recounts \<Rightarrow> int \<Rightarrow> string \<Rightarrow> ('db, doc option) comp" where
  "start_request R now rid =
     bindM (guarded_find_and_update R ''recount_requests'' (request_id_filter rid)
       [(''$set'', VDict
          [(''started_at'', naive now), (''status'', VStr ''RECOUNT_IN_PROGRESS''),
           (''updated_at'', naive now)])] True)
     (parse_request R now)"

definition recount_decision :: "rat \<Rightarrow> bool \<Rightarrow> string" where
  "recount_decision difference matches_sql =
     (if difference = 0 \<and> matches_sql then ''RECOUNT_MATCHED''
      else if matches_sql then ''RECOUNT_MATCHED''
      else ''RECOUNT_DIFFERENCE'')"

definition recount_observation ::
  "'db recounts \<Rightarrow> int \<Rightarrow> string \<Rightarrow> val \<Rightarrow> val \<Rightarrow> rat \<Rightarrow> doc \<Rightarrow> doc" where
  "recount_observation R now uid original_id blind sql obs =
     (let d1 = dmerge obs
            [(''is_recount'', VBool True), (''recount_of_id'', original_id),
             (''recount_is_blind'', blind), (''sql_qty_at_recount'', VFloat sql)];
          d2 = (if truthy (dget d1 ''id'') then d1 else dput ''id'' (VStr uid) d1)
      in dmerge d2 [(''created_at'', VStr (isoformat R now)), (''updated_at'', VStr (isoformat R now))])"

definition comparison_doc ::
  "string \<Rightarrow> val \<Rightarrow> val \<Rightarrow> rat \<Rightarrow> rat \<Rightarrow> rat \<Rightarrow> rat \<Rightarrow> doc" where
  "comparison_doc uid original_id recount_id original_count recount_count sql original_variance =
     (let difference = py_round 4 (recount_count - original_count);
          matches_sql = (\<bar>recount_count - sql\<bar> \<le> 1 / 10000) in
      [(''id'', VStr uid), (''original_observation_id'', original_id),
       (''recount_observation_id'', recount_id), (''original_count'', VFloat original_count),
       (''recount_count'', VFloat recount_count), (''sql_at_recount'', VFloat sql),
       (''difference'', VFloat difference), (''matches_sql'', VBool matches_sql),
       (''decision'', VStr (recount_decision difference matches_sql)),
       (''original_variance'', VFloat original_variance),
       (''recount_variance'', VFloat (py_round 4 (recount_count - sql)))])"

definition closing_update :: "int \<Rightarrow> val \<Rightarrow> val \<Rightarrow> doc" where
  "closing_update now decision recount_id =
     [(''$set'', VDict
        [(''status'', decision), (''submitted_at'', naive now),
         (''linked_recount_observation_id'', recount_id), (''resolved_at'', naive now),
         (''updated_at'', naive now)])]"

text \<open>\<open>uid1\<close> and \<open>uid2\<close> are the identifiers drawn for the observation and the comparison.\<close>

definition store_recount ::
  "'db recounts \<Rightarrow> int \<Rightarrow> string \<Rightarrow> doc \<Rightarrow> doc \<Rightarrow> ('db, doc) comp" where
  "store_recount R now rid obs comparison =
     bindM (guarded_insert R ''count_observations'' obs) (\<lambda>_.
     bindM (guarded_insert R ''recount_comparisons'' comparison) (\<lambda>_.
     bindM (guarded_find_and_update R ''recount_requests'' (request_id_filter rid)
       (closing_update now (dget comparison ''decision'') (dget obs ''id'')) False) (\<lambda>_.
       liftM (build_model (coerce R) RecountComparisonResult comparison))))"

definition compare_recount ::
  "'db recounts \<Rightarrow> int \<Rightarrow> string \<Rightarrow> string \<Rightarrow> string \<Rightarrow> doc \<Rightarrow> val \<Rightarrow> doc \<Rightarrow> doc \<Rightarrow> ('db, doc) comp" where
  "compare_recount R now uid1 uid2 rid request original_id original payload =
     bindM (liftM (float_or_zero (dget original ''counted_qty''))) (\<lambda>original_count.
     bindM (liftM (float_or_zero (dget payload ''counted_qty''))) (\<lambda>recount_count.
     bindM (liftM (float_or_zero (dget payload ''sql_qty_at_submission''))) (\<lambda>sql.
     bindM (liftM (float_or_zero (dget original ''variance''))) (\<lambda>original_variance.
       let obs = recount_observation R now uid1 original_id
             (dget_or request ''is_blind'' (VBool True)) sql payload
       in store_recount R now rid obs
            (comparison_doc uid2 original_id (dget obs ''id'') original_count recount_count sql
              original_variance)))))"

definition found_or_raise :: "string \<Rightarrow> doc option \<Rightarrow> ('db, doc) comp" where
  "found_or_raise msg found =
     (case found of
        None \<Rightarrow> raiseM (ValueError msg)
      | Some d \<Rightarrow> if d = [] then raiseM (ValueError msg) else returnM d)"

definition submit_recount ::
  "'db recounts \<Rightarrow> int \<Rightarrow> string \<Rightarrow> string \<Rightarrow> string \<Rightarrow> doc \<Rightarrow> ('db, doc) comp" where
  "submit_recount R now uid1 uid2 rid payload =
     bindM (find_one (rstore R) ''recount_requests'' (request_id_filter rid)) (\<lambda>found.
     bindM (found_or_raise ''Recount request not found'' found) (\<lambda>request.
       case map_of request ''observation_id'' of
         None \<Rightarrow> raiseM (KeyError ''observation_id'')
       | Some original_id \<Rightarrow>
           bindM (find_one (rstore R) ''count_observations'' [(''id'', CEq original_id)]) (\<lambda>found'.
           bindM (found_or_raise ''Original observation not found'' found') (\<lambda>original.
             compare_recount R now uid1 uid2 rid request original_id original payload))))"

section \<open>The routes\<close>

definition get_db :: "'db recounts \<Rightarrow> unit res" where
  "get_db R =
     bindR (db_truth (rdb R)) (\<lambda>b.
       if b then Inr () else Inl (HTTPException 500 ''Database not initialized''))"

definition find_observation :: "'db recounts \<Rightarrow> string \<Rightarrow> ('db, doc) comp" where
  "find_observation R oid =
     bindM (liftM (get_db R)) (\<lambda>_.
     bindM (find_one (rstore R) ''count_observations'' [(''id'', CEq (VStr oid))]) (\<lambda>found.
       case found of
         None \<Rightarrow> raiseM (HTTPException 404 ''Observation not found'')
       | Some d \<Rightarrow> if d = [] then raiseM (HTTPException 404 ''Observation not found'') else returnM d))"

definition update_observation :: "'db recounts \<Rightarrow> string \<Rightarrow> doc \<Rightarrow> ('db, nat \<times> nat) comp" where
  "update_observation R oid fs =
     guarded_update R ''count_observations'' [(''id'', CEq (VStr oid))] [(''$set'', VDict fs)]"

definition opt_val :: "string option \<Rightarrow> val" where
  "opt_val s = (case s of None \<Rightarrow> VNone | Some t \<Rightarrow> VStr t)"

definition evaluation_response :: "approval_result \<Rightarrow> doc" where
  "evaluation_response res =
     [(''observation_id'', VStr (observation_id res)), (''approved'', VBool (approved res)),
      (''sql_quantity_source'', VStr (sql_availability_value (sql_quantity_source res))),
      (''sql_comparison_source'', opt_val (sql_comparison_source res)),
      (''block_reason'', opt_val (block_reason res))]"

definition evaluate_observation :: "repr \<Rightarrow> 'db recounts \<Rightarrow> string \<Rightarrow> ('db, doc) comp" where
  "evaluate_observation rp R oid =
     bindM (find_observation R oid) (\<lambda>obs.
     bindM (evaluate rp (rdb R) obs) (\<lambda>(res, obs').
     bindM (update_observation R oid obs') (\<lambda>_. returnM (evaluation_response res))))"

text \<open>Decisions of a supervisor.\<close>

record decide_request =
  dr_action :: string
  dr_reason :: "string option"
  dr_notes :: "string option"
  dr_classification :: "string option"
  dr_assign_to :: "string option"
  dr_is_blind :: "bool option"

definition user_name :: "doc \<Rightarrow> val" where
  "user_name user = py_or (dget user ''username'') (dget user ''id'')"

definition action_status :: "string \<Rightarrow> doc" where
  "action_status action =
     (if action = ''APPROVE'' then [(''approval_status'', VStr ''APPROVED''), (''status'', VStr ''APPROVED'')]
      else if action = ''REJECT'' then [(''approval_status'', VStr ''REJECTED''), (''status'', VStr ''REJECTED'')]
      else if action = ''REQUEST_RECOUNT''
      then [(''status'', VStr ''RECOUNT_REQUESTED''), (''approval_status'', VStr ''RECOUNT_REQUESTED'')]
      else if action = ''ADJUST_COUNT''
      then [(''approval_status'', VStr ''ADJUSTED''), (''status'', VStr ''APPROVED'')]
      else [])"

definition decision_fields :: "int \<Rightarrow> doc \<Rightarrow> decide_request \<Rightarrow> doc" where
  "decision_fields now user p =
     [(''supervisor_decision'', VStr (dr_action p)), (''supervisor_notes'', opt_val (dr_notes p)),
      (''decided_by'', user_name user), (''decided_at'', naive now), (''updated_at'', naive now)] @
     (if truthy (opt_val (dr_classification p)) then [(''item_condition'', opt_val (dr_classification p))]
      else []) @
     action_status (dr_action p)"

definition recount_kw :: "repr \<Rightarrow> string \<Rightarrow> doc \<Rightarrow> doc \<Rightarrow> decide_request \<Rightarrow> doc" where
  "recount_kw rp oid user obs p =
     [(''observation_id'', VStr oid), (''session_id'', dget_or obs ''session_id'' (VStr [])),
      (''item_code'', dget_or obs ''item_code'' (VStr [])),
      (''requested_by'', VStr (py_str rp (py_or (user_name user) (VStr ''system'')))),
      (''reason'', py_or (opt_val (dr_reason p)) (VStr ''supervisor_decision'')),
      (''priority'', VStr ''HIGH''),
      (''is_blind'', VBool (case dr_is_blind p of None \<Rightarrow> True | Some b \<Rightarrow> b)),
      (''assigned_to'', opt_val (dr_assign_to p))]"

definition decision_doc :: "int \<Rightarrow> string \<Rightarrow> string \<Rightarrow> doc \<Rightarrow> doc \<Rightarrow> decide_request \<Rightarrow> doc" where
  "decision_doc now uid oid user obs p =
     [(''id'', VStr uid), (''observation_id'', VStr oid), (''session_id'', dget obs ''session_id''),
      (''decided_by'', user_name user), (''decided_at'', naive now), (''action'', VStr (dr_action p)),
      (''reason'', opt_val (dr_reason p)), (''notes'', opt_val (dr_notes p)),
      (''corrected_classification'', opt_val (dr_classification p)),
      (''observation_snapshot'', VDict obs)]"

definition supervisor_decide ::
  "repr \<Rightarrow> 'db recounts \<Rightarrow> int \<Rightarrow> string \<Rightarrow> string \<Rightarrow> doc \<Rightarrow> string \<Rightarrow> decide_request \<Rightarrow> ('db, doc) comp" where
  "supervisor_decide rp R now uid1 uid2 user oid p =
     bindM (find_observation R oid) (\<lambda>obs.
     bindM (whenM (dr_action p = ''REQUEST_RECOUNT'')
       (bindM (create_request R now uid1 (recount_kw rp oid user obs p)) (\<lambda>_. returnM ()))) (\<lambda>_.
     bindM (guarded_insert R ''approval_decisions'' (decision_doc now uid2 oid user obs p)) (\<lambda>_.
     bindM (update_observation R oid (decision_fields now user p)) (\<lambda>_.
       returnM [(''observation_id'', VStr oid), (''decision'', VStr (dr_action p)), (''decision_id'', VStr uid2)]))))"

text \<open>Recount requests. \<open>body\<close> holds the fields of the request body after the observation.\<close>

definition create_recount_route ::
  "repr \<Rightarrow> 'db recounts \<Rightarrow> int \<Rightarrow> string \<Rightarrow> doc \<Rightarrow> string \<Rightarrow> doc \<Rightarrow> ('db, doc) comp" where
  "create_recount_route rp R now uid user oid body =
     bindM (find_observation R oid) (\<lambda>obs.
       create_request R now uid
         ([(''observation_id'', VStr oid), (''session_id'', dget_or obs ''session_id'' (VStr [])),
           (''item_code'', dget_or obs ''item_code'' (VStr [])),
           (''requested_by'', VStr (py_str rp (py_or (user_name user) (VStr ''system'')))),
           (''reason'', dget body ''request_reason'')] @ body))"

definition request_or_404 :: "('db, doc option) comp \<Rightarrow> ('db, doc) comp" where
  "request_or_404 call =
     bindM call (\<lambda>found. case found of
         None \<Rightarrow> raiseM (HTTPException 404 ''Recount request not found'')
       | Some d \<Rightarrow> returnM d)"

definition assign_recount :: "'db recounts \<Rightarrow> int \<Rightarrow> string \<Rightarrow> string \<Rightarrow> ('db, doc) comp" where
  "assign_recount R now rid assign_to = request_or_404 (assign_request R now rid assign_to)"

definition start_recount :: "'db recounts \<Rightarrow> int \<Rightarrow> string \<Rightarrow> ('db, doc) comp" where
  "start_recount R now rid = request_or_404 (start_request R now rid)"

definition submit_response :: "doc \<Rightarrow> doc" where
  "submit_response m =
     map (\<lambda>k. (k, dget m k))
       [''original_count'', ''recount_count'', ''sql_at_recount'', ''difference'', ''matches_sql'', ''decision''] @
     [(''requires_supervisor'', VBool (\<not> truthy (dget m ''matches_sql'')))]"

definition submit_recount_route ::
  "'db recounts \<Rightarrow> int \<Rightarrow> string \<Rightarrow> string \<Rightarrow> string \<Rightarrow> doc \<Rightarrow> ('db, doc) comp" where
  "submit_recount_route R now uid1 uid2 rid payload =
     bindM (submit_recount R now uid1 uid2 rid payload) (\<lambda>m. returnM (submit_response m))"

text \<open>The summary of a session.\<close>

record approval_summary =
  total_observations :: nat
  auto_approved :: nat
  supervisor_approved :: nat
  recount_requested :: nat
  pending_investigation :: nat
  blocking_items :: "val list"

definition summarize :: "doc \<Rightarrow> approval_summary \<Rightarrow> approval_summary" where
  "summarize obs s0 =
     (let st = dget_or obs ''status'' (VStr []);
          s = s0\<lparr>total_observations := Suc (total_observations s0)\<rparr>;
          blocking = blocking_items s @ [dget obs ''id''] in
      if st = VStr ''AUTO_APPROVED'' then s\<lparr>auto_approved := Suc (auto_approved s)\<rparr>
      else if st = VStr ''APPROVED'' then s\<lparr>supervisor_approved := Suc (supervisor_approved s)\<rparr>
      else if st = VStr ''RECOUNT_REQUESTED'' then s\<lparr>recount_requested := Suc (recount_requested s)\<rparr>
      else if st = VStr ''PENDING_INVESTIGATION'' \<or> st = VStr ''DISTRIBUTED_STOCK_INVESTIGATION''
      then s\<lparr>pending_investigation := Suc (pending_investigation s), blocking_items := blocking\<rparr>
      else if st = VStr ''SUPERVISOR_REVIEW'' then s\<lparr>blocking_items := blocking\<rparr>
      else s)"

definition empty_summary :: approval_summary where
  "empty_summary = \<lparr>total_observations = 0, auto_approved = 0, supervisor_approved = 0,
     recount_requested = 0, pending_investigation = 0, blocking_items = []\<rparr>"

definition session_approval_summary :: "'db recounts \<Rightarrow> string \<Rightarrow> ('db, approval_summary) comp" where
  "session_approval_summary R sid =
     bindM (liftM (get_db R)) (\<lambda>_.
     bindM (find_all (rstore R) ''count_observations'' [(''session_id'', CEq (VStr sid))]) (\<lambda>found.
       returnM (fold summarize (to_list 1000 found) empty_summary)))"

text \<open>Additional locations. \<open>oid\<close> and \<open>p\<close> are the request body.\<close>

definition investigation_fields :: "string \<Rightarrow> string \<Rightarrow> string \<Rightarrow> doc \<Rightarrow> doc \<Rightarrow> doc \<Rightarrow> doc" where
  "investigation_fields uid sid oid user obs p =
     [(''id'', VStr uid), (''observation_id'', VStr oid), (''session_id'', VStr sid),
      (''item_code'', dget_or obs ''item_code'' (VStr [])), (''response'', dget p ''response''),
      (''suspected_location'', dget p ''suspected_location''),
      (''observed_or_estimated_qty'', dget p ''observed_or_estimated_qty''),
      (''staff_remark'', dget p ''staff_remark''),
      (''photo_urls'', py_or (dget p ''photo_urls'') (VList [])),
      (''staff_confidence'', dget p ''staff_confidence''), (''created_by'', user_name user)]"

definition location_update :: "val \<Rightarrow> val \<Rightarrow> doc" where
  "location_update response task =
     (if response = VStr ''NOT_CHECKED''
      then [(''status'', VStr ''SUPERVISOR_REVIEW''), (''additional_location_response'', response)]
      else [(''additional_location_response'', response), (''linked_location_task_id'', task),
        (''status'', VStr ''DISTRIBUTED_STOCK_INVESTIGATION'')])"

definition create_additional_location_investigation ::
  "'db recounts \<Rightarrow> int \<Rightarrow> string \<Rightarrow> string \<Rightarrow> doc \<Rightarrow> string \<Rightarrow> doc \<Rightarrow> ('db, doc) comp" where
  "create_additional_location_investigation R now uid sid user oid p =
     bindM (find_observation R oid) (\<lambda>obs.
     bindM (liftM (build_model (coerce R) (AdditionalLocationInvestigation now)
         (investigation_fields uid sid oid user obs p))) (\<lambda>doc.
     bindM (guarded_insert R ''additional_location_investigations'' doc) (\<lambda>_.
     bindM (update_observation R oid (location_update (dget p ''response'') (dget doc ''id''))) (\<lambda>_.
       returnM doc))))"

section \<open>Guarded writes\<close>

lemma guarded_insert_refused:
  assumes "c \<in> set GUARD_TARGET_COLLECTIONS" "\<not> owns (authority R) c"
  shows "\<exists>e. guarded_insert R c d db = (Inl e, db)"
  using installed_call_stranger [OF assms(1) _ assms(2), where m = "''insert_one''"
    and call = "insert_one (rstore R) c d" and db = db]
  by (auto simp: guarded_insert_def GUARD_WRITE_METHODS_def)

lemma guarded_find_and_update_refused:
  assumes "c \<in> set GUARD_TARGET_COLLECTIONS" "\<not> owns (authority R) c"
  shows "\<exists>e. guarded_find_and_update R c q u after db = (Inl e, db)"
  using installed_call_stranger [OF assms(1) _ assms(2), where m = "''find_one_and_update''"
    and call = "find_one_and_update (rstore R) c q u False after" and db = db]
  by (auto simp: guarded_find_and_update_def GUARD_WRITE_METHODS_def)

lemma guarded_free:
  assumes "c \<notin> set GUARD_TARGET_COLLECTIONS"
  shows "guarded_insert R c d = insert_one (rstore R) c d"
    "guarded_update R c q u = update_one (rstore R) c q u"
  using assms by (simp_all add: guarded_insert_def guarded_update_def installed_call_def)

lemma guarded_free_collections [simp]:
  "''count_observations'' \<notin> set GUARD_TARGET_COLLECTIONS"
  "''recount_comparisons'' \<notin> set GUARD_TARGET_COLLECTIONS"
  "''approval_decisions'' \<notin> set GUARD_TARGET_COLLECTIONS"
  "''recount_requests'' \<in> set GUARD_TARGET_COLLECTIONS"
  by (simp_all add: GUARD_TARGET_COLLECTIONS_def)

lemma guarded_success:
  assumes "c \<in> set GUARD_TARGET_COLLECTIONS"
    and "guarded_find_and_update R c q u after db = (Inr r, db')"
  shows "find_one_and_update (rstore R) c q u False after db = (Inr r, db')"
proof (cases "owns (authority R) c")
  case True
  with assms show ?thesis by (simp add: guarded_find_and_update_def installed_call_owner)
next
  case False
  with assms guarded_find_and_update_refused [OF assms(1), of R q u after db] show ?thesis by auto
qed

lemma bindM_error: "m db = (Inl e, db') \<Longrightarrow> bindM m f db = (Inl e, db')"
  by (simp add: run_simps)

lemma create_request_refused:
  assumes "\<not> owns (authority R) ''recount_requests''"
  shows "\<exists>e. create_request R now uid kw db = (Inl e, db)"
proof (cases "build_model (coerce R) (RecountRequest now) (request_fields now uid kw)")
  case (Inr request)
  from assms guarded_insert_refused [of "''recount_requests''" R request db] obtain e where
    "guarded_insert R ''recount_requests'' request db = (Inl e, db)" by auto
  with Inr show ?thesis by (simp add: create_request_def run_simps)
qed (simp add: create_request_def run_simps)

lemma find_observation_reads: "find_observation R oid db = (r, db') \<Longrightarrow> db' = db"
  by (rule reads_only_run [of "find_observation R oid"])
     (auto simp: reads_only_def find_observation_def intro!: keeps_intros split: option.splits)

lemma supervisor_recount_refused:
  assumes "\<not> owns (authority R) ''recount_requests''" "dr_action p = ''REQUEST_RECOUNT''"
  shows "\<exists>e. supervisor_decide rp R now uid1 uid2 user oid p db = (Inl e, db)"
proof -
  obtain r t where found: "find_observation R oid db = (r, t)" by (cases "find_observation R oid db")
  from find_observation_reads [OF found] have [simp]: "t = db" .
  show ?thesis
  proof (cases r)
    case (Inr obs)
    obtain e where "create_request R now uid1 (recount_kw rp oid user obs p) db = (Inl e, db)"
      using create_request_refused [OF assms(1)] by blast
    with assms(2) found Inr show ?thesis by (simp add: supervisor_decide_def run_simps)
  qed (use found in \<open>simp add: supervisor_decide_def run_simps\<close>)
qed

lemma submit_recount_refused:
  assumes "\<not> owns (authority R) ''recount_requests''"
  shows "submit_recount R now uid1 uid2 rid payload db \<noteq> (Inr m, db')"
proof
  assume "submit_recount R now uid1 uid2 rid payload db = (Inr m, db')"
  then obtain obs comparison t where "store_recount R now rid obs comparison t = (Inr m, db')"
    by (auto simp: submit_recount_def compare_recount_def Let_def run_iff split: option.splits)
  then obtain q u r t t' where "guarded_find_and_update R ''recount_requests'' q u False t = (Inr r, t')"
    unfolding store_recount_def by (elim bindM_elim)
  with guarded_find_and_update_refused [of "''recount_requests''" R q u False t] assms show False by auto
qed

text \<open>The routes call the recount service without a write authority, and recount requests
  are guarded. So no request can be created, assigned or started, a supervisor cannot ask for a
  recount, and no submission succeeds. All but the submission leave the database as it was.
\<close>

theorem recounts_locked_out:
  assumes "authority R = None"
  shows "(\<exists>e. create_request R now uid kw db = (Inl e, db)) \<and>
    (\<exists>e. assign_request R now rid who db = (Inl e, db)) \<and>
    (\<exists>e. start_request R now rid db = (Inl e, db)) \<and>
    (\<exists>e. supervisor_decide rp R now uid uid2 user oid (p\<lparr>dr_action := ''REQUEST_RECOUNT''\<rparr>) db = (Inl e, db)) \<and>
    (\<exists>e. fst (submit_recount R now uid uid2 rid payload db) = Inl e)"
proof -
  from assms have no: "\<not> owns (authority R) ''recount_requests''" by (simp add: owns_def)
  have "\<exists>e. bindM (guarded_find_and_update R ''recount_requests'' q u True) k db = (Inl e, db)"
    for q u and k :: "doc option \<Rightarrow> ('a, doc option) comp"
    using guarded_find_and_update_refused [of "''recount_requests''" R q u True db] no
    by (auto dest: bindM_error)
  then have "\<exists>e. assign_request R now rid who db = (Inl e, db)" "\<exists>e. start_request R now rid db = (Inl e, db)"
    by (simp_all add: assign_request_def start_request_def)
  moreover have "\<exists>e. fst (submit_recount R now uid uid2 rid payload db) = Inl e"
    using submit_recount_refused [OF no]
    by (metis prod.collapse sum.exhaust)
  ultimately show ?thesis using create_request_refused [OF no] supervisor_recount_refused [OF no] by simp
qed

section \<open>Decisions and recounts on a store\<close>

locale review_desk =
  fixes R :: "'db recounts"
  assumes store_laws: "document_store (db_store (rdb R))"

sublocale review_desk \<subseteq> document_store "db_store (rdb R)"
  by (rule store_laws)

context review_desk
begin

lemma find_observation_found:
  assumes "find_observation R oid db = (Inr obs, db')"
  obtains rest where
    "filter (match_filter [(''id'', CEq (VStr oid))]) (docs (rstore R) ''count_observations'' db) = obs # rest"
    "db' = db"
  using assms
  by (auto simp: find_observation_def find_one_run run_iff split: option.splits list.splits if_splits)

lemma update_observation_effect:
  assumes run: "update_observation R oid fs db = (Inr n, db')"
    and hit: "filter (match_filter [(''id'', CEq (VStr oid))]) (docs (rstore R) ''count_observations'' db) = obs # rest"
  shows "docs (rstore R) ''count_observations'' db' =
      update_first (match_filter [(''id'', CEq (VStr oid))]) (\<lambda>_. snd (apply_set fs obs))
        (docs (rstore R) ''count_observations'' db) \<and>
    (\<forall>k. k \<noteq> ''count_observations'' \<longrightarrow> docs (rstore R) k db' = docs (rstore R) k db)"
proof -
  obtain m db1 where "update_one (rstore R) ''count_observations'' [(''id'', CEq (VStr oid))]
      [(''$set'', VDict fs)] db = (Inr (1, m), db1)"
    "docs (rstore R) ''count_observations'' db1 =
      update_first (match_filter [(''id'', CEq (VStr oid))]) (\<lambda>_. snd (apply_set fs obs))
        (docs (rstore R) ''count_observations'' db)"
    "\<forall>k. k \<noteq> ''count_observations'' \<longrightarrow> docs (rstore R) k db1 = docs (rstore R) k db"
    by (rule update_one_set [OF hit]) auto
  with run show ?thesis by (auto simp: update_observation_def guarded_free)
qed

lemma create_request_frame:
  assumes "create_request R now uid kw db = (r, db')" "k \<noteq> ''recount_requests''"
  shows "docs (rstore R) k db' = docs (rstore R) k db"
proof (rule keeps_eqD [where f = "docs (rstore R) k" and m = "create_request R now uid kw", OF _ assms(1)])
  show "keeps (\<lambda>s. P (docs (rstore R) k s)) (create_request R now uid kw)" for P
    using assms(2) unfolding create_request_def guarded_insert_def by (intro keeps_intros keeps_other)
qed

lemma supervisor_decide_effect:
  assumes run: "supervisor_decide rp R now uid1 uid2 user oid p db = (Inr out, db')"
  shows "\<exists>obs rest i.
    filter (match_filter [(''id'', CEq (VStr oid))]) (docs (rstore R) ''count_observations'' db) = obs # rest \<and>
    docs (rstore R) ''approval_decisions'' db' = docs (rstore R) ''approval_decisions'' db @
      [dset_default ''_id'' i (decision_doc now uid2 oid user obs p)] \<and>
    docs (rstore R) ''count_observations'' db' =
      update_first (match_filter [(''id'', CEq (VStr oid))])
        (\<lambda>_. snd (apply_set (decision_fields now user p) obs)) (docs (rstore R) ''count_observations'' db) \<and>
    (\<forall>k. k \<notin> {''approval_decisions'', ''count_observations''} \<longrightarrow>
       k \<noteq> ''recount_requests'' \<or> dr_action p \<noteq> ''REQUEST_RECOUNT'' \<longrightarrow>
       docs (rstore R) k db' = docs (rstore R) k db)"
  using run unfolding supervisor_decide_def
proof (elim bindM_elim)
  fix obs t u1 u v i w n w2
  assume found: "find_observation R oid db = (Inr obs, t)"
    and recount: "whenM (dr_action p = ''REQUEST_RECOUNT'')
       (bindM (create_request R now uid1 (recount_kw rp oid user obs p)) (\<lambda>_. returnM ())) t = (Inr u1, u)"
    and ins: "guarded_insert R ''approval_decisions'' (decision_doc now uid2 oid user obs p) u = (Inr i, v)"
    and upd: "update_observation R oid (decision_fields now user p) v = (Inr n, w)"
    and fin: "returnM w2 w = (Inr out, db')"
  obtain rest where hit: "filter (match_filter [(''id'', CEq (VStr oid))])
      (docs (rstore R) ''count_observations'' db) = obs # rest" and t: "t = db"
    by (rule find_observation_found [OF found])
  have u: "docs (rstore R) k u = docs (rstore R) k db"
    if "k \<noteq> ''recount_requests'' \<or> dr_action p \<noteq> ''REQUEST_RECOUNT''" for k
    using recount that by (auto simp: t run_iff create_request_frame split: if_splits)
  from ins have "insert_one (rstore R) ''approval_decisions'' (decision_doc now uid2 oid user obs p) u = (Inr i, v)"
    by (simp add: guarded_free)
  with insert_one_docs insert_one_frame obtain j where v: "docs (rstore R) ''approval_decisions'' v =
      docs (rstore R) ''approval_decisions'' u @ [dset_default ''_id'' j (decision_doc now uid2 oid user obs p)]"
    "\<forall>k. k \<noteq> ''approval_decisions'' \<longrightarrow> docs (rstore R) k v = docs (rstore R) k u"
    by blast
  from v(2) u hit have "filter (match_filter [(''id'', CEq (VStr oid))])
      (docs (rstore R) ''count_observations'' v) = obs # rest" by simp
  from update_observation_effect [OF upd this] fin v u hit show ?thesis
    by (auto simp: run_iff)
qed

lemma find_and_update_set:
  assumes run: "find_one_and_update (rstore R) c q [(''$set'', VDict e)] upsert after db = (r, db')"
    and hit: "filter (match_filter q) (docs (rstore R) c db) = d # ds"
  shows "docs (rstore R) c db' =
      update_first (match_filter q) (\<lambda>_. snd (apply_set e d)) (docs (rstore R) c db) \<and>
    (\<forall>k. k \<noteq> c \<longrightarrow> docs (rstore R) k db' = docs (rstore R) k db)"
proof -
  obtain m db1 where "update_one (rstore R) c q [(''$set'', VDict e)] db = (Inr (1, m), db1)"
    "docs (rstore R) c db1 = update_first (match_filter q) (\<lambda>_. snd (apply_set e d)) (docs (rstore R) c db)"
    by (rule update_one_set [OF hit, where e = e])
  with find_update_law [OF hit run] find_update_frame [OF run] show ?thesis by simp
qed

lemma store_recount_effect:
  assumes run: "store_recount R now rid obs comparison db = (Inr m, db')"
    and hit: "filter (match_filter (request_id_filter rid)) (docs (rstore R) ''recount_requests'' db) = request # rest"
  shows "\<exists>i j. docs (rstore R) ''count_observations'' db' =
      docs (rstore R) ''count_observations'' db @ [dset_default ''_id'' i obs] \<and>
    docs (rstore R) ''recount_comparisons'' db' =
      docs (rstore R) ''recount_comparisons'' db @ [dset_default ''_id'' j comparison] \<and>
    docs (rstore R) ''recount_requests'' db' = update_first (match_filter (request_id_filter rid))
      (\<lambda>_. snd (apply_set (dict_or_empty (dget
         (closing_update now (dget comparison ''decision'') (dget obs ''id'')) ''$set'')) request))
      (docs (rstore R) ''recount_requests'' db)"
  using run unfolding store_recount_def
proof (elim bindM_elim)
  fix i1 t1 i2 t2 f t3
  assume ins1: "guarded_insert R ''count_observations'' obs db = (Inr i1, t1)"
    and ins2: "guarded_insert R ''recount_comparisons'' comparison t1 = (Inr i2, t2)"
    and upd: "guarded_find_and_update R ''recount_requests'' (request_id_filter rid)
      (closing_update now (dget comparison ''decision'') (dget obs ''id'')) False t2 = (Inr f, t3)"
    and fin: "liftM (build_model (coerce R) RecountComparisonResult comparison) t3 = (Inr m, db')"
  let ?e = "dict_or_empty (dget (closing_update now (dget comparison ''decision'') (dget obs ''id'')) ''$set'')"
  have e: "closing_update now (dget comparison ''decision'') (dget obs ''id'') = [(''$set'', VDict ?e)]"
    by (simp add: closing_update_def dget_def dict_or_empty_def)
  from insert_one_docs [OF ins1 [unfolded guarded_free(1) [OF guarded_free_collections(1)]]]
  obtain i where t1: "docs (rstore R) ''count_observations'' t1 =
    docs (rstore R) ''count_observations'' db @ [dset_default ''_id'' i obs]" by blast
  from insert_one_docs [OF ins2 [unfolded guarded_free(1) [OF guarded_free_collections(2)]]]
  obtain j where t2: "docs (rstore R) ''recount_comparisons'' t2 =
    docs (rstore R) ''recount_comparisons'' t1 @ [dset_default ''_id'' j comparison]" by blast
  have f1: "k \<noteq> ''count_observations'' \<Longrightarrow> docs (rstore R) k t1 = docs (rstore R) k db" for k
    using insert_one_frame [OF ins1 [unfolded guarded_free(1) [OF guarded_free_collections(1)]]] by simp
  have f2: "k \<noteq> ''recount_comparisons'' \<Longrightarrow> docs (rstore R) k t2 = docs (rstore R) k t1" for k
    using insert_one_frame [OF ins2 [unfolded guarded_free(1) [OF guarded_free_collections(2)]]] by simp
  from guarded_success [OF guarded_free_collections(4) upd] e have
    "find_one_and_update (rstore R) ''recount_requests'' (request_id_filter rid) [(''$set'', VDict ?e)] False False t2
      = (Inr f, t3)" by simp
  from find_and_update_set [OF this] hit f1 f2 fin t1 t2 show ?thesis by (auto simp: run_iff)
qed

text \<open>What a submission did, and that it compared the counts as it should.\<close>

lemma submit_recount_effect:
  assumes run: "submit_recount R now uid1 uid2 rid payload db = (Inr m, db')"
  shows "\<exists>request rest original_id i q s.
    filter (match_filter (request_id_filter rid)) (docs (rstore R) ''recount_requests'' db) = request # rest \<and>
    map_of request ''observation_id'' = Some original_id \<and>
    filter (match_filter [(''id'', CEq original_id)]) (docs (rstore R) ''count_observations'' db) \<noteq> [] \<and>
    float_or_zero (dget payload ''counted_qty'') = Inr q \<and>
    float_or_zero (dget payload ''sql_qty_at_submission'') = Inr s \<and>
    docs (rstore R) ''count_observations'' db' = docs (rstore R) ''count_observations'' db @
      [dset_default ''_id'' i (recount_observation R now uid1 original_id
        (dget_or request ''is_blind'' (VBool True)) s payload)] \<and>
    (\<exists>closed. docs (rstore R) ''recount_requests'' db' =
       update_first (match_filter (request_id_filter rid)) (\<lambda>_. closed) (docs (rstore R) ''recount_requests'' db) \<and>
       dget closed ''status'' =
         VStr (if \<bar>q - s\<bar> \<le> 1 / 10000 then ''RECOUNT_MATCHED'' else ''RECOUNT_DIFFERENCE''))"
proof -
  from run obtain request rest original_id original where
    request: "filter (match_filter (request_id_filter rid)) (docs (rstore R) ''recount_requests'' db) = request # rest"
    and oid: "map_of request ''observation_id'' = Some original_id"
    and orig: "filter (match_filter [(''id'', CEq original_id)]) (docs (rstore R) ''count_observations'' db) \<noteq> []"
    and rest: "compare_recount R now uid1 uid2 rid request original_id original payload db = (Inr m, db')"
    by (auto simp: submit_recount_def found_or_raise_def find_one_run run_iff
        split: option.splits list.splits if_splits)
  from rest obtain oc q s ov where q: "float_or_zero (dget payload ''counted_qty'') = Inr q"
    and s: "float_or_zero (dget payload ''sql_qty_at_submission'') = Inr s"
    and store: "store_recount R now rid (recount_observation R now uid1 original_id
        (dget_or request ''is_blind'' (VBool True)) s payload)
      (comparison_doc uid2 original_id (dget (recount_observation R now uid1 original_id
        (dget_or request ''is_blind'' (VBool True)) s payload) ''id'') oc q s ov) db = (Inr m, db')"
    by (auto simp: compare_recount_def Let_def run_iff)
  have status: "dget (snd (apply_set (dict_or_empty (dget (closing_update now
      (dget (comparison_doc uid2 original_id x oc q s ov) ''decision'') y) ''$set'')) request)) ''status'' =
      VStr (if \<bar>q - s\<bar> \<le> 1 / 10000 then ''RECOUNT_MATCHED'' else ''RECOUNT_DIFFERENCE'')" for x y
    by (rule apply_set_get_string)
       (simp_all add: closing_update_def comparison_doc_def recount_decision_def dget_def dict_or_empty_def Let_def)
  from store_recount_effect [OF store request] request oid orig q s status show ?thesis by blast
qed

end

section \<open>The in-memory database\<close>

definition mem_recounts ::
  "(nat \<Rightarrow> string) \<Rightarrow> (string \<Rightarrow> bool) \<Rightarrow> string option \<Rightarrow> (field_kind \<Rightarrow> val \<Rightarrow> val res) \<Rightarrow> (int \<Rightarrow> string) \<Rightarrow>
   memdb recounts" where
  "mem_recounts idgen valid auth co fmt =
     \<lparr>rdb = \<lparr>db_store = mem_store idgen valid, db_truth = Inr True, coll_truth = Inr True\<rparr>,
      authority = auth, coerce = co, isoformat = fmt\<rparr>"

lemma mem_recounts_simps [simp]:
  "rstore (mem_recounts idgen valid auth co fmt) = mem_store idgen valid"
  "authority (mem_recounts idgen valid auth co fmt) = auth"
  by (simp_all add: mem_recounts_def)

interpretation mem_desk: review_desk "mem_recounts idgen valid auth co fmt"
  for idgen valid auth co fmt
  by (rule review_desk.intro) (simp add: document_store_mem)


text \<open>A successful recount keeps the original observation: the recount is appended, linked to
  it and to its request, and the request is closed as matched exactly when the recount is
  within a ten-thousandth of the ERP quantity, whatever the first count was.
\<close>

theorem recount_submission_closes_request:
  assumes "submit_recount (mem_recounts idgen valid auth co fmt) now uid1 uid2 rid payload db = (Inr m, db')"
  shows "\<exists>request rest original_id recount q s closed.
    filter (match_filter (request_id_filter rid)) (colls db ''recount_requests'') = request # rest \<and>
    map_of request ''observation_id'' = Some original_id \<and>
    float_or_zero (dget payload ''counted_qty'') = Inr q \<and>
    float_or_zero (dget payload ''sql_qty_at_submission'') = Inr s \<and>
    colls db' ''count_observations'' = colls db ''count_observations'' @ [recount] \<and>
    dget recount ''recount_of_id'' = original_id \<and> dget recount ''is_recount'' = VBool True \<and>
    colls db' ''recount_requests'' =
      update_first (match_filter (request_id_filter rid)) (\<lambda>_. closed) (colls db ''recount_requests'') \<and>
    dget closed ''status'' = VStr (if \<bar>q - s\<bar> \<le> 1 / 10000 then ''RECOUNT_MATCHED'' else ''RECOUNT_DIFFERENCE'')"
proof -
  have "dget (dset_default ''_id'' i (recount_observation R now uid1 oid blind s payload)) ''recount_of_id'' = oid \<and>
    dget (dset_default ''_id'' i (recount_observation R now uid1 oid blind s payload)) ''is_recount'' = VBool True"
    for i R oid blind s
    by (simp add: recount_observation_def Let_def doc_simps)
  with mem_desk.submit_recount_effect [OF assms] show ?thesis
    by (metis docs_mem_store mem_recounts_simps(1))
qed

definition with_status :: "string list \<Rightarrow> doc list \<Rightarrow> doc list" where
  "with_status ss = filter (\<lambda>d. dget_or d ''status'' (VStr []) \<in> VStr ` set ss)"

lemma fold_summarize:
  "fold summarize ds s =
     \<lparr>total_observations = total_observations s + length ds,
      auto_approved = auto_approved s + length (with_status [''AUTO_APPROVED''] ds),
      supervisor_approved = supervisor_approved s + length (with_status [''APPROVED''] ds),
      recount_requested = recount_requested s + length (with_status [''RECOUNT_REQUESTED''] ds),
      pending_investigation = pending_investigation s +
        length (with_status [''PENDING_INVESTIGATION'', ''DISTRIBUTED_STOCK_INVESTIGATION''] ds),
      blocking_items = blocking_items s @ map (\<lambda>d. dget d ''id'')
        (with_status [''PENDING_INVESTIGATION'', ''DISTRIBUTED_STOCK_INVESTIGATION'', ''SUPERVISOR_REVIEW''] ds)\<rparr>"
proof (induction ds arbitrary: s)
  case (Cons d ds)
  then show ?case by (simp add: summarize_def Let_def with_status_def)
qed (simp add: with_status_def)

text \<open>The summary counts what it says: every observation read is counted once in total, the
  groups are the observations with these statuses, and the blocking items are exactly the ones
  under investigation or in review, in order.
\<close>

theorem approval_summary_counts:
  assumes "length (filter (match_filter [(''session_id'', CEq (VStr sid))]) (colls db ''count_observations'')) \<le> 1000"
  shows "\<exists>sum. session_approval_summary (mem_recounts idgen valid auth co fmt) sid db = (Inr sum, db) \<and>
    (let ds = filter (match_filter [(''session_id'', CEq (VStr sid))]) (colls db ''count_observations'') in
     total_observations sum = length ds \<and>
     auto_approved sum = length (with_status [''AUTO_APPROVED''] ds) \<and>
     supervisor_approved sum = length (with_status [''APPROVED''] ds) \<and>
     recount_requested sum = length (with_status [''RECOUNT_REQUESTED''] ds) \<and>
     blocking_items sum = map (\<lambda>d. dget d ''id'')
       (with_status [''PENDING_INVESTIGATION'', ''DISTRIBUTED_STOCK_INVESTIGATION'', ''SUPERVISOR_REVIEW''] ds))"
  using assms
  by (simp add: session_approval_summary_def get_db_def mem_recounts_def run_simps find_all_def mem_find_def
      to_list_take fold_summarize empty_summary_def Let_def)

section \<open>Examples\<close>

definition demo_desk_db :: memdb where
  "demo_desk_db = \<lparr>colls = (\<lambda>c.
     if c = ''count_observations'' then [demo_observation]
     else if c = ''recount_requests'' then [[(''id'', VStr ''r1''), (''observation_id'', VStr ''o1'')]]
     else []), next_id = 0\<rparr>"

definition demo_decision :: decide_request where
  "demo_decision = \<lparr>dr_action = ''APPROVE'', dr_reason = None, dr_notes = None, dr_classification = None,
     dr_assign_to = None, dr_is_blind = None\<rparr>"

abbreviation demo_desk :: "string option \<Rightarrow> memdb recounts" where
  "demo_desk auth \<equiv> mem_recounts show_nat (\<lambda>_. False) auth (\<lambda>_. Inr) show_int"

theorem recounts_locked_out_witness:
  "authority (demo_desk None) = None \<and>
   (\<exists>e. start_request (demo_desk None) 0 ''r1'' demo_desk_db = (Inl e, demo_desk_db)) \<and>
   (\<exists>e. fst (submit_recount (demo_desk None) 0 ''u1'' ''u2'' ''r1'' [(''counted_qty'', VInt 7)] demo_desk_db) = Inl e)"
proof -
  have none: "authority (demo_desk None) = None" by simp
  from recounts_locked_out [OF none, of 0 "''u1''" "[]" demo_desk_db "''r1''" "''x''" "\<lambda>_. []" "''u2''" "[]" "''o1''"
    demo_decision "[(''counted_qty'', VInt 7)]"] none show ?thesis by blast
qed


theorem recount_submission_closes_request_witness:
  "\<exists>m db' closed. submit_recount (demo_desk (Some ''SessionLifecycleService'')) 5 ''u1'' ''u2'' ''r1''
     [(''counted_qty'', VInt 7), (''sql_qty_at_submission'', VInt 8)] demo_desk_db = (Inr m, db') \<and>
   colls db' ''recount_requests'' =
      update_first (match_filter (request_id_filter ''r1'')) (\<lambda>_. closed) (colls demo_desk_db ''recount_requests'') \<and>
   dget closed ''status'' = VStr ''RECOUNT_DIFFERENCE''"
proof -
  let ?payload = "[(''counted_qty'', VInt 7), (''sql_qty_at_submission'', VInt 8)]"
  let ?run = "submit_recount (demo_desk (Some ''SessionLifecycleService'')) 5 ''u1'' ''u2'' ''r1'' ?payload demo_desk_db"
  have "case fst ?run of Inl _ \<Rightarrow> False | Inr _ \<Rightarrow> True" by code_simp
  then obtain m db' where run: "?run = (Inr m, db')"
    by (auto split: sum.splits intro: run_of_fst)
  have "float_or_zero (dget ?payload ''counted_qty'') = Inr 7"
    "float_or_zero (dget ?payload ''sql_qty_at_submission'') = Inr 8" by code_simp+
  with recount_submission_closes_request [OF run] run show ?thesis by fastforce
qed

theorem approval_summary_counts_witness:
  "\<exists>sum. session_approval_summary (demo_desk None) ''s1'' demo_desk_db = (Inr sum, demo_desk_db) \<and>
     total_observations sum = 1 \<and> blocking_items sum = []"
proof -
  have found: "filter (match_filter [(''session_id'', CEq (VStr ''s1''))]) (colls demo_desk_db ''count_observations'') =
    [demo_observation]" by code_simp
  have "with_status [''PENDING_INVESTIGATION'', ''DISTRIBUTED_STOCK_INVESTIGATION'', ''SUPERVISOR_REVIEW'']
    [demo_observation] = []" by code_simp
  with found approval_summary_counts [of "''s1''" demo_desk_db show_nat "\<lambda>_. False" None "\<lambda>_. Inr" show_int]
  show ?thesis by (auto simp: Let_def)
qed

end
