(* ===== verification/EventProjection.thy ===== *)
theory EventProjection
  imports ProjectionWriter
begin

text \<open>
  \<open>services/projections/core.py\<close>: the read models that are maintained from the event log, each
  event being applied once, and their rebuild by replaying the log.

  A service call reads the clock once. A payload is a document of the shape the event service
  writes: its lists hold what the source iterates over, its \<open>delta\<close> is a dictionary. The
  handler of a duplicate key in \<open>_begin_event_apply\<close> is left out: the insertion comes right after
  the lookup found no record of the event, or after the record found was deleted.
\<close>

section \<open>Helpers\<close>

definition EVENT_PROJECTION_VERSION :: string where
  "EVENT_PROJECTION_VERSION = ''v3.1''"

definition EVENT_PROJECTIONS :: "string list" where
  "EVENT_PROJECTIONS =
     [''items_snapshot'', ''batch_records'', ''serial_records'', ''damage_logs'', ''variance_logs'', ''approvals'',
      ''sync_queue'', ''erp_snapshot'', ''serial_registry'', ''item_serials'', ''session_dashboard_projection'',
      ''verified_items_projection'', ''variance_summary_projection'', ''financial_projection'']"

definition nstr :: "repr \<Rightarrow> val \<Rightarrow> string option" where
  "nstr rp v = (if v = VNone then None else let s = strip (py_str rp v) in if s = [] then None else Some s)"

definition event_add_serial :: "repr \<Rightarrow> string list \<Rightarrow> val \<Rightarrow> string list" where
  "event_add_serial rp seen v =
     (case nstr rp v of None \<Rightarrow> seen | Some s \<Rightarrow> if upper s \<in> set seen then seen else seen @ [upper s])"

definition event_serials :: "repr \<Rightarrow> doc option \<Rightarrow> string list" where
  "event_serials rp document =
     (case document of
        None \<Rightarrow> []
      | Some d \<Rightarrow>
          foldl (event_add_serial rp) (foldl (event_add_serial rp) [] (list_or_empty (dget d ''serial_numbers'')))
            (map (\<lambda>e. dget e ''serial_number'') (List.map_filter as_dict (list_or_empty (dget d ''serial_entries'')))))"

record batch_state =
  b_no :: val
  b_counted :: rat
  b_damaged :: rat

definition add_batch :: "repr \<Rightarrow> (string \<times> batch_state) list \<Rightarrow> doc \<Rightarrow> (string \<times> batch_state) list" where
  "add_batch rp acc e =
     (case nstr rp (py_or (dget e ''batch_id'') (dget e ''batch_no'')) of
        None \<Rightarrow> acc
      | Some batch_id \<Rightarrow>
          (let b = (case map_of acc batch_id of
               Some b \<Rightarrow> b
             | None \<Rightarrow> \<lparr>b_no = py_or (dget e ''batch_no'') (VStr batch_id), b_counted = 0, b_damaged = 0\<rparr>)
           in AList.update batch_id
                (b\<lparr>b_counted := b_counted b +
                     as_float (py_or (py_or (dget e ''counted_qty'') (dget e ''quantity'')) (dget e ''qty'')),
                   b_damaged := b_damaged b + as_float (dget e ''damaged_qty'')\<rparr>) acc))"

definition event_batches :: "repr \<Rightarrow> doc option \<Rightarrow> (string \<times> batch_state) list" where
  "event_batches rp document =
     (case document of
        None \<Rightarrow> []
      | Some d \<Rightarrow>
          (let listed = foldl (add_batch rp) [] (List.map_filter as_dict (list_or_empty (dget d ''batches'')))
           in if listed \<noteq> [] then listed
              else let batch_id = (case nstr rp (dget d ''batch_id'') of None \<Rightarrow> ''NO_BATCH'' | Some b \<Rightarrow> b)
                   in [(batch_id, \<lparr>b_no = py_or (dget d ''batch_no'') (VStr batch_id),
                          b_counted = as_float (dget d ''counted_qty''), b_damaged = as_float (dget d ''damaged_qty'')\<rparr>)]))"

definition line_status_is_inactive :: "val \<Rightarrow> bool" where
  "line_status_is_inactive v =
     (case v of VStr s \<Rightarrow> lower (strip s) \<in> {''superseded'', ''removed'', ''deleted''} | _ \<Rightarrow> False)"

definition line_active :: "doc \<Rightarrow> bool" where
  "line_active d = (dget d ''is_removed'' \<noteq> VBool True \<and> \<not> line_status_is_inactive (dget d ''status''))"

definition text_of :: "repr \<Rightarrow> doc \<Rightarrow> string \<Rightarrow> string" where
  "text_of rp d k = strip (py_str rp (py_or (dget d k) (VStr [])))"

definition line_verified :: "repr \<Rightarrow> doc \<Rightarrow> bool" where
  "line_verified rp d =
     (dget d ''verified'' = VBool True \<or> lower (text_of rp d ''status'') \<in> {''locked'', ''approved''} \<or>
      upper (text_of rp d ''approval_status'') = ''APPROVED'')"

definition variance_pending :: "repr \<Rightarrow> doc \<Rightarrow> bool" where
  "variance_pending rp d =
     (let approval = upper (text_of rp d ''approval_status''); status = upper (text_of rp d ''status'')
      in approval \<notin> {''APPROVED'', ''RESOLVED''} \<and>
         (status \<in> {''PENDING'', ''PENDING_APPROVAL'', ''NEEDS_REVIEW'', ''RECOUNT_REQUESTED'', ''REJECTED'', ''RECOUNT''} \<or>
          approval \<in> {[], ''PENDING'', ''NEEDS_REVIEW'', ''RECOUNT_REQUESTED'', ''REJECTED''}))"

definition event_unit_value :: "doc \<Rightarrow> rat" where
  "event_unit_value d =
     (case List.find set_value (map (dget d)
        [''last_cost'', ''sale_price'', ''sales_price'', ''mrp'', ''mrp_counted'', ''mrp_erp'', ''cost'', ''price'']) of
        None \<Rightarrow> 0
      | Some v \<Rightarrow> as_float v)"

section \<open>The service\<close>

record 'db events =
  estore :: "'db store"
  erepr :: repr
  iso_text :: "int \<Rightarrow> string"

definition line_identifier :: "repr \<Rightarrow> doc \<Rightarrow> string option" where
  "line_identifier rp d = nstr rp (py_or (dget d ''id'') (dget d ''_id''))"

definition opt_string :: "string option \<Rightarrow> val" where
  "opt_string s = (case s of None \<Rightarrow> VNone | Some t \<Rightarrow> VStr t)"

definition event_key :: "doc \<Rightarrow> val" where
  "event_key event = py_or (dget event ''_id'') (dget event ''id'')"

definition event_name :: "repr \<Rightarrow> doc \<Rightarrow> string" where
  "event_name rp event = upper (text_of rp event ''event_type'')"

definition payload_of :: "doc \<Rightarrow> doc" where
  "payload_of event = dict_or_empty (dget event ''payload'')"

definition delta_of :: "doc \<Rightarrow> doc" where
  "delta_of payload = dict_or_empty (dget payload ''delta'')"

definition moment :: "int \<Rightarrow> doc \<Rightarrow> doc \<Rightarrow> val" where
  "moment now event payload = py_or (py_or (dget payload ''updated_at'') (dget event ''timestamp'')) (naive now)"

definition event_time :: "int \<Rightarrow> doc \<Rightarrow> val" where
  "event_time now event = py_or (dget event ''timestamp'') (naive now)"

definition by_event :: "string \<Rightarrow> query" where
  "by_event event_id = [(''event_id'', CEq (VStr event_id))]"

definition by_session :: "string \<Rightarrow> query" where
  "by_session sid = [(''session_id'', CEq (VStr sid))]"

definition by_line :: "string \<Rightarrow> query" where
  "by_line lid = [(''count_line_id'', CEq (VStr lid))]"

definition by_item :: "string \<Rightarrow> string \<Rightarrow> query" where
  "by_item sid item_code = [(''session_id'', CEq (VStr sid)), (''item_code'', CEq (VStr item_code))]"

definition item_scope_query :: "string \<Rightarrow> string \<Rightarrow> query" where
  "item_scope_query item_id item_code =
     [(''$or'', CClauses [[(''item_id'', CEq (VStr item_id))], [(''item_code'', CEq (VStr item_code))]])]"

definition serial_scope_query :: "string \<Rightarrow> string \<Rightarrow> string \<Rightarrow> string \<Rightarrow> query" where
  "serial_scope_query item_id item_code field serial =
     [(''$and'', CClauses [[(field, CEq (VStr serial))], item_scope_query item_id item_code])]"

definition put_row :: "'db events \<Rightarrow> string \<Rightarrow> query \<Rightarrow> doc \<Rightarrow> ('db, unit) comp" where
  "put_row E c q row = bindM (upsert_one (estore E) c q [(''$set'', VDict row)]) (\<lambda>_. returnM ())"

definition drop_row :: "'db events \<Rightarrow> string \<Rightarrow> query \<Rightarrow> ('db, unit) comp" where
  "drop_row E c q = bindM (delete_one (estore E) c q) (\<lambda>_. returnM ())"

section \<open>The record of an application\<close>

definition apply_doc :: "int \<Rightarrow> string \<Rightarrow> doc \<Rightarrow> doc \<Rightarrow> doc" where
  "apply_doc now event_id event payload =
     [(''event_id'', VStr event_id), (''event_type'', dget event ''event_type''), (''aggregate_id'', dget event ''aggregate_id''),
      (''session_id'', dget payload ''session_id''), (''item_id'', dget payload ''item_id''), (''status'', VStr ''applying''),
      (''started_at'', naive now), (''projection_version'', VStr EVENT_PROJECTION_VERSION)]"

definition begin_event_apply :: "'db events \<Rightarrow> int \<Rightarrow> string \<Rightarrow> doc \<Rightarrow> doc \<Rightarrow> ('db, bool) comp" where
  "begin_event_apply E now event_id event payload =
     bindM (find_one (estore E) ''event_applied'' (by_event event_id)) (\<lambda>existing.
     if (case existing of None \<Rightarrow> False | Some r \<Rightarrow> dget r ''status'' = VStr ''applied'') then returnM False
     else bindM (whenM (existing \<noteq> None) (drop_row E ''event_applied'' (by_event event_id))) (\<lambda>_.
          bindM (insert_one (estore E) ''event_applied'' (apply_doc now event_id event payload)) (\<lambda>_.
          returnM True)))"

definition applied_fields :: "int \<Rightarrow> doc \<Rightarrow> doc \<Rightarrow> doc" where
  "applied_fields now event payload =
     [(''status'', VStr ''applied''), (''applied_at'', naive now), (''event_type'', dget event ''event_type''),
      (''aggregate_id'', dget event ''aggregate_id''), (''session_id'', dget payload ''session_id''),
      (''item_id'', dget payload ''item_id''), (''projection_timestamp'', dget event ''timestamp''),
      (''projection_version'', VStr EVENT_PROJECTION_VERSION)]"

definition finalize_event_apply :: "'db events \<Rightarrow> int \<Rightarrow> string \<Rightarrow> doc \<Rightarrow> doc \<Rightarrow> ('db, unit) comp" where
  "finalize_event_apply E now event_id event payload =
     bindM (update_one (estore E) ''event_applied'' (by_event event_id)
       [(''$set'', VDict (applied_fields now event payload))]) (\<lambda>_. returnM ())"

section \<open>Sessions\<close>

definition session_base :: "int \<Rightarrow> string \<Rightarrow> doc \<Rightarrow> doc \<Rightarrow> doc \<Rightarrow> doc res" where
  "session_base now sid event payload current =
     (let inherit = (\<lambda>k. (k, dget_or payload k (dget current k)));
          keep = (\<lambda>k. (k, dget current k)) in
      bindR (to_int (py_or (py_or (dget payload ''item_count'') (dget current ''snapshot_item_count'')) (VInt 0))) (\<lambda>items.
      bindR (to_int (py_or (py_or (dget payload ''version'') (dget current ''version'')) (VInt 0))) (\<lambda>version.
      Inr ([(''session_id'', VStr sid)] @
        map inherit [''warehouse'', ''location_id'', ''location_key'', ''location_type'', ''location_name'', ''rack_no'',
          ''staff_user'', ''staff_name''] @
        [(''status'', py_or (py_or (py_or (dget payload ''status'') (dget payload ''to_status'')) (dget current ''status'')) (VStr ''OPEN'')),
         (''type'', dget_or payload ''type'' (py_or (dget current ''type'') (VStr ''STANDARD''))),
         keep ''started_at'', inherit ''last_heartbeat'', keep ''closed_at'', keep ''completed_at'', keep ''reconciled_at'',
         keep ''finalized_at'', keep ''finalized_by'', inherit ''finalization_status'',
         (''notes'', dget_or payload ''note'' (dget current ''notes'')), inherit ''snapshot_hash'',
         (''snapshot_item_count'', VInt items), (''version'', VInt version), (''updated_at'', moment now event payload),
         (''last_event_id'', event_key event), (''last_event_type'', dget event ''event_type''),
         (''projection_version'', VStr EVENT_PROJECTION_VERSION)]))))"

definition stamp_fields :: "val \<Rightarrow> string list \<Rightarrow> doc \<Rightarrow> doc" where
  "stamp_fields t ks d = foldl (\<lambda>e k. dput k t e) d ks"

definition session_special :: "repr \<Rightarrow> int \<Rightarrow> doc \<Rightarrow> doc \<Rightarrow> doc \<Rightarrow> doc \<Rightarrow> doc" where
  "session_special rp now event payload current next_doc =
     (let t = moment now event payload; e = event_name rp event in
      if e = ''SESSION_CREATED'' then stamp_fields t [''started_at'', ''last_heartbeat''] next_doc
      else if e = ''SESSION_TRANSITIONED'' then
        (let target = py_or (dget payload ''to_status'') (dget next_doc ''status'');
             d = dput ''status'' target next_doc;
             stamped = (if target = VStr ''RECONCILE'' then [''reconciled_at'']
                        else if target = VStr ''CLOSED'' then [''closed_at'']
                        else if target = VStr ''FINALIZED'' then [''finalized_at''] else [])
         in stamp_fields t stamped d)
      else if e = ''SESSION_HEARTBEAT'' then stamp_fields t [''last_heartbeat''] next_doc
      else if e = ''SESSION_FINALIZED'' then
        dput ''finalized_by'' (py_or (py_or (dget payload ''finalized_by'') (dget payload ''actor'')) (dget current ''finalized_by''))
          (stamp_fields t [''finalized_at'', ''completed_at'', ''closed_at''] (dput ''status'' (VStr ''FINALIZED'') next_doc))
      else next_doc)"

definition SESSION_COUNTERS :: "string list" where
  "SESSION_COUNTERS =
     [''total_items'', ''verified_items'', ''pending_items'', ''damage_items'', ''total_variance'', ''positive_variance'',
      ''negative_variance'', ''scanned_items'', ''pending_approvals'', ''approved_count'']"

definition carry_counters :: "doc \<Rightarrow> doc \<Rightarrow> doc \<Rightarrow> doc" where
  "carry_counters payload current next_doc =
     foldl (\<lambda>d k. if dhas payload k then dput k (dget payload k) d
                  else if dhas current k then dput k (dget current k) d else d) next_doc SESSION_COUNTERS"

definition project_session_event :: "'db events \<Rightarrow> int \<Rightarrow> doc \<Rightarrow> doc \<Rightarrow> ('db, unit) comp" where
  "project_session_event E now event payload =
     (case nstr (erepr E) (py_or (dget payload ''session_id'') (dget event ''aggregate_id'')) of
        None \<Rightarrow> returnM ()
      | Some sid \<Rightarrow>
          bindM (find_one (estore E) ''session_dashboard_projection'' (by_session sid)) (\<lambda>existing.
          let current = (case existing of None \<Rightarrow> [] | Some d \<Rightarrow> d) in
          bindM (liftM (session_base now sid event payload current)) (\<lambda>base.
          put_row E ''session_dashboard_projection'' (by_session sid)
            (carry_counters payload current (session_special (erepr E) now event payload current base)))))"

section \<open>Totals of a session\<close>

record dashboard =
  d_total :: nat
  d_verified :: nat
  d_damage :: nat
  d_variance :: rat
  d_positive :: rat
  d_negative :: rat
  d_latest :: val

definition dashboard_row :: "repr \<Rightarrow> dashboard \<Rightarrow> doc \<Rightarrow> dashboard" where
  "dashboard_row rp a row =
     (if \<not> line_active row then a
      else let v = as_float (dget row ''variance'')
           in \<lparr>d_total = d_total a + 1,
               d_verified = d_verified a + (if line_verified rp row then 1 else 0),
               d_damage = d_damage a + (if as_float (dget row ''damaged_qty'') > 0 then 1 else 0),
               d_variance = d_variance a + v, d_positive = d_positive a + max v 0, d_negative = d_negative a + min v 0,
               d_latest = (case dget row ''counted_at'' of
                   VDate t z \<Rightarrow> if d_latest a = VNone \<or> val_less (d_latest a) (VDate t z) then VDate t z else d_latest a
                 | _ \<Rightarrow> d_latest a)\<rparr>)"

definition dashboard_totals :: "repr \<Rightarrow> doc list \<Rightarrow> dashboard" where
  "dashboard_totals rp rows =
     foldl (dashboard_row rp) \<lparr>d_total = 0, d_verified = 0, d_damage = 0, d_variance = 0, d_positive = 0, d_negative = 0,
       d_latest = VNone\<rparr> rows"

definition dashboard_fields :: "repr \<Rightarrow> int \<Rightarrow> doc list \<Rightarrow> doc list \<Rightarrow> doc" where
  "dashboard_fields rp now rows variances =
     (let a = dashboard_totals rp rows in
      [(''total_items'', VInt (int (d_total a))), (''scanned_items'', VInt (int (d_total a))),
       (''verified_items'', VInt (int (d_verified a))),
       (''pending_items'', VInt (max (int (d_total a) - int (d_verified a)) 0)), (''damage_items'', VInt (int (d_damage a))),
       (''total_variance'', VFloat (d_variance a)), (''positive_variance'', VFloat (d_positive a)),
       (''negative_variance'', VFloat (d_negative a)),
       (''pending_approvals'', VInt (int (length (filter (variance_pending rp) variances)))),
       (''approved_count'', VInt (int (length (filter (\<lambda>r. upper (text_of rp r ''approval_status'') = ''APPROVED'') variances)))),
       (''completion_percent'', VFloat (if d_total a = 0 then 0 else of_nat (d_verified a) / of_nat (d_total a) * 100)),
       (''updated_at'', naive now), (''last_counted_at'', d_latest a), (''projection_version'', VStr EVENT_PROJECTION_VERSION)])"

definition refresh_session_dashboard_projection :: "'db events \<Rightarrow> int \<Rightarrow> string \<Rightarrow> ('db, unit) comp" where
  "refresh_session_dashboard_projection E now sid =
     bindM (find_one (estore E) ''session_dashboard_projection'' (by_session sid)) (\<lambda>found.
     whenM (found \<noteq> None)
       (bindM (find_all (estore E) ''verified_items_projection'' (by_session sid)) (\<lambda>rows.
        bindM (find_all (estore E) ''variance_summary_projection'' (by_session sid)) (\<lambda>variances.
        put_row E ''session_dashboard_projection'' (by_session sid) (dashboard_fields (erepr E) now rows variances)))))"

record valuation =
  v_counted_qty :: rat
  v_stock_qty :: rat
  v_counted :: rat
  v_stock :: rat
  v_shortage :: rat
  v_overage :: rat
  v_damage :: rat

definition no_valuation :: valuation where
  "no_valuation = \<lparr>v_counted_qty = 0, v_stock_qty = 0, v_counted = 0, v_stock = 0, v_shortage = 0, v_overage = 0, v_damage = 0\<rparr>"

definition value_item :: "rat \<Rightarrow> rat \<Rightarrow> rat \<Rightarrow> rat \<Rightarrow> valuation \<Rightarrow> valuation" where
  "value_item counted damaged stock unit_value a =
     (let variance = counted - stock in
      \<lparr>v_counted_qty = v_counted_qty a + counted, v_stock_qty = v_stock_qty a + stock,
       v_counted = v_counted a + counted * unit_value, v_stock = v_stock a + stock * unit_value,
       v_shortage = v_shortage a + \<bar>min variance 0\<bar> * unit_value, v_overage = v_overage a + max variance 0 * unit_value,
       v_damage = v_damage a + damaged * unit_value\<rparr>)"

definition or_empty :: "doc option \<Rightarrow> doc" where
  "or_empty d = (case d of None \<Rightarrow> [] | Some e \<Rightarrow> e)"

fun value_items :: "'db events \<Rightarrow> string \<Rightarrow> doc list \<Rightarrow> valuation \<Rightarrow> ('db, valuation) comp" where
  "value_items E sid [] a = returnM a"
| "value_items E sid (row # rows) a =
     (case nstr (erepr E) (dget row ''item_code'') of
        None \<Rightarrow> value_items E sid rows a
      | Some item_code \<Rightarrow>
          bindM (find_one (estore E) ''erp_snapshot'' (by_item sid item_code)) (\<lambda>erp.
          bindM (find_one (estore E) ''verified_items_projection'' (by_item sid item_code)) (\<lambda>line.
          value_items E sid rows
            (value_item (as_float (dget row ''counted_qty'')) (as_float (dget row ''damaged_qty''))
               (as_float (py_or (py_or (dget (or_empty erp) ''current_sql_qty'') (dget (or_empty erp) ''baseline_qty'')) (VFloat 0)))
               (as_float (py_or (dget (or_empty line) ''unit_value'') (dget (or_empty line) ''mrp''))) a))))"

definition valuation_fields :: "int \<Rightarrow> string \<Rightarrow> valuation \<Rightarrow> doc" where
  "valuation_fields now sid a =
     [(''session_id'', VStr sid), (''total_counted_qty'', VFloat (v_counted_qty a)), (''total_stock_qty'', VFloat (v_stock_qty a)),
      (''complete_percent'', VFloat (if v_stock_qty a = 0 then 0 else v_counted_qty a / v_stock_qty a * 100)),
      (''total_counted_value'', VFloat (v_counted a)), (''total_stock_value'', VFloat (v_stock a)),
      (''shortage_value'', VFloat (v_shortage a)), (''overage_value'', VFloat (v_overage a)), (''damage_value'', VFloat (v_damage a)),
      (''valuation_basis'', VStr ''last_cost''), (''updated_at'', naive now), (''projection_version'', VStr EVENT_PROJECTION_VERSION)]"

definition refresh_financial_projection :: "'db events \<Rightarrow> int \<Rightarrow> string \<Rightarrow> ('db, unit) comp" where
  "refresh_financial_projection E now sid =
     bindM (find_all (estore E) ''items_snapshot'' (by_session sid)) (\<lambda>rows.
     bindM (value_items E sid rows no_valuation) (\<lambda>a.
     put_row E ''financial_projection'' (by_session sid) (valuation_fields now sid a)))"

definition refresh_session :: "'db events \<Rightarrow> int \<Rightarrow> string \<Rightarrow> ('db, unit) comp" where
  "refresh_session E now sid =
     bindM (refresh_session_dashboard_projection E now sid) (\<lambda>_. refresh_financial_projection E now sid)"

section \<open>The verified items\<close>

definition opt_dict :: "doc option \<Rightarrow> val" where
  "opt_dict d = (case d of None \<Rightarrow> VNone | Some e \<Rightarrow> VDict e)"

definition event_line :: "doc \<Rightarrow> doc option" where
  "event_line payload =
     as_dict (py_or (py_or (opt_dict (as_dict (dget payload ''after''))) (dget payload ''count_line''))
       (opt_dict (as_dict (dget payload ''before''))))"

definition any_of :: "doc \<Rightarrow> string list \<Rightarrow> val" where
  "any_of d ks = foldl (\<lambda>v k. py_or v (dget d k)) VNone ks"

definition line_stock :: "doc \<Rightarrow> rat" where
  "line_stock line =
     as_float (py_or (py_or (py_or (dget line ''erp_qty'') (dget line ''current_sql_qty'')) (dget line ''system_qty''))
       (dget line ''expected_qty''))"

definition line_variance :: "doc \<Rightarrow> rat" where
  "line_variance line =
     (let computed = as_float (dget line ''counted_qty'') - line_stock line; v = dget line ''variance''
      in if \<not> set_value v then computed else (case to_float v of Inl _ \<Rightarrow> computed | Inr q \<Rightarrow> q))"

definition line_percentage :: "rat \<Rightarrow> rat \<Rightarrow> rat" where
  "line_percentage variance stock =
     (if stock \<noteq> 0 then variance / \<bar>stock\<bar> * 100 else if variance \<noteq> 0 then 100 else 0)"

definition verified_row ::
  "repr \<Rightarrow> int \<Rightarrow> doc \<Rightarrow> doc \<Rightarrow> string \<Rightarrow> string \<Rightarrow> string option \<Rightarrow> string \<Rightarrow> string option \<Rightarrow> doc \<Rightarrow> doc" where
  "verified_row rp now event line lid sid item_id item_code batch_id session =
     (let get = (\<lambda>k. (k, dget line k)); flag = (\<lambda>k. (k, VBool (truthy (dget line k)))) in
      [(''count_line_id'', VStr lid), (''id'', VStr lid), (''session_id'', VStr sid), (''item_id'', opt_string item_id),
       (''item_code'', VStr item_code), get ''item_name'', get ''barcode'', get ''category'',
       (''warehouse'', py_or (dget line ''warehouse'') (dget session ''warehouse'')),
       (''floor'', py_or (py_or (dget line ''floor_no'') (dget line ''floor_id'')) (dget session ''location_name'')),
       (''rack_id'', py_or (dget line ''rack_id'') (dget line ''rack_no'')),
       (''rack_no'', py_or (dget line ''rack_no'') (dget line ''rack_id'')),
       (''batch_id'', opt_string batch_id), (''stock_qty'', VFloat (line_stock line)),
       (''counted_qty'', VFloat (as_float (dget line ''counted_qty''))),
       (''damaged_qty'', VFloat (as_float (dget line ''damaged_qty''))),
       (''variance'', VFloat (line_variance line)),
       (''variance_percentage'', VFloat (line_percentage (line_variance line) (line_stock line))),
       (''mrp'', VFloat (event_unit_value line)), (''unit_value'', VFloat (event_unit_value line)),
       (''verified'', VBool (truthy (dget line ''verified'') \<or>
          upper (py_str rp (py_or (dget line ''approval_status'') (VStr []))) = ''APPROVED'')),
       (''verified_by'', py_or (dget line ''verified_by'') (dget line ''approved_by'')),
       (''verified_at'', py_or (dget line ''verified_at'') (dget line ''approved_at'')),
       (''counted_by'', py_or (dget line ''counted_by'') (dget line ''created_by'')), get ''counted_at'',
       (''notes'', py_or (py_or (dget line ''notes'') (dget line ''approval_note'')) (dget line ''variance_note'')),
       get ''status'', get ''approval_status'', get ''approved_by'', get ''approved_at'', flag ''blind_recount_required'',
       flag ''dual_verification_required'', flag ''original_count_hidden'', (''updated_at'', naive now),
       (''last_event_id'', event_key event), (''last_event_type'', dget event ''event_type''),
       (''projection_version'', VStr EVENT_PROJECTION_VERSION), (''is_removed'', VBool False)])"

definition needs_summary :: "doc \<Rightarrow> bool" where
  "needs_summary line =
     (\<bar>line_variance line\<bar> > 1 / 10 ^ 9 \<or> truthy (dget line ''approval_status'') \<or> truthy (dget line ''blind_recount_required''))"

definition summary_doc :: "doc \<Rightarrow> doc \<Rightarrow> doc" where
  "summary_doc line verified =
     dmerge verified [(''assigned_to'', dget line ''assigned_to''),
       (''rejection_reason'', py_or (dget line ''rejection_reason'') (dget line ''variance_reason''))]"

definition put_verified_item :: "'db events \<Rightarrow> int \<Rightarrow> doc \<Rightarrow> doc \<Rightarrow> doc \<Rightarrow> string \<Rightarrow> string \<Rightarrow> string \<Rightarrow> ('db, unit) comp" where
  "put_verified_item E now event payload line lid sid item_code =
     (let rp = erepr E;
          item_id = nstr rp (py_or (py_or (dget line ''item_id'') (dget payload ''item_id'')) (VStr item_code));
          batch_id = nstr rp (py_or (dget line ''batch_id'') (dget payload ''batch_id'')) in
      bindM (find_one (estore E) ''session_dashboard_projection'' (by_session sid)) (\<lambda>session.
      let row = verified_row rp now event line lid sid item_id item_code batch_id (or_empty session) in
      bindM (put_row E ''verified_items_projection'' (by_line lid) row) (\<lambda>_.
      bindM (if needs_summary line then put_row E ''variance_summary_projection'' (by_line lid) (summary_doc line row)
             else drop_row E ''variance_summary_projection'' (by_line lid)) (\<lambda>_.
      refresh_session E now sid))))"

definition drop_verified_item :: "'db events \<Rightarrow> int \<Rightarrow> string \<Rightarrow> string \<Rightarrow> ('db, unit) comp" where
  "drop_verified_item E now lid sid =
     bindM (drop_row E ''verified_items_projection'' (by_line lid)) (\<lambda>_.
     bindM (drop_row E ''variance_summary_projection'' (by_line lid)) (\<lambda>_.
     refresh_session E now sid))"

definition project_verified_item_projection :: "'db events \<Rightarrow> int \<Rightarrow> doc \<Rightarrow> doc \<Rightarrow> ('db, unit) comp" where
  "project_verified_item_projection E now event payload =
     (case event_line payload of
        None \<Rightarrow> returnM ()
      | Some line \<Rightarrow>
          (let rp = erepr E;
               lid = (case line_identifier rp line of None \<Rightarrow> nstr rp (dget payload ''count_line_id'') | Some i \<Rightarrow> Some i)
           in (case (lid, nstr rp (py_or (dget payload ''session_id'') (dget line ''session_id''))) of
                 (Some lid, Some sid) \<Rightarrow>
                   if event_name rp event \<in> {''COUNT_LINE_REMOVED'', ''COUNT_LINE_SUPERSEDED''} \<or>
                      line_status_is_inactive (dget line ''status'')
                   then drop_verified_item E now lid sid
                   else (case nstr rp (py_or (dget line ''item_code'') (dget payload ''item_id'')) of
                           None \<Rightarrow> returnM ()
                         | Some item_code \<Rightarrow> put_verified_item E now event payload line lid sid item_code)
               | _ \<Rightarrow> returnM ())))"

section \<open>Counts of items, batches and serials\<close>

record deltas =
  counted_delta :: rat
  damaged_delta :: rat
  serial_delta :: int

definition is_scan :: "doc \<Rightarrow> bool" where
  "is_scan event = (dget event ''event_type'' = VStr ''SCAN_ADDED'')"

definition event_deltas :: "repr \<Rightarrow> doc \<Rightarrow> doc \<Rightarrow> doc \<Rightarrow> deltas res" where
  "event_deltas rp event payload line =
     (let after = as_dict (dget payload ''after''); counted = as_float (dget (delta_of payload) ''counted_qty'') in
      bindR (to_int (py_or (dget (delta_of payload) ''serial_count'') (VInt 0))) (\<lambda>serials.
      Inr (if is_scan event \<and> counted = 0
           then \<lparr>counted_delta = as_float (dget line ''counted_qty''), damaged_delta = as_float (dget line ''damaged_qty''),
                 serial_delta = int (length (event_serials rp (Some (if or_empty after \<noteq> [] then or_empty after else line))))\<rparr>
           else \<lparr>counted_delta = counted, damaged_delta = as_float (dget (delta_of payload) ''damaged_qty''),
                 serial_delta = serials\<rparr>)))"

definition snapshot_fields :: "int \<Rightarrow> doc \<Rightarrow> doc \<Rightarrow> string \<Rightarrow> string \<Rightarrow> string \<Rightarrow> doc" where
  "snapshot_fields now event line sid item_id item_code =
     (let alt = (\<lambda>k ks. (k, any_of line ks)) in
      [(''session_id'', VStr sid), (''item_id'', VStr item_id), (''item_code'', VStr item_code),
       (''item_name'', dget line ''item_name''), alt ''base_uom'' [''base_uom'', ''uom_code'', ''uom_name''],
       alt ''input_uom'' [''input_uom'', ''uom_code'', ''uom_name''], (''location_id'', dget line ''location_id''),
       alt ''floor_id'' [''floor_id'', ''floor_no''], alt ''floor_no'' [''floor_no'', ''floor_id''],
       alt ''rack_id'' [''rack_id'', ''rack_no''], alt ''rack_no'' [''rack_no'', ''rack_id''],
       alt ''counted_by'' [''counted_by'', ''created_by''], alt ''updated_by'' [''updated_by'', ''counted_by''],
       (''counted_at'', dget line ''counted_at''), (''last_event_id'', event_key event),
       (''last_event_type'', dget event ''event_type''), (''last_event_at'', event_time now event), (''updated_at'', naive now),
       (''projection_version'', VStr EVENT_PROJECTION_VERSION)])"

definition count_increments :: "deltas \<Rightarrow> doc" where
  "count_increments x =
     [(''counted_qty'', VFloat (counted_delta x)), (''damaged_qty'', VFloat (damaged_delta x)),
      (''serial_count'', VInt (serial_delta x))]"

definition put_counts :: "'db events \<Rightarrow> string \<Rightarrow> query \<Rightarrow> doc \<Rightarrow> doc \<Rightarrow> ('db, unit) comp" where
  "put_counts E c q row increments =
     bindM (upsert_one (estore E) c q [(''$set'', VDict row), (''$inc'', VDict increments)]) (\<lambda>_. returnM ())"

definition by_batch :: "string \<Rightarrow> string \<Rightarrow> string \<Rightarrow> query" where
  "by_batch sid item_code batch_id = by_item sid item_code @ [(''batch_id'', CEq (VStr batch_id))]"

definition batch_value :: "(batch_state \<Rightarrow> rat) \<Rightarrow> (string \<times> batch_state) list \<Rightarrow> string \<Rightarrow> rat" where
  "batch_value f batches b = (case map_of batches b of None \<Rightarrow> 0 | Some s \<Rightarrow> f s)"

definition batch_name :: "(string \<times> batch_state) list \<Rightarrow> string \<Rightarrow> val" where
  "batch_name batches b = (case map_of batches b of None \<Rightarrow> VNone | Some s \<Rightarrow> b_no s)"

definition batch_fields :: "int \<Rightarrow> doc \<Rightarrow> doc \<Rightarrow> string \<Rightarrow> string \<Rightarrow> string \<Rightarrow> string \<Rightarrow> val \<Rightarrow> doc" where
  "batch_fields now event line sid item_id item_code batch_id batch_no =
     [(''session_id'', VStr sid), (''item_id'', VStr item_id), (''item_code'', VStr item_code), (''batch_id'', VStr batch_id),
      (''batch_no'', batch_no), (''item_name'', dget line ''item_name''),
      (''counted_by'', any_of line [''counted_by'', ''created_by'']), (''counted_at'', dget line ''counted_at''),
      (''last_event_id'', event_key event), (''last_event_type'', dget event ''event_type''),
      (''last_event_at'', event_time now event), (''updated_at'', naive now),
      (''projection_version'', VStr EVENT_PROJECTION_VERSION)]"

definition project_batch ::
  "'db events \<Rightarrow> int \<Rightarrow> doc \<Rightarrow> doc \<Rightarrow> string \<Rightarrow> string \<Rightarrow> string \<Rightarrow> (string \<times> batch_state) list \<Rightarrow>
   (string \<times> batch_state) list \<Rightarrow> string \<Rightarrow> ('db, unit) comp" where
  "project_batch E now event line sid item_id item_code before after b =
     (let counted = batch_value b_counted after b - batch_value b_counted before b;
          damaged = batch_value b_damaged after b - batch_value b_damaged before b in
      if counted = 0 \<and> damaged = 0 then returnM ()
      else put_counts E ''batch_records'' (by_batch sid item_code b)
             (batch_fields now event line sid item_id item_code b
                (py_or (py_or (batch_name after b) (batch_name before b)) (VStr b)))
             [(''counted_qty'', VFloat counted), (''damaged_qty'', VFloat damaged)])"

definition serial_record :: "repr \<Rightarrow> int \<Rightarrow> doc \<Rightarrow> doc \<Rightarrow> string \<Rightarrow> string \<Rightarrow> string \<Rightarrow> string \<Rightarrow> string \<Rightarrow> doc" where
  "serial_record rp now event line sid item_id item_code batch_id serial =
     [(''item_id'', VStr item_id), (''serial_no'', VStr serial), (''session_id'', VStr sid), (''item_code'', VStr item_code),
      (''batch_id'', VStr batch_id), (''count_line_id'', opt_string (line_identifier rp line)),
      (''status'', VStr (if as_float (dget line ''damaged_qty'') > 0 then ''DAMAGED'' else ''GOOD'')),
      (''last_event_at'', event_time now event), (''updated_at'', naive now),
      (''projection_version'', VStr EVENT_PROJECTION_VERSION)]"

definition registry_record :: "repr \<Rightarrow> int \<Rightarrow> doc \<Rightarrow> doc \<Rightarrow> string \<Rightarrow> string \<Rightarrow> string \<Rightarrow> string \<Rightarrow> string \<Rightarrow> doc" where
  "registry_record rp now event line sid item_id item_code batch_id serial =
     [(''item_id'', VStr item_id), (''serial_no'', VStr serial), (''session_id'', VStr sid), (''item_code'', VStr item_code),
      (''item_name'', dget line ''item_name''), (''counted_by'', any_of line [''counted_by'', ''created_by'']),
      (''floor_id'', any_of line [''floor_id'', ''floor_no'']), (''rack_id'', any_of line [''rack_id'', ''rack_no'']),
      (''batch_id'', VStr batch_id), (''count_line_id'', opt_string (line_identifier rp line)), (''status'', VStr ''LOCKED''),
      (''source_event_id'', event_key event), (''updated_at'', naive now),
      (''projection_version'', VStr EVENT_PROJECTION_VERSION)]"

definition item_serial_record :: "repr \<Rightarrow> int \<Rightarrow> doc \<Rightarrow> string \<Rightarrow> string \<Rightarrow> string \<Rightarrow> string \<Rightarrow> string \<Rightarrow> doc" where
  "item_serial_record rp now line sid item_id item_code batch_id serial =
     [(''item_id'', VStr item_id), (''serial_number'', VStr serial), (''session_id'', VStr sid), (''item_code'', VStr item_code),
      (''item_name'', dget line ''item_name''), (''count_line_id'', opt_string (line_identifier rp line)),
      (''rack_id'', any_of line [''rack_id'', ''rack_no'']), (''floor_no'', any_of line [''floor_id'', ''floor_no'']),
      (''batch_id'', VStr batch_id), (''status'', VStr ''LOCKED''), (''updated_at'', naive now),
      (''projection_version'', VStr EVENT_PROJECTION_VERSION)]"

definition add_serial_rows ::
  "'db events \<Rightarrow> int \<Rightarrow> doc \<Rightarrow> doc \<Rightarrow> string \<Rightarrow> string \<Rightarrow> string \<Rightarrow> string \<Rightarrow> string \<Rightarrow> ('db, unit) comp" where
  "add_serial_rows E now event line sid item_id item_code batch_id serial =
     (let rp = erepr E; by_no = serial_scope_query item_id item_code ''serial_no'' serial in
      bindM (put_row E ''serial_records'' by_no (serial_record rp now event line sid item_id item_code batch_id serial)) (\<lambda>_.
      bindM (put_row E ''serial_registry'' by_no (registry_record rp now event line sid item_id item_code batch_id serial)) (\<lambda>_.
      put_row E ''item_serials'' (serial_scope_query item_id item_code ''serial_number'' serial)
        (item_serial_record rp now line sid item_id item_code batch_id serial))))"

definition drop_serial_rows :: "'db events \<Rightarrow> string \<Rightarrow> string \<Rightarrow> string \<Rightarrow> ('db, unit) comp" where
  "drop_serial_rows E item_id item_code serial =
     (let by_no = serial_scope_query item_id item_code ''serial_no'' serial in
      bindM (drop_row E ''serial_records'' by_no) (\<lambda>_.
      bindM (drop_row E ''serial_registry'' by_no) (\<lambda>_.
      drop_row E ''item_serials'' (serial_scope_query item_id item_code ''serial_number'' serial))))"

definition erp_fields :: "int \<Rightarrow> doc \<Rightarrow> doc \<Rightarrow> string \<Rightarrow> string \<Rightarrow> string \<Rightarrow> doc" where
  "erp_fields now event line sid item_id item_code =
     [(''session_id'', VStr sid), (''item_id'', VStr item_id), (''item_code'', VStr item_code),
      (''baseline_qty'', VFloat (as_float (dget line ''erp_qty''))),
      (''current_sql_qty'', VFloat (as_float (dget line ''current_sql_qty''))), (''baseline_hash'', dget line ''baseline_hash''),
      (''updated_at'', naive now), (''last_event_id'', event_key event),
      (''projection_version'', VStr EVENT_PROJECTION_VERSION)]"

text \<open>The batches, the serials, the ERP row and the verified item of the line, after the counts.\<close>

definition project_details ::
  "'db events \<Rightarrow> int \<Rightarrow> doc \<Rightarrow> doc \<Rightarrow> doc \<Rightarrow> string \<Rightarrow> string \<Rightarrow> string \<Rightarrow> ('db, unit) comp" where
  "project_details E now event payload line sid item_id item_code =
     (let rp = erepr E;
          after = as_dict (dget payload ''after''); before = as_dict (dget payload ''before'');
          batch_id = (case nstr rp (py_or (dget payload ''batch_id'') (dget line ''batch_id'')) of None \<Rightarrow> ''NO_BATCH'' | Some b \<Rightarrow> b);
          before_serials = event_serials rp before; after_serials = event_serials rp after;
          before_batches = event_batches rp before;
          after_batches = (let bs = event_batches rp after in if is_scan event \<and> bs = [] then event_batches rp (Some line) else bs) in
      bindM (forM (sort (remdups (map fst before_batches @ map fst after_batches)))
        (project_batch E now event line sid item_id item_code before_batches after_batches)) (\<lambda>_.
      bindM (forM (sort after_serials) (add_serial_rows E now event line sid item_id item_code batch_id)) (\<lambda>_.
      bindM (forM (sort (filter (\<lambda>s. s \<notin> set after_serials) before_serials)) (drop_serial_rows E item_id item_code)) (\<lambda>_.
      bindM (put_row E ''erp_snapshot'' (by_item sid item_code) (erp_fields now event line sid item_id item_code)) (\<lambda>_.
      project_verified_item_projection E now event payload)))))"

definition project_counts ::
  "'db events \<Rightarrow> int \<Rightarrow> doc \<Rightarrow> doc \<Rightarrow> doc \<Rightarrow> string \<Rightarrow> string \<Rightarrow> string \<Rightarrow> ('db, unit) comp" where
  "project_counts E now event payload line sid item_id item_code =
     bindM (liftM (event_deltas (erepr E) event payload line)) (\<lambda>x.
     bindM (put_counts E ''items_snapshot'' (by_item sid item_code)
       (snapshot_fields now event line sid item_id item_code) (count_increments x)) (\<lambda>_.
     project_details E now event payload line sid item_id item_code))"

text \<open>The line of an event, its session, item identifier and item code.\<close>

definition event_target :: "repr \<Rightarrow> doc \<Rightarrow> (doc \<times> string \<times> string \<times> string) option" where
  "event_target rp payload =
     (case event_line payload of
        None \<Rightarrow> None
      | Some line \<Rightarrow>
          (let item_id = nstr rp (py_or (py_or (dget payload ''item_id'') (dget line ''item_id'')) (dget line ''item_code''))
           in (case (nstr rp (py_or (dget payload ''session_id'') (dget line ''session_id'')), item_id,
                     nstr rp (py_or (py_or (dget line ''item_code'') (dget payload ''item_id'')) (opt_string item_id))) of
                 (Some sid, Some iid, Some item_code) \<Rightarrow> Some (line, sid, iid, item_code)
               | _ \<Rightarrow> None)))"

definition project_inventory_event :: "'db events \<Rightarrow> int \<Rightarrow> doc \<Rightarrow> doc \<Rightarrow> ('db, unit) comp" where
  "project_inventory_event E now event payload =
     (case event_target (erepr E) payload of
        None \<Rightarrow> returnM ()
      | Some (line, sid, item_id, item_code) \<Rightarrow> project_counts E now event payload line sid item_id item_code)"

section \<open>The logs\<close>

definition logged_line :: "doc \<Rightarrow> doc option" where
  "logged_line payload =
     as_dict (py_or (py_or (dget payload ''after'') (dget payload ''count_line'')) (dget payload ''before''))"

definition log_id :: "repr \<Rightarrow> int \<Rightarrow> string \<Rightarrow> doc \<Rightarrow> string" where
  "log_id rp now prefix event =
     (case nstr rp (event_key event) of None \<Rightarrow> prefix @ py_str rp (naive now) | Some i \<Rightarrow> i)"

definition damage_row :: "repr \<Rightarrow> int \<Rightarrow> doc \<Rightarrow> doc \<Rightarrow> doc \<Rightarrow> string \<Rightarrow> doc" where
  "damage_row rp now event payload line event_id =
     (let delta = as_float (dget (delta_of payload) ''damaged_qty'') in
      [(''event_id'', VStr event_id), (''session_id'', dget line ''session_id''), (''item_code'', dget line ''item_code''),
       (''batch_id'', dget line ''batch_id''), (''count_line_id'', opt_string (line_identifier rp line)),
       (''qty'', VFloat (if delta \<noteq> 0 then delta else as_float (dget line ''damaged_qty''))),
       (''reason'', py_or (any_of line [''condition_details'', ''item_condition'', ''variance_reason'']) (VStr ''UNSPECIFIED'')),
       (''location'', any_of line [''mark_location'', ''location_id'', ''floor_id'', ''floor_no'']),
       (''timestamp'', event_time now event), (''updated_at'', naive now),
       (''projection_version'', VStr EVENT_PROJECTION_VERSION)])"

definition project_damage_log :: "'db events \<Rightarrow> int \<Rightarrow> doc \<Rightarrow> doc \<Rightarrow> ('db, unit) comp" where
  "project_damage_log E now event payload =
     (case logged_line payload of
        None \<Rightarrow> returnM ()
      | Some line \<Rightarrow>
          (let event_id = log_id (erepr E) now ''damage-'' event in
           bindM (put_row E ''damage_logs'' (by_event event_id) (damage_row (erepr E) now event payload line event_id)) (\<lambda>_.
           project_verified_item_projection E now event payload)))"

definition variance_row :: "repr \<Rightarrow> int \<Rightarrow> doc \<Rightarrow> doc \<Rightarrow> string \<Rightarrow> doc" where
  "variance_row rp now event line event_id =
     [(''event_id'', VStr event_id), (''session_id'', dget line ''session_id''), (''item_code'', dget line ''item_code''),
      (''batch_id'', dget line ''batch_id''), (''count_line_id'', opt_string (line_identifier rp line)),
      (''variance'', VFloat (as_float (dget line ''variance''))), (''variance_reason'', dget line ''variance_reason''),
      (''approval_status'', dget line ''approval_status''), (''status'', dget line ''status''),
      (''timestamp'', event_time now event), (''updated_at'', naive now),
      (''projection_version'', VStr EVENT_PROJECTION_VERSION)]"

definition project_variance_log :: "'db events \<Rightarrow> int \<Rightarrow> doc \<Rightarrow> doc \<Rightarrow> ('db, unit) comp" where
  "project_variance_log E now event payload =
     (case logged_line payload of
        None \<Rightarrow> returnM ()
      | Some line \<Rightarrow>
          (let event_id = log_id (erepr E) now ''variance-'' event in
           bindM (put_row E ''variance_logs'' (by_event event_id) (variance_row (erepr E) now event line event_id)) (\<lambda>_.
           project_verified_item_projection E now event payload)))"

definition approval_row :: "repr \<Rightarrow> int \<Rightarrow> doc \<Rightarrow> doc \<Rightarrow> string \<Rightarrow> doc" where
  "approval_row rp now event line approval_id =
     [(''approval_id'', VStr approval_id), (''session_id'', dget line ''session_id''), (''item_code'', dget line ''item_code''),
      (''count_line_id'', opt_string (line_identifier rp line)), (''approved_by'', dget line ''approved_by''),
      (''approved_at'', py_or (dget line ''approved_at'') (dget event ''timestamp'')),
      (''approval_note'', dget line ''approval_note''),
      (''status'', py_or (dget line ''approval_status'') (VStr ''APPROVED'')), (''updated_at'', naive now),
      (''projection_version'', VStr EVENT_PROJECTION_VERSION)]"

definition project_approval :: "'db events \<Rightarrow> int \<Rightarrow> doc \<Rightarrow> doc \<Rightarrow> ('db, unit) comp" where
  "project_approval E now event payload =
     (case logged_line payload of
        None \<Rightarrow> returnM ()
      | Some line \<Rightarrow>
          (let approval_id = log_id (erepr E) now ''approval-'' event in
           bindM (put_row E ''approvals'' [(''approval_id'', CEq (VStr approval_id))]
             (approval_row (erepr E) now event line approval_id)) (\<lambda>_.
           project_verified_item_projection E now event payload)))"

definition queue_row :: "int \<Rightarrow> doc \<Rightarrow> doc \<Rightarrow> string \<Rightarrow> doc" where
  "queue_row now event payload queue_id =
     [(''queue_id'', VStr queue_id), (''event_type'', dget event ''event_type''),
      (''status'', py_or (dget payload ''status'') (VStr ''PENDING'')), (''session_id'', dget payload ''session_id''),
      (''item_code'', dget payload ''item_code''), (''strategy'', dget payload ''strategy''),
      (''details'', dget payload ''details''), (''resolved_by'', dget payload ''resolved_by''), (''updated_at'', naive now),
      (''last_event_at'', event_time now event), (''projection_version'', VStr EVENT_PROJECTION_VERSION)]"

definition project_sync_queue :: "'db events \<Rightarrow> int \<Rightarrow> doc \<Rightarrow> doc \<Rightarrow> ('db, unit) comp" where
  "project_sync_queue E now event payload =
     (case nstr (erepr E) (py_or (dget payload ''queue_id'') (event_key event)) of
        None \<Rightarrow> returnM ()
      | Some queue_id \<Rightarrow>
          put_row E ''sync_queue'' [(''queue_id'', CEq (VStr queue_id))] (queue_row now event payload queue_id))"

section \<open>Applying an event\<close>

definition SESSION_EVENTS :: "string list" where
  "SESSION_EVENTS =
     [''SESSION_SNAPSHOT_CREATED'', ''SESSION_CREATED'', ''SESSION_TRANSITIONED'', ''SESSION_TOTALS_UPDATED'',
      ''SESSION_UPDATED'', ''SESSION_HEARTBEAT'', ''SESSION_FINALIZED'']"

definition INVENTORY_EVENTS :: "string list" where
  "INVENTORY_EVENTS =
     [''SCAN_ADDED'', ''QUANTITY_ADJUSTED'', ''COUNT_LINE_REMOVED'', ''COUNT_LINE_MERGED'', ''COUNT_LINE_SUPERSEDED'',
      ''COUNT_VERIFIED'', ''COUNT_UNVERIFIED'']"

text \<open>The chain of tests in the body of \<open>apply_event\<close>.\<close>

definition project_event :: "'db events \<Rightarrow> int \<Rightarrow> doc \<Rightarrow> doc \<Rightarrow> ('db, unit) comp" where
  "project_event E now event payload =
     (let e = event_name (erepr E) event in
      bindM (whenM (e \<in> set SESSION_EVENTS) (project_session_event E now event payload)) (\<lambda>_.
      bindM (whenM (e \<in> set INVENTORY_EVENTS) (project_inventory_event E now event payload)) (\<lambda>_.
      bindM (whenM (e = ''DAMAGE_MARKED'') (project_damage_log E now event payload)) (\<lambda>_.
      bindM (whenM (e \<in> {''VARIANCE_DETECTED'', ''RECOUNT_REQUESTED''}) (project_variance_log E now event payload)) (\<lambda>_.
      bindM (whenM (e = ''APPROVAL_GRANTED'') (project_approval E now event payload)) (\<lambda>_.
      whenM (e \<in> {''SYNC_CONFLICT_RECORDED'', ''SYNC_CONFLICT_RESOLVED''}) (project_sync_queue E now event payload)))))))"

text \<open>\<open>try: m except Exception: cleanup; raise\<close>\<close>

definition cleanup_on_error :: "('s, 'a) comp \<Rightarrow> ('s, unit) comp \<Rightarrow> ('s, 'a) comp" where
  "cleanup_on_error m cleanup = (\<lambda>s. case m s of
     (Inl e, t) \<Rightarrow> (case cleanup t of (Inl e', u) \<Rightarrow> (Inl e', u) | (Inr _, u) \<Rightarrow> (Inl e, u))
   | (Inr x, t) \<Rightarrow> (Inr x, t))"

definition apply_event_core :: "'db events \<Rightarrow> int \<Rightarrow> doc \<Rightarrow> ('db, bool) comp" where
  "apply_event_core E now event =
     (case nstr (erepr E) (event_key event) of
        None \<Rightarrow> raiseM (ValueError ''Projection event is missing an event identifier'')
      | Some event_id \<Rightarrow>
          (let payload = payload_of event in
           bindM (begin_event_apply E now event_id event payload) (\<lambda>started.
           if \<not> started then returnM False
           else bindM (cleanup_on_error (project_event E now event payload) (drop_row E ''event_applied'' (by_event event_id))) (\<lambda>_.
                bindM (finalize_event_apply E now event_id event payload) (\<lambda>_.
                returnM True)))))"

definition apply_event :: "'db events \<Rightarrow> bool \<Rightarrow> int \<Rightarrow> doc \<Rightarrow> ('db, bool) comp" where
  "apply_event E in_tx now event =
     (if in_tx then apply_event_core E now event
      else unit_of_work (estore E) (committed (apply_event_core E now event)))"

section \<open>Rebuilding\<close>

definition clear_projection_state :: "'db events \<Rightarrow> string option \<Rightarrow> ('db, unit) comp" where
  "clear_projection_state E sid =
     (let q = (case sid of None \<Rightarrow> [] | Some s \<Rightarrow> if s = [] then [] else by_session s) in
      forM (EVENT_PROJECTIONS @ [''event_applied'']) (\<lambda>c. bindM (delete_many (estore E) c q) (\<lambda>_. returnM ())))"

definition event_instant :: "doc \<Rightarrow> int option" where
  "event_instant event = (case dget event ''timestamp'' of VDate t _ \<Rightarrow> Some t | _ \<Rightarrow> None)"

text \<open>
  The sort by timestamp and identifier, as two stable sorts: an event without a timestamp sorts
  as \<open>datetime.min\<close>, before all others.
\<close>

definition replay_order :: "repr \<Rightarrow> doc list \<Rightarrow> doc list" where
  "replay_order rp events =
     (let by_id = sort_key (\<lambda>e. py_str rp (py_or (event_key e) (VStr []))) events in
      filter (\<lambda>e. event_instant e = None) by_id @
      sort_key (\<lambda>e. the (event_instant e)) (filter (\<lambda>e. event_instant e \<noteq> None) by_id))"

fun apply_events :: "'db events \<Rightarrow> bool \<Rightarrow> int \<Rightarrow> doc list \<Rightarrow> ('db, nat) comp" where
  "apply_events E in_tx now [] = returnM 0"
| "apply_events E in_tx now (event # events) =
     bindM (apply_event E in_tx now event) (\<lambda>applied.
     bindM (apply_events E in_tx now events) (\<lambda>n. returnM (if applied then Suc n else n)))"

definition rebuild_from_event_log :: "'db events \<Rightarrow> bool \<Rightarrow> int \<Rightarrow> string option \<Rightarrow> bool \<Rightarrow> ('db, doc) comp" where
  "rebuild_from_event_log E in_tx now sid clear_existing =
     bindM (whenM clear_existing (clear_projection_state E sid)) (\<lambda>_.
     bindM (find_all (estore E) ''event_log''
       (case sid of None \<Rightarrow> [] | Some s \<Rightarrow> if s = [] then [] else [(''payload.session_id'', CEq (VStr s))])) (\<lambda>found.
     let events = replay_order (erepr E) found in
     bindM (apply_events E in_tx now events) (\<lambda>applied.
     returnM [(''processed_events'', VInt (int (length events))), (''applied_events'', VInt (int applied)),
       (''rebuilt_at'', VStr (iso_text E now))])))"

end
