(* ===== verification/EventReplay.thy ===== *)
theory EventReplay
  imports EventProjection "HOL-Library.Multiset"
begin

text \<open>
  The projections of \<open>services/projections/core.py\<close>: which collections they write, that an event
  is applied once, and what a rebuild of the read models does.
\<close>

section \<open>What a projection writes\<close>

lemma cleanup_on_error_iff [run_iff]: "cleanup_on_error m c s = (Inr x, t) \<longleftrightarrow> m s = (Inr x, t)"
  by (auto simp: cleanup_on_error_def split: prod.splits sum.splits)

lemma keeps_cleanup_on_error:
  assumes m: "keeps P m" and c: "keeps P c"
  shows "keeps P (cleanup_on_error m c)"
proof (rule keepsI)
  fix s r t
  assume s: "P s" and run: "cleanup_on_error m c s = (r, t)"
  obtain q u where q: "m s = (q, u)" by force
  obtain q' v where q': "c u = (q', v)" by force
  have "P u" by (rule keepsD [OF m s q])
  moreover from keepsD [OF c this q'] have "P v" .
  ultimately show "P t" using run q q' by (auto simp: cleanup_on_error_def split: sum.splits)
qed

locale event_projections = document_store "estore E" for E :: "'db events"
begin

lemma keeps_put_row: "k \<noteq> c \<Longrightarrow> keeps (\<lambda>db. P (docs (estore E) k db)) (put_row E c q row)"
  unfolding put_row_def by (intro keeps_intros keeps_upsert_other)

lemma keeps_put_counts: "k \<noteq> c \<Longrightarrow> keeps (\<lambda>db. P (docs (estore E) k db)) (put_counts E c q row increments)"
  unfolding put_counts_def by (intro keeps_intros keeps_upsert_other)

lemma keeps_drop_row: "k \<noteq> c \<Longrightarrow> keeps (\<lambda>db. P (docs (estore E) k db)) (drop_row E c q)"
  unfolding drop_row_def by (intro keeps_intros keeps_delete_one_other)

lemmas keeps_row = keeps_put_row keeps_put_counts keeps_drop_row

lemma keeps_value_items: "keeps P (value_items E sid rows a)"
  by (induction rows arbitrary: a) (auto intro!: keeps_intros split: option.splits)

lemma keeps_refresh_session:
  assumes "k \<notin> set EVENT_PROJECTIONS"
  shows "keeps (\<lambda>db. P (docs (estore E) k db)) (refresh_session E now sid)"
  using assms
  unfolding refresh_session_def refresh_session_dashboard_projection_def refresh_financial_projection_def
  by (auto simp: EVENT_PROJECTIONS_def intro!: keeps_intros keeps_row keeps_value_items)

lemma keeps_project_verified_item:
  assumes "k \<notin> set EVENT_PROJECTIONS"
  shows "keeps (\<lambda>db. P (docs (estore E) k db)) (project_verified_item_projection E now event payload)"
proof -
  have k: "k \<noteq> ''verified_items_projection''" "k \<noteq> ''variance_summary_projection''"
    using assms by (auto simp: EVENT_PROJECTIONS_def)
  show ?thesis
    unfolding project_verified_item_projection_def put_verified_item_def drop_verified_item_def Let_def
    by (auto intro!: keeps_intros keeps_row k keeps_refresh_session assms split: option.splits)
qed

lemma keeps_project_inventory_event:
  assumes "k \<notin> set EVENT_PROJECTIONS"
  shows "keeps (\<lambda>db. P (docs (estore E) k db)) (project_inventory_event E now event payload)"
proof -
  have k: "k \<noteq> ''items_snapshot''" "k \<noteq> ''batch_records''" "k \<noteq> ''serial_records''" "k \<noteq> ''serial_registry''"
    "k \<noteq> ''item_serials''" "k \<noteq> ''erp_snapshot''"
    using assms by (auto simp: EVENT_PROJECTIONS_def)
  show ?thesis
    unfolding project_inventory_event_def project_counts_def project_details_def project_batch_def add_serial_rows_def drop_serial_rows_def Let_def
    by (auto intro!: keeps_intros keeps_row k keeps_project_verified_item assms split: option.splits)
qed

lemma keeps_project_event:
  assumes "k \<notin> set EVENT_PROJECTIONS"
  shows "keeps (\<lambda>db. P (docs (estore E) k db)) (project_event E now event payload)"
proof -
  have k: "k \<noteq> ''session_dashboard_projection''" "k \<noteq> ''damage_logs''" "k \<noteq> ''variance_logs''" "k \<noteq> ''approvals''"
    "k \<noteq> ''sync_queue''"
    using assms by (auto simp: EVENT_PROJECTIONS_def)
  have "keeps (\<lambda>db. P (docs (estore E) k db)) (project_session_event E now event payload)"
    unfolding project_session_event_def Let_def
    by (auto intro!: keeps_intros keeps_row k split: option.splits)
  moreover have "keeps (\<lambda>db. P (docs (estore E) k db)) (project_damage_log E now event payload)"
    unfolding project_damage_log_def Let_def
    by (auto intro!: keeps_intros keeps_row k keeps_project_verified_item assms split: option.splits)
  moreover have "keeps (\<lambda>db. P (docs (estore E) k db)) (project_variance_log E now event payload)"
    unfolding project_variance_log_def Let_def
    by (auto intro!: keeps_intros keeps_row k keeps_project_verified_item assms split: option.splits)
  moreover have "keeps (\<lambda>db. P (docs (estore E) k db)) (project_approval E now event payload)"
    unfolding project_approval_def Let_def
    by (auto intro!: keeps_intros keeps_row k keeps_project_verified_item assms split: option.splits)
  moreover have "keeps (\<lambda>db. P (docs (estore E) k db)) (project_sync_queue E now event payload)"
    unfolding project_sync_queue_def
    by (auto intro!: keeps_intros keeps_row k split: option.splits)
  ultimately show ?thesis
    unfolding project_event_def Let_def by (intro keeps_intros keeps_project_inventory_event assms)
qed

end

section \<open>One record per event\<close>

definition of_event :: "string \<Rightarrow> doc \<Rightarrow> bool" where
  "of_event i r = (dget r ''event_id'' = VStr i)"

definition apply_log_ok :: "doc list \<Rightarrow> bool" where
  "apply_log_ok rows \<longleftrightarrow>
     list_all (\<lambda>r. \<exists>i. of_event i r) rows \<and> distinct (map (\<lambda>r. dget r ''event_id'') rows)"

definition marked_applied :: "doc list \<Rightarrow> string \<Rightarrow> bool" where
  "marked_applied rows i = list_ex (\<lambda>r. of_event i r \<and> dget r ''status'' = VStr ''applied'') rows"

definition other_records :: "string \<Rightarrow> doc list \<Rightarrow> doc list" where
  "other_records i rows = filter (\<lambda>r. \<not> of_event i r) rows"

lemma match_by_event: "of_event j r \<Longrightarrow> match_filter (by_event i) r \<longleftrightarrow> i = j"
  by (auto simp: of_event_def by_event_def field_values_def)

lemma match_filter_by_event: "apply_log_ok rows \<Longrightarrow> filter (match_filter (by_event i)) rows = filter (of_event i) rows"
  by (rule filter_cong) (auto simp: apply_log_ok_def list_all_iff match_by_event of_event_def)

lemma other_records_ok: "apply_log_ok rows \<Longrightarrow> apply_log_ok (other_records i rows)"
  by (auto simp: apply_log_ok_def other_records_def list_all_iff distinct_map intro: inj_on_subset)

lemma apply_log_ok_append:
  "apply_log_ok rows \<Longrightarrow> of_event i r \<Longrightarrow> apply_log_ok (other_records i rows @ [r])"
  using other_records_ok [of rows i]
  by (auto simp: apply_log_ok_def other_records_def list_all_iff of_event_def)

lemma marked_other: "j \<noteq> i \<Longrightarrow> marked_applied (other_records i rows) j = marked_applied rows j"
  by (auto simp: marked_applied_def other_records_def list_ex_iff of_event_def)

lemma marked_append: "marked_applied (xs @ ys) j \<longleftrightarrow> marked_applied xs j \<or> marked_applied ys j"
  by (simp add: marked_applied_def)

lemma not_marked_other [simp]: "\<not> marked_applied (other_records i rows) i"
  by (auto simp: marked_applied_def other_records_def list_ex_iff)

lemma records_of_event:
  assumes "apply_log_ok rows"
  shows "filter (of_event i) rows = [] \<or> (\<exists>r. filter (of_event i) rows = [r])"
  using assms
proof (induction rows)
  case (Cons r rows)
  then have "apply_log_ok rows" by (simp add: apply_log_ok_def)
  moreover have "of_event i r \<Longrightarrow> filter (of_event i) rows = []"
    using Cons.prems by (auto simp: apply_log_ok_def of_event_def filter_empty_conv image_iff)
  ultimately show ?case using Cons.IH by auto
qed simp

lemma remove_record:
  assumes "apply_log_ok rows"
  shows "remove_first (match_filter (by_event i)) rows = other_records i rows"
  using assms
proof (induction rows)
  case (Cons r rows)
  then have rows: "apply_log_ok rows" by (simp add: apply_log_ok_def)
  obtain j where j: "of_event j r" using Cons.prems by (auto simp: apply_log_ok_def)
  have "other_records i rows = rows" if "i = j"
    using Cons.prems j that by (auto simp: apply_log_ok_def other_records_def of_event_def filter_id_conv image_iff)
  with Cons.IH [OF rows] j show ?case
    by (auto simp: match_by_event other_records_def of_event_def)
qed (simp add: other_records_def)

lemma update_first_last: "\<forall>x \<in> set xs. \<not> P x \<Longrightarrow> P r \<Longrightarrow> update_first P f (xs @ [r]) = xs @ [f r]"
  by (induction xs) auto

context event_projections
begin

abbreviation records :: "'db \<Rightarrow> doc list" where
  "records db \<equiv> docs (estore E) ''event_applied'' db"

lemma drop_record:
  assumes "apply_log_ok (records db)"
  obtains db' where "drop_row E ''event_applied'' (by_event i) db = (Inr (), db')"
    "records db' = other_records i (records db)"
proof -
  obtain n db' where "delete_one_doc (estore E) ''event_applied'' (by_event i) db = (n, db')" by force
  with delete_one_law [OF this] remove_record [OF assms] that show thesis
    by (auto simp: drop_row_def delete_one_def run_simps)
qed

lemma begin_marked:
  assumes "apply_log_ok (records db)" "marked_applied (records db) i"
  shows "begin_event_apply E now i event payload db = (Inr False, db)"
proof -
  from assms(2) have "filter (of_event i) (records db) \<noteq> []"
    by (auto simp: marked_applied_def list_ex_iff filter_empty_conv)
  with records_of_event [OF assms(1)] obtain r where r: "filter (of_event i) (records db) = [r]" by blast
  from assms(2) have "\<exists>x \<in> set (filter (of_event i) (records db)). dget x ''status'' = VStr ''applied''"
    by (auto simp: marked_applied_def list_ex_iff)
  with r have "dget r ''status'' = VStr ''applied''" by simp
  with r show ?thesis
    by (simp add: begin_event_apply_def run_simps find_one_run match_filter_by_event [OF assms(1)])
qed

lemma begin_unmarked:
  assumes ok: "apply_log_ok (records db)" and "\<not> marked_applied (records db) i"
  obtains r db' where "begin_event_apply E now i event payload db = (Inr True, db')"
    "records db' = other_records i (records db) @ [r]" "of_event i r"
proof -
  let ?found = "case filter (of_event i) (records db) of [] \<Rightarrow> None | d # _ \<Rightarrow> Some d"
  let ?drop = "whenM (?found \<noteq> None) (drop_row E ''event_applied'' (by_event i))"
  obtain t where t: "?drop db = (Inr (), t)" "records t = other_records i (records db)"
  proof (cases "filter (of_event i) (records db)")
    case Nil
    then have "other_records i (records db) = records db"
      by (auto simp: other_records_def filter_id_conv filter_empty_conv)
    with Nil that [of db] show thesis by (simp add: run_simps)
  next
    case (Cons r rs)
    from drop_record [OF ok, of i] obtain t where
      "drop_row E ''event_applied'' (by_event i) db = (Inr (), t)" "records t = other_records i (records db)" .
    with Cons that [of t] show thesis by (simp add: whenM_run)
  qed
  obtain q u where u: "insert_one (estore E) ''event_applied'' (apply_doc now i event payload) t = (q, u)" by force
  from insert_one_docs [OF u] obtain v where v: "q = Inr v"
    "records u = records t @ [dset_default ''_id'' v (apply_doc now i event payload)]" by blast
  have "\<not> (case ?found of None \<Rightarrow> False | Some r \<Rightarrow> dget r ''status'' = VStr ''applied'')"
    using assms(2) by (auto simp: marked_applied_def list_ex_iff filter_eq_Cons_iff split: list.splits)
  with t u v have "begin_event_apply E now i event payload db = (Inr True, u)"
    by (simp add: begin_event_apply_def bindM_run find_one_run match_filter_by_event [OF ok] returnM_run)
  moreover have "of_event i (dset_default ''_id'' v (apply_doc now i event payload))"
    by (simp add: of_event_def apply_doc_def doc_simps dget_def dset_default_def)
  ultimately show thesis using that t v by simp
qed

lemma finalize_record:
  assumes rows: "records db = other_records i rows @ [r]" and ok: "apply_log_ok (records db)" and r: "of_event i r"
  obtains r' db' where "finalize_event_apply E now i event payload db = (Inr (), db')"
    "records db' = other_records i rows @ [r']" "of_event i r'" "dget r' ''status'' = VStr ''applied''"
proof -
  let ?u = "applied_fields now event payload"
  have "filter (of_event i) (records db) = [r]" using rows r by (simp add: other_records_def)
  then have hit: "filter (match_filter (by_event i)) (records db) = [r]"
    by (simp only: match_filter_by_event [OF ok])
  obtain m db' where upd: "update_one (estore E) ''event_applied'' (by_event i) [(''$set'', VDict ?u)] db = (Inr (1, m), db')"
    "records db' = update_first (match_filter (by_event i)) (\<lambda>_. snd (apply_set ?u r)) (records db)"
    by (rule update_one_set [OF hit])
  have "\<not> match_filter (by_event i) x" if "x \<in> set (other_records i rows)" for x
  proof -
    from that ok rows obtain j where "of_event j x" by (auto simp: apply_log_ok_def list_all_iff)
    with that show ?thesis by (auto simp: match_by_event other_records_def)
  qed
  then have "update_first (match_filter (by_event i)) f (other_records i rows @ [r]) = other_records i rows @ [f r]" for f
    using r by (intro update_first_last) (auto simp: match_by_event)
  with upd rows have "records db' = other_records i rows @ [snd (apply_set ?u r)]" by simp
  moreover have "''event_id'' \<notin> fst ` set ?u" by (simp add: applied_fields_def)
  with r have "of_event i (snd (apply_set ?u r))" by (simp only: of_event_def apply_set_other not_False_eq_True)
  moreover have "dget (snd (apply_set ?u r)) ''status'' = VStr ''applied''"
    by (rule apply_set_get_string) (simp_all add: applied_fields_def)
  ultimately show thesis using that upd by (simp add: finalize_event_apply_def run_simps)
qed

text \<open>The three ways an application that has an identifier can end.\<close>

lemma apply_event_core_cases:
  assumes ok: "apply_log_ok (records db)" and id: "nstr (erepr E) (event_key event) = Some i"
    and run: "apply_event_core E now event db = (res, db')"
  obtains (seen) "marked_applied (records db) i" "res = Inr False" "db' = db"
  | (applied) r where "\<not> marked_applied (records db) i" "res = Inr True"
      "records db' = other_records i (records db) @ [r]" "of_event i r" "dget r ''status'' = VStr ''applied''"
  | (failed) e where "\<not> marked_applied (records db) i" "res = Inl e" "records db' = other_records i (records db)"
proof (cases "marked_applied (records db) i")
  case True
  with begin_marked [OF ok] id run have "res = Inr False \<and> db' = db"
    by (simp add: apply_event_core_def run_simps Let_def)
  with True show ?thesis using seen by blast
next
  case False
  obtain r t where t: "begin_event_apply E now i event (payload_of event) db = (Inr True, t)"
    "records t = other_records i (records db) @ [r]" "of_event i r"
    by (rule begin_unmarked [OF ok False])
  obtain q u where q: "project_event E now event (payload_of event) t = (q, u)" by force
  have "''event_applied'' \<notin> set EVENT_PROJECTIONS" by (simp add: EVENT_PROJECTIONS_def)
  from keeps_eqD [where f = "docs (estore E) ''event_applied''", OF keeps_project_event [OF this] q]
  have u: "records u = other_records i (records db) @ [r]" using t by simp
  with apply_log_ok_append [OF ok t(3)] have uok: "apply_log_ok (records u)" by simp
  show ?thesis
  proof (cases q)
    case (Inl e)
    obtain v where v: "drop_row E ''event_applied'' (by_event i) u = (Inr (), v)"
      "records v = other_records i (records u)" by (rule drop_record [OF uok])
    have "other_records i (records u) = other_records i (records db)"
      using u t(3) by (simp add: other_records_def)
    moreover have "res = Inl e \<and> db' = v"
      using run id t q Inl v by (simp add: apply_event_core_def run_simps Let_def cleanup_on_error_def)
    ultimately show ?thesis using failed False v by metis
  next
    case (Inr x)
    obtain r' v where v: "finalize_event_apply E now i event (payload_of event) u = (Inr (), v)"
      "records v = other_records i (records db) @ [r']" "of_event i r'" "dget r' ''status'' = VStr ''applied''"
      by (rule finalize_record [OF u uok t(3)])
    have "res = Inr True \<and> db' = v"
      using run id t q Inr v by (simp add: apply_event_core_def run_simps Let_def cleanup_on_error_def)
    then show ?thesis using applied [OF False] v by blast
  qed
qed

lemma apply_event_core_unnamed:
  "nstr (erepr E) (event_key event) = None \<Longrightarrow>
   apply_event_core E now event db = (Inl (ValueError ''Projection event is missing an event identifier''), db)"
  by (simp add: apply_event_core_def run_simps)

lemma apply_event_core_ok: "keeps (\<lambda>db. apply_log_ok (records db)) (apply_event_core E now event)"
proof (rule keepsI)
  fix db r db'
  assume ok: "apply_log_ok (records db)" and run: "apply_event_core E now event db = (r, db')"
  show "apply_log_ok (records db')"
  proof (cases "nstr (erepr E) (event_key event)")
    case None
    with ok run show ?thesis by (simp add: apply_event_core_unnamed)
  next
    case (Some i)
    show ?thesis using apply_event_core_cases [OF ok Some run]
      by cases (simp_all add: ok apply_log_ok_append other_records_ok)
  qed
qed

lemma apply_event_ok: "keeps (\<lambda>db. apply_log_ok (records db)) (apply_event E in_tx now event)"
  unfolding apply_event_def committed_def by (intro keeps_intros apply_event_core_ok)

lemma apply_event_run: "apply_event E in_tx now event db = (Inr b, db') \<longleftrightarrow> apply_event_core E now event db = (Inr b, db')"
  by (simp add: apply_event_def unit_of_work_committed)

lemma apply_event_applied:
  assumes ok: "apply_log_ok (records db)" and run: "apply_event E in_tx now event db = (Inr b, db')"
  obtains i where "nstr (erepr E) (event_key event) = Some i" "marked_applied (records db') i"
    "\<forall>j. marked_applied (records db) j \<longrightarrow> marked_applied (records db') j"
proof (cases "nstr (erepr E) (event_key event)")
  case None
  with run show ?thesis by (simp add: apply_event_run apply_event_core_unnamed)
next
  case (Some i)
  from run have core: "apply_event_core E now event db = (Inr b, db')" by (simp add: apply_event_run)
  show ?thesis
  proof (cases rule: apply_event_core_cases [OF ok Some core, case_names seen applied failed])
    case seen
    with that Some show ?thesis by simp
  next
    case (applied r)
    have "marked_applied (records db') j" if "marked_applied (records db) j" for j
      using that applied by (cases "j = i") (simp_all add: marked_append marked_other)
    moreover have "marked_applied (records db') i"
      using applied by (simp add: marked_append) (simp add: marked_applied_def)
    ultimately show ?thesis using that Some by blast
  qed simp
qed

lemma apply_event_seen:
  assumes "apply_log_ok (records db)" "nstr (erepr E) (event_key event) = Some i" "marked_applied (records db) i"
  shows "apply_event E in_tx now event db = (Inr False, db)"
proof -
  have "apply_event_core E now event db = (Inr False, db)"
    using begin_marked [OF assms(1,3)] assms(2) by (simp add: apply_event_core_def run_simps Let_def)
  then show ?thesis by (simp add: apply_event_run)
qed

end

section \<open>Rebuilding the read models\<close>

definition apply_log :: "'db events \<Rightarrow> 'db \<Rightarrow> doc list" where
  "apply_log E db = docs (estore E) ''event_applied'' db"

definition applied_in :: "'db events \<Rightarrow> 'db \<Rightarrow> doc \<Rightarrow> bool" where
  "applied_in E db event =
     (case nstr (erepr E) (event_key event) of None \<Rightarrow> False | Some i \<Rightarrow> marked_applied (apply_log E db) i)"

context event_projections
begin

lemma keeps_apply_event:
  assumes "k \<notin> set (''event_applied'' # EVENT_PROJECTIONS)"
  shows "keeps (\<lambda>db. P (docs (estore E) k db)) (apply_event E in_tx now event)"
proof -
  have k: "k \<noteq> ''event_applied''" "k \<notin> set EVENT_PROJECTIONS" using assms by auto
  have start: "keeps (\<lambda>db. P (docs (estore E) k db)) (begin_event_apply E now i event payload)" for i payload
    unfolding begin_event_apply_def by (intro keeps_intros keeps_row keeps_insert_other k)
  have finish: "keeps (\<lambda>db. P (docs (estore E) k db)) (finalize_event_apply E now i event payload)" for i payload
    unfolding finalize_event_apply_def by (intro keeps_intros keeps_update_other k)
  have cleanup: "keeps (\<lambda>db. P (docs (estore E) k db))
      (cleanup_on_error (project_event E now event payload) (drop_row E ''event_applied'' q))" for payload q
    by (intro keeps_cleanup_on_error keeps_project_event keeps_drop_row k)
  show ?thesis
    unfolding apply_event_def apply_event_core_def committed_def Let_def
    by (auto intro!: keeps_intros start finish cleanup split: option.splits)
qed

lemma keeps_apply_events:
  assumes "k \<notin> set (''event_applied'' # EVENT_PROJECTIONS)"
  shows "keeps (\<lambda>db. P (docs (estore E) k db)) (apply_events E in_tx now events)"
  by (induction events) (auto intro!: keeps_intros keeps_apply_event assms)

lemma keeps_clear:
  assumes "k \<notin> set (''event_applied'' # EVENT_PROJECTIONS)"
  shows "keeps (\<lambda>db. P (docs (estore E) k db)) (clear_projection_state E sid)"
  using assms unfolding clear_projection_state_def Let_def
  by (intro keeps_intros keeps_delete_many_other) auto

lemma clear_total: "\<exists>db'. clear_projection_state E sid db = (Inr (), db')"
proof -
  have "\<exists>db'. forM cs (\<lambda>c. bindM (delete_many (estore E) c q) (\<lambda>_. returnM ())) db = (Inr (), db')" for cs q
    by (induction cs arbitrary: db) (auto simp: run_simps delete_many_def split: prod.splits)
  then show ?thesis by (simp add: clear_projection_state_def Let_def)
qed

lemma clear_ok: "keeps (\<lambda>db. apply_log_ok (records db)) (clear_projection_state E sid)"
proof -
  have "keeps (\<lambda>db. apply_log_ok (records db)) (delete_many (estore E) c q)" for c q
  proof (cases "c = ''event_applied''")
    case True
    have "apply_log_ok rows \<Longrightarrow> apply_log_ok (filter R rows)" for R rows
      by (auto simp: apply_log_ok_def list_all_iff distinct_map intro: inj_on_subset)
    with True show ?thesis
      by (auto simp: keeps_def delete_many_def dest: delete_many_law split: prod.splits)
  next
    case False
    then show ?thesis by (intro keeps_delete_many_other) simp
  qed
  then show ?thesis unfolding clear_projection_state_def Let_def by (intro keeps_intros)
qed

lemma apply_events_applied:
  "apply_events E in_tx now events db = (Inr n, db') \<Longrightarrow> apply_log_ok (records db) \<Longrightarrow>
   apply_log_ok (records db') \<and> list_all (applied_in E db') events \<and>
   (\<forall>e. applied_in E db e \<longrightarrow> applied_in E db' e)"
proof (induction events arbitrary: db n)
  case Nil
  then show ?case by (simp add: run_simps)
next
  case (Cons e es)
  from Cons.prems(1) obtain b t m where t: "apply_event E in_tx now e db = (Inr b, t)"
    and m: "apply_events E in_tx now es t = (Inr m, db')" by (auto simp: run_iff)
  have ok: "apply_log_ok (records t)" by (rule keepsD [OF apply_event_ok Cons.prems(2) t])
  from apply_event_applied [OF Cons.prems(2) t] obtain i where i: "nstr (erepr E) (event_key e) = Some i"
    "marked_applied (records t) i" "\<forall>j. marked_applied (records db) j \<longrightarrow> marked_applied (records t) j" by blast
  have "applied_in E t e" using i by (simp add: applied_in_def apply_log_def)
  moreover have "applied_in E db x \<Longrightarrow> applied_in E t x" for x
    using i(3) by (auto simp: applied_in_def apply_log_def split: option.splits)
  ultimately show ?case using Cons.IH [OF m ok] by auto
qed

lemma apply_events_seen:
  assumes "apply_log_ok (records db)"
  shows "list_all (applied_in E db) events \<Longrightarrow> apply_events E in_tx now events db = (Inr 0, db)"
proof (induction events)
  case (Cons e es)
  then obtain i where "nstr (erepr E) (event_key e) = Some i" "marked_applied (records db) i"
    by (auto simp: applied_in_def apply_log_def split: option.splits)
  from apply_event_seen [OF assms this] Cons show ?case by (simp add: run_simps)
qed (simp add: run_simps)

lemma rebuild_applies:
  assumes ok: "apply_log_ok (records db)"
    and run: "rebuild_from_event_log E in_tx now sid clear db = (Inr r, db')"
  shows "rebuild_from_event_log E in_tx' now' sid False db' =
    (Inr [(''processed_events'', dget r ''processed_events''), (''applied_events'', VInt 0),
      (''rebuilt_at'', VStr (iso_text E now'))], db')"
proof -
  let ?q = "case sid of None \<Rightarrow> [] | Some s \<Rightarrow> if s = [] then [] else [(''payload.session_id'', CEq (VStr s))]"
  obtain t where t: "whenM clear (clear_projection_state E sid) db = (Inr (), t)"
    using clear_total [of sid db] by (cases clear) (auto simp: run_simps)
  define events where "events = replay_order (erepr E) (filter (match_filter ?q) (docs (estore E) ''event_log'' t))"
  have "keeps (\<lambda>db. apply_log_ok (records db)) (whenM clear (clear_projection_state E sid))"
    by (intro keeps_intros clear_ok)
  from keepsD [OF this ok t] have tok: "apply_log_ok (records t)" .
  from run t obtain n where n: "apply_events E in_tx now events t = (Inr n, db')"
    and r: "dget r ''processed_events'' = VInt (int (length events))"
    by (auto simp: rebuild_from_event_log_def run_iff find_all_run events_def Let_def dget_def)
  from apply_events_applied [OF n tok] have db': "apply_log_ok (records db')" "list_all (applied_in E db') events"
    by auto
  have log: "''event_log'' \<notin> set (''event_applied'' # EVENT_PROJECTIONS)" by (simp add: EVENT_PROJECTIONS_def)
  have "docs (estore E) ''event_log'' db' = docs (estore E) ''event_log'' t"
    by (rule keeps_eqD [where f = "docs (estore E) ''event_log''", OF keeps_apply_events [OF log] n])
  with apply_events_seen [OF db'] r show ?thesis
    by (simp add: rebuild_from_event_log_def run_simps find_all_run events_def Let_def)
qed

end

section \<open>The order of a replay\<close>

definition replays_before :: "repr \<Rightarrow> doc \<Rightarrow> doc \<Rightarrow> bool" where
  "replays_before rp a b =
     (let ida = py_str rp (py_or (event_key a) (VStr [])); idb = py_str rp (py_or (event_key b) (VStr [])) in
      case (event_instant a, event_instant b) of
        (None, None) \<Rightarrow> ida \<le> idb
      | (None, Some _) \<Rightarrow> True
      | (Some _, None) \<Rightarrow> False
      | (Some s, Some t) \<Rightarrow> s < t \<or> s = t \<and> ida \<le> idb)"

lemma sorted_wrt_lex:
  fixes f :: "'a \<Rightarrow> 'b::linorder"
  assumes "sorted (map f ys)" "\<And>k. sorted_wrt Q (filter (\<lambda>y. f y = k) ys)"
  shows "sorted_wrt (\<lambda>a b. f a < f b \<or> f a = f b \<and> Q a b) ys"
  using assms
proof (induction ys)
  case (Cons y ys)
  have "f y < f z \<or> f y = f z \<and> Q y z" if "z \<in> set ys" for z
  proof (cases "f z = f y")
    case True
    with Cons.prems(2) [of "f y"] that show ?thesis by auto
  next
    case False
    with Cons.prems(1) that show ?thesis by (auto simp: order_less_le)
  qed
  moreover have "sorted_wrt Q (filter (\<lambda>z. f z = k) ys)" for k
    using Cons.prems(2) [of k] by (auto split: if_splits)
  ultimately show ?case using Cons by auto
qed simp

lemma sorted_wrt_stable:
  fixes f :: "'a \<Rightarrow> 'b::linorder"
  assumes "sorted_wrt Q xs"
  shows "sorted_wrt (\<lambda>a b. f a < f b \<or> f a = f b \<and> Q a b) (sort_key f xs)"
  by (rule sorted_wrt_lex) (simp_all add: sort_key_stable sorted_wrt_filter assms)

lemma sorted_wrt_mono_in:
  "sorted_wrt P xs \<Longrightarrow> (\<And>a b. a \<in> set xs \<Longrightarrow> b \<in> set xs \<Longrightarrow> P a b \<Longrightarrow> Q a b) \<Longrightarrow> sorted_wrt Q xs"
  by (induction xs) auto

lemma replay_order_sorted: "sorted_wrt (replays_before rp) (replay_order rp events)"
proof -
  let ?id = "\<lambda>e. py_str rp (py_or (event_key e) (VStr []))"
  let ?es = "sort_key ?id events" and ?timed = "\<lambda>e. event_instant e \<noteq> None"
  have ids: "sorted_wrt (\<lambda>a b. ?id a \<le> ?id b) ?es"
    using sorted_sort_key [of ?id events] by (simp only: sorted_map)
  have "sorted_wrt (replays_before rp) (filter (\<lambda>e. event_instant e = None) ?es)"
    by (rule sorted_wrt_mono_in [OF sorted_wrt_filter [OF ids]]) (auto simp: replays_before_def Let_def)
  moreover have "sorted_wrt (replays_before rp) (sort_key (\<lambda>e. the (event_instant e)) (filter ?timed ?es))"
    by (rule sorted_wrt_mono_in [OF sorted_wrt_stable [OF sorted_wrt_filter [OF ids]]])
       (auto simp: replays_before_def Let_def)
  ultimately show ?thesis
    by (auto simp: replay_order_def Let_def sorted_wrt_append replays_before_def)
qed

lemma replay_order_mset: "mset (replay_order rp events) = mset events"
proof -
  have "filter_mset (\<lambda>e. event_instant e = None) (mset events) + filter_mset (\<lambda>e. event_instant e \<noteq> None) (mset events)
      = mset events"
    by (rule multiset_eqI) simp
  then show ?thesis by (simp add: replay_order_def Let_def)
qed

section \<open>The totals of a dashboard\<close>

lemma dashboard_row_get:
  "d_total (dashboard_row rp a r) = d_total a + (if line_active r then 1 else 0)"
  "d_verified (dashboard_row rp a r) = d_verified a + (if line_active r \<and> line_verified rp r then 1 else 0)"
  "d_damage (dashboard_row rp a r) = d_damage a + (if line_active r \<and> as_float (dget r ''damaged_qty'') > 0 then 1 else 0)"
  "d_variance (dashboard_row rp a r) = d_variance a + (if line_active r then as_float (dget r ''variance'') else 0)"
  "d_positive (dashboard_row rp a r) = d_positive a + (if line_active r then max (as_float (dget r ''variance'')) 0 else 0)"
  "d_negative (dashboard_row rp a r) = d_negative a + (if line_active r then min (as_float (dget r ''variance'')) 0 else 0)"
  by (simp_all add: dashboard_row_def Let_def)

lemma dashboard_fold:
  "d_total (foldl (dashboard_row rp) a rows) = d_total a + length (filter line_active rows)"
  "d_verified (foldl (dashboard_row rp) a rows) =
     d_verified a + length (filter (\<lambda>r. line_active r \<and> line_verified rp r) rows)"
  "d_damage (foldl (dashboard_row rp) a rows) =
     d_damage a + length (filter (\<lambda>r. line_active r \<and> as_float (dget r ''damaged_qty'') > 0) rows)"
  "d_variance (foldl (dashboard_row rp) a rows) =
     d_variance a + (\<Sum>r\<leftarrow>filter line_active rows. as_float (dget r ''variance''))"
  "d_positive (foldl (dashboard_row rp) a rows) =
     d_positive a + (\<Sum>r\<leftarrow>filter line_active rows. max (as_float (dget r ''variance'')) 0)"
  "d_negative (foldl (dashboard_row rp) a rows) =
     d_negative a + (\<Sum>r\<leftarrow>filter line_active rows. min (as_float (dget r ''variance'')) 0)"
  by (induction rows arbitrary: a) (simp_all add: dashboard_row_get)

lemma dashboard_totals_sums:
  "d_total (dashboard_totals rp rows) = length (filter line_active rows)"
  "d_verified (dashboard_totals rp rows) = length (filter (\<lambda>r. line_active r \<and> line_verified rp r) rows)"
  "d_damage (dashboard_totals rp rows) = length (filter (\<lambda>r. line_active r \<and> as_float (dget r ''damaged_qty'') > 0) rows)"
  "d_variance (dashboard_totals rp rows) = (\<Sum>r\<leftarrow>filter line_active rows. as_float (dget r ''variance''))"
  "d_positive (dashboard_totals rp rows) = (\<Sum>r\<leftarrow>filter line_active rows. max (as_float (dget r ''variance'')) 0)"
  "d_negative (dashboard_totals rp rows) = (\<Sum>r\<leftarrow>filter line_active rows. min (as_float (dget r ''variance'')) 0)"
  by (simp_all add: dashboard_totals_def dashboard_fold)

section \<open>The counts of an item\<close>

lemma inc_current:
  "(case dget_or d k (VInt 0) of VNone \<Rightarrow> VInt 0 | u \<Rightarrow> u) = (if dget d k = VNone then VInt 0 else dget d k)"
  by (cases "map_of d k") (auto simp: dget_def dget_or_def split: val.splits)

lemma apply_inc_step:
  assumes "apply_inc ((k, v) # e) d = (Inr b, d')"
  shows "\<exists>w c. py_add (if dget d k = VNone then VInt 0 else dget d k) v = Some w \<and>
    apply_inc e (if py_eq (dget d k) w then d else dput k w d) = (Inr c, d')"
proof (cases "py_add (if dget d k = VNone then VInt 0 else dget d k) v")
  case None
  with assms show ?thesis by (simp add: Let_def inc_current del: py_add.simps)
next
  case (Some w)
  with assms show ?thesis by (simp add: Let_def inc_current run_iff del: py_add.simps split: if_splits)
qed

lemma apply_inc_fresh:
  "list_all (\<lambda>(k, v). dget d k = VNone \<and> (\<exists>w. py_add (VInt 0) v = Some w)) e \<Longrightarrow> distinct (map fst e) \<Longrightarrow>
   \<exists>b d'. apply_inc e d = (Inr b, d')"
proof (induction e arbitrary: d)
  case (Cons p e)
  obtain k v where p: "p = (k, v)" by (cases p)
  from Cons.prems p obtain w where w: "dget d k = VNone" "py_add (VInt 0) v = Some w" by auto
  have "dget (if py_eq (dget d k) w then d else dput k w d) j = VNone \<and> (\<exists>w. py_add (VInt 0) u = Some w)"
    if "(j, u) \<in> set e" for j u
  proof -
    from that Cons.prems(2) p have "j \<noteq> k" by force
    with that Cons.prems(1) show ?thesis by (auto simp: list_all_iff doc_simps simp del: py_add.simps py_eq.simps)
  qed
  then have "list_all (\<lambda>(j, u). dget (if py_eq (dget d k) w then d else dput k w d) j = VNone \<and>
      (\<exists>w. py_add (VInt 0) u = Some w)) e"
    by (auto simp: list_all_iff)
  from Cons.IH [OF this] Cons.prems(2) p obtain b d' where
    "apply_inc e (if py_eq (dget d k) w then d else dput k w d) = (Inr b, d')" by auto
  with p w show ?case by (auto simp: Let_def inc_current run_simps simp del: py_add.simps split: if_splits)
qed (auto simp: run_simps)

lemma py_add_float:
  "py_add (if v = VNone then VInt 0 else v) (VFloat x) = Some w \<Longrightarrow> w = VFloat (as_float v + x)"
  by (cases v) (auto simp: as_float_def split: option.splits)

lemma py_eq_float: "py_eq v (VFloat y) \<Longrightarrow> as_float v = y"
  by (cases v) (auto simp: as_float_def)

lemma apply_inc_float:
  "apply_inc e d = (Inr b, d') \<Longrightarrow> distinct (map fst e) \<Longrightarrow> map_of e k = Some (VFloat x) \<Longrightarrow>
   as_float (dget d' k) = as_float (dget d k) + x"
proof (induction e arbitrary: d b)
  case (Cons p e)
  obtain j v where p: "p = (j, v)" by (cases p)
  from apply_inc_step [OF Cons.prems(1) [unfolded p]] obtain w c where
    w: "py_add (if dget d j = VNone then VInt 0 else dget d j) v = Some w" and
    c: "apply_inc e (if py_eq (dget d j) w then d else dput j w d) = (Inr c, d')" by blast
  show ?case
  proof (cases "j = k")
    case True
    with Cons.prems p have v: "v = VFloat x" and k: "k \<notin> fst ` set e" by auto
    from w [unfolded True v] have "w = VFloat (as_float (dget d k) + x)" by (rule py_add_float)
    then have w': "as_float w = as_float (dget d k) + x" and eq: "py_eq (dget d k) w \<Longrightarrow> as_float (dget d k) = as_float w"
      using py_eq_float [of "dget d k" "as_float (dget d k) + x"] by (simp_all add: as_float_def [of "VFloat _"])
    show ?thesis
    proof (cases "py_eq (dget d k) w")
      case True
      with apply_inc_other [OF c k] eq w' \<open>j = k\<close> show ?thesis by simp
    next
      case False
      with apply_inc_other [OF c k] w' \<open>j = k\<close> show ?thesis by (simp add: doc_simps)
    qed
  next
    case False
    with Cons.IH [OF c] Cons.prems p show ?thesis by (auto simp: doc_simps)
  qed
qed simp

lemma apply_set_inc:
  assumes "apply_update [(''$set'', VDict row), (''$inc'', VDict inc)] d = (Inr m, d')"
  obtains b where "apply_inc inc (snd (apply_set row d)) = (Inr b, d')"
  using assms apply_set_total [of row d]
  by (auto simp: apply_update_def run_iff dget_def dict_or_empty_def)

definition snapshot_qty :: "'db events \<Rightarrow> string \<Rightarrow> string \<Rightarrow> string \<Rightarrow> 'db \<Rightarrow> rat" where
  "snapshot_qty E field sid item_code db =
     (case filter (match_filter (by_item sid item_code)) (docs (estore E) ''items_snapshot'' db) of
        [] \<Rightarrow> 0
      | r # _ \<Rightarrow> as_float (dget r field))"

lemma match_by_item:
  "dget r ''session_id'' = VStr sid \<Longrightarrow> dget r ''item_code'' = VStr item_code \<Longrightarrow> match_filter (by_item sid item_code) r"
  by (simp add: by_item_def field_values_def)

lemma snapshot_row:
  assumes run: "apply_update [(''$set'', VDict (snapshot_fields now event line sid item_id item_code)),
      (''$inc'', VDict (count_increments x))] d = (Inr m, d')"
  shows "dget d' ''session_id'' = VStr sid" and "dget d' ''item_code'' = VStr item_code"
    and "as_float (dget d' ''counted_qty'') = as_float (dget d ''counted_qty'') + counted_delta x"
    and "as_float (dget d' ''damaged_qty'') = as_float (dget d ''damaged_qty'') + damaged_delta x"
proof -
  let ?row = "snapshot_fields now event line sid item_id item_code"
  let ?e = "snd (apply_set ?row d)"
  obtain b where inc: "apply_inc (count_increments x) ?e = (Inr b, d')" by (rule apply_set_inc [OF run])
  have keys: "distinct (map fst ?row)" "map_of ?row ''session_id'' = Some (VStr sid)"
    "map_of ?row ''item_code'' = Some (VStr item_code)" "''counted_qty'' \<notin> fst ` set ?row" "''damaged_qty'' \<notin> fst ` set ?row"
    by (simp_all add: snapshot_fields_def Let_def)
  show "dget d' ''session_id'' = VStr sid"
    using apply_inc_other [OF inc, of "''session_id''"] apply_set_get_string [OF keys(1,2)] by (simp add: count_increments_def)
  show "dget d' ''item_code'' = VStr item_code"
    using apply_inc_other [OF inc, of "''item_code''"] apply_set_get_string [OF keys(1,3)] by (simp add: count_increments_def)
  show "as_float (dget d' ''counted_qty'') = as_float (dget d ''counted_qty'') + counted_delta x"
    using apply_inc_float [OF inc, of "''counted_qty''"] apply_set_other [OF keys(4)] by (simp add: count_increments_def)
  show "as_float (dget d' ''damaged_qty'') = as_float (dget d ''damaged_qty'') + damaged_delta x"
    using apply_inc_float [OF inc, of "''damaged_qty''"] apply_set_other [OF keys(5)] by (simp add: count_increments_def)
qed

lemma by_item_base:
  "upsert_base (by_item sid item_code) [(''$set'', VDict row), (''$inc'', VDict inc)] =
     [(''session_id'', VStr sid), (''item_code'', VStr item_code)]"
  by (simp add: upsert_base_def by_item_def dget_def dict_or_empty_def)

lemma snapshot_insert:
  obtains m d where "apply_update [(''$set'', VDict (snapshot_fields now event line sid item_id item_code)),
      (''$inc'', VDict (count_increments x))]
    (upsert_base (by_item sid item_code) [(''$set'', VDict (snapshot_fields now event line sid item_id item_code)),
      (''$inc'', VDict (count_increments x))]) = (Inr m, d)"
proof -
  let ?row = "snapshot_fields now event line sid item_id item_code"
  let ?d = "[(''session_id'', VStr sid), (''item_code'', VStr item_code)]"
  have "dget (snd (apply_set ?row ?d)) k = VNone" if "k \<in> {''counted_qty'', ''damaged_qty'', ''serial_count''}" for k
  proof -
    have "k \<notin> fst ` set ?row" "dget ?d k = VNone" using that by (auto simp: snapshot_fields_def Let_def dget_def)
    then show ?thesis by (simp only: apply_set_other not_False_eq_True)
  qed
  then have "\<exists>b d'. apply_inc (count_increments x) (snd (apply_set ?row ?d)) = (Inr b, d')"
    by (intro apply_inc_fresh) (simp_all add: count_increments_def)
  with that apply_set_total [of ?row ?d] show thesis
    by (simp add: by_item_base) (auto simp: apply_update_def run_simps dget_def dict_or_empty_def)
qed

lemma filter_hd_update_first:
  assumes "filter P xs = d # ds" "P d'"
  shows "\<exists>es. filter P (update_first P (\<lambda>_. d') xs) = d' # es"
proof -
  from update_first_split [OF assms(1), where f = "\<lambda>_. d'"] obtain us vs where
    "update_first P (\<lambda>_. d') xs = us @ d' # vs" "\<forall>u \<in> set us. \<not> P u" by metis
  with assms(2) show ?thesis by auto
qed

context event_projections
begin

lemma put_snapshot:
  assumes run: "put_counts E ''items_snapshot'' (by_item sid item_code)
      (snapshot_fields now event line sid item_id item_code) (count_increments x) db = (Inr u, db')"
  shows "snapshot_qty E ''counted_qty'' sid item_code db' = snapshot_qty E ''counted_qty'' sid item_code db + counted_delta x"
    and "snapshot_qty E ''damaged_qty'' sid item_code db' = snapshot_qty E ''damaged_qty'' sid item_code db + damaged_delta x"
proof -
  let ?q = "by_item sid item_code" and ?rows = "docs (estore E) ''items_snapshot'' db"
  let ?u = "[(''$set'', VDict (snapshot_fields now event line sid item_id item_code)), (''$inc'', VDict (count_increments x))]"
  from run obtain n where up: "upsert_one (estore E) ''items_snapshot'' ?q ?u db = (Inr n, db')"
    by (auto simp: put_counts_def run_iff)
  have "\<exists>d' es. filter (match_filter ?q) (docs (estore E) ''items_snapshot'' db') = d' # es \<and>
      as_float (dget d' ''counted_qty'') = snapshot_qty E ''counted_qty'' sid item_code db + counted_delta x \<and>
      as_float (dget d' ''damaged_qty'') = snapshot_qty E ''damaged_qty'' sid item_code db + damaged_delta x"
  proof (cases "filter (match_filter ?q) ?rows")
    case Nil
    obtain m d where d: "apply_update ?u (upsert_base ?q ?u) = (Inr m, d)" by (rule snapshot_insert)
    note row = snapshot_row [OF d]
    have base: "dget (upsert_base ?q ?u) ''counted_qty'' = VNone" "dget (upsert_base ?q ?u) ''damaged_qty'' = VNone"
      by (simp_all add: by_item_base dget_def)
    have "list_all (\<lambda>(_, e). e = CEq (cond_value e)) ?q" by (simp add: by_item_def)
    from upsert_miss [OF up Nil d this] obtain i where
      i: "docs (estore E) ''items_snapshot'' db' = ?rows @ [dset_default ''_id'' i d]" by blast
    have get: "dget (dset_default ''_id'' i d) k = dget d k" if "k \<noteq> ''_id''" for k
      using that by (simp add: dset_default_def doc_simps)
    have "match_filter ?q (dset_default ''_id'' i d)" by (rule match_by_item) (simp_all add: get row)
    moreover have "as_float VNone = 0" by (simp add: as_float_def)
    ultimately show ?thesis using i Nil row(3,4) base get by (simp add: snapshot_qty_def)
  next
    case (Cons r rs)
    obtain q d' where d': "apply_update ?u r = (q, d')" by force
    from up Cons have upd: "update_one (estore E) ''items_snapshot'' ?q ?u db = (Inr n, db')"
      by (simp add: upsert_hit)
    obtain m where q: "q = Inr m" using update_one_raise [OF upd Cons] d' by (cases q) auto
    note row = snapshot_row [OF d' [unfolded q]]
    from update_one_some [OF upd Cons d' [unfolded q]]
    have "docs (estore E) ''items_snapshot'' db' = update_first (match_filter ?q) (\<lambda>_. d') ?rows" by simp
    with filter_hd_update_first [OF Cons match_by_item [OF row(1,2)]] row Cons show ?thesis by (auto simp: snapshot_qty_def)
  qed
  then show "snapshot_qty E ''counted_qty'' sid item_code db' = snapshot_qty E ''counted_qty'' sid item_code db + counted_delta x"
    "snapshot_qty E ''damaged_qty'' sid item_code db' = snapshot_qty E ''damaged_qty'' sid item_code db + damaged_delta x"
    by (auto simp: snapshot_qty_def [of E _ _ _ db'])
qed

lemma keeps_verified_item_snapshot:
  "keeps (\<lambda>db. P (docs (estore E) ''items_snapshot'' db)) (project_verified_item_projection E now event payload)"
  unfolding project_verified_item_projection_def put_verified_item_def drop_verified_item_def Let_def refresh_session_def
    refresh_session_dashboard_projection_def refresh_financial_projection_def
  by (auto intro!: keeps_intros keeps_row keeps_value_items split: option.splits)

lemma project_counts_snapshot:
  assumes run: "project_counts E now event payload line sid item_id item_code db = (Inr u, db')"
  obtains x where "event_deltas (erepr E) event payload line = Inr x"
    "snapshot_qty E ''counted_qty'' sid item_code db' = snapshot_qty E ''counted_qty'' sid item_code db + counted_delta x"
    "snapshot_qty E ''damaged_qty'' sid item_code db' = snapshot_qty E ''damaged_qty'' sid item_code db + damaged_delta x"
proof -
  from run obtain x w t where x: "event_deltas (erepr E) event payload line = Inr x"
    and put: "put_counts E ''items_snapshot'' (by_item sid item_code)
      (snapshot_fields now event line sid item_id item_code) (count_increments x) db = (Inr w, t)"
    and rest: "project_details E now event payload line sid item_id item_code t = (Inr u, db')"
    by (auto simp: project_counts_def run_iff)
  have "keeps (\<lambda>db. P (docs (estore E) ''items_snapshot'' db)) (project_details E now event payload line sid item_id item_code)" for P
    unfolding project_details_def project_batch_def add_serial_rows_def drop_serial_rows_def Let_def
    by (auto intro!: keeps_intros keeps_row keeps_verified_item_snapshot)
  from keeps_eqD [where f = "docs (estore E) ''items_snapshot''", OF this rest]
  have "snapshot_qty E f sid item_code db' = snapshot_qty E f sid item_code t" for f
    by (simp add: snapshot_qty_def)
  with that x put_snapshot [OF put] show thesis by simp
qed

lemma whenM_false [simp]: "whenM False m = returnM ()"
  by (simp add: whenM_def)

lemma whenM_true [simp]: "whenM True m = m"
  by (simp add: whenM_def)

lemma project_event_inventory:
  assumes "event_name (erepr E) event \<in> set INVENTORY_EVENTS"
  shows "project_event E now event payload db = project_inventory_event E now event payload db"
  using assms
  by (auto simp: project_event_def INVENTORY_EVENTS_def SESSION_EVENTS_def run_simps split: prod.splits sum.splits)

lemma apply_event_snapshot:
  assumes run: "apply_event E in_tx now event db = (Inr True, db')"
    and inv: "event_name (erepr E) event \<in> set INVENTORY_EVENTS"
    and target: "event_target (erepr E) (payload_of event) = Some (line, sid, item_id, item_code)"
  obtains x where "event_deltas (erepr E) event (payload_of event) line = Inr x"
    "snapshot_qty E ''counted_qty'' sid item_code db' = snapshot_qty E ''counted_qty'' sid item_code db + counted_delta x"
    "snapshot_qty E ''damaged_qty'' sid item_code db' = snapshot_qty E ''damaged_qty'' sid item_code db + damaged_delta x"
proof -
  let ?snap = "docs (estore E) ''items_snapshot''"
  from run obtain i t u where t: "begin_event_apply E now i event (payload_of event) db = (Inr True, t)"
    and p: "project_event E now event (payload_of event) t = (Inr (), u)"
    and f: "finalize_event_apply E now i event (payload_of event) u = (Inr (), db')"
    by (auto simp: apply_event_run apply_event_core_def Let_def run_iff split: option.splits if_splits)
  have "keeps (\<lambda>db. P (?snap db)) (begin_event_apply E now i event (payload_of event))" for P
    unfolding begin_event_apply_def by (intro keeps_intros keeps_row keeps_insert_other) simp_all
  from keeps_eqD [where f = ?snap, OF this t] have t': "?snap t = ?snap db" .
  have "keeps (\<lambda>db. P (?snap db)) (finalize_event_apply E now i event (payload_of event))" for P
    unfolding finalize_event_apply_def by (intro keeps_intros keeps_update_other) simp
  from keeps_eqD [where f = ?snap, OF this f] have u': "?snap db' = ?snap u" .
  from p target have "project_counts E now event (payload_of event) line sid item_id item_code t = (Inr (), u)"
    by (simp add: project_event_inventory [OF inv] project_inventory_event_def)
  from project_counts_snapshot [OF this] that t' u' show thesis by (auto simp: snapshot_qty_def)
qed

end

section \<open>Properties\<close>

definition mem_events :: "(nat \<Rightarrow> string) \<Rightarrow> (string \<Rightarrow> bool) \<Rightarrow> repr \<Rightarrow> (int \<Rightarrow> string) \<Rightarrow> memdb events" where
  "mem_events idgen oid rp fmt = \<lparr>estore = mem_store idgen oid, erepr = rp, iso_text = fmt\<rparr>"

interpretation mem_projections: event_projections "mem_events idgen oid rp fmt" for idgen oid rp fmt
  by (simp add: event_projections_def mem_events_def document_store_mem)

text \<open>(C9) An event is applied once: after an application that returned, whatever it returned, applying
  the same event again, in a transaction or outside, returns False and changes nothing.\<close>

theorem apply_event_once:
  assumes "document_store (estore E)" "apply_log_ok (apply_log E db)"
    and "apply_event E in_tx now event db = (Inr b, db')"
  shows "apply_event E in_tx' now' event db' = (Inr False, db')"
proof -
  from assms(1) have ep: "event_projections E" by (simp add: event_projections_def)
  have ok: "apply_log_ok (apply_log E db)" "apply_log_ok (apply_log E db')"
    using assms(2) keepsD [OF event_projections.apply_event_ok [OF ep] _ assms(3)] by (simp_all add: apply_log_def)
  obtain i where "nstr (erepr E) (event_key event) = Some i" "marked_applied (apply_log E db') i"
    using event_projections.apply_event_applied [OF ep _ assms(3)] ok by (auto simp: apply_log_def)
  with event_projections.apply_event_seen [OF ep] ok show ?thesis by (auto simp: apply_log_def)
qed

text \<open>Applying an event writes the read models and the log of applied events and nothing else.\<close>

theorem apply_event_only_projections:
  assumes "document_store (estore E)" "apply_event E in_tx now event db = (r, db')"
    and "k \<notin> set (''event_applied'' # EVENT_PROJECTIONS)"
  shows "docs (estore E) k db' = docs (estore E) k db"
proof -
  from assms(1) have ep: "event_projections E" by (simp add: event_projections_def)
  show ?thesis
    by (rule keeps_eqD [where f = "docs (estore E) k", OF event_projections.keeps_apply_event [OF ep assms(3)] assms(2)])
qed

text \<open>A projection that raises leaves no record of an application of its event: the event can
  be applied again. The exception is passed on.\<close>

theorem apply_event_failure:
  assumes "document_store (estore E)" "apply_log_ok (apply_log E db)"
    and id: "nstr (erepr E) (event_key event) = Some i"
    and run: "apply_event E in_tx now event db = (Inl e, db')"
  shows "\<not> marked_applied (apply_log E db') i"
proof -
  from assms(1) have ep: "event_projections E" by (simp add: event_projections_def)
  from run obtain t where core: "apply_event_core E now event db = (Inl e, t)" and db': "db' \<in> {db, t}"
    by (auto simp: apply_event_def unit_of_work_def committed_def Let_def run_simps
        split: prod.splits sum.splits if_splits)
  have ok: "apply_log_ok (docs (estore E) ''event_applied'' db)" using assms(2) by (simp add: apply_log_def)
  show ?thesis
    by (rule event_projections.apply_event_core_cases [OF ep ok id core]) (use db' in \<open>auto simp: apply_log_def\<close>)
qed

text \<open>The log of applied events keeps one record per event, whatever the outcome of an application.\<close>

theorem apply_log_invariant:
  assumes "document_store (estore E)" "apply_log_ok (apply_log E db)"
    and "apply_event E in_tx now event db = (r, db')"
  shows "apply_log_ok (apply_log E db')"
proof -
  from assms(1) have ep: "event_projections E" by (simp add: event_projections_def)
  from keepsD [OF event_projections.apply_event_ok [OF ep] _ assms(3)] assms(2) show ?thesis
    by (simp add: apply_log_def)
qed

text \<open>(C11) A rebuild that returned has applied the whole log: rebuilding again, without clearing,
  reads as many events, applies none and leaves the database as it is.\<close>

theorem rebuild_twice:
  assumes "document_store (estore E)" "apply_log_ok (apply_log E db)"
    and "rebuild_from_event_log E in_tx now sid clear db = (Inr r, db')"
  shows "rebuild_from_event_log E in_tx' now' sid False db' =
    (Inr [(''processed_events'', dget r ''processed_events''), (''applied_events'', VInt 0),
      (''rebuilt_at'', VStr (iso_text E now'))], db')"
proof -
  from assms(1) have ep: "event_projections E" by (simp add: event_projections_def)
  from event_projections.rebuild_applies [OF ep _ assms(3)] assms(2) show ?thesis by (simp add: apply_log_def)
qed



text \<open>(C10) Applying an inventory event adds its change of the counted and of the damaged quantity to the
  snapshot of its item, once.\<close>

theorem apply_event_counts:
  assumes "document_store (estore E)" "apply_event E in_tx now event db = (Inr True, db')"
    and "event_name (erepr E) event \<in> set INVENTORY_EVENTS"
    and "event_target (erepr E) (payload_of event) = Some (line, sid, item_id, item_code)"
  shows "\<exists>x. event_deltas (erepr E) event (payload_of event) line = Inr x \<and>
    snapshot_qty E ''counted_qty'' sid item_code db' = snapshot_qty E ''counted_qty'' sid item_code db + counted_delta x \<and>
    snapshot_qty E ''damaged_qty'' sid item_code db' = snapshot_qty E ''damaged_qty'' sid item_code db + damaged_delta x"
proof -
  from assms(1) have ep: "event_projections E" by (simp add: event_projections_def)
  show ?thesis by (rule event_projections.apply_event_snapshot [OF ep assms(2-4)]) blast
qed

section \<open>Examples\<close>

abbreviation demo_projections :: "memdb events" where
  "demo_projections \<equiv> mem_events show_nat (\<lambda>_. False) (\<lambda>_. []) show_int"

definition demo_counted :: doc where
  "demo_counted = [(''id'', VStr ''L1''), (''session_id'', VStr ''S1''), (''item_code'', VStr ''I1''), (''counted_qty'', VInt 5)]"

definition demo_event :: "val \<Rightarrow> doc" where
  "demo_event serials =
     [(''_id'', VStr ''e1''), (''event_type'', VStr ''QUANTITY_ADJUSTED''), (''timestamp'', naive 10),
      (''payload'', VDict [(''session_id'', VStr ''S1''), (''item_id'', VStr ''I1''), (''after'', VDict demo_counted),
         (''delta'', VDict [(''counted_qty'', VInt 5), (''serial_count'', serials)])])]"

definition demo_event_db :: memdb where
  "demo_event_db = \<lparr>colls = (\<lambda>c. if c = ''event_log'' then [demo_event VNone] else []), next_id = 0\<rparr>"

lemma demo_projections_store: "document_store (estore demo_projections)"
  by (simp add: mem_events_def document_store_mem)

lemma demo_apply_log: "apply_log_ok (apply_log demo_projections demo_event_db)"
  by (simp add: apply_log_def mem_events_def demo_event_db_def apply_log_ok_def)

lemma demo_apply_run:
  obtains db' where "apply_event demo_projections False 20 (demo_event VNone) demo_event_db = (Inr True, db')"
proof -
  have "case fst (apply_event demo_projections False 20 (demo_event VNone) demo_event_db) of Inl _ \<Rightarrow> False | Inr b \<Rightarrow> b"
    by code_simp
  with that show thesis
    by (cases "apply_event demo_projections False 20 (demo_event VNone) demo_event_db") (auto split: sum.splits)
qed

theorem apply_event_once_witness:
  "\<exists>db'. apply_event demo_projections False 20 (demo_event VNone) demo_event_db = (Inr True, db') \<and>
     apply_event demo_projections True 21 (demo_event VNone) db' = (Inr False, db')"
  using apply_event_once [OF demo_projections_store demo_apply_log] demo_apply_run by metis

theorem apply_event_only_projections_witness:
  "\<exists>db'. apply_event demo_projections False 20 (demo_event VNone) demo_event_db = (Inr True, db') \<and>
     docs (estore demo_projections) ''count_lines'' db' = []"
proof -
  have "''count_lines'' \<notin> set (''event_applied'' # EVENT_PROJECTIONS)" by code_simp
  moreover have "docs (estore demo_projections) ''count_lines'' demo_event_db = []"
    by (simp add: mem_events_def demo_event_db_def)
  ultimately show ?thesis using apply_event_only_projections [OF demo_projections_store] demo_apply_run by metis
qed

theorem apply_event_failure_witness:
  "\<exists>e db'. apply_event demo_projections True 20 (demo_event (VStr ''x'')) demo_event_db = (Inl e, db') \<and>
     \<not> marked_applied (apply_log demo_projections db') ''e1''"
proof -
  let ?run = "apply_event demo_projections True 20 (demo_event (VStr ''x'')) demo_event_db"
  have "case fst ?run of Inl _ \<Rightarrow> True | Inr _ \<Rightarrow> False" by code_simp
  then obtain e db' where run: "?run = (Inl e, db')" by (cases ?run) (auto split: sum.splits)
  have "nstr (erepr demo_projections) (event_key (demo_event (VStr ''x''))) = Some ''e1''" by code_simp
  from apply_event_failure [OF demo_projections_store demo_apply_log this run] run show ?thesis by blast
qed

theorem apply_log_invariant_witness:
  "\<exists>db'. apply_event demo_projections False 20 (demo_event VNone) demo_event_db = (Inr True, db') \<and>
     apply_log_ok (apply_log demo_projections db')"
  using apply_log_invariant [OF demo_projections_store demo_apply_log] demo_apply_run by metis

theorem rebuild_twice_witness:
  "\<exists>r db'. rebuild_from_event_log demo_projections False 20 (Some ''S1'') False demo_event_db = (Inr r, db') \<and>
     rebuild_from_event_log demo_projections True 21 (Some ''S1'') False db' =
       (Inr [(''processed_events'', dget r ''processed_events''), (''applied_events'', VInt 0),
          (''rebuilt_at'', VStr ''21'')], db')"
proof -
  let ?run = "rebuild_from_event_log demo_projections False 20 (Some ''S1'') False demo_event_db"
  have found: "find_all (estore demo_projections) ''event_log'' [(''payload.session_id'', CEq (VStr ''S1''))] demo_event_db =
    (Inr [demo_event VNone], demo_event_db)"
    by (simp add: mem_events_def find_all_def run_simps mem_find_def demo_event_db_def demo_event_def field_values_def)
  have "replay_order (erepr demo_projections) [demo_event VNone] = [demo_event VNone]"
    by (simp add: replay_order_def Let_def event_instant_def demo_event_def dget_def)
  moreover obtain t where "apply_event demo_projections False 20 (demo_event VNone) demo_event_db = (Inr True, t)"
    by (rule demo_apply_run)
  ultimately obtain r db' where run: "?run = (Inr r, db')"
    using found by (simp add: rebuild_from_event_log_def run_simps Let_def)
  have "iso_text demo_projections 21 = ''21''" by code_simp
  from rebuild_twice [OF demo_projections_store demo_apply_log run, of True 21, unfolded this] run show ?thesis by blast
qed

theorem apply_event_counts_witness:
  "\<exists>db'. apply_event demo_projections False 20 (demo_event VNone) demo_event_db = (Inr True, db') \<and>
     snapshot_qty demo_projections ''counted_qty'' ''S1'' ''I1'' db' = 5"
proof -
  have e: "event_name (erepr demo_projections) (demo_event VNone) \<in> set INVENTORY_EVENTS"
    "event_target (erepr demo_projections) (payload_of (demo_event VNone)) = Some (demo_counted, ''S1'', ''I1'', ''I1'')"
    by code_simp+
  have x: "case event_deltas (erepr demo_projections) (demo_event VNone) (payload_of (demo_event VNone)) demo_counted of
      Inl _ \<Rightarrow> False | Inr x \<Rightarrow> counted_delta x = 5" by code_simp
  have start: "snapshot_qty demo_projections ''counted_qty'' ''S1'' ''I1'' demo_event_db = 0" by code_simp
  obtain db' where run: "apply_event demo_projections False 20 (demo_event VNone) demo_event_db = (Inr True, db')"
    by (rule demo_apply_run)
  from apply_event_counts [OF demo_projections_store run e] obtain y where
    y: "event_deltas (erepr demo_projections) (demo_event VNone) (payload_of (demo_event VNone)) demo_counted = Inr y"
      "snapshot_qty demo_projections ''counted_qty'' ''S1'' ''I1'' db' =
         snapshot_qty demo_projections ''counted_qty'' ''S1'' ''I1'' demo_event_db + counted_delta y" by blast
  from x [unfolded y(1)] have "counted_delta y = 5" by simp
  with y(2) start run show ?thesis by (metis add_0)
qed

end
