(* ===== verification/EventService.thy ===== *)
theory EventService
  imports EventReplay
begin

text \<open>
  \<open>services/event_service.py\<close>: the append-only event log, the events that mirror the writes of
  count lines, and the hand-over of each event to the projections.

  The service object is the record \<open>event_writer\<close>: \<open>getenv\<close> is the environment of the process
  and \<open>scan_digest\<close> the SHA-256 of the canonical JSON text of a dictionary. The identifiers
  \<open>uuid4()\<close> returns are arguments: \<open>uid\<close> gives the identifier of the n-th event of a write,
  \<open>token\<close> the fallback token. The handler of a duplicate key in \<open>append_event\<close> is left out: the
  insertion comes right after the lookup by the same keys found nothing.
\<close>

section \<open>Flags\<close>

definition FLAG_EVENT_SHADOW_WRITE :: string where
  "FLAG_EVENT_SHADOW_WRITE = ''V3_EVENT_SHADOW_WRITE''"

definition FLAG_EVENT_ENFORCE_WRITES :: string where
  "FLAG_EVENT_ENFORCE_WRITES = ''V3_EVENT_ENFORCE_WRITES''"

definition FLAG_PROJECTION_SHADOW :: string where
  "FLAG_PROJECTION_SHADOW = ''V3_PROJECTION_SHADOW''"

record 'db event_writer =
  events_of :: "'db events"
  getenv :: "string \<Rightarrow> string option"
  scan_digest :: "doc \<Rightarrow> string"

abbreviation event_store :: "'db event_writer \<Rightarrow> 'db store" where
  "event_store W \<equiv> estore (events_of W)"

abbreviation event_repr :: "'db event_writer \<Rightarrow> repr" where
  "event_repr W \<equiv> erepr (events_of W)"

definition flag_as_bool :: "repr \<Rightarrow> bool \<Rightarrow> val \<Rightarrow> bool" where
  "flag_as_bool rp dflt v =
     (case v of
        VNone \<Rightarrow> dflt
      | VBool b \<Rightarrow> b
      | _ \<Rightarrow>
          (let s = lower (strip (py_str rp v)) in
           if s \<in> {''1'', ''true'', ''yes'', ''y'', ''on'', ''enabled''} then True
           else if s \<in> {''0'', ''false'', ''no'', ''n'', ''off'', ''disabled''} then False
           else dflt))"

definition is_enabled :: "'db event_writer \<Rightarrow> string \<Rightarrow> bool \<Rightarrow> ('db, bool) comp" where
  "is_enabled W key dflt =
     (case getenv W key of
        Some s \<Rightarrow> returnM (flag_as_bool (event_repr W) dflt (VStr s))
      | None \<Rightarrow>
          bindM (find_one (event_store W) ''feature_flags'' [(''key'', CEq (VStr key))]) (\<lambda>found.
          returnM (case found of
              None \<Rightarrow> dflt
            | Some d \<Rightarrow>
                if dhas d ''enabled'' then flag_as_bool (event_repr W) dflt (dget d ''enabled'')
                else if dhas d ''state'' then flag_as_bool (event_repr W) dflt (dget d ''state'')
                else dflt)))"

section \<open>Keys\<close>

definition first_string :: "string option \<Rightarrow> string \<Rightarrow> string" where
  "first_string s t = (case s of None \<Rightarrow> t | Some u \<Rightarrow> u)"

definition put_or_pop :: "string \<Rightarrow> string option \<Rightarrow> doc \<Rightarrow> doc" where
  "put_or_pop k s d = (case s of None \<Rightarrow> dpop k d | Some t \<Rightarrow> dput k (VStr t) d)"

definition event_idempotency_key :: "repr \<Rightarrow> string \<Rightarrow> doc \<Rightarrow> string \<Rightarrow> string \<Rightarrow> doc \<Rightarrow> string" where
  "event_idempotency_key rp token metadata aggregate_id event_type payload =
     (case nstr rp (dget metadata ''event_idempotency_key'') of
        Some k \<Rightarrow> k
      | None \<Rightarrow>
          (let fallback = first_string
             (nstr rp (any_of payload [''count_line_id'', ''session_id'', ''queue_id'', ''recount_id''])) token
           in join '':'' [event_type, aggregate_id, fallback]))"

definition normalize_event_metadata :: "repr \<Rightarrow> string \<Rightarrow> doc \<Rightarrow> string \<Rightarrow> string \<Rightarrow> doc \<Rightarrow> doc" where
  "normalize_event_metadata rp token metadata aggregate_id event_type payload =
     (let key = VStr (event_idempotency_key rp token metadata aggregate_id event_type payload);
          request = nstr rp (py_or (dget metadata ''request_idempotency_key'') (dget metadata ''idempotency_key''));
          keyed = dput ''event_idempotency_key'' key (dput ''idempotency_key'' key metadata);
          requested = put_or_pop ''request_idempotency_key'' request keyed
      in put_or_pop ''scan_fingerprint'' (nstr rp (dget requested ''scan_fingerprint'')) requested)"

definition by_event_key :: "string \<Rightarrow> query" where
  "by_event_key key =
     [(''$or'', CClauses [[(''idempotency_key'', CEq (VStr key))], [(''metadata.idempotency_key'', CEq (VStr key))],
        [(''metadata.event_idempotency_key'', CEq (VStr key))]])]"

definition by_fingerprint :: "string \<Rightarrow> query" where
  "by_fingerprint f = [(''scan_fingerprint'', CEq (VStr f))]"

definition find_existing_event :: "'db event_writer \<Rightarrow> string option \<Rightarrow> string option \<Rightarrow> ('db, doc option) comp" where
  "find_existing_event W key fingerprint =
     bindM (case key of None \<Rightarrow> returnM None | Some k \<Rightarrow> find_one (event_store W) ''event_log'' (by_event_key k)) (\<lambda>hit.
     case (hit, fingerprint) of
       (Some e, _) \<Rightarrow> returnM (Some e)
     | (None, None) \<Rightarrow> returnM None
     | (None, Some f) \<Rightarrow> find_one (event_store W) ''event_log'' (by_fingerprint f))"

section \<open>Appending\<close>

definition event_doc :: "int \<Rightarrow> string \<Rightarrow> string \<Rightarrow> string \<Rightarrow> doc \<Rightarrow> doc \<Rightarrow> (string \<times> string option) list \<Rightarrow> doc" where
  "event_doc now uid aggregate_id event_type payload metadata keys =
     [(''_id'', VStr uid), (''aggregate_id'', VStr aggregate_id), (''event_type'', VStr event_type),
      (''payload'', VDict payload), (''metadata'', VDict metadata), (''timestamp'', naive now)] @
     List.map_filter (\<lambda>(k, v). map_option (\<lambda>s. (k, VStr s)) v) keys"

definition project_appended :: "'db event_writer \<Rightarrow> bool \<Rightarrow> int \<Rightarrow> bool \<Rightarrow> bool \<Rightarrow> doc \<Rightarrow> ('db, unit) comp" where
  "project_appended W in_tx now apply_projection enforce_writes event =
     (if \<not> apply_projection then returnM ()
      else bindM (is_enabled W FLAG_PROJECTION_SHADOW True) (\<lambda>shadow.
           whenM shadow (\<lambda>db. case apply_event (events_of W) in_tx now event db of
             (Inl e, t) \<Rightarrow> (if enforce_writes then Inl e else Inr (), t)
           | (Inr _, t) \<Rightarrow> (Inr (), t))))"

definition enforce_flag :: "'db event_writer \<Rightarrow> bool option \<Rightarrow> ('db, bool) comp" where
  "enforce_flag W enforce_writes =
     (case enforce_writes of Some b \<Rightarrow> returnM b | None \<Rightarrow> is_enabled W FLAG_EVENT_ENFORCE_WRITES True)"

definition append_event ::
  "'db event_writer \<Rightarrow> bool \<Rightarrow> int \<Rightarrow> string \<Rightarrow> string \<Rightarrow> string \<Rightarrow> string \<Rightarrow> doc \<Rightarrow> doc \<Rightarrow> bool \<Rightarrow> bool option \<Rightarrow> ('db, doc) comp" where
  "append_event W in_tx now uid token aggregate_id event_type payload metadata apply_projection enforce_writes =
     (let rp = event_repr W;
          meta = normalize_event_metadata rp token metadata aggregate_id event_type payload;
          key = nstr rp (dget meta ''idempotency_key'');
          request = nstr rp (dget meta ''request_idempotency_key'');
          fingerprint = nstr rp (dget meta ''scan_fingerprint'') in
      bindM (enforce_flag W enforce_writes) (\<lambda>enforce.
      bindM (find_existing_event W key fingerprint) (\<lambda>existing.
      case existing of
        Some e \<Rightarrow> returnM e
      | None \<Rightarrow>
          (let event = event_doc now uid aggregate_id event_type payload meta
             [(''idempotency_key'', key), (''request_idempotency_key'', request), (''scan_fingerprint'', fingerprint)] in
           bindM (insert_one (event_store W) ''event_log'' event) (\<lambda>_.
           bindM (project_appended W in_tx now apply_projection enforce event) (\<lambda>_.
           returnM event))))))"

definition record_session_event ::
  "'db event_writer \<Rightarrow> bool \<Rightarrow> int \<Rightarrow> string \<Rightarrow> string \<Rightarrow> string \<Rightarrow> string \<Rightarrow> doc \<Rightarrow> doc \<Rightarrow> bool \<Rightarrow> ('db, doc option) comp" where
  "record_session_event W in_tx now uid token event_type sid payload metadata required =
     bindM (if required then returnM True else is_enabled W FLAG_EVENT_SHADOW_WRITE True) (\<lambda>go.
     if \<not> go then returnM None
     else
       (let key = join '':'' [event_type, sid, py_str (event_repr W)
              (py_or (any_of payload [''updated_at'', ''timestamp'']) (VStr (iso_text (events_of W) now)))];
            meta = dset_default ''legacy_source'' (VStr ''sessions'') (dset_default ''event_idempotency_key'' (VStr key) metadata) in
        bindM (append_event W in_tx now uid token sid event_type (dmerge [(''session_id'', VStr sid)] payload) meta True
          (Some required)) (\<lambda>e. returnM (Some e))))"

definition record_sync_queue_event ::
  "'db event_writer \<Rightarrow> bool \<Rightarrow> int \<Rightarrow> string \<Rightarrow> string \<Rightarrow> string \<Rightarrow> string option \<Rightarrow> string option \<Rightarrow> string \<Rightarrow> doc \<Rightarrow>
   string option \<Rightarrow> ('db, doc) comp" where
  "record_sync_queue_event W in_tx now uid token event_type sid item_code strategy details resolved_by =
     (let queue_id = first_string (nstr (event_repr W) (dget details ''conflict_id'')) token;
          named = (\<lambda>s. s \<noteq> None \<and> s \<noteq> Some []) in
      append_event W in_tx now uid token
        (if named item_code then the item_code else if named sid then the sid else ''sync'') event_type
        [(''queue_id'', VStr queue_id), (''session_id'', opt_string sid), (''item_code'', opt_string item_code),
         (''strategy'', VStr strategy), (''details'', VDict details), (''resolved_by'', opt_string resolved_by),
         (''status'', VStr (if event_type = ''SYNC_CONFLICT_RECORDED'' then ''PENDING'' else ''RESOLVED''))]
        [(''request_idempotency_key'', VStr queue_id), (''event_idempotency_key'', VStr (join '':'' [event_type, queue_id])),
         (''legacy_source'', VStr ''sync_conflicts'')] True None)"

section \<open>The events of a count line write\<close>

definition scan_fields :: "repr \<Rightarrow> doc \<Rightarrow> doc \<Rightarrow> doc res" where
  "scan_fields rp document context =
     bindR (to_float (py_or (dget document ''counted_qty'') (VFloat 0))) (\<lambda>qty.
     Inr [(''device_id'', opt_string (nstr rp (py_or (py_or (dget context ''device_id'') (dget document ''device_id''))
            (VStr ''unknown-device'')))),
          (''session_id'', opt_string (nstr rp (dget document ''session_id''))),
          (''item_code'', opt_string (nstr rp (dget document ''item_code''))),
          (''batch_id'', opt_string (nstr rp (dget document ''batch_id''))),
          (''serials'', VList (map VStr (event_serials rp (Some document)))),
          (''location_id'', opt_string (nstr rp (any_of document [''location_id'', ''floor_id'']))),
          (''counted_qty'', VFloat qty)])"

definition compute_scan_fingerprint :: "'db event_writer \<Rightarrow> doc \<Rightarrow> doc \<Rightarrow> string res" where
  "compute_scan_fingerprint W document context =
     bindR (scan_fields (event_repr W) document context) (\<lambda>d. Inr (scan_digest W d))"

definition line_event_key :: "'db event_writer \<Rightarrow> int \<Rightarrow> doc \<Rightarrow> string \<Rightarrow> string" where
  "line_event_key W now document event_type =
     (let rp = event_repr W in
      join '':'' [event_type, first_string (line_identifier rp document) (py_str rp (dget document ''item_code'')),
        py_str rp (py_or (any_of document [''updated_at'', ''counted_at'', ''approved_at''])
          (VStr (iso_text (events_of W) now)))])"

definition build_metadata :: "'db event_writer \<Rightarrow> int \<Rightarrow> doc \<Rightarrow> doc \<Rightarrow> string \<Rightarrow> doc res" where
  "build_metadata W now document context event_type =
     (let rp = event_repr W; key = VStr (line_event_key W now document event_type) in
      bindR (if event_type = ''SCAN_ADDED'' then bindR (compute_scan_fingerprint W document context) (\<lambda>f. Inr (VStr f))
             else Inr VNone) (\<lambda>fingerprint.
      Inr [(''user_id'', opt_string (nstr rp (py_or (any_of context [''username'', ''user_id''])
              (any_of document [''updated_by'', ''counted_by'', ''created_by''])))),
           (''device_id'', opt_string (nstr rp (py_or (py_or (dget context ''device_id'') (dget document ''device_id''))
              (dget context ''client_id'')))),
           (''request_idempotency_key'', opt_string (nstr rp (dget document ''idempotency_key''))),
           (''idempotency_key'', key), (''event_idempotency_key'', key), (''scan_fingerprint'', fingerprint),
           (''legacy_source'', VStr ''count_lines''),
           (''legacy_operation'', py_or (dget context ''transition'') (VStr (lower event_type)))]))"

definition qty_of :: "doc option \<Rightarrow> string \<Rightarrow> rat res" where
  "qty_of d k = to_float (py_or (dget (or_empty d) k) (VFloat 0))"

definition build_payload :: "repr \<Rightarrow> doc \<Rightarrow> doc option \<Rightarrow> doc option \<Rightarrow> doc res" where
  "build_payload rp document before after =
     (let active = (if or_empty after \<noteq> [] then or_empty after else if or_empty before \<noteq> [] then or_empty before else document);
          before_serials = event_serials rp before; after_serials = event_serials rp after in
      bindR (qty_of before ''counted_qty'') (\<lambda>before_qty.
      bindR (qty_of after ''counted_qty'') (\<lambda>after_qty.
      bindR (qty_of before ''damaged_qty'') (\<lambda>before_damaged.
      bindR (qty_of after ''damaged_qty'') (\<lambda>after_damaged.
      Inr [(''session_id'', dget active ''session_id''), (''item_id'', any_of active [''item_id'', ''item_code'']),
           (''batch_id'', dget active ''batch_id''), (''count_line_id'', opt_string (line_identifier rp active)),
           (''count_line'', VDict active), (''before'', opt_dict before), (''after'', opt_dict after),
           (''serial_numbers'', VList (map VStr after_serials)),
           (''delta'', VDict
             [(''counted_qty'', VFloat (if after \<noteq> None then after_qty - before_qty else - before_qty)),
              (''damaged_qty'', VFloat (if after \<noteq> None then after_damaged - before_damaged else - before_damaged)),
              (''serial_count'', VInt (int (length after_serials) - int (length before_serials)))])])))))"

definition aggregate_of :: "repr \<Rightarrow> val \<Rightarrow> string" where
  "aggregate_of rp v = first_string (nstr rp v) ''unknown-item''"

definition emit_line_event ::
  "'db event_writer \<Rightarrow> bool \<Rightarrow> int \<Rightarrow> string \<Rightarrow> string \<Rightarrow> string \<Rightarrow> doc \<Rightarrow> doc \<Rightarrow> string \<Rightarrow> doc \<Rightarrow> ('db, doc) comp" where
  "emit_line_event W in_tx now uid token event_type document context aggregate_id payload =
     bindM (liftM (build_metadata W now document context event_type)) (\<lambda>metadata.
     append_event W in_tx now uid token aggregate_id event_type payload metadata True None)"

definition emit_when :: "bool \<Rightarrow> ('db, doc) comp \<Rightarrow> doc list \<Rightarrow> ('db, doc list) comp" where
  "emit_when b m es = (if b then bindM m (\<lambda>e. returnM (es @ [e])) else returnM es)"

definition emit_insert_events ::
  "'db event_writer \<Rightarrow> bool \<Rightarrow> int \<Rightarrow> (nat \<Rightarrow> string) \<Rightarrow> string \<Rightarrow> doc \<Rightarrow> doc \<Rightarrow> ('db, doc list) comp" where
  "emit_insert_events W in_tx now uid token document context =
     (let rp = event_repr W; aggregate_id = aggregate_of rp (dget document ''item_code'');
          emit = (\<lambda>n event_type payload. emit_line_event W in_tx now (uid n) token event_type document context aggregate_id payload) in
      bindM (liftM (build_metadata W now document context ''SCAN_ADDED'')) (\<lambda>metadata.
      bindM (liftM (build_payload rp document None (Some document))) (\<lambda>payload.
      bindM (append_event W in_tx now (uid 0) token aggregate_id ''SCAN_ADDED'' payload metadata True None) (\<lambda>scan.
      bindM (liftM (qty_of (Some document) ''variance'')) (\<lambda>variance.
      bindM (emit_when (\<bar>variance\<bar> > 0) (emit 1 ''VARIANCE_DETECTED'' payload) [scan]) (\<lambda>es.
      bindM (liftM (qty_of (Some document) ''damaged_qty'')) (\<lambda>damaged.
      bindM (emit_when (damaged > 0) (emit 2 ''DAMAGE_MARKED'' payload) es) (\<lambda>es.
      emit_when (upper (text_of rp document ''approval_status'') = ''APPROVED'') (emit 3 ''APPROVAL_GRANTED'' payload) es))))))))"

definition delta_value :: "doc \<Rightarrow> string \<Rightarrow> rat res" where
  "delta_value payload k = to_float (py_or (dget (delta_of payload) k) (VFloat 0))"

definition emit_update_events ::
  "'db event_writer \<Rightarrow> bool \<Rightarrow> int \<Rightarrow> (nat \<Rightarrow> string) \<Rightarrow> string \<Rightarrow> doc \<Rightarrow> doc \<Rightarrow> doc \<Rightarrow> ('db, doc list) comp" where
  "emit_update_events W in_tx now uid token before after context =
     (let rp = event_repr W;
          aggregate_id = aggregate_of rp (py_or (dget after ''item_code'') (dget before ''item_code''));
          emit = (\<lambda>n event_type payload. emit_line_event W in_tx now (uid n) token event_type after context aggregate_id payload);
          status = (\<lambda>d k. upper (text_of rp d k));
          was_verified = truthy (dget before ''verified''); is_verified = truthy (dget after ''verified'') in
      bindM (liftM (build_payload rp after (Some before) (Some after))) (\<lambda>payload.
      bindM (liftM (delta_value payload ''counted_qty'')) (\<lambda>counted.
      bindM (liftM (delta_value payload ''damaged_qty'')) (\<lambda>damaged.
      bindM (emit_when (counted \<noteq> 0) (emit 0 ''QUANTITY_ADJUSTED'' payload) []) (\<lambda>es.
      bindM (emit_when (damaged > 0) (emit 1 ''DAMAGE_MARKED'' payload) es) (\<lambda>es.
      bindM (emit_when (status after ''approval_status'' = ''APPROVED'' \<and> status before ''approval_status'' \<noteq> ''APPROVED'')
        (emit 2 ''APPROVAL_GRANTED'' payload) es) (\<lambda>es.
      bindM (emit_when (status after ''status'' = ''REJECTED'' \<and> status before ''status'' \<noteq> ''REJECTED'')
        (emit 3 ''RECOUNT_REQUESTED'' payload) es) (\<lambda>es.
      bindM (emit_when (is_verified \<and> \<not> was_verified) (emit 4 ''COUNT_VERIFIED'' payload) es) (\<lambda>es.
      emit_when (\<not> is_verified \<and> was_verified) (emit 5 ''COUNT_UNVERIFIED'' payload) es)))))))))"

definition emit_removed_event ::
  "'db event_writer \<Rightarrow> bool \<Rightarrow> int \<Rightarrow> string \<Rightarrow> string \<Rightarrow> doc \<Rightarrow> doc \<Rightarrow> ('db, doc) comp" where
  "emit_removed_event W in_tx now uid token document context =
     bindM (liftM (build_payload (event_repr W) document (Some document) None)) (\<lambda>payload.
     emit_line_event W in_tx now uid token ''COUNT_LINE_REMOVED'' document context
       (aggregate_of (event_repr W) (dget document ''item_code'')) payload)"

section \<open>Mirroring a write\<close>

definition post_index :: "repr \<Rightarrow> doc list \<Rightarrow> (string \<times> doc) list" where
  "post_index rp post_images =
     rev (List.map_filter (\<lambda>d. map_option (\<lambda>i. (i, d)) (line_identifier rp d)) post_images)"

definition image_of :: "repr \<Rightarrow> doc list \<Rightarrow> doc \<Rightarrow> doc" where
  "image_of rp post_images before =
     (case line_identifier rp before of None \<Rightarrow> [] | Some i \<Rightarrow> or_empty (map_of (post_index rp post_images) i))"

fun mirror_updates ::
  "'db event_writer \<Rightarrow> bool \<Rightarrow> int \<Rightarrow> (nat \<Rightarrow> nat \<Rightarrow> string) \<Rightarrow> string \<Rightarrow> doc \<Rightarrow> doc list \<Rightarrow> nat \<Rightarrow> doc list \<Rightarrow> ('db, doc list) comp" where
  "mirror_updates W in_tx now uid token context post n [] = returnM []"
| "mirror_updates W in_tx now uid token context post n (before # pre) =
     (let after = image_of (event_repr W) post before in
      bindM (if after = [] then returnM [] else emit_update_events W in_tx now (uid n) token before after context) (\<lambda>es.
      bindM (mirror_updates W in_tx now uid token context post (Suc n) pre) (\<lambda>fs. returnM (es @ fs))))"

fun mirror_removals ::
  "'db event_writer \<Rightarrow> bool \<Rightarrow> int \<Rightarrow> (nat \<Rightarrow> nat \<Rightarrow> string) \<Rightarrow> string \<Rightarrow> doc \<Rightarrow> nat \<Rightarrow> doc list \<Rightarrow> ('db, doc list) comp" where
  "mirror_removals W in_tx now uid token context n [] = returnM []"
| "mirror_removals W in_tx now uid token context n (before # pre) =
     bindM (emit_removed_event W in_tx now (uid n 0) token before context) (\<lambda>e.
     bindM (mirror_removals W in_tx now uid token context (Suc n) pre) (\<lambda>fs. returnM ((if e = [] then [] else [e]) @ fs)))"

text \<open>\<open>inserted\<close> is the \<open>inserted_id\<close> of the result, None where it has none.\<close>

definition mirror_count_line_write ::
  "'db event_writer \<Rightarrow> bool \<Rightarrow> int \<Rightarrow> (nat \<Rightarrow> nat \<Rightarrow> string) \<Rightarrow> string \<Rightarrow> doc \<Rightarrow> doc \<Rightarrow> val \<Rightarrow> doc list \<Rightarrow> doc list \<Rightarrow>
   ('db, doc list) comp" where
  "mirror_count_line_write W in_tx now uid token payload context inserted pre_images post_images =
     (let operation = lower (text_of (event_repr W) payload ''operation'') in
      if operation = ''insert_one'' then
        (case as_dict (dget payload ''document'') of
           None \<Rightarrow> returnM []
         | Some document \<Rightarrow>
             emit_insert_events W in_tx now (uid 0) token
               (if truthy inserted then dset_default ''_id'' inserted document else document) context)
      else if operation \<in> {''update_one'', ''update_many''} then
        mirror_updates W in_tx now uid token context post_images 0 pre_images
      else if operation \<in> {''delete_one'', ''delete_many''} then
        mirror_removals W in_tx now uid token context 0 pre_images
      else returnM [])"

section \<open>Lookups by key\<close>

lemma bindM_run_Inr: "m s = (Inr x, t) \<Longrightarrow> bindM m f s = f x t"
  by (simp add: run_simps)

lemma nstr_again [simp]: "nstr rp v = Some k \<Longrightarrow> nstr rp (VStr k) = Some k"
  by (auto simp: nstr_def Let_def split: if_splits)

lemma put_or_pop_get:
  "dget (put_or_pop k s d) j = (if j = k then opt_string s else dget d j)"
  by (cases s) (simp_all add: put_or_pop_def opt_string_def doc_simps dget_def delete_conv')

lemma nstr_opt_string: "nstr rp v = s \<Longrightarrow> nstr rp (opt_string s) = s"
  by (cases s) (simp_all add: opt_string_def nstr_def [of rp VNone])

lemma normalized_keys:
  assumes "nstr rp (dget metadata ''event_idempotency_key'') = Some k"
  shows "nstr rp (dget (normalize_event_metadata rp token metadata aggregate_id event_type payload) ''idempotency_key'') = Some k"
    and "nstr rp (dget (normalize_event_metadata rp token metadata aggregate_id event_type payload) ''scan_fingerprint'') =
      nstr rp (dget metadata ''scan_fingerprint'')"
  using assms
  by (simp_all add: normalize_event_metadata_def Let_def event_idempotency_key_def put_or_pop_get doc_simps nstr_opt_string)

definition event_hit :: "string \<Rightarrow> string option \<Rightarrow> doc list \<Rightarrow> doc option" where
  "event_hit k fingerprint rows =
     (case List.find (match_filter (by_event_key k)) rows of
        Some e \<Rightarrow> Some e
      | None \<Rightarrow> (case fingerprint of None \<Rightarrow> None | Some f \<Rightarrow> List.find (match_filter (by_fingerprint f)) rows))"

definition event_log :: "'db event_writer \<Rightarrow> 'db \<Rightarrow> doc list" where
  "event_log W db = docs (event_store W) ''event_log'' db"

lemma find_existing_run:
  assumes "document_store (event_store W)"
  shows "find_existing_event W (Some k) fingerprint db = (Inr (event_hit k fingerprint (event_log W db)), db)"
  by (simp add: find_existing_event_def run_simps document_store.find_one_run [OF assms] event_hit_def event_log_def
      find_hd_filter split: list.splits option.splits)

lemma is_enabled_run:
  assumes "document_store (event_store W)"
  shows "\<exists>b. is_enabled W key dflt db = (Inr b, db)"
  by (auto simp: is_enabled_def run_simps document_store.find_one_run [OF assms] split: option.splits)

lemma enforce_run:
  assumes "document_store (event_store W)"
  shows "\<exists>b. enforce_flag W enf db = (Inr b, db)"
  using is_enabled_run [OF assms, of FLAG_EVENT_ENFORCE_WRITES True db]
  by (cases enf) (simp_all add: run_simps enforce_flag_def)

lemma event_doc_keys:
  "dget (event_doc now uid agg typ payload meta
     [(''idempotency_key'', Some k), (''request_idempotency_key'', r), (''scan_fingerprint'', f)]) ''idempotency_key'' = VStr k"
  "dget (event_doc now uid agg typ payload meta
     [(''idempotency_key'', Some k), (''request_idempotency_key'', r), (''scan_fingerprint'', f)]) ''scan_fingerprint'' = opt_string f"
  "dhas (event_doc now uid agg typ payload meta
     [(''idempotency_key'', Some k), (''request_idempotency_key'', r), (''scan_fingerprint'', f)]) ''_id''"
  by (cases r; cases f; simp add: event_doc_def map_filter_simps dget_def dhas_def opt_string_def)+

lemma match_by_event_key: "dget e ''idempotency_key'' = VStr k \<Longrightarrow> match_filter (by_event_key k) e"
  by (simp add: by_event_key_def field_values_def)

lemma match_by_fingerprint: "dget e ''scan_fingerprint'' = VStr f \<Longrightarrow> match_filter (by_fingerprint f) e"
  by (simp add: by_fingerprint_def field_values_def)

lemma find_append: "List.find P (xs @ ys) = (case List.find P xs of None \<Rightarrow> List.find P ys | Some x \<Rightarrow> Some x)"
  by (induction xs) auto

lemma event_hit_appended:
  "event_hit k f rows = None \<Longrightarrow> dget e ''idempotency_key'' = VStr k \<Longrightarrow> event_hit k f (rows @ [e]) = Some e"
  by (auto simp: event_hit_def find_append match_by_event_key split: option.splits)

lemma event_hit_fingerprint:
  "dget e ''scan_fingerprint'' = VStr f \<Longrightarrow> event_hit k (Some f) (rows @ [e]) \<noteq> None"
  by (auto simp: event_hit_def find_append match_by_fingerprint split: option.splits)

section \<open>Appending\<close>

lemma keeps_project_appended:
  assumes "document_store (event_store W)" "k \<notin> set (''event_applied'' # EVENT_PROJECTIONS)"
  shows "keeps (\<lambda>db. P (docs (event_store W) k db)) (project_appended W in_tx now ap enforce event)"
proof -
  have ep: "event_projections (events_of W)" using assms(1) by (simp add: event_projections_def)
  have "keeps (\<lambda>db. P (docs (event_store W) k db)) (\<lambda>db. case apply_event (events_of W) in_tx now event db of
      (Inl e, t) \<Rightarrow> (if enforce then Inl e else Inr (), t) | (Inr _, t) \<Rightarrow> (Inr (), t))"
    using event_projections.keeps_apply_event [OF ep assms(2), of P in_tx now event]
    unfolding keeps_def by (auto split: prod.splits sum.splits)
  then show ?thesis
    unfolding project_appended_def is_enabled_def by (auto intro!: keeps_intros split: option.splits)
qed

lemma append_event_cases:
  assumes store: "document_store (event_store W)"
    and key: "nstr (event_repr W) (dget metadata ''event_idempotency_key'') = Some k"
    and f: "f = nstr (event_repr W) (dget metadata ''scan_fingerprint'')"
    and run: "append_event W in_tx now uid token agg typ payload metadata ap enf db = (Inr e, db')"
  obtains (seen) "event_hit k f (event_log W db) = Some e" "db' = db"
  | (new) "event_hit k f (event_log W db) = None" "event_log W db' = event_log W db @ [e]"
      "dget e ''idempotency_key'' = VStr k" "dget e ''scan_fingerprint'' = opt_string f"
proof -
  let ?meta = "normalize_event_metadata (event_repr W) token metadata agg typ payload"
  define e0 where "e0 = event_doc now uid agg typ payload ?meta [(''idempotency_key'', Some k),
    (''request_idempotency_key'', nstr (event_repr W) (dget ?meta ''request_idempotency_key'')), (''scan_fingerprint'', f)]"
  obtain b where b: "enforce_flag W enf db = (Inr b, db)"
    using enforce_run [OF store] by blast
  have run': "(case event_hit k f (event_log W db) of
      Some e \<Rightarrow> returnM e
    | None \<Rightarrow> bindM (insert_one (event_store W) ''event_log'' e0) (\<lambda>_.
        bindM (project_appended W in_tx now ap b e0) (\<lambda>_. returnM e0))) db = (Inr e, db')"
    using run unfolding e0_def append_event_def Let_def normalized_keys [OF key] f [symmetric]
    by (simp only: bindM_run_Inr [where m = "enforce_flag W enf", OF b]
      bindM_run_Inr [where m = "find_existing_event W _ _", OF find_existing_run [OF store]])
  show thesis
  proof (cases "event_hit k f (event_log W db)")
    case (Some e')
    from run' [unfolded Some option.case returnM_run] have "e = e'" "db' = db" by simp_all
    with that(1) Some show thesis by simp
  next
    case None
    with run'
    obtain i t where i: "insert_one (event_store W) ''event_log'' e0 db = (Inr i, t)"
      and t: "project_appended W in_tx now ap b e0 t = (Inr (), db')" "e = e0"
      by (auto simp: run_iff)
    have "dset_default ''_id'' x e0 = e0" for x
      using event_doc_keys(3) by (simp add: dset_default_def e0_def)
    with document_store.insert_one_docs [OF store i] have "event_log W t = event_log W db @ [e]"
      by (auto simp: event_log_def t(2))
    moreover have "''event_log'' \<notin> set (''event_applied'' # EVENT_PROJECTIONS)" by (simp add: EVENT_PROJECTIONS_def)
    from keeps_eqD [where f = "docs (event_store W) ''event_log''", OF keeps_project_appended [OF store this] t(1)]
    have "event_log W db' = event_log W t" by (simp add: event_log_def)
    ultimately show thesis using that(2) None t(2) event_doc_keys unfolding e0_def by metis
  qed
qed

lemma append_event_seen:
  assumes store: "document_store (event_store W)"
    and key: "nstr (event_repr W) (dget metadata ''event_idempotency_key'') = Some k"
    and hit: "event_hit k (nstr (event_repr W) (dget metadata ''scan_fingerprint'')) (event_log W db) = Some e"
  shows "append_event W in_tx now uid token agg typ payload metadata ap enf db = (Inr e, db)"
proof -
  obtain b where b: "enforce_flag W enf db = (Inr b, db)"
    using enforce_run [OF store] by blast
  show ?thesis
    unfolding append_event_def Let_def normalized_keys [OF key]
    by (simp only: bindM_run_Inr [where m = "enforce_flag W enf", OF b]
      bindM_run_Inr [where m = "find_existing_event W _ _", OF find_existing_run [OF store]] hit option.case returnM_run)
qed

text \<open>(C12) Appending is idempotent: an event appended again under the same idempotency key, with
  whatever payload, is answered with the event of the log and changes nothing.\<close>

theorem append_event_idempotent:
  assumes "document_store (event_store W)"
    and "nstr (event_repr W) (dget metadata ''event_idempotency_key'') \<noteq> None"
    and "append_event W in_tx now uid token agg typ payload metadata ap enf db = (Inr e, db')"
  shows "append_event W in_tx' now' uid' token' agg' typ' payload' metadata ap' enf' db' = (Inr e, db')"
proof -
  from assms(2) obtain k where key: "nstr (event_repr W) (dget metadata ''event_idempotency_key'') = Some k" by blast
  show ?thesis
    using append_event_cases [OF assms(1) key refl assms(3)]
    by cases (simp_all add: append_event_seen [OF assms(1) key] event_hit_appended)
qed

section \<open>Scans\<close>

lemma strip_nonblank: "c \<in> set s \<Longrightarrow> \<not> is_space c \<Longrightarrow> strip s \<noteq> []"
  by (auto simp: strip_def dropWhile_eq_Nil_conv) (metis set_dropWhileD set_takeWhileD Un_iff set_append takeWhile_dropWhile_id)

lemma colon_joined: "CHR '':'' \<in> set (join '':'' (x # y # zs))"
  by simp

lemma joined_key: "\<exists>k. nstr rp (VStr (join '':'' (x # y # zs))) = Some k"
proof -
  have "\<not> is_space (CHR '':'')" by code_simp
  from strip_nonblank [OF colon_joined this] show ?thesis by (simp add: nstr_def Let_def del: join.simps)
qed

lemma scan_metadata:
  assumes "compute_scan_fingerprint W d context = Inr f"
  obtains m k where "build_metadata W now d context ''SCAN_ADDED'' = Inr m"
    "nstr (event_repr W) (dget m ''event_idempotency_key'') = Some k" "dget m ''scan_fingerprint'' = VStr f"
proof -
  let ?key = "line_event_key W now d ''SCAN_ADDED''"
  obtain k where k: "nstr (event_repr W) (VStr ?key) = Some k"
    unfolding line_event_key_def Let_def using joined_key by blast
  obtain m where m: "build_metadata W now d context ''SCAN_ADDED'' = Inr m" "dget m ''event_idempotency_key'' = VStr ?key"
      "dget m ''scan_fingerprint'' = VStr f"
    using assms by (simp add: build_metadata_def Let_def dget_def)
  with k that show thesis by simp
qed

lemma scan_fields_place:
  "compute_scan_fingerprint W (dput ''id'' i (dput ''rack_no'' r (dput ''counted_at'' t d))) context =
   compute_scan_fingerprint W d context"
  by (simp add: compute_scan_fingerprint_def scan_fields_def event_serials_def any_of_def doc_simps)

text \<open>The fingerprint of a scan leaves out the line, the rack and the time: once the log has an
  event with the fingerprint of a line, the scan of any other line that agrees with it on the
  device, session, item, batch, serials, location and quantity is answered with an old event and
  neither logged nor counted.\<close>

theorem scan_absorbed:
  assumes "document_store (event_store W)"
    and "compute_scan_fingerprint W d context = Inr f" "nstr (event_repr W) (VStr f) = Some f"
    and "e \<in> set (event_log W db)" "dget e ''scan_fingerprint'' = VStr f"
  shows "\<exists>old. emit_line_event W in_tx now uid token ''SCAN_ADDED''
    (dput ''id'' i (dput ''rack_no'' r (dput ''counted_at'' t d))) context agg payload db = (Inr old, db)"
proof -
  let ?d = "dput ''id'' i (dput ''rack_no'' r (dput ''counted_at'' t d))"
  obtain m k where m: "build_metadata W now ?d context ''SCAN_ADDED'' = Inr m"
    "nstr (event_repr W) (dget m ''event_idempotency_key'') = Some k" "dget m ''scan_fingerprint'' = VStr f"
    by (rule scan_metadata [of W ?d "context" f now]) (simp_all add: scan_fields_place assms)
  have "List.find (match_filter (by_fingerprint f)) (event_log W db) \<noteq> None"
    using assms(4,5) match_by_fingerprint by (auto simp: find_None_iff)
  then obtain old where "event_hit k (Some f) (event_log W db) = Some old"
    by (cases "List.find (match_filter (by_event_key k)) (event_log W db)") (auto simp: event_hit_def)
  from append_event_seen [OF assms(1) m(2), unfolded m(3) assms(3), OF this] m(1) show ?thesis
    by (simp add: emit_line_event_def run_simps)
qed

section \<open>Counts\<close>

lemma payload_delta:
  assumes "build_payload rp d before after = Inr p"
  obtains bq aq bd ad n where "qty_of before ''counted_qty'' = Inr bq" "qty_of after ''counted_qty'' = Inr aq"
    "qty_of before ''damaged_qty'' = Inr bd" "qty_of after ''damaged_qty'' = Inr ad"
    "delta_of p = [(''counted_qty'', VFloat (if after \<noteq> None then aq - bq else - bq)),
       (''damaged_qty'', VFloat (if after \<noteq> None then ad - bd else - bd)), (''serial_count'', VInt n)]"
  using assms by (auto simp: build_payload_def Let_def run_iff delta_of_def dget_def dict_or_empty_def)

lemma payload_parts:
  assumes "build_payload rp d before after = Inr p"
    and "active = (if or_empty after \<noteq> [] then or_empty after else if or_empty before \<noteq> [] then or_empty before else d)"
  shows "dget p ''after'' = opt_dict after" "dget p ''before'' = opt_dict before" "dget p ''count_line'' = VDict active"
    "dget p ''item_id'' = any_of active [''item_id'', ''item_code'']" "dget p ''session_id'' = dget active ''session_id''"
  using assms by (auto simp: build_payload_def Let_def run_iff dget_def)

lemma payload_dict:
  "as_dict (py_or (py_or (opt_dict (as_dict (opt_dict a))) (VDict c)) (opt_dict (as_dict (opt_dict b)))) =
     (if or_empty a \<noteq> [] then a else if c \<noteq> [] then Some c else b)"
  by (cases a; cases b) (auto simp: opt_dict_def py_or_def or_empty_def)

lemma as_float_qty: "qty_of (Some d) k = Inr q \<Longrightarrow> as_float (dget d k) = q"
  by (cases "dget d k") (auto simp: qty_of_def or_empty_def py_or_def as_float_def split: if_splits sum.splits)

lemma as_float_VFloat [simp]: "as_float (VFloat q) = q"
  by (simp add: as_float_def)

lemma built_deltas:
  assumes "build_payload rp d before after = Inr p" "\<not> is_scan event"
  shows "\<exists>x bq aq. event_deltas rp event p line = Inr x \<and> qty_of before ''counted_qty'' = Inr bq \<and>
    qty_of after ''counted_qty'' = Inr aq \<and> counted_delta x = (if after \<noteq> None then aq - bq else - bq)"
proof -
  obtain bq aq bd ad n where q: "qty_of before ''counted_qty'' = Inr bq" "qty_of after ''counted_qty'' = Inr aq"
    and delta: "delta_of p = [(''counted_qty'', VFloat (if after \<noteq> None then aq - bq else - bq)),
       (''damaged_qty'', VFloat (if after \<noteq> None then ad - bd else - bd)), (''serial_count'', VInt n)]"
    by (rule payload_delta [OF assms(1)])
  have "to_int (py_or (VInt n) (VInt 0)) = Inr n" by (simp add: py_or_def)
  with assms(2) q show ?thesis by (simp add: event_deltas_def Let_def delta dget_def)
qed

lemma scan_deltas:
  assumes "build_payload rp d None (Some d) = Inr p"
  shows "\<exists>x q. event_deltas rp event p d = Inr x \<and> qty_of (Some d) ''counted_qty'' = Inr q \<and> counted_delta x = q"
proof -
  obtain bq aq bd ad n where q: "qty_of None ''counted_qty'' = Inr bq" "qty_of (Some d) ''counted_qty'' = Inr aq"
    and delta: "delta_of p = [(''counted_qty'', VFloat (if Some d \<noteq> None then aq - bq else - bq)),
       (''damaged_qty'', VFloat (if Some d \<noteq> None then ad - bd else - bd)), (''serial_count'', VInt n)]"
    by (rule payload_delta [OF assms])
  have bq: "bq = 0" using q(1) by (simp add: qty_of_def or_empty_def dget_def py_or_def)
  have "to_int (py_or (VInt n) (VInt 0)) = Inr n" by (simp add: py_or_def)
  with q(2) as_float_qty [OF q(2)] bq show ?thesis by (simp add: event_deltas_def Let_def delta dget_def)
qed

lemma inventory_event:
  assumes "dget e ''event_type'' = VStr s" "s \<in> set INVENTORY_EVENTS"
  shows "event_name rp e \<in> set INVENTORY_EVENTS"
proof -
  have "list_all (\<lambda>s. s \<noteq> [] \<and> upper (strip s) = s) INVENTORY_EVENTS" by code_simp
  with assms show ?thesis by (auto simp: list_all_iff event_name_def text_of_def py_or_def)
qed

lemma built_applied:
  assumes store: "document_store (estore E)" and p: "build_payload (erepr E) d before after = Inr (payload_of e)"
    and name: "dget e ''event_type'' = VStr s" "s \<in> set INVENTORY_EVENTS" "s \<noteq> ''SCAN_ADDED''"
    and target: "event_target (erepr E) (payload_of e) = Some (line, sid, item_id, item_code)"
    and run: "apply_event E in_tx now e db = (Inr True, db')"
  shows "\<exists>b a. qty_of before ''counted_qty'' = Inr b \<and> qty_of after ''counted_qty'' = Inr a \<and>
    snapshot_qty E ''counted_qty'' sid item_code db' =
      snapshot_qty E ''counted_qty'' sid item_code db + (if after \<noteq> None then a - b else - b)"
proof -
  have ep: "event_projections E" using store by (simp add: event_projections_def)
  have "\<not> is_scan e" using name by (simp add: is_scan_def)
  from built_deltas [OF p this, of line] obtain x b a where
    x: "event_deltas (erepr E) e (payload_of e) line = Inr x" "qty_of before ''counted_qty'' = Inr b"
      "qty_of after ''counted_qty'' = Inr a" "counted_delta x = (if after \<noteq> None then a - b else - b)" by blast
  show ?thesis
    by (rule event_projections.apply_event_snapshot [OF ep run inventory_event [OF name(1,2)] target]) (use x in auto)
qed

text \<open>An update that changes the counted quantity and the verified flag emits two inventory events
  with the same payload, and the snapshot of the item counts the change twice.\<close>

theorem update_counted_twice:
  assumes "document_store (estore E)" "build_payload (erepr E) after (Some before) (Some after) = Inr payload"
    and "payload_of e1 = payload" "dget e1 ''event_type'' = VStr ''QUANTITY_ADJUSTED''"
    and "payload_of e2 = payload" "dget e2 ''event_type'' = VStr ''COUNT_VERIFIED''"
    and "event_target (erepr E) payload = Some (line, sid, item_id, item_code)"
    and "apply_event E t1 n1 e1 db = (Inr True, db1)" "apply_event E t2 n2 e2 db1 = (Inr True, db2)"
  shows "\<exists>b a. qty_of (Some before) ''counted_qty'' = Inr b \<and> qty_of (Some after) ''counted_qty'' = Inr a \<and>
    snapshot_qty E ''counted_qty'' sid item_code db2 = snapshot_qty E ''counted_qty'' sid item_code db + 2 * (a - b)"
  using built_applied [OF assms(1) _ assms(4) _ _ _ assms(8)] built_applied [OF assms(1) _ assms(6) _ _ _ assms(9)]
    assms(2,3,5,7)
  by (force simp: INVENTORY_EVENTS_def)

text \<open>Counting a line and removing it again leaves the counted quantity of the item in the snapshot
  where it was.\<close>

theorem scan_then_remove:
  assumes "document_store (estore E)"
    and "build_payload (erepr E) d None (Some d) = Inr (payload_of e1)" "dget e1 ''event_type'' = VStr ''SCAN_ADDED''"
    and "build_payload (erepr E) d (Some d) None = Inr (payload_of e2)" "dget e2 ''event_type'' = VStr ''COUNT_LINE_REMOVED''"
    and "event_target (erepr E) (payload_of e1) = Some (line, sid, item_id, item_code)"
    and "apply_event E t1 n1 e1 db = (Inr True, db1)" "apply_event E t2 n2 e2 db1 = (Inr True, db2)"
  shows "snapshot_qty E ''counted_qty'' sid item_code db2 = snapshot_qty E ''counted_qty'' sid item_code db"
proof -
  have ep: "event_projections E" using assms(1) by (simp add: event_projections_def)
  have line1: "event_line (payload_of e1) = (if d = [] then None else Some d)"
    by (simp add: event_line_def payload_parts(1-3) [OF assms(2) refl] payload_dict or_empty_def)
  with assms(6) have d: "d \<noteq> []" by (auto simp: event_target_def)
  then have "event_line (payload_of e2) = Some d"
    by (simp add: event_line_def payload_parts(1-3) [OF assms(4) refl] opt_dict_def py_or_def or_empty_def)
  moreover have "dget (payload_of e1) k = dget (payload_of e2) k" if "k \<in> {''item_id'', ''session_id''}" for k
    using that payload_parts(4,5) [OF assms(2) refl] payload_parts(4,5) [OF assms(4) refl]
    by (auto simp: or_empty_def split: if_splits)
  ultimately have lines: "event_target (erepr E) (payload_of e2) = event_target (erepr E) (payload_of e1)"
    using line1 d by (simp add: event_target_def)
  with assms(6) have target: "line = d" "event_target (erepr E) (payload_of e2) = Some (d, sid, item_id, item_code)"
    using line1 d by (auto simp: event_target_def Let_def split: option.splits)
  from scan_deltas [OF assms(2), of e1] obtain x q where x: "event_deltas (erepr E) e1 (payload_of e1) d = Inr x"
    "qty_of (Some d) ''counted_qty'' = Inr q" "counted_delta x = q" by blast
  have scan: "''SCAN_ADDED'' \<in> set INVENTORY_EVENTS" "''COUNT_LINE_REMOVED'' \<in> set INVENTORY_EVENTS"
    by (simp_all add: INVENTORY_EVENTS_def)
  have "snapshot_qty E ''counted_qty'' sid item_code db1 = snapshot_qty E ''counted_qty'' sid item_code db + q"
    by (rule event_projections.apply_event_snapshot [OF ep assms(7) inventory_event [OF assms(3) scan(1)] assms(6)])
       (use x target in auto)
  with built_applied [OF assms(1,4,5) scan(2) _ target(2) assms(8)] x(2) show ?thesis by auto
qed

section \<open>The shape of the log\<close>

definition nonblank :: "val \<Rightarrow> bool" where
  "nonblank v = (case v of VStr s \<Rightarrow> s \<noteq> [] | _ \<Rightarrow> False)"

definition event_typed :: "doc \<Rightarrow> bool" where
  "event_typed e =
     (list_all (\<lambda>k. case dget e k of VStr _ \<Rightarrow> True | _ \<Rightarrow> False) [''_id'', ''aggregate_id'', ''event_type''] \<and>
      list_all (\<lambda>k. case dget e k of VDict _ \<Rightarrow> True | _ \<Rightarrow> False) [''payload'', ''metadata''] \<and>
      (case dget e ''timestamp'' of VDate _ z \<Rightarrow> z = None | _ \<Rightarrow> False) \<and> nonblank (dget e ''idempotency_key''))"

definition log_typed :: "doc list \<Rightarrow> bool" where
  "log_typed es = (list_all event_typed es \<and> distinct (map (\<lambda>e. dget e ''idempotency_key'') es))"

lemma nstr_nonblank: "nstr rp v = Some k \<Longrightarrow> k \<noteq> []"
  by (auto simp: nstr_def Let_def split: if_splits)

lemma normalized_key:
  "\<exists>k. nstr rp (dget (normalize_event_metadata rp token metadata agg typ payload) ''idempotency_key'') = Some k"
  using joined_key [of rp "typ" agg]
  by (auto simp: normalize_event_metadata_def Let_def event_idempotency_key_def put_or_pop_get doc_simps
      simp del: join.simps split: option.splits)

lemma event_doc_typed:
  assumes "k \<noteq> []"
  shows "event_typed (event_doc now uid agg typ payload meta
     [(''idempotency_key'', Some k), (''request_idempotency_key'', r), (''scan_fingerprint'', f)])"
  using assms unfolding event_typed_def event_doc_keys nonblank_def
  by (simp add: event_doc_def dget_def)

lemma no_event_hit:
  assumes "event_hit k f es = None"
  shows "VStr k \<notin> (\<lambda>e. dget e ''idempotency_key'') ` set es"
proof
  assume "VStr k \<in> (\<lambda>e. dget e ''idempotency_key'') ` set es"
  then obtain e where "e \<in> set es" "match_filter (by_event_key k) e" using match_by_event_key by fastforce
  then have "List.find (match_filter (by_event_key k)) es \<noteq> None" by (auto simp: find_None_iff)
  with assms show False by (auto simp: event_hit_def split: option.splits)
qed

lemma log_typed_appended:
  assumes "log_typed es" "event_hit k f es = None" "event_typed e" "dget e ''idempotency_key'' = VStr k"
  shows "log_typed (es @ [e])"
  using assms(1,3,4) no_event_hit [OF assms(2)] by (simp add: log_typed_def)

lemma keeps_log_append:
  assumes store: "document_store (event_store W)"
  shows "keeps (\<lambda>db. log_typed (event_log W db)) (append_event W in_tx now uid token agg typ payload metadata ap enf)"
proof -
  let ?meta = "normalize_event_metadata (event_repr W) token metadata agg typ payload"
  define f where "f = nstr (event_repr W) (dget ?meta ''scan_fingerprint'')"
  obtain k where k: "nstr (event_repr W) (dget ?meta ''idempotency_key'') = Some k" using normalized_key by blast
  define e where "e = event_doc now uid agg typ payload ?meta [(''idempotency_key'', Some k),
    (''request_idempotency_key'', nstr (event_repr W) (dget ?meta ''request_idempotency_key'')), (''scan_fingerprint'', f)]"
  have typed: "event_typed e" "dget e ''idempotency_key'' = VStr k" "\<And>x. dset_default ''_id'' x e = e"
    unfolding e_def using event_doc_typed [OF nstr_nonblank [OF k]] event_doc_keys
    by (simp_all add: dset_default_def)
  have step: "log_typed (event_log W (snd (append_event W in_tx now uid token agg typ payload metadata ap enf db)))"
    if ok: "log_typed (event_log W db)" for db
  proof -
    obtain b where b: "enforce_flag W enf db = (Inr b, db)" using enforce_run [OF store] by blast
    have run: "append_event W in_tx now uid token agg typ payload metadata ap enf db =
      (case event_hit k f (event_log W db) of
         Some e \<Rightarrow> returnM e
       | None \<Rightarrow> bindM (insert_one (event_store W) ''event_log'' e) (\<lambda>_.
           bindM (project_appended W in_tx now ap b e) (\<lambda>_. returnM e))) db"
      unfolding e_def append_event_def Let_def k f_def [symmetric]
      by (simp only: bindM_run_Inr [where m = "enforce_flag W enf", OF b]
        bindM_run_Inr [where m = "find_existing_event W _ _", OF find_existing_run [OF store]])
    show ?thesis
    proof (cases "event_hit k f (event_log W db)")
      case (Some old)
      with ok show ?thesis unfolding run by (simp add: run_simps)
    next
      case None
      obtain i t where i: "insert_one (event_store W) ''event_log'' e db = (Inr i, t)"
        using document_store.insert_one_run [OF store] by blast
      have "event_log W t = event_log W db @ [e]"
        using document_store.insert_one_docs [OF store i] typed(3) by (auto simp: event_log_def)
      with log_typed_appended [OF ok None typed(1,2)] have "log_typed (event_log W t)" by simp
      moreover have "''event_log'' \<notin> set (''event_applied'' # EVENT_PROJECTIONS)" by (simp add: EVENT_PROJECTIONS_def)
      from keeps_project_appended [OF store this, of log_typed]
      have "keeps (\<lambda>db. log_typed (event_log W db)) (bindM (project_appended W in_tx now ap b e) (\<lambda>_. returnM e))"
        unfolding event_log_def by (intro keeps_intros)
      ultimately show ?thesis
        unfolding run None option.case bindM_run_Inr [where m = "insert_one _ _ _", OF i]
        unfolding keeps_def by (metis prod.collapse)
    qed
  qed
  then show ?thesis by (force simp: keeps_def)
qed

lemma keeps_emit_line_event:
  assumes "document_store (event_store W)"
  shows "keeps (\<lambda>db. log_typed (event_log W db)) (emit_line_event W in_tx now uid token typ d ctx agg payload)"
  unfolding emit_line_event_def by (intro keeps_intros keeps_log_append [OF assms])

lemma keeps_emit_when: "keeps P m \<Longrightarrow> keeps P (emit_when b m es)"
  unfolding emit_when_def by (auto intro!: keeps_intros)

lemmas keeps_log = keeps_intros keeps_log_append keeps_emit_line_event keeps_emit_when

lemma keeps_emit_events:
  assumes "document_store (event_store W)"
  shows "keeps (\<lambda>db. log_typed (event_log W db)) (emit_insert_events W in_tx now uids token d ctx)"
    and "keeps (\<lambda>db. log_typed (event_log W db)) (emit_update_events W in_tx now uids token before after ctx)"
    and "keeps (\<lambda>db. log_typed (event_log W db)) (emit_removed_event W in_tx now uid token d ctx)"
  unfolding emit_insert_events_def emit_update_events_def emit_removed_event_def Let_def
  by (intro keeps_log assms)+

lemma keeps_mirror_updates:
  assumes "document_store (event_store W)"
  shows "keeps (\<lambda>db. log_typed (event_log W db)) (mirror_updates W in_tx now uid token ctx post n pre)"
  using assms
  by (induction W in_tx now uid token ctx post n pre rule: mirror_updates.induct)
     (auto simp: Let_def intro!: keeps_intros keeps_emit_events(2))

lemma keeps_mirror_removals:
  assumes "document_store (event_store W)"
  shows "keeps (\<lambda>db. log_typed (event_log W db)) (mirror_removals W in_tx now uid token ctx n pre)"
  using assms
  by (induction W in_tx now uid token ctx n pre rule: mirror_removals.induct)
     (auto intro!: keeps_intros keeps_emit_events(3))

text \<open>(C13) The event log is well typed and has no key twice: every event carries a textual identifier,
  aggregate and type, a payload and metadata that are dictionaries, a naive timestamp and a
  non-empty idempotency key, and mirroring a write of count lines keeps it so, whatever its
  outcome.\<close>

theorem mirror_keeps_log_typed:
  assumes "document_store (event_store W)" "log_typed (event_log W db)"
    and "mirror_count_line_write W in_tx now uid token payload ctx inserted pre post db = (r, db')"
  shows "log_typed (event_log W db')"
proof -
  have "keeps (\<lambda>db. log_typed (event_log W db)) (mirror_count_line_write W in_tx now uid token payload ctx inserted pre post)"
    unfolding mirror_count_line_write_def Let_def
    by (auto intro!: keeps_intros keeps_emit_events(1) keeps_mirror_updates keeps_mirror_removals assms(1) split: option.splits)
  with assms(2,3) show ?thesis by (auto simp: keeps_def)
qed

section \<open>Examples\<close>

definition demo_event_writer :: "memdb event_writer" where
  "demo_event_writer = \<lparr>events_of = demo_projections, getenv = (\<lambda>_. Some ''off''), scan_digest = (\<lambda>_. ''ab'')\<rparr>"

lemma demo_event_writer_store: "document_store (event_store demo_event_writer)"
  using demo_projections_store by (simp add: demo_event_writer_def)

definition demo_log_db :: memdb where
  "demo_log_db = \<lparr>colls = (\<lambda>c. if c = ''event_log'' then [[(''_id'', VStr ''e1''), (''scan_fingerprint'', VStr ''ab'')]] else []), next_id = 0\<rparr>"

theorem append_event_idempotent_witness:
  "\<exists>e db'. append_event demo_event_writer False 20 ''u1'' ''t1'' ''I1'' ''COUNT_VERIFIED'' [] [(''event_idempotency_key'', VStr ''k'')] True
       None demo_log_db = (Inr e, db') \<and>
     append_event demo_event_writer True 21 ''u2'' ''t2'' ''I2'' ''SCAN_ADDED'' [] [(''event_idempotency_key'', VStr ''k'')] False
       None db' = (Inr e, db')"
proof -
  let ?run = "append_event demo_event_writer False 20 ''u1'' ''t1'' ''I1'' ''COUNT_VERIFIED'' [] [(''event_idempotency_key'', VStr ''k'')] True
       None demo_log_db"
  have "case fst ?run of Inl _ \<Rightarrow> False | Inr _ \<Rightarrow> True" by code_simp
  then obtain e db' where run: "?run = (Inr e, db')" by (cases ?run) (auto split: sum.splits)
  have "nstr (event_repr demo_event_writer) (dget [(''event_idempotency_key'', VStr ''k'')] ''event_idempotency_key'') \<noteq> None" by code_simp
  from append_event_idempotent [OF demo_event_writer_store this run] run show ?thesis by blast
qed

theorem scan_absorbed_witness:
  "\<exists>old. emit_line_event demo_event_writer True 20 ''u1'' ''t1'' ''SCAN_ADDED''
     (dput ''id'' (VStr ''L2'') (dput ''rack_no'' (VStr ''R2'') (dput ''counted_at'' (naive 9) demo_counted))) [] ''I1'' [] demo_log_db =
     (Inr old, demo_log_db)"
proof -
  have f: "compute_scan_fingerprint demo_event_writer demo_counted [] = Inr ''ab''" "nstr (event_repr demo_event_writer) (VStr ''ab'') = Some ''ab''"
    by code_simp+
  have e: "[(''_id'', VStr ''e1''), (''scan_fingerprint'', VStr ''ab'')] \<in> set (event_log demo_event_writer demo_log_db)"
    by (simp add: event_log_def demo_event_writer_def mem_events_def demo_log_db_def)
  have "dget [(''_id'', VStr ''e1''), (''scan_fingerprint'', VStr ''ab'')] ''scan_fingerprint'' = VStr ''ab''" by code_simp
  from scan_absorbed [OF demo_event_writer_store f e this] show ?thesis .
qed

definition demo_line_of :: "int \<Rightarrow> doc" where
  "demo_line_of q = [(''session_id'', VStr ''S1''), (''item_code'', VStr ''I1''), (''counted_qty'', VInt q)]"

definition demo_built :: "string \<Rightarrow> string \<Rightarrow> doc option \<Rightarrow> doc option \<Rightarrow> doc" where
  "demo_built i name before after =
     [(''_id'', VStr i), (''event_type'', VStr name), (''timestamp'', naive 10),
      (''payload'', VDict (case build_payload (\<lambda>_. []) [] before after of Inl _ \<Rightarrow> [] | Inr p \<Rightarrow> p))]"

definition no_rows :: memdb where
  "no_rows = \<lparr>colls = (\<lambda>_. []), next_id = 0\<rparr>"

lemma applied_twice:
  assumes "case fst (m1 db) of Inl _ \<Rightarrow> False | Inr b \<Rightarrow> b" "case fst (m2 (snd (m1 db))) of Inl _ \<Rightarrow> False | Inr b \<Rightarrow> b"
  obtains db1 db2 where "m1 db = (Inr True, db1)" "m2 db1 = (Inr True, db2)"
  using assms by (cases "m1 db"; cases "m2 (snd (m1 db))") (auto split: sum.splits)

theorem scan_then_remove_witness:
  "\<exists>db1 db2. apply_event demo_projections True 20 (demo_built ''a'' ''SCAN_ADDED'' None (Some (demo_line_of 5))) no_rows = (Inr True, db1) \<and>
     apply_event demo_projections True 21 (demo_built ''b'' ''COUNT_LINE_REMOVED'' (Some (demo_line_of 5)) None) db1 = (Inr True, db2) \<and>
     snapshot_qty demo_projections ''counted_qty'' ''S1'' ''I1'' db2 = snapshot_qty demo_projections ''counted_qty'' ''S1'' ''I1'' no_rows"
proof -
  let ?e1 = "demo_built ''a'' ''SCAN_ADDED'' None (Some (demo_line_of 5))"
  let ?e2 = "demo_built ''b'' ''COUNT_LINE_REMOVED'' (Some (demo_line_of 5)) None"
  have ran: "case fst (apply_event demo_projections True 20 ?e1 no_rows) of Inl _ \<Rightarrow> False | Inr b \<Rightarrow> b"
    "case fst (apply_event demo_projections True 21 ?e2 (snd (apply_event demo_projections True 20 ?e1 no_rows))) of Inl _ \<Rightarrow> False | Inr b \<Rightarrow> b"
    by code_simp+
  obtain db1 db2 where run: "apply_event demo_projections True 20 ?e1 no_rows = (Inr True, db1)"
    "apply_event demo_projections True 21 ?e2 db1 = (Inr True, db2)"
    by (rule applied_twice [where ?m1.0 = "apply_event demo_projections True 20 ?e1" and
          ?m2.0 = "apply_event demo_projections True 21 ?e2" and db = no_rows, OF ran])
  have h: "build_payload (erepr demo_projections) (demo_line_of 5) None (Some (demo_line_of 5)) = Inr (payload_of ?e1)"
    "dget ?e1 ''event_type'' = VStr ''SCAN_ADDED''"
    "build_payload (erepr demo_projections) (demo_line_of 5) (Some (demo_line_of 5)) None = Inr (payload_of ?e2)"
    "dget ?e2 ''event_type'' = VStr ''COUNT_LINE_REMOVED''"
    "event_target (erepr demo_projections) (payload_of ?e1) = Some (demo_line_of 5, ''S1'', ''I1'', ''I1'')"
    by code_simp+
  from scan_then_remove [OF demo_projections_store h run] run show ?thesis by blast
qed

theorem update_counted_twice_witness:
  "\<exists>db1 db2. apply_event demo_projections True 20 (demo_built ''a'' ''QUANTITY_ADJUSTED'' (Some (demo_line_of 5)) (Some (demo_line_of 7)))
       no_rows = (Inr True, db1) \<and>
     apply_event demo_projections True 21 (demo_built ''b'' ''COUNT_VERIFIED'' (Some (demo_line_of 5)) (Some (demo_line_of 7))) db1 = (Inr True, db2) \<and>
     snapshot_qty demo_projections ''counted_qty'' ''S1'' ''I1'' db2 = snapshot_qty demo_projections ''counted_qty'' ''S1'' ''I1'' no_rows + 4"
proof -
  let ?e1 = "demo_built ''a'' ''QUANTITY_ADJUSTED'' (Some (demo_line_of 5)) (Some (demo_line_of 7))"
  let ?e2 = "demo_built ''b'' ''COUNT_VERIFIED'' (Some (demo_line_of 5)) (Some (demo_line_of 7))"
  have ran: "case fst (apply_event demo_projections True 20 ?e1 no_rows) of Inl _ \<Rightarrow> False | Inr b \<Rightarrow> b"
    "case fst (apply_event demo_projections True 21 ?e2 (snd (apply_event demo_projections True 20 ?e1 no_rows))) of Inl _ \<Rightarrow> False | Inr b \<Rightarrow> b"
    by code_simp+
  obtain db1 db2 where run: "apply_event demo_projections True 20 ?e1 no_rows = (Inr True, db1)"
    "apply_event demo_projections True 21 ?e2 db1 = (Inr True, db2)"
    by (rule applied_twice [where ?m1.0 = "apply_event demo_projections True 20 ?e1" and
          ?m2.0 = "apply_event demo_projections True 21 ?e2" and db = no_rows, OF ran])
  have h: "build_payload (erepr demo_projections) (demo_line_of 7) (Some (demo_line_of 5)) (Some (demo_line_of 7)) = Inr (payload_of ?e1)"
    "dget ?e1 ''event_type'' = VStr ''QUANTITY_ADJUSTED''" "payload_of ?e2 = payload_of ?e1" "dget ?e2 ''event_type'' = VStr ''COUNT_VERIFIED''"
    "event_target (erepr demo_projections) (payload_of ?e1) = Some (demo_line_of 7, ''S1'', ''I1'', ''I1'')"
    by code_simp+
  have q: "qty_of (Some (demo_line_of 5)) ''counted_qty'' = Inr 5" "qty_of (Some (demo_line_of 7)) ''counted_qty'' = Inr 7" by code_simp+
  from update_counted_twice [OF demo_projections_store h(1) refl h(2-5) run] run show ?thesis unfolding q by auto
qed

theorem mirror_keeps_log_typed_witness:
  "\<exists>r db'. mirror_count_line_write demo_event_writer True 20 (\<lambda>_ _. ''u1'') ''t1''
       [(''operation'', VStr ''delete_one'')] [] VNone [demo_line_of 5] [] no_rows = (r, db') \<and>
     log_typed (event_log demo_event_writer db') \<and> event_log demo_event_writer db' \<noteq> []"
proof -
  let ?run = "mirror_count_line_write demo_event_writer True 20 (\<lambda>_ _. ''u1'') ''t1''
       [(''operation'', VStr ''delete_one'')] [] VNone [demo_line_of 5] [] no_rows"
  obtain r db' where run: "?run = (r, db')" by (cases ?run)
  have "log_typed (event_log demo_event_writer no_rows)"
    by (simp add: log_typed_def event_log_def demo_event_writer_def mem_events_def no_rows_def)
  from mirror_keeps_log_typed [OF demo_event_writer_store this run]
  have "log_typed (event_log demo_event_writer db')" .
  moreover have "event_log demo_event_writer (snd ?run) \<noteq> []" by code_simp
  with run have "event_log demo_event_writer db' \<noteq> []" by simp
  ultimately show ?thesis using run by blast
qed

end
