(* ===== verification/UnknownItems.thy ===== *)
theory UnknownItems
  imports CountLineProperties
begin

text \<open>
  The unknown-item service (\<open>services/unknown_item_service.py\<close>): reports of items nobody could
  identify, their escalation and dismissal, and their mapping to a known item, which writes a
  count line through the count line writer inside the same unit of work.

  The service builds its collaborators on its own database, so the model takes the count line
  service \<open>W\<close> for all of them: its store, its lifecycle service and its \<open>str()\<close>. Every method runs in
  a unit of work; inside it the database session is given exactly when the client supports
  transactions. \<open>uid\<close> is the identifier drawn.
\<close>

section \<open>Filters and texts\<close>

definition stripped :: "repr \<Rightarrow> val \<Rightarrow> string" where
  "stripped rp v = strip (py_str rp (py_or v (VStr [])))"

definition resolve_filter :: "'db line_service \<Rightarrow> string \<Rightarrow> query" where
  "resolve_filter W item_id =
     (if oid_valid (wstore W) item_id
      then [(''$or'', CClauses [[(''id'', CEq (VStr item_id))], [(''_id'', CEq (VOid item_id))]])]
      else [(''id'', CEq (VStr item_id))])"

text \<open>\<open>{**p, **q}\<close>: a key of \<open>q\<close> replaces the one of \<open>p\<close>.\<close>

definition merge_filters :: "query \<Rightarrow> query \<Rightarrow> query" where
  "merge_filters p q = fold (\<lambda>(k, c). AList.update k c) q p"

definition versioned_filter :: "'db line_service \<Rightarrow> string \<Rightarrow> int \<Rightarrow> query" where
  "versioned_filter W item_id expected =
     merge_filters (resolve_filter W item_id) (build_version_filter expected)"

definition find_unknown :: "'db line_service \<Rightarrow> string \<Rightarrow> ('db, doc) comp" where
  "find_unknown W item_id =
     bindM (find_one (wstore W) ''unknown_items'' (resolve_filter W item_id)) (\<lambda>found.
       case found of
         None \<Rightarrow> raiseM (HTTPException 404 ''Unknown item report not found'')
       | Some d \<Rightarrow> if d = [] then raiseM (HTTPException 404 ''Unknown item report not found'') else returnM d)"

text \<open>The guarded optimistic update all operations share.\<close>

definition update_unknown :: "'db line_service \<Rightarrow> string \<Rightarrow> int \<Rightarrow> doc \<Rightarrow> ('db, unit) comp" where
  "update_unknown W item_id expected fs =
     bindM (authorized ''UnknownItemService'' ''unknown_items'' ''update_one''
       (update_one (wstore W) ''unknown_items'' (versioned_filter W item_id expected)
         (occ_update fs))) (\<lambda>(_, modified).
     raise_if (modified = 0) (HTTPException 409 ''Unknown item concurrent update conflict''))"

definition log_unknown ::
  "'db line_service \<Rightarrow> int \<Rightarrow> string \<Rightarrow> string \<Rightarrow> val \<Rightarrow> val \<Rightarrow> val \<Rightarrow> string \<Rightarrow> string \<Rightarrow> ('db, unit) comp" where
  "log_unknown W now operation session_id item_id location_id version actor unknown_id =
     bindM (liftM (to_int version)) (\<lambda>v.
     log_write_event (wstore W) (wrepr W) now ''UNKNOWN_ITEM_WRITE'' operation session_id item_id location_id
       (VInt v) VNone VNone (VStr actor) [(''unknown_item_id'', VStr unknown_id)])"

text \<open>\<open>async with MongoUnitOfWork(...)\<close>: the body is told whether there is a session.\<close>

definition with_session :: "'db line_service \<Rightarrow> (bool \<Rightarrow> ('db, 'a \<times> bool) comp) \<Rightarrow> ('db, 'a) comp" where
  "with_session W body = (\<lambda>db.
     unit_of_work (wstore W) (body (client_supports_transactions (hello (wstore W) db))) db)"

section \<open>Reports\<close>

definition place_of :: "repr \<Rightarrow> doc \<Rightarrow> string \<times> string \<times> string" where
  "place_of rp d =
     (stripped rp (dget d ''location_id''),
      stripped rp (py_or (dget d ''floor_id'') (dget d ''floor_no'')),
      stripped rp (py_or (dget d ''rack_id'') (dget d ''rack_no'')))"

definition place_missing :: "string \<times> string \<times> string \<Rightarrow> bool" where
  "place_missing = (\<lambda>(location_id, floor_id, rack_id). location_id = [] \<or> floor_id = [] \<or> rack_id = [])"

definition report_doc ::
  "repr \<Rightarrow> int \<Rightarrow> string \<Rightarrow> string \<Rightarrow> string \<times> string \<times> string \<Rightarrow> string \<Rightarrow> doc \<Rightarrow> doc" where
  "report_doc rp now uid session_id = (\<lambda>(location_id, floor_id, rack_id) actor body.
     let d0 = dmerge body
           [(''id'', VStr (if truthy (dget body ''id'') then py_str rp (dget body ''id'') else uid)),
            (''session_id'', VStr session_id), (''location_id'', VStr location_id),
            (''floor_id'', VStr floor_id), (''rack_id'', VStr rack_id)];
         d1 = dset_default ''floor_no'' (VStr floor_id) d0;
         d2 = dset_default ''rack_no'' (VStr rack_id) d1;
         d3 = dset_default ''counted_qty'' (VFloat 1) d2;
         d4 = dset_default ''status'' (VStr ''OPEN'') d3;
         d5 = dset_default ''version'' (VInt 1) d4
     in dmerge d5 [(''reported_by'', VStr actor), (''reported_at'', naive now), (''updated_at'', naive now)])"

definition store_report :: "'db line_service \<Rightarrow> int \<Rightarrow> string \<Rightarrow> string \<Rightarrow> doc \<Rightarrow> ('db, doc) comp" where
  "store_report W now session_id actor d =
     bindM (ensure_session_active (wlife W) session_id) (\<lambda>_.
     bindM (authorized ''UnknownItemService'' ''unknown_items'' ''insert_one''
       (insert_one (wstore W) ''unknown_items'' d)) (\<lambda>_.
     bindM (log_unknown W now ''REGISTER'' session_id (py_or (dget d ''barcode'') (dget d ''id''))
       (dget d ''location_id'') (py_or (dget d ''version'') (VInt 1)) actor (py_str (wrepr W) (dget d ''id''))) (\<lambda>_.
     returnM d)))"

definition register_unknown_item :: "'db line_service \<Rightarrow> int \<Rightarrow> string \<Rightarrow> doc \<Rightarrow> string \<Rightarrow> ('db, doc) comp" where
  "register_unknown_item W now uid body actor =
     (let session_id = stripped (wrepr W) (dget body ''session_id''); place = place_of (wrepr W) body in
      bindM (raise_if (session_id = []) (HTTPException 400 ''session_id is required'')) (\<lambda>_.
      bindM (raise_if (place_missing place)
        (HTTPException 400 ''CRITICAL: location_id, floor_id, rack_id are required'')) (\<lambda>_.
      with_session W (\<lambda>_. committed
        (store_report W now session_id actor (report_doc (wrepr W) now uid session_id place actor body))))))"

text \<open>The refreshed document after an update, \<open>(refreshed or {})\<close> and \<open>refreshed or existing\<close>.\<close>

definition refreshed_unknown :: "'db line_service \<Rightarrow> string \<Rightarrow> ('db, doc) comp" where
  "refreshed_unknown W item_id =
     bindM (find_one (wstore W) ''unknown_items'' (resolve_filter W item_id)) (\<lambda>found.
       returnM (case found of None \<Rightarrow> [] | Some d \<Rightarrow> d))"

definition shown_id :: "repr \<Rightarrow> string \<Rightarrow> doc \<Rightarrow> string" where
  "shown_id rp item_id d = (if truthy (dget d ''id'') then py_str rp (dget d ''id'') else item_id)"

definition log_refreshed ::
  "'db line_service \<Rightarrow> int \<Rightarrow> string \<Rightarrow> string \<Rightarrow> string \<Rightarrow> string \<Rightarrow> val \<Rightarrow> doc \<Rightarrow> doc \<Rightarrow> ('db, doc) comp" where
  "log_refreshed W now operation session_id item_id actor location_id existing refreshed =
     bindM (log_unknown W now operation session_id (py_or (dget refreshed ''barcode'') (VStr item_id))
       location_id (py_or (dget refreshed ''version'') (VInt 1)) actor (shown_id (wrepr W) item_id refreshed)) (\<lambda>_.
     returnM (if refreshed = [] then existing else refreshed))"

definition attach_fields :: "int \<Rightarrow> string \<Rightarrow> string \<Rightarrow> string \<Rightarrow> string \<Rightarrow> string \<Rightarrow> doc" where
  "attach_fields now session_id location_id floor_id rack_id actor =
     [(''session_id'', VStr session_id), (''location_id'', VStr location_id), (''floor_id'', VStr floor_id),
      (''rack_id'', VStr rack_id), (''floor_no'', VStr floor_id), (''rack_no'', VStr rack_id),
      (''updated_at'', naive now), (''updated_by'', VStr actor)]"

definition attach_to_session ::
  "'db line_service \<Rightarrow> int \<Rightarrow> string \<Rightarrow> string \<Rightarrow> string \<Rightarrow> string \<Rightarrow> string \<Rightarrow> string \<Rightarrow> ('db, doc) comp" where
  "attach_to_session W now item_id session_id location_id floor_id rack_id actor =
     with_session W (\<lambda>_. committed
       (bindM (ensure_session_active (wlife W) session_id) (\<lambda>_.
        bindM (find_unknown W item_id) (\<lambda>existing.
        bindM (update_unknown W item_id (coerce_version (dget existing ''version''))
          (attach_fields now session_id location_id floor_id rack_id actor)) (\<lambda>_.
        bindM (refreshed_unknown W item_id)
          (log_refreshed W now ''ATTACH_TO_SESSION'' session_id item_id actor (VStr location_id) existing))))))"

definition ensure_report_open :: "'db line_service \<Rightarrow> string \<Rightarrow> ('db, unit) comp" where
  "ensure_report_open W session_id =
     whenM (session_id \<noteq> []) (bindM (ensure_session_not_finalized (wlife W) session_id) (\<lambda>_. returnM ()))"

definition escalate_fields :: "int \<Rightarrow> string \<Rightarrow> val \<Rightarrow> doc" where
  "escalate_fields now actor reason =
     [(''status'', VStr ''ESCALATED''), (''escalated_at'', naive now), (''escalated_by'', VStr actor),
      (''escalation_reason'', reason), (''updated_at'', naive now), (''updated_by'', VStr actor)]"

definition log_escalated ::
  "'db line_service \<Rightarrow> int \<Rightarrow> string \<Rightarrow> string \<Rightarrow> string \<Rightarrow> doc \<Rightarrow> doc \<Rightarrow> ('db, doc) comp" where
  "log_escalated W now session_id item_id actor existing refreshed =
     log_refreshed W now ''ESCALATE'' session_id item_id actor (dget refreshed ''location_id'') existing refreshed"

definition escalate_for_review :: "'db line_service \<Rightarrow> int \<Rightarrow> string \<Rightarrow> string \<Rightarrow> val \<Rightarrow> ('db, doc) comp" where
  "escalate_for_review W now item_id actor reason =
     with_session W (\<lambda>_. committed
       (bindM (find_unknown W item_id) (\<lambda>existing.
        let session_id = stripped (wrepr W) (dget existing ''session_id'') in
        bindM (ensure_report_open W session_id) (\<lambda>_.
        bindM (update_unknown W item_id (coerce_version (dget existing ''version''))
          (escalate_fields now actor reason)) (\<lambda>_.
        bindM (refreshed_unknown W item_id) (log_escalated W now session_id item_id actor existing))))))"

text \<open>The dismissal leaves the block without a commit.\<close>

definition dismiss_fields :: "int \<Rightarrow> string \<Rightarrow> val \<Rightarrow> doc" where
  "dismiss_fields now actor reason =
     [(''status'', VStr ''DISMISSED''), (''dismissed_at'', naive now), (''dismissed_by'', VStr actor),
      (''updated_at'', naive now), (''updated_by'', VStr actor)] @
     (if truthy reason then [(''dismiss_reason'', reason)] else [])"

definition log_dismissed ::
  "'db line_service \<Rightarrow> int \<Rightarrow> string \<Rightarrow> string \<Rightarrow> string \<Rightarrow> int \<Rightarrow> doc \<Rightarrow> ('db, doc) comp" where
  "log_dismissed W now session_id item_id actor expected d =
     bindM (log_unknown W now ''DISMISS'' session_id
       (py_or (dget d ''barcode'') (VStr (shown_id (wrepr W) item_id d)))
       (text_or_none (py_str (wrepr W) (py_or (dget d ''location_id'') (VStr []))))
       (py_or (dget d ''version'') (VInt (expected + 1))) actor (shown_id (wrepr W) item_id d)) (\<lambda>_.
     returnM d)"

definition dismiss_unknown_item :: "'db line_service \<Rightarrow> int \<Rightarrow> string \<Rightarrow> string \<Rightarrow> val \<Rightarrow> ('db, doc) comp" where
  "dismiss_unknown_item W now item_id actor reason =
     with_session W (\<lambda>_.
       bindM (find_unknown W item_id) (\<lambda>existing.
       let session_id = stripped (wrepr W) (dget existing ''session_id'');
           expected = coerce_version (dget existing ''version'') in
       bindM (ensure_report_open W session_id) (\<lambda>_.
       bindM (update_unknown W item_id expected (dismiss_fields now actor reason)) (\<lambda>_.
       bindM (refreshed_unknown W item_id) (\<lambda>refreshed.
       bindM (log_dismissed W now session_id item_id actor expected
         (if refreshed = []
          then dput ''version'' (VInt (expected + 1)) (dmerge existing (dismiss_fields now actor reason))
          else refreshed)) (\<lambda>d.
       returnM (d, False)))))))"

section \<open>Mapping to a known item\<close>

definition mapped_line ::
  "repr \<Rightarrow> int \<Rightarrow> string \<Rightarrow> string \<Rightarrow> string \<Rightarrow> string \<Rightarrow> string \<times> string \<times> string \<Rightarrow> string \<Rightarrow> val \<Rightarrow> rat \<Rightarrow>
   doc \<Rightarrow> doc \<Rightarrow> doc" where
  "mapped_line rp now uid item_id session_id item_code = (\<lambda>(location_id, floor_id, rack_id) actor notes qty
       unknown target.
     [(''id'', VStr uid), (''session_id'', VStr session_id), (''location_id'', VStr location_id),
      (''floor_id'', VStr floor_id), (''rack_id'', VStr rack_id), (''floor_no'', VStr floor_id),
      (''rack_no'', VStr rack_id), (''item_code'', VStr item_code),
      (''barcode'', py_or (dget target ''barcode'') (dget unknown ''barcode'')),
      (''counted_qty'', VFloat qty), (''counted_by'', py_or (dget unknown ''reported_by'') (VStr actor)),
      (''counted_at'', py_or (dget unknown ''reported_at'') (naive now)), (''updated_at'', naive now),
      (''is_mapped_from_unknown'', VBool True), (''mapping_notes'', notes), (''mapped_by'', VStr actor),
      (''idempotency_key'', VStr (''unknown-map:'' @ item_id @ '':'' @ item_code)), (''version'', VInt 1),
      (''previous_version_id'', VNone), (''recount_of_id'', VNone)])"

definition insert_payload :: "doc \<Rightarrow> payload" where
  "insert_payload d = \<lparr>p_operation = VStr ''insert_one'', p_document = VDict d, p_filter = None, p_update = None,
     p_upsert = VNone, p_return = VNone\<rparr>"

definition resolved_fields :: "int \<Rightarrow> string \<Rightarrow> string \<Rightarrow> val \<Rightarrow> doc" where
  "resolved_fields now actor item_code notes =
     [(''status'', VStr ''RESOLVED''), (''resolved_at'', naive now), (''resolved_by'', VStr actor),
      (''resolution'', VStr ''MAPPED''), (''target_item_code'', VStr item_code), (''resolve_notes'', notes),
      (''updated_at'', naive now), (''updated_by'', VStr actor)]"

definition mapping_result :: "string \<Rightarrow> string \<Rightarrow> string \<Rightarrow> bool \<Rightarrow> doc" where
  "mapping_result item_id item_code uid manual =
     [(''unknown_item_id'', VStr item_id), (''target_item_code'', VStr item_code),
      (''count_line_id'', VStr uid), (''manual_sku_created'', VBool manual)]"

definition saved_or :: "doc \<Rightarrow> write_result \<Rightarrow> doc" where
  "saved_or d r = (case r of Saved e \<Rightarrow> e | _ \<Rightarrow> d)"

definition close_mapping ::
  "'db line_service \<Rightarrow> int \<Rightarrow> string \<Rightarrow> string \<Rightarrow> string \<Rightarrow> string \<Rightarrow> string \<Rightarrow> val \<Rightarrow> string \<Rightarrow> bool \<Rightarrow> doc \<Rightarrow>
   doc \<Rightarrow> ('db, doc) comp" where
  "close_mapping W now uid item_id session_id item_code actor notes location_id manual unknown line =
     bindM (update_unknown W item_id (coerce_version (dget unknown ''version''))
       (resolved_fields now actor item_code notes)) (\<lambda>_.
     bindM (log_write_event (wstore W) (wrepr W) now ''UNKNOWN_ITEM_WRITE'' ''RESOLVE_TO_KNOWN_ITEM'' session_id
       (text_or_none (py_str (wrepr W) (py_or (dget line ''item_code'') (VStr [])))) (VStr location_id) (VInt 1)
       (text_or_none (py_str (wrepr W) (py_or (dget line ''idempotency_key'') (VStr []))))
       (text_or_none (py_str (wrepr W) (py_or (dget line ''semantic_hash'') (VStr [])))) (VStr actor)
       (mapping_result item_id item_code uid manual)) (\<lambda>_.
     returnM (mapping_result item_id item_code uid manual)))"

definition map_unknown_to_known_item ::
  "'db line_service \<Rightarrow> int \<Rightarrow> string \<Rightarrow> doc \<Rightarrow> doc \<Rightarrow> string \<Rightarrow> val \<Rightarrow> bool \<Rightarrow> bool \<Rightarrow> ('db, doc) comp" where
  "map_unknown_to_known_item W now uid unknown target actor notes in_tx manual =
     (let rp = wrepr W;
          item_id = py_str rp (py_or (dget unknown ''id'') (py_or (dget unknown ''_id'') (VStr [])));
          item_code = stripped rp (dget target ''item_code'');
          session_id = stripped rp (dget unknown ''session_id'');
          place = place_of rp unknown in
      bindM (raise_if (item_code = []) (HTTPException 400 ''Target item_code is required'')) (\<lambda>_.
      bindM (ensure_session_active (wlife W) session_id) (\<lambda>session.
      bindM (raise_if (place_missing place)
        (HTTPException 400 ''CRITICAL: Unknown-item mapping requires location_id, floor_id, rack_id'')) (\<lambda>_.
      bindM (liftM (to_float (py_or (dget unknown ''counted_qty'') (VFloat 1)))) (\<lambda>qty.
      let line = mapped_line rp now uid item_id session_id item_code place actor notes qty unknown target in
      bindM (commit_write W now in_tx (insert_payload line)
        [(''session'', VDict session), (''session_id'', VStr session_id), (''username'', VStr actor)]) (\<lambda>r.
      close_mapping W now uid item_id session_id item_code actor notes (fst place) manual unknown
        (saved_or line r)))))))"

definition resolve_to_known_item ::
  "'db line_service \<Rightarrow> int \<Rightarrow> string \<Rightarrow> string \<Rightarrow> string \<Rightarrow> string \<Rightarrow> val \<Rightarrow> ('db, doc) comp" where
  "resolve_to_known_item W now uid item_id item_code actor notes =
     with_session W (\<lambda>in_tx. committed
       (bindM (find_unknown W item_id) (\<lambda>unknown.
        bindM (find_one (wstore W) ''erp_items'' [(''item_code'', CEq (VStr item_code))]) (\<lambda>found.
        bindM (raise_if (case found of None \<Rightarrow> True | Some t \<Rightarrow> t = [])
          (HTTPException 404 (''Target SKU '' @ item_code @ '' not found in ERP''))) (\<lambda>_.
        map_unknown_to_known_item W now uid unknown (case found of None \<Rightarrow> [] | Some t \<Rightarrow> t) actor notes in_tx
          False)))))"

definition manual_item :: "int \<Rightarrow> string \<Rightarrow> string \<Rightarrow> string \<Rightarrow> val \<Rightarrow> rat \<Rightarrow> string \<Rightarrow> string \<Rightarrow> doc \<Rightarrow> doc" where
  "manual_item now item_code item_name category subcategory mrp uom_code actor unknown =
     [(''item_code'', VStr item_code), (''item_name'', VStr item_name),
      (''barcode'', py_or (dget unknown ''barcode'') (VStr [])), (''category'', VStr category),
      (''subcategory'', subcategory), (''mrp'', VFloat mrp), (''uom_code'', VStr uom_code),
      (''stock_qty'', VFloat 0), (''created_at'', naive now), (''created_by'', VStr actor),
      (''is_manually_created'', VBool True)]"

definition create_manual_sku_and_resolve ::
  "'db line_service \<Rightarrow> int \<Rightarrow> string \<Rightarrow> string \<Rightarrow> string \<Rightarrow> string \<Rightarrow> string \<Rightarrow> val \<Rightarrow> rat \<Rightarrow> string \<Rightarrow> string \<Rightarrow> val \<Rightarrow>
   ('db, doc) comp" where
  "create_manual_sku_and_resolve W now uid item_id item_code item_name category subcategory mrp uom_code actor notes =
     with_session W (\<lambda>in_tx. committed
       (bindM (find_unknown W item_id) (\<lambda>unknown.
        bindM (find_one (wstore W) ''erp_items'' [(''item_code'', CEq (VStr item_code))]) (\<lambda>found.
        bindM (raise_if (case found of None \<Rightarrow> False | Some t \<Rightarrow> t \<noteq> [])
          (HTTPException 400 ''Item code already exists'')) (\<lambda>_.
        let new_item = manual_item now item_code item_name category subcategory mrp uom_code actor unknown in
        bindM (insert_one (wstore W) ''erp_items'' new_item) (\<lambda>i.
        map_unknown_to_known_item W now uid unknown (dput ''_id'' i new_item) actor notes in_tx True))))))"

section \<open>Mapping is always refused\<close>

lemma insert_payload_fields [simp]:
  "operation_of rp (insert_payload d) = ''insert_one''"
  "as_dict (p_document (insert_payload d)) = Some d"
proof -
  have "lower (strip ''insert_one'') = ''insert_one''" by code_simp
  then show "operation_of rp (insert_payload d) = ''insert_one''"
    by (simp add: operation_of_def insert_payload_def py_or_def)
qed (simp add: insert_payload_def)

lemma mapped_line_fields:
  "dhas (mapped_line rp now uid item_id sid code place actor notes qty unknown target) ''counted_qty''"
  "dget (mapped_line rp now uid item_id sid code place actor notes qty unknown target) ''remark'' = VNone"
  by (cases place; simp add: mapped_line_def dhas_def dget_def)+

context line_writer
begin

lemma remarkless_count_refused:
  assumes "dhas d ''counted_qty''" "\<not> truthy (dget d ''remark'')"
  shows "commit_write W now in_tx (insert_payload d) ctx db \<noteq> (Inr r, db')"
proof
  assume "commit_write W now in_tx (insert_payload d) ctx db = (Inr r, db')"
  then obtain has_session where run: "process_write_core W now has_session (insert_payload d) ctx db = (Inr r, db')"
    by (rule commit_success)
  have "\<exists>h gov item session d' u. evaluate_governance_for_document W now has_session (dput ''semantic_hash'' h d) ctx db =
       (Inr (gov, item, session, d'), u)"
  proof (rule insert_pipeline [OF run insert_payload_fields(1)], goal_cases)
    case (1 profile d0 h e d1)
    from 1(1) have d: "d0 = d" by simp
    from 1(8) [unfolded d, OF assms(1)] show ?case by (elim exE conjE) (intro exI)
  qed
  then obtain h gov item session d' u where
    "evaluate_governance_for_document W now has_session (dput ''semantic_hash'' h d) ctx db =
       (Inr (gov, item, session, d'), u)" by (elim exE)
  then have "truthy (dget (dput ''semantic_hash'' h d) ''remark'')" by (rule evaluate_success)
  with assms(2) show False by (simp add: doc_simps)
qed

lemma mapping_refused:
  "map_unknown_to_known_item W now uid unknown target actor notes in_tx manual db \<noteq> (Inr r, db')"
proof
  assume "map_unknown_to_known_item W now uid unknown target actor notes in_tx manual db = (Inr r, db')"
  then show False
    unfolding map_unknown_to_known_item_def Let_def
    using remarkless_count_refused [OF mapped_line_fields(1)] mapped_line_fields(2)
    by (auto simp: run_iff)
qed

lemma failing_block_unchanged:
  assumes "client_supports_transactions (hello (wstore W) db)"
    and "\<forall>x t. m True db \<noteq> (Inr x, t)"
  shows "\<exists>e. with_session W (\<lambda>tx. committed (m tx)) db = (Inl e, db)"
proof -
  obtain q t where "m True db = (q, t)" by (cases "m True db")
  with assms show ?thesis
    by (cases q) (auto simp: with_session_def unit_of_work_def committed_def run_simps Let_def)
qed

lemma resolutions_refused:
  assumes "client_supports_transactions (hello (wstore W) db)"
  shows "\<exists>e. resolve_to_known_item W now uid item_id item_code actor notes db = (Inl e, db)"
    "\<exists>e. create_manual_sku_and_resolve W now uid item_id item_code item_name category subcategory mrp uom actor
      notes db = (Inl e, db)"
  unfolding resolve_to_known_item_def create_manual_sku_and_resolve_def
  by (rule failing_block_unchanged [OF assms], simp add: run_iff mapping_refused Let_def)+

end

lemma mem_lines_hello [simp]:
  "client_supports_transactions (hello (wstore (mem_lines idgen oid clock f dg)) db)"
  by (simp add: mem_lines_def client_supports_transactions_def)

text \<open>No report of an unknown item can be mapped: the count line built for it carries no
  remark, which the governance of count lines demands. Both resolutions, to an item of the ERP
  and to one created by hand, raise for every report and leave the database as it was.\<close>

theorem unknown_items_never_mapped:
  "(\<exists>e. resolve_to_known_item (mem_lines idgen oid clock f dg) now uid item_id item_code actor notes db = (Inl e, db)) \<and>
   (\<exists>e. create_manual_sku_and_resolve (mem_lines idgen oid clock f dg) now uid item_id item_code item_name category
     subcategory mrp uom actor notes db = (Inl e, db))"
  by (intro conjI mem_lines.resolutions_refused) simp_all

text \<open>With transactions the dismissal of a report is never stored: the block is left without a
  commit, so the database stays as it was, also when the caller is told that the report is
  dismissed.\<close>

theorem dismissal_never_stored:
  assumes "client_supports_transactions (hello (wstore W) db)"
  shows "snd (dismiss_unknown_item W now item_id actor reason db) = db"
  unfolding dismiss_unknown_item_def with_session_def
  by (rule unit_of_work_uncommitted) (use assms in \<open>auto simp: run_iff Let_def\<close>)

definition demo_reports :: memdb where
  "demo_reports = demo_counting_db\<lparr>colls := (colls demo_counting_db)(''unknown_items'' :=
     [[(''id'', VStr ''u0''), (''session_id'', VStr ''s1''), (''status'', VStr ''OPEN''), (''version'', VInt 1)],
      [(''id'', VStr ''u1''), (''session_id'', VStr ''s1''), (''status'', VStr ''OPEN''), (''version'', VInt 2)]])\<rparr>"

theorem dismissal_never_stored_witness:
  "\<exists>d. dismiss_unknown_item demo_writer 5 ''u1'' ''ann'' VNone demo_reports = (Inr d, demo_reports) \<and>
     dget d ''status'' = VStr ''DISMISSED''"
proof -
  let ?run = "dismiss_unknown_item demo_writer 5 ''u1'' ''ann'' VNone demo_reports"
  have "case fst ?run of Inl _ \<Rightarrow> False | Inr d \<Rightarrow> dget d ''status'' = VStr ''DISMISSED''" by code_simp
  then obtain d where "fst ?run = Inr d" "dget d ''status'' = VStr ''DISMISSED''"
    by (auto split: sum.splits)
  moreover have "client_supports_transactions (hello (wstore demo_writer) demo_reports)"
    by (simp add: demo_writer_def)
  from dismissal_never_stored [OF this] have "snd ?run = demo_reports" .
  ultimately show ?thesis by (metis prod.collapse)
qed

section \<open>Effects of the other operations\<close>

lemma update_first_agree_hd:
  assumes "filter P xs = d # ds" "Q d" "\<And>x. Q x \<Longrightarrow> P x"
  shows "update_first Q f xs = update_first P f xs \<and> (\<exists>es. filter Q xs = d # es)"
  using assms(1)
proof (induction xs)
  case (Cons x xs)
  then show ?case using assms(2,3) by (cases "P x") auto
qed simp

context line_writer
begin

lemma session_open_run:
  assumes "ensure_session_not_finalized (wlife W) sid db = (Inr s, db')"
  shows "db' = db \<and> s \<in> set (docs (wstore W) ''sessions'' db) \<and> match_filter (session_lookup sid) s \<and>
    \<not> session_closed (lrepr (wlife W)) s"
  using assms
  by (auto simp: ensure_session_not_finalized_def ensure_session_exists_def get_session_def find_one_run
      life_store run_iff split: option.splits list.splits if_splits dest!: filter_hd_sat)

lemma session_active_run:
  assumes "ensure_session_active (wlife W) sid db = (Inr s, db')"
  shows "db' = db \<and> s \<in> set (docs (wstore W) ''sessions'' db) \<and> match_filter (session_lookup sid) s \<and>
    \<not> session_closed (lrepr (wlife W)) s \<and>
    normalize_session_status (lrepr (wlife W)) (dget s ''status'') = ''ACTIVE''"
  using assms by (auto simp: ensure_session_active_def Let_def run_iff dest!: session_open_run)

lemma log_unknown_frame:
  assumes "log_unknown W now operation sid item_id loc version actor unknown_id db = (r, db')" "k \<noteq> ''governance_events''"
  shows "docs (wstore W) k db' = docs (wstore W) k db"
proof (rule keeps_eqD [where f = "docs (wstore W) k" and
      m = "log_unknown W now operation sid item_id loc version actor unknown_id", OF _ assms(1)])
  show "keeps (\<lambda>s. P (docs (wstore W) k s)) (log_unknown W now operation sid item_id loc version actor unknown_id)" for P
    using assms(2) unfolding log_unknown_def by (intro keeps_intros keeps_log_write_event)
qed

text \<open>A registration: the session is active and exactly the report is added.\<close>

lemma register_effect:
  assumes "register_unknown_item W now uid body actor db = (Inr d, db')"
  shows "\<not> place_missing (place_of (wrepr W) body) \<and>
    (\<exists>s \<in> set (docs (wstore W) ''sessions'' db).
       match_filter (session_lookup (stripped (wrepr W) (dget body ''session_id''))) s \<and>
       \<not> session_closed (lrepr (wlife W)) s \<and>
       normalize_session_status (lrepr (wlife W)) (dget s ''status'') = ''ACTIVE'') \<and>
    d = report_doc (wrepr W) now uid (stripped (wrepr W) (dget body ''session_id'')) (place_of (wrepr W) body) actor body \<and>
    (\<exists>i. docs (wstore W) ''unknown_items'' db' = docs (wstore W) ''unknown_items'' db @ [dset_default ''_id'' i d]) \<and>
    (\<forall>k. k \<notin> {''unknown_items'', ''governance_events''} \<longrightarrow> docs (wstore W) k db' = docs (wstore W) k db)"
proof -
  let ?sid = "stripped (wrepr W) (dget body ''session_id'')" and ?place = "place_of (wrepr W) body"
  let ?d = "report_doc (wrepr W) now uid ?sid ?place actor body"
  from assms have guards: "?sid \<noteq> []" "\<not> place_missing ?place"
    and store: "store_report W now ?sid actor ?d db = (Inr d, db')"
    by (auto simp: register_unknown_item_def Let_def with_session_def unit_of_work_committed run_iff)
  from store obtain s u i v where act: "ensure_session_active (wlife W) ?sid db = (Inr s, u)"
    and ins: "insert_one (wstore W) ''unknown_items'' ?d u = (Inr i, v)"
    and log: "\<exists>w. log_unknown W now ''REGISTER'' ?sid (py_or (dget ?d ''barcode'') (dget ?d ''id''))
       (dget ?d ''location_id'') (py_or (dget ?d ''version'') (VInt 1)) actor (py_str (wrepr W) (dget ?d ''id'')) v =
       (Inr w, db')" and d: "d = ?d"
    by (auto simp: store_report_def run_iff)
  from session_active_run [OF act] have [simp]: "u = db" by simp
  from insert_one_docs [OF ins] obtain j where
    "docs (wstore W) ''unknown_items'' v = docs (wstore W) ''unknown_items'' db @ [dset_default ''_id'' j ?d]" by auto
  moreover from insert_one_frame [OF ins] have
    "k \<noteq> ''unknown_items'' \<Longrightarrow> docs (wstore W) k v = docs (wstore W) k db" for k by simp
  moreover from log log_unknown_frame have
    "k \<noteq> ''governance_events'' \<Longrightarrow> docs (wstore W) k db' = docs (wstore W) k v" for k by blast
  ultimately show ?thesis using guards session_active_run [OF act] d by auto
qed

lemma update_unknown_effect:
  assumes "update_unknown W item_id expected fs db = (Inr (), db')"
  obtains d ds d' where
    "filter (match_filter (versioned_filter W item_id expected)) (docs (wstore W) ''unknown_items'' db) = d # ds"
    "apply_update (occ_update fs) d = (Inr True, d')"
    "docs (wstore W) ''unknown_items'' db' =
       update_first (match_filter (versioned_filter W item_id expected)) (\<lambda>_. d') (docs (wstore W) ''unknown_items'' db)"
    "\<forall>k. k \<noteq> ''unknown_items'' \<longrightarrow> docs (wstore W) k db' = docs (wstore W) k db"
proof -
  from assms obtain n m where run: "update_one (wstore W) ''unknown_items'' (versioned_filter W item_id expected)
      (occ_update fs) db = (Inr (n, m), db')" and "m \<noteq> 0"
    by (auto simp: update_unknown_def run_iff)
  from update_one_modified [OF run \<open>m \<noteq> 0\<close>] update_one_frame [OF run] that show thesis by blast
qed

lemma escalate_steps:
  assumes "escalate_for_review W now item_id actor reason db = (Inr r, db')"
  obtains existing ds u where
    "filter (match_filter (resolve_filter W item_id)) (docs (wstore W) ''unknown_items'' db) = existing # ds"
    "ensure_report_open W (stripped (wrepr W) (dget existing ''session_id'')) db = (Inr (), db)"
    "update_unknown W item_id (coerce_version (dget existing ''version'')) (escalate_fields now actor reason) db = (Inr (), u)"
    "\<forall>k. k \<noteq> ''governance_events'' \<longrightarrow> docs (wstore W) k db' = docs (wstore W) k u"
proof -
  from assms obtain existing t v u refreshed w where find: "find_unknown W item_id db = (Inr existing, t)"
    and op: "ensure_report_open W (stripped (wrepr W) (dget existing ''session_id'')) t = (Inr (), v)"
    and upd: "update_unknown W item_id (coerce_version (dget existing ''version'')) (escalate_fields now actor reason) v = (Inr (), u)"
    and ref: "refreshed_unknown W item_id u = (Inr refreshed, w)"
    and log: "log_escalated W now (stripped (wrepr W) (dget existing ''session_id'')) item_id actor existing refreshed w = (Inr r, db')"
    by (auto simp: escalate_for_review_def Let_def with_session_def unit_of_work_committed run_iff)
  from find obtain ds where hit: "filter (match_filter (resolve_filter W item_id)) (docs (wstore W) ''unknown_items'' db) =
      existing # ds" and [simp]: "t = db"
    by (auto simp: find_unknown_def find_one_run run_iff split: option.splits list.splits if_splits)
  from op have [simp]: "v = db"
    by (auto simp: ensure_report_open_def run_iff split: if_splits dest!: session_open_run)
  from ref have [simp]: "w = u" by (auto simp: refreshed_unknown_def find_one_run run_iff)
  from log log_unknown_frame have "\<forall>k. k \<noteq> ''governance_events'' \<longrightarrow> docs (wstore W) k db' = docs (wstore W) k u"
    by (fastforce simp: log_escalated_def log_refreshed_def run_iff)
  with hit op upd that show thesis by simp
qed

end

lemma match_versioned_filter:
  assumes "\<not> oid_valid (wstore W) item_id"
  shows "match_filter (versioned_filter W item_id n) d \<longleftrightarrow>
    match_filter (resolve_filter W item_id) d \<and> match_filter (build_version_filter n) d"
  using assms
  by (simp add: versioned_filter_def merge_filters_def resolve_filter_def build_version_filter_def match_filter_def)

lemma versioned_filter_loses_id:
  assumes "oid_valid (wstore W) item_id" "n \<le> 0"
  shows "versioned_filter W item_id n = build_version_filter n"
  using assms by (simp add: versioned_filter_def merge_filters_def resolve_filter_def build_version_filter_def)

lemma escalated_fields:
  assumes "versioned d" "apply_update (occ_update (escalate_fields now actor reason)) d = (Inr True, d')"
  shows "dget d' ''status'' = VStr ''ESCALATED'' \<and> dget d' ''escalated_by'' = VStr actor \<and>
    dget d' ''version'' = VInt (coerce_version (dget d ''version'') + 1)"
proof -
  let ?e = "escalate_fields now actor reason"
  have keys: "''version'' \<notin> fst ` set ?e" "distinct (map fst ?e)"
    "map_of ?e ''status'' = Some (VStr ''ESCALATED'')" "map_of ?e ''escalated_by'' = Some (VStr actor)"
    by (simp_all add: escalate_fields_def)
  from apply_occ_update [OF assms(1) keys(1)] assms(2) have
    "dget d' ''version'' = VInt (coerce_version (dget d ''version'') + 1)"
    "\<forall>k. k \<noteq> ''version'' \<longrightarrow> dget d' k = dget (snd (apply_set ?e d)) k" by auto
  with apply_set_get_string [OF keys(2,3)] apply_set_get_string [OF keys(2,4)] show ?thesis by simp
qed

text \<open>A report is registered only for an active session and a complete place; exactly the
  report is added, stamped with its reporter, and everything else but the audit trail stays.\<close>

theorem registered_report_effect:
  assumes "register_unknown_item (mem_lines idgen oid clock f dg) now uid body actor db = (Inr d, db')"
  shows "(\<exists>s \<in> set (colls db ''sessions''). match_filter (session_lookup (stripped (\<lambda>_. []) (dget body ''session_id''))) s \<and>
      normalize_session_status (\<lambda>_. []) (dget s ''status'') = ''ACTIVE'') \<and>
    \<not> place_missing (place_of (\<lambda>_. []) d) \<and> dget d ''reported_by'' = VStr actor \<and>
    (\<exists>i. colls db' ''unknown_items'' = colls db ''unknown_items'' @ [dset_default ''_id'' i d]) \<and>
    (\<forall>k. k \<notin> {''unknown_items'', ''governance_events''} \<longrightarrow> colls db' k = colls db k)"
proof -
  let ?W = "mem_lines idgen oid clock f dg"
  have [simp]: "wstore ?W = mem_store idgen oid" "wrepr ?W = (\<lambda>_. [])" "lrepr (wlife ?W) = (\<lambda>_. [])"
    by (simp_all add: mem_lines_def mem_lifecycle_def)
  have place: "place_of rp (report_doc rp now uid sid (place_of rp b) a b) = place_of rp b"
    if "\<not> place_missing (place_of rp b)" for rp sid b a
    using that
    by (auto simp: place_of_def report_doc_def place_missing_def Let_def doc_simps py_or_def stripped_def)
  note e = mem_lines.register_effect [OF assms, simplified]
  have "dget (report_doc rp now uid sid pl a b) ''reported_by'' = VStr a" for rp sid pl a b
    by (cases pl) (simp add: report_doc_def Let_def doc_simps)
  with e place show ?thesis by auto
qed


text \<open>A report without a version that is addressed by its ObjectId is not the one that is
  changed: the version filter replaces the identifier, and the escalation goes to the first
  report without a version.\<close>

theorem versionless_escalation_goes_astray:
  assumes "escalate_for_review (mem_lines idgen oid clock f dg) now item_id actor reason db = (Inr r, db')"
    and "oid item_id" and "\<forall>d \<in> set (colls db ''unknown_items''). versioned d"
    and "filter (match_filter (resolve_filter (mem_lines idgen oid clock f dg) item_id)) (colls db ''unknown_items'') = existing # ds"
    and "\<not> dhas existing ''version''"
  shows "\<exists>d'. dget d' ''status'' = VStr ''ESCALATED'' \<and>
    colls db' ''unknown_items'' =
      update_first (match_filter (build_version_filter 0)) (\<lambda>_. d') (colls db ''unknown_items'')"
proof -
  let ?W = "mem_lines idgen oid clock f dg"
  have W [simp]: "wstore ?W = mem_store idgen oid" by (simp add: mem_lines_def)
  obtain u where upd: "update_unknown ?W item_id (coerce_version (dget existing ''version''))
      (escalate_fields now actor reason) db = (Inr (), u)"
    and frame: "\<forall>k. k \<noteq> ''governance_events'' \<longrightarrow> colls db' k = colls u k"
    using mem_lines.escalate_steps [OF assms(1)] assms(4) by auto
  from assms(5) have "coerce_version (dget existing ''version'') = 0"
    by (auto simp: dhas_def dget_def coerce_version_def)
  with assms(2) have flt: "versioned_filter ?W item_id (coerce_version (dget existing ''version'')) = build_version_filter 0"
    by (simp add: versioned_filter_loses_id)
  obtain d es d' where d: "filter (match_filter (build_version_filter 0)) (colls db ''unknown_items'') = d # es"
    "apply_update (occ_update (escalate_fields now actor reason)) d = (Inr True, d')"
    "colls u ''unknown_items'' = update_first (match_filter (build_version_filter 0)) (\<lambda>_. d') (colls db ''unknown_items'')"
    "\<forall>k. k \<noteq> ''unknown_items'' \<longrightarrow> colls u k = colls db k"
    by (rule mem_lines.update_unknown_effect [OF upd, unfolded flt W docs_mem_store])
  from filter_hd_sat [OF d(1)] assms(3) have "versioned d" by auto
  from escalated_fields [OF this d(2)] d(3) frame show ?thesis by auto
qed

section \<open>Examples\<close>

theorem registered_report_effect_witness:
  "\<exists>d db' i. register_unknown_item demo_writer 5 ''u9''
     [(''session_id'', VStr ''s1''), (''location_id'', VStr ''L''), (''floor_no'', VStr ''F''), (''rack_no'', VStr ''R'')]
     ''bob'' demo_counting_db = (Inr d, db') \<and> colls db' ''unknown_items'' = [dset_default ''_id'' i d]"
proof -
  let ?run = "register_unknown_item demo_writer 5 ''u9''
     [(''session_id'', VStr ''s1''), (''location_id'', VStr ''L''), (''floor_no'', VStr ''F''), (''rack_no'', VStr ''R'')]
     ''bob'' demo_counting_db"
  have "case fst ?run of Inl _ \<Rightarrow> False | Inr _ \<Rightarrow> True" by code_simp
  then obtain d db' where run: "?run = (Inr d, db')" by (auto split: sum.splits intro: run_of_fst)
  from registered_report_effect [OF run [unfolded demo_writer_def]] run show ?thesis
    by (auto simp: demo_counting_db_def)
qed


definition demo_versionless :: memdb where
  "demo_versionless = demo_counting_db\<lparr>colls := (colls demo_counting_db)(''unknown_items'' :=
     [[(''_id'', VOid ''a''), (''id'', VStr ''u0''), (''status'', VStr ''OPEN'')],
      [(''_id'', VOid ''b''), (''id'', VStr ''u1''), (''status'', VStr ''OPEN'')]])\<rparr>"

theorem versionless_escalation_goes_astray_witness:
  "\<exists>r db' d'. escalate_for_review (mem_lines show_nat (\<lambda>s. length s = 1) (\<lambda>n. int n) (\<lambda>_ ds. ds) demo_digest)
       5 ''b'' ''ann'' VNone demo_versionless = (Inr r, db') \<and> dget d' ''status'' = VStr ''ESCALATED'' \<and>
     colls db' ''unknown_items'' = [d', last (colls demo_versionless ''unknown_items'')]"
proof -
  let ?W = "mem_lines show_nat (\<lambda>s. length s = 1) (\<lambda>n. int n) (\<lambda>_ ds. ds) demo_digest"
  let ?run = "escalate_for_review ?W 5 ''b'' ''ann'' VNone demo_versionless"
  let ?b = "[(''_id'', VOid ''b''), (''id'', VStr ''u1''), (''status'', VStr ''OPEN'')]"
  have "case fst ?run of Inl _ \<Rightarrow> False | Inr _ \<Rightarrow> True" by code_simp
  then obtain r db' where run: "?run = (Inr r, db')" by (auto split: sum.splits intro: run_of_fst)
  have *: "\<forall>d \<in> set (colls demo_versionless ''unknown_items''). versioned d"
    "filter (match_filter (resolve_filter ?W ''b'')) (colls demo_versionless ''unknown_items'') = [?b]"
    "\<not> dhas ?b ''version''" by code_simp+
  have "update_first (match_filter (build_version_filter 0)) g (colls demo_versionless ''unknown_items'') =
    [g (hd (colls demo_versionless ''unknown_items'')), last (colls demo_versionless ''unknown_items'')]" for g
    by (simp add: demo_versionless_def build_version_filter_def match_filter_def field_values_def dhas_def dget_def)
  with versionless_escalation_goes_astray [OF run _ *] run show ?thesis by auto
qed

end
