(* ===== verification/SyncConflicts.thy ===== *)
theory SyncConflicts
  imports EventService LineFinalization UnknownItems
begin

text \<open>
  \<open>services/sync_conflicts_service.py\<close> and \<open>api/sync_conflicts_api.py\<close>: conflicts between the data
  of a client and of the server, their resolution, and the routes that call it.

  The service builds its collaborators on its own database: the count line writer and the
  lifecycle service are those of the record \<open>line_service\<close>, wired as in the program, the event
  writer is the second component. \<open>parse_iso\<close> is \<open>datetime.fromisoformat\<close> and
  \<open>error_text\<close> is \<open>str()\<close> of an exception. \<open>ObjectId(s)\<close> raises \<open>InvalidId\<close>, which is not a
  \<open>ValueError\<close>; it is written as a runtime error. The documents of a conflict hold what the service
  wrote into them.
\<close>

section \<open>The service\<close>

datatype resolution = ACCEPT_SERVER | ACCEPT_LOCAL | MERGE | IGNORE

fun resolution_value :: "resolution \<Rightarrow> string" where
  "resolution_value ACCEPT_SERVER = ''accept_server''"
| "resolution_value ACCEPT_LOCAL = ''accept_local''"
| "resolution_value MERGE = ''merge''"
| "resolution_value IGNORE = ''ignore''"

definition parse_resolution :: "string \<Rightarrow> resolution option" where
  "parse_resolution s = List.find (\<lambda>r. resolution_value r = s) [ACCEPT_SERVER, ACCEPT_LOCAL, MERGE, IGNORE]"

definition CONFLICT_STATUSES :: "string list" where
  "CONFLICT_STATUSES = [''pending'', ''resolved'', ''ignored'']"

record 'db conflict_service =
  clines :: "'db line_service"
  cevents :: "'db event_writer"
  parse_iso :: "string \<Rightarrow> val res"
  error_text :: "py_error \<Rightarrow> string"

abbreviation cstore :: "'db conflict_service \<Rightarrow> 'db store" where
  "cstore C \<equiv> wstore (clines C)"

abbreviation crepr :: "'db conflict_service \<Rightarrow> repr" where
  "crepr C \<equiv> wrepr (clines C)"

definition entity_lookup :: "'db conflict_service \<Rightarrow> string \<Rightarrow> query" where
  "entity_lookup C entity_id =
     (if oid_valid (cstore C) entity_id then [(''_id'', CEq (VOid entity_id))] else [(''id'', CEq (VStr entity_id))])"

definition add_conflict_serial :: "repr \<Rightarrow> string list \<Rightarrow> val \<Rightarrow> string list" where
  "add_conflict_serial rp seen v =
     (let s = upper (strip (py_str rp v)) in if s = [] \<or> s \<in> set seen then seen else seen @ [s])"

definition conflict_serials :: "repr \<Rightarrow> doc \<Rightarrow> string list" where
  "conflict_serials rp d = foldl (add_conflict_serial rp) [] (list_or_empty (dget d ''serial_numbers''))"

definition batch_key :: "repr \<Rightarrow> doc \<Rightarrow> string" where
  "batch_key rp b = strip (py_str rp (py_or (py_or (dget b ''batch_id'') (dget b ''batch_no'')) (VStr [])))"

fun collect_batches :: "repr \<Rightarrow> string list \<Rightarrow> doc list \<Rightarrow> doc list res" where
  "collect_batches rp seen [] = Inr []"
| "collect_batches rp seen (b # bs) =
     (let k = batch_key rp b in
      if k = [] then Inl (ValueError ''BATCH_ID_REQUIRED: batch-controlled items must supply an explicit batch_id'')
      else if k \<in> set seen then collect_batches rp seen bs
      else bindR (collect_batches rp (k # seen) bs) (\<lambda>rest. Inr (dput ''batch_id'' (VStr k) b # rest)))"

definition conflict_batches :: "repr \<Rightarrow> doc \<Rightarrow> doc list res" where
  "conflict_batches rp d = collect_batches rp [] (List.map_filter as_dict (list_or_empty (dget d ''batches'')))"

section \<open>Recording\<close>

definition differing_fields :: "doc \<Rightarrow> doc \<Rightarrow> doc list" where
  "differing_fields local_data server_data =
     map (\<lambda>(k, v). [(''field'', VStr k), (''local_value'', v), (''server_value'', dget server_data k)])
       (filter (\<lambda>(k, v). dhas server_data k \<and> \<not> py_eq v (dget server_data k)) local_data)"

definition conflict_doc ::
  "int \<Rightarrow> string \<Rightarrow> string \<Rightarrow> doc \<Rightarrow> doc \<Rightarrow> string \<Rightarrow> string option \<Rightarrow> doc list \<Rightarrow> doc" where
  "conflict_doc now entity_type entity_id local_data server_data user sid conflicts =
     [(''entity_type'', VStr entity_type), (''entity_id'', VStr entity_id), (''session_id'', opt_string sid),
      (''user'', VStr user), (''conflicts'', VList (map VDict conflicts)), (''local_data'', VDict local_data),
      (''server_data'', VDict server_data), (''status'', VStr ''pending''), (''resolution'', VNone), (''resolved_by'', VNone),
      (''resolved_at'', VNone), (''created_at'', VDate now (Some 0)),
      (''local_timestamp'', any_of local_data [''updated_at'', ''created_at'']),
      (''server_timestamp'', any_of server_data [''updated_at'', ''created_at''])]"

definition detect_conflict ::
  "'db conflict_service \<Rightarrow> int \<Rightarrow> string \<Rightarrow> string \<Rightarrow> string \<Rightarrow> string \<Rightarrow> doc \<Rightarrow> doc \<Rightarrow> string \<Rightarrow> string option \<Rightarrow>
   ('db, string option) comp" where
  "detect_conflict C now uid token entity_type entity_id local_data server_data user sid =
     (let conflicts = differing_fields local_data server_data in
      if conflicts = [] then returnM None
      else
        bindM (insert_one (cstore C) ''sync_conflicts''
          (conflict_doc now entity_type entity_id local_data server_data user sid conflicts)) (\<lambda>inserted.
        let conflict_id = py_str (crepr C) inserted in
        bindM (attempt (record_sync_queue_event (cevents C) False now uid token ''SYNC_CONFLICT_RECORDED'' sid
          (Some (py_str (crepr C) (py_or (py_or (dget local_data ''item_code'') (dget server_data ''item_code'')) (VStr []))))
          ''pending_review''
          [(''conflict_id'', VStr conflict_id), (''entity_type'', VStr entity_type), (''entity_id'', VStr entity_id),
           (''fields'', VList (map VDict conflicts))] (Some user))) (\<lambda>_.
        returnM (Some conflict_id))))"

section \<open>Lookups\<close>

definition conflicts_query :: "string option \<Rightarrow> string option \<Rightarrow> string option \<Rightarrow> string option \<Rightarrow> query" where
  "conflicts_query status sid user entity_type =
     List.map_filter (\<lambda>(k, v). case v of None \<Rightarrow> None | Some s \<Rightarrow> if s = [] then None else Some (k, CEq (VStr s)))
       [(''status'', status), (''session_id'', sid), (''user'', user), (''entity_type'', entity_type)]"

definition created_instant :: "doc \<Rightarrow> int" where
  "created_instant d = (case dget d ''created_at'' of VDate t z \<Rightarrow> t - (case z of None \<Rightarrow> 0 | Some off \<Rightarrow> off) | _ \<Rightarrow> 0)"

definition with_text_id :: "repr \<Rightarrow> doc \<Rightarrow> doc" where
  "with_text_id rp d = dput ''id'' (VStr (py_str rp (dget d ''_id''))) (dpop ''_id'' d)"

definition get_conflicts ::
  "'db conflict_service \<Rightarrow> string option \<Rightarrow> string option \<Rightarrow> string option \<Rightarrow> string option \<Rightarrow> nat \<Rightarrow> int \<Rightarrow> ('db, doc list) comp" where
  "get_conflicts C status sid user entity_type limit offset =
     bindM (find_all (cstore C) ''sync_conflicts'' (conflicts_query status sid user entity_type)) (\<lambda>found.
     let sorted = sort_key (\<lambda>d. - created_instant d) found;
         page = drop (nat (max 0 offset)) sorted
     in returnM (map (with_text_id (crepr C)) (take limit page)))"

definition count_conflicts ::
  "'db conflict_service \<Rightarrow> string option \<Rightarrow> string option \<Rightarrow> string option \<Rightarrow> string option \<Rightarrow> ('db, nat) comp" where
  "count_conflicts C status sid user entity_type =
     count_documents (cstore C) ''sync_conflicts'' (conflicts_query status sid user entity_type)"

definition conflict_filter :: "'db conflict_service \<Rightarrow> string \<Rightarrow> query res" where
  "conflict_filter C conflict_id =
     (if oid_valid (cstore C) conflict_id then Inr [(''_id'', CEq (VOid conflict_id))] else Inl (PyRuntimeError ''InvalidId''))"

definition get_conflict_by_id :: "'db conflict_service \<Rightarrow> string \<Rightarrow> ('db, doc option) comp" where
  "get_conflict_by_id C conflict_id =
     bindM (liftM (conflict_filter C conflict_id)) (\<lambda>q.
     bindM (find_one (cstore C) ''sync_conflicts'' q) (\<lambda>found.
     returnM (map_option (\<lambda>d. if d = [] then d else with_text_id (crepr C) d) found)))"

section \<open>Applying a resolution\<close>

definition resolved_value :: "resolution \<Rightarrow> doc option \<Rightarrow> doc \<Rightarrow> val res" where
  "resolved_value r merged conflict =
     (case r of
        ACCEPT_SERVER \<Rightarrow> ditem conflict ''server_data''
      | ACCEPT_LOCAL \<Rightarrow> ditem conflict ''local_data''
      | MERGE \<Rightarrow> (case merged of
            None \<Rightarrow> Inl (ValueError ''Merged data required for MERGE resolution'')
          | Some d \<Rightarrow> if d = [] then Inl (ValueError ''Merged data required for MERGE resolution'') else Inr (VDict d))
      | IGNORE \<Rightarrow> Inr VNone)"

definition resolution_fields :: "int \<Rightarrow> resolution \<Rightarrow> string \<Rightarrow> val \<Rightarrow> doc" where
  "resolution_fields now r resolved_by resolved_data =
     [(''status'', VStr (if r \<noteq> IGNORE then ''resolved'' else ''ignored'')), (''resolution'', VStr (resolution_value r)),
      (''resolved_by'', VStr resolved_by), (''resolved_at'', VDate now (Some 0)), (''resolved_data'', resolved_data)]"

definition forked_doc :: "int \<Rightarrow> string \<Rightarrow> doc \<Rightarrow> val \<Rightarrow> doc" where
  "forked_doc now entity_id original new_data =
     dmerge (dpop ''_id'' original)
       [(''original_id'', VStr entity_id), (''status'', VStr ''FORKED_REVISION''), (''data'', new_data),
        (''forked_at'', VDate now (Some 0))]"

definition fork_approved_record :: "'db conflict_service \<Rightarrow> int \<Rightarrow> string \<Rightarrow> string \<Rightarrow> doc \<Rightarrow> val \<Rightarrow> ('db, unit) comp" where
  "fork_approved_record C now entity_type entity_id original new_data =
     bindM (raise_if (\<not> dhas original ''_id'') (KeyError ''_id'')) (\<lambda>_.
     bindM (insert_one (cstore C) ''conflict_forks'' (forked_doc now entity_id original new_data)) (\<lambda>_.
     bindM (insert_one (cstore C) ''audit_logs''
       [(''event'', VStr ''RECORD_FORKED''), (''entity_type'', VStr entity_type), (''entity_id'', VStr entity_id),
        (''timestamp'', VDate now (Some 0)),
        (''details'', VStr ''Conflict resolution triggered a fork to preserve approved state.'')]) (\<lambda>_.
     returnM ())))"

definition find_session_for_entity :: "'db conflict_service \<Rightarrow> string \<Rightarrow> ('db, doc option) comp" where
  "find_session_for_entity C entity_id =
     bindM (find_one (cstore C) ''sessions'' (entity_lookup C entity_id)) (\<lambda>found.
     if or_empty found \<noteq> [] then returnM found
     else find_one (cstore C) ''sessions''
       [(''$or'', CClauses [[(''id'', CEq (VStr entity_id))], [(''session_id'', CEq (VStr entity_id))]])])"

definition without_keys :: "string list \<Rightarrow> doc \<Rightarrow> doc" where
  "without_keys ks d = filter (\<lambda>(k, _). k \<notin> set ks) d"

definition sanitize_session_resolution_fields :: "doc \<Rightarrow> doc" where
  "sanitize_session_resolution_fields =
     without_keys [''_id'', ''id'', ''session_id'', ''version'', ''finalized_at'', ''finalized_by'']"

definition sanitize_count_line_resolution_fields :: "doc \<Rightarrow> doc" where
  "sanitize_count_line_resolution_fields =
     without_keys [''_id'', ''id'', ''session_id'', ''version'', ''previous_version_id'', ''recount_of_id'', ''counted_qty'',
       ''damaged_qty'', ''erp_qty'', ''baseline_hash'', ''superseded_at'', ''superseded_by'', ''superseded_by_version_id'',
       ''finalized_at'', ''finalized_by'']"

definition resolve_marks :: "int \<Rightarrow> doc \<Rightarrow> doc" where
  "resolve_marks now d = dput ''conflict_resolved'' (VBool True) (dput ''updated_at'' (VDate now (Some 0)) d)"

definition apply_to_session :: "'db conflict_service \<Rightarrow> int \<Rightarrow> bool \<Rightarrow> string \<Rightarrow> doc \<Rightarrow> ('db, unit) comp" where
  "apply_to_session C now in_tx entity_id data =
     bindM (find_session_for_entity C entity_id) (\<lambda>found.
     if or_empty found = [] then returnM ()
     else
       (let rp = crepr C; session = or_empty found; L = wired (clines C);
            sid = py_str rp (py_or (any_of session [''id'', ''session_id'']) (VStr entity_id));
            clean = sanitize_session_resolution_fields data;
            change = (case dget clean ''status'' of
                VStr s \<Rightarrow> if strip s = [] then None
                          else if upper (strip s) = upper (text_of rp session ''status'') then None else Some (upper (strip s))
              | _ \<Rightarrow> None) in
        bindM (case change of
            None \<Rightarrow> returnM ()
          | Some target \<Rightarrow>
              bindM (transition_session L now in_tx sid target ''conflict_resolver'' (VStr ''Sync conflict resolution'') None)
                (\<lambda>_. returnM ())) (\<lambda>_.
        update_session_fields L now sid (resolve_marks now (dpop ''status'' clean)) None ''conflict_resolver'')))"

text \<open>The fields written to a line, the strategy and the merged batches.\<close>

definition merged_line_fields :: "repr \<Rightarrow> int \<Rightarrow> doc \<Rightarrow> doc \<Rightarrow> (doc \<times> string \<times> doc list \<times> rat \<times> rat) res" where
  "merged_line_fields rp now count_line data =
     (let clean = sanitize_count_line_resolution_fields data; raw = dget data ''counted_qty'';
          current_serials = conflict_serials rp count_line; incoming_serials = conflict_serials rp clean;
          clean' = dpop ''serial_entries'' (dpop ''serial_numbers'' clean) in
      bindR (to_float (py_or (dget count_line ''counted_qty'') (VFloat 0))) (\<lambda>current_qty.
      bindR (if raw = VNone then Inr current_qty else to_float raw) (\<lambda>incoming_qty.
      if incoming_serials \<noteq> [] \<and> set incoming_serials \<noteq> set current_serials
      then Inl (ValueError ''SERIAL_CONFLICT_REJECTED: serial conflicts require client retry'')
      else
        bindR (conflict_batches rp count_line) (\<lambda>existing.
        bindR (conflict_batches rp clean') (\<lambda>incoming.
        let additive = filter (\<lambda>b. batch_key rp b \<notin> batch_key rp ` set existing) incoming;
            merged = existing @ additive;
            with_batches = (if additive \<noteq> [] then dput ''batches'' (VList (map VDict merged)) clean' else clean');
            with_qty = (if incoming_qty \<noteq> current_qty then dput ''counted_qty'' (VFloat incoming_qty) with_batches else with_batches)
        in Inr (resolve_marks now with_qty, if additive \<noteq> [] then ''batch_split'' else ''quantity_merge'', merged,
             incoming_qty, current_qty))))))"

definition update_payload :: "query \<Rightarrow> doc \<Rightarrow> payload" where
  "update_payload q row =
     \<lparr>p_operation = VStr ''update_one'', p_document = VNone, p_filter = Some q,
      p_update = Some (VDict [(''$set'', VDict row)]), p_upsert = VNone, p_return = VNone\<rparr>"

definition line_text :: "repr \<Rightarrow> doc \<Rightarrow> string \<Rightarrow> string" where
  "line_text rp d k = py_str rp (py_or (dget d k) (VStr []))"

definition apply_to_line ::
  "'db conflict_service \<Rightarrow> int \<Rightarrow> string \<Rightarrow> string \<Rightarrow> bool \<Rightarrow> string \<Rightarrow> doc \<Rightarrow> ('db, unit) comp" where
  "apply_to_line C now uid token in_tx entity_id data =
     bindM (find_one (cstore C) ''count_lines'' (entity_lookup C entity_id)) (\<lambda>found.
     if or_empty found = [] then returnM ()
     else
       (let rp = crepr C; line = or_empty found; sid = line_text rp line ''session_id'' in
        bindM (liftM (merged_line_fields rp now line data)) (\<lambda>(row, strategy, merged, incoming_qty, current_qty).
        bindM (commit_write (clines C) now in_tx (update_payload (entity_lookup C entity_id) row)
          [(''session_id'', VStr sid), (''username'', VStr ''conflict_resolver''),
           (''governance_mode'', VStr ''mutable_session'')]) (\<lambda>_.
        bindM (record_sync_queue_event (cevents C) in_tx now uid token ''SYNC_CONFLICT_RESOLVED'' (Some sid)
          (Some (line_text rp line ''item_code'')) strategy
          [(''entity_id'', VStr entity_id), (''incoming_qty'', VFloat incoming_qty), (''current_qty'', VFloat current_qty),
           (''merged_batches'', VList (map VDict merged))] (Some ''conflict_resolver'')) (\<lambda>_.
        returnM ())))))"

definition apply_resolved_data ::
  "'db conflict_service \<Rightarrow> int \<Rightarrow> string \<Rightarrow> string \<Rightarrow> bool \<Rightarrow> string \<Rightarrow> string \<Rightarrow> doc \<Rightarrow> ('db, unit) comp" where
  "apply_resolved_data C now uid token in_tx entity_type entity_id data =
     (if entity_type = ''session'' then apply_to_session C now in_tx entity_id data
      else if entity_type = ''count_line'' then apply_to_line C now uid token in_tx entity_id data
      else if entity_type = ''item'' then
        bindM (update_one (cstore C) ''erp_items'' (entity_lookup C entity_id)
          [(''$set'', VDict (resolve_marks now data))]) (\<lambda>_. returnM ())
      else returnM ())"

definition is_approved_line :: "repr \<Rightarrow> doc \<Rightarrow> bool" where
  "is_approved_line rp d = (lower (py_str rp (dget_or d ''status'' (VStr []))) \<in> {''approved'', ''locked''})"

definition apply_resolution ::
  "'db conflict_service \<Rightarrow> int \<Rightarrow> string \<Rightarrow> string \<Rightarrow> query \<Rightarrow> doc \<Rightarrow> doc \<Rightarrow> val \<Rightarrow> bool \<Rightarrow> ('db, bool) comp" where
  "apply_resolution C now uid token q fields_doc conflict resolved_data in_tx =
     (let rp = crepr C; entity_type = line_text rp conflict ''entity_type''; entity_id = line_text rp conflict ''entity_id'' in
      bindM (update_one (cstore C) ''sync_conflicts'' q [(''$set'', VDict fields_doc)]) (\<lambda>_.
      bindM (if entity_type = ''count_line'' then find_one (cstore C) ''count_lines'' (entity_lookup C entity_id)
             else returnM None) (\<lambda>target.
      if or_empty target \<noteq> [] \<and> is_approved_line rp (or_empty target) then
        bindM (fork_approved_record C now entity_type entity_id (or_empty target) resolved_data) (\<lambda>_. returnM True)
      else
        bindM (whenM (entity_type \<noteq> [] \<and> entity_id \<noteq> [])
          (apply_resolved_data C now uid token in_tx entity_type entity_id (dict_or_empty resolved_data))) (\<lambda>_.
        returnM False))))"

text \<open>The resolved data and the state of the conflict, in one unit of work unless there is nothing to apply.\<close>

definition settle_conflict ::
  "'db conflict_service \<Rightarrow> int \<Rightarrow> string \<Rightarrow> string \<Rightarrow> query \<Rightarrow> resolution \<Rightarrow> string \<Rightarrow> doc \<Rightarrow> val \<Rightarrow> ('db, bool) comp" where
  "settle_conflict C now uid token q r resolved_by conflict resolved_data =
     (let row = resolution_fields now r resolved_by resolved_data in
      if r \<noteq> IGNORE \<and> truthy resolved_data
      then with_session (clines C) (\<lambda>in_tx. committed (apply_resolution C now uid token q row conflict resolved_data in_tx))
      else bindM (update_one (cstore C) ''sync_conflicts'' q [(''$set'', VDict row)]) (\<lambda>_. returnM False))"

definition resolve_conflict ::
  "'db conflict_service \<Rightarrow> int \<Rightarrow> string \<Rightarrow> string \<Rightarrow> string \<Rightarrow> resolution \<Rightarrow> string \<Rightarrow> doc option \<Rightarrow> ('db, doc) comp" where
  "resolve_conflict C now uid token conflict_id r resolved_by merged =
     bindM (get_conflict_by_id C conflict_id) (\<lambda>found.
     let conflict = or_empty found in
     bindM (raise_if (conflict = []) (ValueError (''Conflict '' @ conflict_id @ '' not found''))) (\<lambda>_.
     bindM (liftM (ditem conflict ''status'')) (\<lambda>status.
     bindM (raise_if (status \<noteq> VStr ''pending'') (ValueError (''Conflict '' @ conflict_id @ '' already resolved''))) (\<lambda>_.
     bindM (liftM (resolved_value r merged conflict)) (\<lambda>resolved_data.
     bindM (liftM (conflict_filter C conflict_id)) (\<lambda>q.
     bindM (settle_conflict C now uid token q r resolved_by conflict resolved_data) (\<lambda>forked.
     returnM [(''conflict_id'', VStr conflict_id),
       (''resolution'', VStr (if forked then ''FORKED'' else resolution_value r)), (''resolved_data'', resolved_data)])))))))"

section \<open>Automatic resolution\<close>

definition parsed_time :: "'db conflict_service \<Rightarrow> val \<Rightarrow> val res" where
  "parsed_time C v = (case v of VStr s \<Rightarrow> parse_iso C s | _ \<Rightarrow> Inr v)"

fun later :: "val \<Rightarrow> val \<Rightarrow> bool res" where
  "later (VDate s None) (VDate t None) = Inr (s > t)"
| "later (VDate s (Some a)) (VDate t (Some b)) = Inr (s - a > t - b)"
| "later v w =
     (case (num_of v, num_of w) of
        (Some x, Some y) \<Rightarrow> Inr (x > y)
      | _ \<Rightarrow> Inl (TypeError ''not comparable''))"

definition determine_newest_wins_resolution :: "'db conflict_service \<Rightarrow> doc \<Rightarrow> resolution res" where
  "determine_newest_wins_resolution C conflict =
     (let local_ts = dget conflict ''local_timestamp''; server_ts = dget conflict ''server_timestamp'' in
      if truthy local_ts \<and> truthy server_ts then
        bindR (parsed_time C local_ts) (\<lambda>l. bindR (parsed_time C server_ts) (\<lambda>s.
        bindR (later l s) (\<lambda>b. Inr (if b then ACCEPT_LOCAL else ACCEPT_SERVER))))
      else Inr ACCEPT_SERVER)"

definition resolve_single_conflict ::
  "'db conflict_service \<Rightarrow> int \<Rightarrow> string \<Rightarrow> string \<Rightarrow> doc \<Rightarrow> string \<Rightarrow> ('db, bool) comp" where
  "resolve_single_conflict C now uid token conflict strategy =
     (if strategy \<notin> {''server_wins'', ''local_wins'', ''newest_wins''} then returnM False
      else
        bindM (liftM (if strategy = ''server_wins'' then Inr ACCEPT_SERVER
                      else if strategy = ''local_wins'' then Inr ACCEPT_LOCAL
                      else determine_newest_wins_resolution C conflict)) (\<lambda>r.
        bindM (resolve_conflict C now uid token (py_str (crepr C) (dget conflict ''id'')) r ''system_auto_resolve'' None) (\<lambda>_.
        returnM True)))"

fun auto_resolve_each ::
  "'db conflict_service \<Rightarrow> int \<Rightarrow> (nat \<Rightarrow> string) \<Rightarrow> string \<Rightarrow> nat \<Rightarrow> doc list \<Rightarrow> ('db, nat) comp" where
  "auto_resolve_each C now uid strategy n [] = returnM 0"
| "auto_resolve_each C now uid strategy n (c # cs) =
     bindM (\<lambda>db. case resolve_single_conflict C now (uid (2 * n)) (uid (2 * n + 1)) c strategy db of
         (Inl (ValueError m), t) \<Rightarrow> (Inr False, t)
       | (Inl (DuplicateKeyError m), t) \<Rightarrow> (Inr False, t)
       | r \<Rightarrow> r) (\<lambda>b.
     bindM (auto_resolve_each C now uid strategy (Suc n) cs) (\<lambda>k. returnM (if b then Suc k else k)))"

definition auto_resolve_simple_conflicts ::
  "'db conflict_service \<Rightarrow> int \<Rightarrow> (nat \<Rightarrow> string) \<Rightarrow> string \<Rightarrow> ('db, nat) comp" where
  "auto_resolve_simple_conflicts C now uid strategy =
     bindM (get_conflicts C (Some ''pending'') None None None 100 0) (\<lambda>conflicts.
     auto_resolve_each C now uid strategy 0 conflicts)"

definition by_entity_type :: "repr \<Rightarrow> doc list \<Rightarrow> (string \<times> nat) list" where
  "by_entity_type rp ds =
     foldl (\<lambda>acc d. let k = py_str rp (dget d ''entity_type'') in
       AList.update k (Suc (case map_of acc k of None \<Rightarrow> 0 | Some n \<Rightarrow> n)) acc) [] ds"

definition get_conflict_stats :: "'db conflict_service \<Rightarrow> ('db, doc) comp" where
  "get_conflict_stats C =
     (let count = (\<lambda>q. count_documents (cstore C) ''sync_conflicts'' q); status = (\<lambda>s. [(''status'', CEq (VStr s))]) in
      bindM (count []) (\<lambda>total.
      bindM (count (status ''pending'')) (\<lambda>pending.
      bindM (count (status ''resolved'')) (\<lambda>resolved.
      bindM (count (status ''ignored'')) (\<lambda>ignored.
      bindM (find_all (cstore C) ''sync_conflicts'' []) (\<lambda>rows.
      returnM [(''total'', VInt (int total)), (''pending'', VInt (int pending)), (''resolved'', VInt (int resolved)),
        (''ignored'', VInt (int ignored)),
        (''by_entity_type'', VDict (map (\<lambda>(k, n). (k, VInt (int n))) (by_entity_type (crepr C) rows)))]))))))"

section \<open>The routes\<close>

definition success :: "val \<Rightarrow> doc" where
  "success v = [(''success'', VBool True), (''data'', v)]"

definition list_conflicts ::
  "'db conflict_service \<Rightarrow> string option \<Rightarrow> string option \<Rightarrow> string option \<Rightarrow> string option \<Rightarrow> nat \<Rightarrow> ('db, doc) comp" where
  "list_conflicts C status sid user entity_type limit =
     bindM (raise_if (case status of None \<Rightarrow> False | Some s \<Rightarrow> s \<noteq> [] \<and> s \<notin> set CONFLICT_STATUSES)
       (ValueError ''not a valid ConflictStatus'')) (\<lambda>_.
     bindM (get_conflicts C status sid user entity_type limit 0) (\<lambda>conflicts.
     returnM (success (VDict [(''conflicts'', VList (map VDict conflicts)), (''total'', VInt (int (length conflicts)))]))))"

definition get_conflict_details :: "'db conflict_service \<Rightarrow> string \<Rightarrow> ('db, doc) comp" where
  "get_conflict_details C conflict_id =
     bindM (get_conflict_by_id C conflict_id) (\<lambda>found.
     bindM (raise_if (or_empty found = []) (HTTPException 404 ''Conflict not found'')) (\<lambda>_.
     returnM (success (opt_dict found))))"

text \<open>The two handlers around the body of a route: \<open>HTTPException\<close> is an \<open>Exception\<close> too.\<close>

definition resolution_errors :: "'db conflict_service \<Rightarrow> ('db, 'a) comp \<Rightarrow> ('db, 'a) comp" where
  "resolution_errors C m = (\<lambda>db. case m db of
     (Inl (ValueError t), u) \<Rightarrow> (Inl (HTTPException 400 t), u)
   | (Inl e, u) \<Rightarrow> (Inl (HTTPException 500 (''Failed to resolve conflict: '' @ error_text C e)), u)
   | (Inr x, u) \<Rightarrow> (Inr x, u))"

definition checked_resolution :: "string \<Rightarrow> resolution res" where
  "checked_resolution s =
     (case parse_resolution s of None \<Rightarrow> Inl (HTTPException 400 (''Invalid resolution: '' @ s)) | Some r \<Rightarrow> Inr r)"

definition resolve_conflict_route ::
  "'db conflict_service \<Rightarrow> int \<Rightarrow> string \<Rightarrow> string \<Rightarrow> doc \<Rightarrow> string \<Rightarrow> string \<Rightarrow> doc option \<Rightarrow> ('db, doc) comp" where
  "resolve_conflict_route C now uid token current_user conflict_id requested merged =
     resolution_errors C
       (bindM (liftM (checked_resolution requested)) (\<lambda>r.
        bindM (liftM (ditem current_user ''username'')) (\<lambda>username.
        bindM (resolve_conflict C now uid token conflict_id r (py_str (crepr C) username) merged) (\<lambda>out.
        returnM (success (VDict out))))))"

fun batch_resolve_each ::
  "'db conflict_service \<Rightarrow> int \<Rightarrow> (nat \<Rightarrow> string) \<Rightarrow> doc \<Rightarrow> resolution \<Rightarrow> nat \<Rightarrow> string list \<Rightarrow> ('db, nat \<times> doc list) comp" where
  "batch_resolve_each C now uid current_user r n [] = returnM (0, [])"
| "batch_resolve_each C now uid current_user r n (i # is) =
     bindM (\<lambda>db. case bindM (liftM (ditem current_user ''username'')) (\<lambda>username.
         resolve_conflict C now (uid (2 * n)) (uid (2 * n + 1)) i r (py_str (crepr C) username) None) db of
       (Inl e, u) \<Rightarrow> (Inr (Some [(''id'', VStr i), (''error'', VStr (error_text C e))]), u)
     | (Inr _, u) \<Rightarrow> (Inr None, u)) (\<lambda>failed.
     bindM (batch_resolve_each C now uid current_user r (Suc n) is) (\<lambda>(k, errors).
     returnM (case failed of None \<Rightarrow> (Suc k, errors) | Some e \<Rightarrow> (k, e # errors))))"

definition batch_resolve_conflicts ::
  "'db conflict_service \<Rightarrow> int \<Rightarrow> (nat \<Rightarrow> string) \<Rightarrow> doc \<Rightarrow> string list \<Rightarrow> string \<Rightarrow> ('db, doc) comp" where
  "batch_resolve_conflicts C now uid current_user conflict_ids requested = (\<lambda>db.
     case bindM (liftM (checked_resolution requested)) (\<lambda>r.
       bindM (batch_resolve_each C now uid current_user r 0 conflict_ids) (\<lambda>(k, errors).
       returnM (success (VDict
         [(''message'', VStr (''Resolved '' @ show_nat k @ '' conflicts'')), (''resolved_count'', VInt (int k)),
          (''errors'', VList (map VDict errors))])))) db of
       (Inl e, u) \<Rightarrow> (Inl (HTTPException 500 (''Failed to batch resolve: '' @ error_text C e)), u)
     | (Inr x, u) \<Rightarrow> (Inr x, u))"

definition auto_resolve_conflicts :: "'db conflict_service \<Rightarrow> int \<Rightarrow> (nat \<Rightarrow> string) \<Rightarrow> string \<Rightarrow> ('db, doc) comp" where
  "auto_resolve_conflicts C now uid strategy =
     bindM (raise_if (strategy \<notin> {''server_wins'', ''local_wins'', ''newest_wins''})
       (HTTPException 400 ''Invalid strategy. Must be one of: server_wins, local_wins, newest_wins'')) (\<lambda>_.
     bindM (auto_resolve_simple_conflicts C now uid strategy) (\<lambda>k.
     returnM (success (VDict
       [(''message'', VStr (''Auto-resolved '' @ show_nat k @ '' conflicts'')), (''resolved_count'', VInt (int k)),
        (''strategy'', VStr strategy)]))))"

definition get_conflict_statistics :: "'db conflict_service \<Rightarrow> ('db, doc) comp" where
  "get_conflict_statistics C = bindM (get_conflict_stats C) (\<lambda>stats. returnM (success (VDict stats)))"

section \<open>Conflicts\<close>

lemma with_text_id_get:
  "k \<noteq> ''id'' \<Longrightarrow> k \<noteq> ''_id'' \<Longrightarrow> dget (with_text_id rp d) k = dget d k"
  "k \<noteq> ''id'' \<Longrightarrow> k \<noteq> ''_id'' \<Longrightarrow> dhas (with_text_id rp d) k = dhas d k"
  by (simp_all add: with_text_id_def doc_simps dget_def dhas_def delete_conv')

lemma with_text_id_nonempty [simp]: "with_text_id rp d \<noteq> []"
  by (simp add: with_text_id_def)

lemma resolution_fields_status:
  "dget (snd (apply_set (resolution_fields now r by_user v) c)) ''status'' = VStr (if r \<noteq> IGNORE then ''resolved'' else ''ignored'')"
  "''_id'' \<notin> fst ` set (resolution_fields now r by_user v)"
  by (rule apply_set_get_string, simp_all add: resolution_fields_def)

text \<open>The parts of the service share one database.\<close>

locale conflict_resolver = wired_services "clines C" for C :: "'db conflict_service" +
  assumes one_store: "event_store (cevents C) = cstore C"
begin

abbreviation conflicts_of :: "'db \<Rightarrow> doc list" where
  "conflicts_of db \<equiv> docs (cstore C) ''sync_conflicts'' db"

lemma conflict_collection:
  "''sync_conflicts'' \<notin> set PROJECTION_COLLECTIONS" "''sync_conflicts'' \<noteq> ''locks''" "''sync_conflicts'' \<noteq> CONFIGS"
  "''sync_conflicts'' \<notin> {''sessions'', ''governance_events''}" "''sync_conflicts'' \<notin> set (''event_applied'' # EVENT_PROJECTIONS)"
  by (simp_all add: PROJECTION_COLLECTIONS_def CONFIGS_def EVENT_PROJECTIONS_def)

lemma keeps_process_write: "keeps (\<lambda>db. P (conflicts_of db)) (process_write_core (clines C) now has_session p ctx)"
  unfolding process_write_core_def Let_def
  by (intro keeps_intros keeps_enforce_variance [OF refl] keeps_execute [OF refl] keeps_post_write_validation [OF refl]
      keeps_update_totals line_sync_frame keeps_log_count_line_audit [OF refl] conflict_collection) simp_all

lemma keeps_commit_write: "keeps (\<lambda>db. P (conflicts_of db)) (commit_write (clines C) now in_tx p ctx)"
proof -
  have "keeps (\<lambda>db. P (conflicts_of db)) (\<lambda>db. unit_of_work (cstore C) (committed (process_write_core (clines C) now
      (client_supports_transactions (hello (cstore C) db)) p ctx)) db)"
  proof (rule keepsI)
    fix s r t
    assume "P (conflicts_of s)"
      and "unit_of_work (cstore C) (committed (process_write_core (clines C) now
        (client_supports_transactions (hello (cstore C) s)) p ctx)) s = (r, t)"
    then show "P (conflicts_of t)"
      by (rule keepsD [rotated]) (unfold committed_def, intro keeps_intros keeps_process_write)
  qed
  then show ?thesis unfolding commit_write_def by (intro keeps_intros keeps_process_write)
qed

lemma keeps_append_event:
  "keeps (\<lambda>db. P (conflicts_of db)) (append_event (cevents C) in_tx now uid token agg typ payload metadata ap enf)"
proof -
  have store: "document_store (event_store (cevents C))" unfolding one_store by (rule document_store_axioms)
  have "keeps (\<lambda>db. P (conflicts_of db)) (project_appended (cevents C) in_tx now ap b e)" for b e
    using keeps_project_appended [OF store conflict_collection(5)] unfolding one_store .
  moreover have "keeps (\<lambda>db. P (conflicts_of db)) (insert_one (event_store (cevents C)) ''event_log'' e)" for e
    unfolding one_store by (rule keeps_insert_other) simp
  moreover have "keeps Q (enforce_flag (cevents C) enf)" for Q
    unfolding enforce_flag_def is_enabled_def by (auto intro!: keeps_intros split: option.splits)
  moreover have "keeps Q (find_existing_event (cevents C) k f)" for Q k f
    unfolding find_existing_event_def by (auto intro!: keeps_intros split: option.splits)
  ultimately show ?thesis
    unfolding append_event_def Let_def by (auto intro!: keeps_intros split: option.splits)
qed

lemma keeps_session_update:
  "keeps (\<lambda>db. P (conflicts_of db)) (update_session_fields (wired (clines C)) now sid new_fields v actor)"
proof -
  have "keeps (\<lambda>db. P (conflicts_of db)) (guarded_session_update (wired (clines C)) now sid e v actor operation)" for e operation
    by (rule keeps_guarded_session_update) (simp_all add: life_store)
  moreover have "keeps (\<lambda>db. P (conflicts_of db)) (sync_session_projection (wired (clines C)) now sid trigger actor)" for trigger
    using wired.sync_frame [OF conflict_collection(1,2)] unfolding sync_session_projection_def by (simp add: life_store)
  ultimately show ?thesis unfolding update_session_fields_def by (intro keeps_intros)
qed

lemma keeps_transition:
  "keeps (\<lambda>db. P (conflicts_of db)) (transition_session (wired (clines C)) now in_tx sid target actor note v)"
proof -
  have "keeps (\<lambda>db. P (conflicts_of db)) (sync_session_projection (wired (clines C)) now sid trigger actor)" for trigger
    using wired.sync_frame [OF conflict_collection(1,2)] unfolding sync_session_projection_def by (simp add: life_store)
  moreover have "keeps (\<lambda>db. P (conflicts_of db)) (update_session_with_occ (wired (clines C)) sid u e)" for u e
    unfolding update_session_with_occ_def
    by (auto simp: life_store intro!: keeps_intros keeps_update_other split: prod.splits)
  ultimately have "keeps (\<lambda>db. P (conflicts_of db)) (transition_session_core (wired (clines C)) now sid target actor note v)"
    unfolding transition_session_core_def Let_def
    by (auto simp: life_store intro!: keeps_intros wired.keeps_ensure_session_exists wired.keeps_ready
        keeps_validate_session keeps_update_other keeps_log_write_event split: option.splits)
  then show ?thesis
    unfolding transition_session_def in_transaction_def committed_def by (intro keeps_intros)
qed

lemma keeps_apply_resolved_data:
  "keeps (\<lambda>db. P (conflicts_of db)) (apply_resolved_data C now uid token in_tx entity_type entity_id data)"
proof -
  have "keeps (\<lambda>db. P (conflicts_of db)) (apply_to_session C now in_tx entity_id data)"
    unfolding apply_to_session_def find_session_for_entity_def Let_def
    by (auto intro!: keeps_intros keeps_transition keeps_session_update split: option.splits)
  moreover have "keeps (\<lambda>db. P (conflicts_of db)) (apply_to_line C now uid token in_tx entity_id data)"
    unfolding apply_to_line_def record_sync_queue_event_def Let_def
    by (auto intro!: keeps_intros keeps_commit_write keeps_append_event split: prod.splits)
  ultimately show ?thesis
    unfolding apply_resolved_data_def by (auto intro!: keeps_intros keeps_update_other)
qed

lemma apply_resolution_conflicts:
  assumes hit: "filter (match_filter q) (conflicts_of db) = c # cs"
    and run: "apply_resolution C now uid token q row conflict v in_tx db = (res, db')"
  shows "conflicts_of db' = update_first (match_filter q) (\<lambda>_. snd (apply_set row c)) (conflicts_of db)"
proof -
  obtain m t where t: "update_one (cstore C) ''sync_conflicts'' q [(''$set'', VDict row)] db = (Inr (1, m), t)"
    "conflicts_of t = update_first (match_filter q) (\<lambda>_. snd (apply_set row c)) (conflicts_of db)"
    by (rule update_one_set [OF hit])
  define rest where "rest = (\<lambda>_ :: nat \<times> nat. let rp = crepr C; entity_type = line_text rp conflict ''entity_type'';
      entity_id = line_text rp conflict ''entity_id'' in
    bindM (if entity_type = ''count_line'' then find_one (cstore C) ''count_lines'' (entity_lookup C entity_id)
           else returnM None) (\<lambda>target.
    if or_empty target \<noteq> [] \<and> is_approved_line rp (or_empty target) then
      bindM (fork_approved_record C now entity_type entity_id (or_empty target) v) (\<lambda>_. returnM True)
    else
      bindM (whenM (entity_type \<noteq> [] \<and> entity_id \<noteq> [])
        (apply_resolved_data C now uid token in_tx entity_type entity_id (dict_or_empty v))) (\<lambda>_. returnM False)))"
  have "rest (1, m) t = (res, db')"
    using run t(1) by (simp add: apply_resolution_def Let_def rest_def bindM_run)
  moreover have "keeps (\<lambda>db. P (conflicts_of db)) (rest x)" for P x
    unfolding rest_def Let_def fork_approved_record_def
    by (auto intro!: keeps_intros keeps_apply_resolved_data keeps_insert_other)
  ultimately have "conflicts_of db' = conflicts_of t"
    by (rule keeps_eqD [where f = conflicts_of and m = "rest (1, m)", rotated])
  with t(2) show ?thesis by simp
qed

lemma settle_conflicts:
  assumes hit: "filter (match_filter q) (conflicts_of db) = c # cs"
    and run: "settle_conflict C now uid token q r by_user conflict v db = (Inr b, db')"
  shows "conflicts_of db' = update_first (match_filter q) (\<lambda>_. snd (apply_set (resolution_fields now r by_user v) c)) (conflicts_of db)"
proof (cases "r \<noteq> IGNORE \<and> truthy v")
  case True
  with run obtain in_tx where "apply_resolution C now uid token q (resolution_fields now r by_user v) conflict v in_tx db = (Inr b, db')"
    by (auto simp: settle_conflict_def Let_def with_session_def unit_of_work_committed)
  from apply_resolution_conflicts [OF hit this] show ?thesis .
next
  case False
  obtain m t where "update_one (cstore C) ''sync_conflicts'' q [(''$set'', VDict (resolution_fields now r by_user v))] db = (Inr (1, m), t)"
    "conflicts_of t = update_first (match_filter q) (\<lambda>_. snd (apply_set (resolution_fields now r by_user v) c)) (conflicts_of db)"
    by (rule update_one_set [OF hit])
  with run False show ?thesis by (auto simp: settle_conflict_def Let_def bindM_run returnM_run)
qed

text \<open>A conflict that was resolved is the first with its identifier, was pending, and is marked.\<close>

lemma resolve_conflict_effect:
  assumes "resolve_conflict C now uid token i r by_user merged db = (Inr out, db')"
  obtains c cs v where "oid_valid (cstore C) i" "filter (match_filter [(''_id'', CEq (VOid i))]) (conflicts_of db) = c # cs"
    "dget c ''status'' = VStr ''pending''"
    "conflicts_of db' = update_first (match_filter [(''_id'', CEq (VOid i))])
       (\<lambda>_. snd (apply_set (resolution_fields now r by_user v) c)) (conflicts_of db)"
proof -
  let ?q = "[(''_id'', CEq (VOid i))]"
  from assms obtain found status v where i: "oid_valid (cstore C) i"
    and found: "(case filter (match_filter ?q) (conflicts_of db) of [] \<Rightarrow> None | d # _ \<Rightarrow> Some d) = found"
    and ne: "or_empty (map_option (\<lambda>d. if d = [] then d else with_text_id (crepr C) d) found) \<noteq> []"
    and pending: "ditem (or_empty (map_option (\<lambda>d. if d = [] then d else with_text_id (crepr C) d) found)) ''status'' = Inr (VStr ''pending'')"
    and fin: "\<exists>b conflict. settle_conflict C now uid token ?q r by_user conflict v db = (Inr b, db')"
    by (auto simp: resolve_conflict_def get_conflict_by_id_def conflict_filter_def run_iff find_one_run Let_def split: if_splits)
  from found ne obtain c cs where c: "filter (match_filter ?q) (conflicts_of db) = c # cs" "found = Some c" "c \<noteq> []"
    by (auto simp: or_empty_def split: list.splits if_splits)
  with pending have st: "dget c ''status'' = VStr ''pending''"
    by (auto simp: or_empty_def ditem_def with_text_id_get split: if_splits)
  from fin obtain b conflict where "settle_conflict C now uid token ?q r by_user conflict v db = (Inr b, db')" by blast
  from settle_conflicts [OF c(1) this]
  have "conflicts_of db' = update_first (match_filter ?q) (\<lambda>_. snd (apply_set (resolution_fields now r by_user v) c)) (conflicts_of db)" .
  with that i c(1) st show thesis by blast
qed

lemma resolve_again:
  assumes i: "oid_valid (cstore C) i" and hit: "filter (match_filter [(''_id'', CEq (VOid i))]) (conflicts_of db) = c # cs"
    and st: "dget c ''status'' = VStr s" "s \<noteq> ''pending''"
  shows "resolve_conflict C now uid token i r by_user merged db = (Inl (ValueError (''Conflict '' @ i @ '' already resolved'')), db)"
proof -
  have c: "dhas c ''status''" "c \<noteq> []" using st(1) by (auto simp: dget_def dhas_def split: option.splits)
  let ?q = "[(''_id'', CEq (VOid i))]"
  have get: "get_conflict_by_id C i db = (Inr (Some (with_text_id (crepr C) c)), db)"
    using i hit c by (simp add: get_conflict_by_id_def conflict_filter_def run_simps find_one_run)
  have "ditem (with_text_id (crepr C) c) ''status'' = Inr (VStr s)"
    using c st by (simp add: ditem_def with_text_id_get)
  with get st(2) show ?thesis by (simp add: resolve_conflict_def Let_def bindM_run or_empty_def raise_if_run liftM_run)
qed

lemma resolve_then_again:
  assumes "resolve_conflict C now uid token i r by_user merged db = (Inr out, db')"
  shows "resolve_conflict C now' uid' token' i r' by_user' merged' db' =
    (Inl (ValueError (''Conflict '' @ i @ '' already resolved'')), db')"
proof (rule resolve_conflict_effect [OF assms])
  fix c cs v
  let ?q = "[(''_id'', CEq (VOid i))]" and ?c = "snd (apply_set (resolution_fields now r by_user v) c)"
  assume i: "oid_valid (cstore C) i" and hit: "filter (match_filter ?q) (conflicts_of db) = c # cs"
    and db': "conflicts_of db' = update_first (match_filter ?q) (\<lambda>_. ?c) (conflicts_of db)"
  have "dget ?c ''_id'' = dget c ''_id''" by (rule apply_set_other [OF resolution_fields_status(2)])
  moreover have "match_filter ?q c" using filter_hd_sat [OF hit] by simp
  ultimately have "match_filter ?q ?c" by (simp add: field_values_def)
  from filter_hd_update_first [OF hit this, folded db'] obtain es where "filter (match_filter ?q) (conflicts_of db') = ?c # es"
    by blast
  from resolve_again [OF i this resolution_fields_status(1)] show ?thesis by simp
qed

end

section \<open>Properties\<close>

text \<open>(C14) A conflict is resolved once: after a resolution that returned, every further attempt, with
  whatever resolution, is refused and changes nothing.\<close>

theorem conflict_resolved_once:
  assumes "conflict_resolver C" "resolve_conflict C now uid token i r by_user merged db = (Inr out, db')"
  shows "resolve_conflict C now' uid' token' i r' by_user' merged' db' =
    (Inl (ValueError (''Conflict '' @ i @ '' already resolved'')), db')"
  using conflict_resolver.resolve_then_again [OF assms] .

lemma keeps_lookup [keeps_intros]: "keeps P (get_conflict_by_id C i)"
  unfolding get_conflict_by_id_def by (intro keeps_intros)


lemma resolved_value_text_id: "resolved_value r merged (with_text_id rp c) = resolved_value r merged c"
  by (cases r) (simp_all add: resolved_value_def ditem_def with_text_id_get)

lemma fork_effect:
  assumes store: "document_store (cstore C)"
    and run: "fork_approved_record C now entity_type lid line v db = (Inr u, db')"
  shows "docs (cstore C) ''count_lines'' db' = docs (cstore C) ''count_lines'' db"
    and "\<exists>j. docs (cstore C) ''conflict_forks'' db' =
      docs (cstore C) ''conflict_forks'' db @ [dset_default ''_id'' j (forked_doc now lid line v)]"
proof -
  from run obtain j t k where j: "insert_one (cstore C) ''conflict_forks'' (forked_doc now lid line v) db = (Inr j, t)"
    and k: "insert_one (cstore C) ''audit_logs''
       [(''event'', VStr ''RECORD_FORKED''), (''entity_type'', VStr entity_type), (''entity_id'', VStr lid),
        (''timestamp'', VDate now (Some 0)),
        (''details'', VStr ''Conflict resolution triggered a fork to preserve approved state.'')] t = (Inr k, db')"
    by (auto simp: fork_approved_record_def run_iff)
  note frame = document_store.insert_one_frame [OF store]
  show "docs (cstore C) ''count_lines'' db' = docs (cstore C) ''count_lines'' db"
    using frame [OF j, of "''count_lines''"] frame [OF k, of "''count_lines''"] by simp
  show "\<exists>j. docs (cstore C) ''conflict_forks'' db' =
      docs (cstore C) ''conflict_forks'' db @ [dset_default ''_id'' j (forked_doc now lid line v)]"
    using document_store.insert_one_docs [OF store j] frame [OF k, of "''conflict_forks''"] by auto
qed

text \<open>(C16) A line that is approved or locked is never overwritten by a resolution: the resolved data is
  stored as a fork and the lines stay as they are.\<close>

theorem approved_line_forked:
  assumes store: "document_store (cstore C)"
    and run: "resolve_conflict C now uid token i r by_user merged db = (Inr out, db')" "r \<noteq> IGNORE"
    and c: "filter (match_filter [(''_id'', CEq (VOid i))]) (docs (cstore C) ''sync_conflicts'' db) = c # cs"
    and v: "resolved_value r merged c = Inr v" "truthy v"
    and entity: "dget c ''entity_type'' = VStr ''count_line''" "dget c ''entity_id'' = VStr lid"
    and line: "filter (match_filter (entity_lookup C lid)) (docs (cstore C) ''count_lines'' db) = line # ls"
    and approved: "is_approved_line (crepr C) line" "line \<noteq> []"
  shows "dget out ''resolution'' = VStr ''FORKED'' \<and> docs (cstore C) ''count_lines'' db' = docs (cstore C) ''count_lines'' db \<and>
    (\<exists>j. docs (cstore C) ''conflict_forks'' db' =
       docs (cstore C) ''conflict_forks'' db @ [dset_default ''_id'' j (forked_doc now lid line v)])"
proof -
  let ?q = "[(''_id'', CEq (VOid i))]" and ?c = "with_text_id (crepr C) c" and ?row = "resolution_fields now r by_user v"
  have "c \<noteq> []" using entity(1) by (auto simp: dget_def)
  then obtain b where settle: "settle_conflict C now uid token ?q r by_user ?c v db = (Inr b, db')"
    and out: "dget out ''resolution'' = VStr (if b then ''FORKED'' else resolution_value r)"
    using run(1) c v(1)
    by (auto simp: resolve_conflict_def get_conflict_by_id_def conflict_filter_def run_iff Let_def or_empty_def
        document_store.find_one_run [OF store] resolved_value_text_id dget_def split: if_splits)
  have fields: "line_text (crepr C) ?c ''entity_type'' = ''count_line''" "line_text (crepr C) ?c ''entity_id'' = lid"
    using entity by (auto simp: line_text_def with_text_id_get py_or_def)
  from settle run(2) v(2) obtain in_tx where "apply_resolution C now uid token ?q ?row ?c v in_tx db = (Inr b, db')"
    by (auto simp: settle_conflict_def Let_def with_session_def unit_of_work_committed)
  moreover define rest where "rest = bindM (find_one (cstore C) ''count_lines'' (entity_lookup C lid)) (\<lambda>target.
      if or_empty target \<noteq> [] \<and> is_approved_line (crepr C) (or_empty target) then
        bindM (fork_approved_record C now ''count_line'' lid (or_empty target) v) (\<lambda>_. returnM True)
      else bindM (whenM (''count_line'' \<noteq> [] \<and> lid \<noteq> []) (apply_resolved_data C now uid token in_tx ''count_line'' lid (dict_or_empty v)))
        (\<lambda>_. returnM False))"
  ultimately have "bindM (update_one (cstore C) ''sync_conflicts'' ?q [(''$set'', VDict ?row)]) (\<lambda>_. rest) db = (Inr b, db')"
    unfolding apply_resolution_def Let_def fields by (simp only: if_True simp_thms)
  then obtain n t where t: "update_one (cstore C) ''sync_conflicts'' ?q [(''$set'', VDict ?row)] db = (Inr n, t)"
    and rest: "rest t = (Inr b, db')" unfolding bindM_iff by blast
  have same: "docs (cstore C) k t = docs (cstore C) k db" if "k \<noteq> ''sync_conflicts''" for k
    by (rule document_store.update_one_frame [OF store t that])
  have "find_one (cstore C) ''count_lines'' (entity_lookup C lid) t = (Inr (Some line), t)"
    using line same by (simp add: document_store.find_one_run [OF store])
  with rest approved obtain u where "fork_approved_record C now ''count_line'' lid line v t = (Inr u, db')" "b"
    by (auto simp: rest_def bindM_run or_empty_def returnM_run split: prod.splits sum.splits)
  from fork_effect [OF store this(1)] this(2) out same show ?thesis by simp
qed

text \<open>A resolution the API does not know is reported as an internal error: the 400 raised for it is
  caught by the route's own handler. Nothing is changed.\<close>

theorem invalid_resolution_500:
  assumes "parse_resolution s = None"
  shows "resolve_conflict_route C now uid token user i s merged db =
      (Inl (HTTPException 500 (''Failed to resolve conflict: '' @ error_text C (HTTPException 400 (''Invalid resolution: '' @ s)))), db) \<and>
    batch_resolve_conflicts C now uids user ids s db =
      (Inl (HTTPException 500 (''Failed to batch resolve: '' @ error_text C (HTTPException 400 (''Invalid resolution: '' @ s)))), db)"
  using assms
  by (simp add: resolve_conflict_route_def batch_resolve_conflicts_def resolution_errors_def checked_resolution_def run_simps)

section \<open>Finalizing by a resolution\<close>

lemma dget_filter: "P k \<Longrightarrow> dget (filter (\<lambda>(j, _). P j) d) k = dget d k"
  by (induction d) (auto simp: dget_def split: option.splits if_splits)

context lifecycle_service
begin

lemma transition_core_last:
  "transition_session_core L now sid target actor note ev db = (Inr res, db') \<Longrightarrow>
   ensure_session_exists L sid db' = (Inr res, db')"
  by (auto simp: transition_session_core_def run_iff Let_def ensure_session_exists_iff)

lemma transition_to_finalized:
  assumes run: "transition_session L now in_tx sid ''FINALIZED'' actor note ev db = (Inr res, db')"
    and "filter (named sid) (sessions db) = [d]" "\<forall>e \<in> set (sessions db). versioned e"
  shows "ensure_session_not_finalized L sid db' = (Inl (GovernanceViolation ''Session is finalized. Mutation blocked.''), db')"
proof -
  from run have core: "transition_session_core L now sid ''FINALIZED'' actor note ev db = (Inr res, db')"
    by (simp add: transition_session_def in_transaction_success)
  have fin: "normalize_session_status (lrepr L) (VStr ''FINALIZED'') = ''FINALIZED''" by code_simp
  with transition_core_success [OF core assms(2,3)] have "dget res ''status'' = VStr ''FINALIZED''" by simp
  with fin have "session_closed (lrepr L) res" by (simp add: session_closed_def)
  moreover from transition_core_last [OF core] obtain ds where "res \<noteq> []" "filter (named sid) (sessions db') = res # ds"
    by (auto simp: ensure_session_exists_iff)
  ultimately show ?thesis by (intro not_finalized_closed)
qed

end

text \<open>A resolution whose data finalizes its session never succeeds: the lifecycle service refuses to
  write the fields of the session that was finalized a step before, so the conflict stays open.\<close>

theorem finalizing_resolution_refused:
  assumes "conflict_resolver C"
    and "find_session_for_entity C eid db = (Inr (Some d), db)" "d \<noteq> []"
    and "sid = py_str (crepr C) (py_or (any_of d [''id'', ''session_id'']) (VStr eid))"
    and "filter (match_filter (session_lookup sid)) (docs (cstore C) ''sessions'' db) = [d]"
    and "\<forall>e \<in> set (docs (cstore C) ''sessions'' db). versioned e"
    and "dget data ''status'' = VStr s" "upper (strip s) = ''FINALIZED''"
    and "upper (text_of (crepr C) d ''status'') \<noteq> ''FINALIZED''"
  shows "fst (apply_to_session C now in_tx eid data db) \<noteq> Inr u"
proof
  assume "fst (apply_to_session C now in_tx eid data db) = Inr u"
  then obtain db' where run: "apply_to_session C now in_tx eid data db = (Inr u, db')" by (metis prod.collapse)
  let ?L = "wired (clines C)" and ?clean = "sanitize_session_resolution_fields data"
  have L: "lifecycle_service ?L" "lstore ?L = cstore C"
    using assms(1) wired_services.wired_lifecycle line_writer.life_store
    by (auto simp: conflict_resolver_def wired_services_def)
  have "dget ?clean ''status'' = VStr s"
    using assms(7) by (auto simp: sanitize_session_resolution_fields_def without_keys_def dget_filter)
  moreover have "strip s \<noteq> []" using assms(8) by (auto simp: upper_def)
  ultimately obtain res t where t: "transition_session ?L now in_tx sid ''FINALIZED'' ''conflict_resolver''
      (VStr ''Sync conflict resolution'') None db = (Inr res, t)"
    and up: "update_session_fields ?L now sid (resolve_marks now (dpop ''status'' ?clean)) None ''conflict_resolver'' t = (Inr u, db')"
    using run assms(2,3,4,8,9) by (auto simp: apply_to_session_def run_iff or_empty_def Let_def)
  have "ensure_session_not_finalized ?L sid t = (Inl (GovernanceViolation ''Session is finalized. Mutation blocked.''), t)"
    using lifecycle_service.transition_to_finalized [OF L(1) t, unfolded L(2), OF assms(5,6)] .
  moreover have "resolve_marks now (dpop ''status'' ?clean) \<noteq> []" by (simp add: resolve_marks_def)
  ultimately show False using up by (auto simp: update_session_fields_def guarded_session_update_def bindM_run)
qed

section \<open>The queue row of a conflict\<close>

definition queue_rows :: "'db events \<Rightarrow> string \<Rightarrow> 'db \<Rightarrow> doc list" where
  "queue_rows E cid db = filter (\<lambda>r. dget r ''queue_id'' = VStr cid) (docs (estore E) ''sync_queue'' db)"

definition queue_ids_text :: "'db events \<Rightarrow> 'db \<Rightarrow> bool" where
  "queue_ids_text E db \<longleftrightarrow> (\<forall>r \<in> set (docs (estore E) ''sync_queue'' db). \<exists>s. dget r ''queue_id'' = VStr s)"

lemma filter_update_first_none:
  assumes "\<And>x. x \<in> set xs \<Longrightarrow> Q x \<Longrightarrow> \<not> P x" "\<not> P y"
  shows "filter P (update_first Q (\<lambda>_. y) xs) = filter P xs"
  using assms by (induction xs) auto

context event_projections
begin

lemma put_queue_row:
  assumes other: "cid \<noteq> token"
    and run: "put_row E ''sync_queue'' [(''queue_id'', CEq (VStr token))] (queue_row now event payload token) db = (r, db')"
    and ids: "queue_ids_text E db"
  shows "queue_ids_text E db' \<and> queue_rows E cid db' = queue_rows E cid db"
proof -
  let ?rows = "docs (estore E) ''sync_queue''" and ?q = "[(''queue_id'', CEq (VStr token))]"
  let ?row = "queue_row now event payload token"
  obtain x t where up: "upsert_one (estore E) ''sync_queue'' ?q [(''$set'', VDict ?row)] db = (x, t)" by force
  with run have t: "t = db'" by (auto simp: put_row_def bindM_run returnM_run split: sum.splits)
  have hits: "dget d ''queue_id'' = VStr token" if "d \<in> set (?rows db)" "match_filter ?q d" for d
    using that ids by (auto simp: queue_ids_text_def field_values_def)
  have key: "dget (snd (apply_set ?row d)) ''queue_id'' = VStr token" for d
    by (rule apply_set_get_string) (simp_all add: queue_row_def)
  show ?thesis
  proof (cases "filter (match_filter ?q) (?rows db)")
    case Nil
    have "upsert_base ?q [(''$set'', VDict ?row)] = [(''queue_id'', VStr token)]"
      by (simp add: upsert_base_def dget_def dict_or_empty_def)
    with apply_set_update_total [of ?row "[(''queue_id'', VStr token)]"] obtain m where
      "apply_update [(''$set'', VDict ?row)] (upsert_base ?q [(''$set'', VDict ?row)]) =
         (Inr m, snd (apply_set ?row [(''queue_id'', VStr token)]))" by auto
    from upsert_miss [OF up Nil this] obtain i where
      "?rows t = ?rows db @ [dset_default ''_id'' i (snd (apply_set ?row [(''queue_id'', VStr token)]))]" by auto
    moreover have "dget (dset_default ''_id'' i (snd (apply_set ?row [(''queue_id'', VStr token)]))) ''queue_id'' = VStr token"
      using key by (simp add: dset_default_def doc_simps)
    ultimately show ?thesis using ids t other by (auto simp: queue_ids_text_def queue_rows_def)
  next
    case (Cons d ds)
    from up Cons have "update_one (estore E) ''sync_queue'' ?q [(''$set'', VDict ?row)] db = (x, t)" by (simp add: upsert_hit)
    moreover obtain m t' where "update_one (estore E) ''sync_queue'' ?q [(''$set'', VDict ?row)] db = (Inr (1, m), t')"
      "?rows t' = update_first (match_filter ?q) (\<lambda>_. snd (apply_set ?row d)) (?rows db)"
      by (rule update_one_set [OF Cons])
    ultimately have rows: "?rows t = update_first (match_filter ?q) (\<lambda>_. snd (apply_set ?row d)) (?rows db)" by simp
    have "queue_rows E cid t = queue_rows E cid db"
      unfolding queue_rows_def rows by (rule filter_update_first_none) (use hits key other in auto)
    moreover have "queue_ids_text E t"
      using ids set_update_first_subset [of "match_filter ?q" "\<lambda>_. snd (apply_set ?row d)" "?rows db"] key
      unfolding queue_ids_text_def rows by (auto simp: subset_iff)
    ultimately show ?thesis by (simp add: t)
  qed
qed

lemma keeps_queue_row:
  assumes "cid \<noteq> token" "event_name (erepr E) event \<in> {''SYNC_CONFLICT_RECORDED'', ''SYNC_CONFLICT_RESOLVED''}"
    and "dget (payload_of event) ''queue_id'' = VStr token" "nstr (erepr E) (VStr token) = Some token"
  shows "keeps (\<lambda>db. queue_ids_text E db \<and> queue_rows E cid db = rows) (project_event E now event (payload_of event))"
proof -
  have q: "nstr (erepr E) (py_or (dget (payload_of event) ''queue_id'') v) = Some token" for v
    using assms(3,4) by (auto simp: nstr_def py_or_def Let_def split: if_splits)
  have "project_event E now event (payload_of event) = project_sync_queue E now event (payload_of event)"
    using assms(2) by (auto simp: project_event_def SESSION_EVENTS_def INVENTORY_EVENTS_def fun_eq_iff run_simps Let_def)
  moreover have "keeps (\<lambda>db. queue_ids_text E db \<and> queue_rows E cid db = rows) (project_sync_queue E now event (payload_of event))"
    unfolding project_sync_queue_def q using put_queue_row [OF assms(1)] by (auto simp: keeps_def)
  ultimately show ?thesis by simp
qed

lemma keeps_queue_apply:
  assumes "cid \<noteq> token" "event_name (erepr E) event \<in> {''SYNC_CONFLICT_RECORDED'', ''SYNC_CONFLICT_RESOLVED''}"
    and "dget (payload_of event) ''queue_id'' = VStr token" "nstr (erepr E) (VStr token) = Some token"
  shows "keeps (\<lambda>db. queue_ids_text E db \<and> queue_rows E cid db = rows) (apply_event E in_tx now event)"
proof -
  let ?Q = "\<lambda>db. queue_ids_text E db \<and> queue_rows E cid db = rows"
  have other: "keeps ?Q m" if "\<And>P. keeps (\<lambda>db. P (docs (estore E) ''sync_queue'' db)) m" for m :: "('db, 'a) comp"
    using that unfolding queue_ids_text_def queue_rows_def .
  have "keeps ?Q (begin_event_apply E now i event payload)" for i payload
    unfolding begin_event_apply_def by (rule other) (intro keeps_intros keeps_row keeps_insert_other, simp_all)
  moreover have "keeps ?Q (finalize_event_apply E now i event payload)" for i payload
    unfolding finalize_event_apply_def by (rule other) (intro keeps_intros keeps_update_other, simp)
  moreover have "keeps ?Q (drop_row E ''event_applied'' q)" for q
    by (rule other) (intro keeps_row, simp)
  ultimately show ?thesis
    unfolding apply_event_def apply_event_core_def committed_def Let_def
    by (auto intro!: keeps_intros keeps_cleanup_on_error keeps_queue_row [OF assms] split: option.splits)
qed

end

lemma keeps_swallow:
  assumes "keeps P m"
  shows "keeps P (\<lambda>s. case m s of (Inl x, t) \<Rightarrow> (if b then Inl x else Inr (), t) | (Inr _, t) \<Rightarrow> (Inr (), t))"
proof (rule keepsI)
  fix s r t
  assume s: "P s" and run: "(case m s of (Inl x, t) \<Rightarrow> (if b then Inl x else Inr (), t) | (Inr _, t) \<Rightarrow> (Inr (), t)) = (r, t)"
  obtain q u where q: "m s = (q, u)" by force
  with run have "t = u" by (cases q) auto
  with keepsD [OF assms s q] show "P t" by simp
qed

lemma event_doc_parts:
  "dget (event_doc now uid agg typ payload meta keys) ''event_type'' = VStr typ"
  "payload_of (event_doc now uid agg typ payload meta keys) = payload"
  by (simp_all add: event_doc_def dget_def payload_of_def dict_or_empty_def)

text \<open>The event that records the resolution of a line carries no conflict identifier: it opens a queue
  row of its own, and the row of the conflict keeps the state it had.\<close>

theorem resolution_leaves_queue_row:
  assumes store: "document_store (event_store W)" and "dget details ''conflict_id'' = VNone"
    and token: "nstr (event_repr W) (VStr token) = Some token" "cid \<noteq> token"
    and ids: "queue_ids_text (events_of W) db"
    and run: "record_sync_queue_event W in_tx now uid token ''SYNC_CONFLICT_RESOLVED'' sid item strategy details by_user db = (r, db')"
  shows "queue_rows (events_of W) cid db' = queue_rows (events_of W) cid db"
proof -
  let ?E = "events_of W" and ?rows = "queue_rows (events_of W) cid db"
  let ?Q = "\<lambda>db. queue_ids_text ?E db \<and> queue_rows ?E cid db = ?rows"
  have ep: "event_projections ?E" using store by (simp add: event_projections_def)
  have id: "first_string (nstr (event_repr W) (dget details ''conflict_id'')) token = token"
    using assms(2) by (simp add: first_string_def nstr_def)
  have name: "upper (strip ''SYNC_CONFLICT_RESOLVED'') = ''SYNC_CONFLICT_RESOLVED''" by code_simp
  have project: "keeps ?Q (project_appended W in_tx now True b e)"
    if "dget e ''event_type'' = VStr ''SYNC_CONFLICT_RESOLVED''" "dget (payload_of e) ''queue_id'' = VStr token" for b e
  proof -
    have "keeps ?Q (apply_event ?E in_tx now e)"
      by (rule event_projections.keeps_queue_apply [OF ep token(2) _ that(2) token(1)])
         (simp add: event_name_def text_of_def that(1) py_or_def name)
    then have "keeps ?Q (\<lambda>db. case apply_event ?E in_tx now e db of
        (Inl x, t) \<Rightarrow> (if b then Inl x else Inr (), t) | (Inr _, t) \<Rightarrow> (Inr (), t))"
      by (rule keeps_swallow)
    then show ?thesis unfolding project_appended_def is_enabled_def by (auto intro!: keeps_intros split: option.splits)
  qed
  have insert: "keeps ?Q (insert_one (event_store W) ''event_log'' e)" for e
    unfolding queue_ids_text_def queue_rows_def by (rule document_store.keeps_insert_other [OF store]) simp
  have project': "keeps ?Q (project_appended W in_tx now True b (event_doc now uid agg ''SYNC_CONFLICT_RESOLVED''
      ((''queue_id'', VStr token) # payload) meta keys))" for b agg payload meta keys
    by (rule project) (simp_all add: event_doc_parts, simp add: dget_def)
  have flag: "keeps ?Q (enforce_flag W None)" and find: "keeps ?Q (find_existing_event W k f)" for k f
    unfolding enforce_flag_def is_enabled_def find_existing_event_def by (auto intro!: keeps_intros split: option.splits)
  have "keeps ?Q (append_event W in_tx now uid token agg ''SYNC_CONFLICT_RESOLVED'' ((''queue_id'', VStr token) # payload) meta True None)"
    for agg payload meta
    unfolding append_event_def Let_def
    by (intro keeps_bindM flag find) (auto intro!: keeps_intros insert project' split: option.splits)
  then have "keeps ?Q (record_sync_queue_event W in_tx now uid token ''SYNC_CONFLICT_RESOLVED'' sid item strategy details by_user)"
    unfolding record_sync_queue_event_def Let_def id .
  from keepsD [OF this _ run] ids show ?thesis by simp
qed

section \<open>Examples\<close>

definition demo_resolver :: "memdb conflict_service" where
  "demo_resolver =
     \<lparr>clines = mem_lines show_nat (\<lambda>s. s = ''c1'') (\<lambda>n. int n * 1000000) (\<lambda>_ ds. ds) demo_digest,
      cevents = \<lparr>events_of = mem_events show_nat (\<lambda>s. s = ''c1'') (\<lambda>_. []) show_int, getenv = (\<lambda>_. None), scan_digest = (\<lambda>_. ''ab'')\<rparr>,
      parse_iso = (\<lambda>_. Inl (ValueError ''iso'')), error_text = (\<lambda>_. ''error'')\<rparr>"

interpretation mem_resolver: conflict_resolver demo_resolver
  using mem_wired.wired_services_axioms
  by (auto simp: conflict_resolver_def conflict_resolver_axioms_def demo_resolver_def mem_events_def mem_lines_def)

definition demo_conflict :: "doc \<Rightarrow> doc" where
  "demo_conflict data =
     [(''_id'', VOid ''c1''), (''status'', VStr ''pending''), (''entity_type'', VStr ''count_line''), (''entity_id'', VStr ''a''),
      (''local_data'', VDict data), (''server_data'', VDict [])]"

definition demo_conflict_db :: "string \<Rightarrow> doc \<Rightarrow> memdb" where
  "demo_conflict_db status data = \<lparr>colls = (\<lambda>c.
     if c = ''sync_conflicts'' then [demo_conflict data]
     else if c = ''sessions'' then [demo_session ''REVIEW'']
     else if c = ''sync_queue'' then [[(''queue_id'', VStr ''c1''), (''status'', VStr ''PENDING'')]]
     else if c = ''count_lines'' then
       [[(''_id'', VStr ''x''), (''id'', VStr ''a''), (''session_id'', VStr ''s1''), (''status'', VStr status)]]
     else []), next_id = 0\<rparr>"

lemma demo_resolver_store: "document_store (cstore demo_resolver)"
  by (rule mem_resolver.document_store_axioms)

theorem conflict_resolved_once_witness:
  "\<exists>out db'. resolve_conflict demo_resolver 5 ''u'' ''t'' ''c1'' IGNORE ''ann'' None (demo_conflict_db ''draft'' []) = (Inr out, db') \<and>
     resolve_conflict demo_resolver 6 ''u'' ''t'' ''c1'' ACCEPT_LOCAL ''bob'' None db' =
       (Inl (ValueError (''Conflict '' @ ''c1'' @ '' already resolved'')), db')"
proof -
  let ?run = "resolve_conflict demo_resolver 5 ''u'' ''t'' ''c1'' IGNORE ''ann'' None (demo_conflict_db ''draft'' [])"
  have "case fst ?run of Inl _ \<Rightarrow> False | Inr _ \<Rightarrow> True" by code_simp
  then obtain out db' where run: "?run = (Inr out, db')" by (cases ?run) (auto split: sum.splits)
  from conflict_resolved_once [OF mem_resolver.conflict_resolver_axioms run] run show ?thesis by blast
qed


theorem approved_line_forked_witness:
  "\<exists>out db'. resolve_conflict demo_resolver 5 ''u'' ''t'' ''c1'' ACCEPT_LOCAL ''ann'' None
       (demo_conflict_db ''approved'' [(''notes'', VStr ''n'')]) = (Inr out, db') \<and>
     dget out ''resolution'' = VStr ''FORKED'' \<and>
     docs (cstore demo_resolver) ''count_lines'' db' =
       [[(''_id'', VStr ''x''), (''id'', VStr ''a''), (''session_id'', VStr ''s1''), (''status'', VStr ''approved'')]]"
proof -
  let ?data = "[(''notes'', VStr ''n'')]"
  let ?db = "demo_conflict_db ''approved'' ?data"
  let ?line = "[(''_id'', VStr ''x''), (''id'', VStr ''a''), (''session_id'', VStr ''s1''), (''status'', VStr ''approved'')]"
  let ?run = "resolve_conflict demo_resolver 5 ''u'' ''t'' ''c1'' ACCEPT_LOCAL ''ann'' None ?db"
  have "case fst ?run of Inl _ \<Rightarrow> False | Inr _ \<Rightarrow> True" by code_simp
  then obtain out db' where run: "?run = (Inr out, db')" by (cases ?run) (auto split: sum.splits)
  have h: "ACCEPT_LOCAL \<noteq> IGNORE"
    "filter (match_filter [(''_id'', CEq (VOid ''c1''))]) (docs (cstore demo_resolver) ''sync_conflicts'' ?db) = [demo_conflict ?data]"
    "resolved_value ACCEPT_LOCAL None (demo_conflict ?data) = Inr (VDict ?data)" "truthy (VDict ?data)"
    "dget (demo_conflict ?data) ''entity_type'' = VStr ''count_line''" "dget (demo_conflict ?data) ''entity_id'' = VStr ''a''"
    "filter (match_filter (entity_lookup demo_resolver ''a'')) (docs (cstore demo_resolver) ''count_lines'' ?db) = [?line]"
    "is_approved_line (crepr demo_resolver) ?line" "docs (cstore demo_resolver) ''count_lines'' ?db = [?line]"
    by code_simp+
  from approved_line_forked [OF demo_resolver_store run h(1-8)] h(9) run show ?thesis by auto
qed

theorem finalizing_resolution_refused_witness:
  "fst (apply_to_session demo_resolver 5 False ''s1'' [(''status'', VStr ''finalized'')] (demo_conflict_db ''approved'' [])) \<noteq> Inr ()"
proof -
  let ?db = "demo_conflict_db ''approved'' []" and ?d = "demo_session ''REVIEW''"
  have h: "?d \<noteq> []" "''s1'' = py_str (crepr demo_resolver) (py_or (any_of ?d [''id'', ''session_id'']) (VStr ''s1''))"
    "filter (match_filter (session_lookup ''s1'')) (docs (cstore demo_resolver) ''sessions'' ?db) = [?d]"
    "dget [(''status'', VStr ''finalized'')] ''status'' = VStr ''finalized''" "upper (strip ''finalized'') = ''FINALIZED''"
    "upper (text_of (crepr demo_resolver) ?d ''status'') \<noteq> ''FINALIZED''"
    by code_simp+
  have found: "find_session_for_entity demo_resolver ''s1'' ?db = (Inr (Some ?d), ?db)"
  proof -
    have "fst (find_session_for_entity demo_resolver ''s1'' ?db) = Inr (Some ?d)" by code_simp
    moreover have "keeps P (find_session_for_entity demo_resolver ''s1'')" for P
      unfolding find_session_for_entity_def by (intro keeps_intros)
    ultimately show ?thesis using keeps_same [where m = "find_session_for_entity demo_resolver ''s1''"] by (metis prod.collapse)
  qed
  have "\<forall>e \<in> set (docs (cstore demo_resolver) ''sessions'' ?db). versioned e"
    by (simp add: demo_resolver_def mem_lines_def demo_conflict_db_def demo_session_def versioned_def dget_def)
  from finalizing_resolution_refused [OF mem_resolver.conflict_resolver_axioms found h(1,2,3) this h(4-6)] show ?thesis .
qed

theorem resolution_leaves_queue_row_witness:
  "\<exists>r db'. record_sync_queue_event (cevents demo_resolver) False 5 ''u'' ''t'' ''SYNC_CONFLICT_RESOLVED'' None None ''quantity_merge'' [] None
       (demo_conflict_db ''draft'' []) = (r, db') \<and>
     queue_rows (events_of (cevents demo_resolver)) ''c1'' db' = [[(''queue_id'', VStr ''c1''), (''status'', VStr ''PENDING'')]]"
proof -
  let ?db = "demo_conflict_db ''draft'' []" and ?W = "cevents demo_resolver"
  obtain r db' where run: "record_sync_queue_event ?W False 5 ''u'' ''t'' ''SYNC_CONFLICT_RESOLVED'' None None ''quantity_merge'' [] None ?db = (r, db')"
    by force
  have store: "document_store (event_store ?W)" unfolding mem_resolver.one_store by (rule demo_resolver_store)
  have h: "dget ([] :: doc) ''conflict_id'' = VNone" "nstr (event_repr ?W) (VStr ''t'') = Some ''t''" "''c1'' \<noteq> ''t''"
    "queue_rows (events_of ?W) ''c1'' ?db = [[(''queue_id'', VStr ''c1''), (''status'', VStr ''PENDING'')]]" by code_simp+
  have "queue_ids_text (events_of ?W) ?db"
    by (simp add: queue_ids_text_def demo_resolver_def mem_events_def demo_conflict_db_def dget_def)
  from resolution_leaves_queue_row [OF store h(1-3) this run] h(4) run show ?thesis by auto
qed

theorem invalid_resolution_500_witness:
  "\<exists>m. fst (resolve_conflict_route demo_resolver 5 ''u'' ''t'' [(''username'', VStr ''ann'')] ''c1'' ''discard'' None
     (demo_conflict_db ''draft'' [])) = Inl (HTTPException 500 m)"
proof -
  have "parse_resolution ''discard'' = None" by code_simp
  from invalid_resolution_500 [OF this, of demo_resolver 5 "''u''" "''t''" "[(''username'', VStr ''ann'')]" "''c1''" None
    "demo_conflict_db ''draft'' []" "\<lambda>_. ''u''" "[]"] show ?thesis by auto
qed

end
