(* ===== verification/RateLimiter.thy ===== *)
theory RateLimiter
  imports PyValue
begin

text \<open>
  The rate limiter (\<open>services/rate_limiting/limiter.py\<close>): a token bucket per user and endpoint,
  and the handler that bounds concurrent requests.

  The limiter's lock makes a call atomic, so a call is one step on its state. Times are in
  seconds; a call reads the clock up to five times, and \<open>clock i\<close> is its reading number \<open>i\<close>.
\<close>

section \<open>State\<close>

record limiter =
  default_rate :: int
  default_burst :: int
  per_user :: bool
  per_endpoint :: bool
  buckets :: "(string \<times> rat \<times> rat) list"
  request_counts :: "(string \<times> nat) list"
  window_start :: rat

definition window_size :: rat where
  "window_size = 60"

definition new_limiter :: "int \<Rightarrow> int \<Rightarrow> bool \<Rightarrow> bool \<Rightarrow> rat \<Rightarrow> limiter" where
  "new_limiter rate burst users endpoints now =
     \<lparr>default_rate = rate, default_burst = burst, per_user = users, per_endpoint = endpoints,
      buckets = [], request_counts = [], window_start = now\<rparr>"

record request =
  r_user :: "string option"
  r_endpoint :: "string option"
  r_rate :: "int option"
  r_burst :: "int option"
  clock :: "nat \<Rightarrow> rat"

section \<open>Operations\<close>

definition key_part :: "bool \<Rightarrow> string \<Rightarrow> string option \<Rightarrow> string list" where
  "key_part enabled name v =
     (case v of None \<Rightarrow> [] | Some s \<Rightarrow> if enabled \<and> s \<noteq> [] then [name @ s] else [])"

definition bucket_key :: "limiter \<Rightarrow> string option \<Rightarrow> string option \<Rightarrow> string" where
  "bucket_key L user endpoint =
     (let parts = key_part (per_user L) ''user:'' user @ key_part (per_endpoint L) ''endpoint:'' endpoint
      in if parts = [] then ''default'' else join ''|'' parts)"

definition refill_tokens :: "string \<Rightarrow> int \<Rightarrow> int \<Rightarrow> rat \<Rightarrow> limiter \<Rightarrow> rat \<times> limiter" where
  "refill_tokens key rate burst now L =
     (case map_of (buckets L) key of
        None \<Rightarrow> (of_int burst, L\<lparr>buckets := AList.update key (of_int burst, now) (buckets L)\<rparr>)
      | Some (tokens, last_refill) \<Rightarrow>
          (let new_tokens = min (of_int burst) (tokens + of_int rate / 60 * (now - last_refill))
           in (new_tokens, L\<lparr>buckets := AList.update key (new_tokens, now) (buckets L)\<rparr>)))"

definition cleanup_old_buckets :: "rat \<Rightarrow> limiter \<Rightarrow> limiter" where
  "cleanup_old_buckets now L =
     L\<lparr>buckets := filter (\<lambda>(_, _, last_refill). \<not> last_refill < now - 3600) (buckets L)\<rparr>"

definition limit_or :: "int option \<Rightarrow> int \<Rightarrow> int" where
  "limit_or v dflt = (case v of None \<Rightarrow> dflt | Some n \<Rightarrow> if n = 0 then dflt else n)"

definition consume_token :: "string \<Rightarrow> rat \<Rightarrow> rat \<Rightarrow> limiter \<Rightarrow> limiter" where
  "consume_token key tokens now L =
     L\<lparr>buckets := AList.update key (tokens - 1, now) (buckets L),
       request_counts := AList.update key
         (Suc (case map_of (request_counts L) key of None \<Rightarrow> 0 | Some n \<Rightarrow> n)) (request_counts L)\<rparr>"

definition periodic_cleanup :: "(nat \<Rightarrow> rat) \<Rightarrow> limiter \<Rightarrow> limiter" where
  "periodic_cleanup t L =
     (if t 2 - window_start L > window_size
      then (cleanup_old_buckets (t 3) L)\<lparr>request_counts := [], window_start := t 4\<rparr>
      else L)"

definition reset_in :: "int \<Rightarrow> int \<Rightarrow> rat \<Rightarrow> int" where
  "reset_in rate burst tokens = trunc (60 / of_int rate * (of_int burst - tokens))"

definition retry_after :: "int \<Rightarrow> rat \<Rightarrow> int" where
  "retry_after rate tokens = trunc (max 1 ((1 - tokens) * (60 / of_int rate)))"

definition allowed_info :: "int \<Rightarrow> int \<Rightarrow> rat \<Rightarrow> doc" where
  "allowed_info rate burst tokens =
     [(''allowed'', VBool True), (''remaining'', VInt (trunc tokens)), (''limit'', VInt rate),
      (''reset_in'', VInt (reset_in rate burst tokens))]"

definition denied_info :: "int \<Rightarrow> int \<Rightarrow> rat \<Rightarrow> doc" where
  "denied_info rate burst tokens =
     [(''allowed'', VBool False), (''remaining'', VInt 0), (''limit'', VInt rate),
      (''reset_in'', VInt (reset_in rate burst tokens)), (''retry_after'', VInt (retry_after rate tokens))]"

definition is_allowed :: "request \<Rightarrow> (limiter, bool \<times> doc) comp" where
  "is_allowed q L =
     (let key = bucket_key L (r_user q) (r_endpoint q);
          rate = limit_or (r_rate q) (default_rate L);
          burst = limit_or (r_burst q) (default_burst L) in
      case refill_tokens key rate burst (clock q 0) L of (tokens, L1) \<Rightarrow>
        if tokens \<ge> 1
        then (let L2 = periodic_cleanup (clock q) (consume_token key tokens (clock q 1) L1) in
              (if rate = 0 then Inl (ZeroDivisionError ''float division by zero'')
               else Inr (True, allowed_info rate burst (tokens - 1)), L2))
        else (if rate = 0 then Inl (ZeroDivisionError ''float division by zero'')
              else Inr (False, denied_info rate burst tokens), L1))"

definition get_stats :: "limiter \<Rightarrow> doc" where
  "get_stats L =
     [(''active_buckets'', VInt (int (length (buckets L)))),
      (''total_requests'', VInt (int (sum_list (map snd (request_counts L))))),
      (''request_counts'', VDict (map (\<lambda>(k, n). (k, VInt (int n))) (request_counts L))),
      (''window_start'', VFloat (window_start L))]"

section \<open>Runs\<close>

text \<open>The requests of a run in their order; the result lists who was admitted.\<close>

fun admissions :: "request list \<Rightarrow> limiter \<Rightarrow> (string \<times> bool) list \<times> limiter" where
  "admissions [] L = ([], L)"
| "admissions (q # qs) L =
     (case is_allowed q L of (r, L1) \<Rightarrow>
        (case admissions qs L1 of (out, L2) \<Rightarrow>
           ((bucket_key L (r_user q) (r_endpoint q), case r of Inl _ \<Rightarrow> False | Inr (ok, _) \<Rightarrow> ok) # out, L2)))"

definition admitted :: "string \<Rightarrow> (string \<times> bool) list \<Rightarrow> nat" where
  "admitted key out = length (filter (\<lambda>(k, ok). k = key \<and> ok) out)"

text \<open>The clock never runs backwards, within a request and between requests.\<close>

fun clock_runs :: "rat \<Rightarrow> request list \<Rightarrow> rat \<Rightarrow> bool" where
  "clock_runs t [] u = (t \<le> u)"
| "clock_runs t (q # qs) u =
     (t \<le> clock q 0 \<and> clock q 0 \<le> clock q 1 \<and> clock q 1 \<le> clock q 2 \<and> clock q 2 \<le> clock q 3 \<and>
      clock q 3 \<le> clock q 4 \<and> clock_runs (clock q 4) qs u)"

text \<open>The tokens of a key at a time: what a refill at that time would leave in its bucket.\<close>

definition level :: "int \<Rightarrow> int \<Rightarrow> string \<Rightarrow> limiter \<Rightarrow> rat \<Rightarrow> rat" where
  "level rate burst key L t =
     (case map_of (buckets L) key of
        None \<Rightarrow> of_int burst
      | Some (tokens, last_refill) \<Rightarrow> min (of_int burst) (tokens + of_int rate / 60 * (t - last_refill)))"

text \<open>The bucket of a key holds a number of tokens that is not negative and was filled in the past.\<close>

definition sound :: "string \<Rightarrow> limiter \<Rightarrow> rat \<Rightarrow> bool" where
  "sound key L t \<longleftrightarrow> distinct (map fst (buckets L)) \<and>
     (case map_of (buckets L) key of None \<Rightarrow> True | Some (tokens, last_refill) \<Rightarrow> 0 \<le> tokens \<and> last_refill \<le> t)"

text \<open>A request draws on the bucket of the key with these limits, or on another bucket.\<close>

definition drawn_with :: "string \<Rightarrow> int \<Rightarrow> int \<Rightarrow> limiter \<Rightarrow> request \<Rightarrow> bool" where
  "drawn_with key rate burst L q \<longleftrightarrow> bucket_key L (r_user q) (r_endpoint q) = key \<longrightarrow>
     limit_or (r_rate q) (default_rate L) = rate \<and> limit_or (r_burst q) (default_burst L) = burst"

definition same_settings :: "limiter \<Rightarrow> limiter \<Rightarrow> bool" where
  "same_settings L M \<longleftrightarrow> default_rate M = default_rate L \<and> default_burst M = default_burst L \<and>
     per_user M = per_user L \<and> per_endpoint M = per_endpoint L"

section \<open>The level of a bucket\<close>

lemma surviving_bucket:
  assumes "distinct (map fst bs)"
  shows "map_of (filter keep bs) key = Option.bind (map_of bs key) (\<lambda>entry. if keep (key, entry) then Some entry else None)"
  using assms
proof (induction bs)
  case (Cons b bs)
  obtain j entry where b: "b = (j, entry)" by (cases b)
  show ?case
  proof (cases "j = key")
    case True
    with Cons.prems b have "map_of bs key = None" by (auto simp: map_of_eq_None_iff)
    with True b Cons show ?thesis by simp
  next
    case False
    with b Cons show ?thesis by simp
  qed
qed simp

lemma distinct_filter_keys: "distinct (map fst xs) \<Longrightarrow> distinct (map fst (filter P xs))"
  by (induction xs) auto

lemma same_settings_ops [simp]:
  "same_settings L L"
  "same_settings L (snd (refill_tokens key rate burst now L))"
  "same_settings L (consume_token key tokens now M) = same_settings L M"
  "same_settings L (periodic_cleanup t M) = same_settings L M"
  by (auto simp: same_settings_def refill_tokens_def consume_token_def periodic_cleanup_def
      cleanup_old_buckets_def Let_def split: option.splits)

lemma level_grows:
  assumes "0 < rate" "t \<le> u"
  shows "level rate burst key L u \<le> level rate burst key L t + of_int rate / 60 * (u - t)"
proof (cases "map_of (buckets L) key")
  case None
  with assms show ?thesis by (simp add: level_def)
next
  case (Some p)
  obtain tokens last_refill where p: "p = (tokens, last_refill)" by (cases p)
  have "c * (u - last_refill) = c * (t - last_refill) + c * (u - t)" for c :: rat
    by (simp add: algebra_simps)
  from this [of "of_int rate / 60"] have
    "of_int rate / 60 * (u - last_refill) = of_int rate / 60 * (t - last_refill) + of_int rate / 60 * (u - t)" .
  moreover have "0 \<le> of_int rate / 60 * (u - t)" using assms by simp
  ultimately show ?thesis by (simp add: level_def Some p min_def add_divide_distrib)
qed

lemma sound_later: "sound key L t \<Longrightarrow> t \<le> u \<Longrightarrow> sound key L u"
  by (auto simp: sound_def simp del: map_of_eq_Some_iff split: option.splits)

lemma refill_same:
  assumes "sound key L t" "t \<le> s" "0 < rate" "0 \<le> burst"
    and "refill_tokens key rate burst s L = (tokens, M)"
  shows "tokens = level rate burst key L s" "0 \<le> tokens" "tokens \<le> of_int burst"
    "map_of (buckets M) key = Some (tokens, s)" "distinct (map fst (buckets M))"
  using assms
  by (auto simp: refill_tokens_def level_def sound_def Let_def update_conv' distinct_update simp del: map_of_eq_Some_iff split: option.splits)

lemma refill_other:
  assumes "refill_tokens k rate burst s L = (tokens, M)" "k \<noteq> key" "sound key L t"
  shows "map_of (buckets M) key = map_of (buckets L) key" "distinct (map fst (buckets M))"
  using assms
  by (auto simp: refill_tokens_def sound_def Let_def update_conv' distinct_update simp del: map_of_eq_Some_iff split: option.splits)

lemma cleanup_level:
  assumes "sound key L t" "t \<le> now" "now \<le> u" "0 < rate" "burst \<le> 60 * rate"
  shows "level rate burst key (cleanup_old_buckets now L) u = level rate burst key L u"
    "sound key (cleanup_old_buckets now L) t"
proof -
  note split = surviving_bucket [of "buckets L" "\<lambda>(_, _, last_refill). \<not> last_refill < now - 3600" key]
  have full: "of_int burst \<le> tokens + of_int rate / 60 * (u - last_refill)"
    if "0 \<le> tokens" "last_refill < now - 3600" for tokens last_refill
  proof -
    have "of_int burst \<le> of_int rate * (60 :: rat)"
      using of_int_le_iff [of burst "60 * rate", where 'a = rat] assms(5) by (simp add: mult.commute)
    also have "\<dots> = of_int rate / 60 * (3600 :: rat)" by simp
    also have "\<dots> \<le> of_int rate / 60 * (u - last_refill)"
      using that assms(3,4) by (intro mult_left_mono) auto
    finally show ?thesis using that by simp
  qed
  from assms(1) split full show "level rate burst key (cleanup_old_buckets now L) u = level rate burst key L u"
    by (auto simp: level_def cleanup_old_buckets_def sound_def min_def simp del: map_of_eq_Some_iff split: option.splits)
  from assms(1) split show "sound key (cleanup_old_buckets now L) t"
    by (auto simp: sound_def cleanup_old_buckets_def distinct_filter_keys simp del: map_of_eq_Some_iff split: option.splits)
qed

lemma cleanup_periodic:
  assumes "sound key L t" "t \<le> s 3" "s 3 \<le> s 4" "0 < rate" "burst \<le> 60 * rate"
  shows "level rate burst key (periodic_cleanup s L) (s 4) = level rate burst key L (s 4) \<and>
    sound key (periodic_cleanup s L) t"
  using assms(1) cleanup_level [OF assms(1,2,3,4,5)]
  by (auto simp: periodic_cleanup_def level_def sound_def)

lemma consume_same:
  assumes "map_of (buckets M) key = Some (tokens, s)" "distinct (map fst (buckets M))" "1 \<le> tokens"
    "tokens \<le> of_int burst" "0 < rate" "s \<le> now" "now \<le> u"
  shows "sound key (consume_token key tokens now M) now"
    "level rate burst key (consume_token key tokens now M) u + 1 \<le> tokens + of_int rate / 60 * (u - s)"
proof -
  have "of_int rate / 60 * (u - now) \<le> of_int rate / 60 * (u - s)"
    using assms(5,6) by (intro mult_left_mono) auto
  then show "level rate burst key (consume_token key tokens now M) u + 1 \<le> tokens + of_int rate / 60 * (u - s)"
    by (simp add: level_def consume_token_def update_conv')
qed (use assms in \<open>simp add: sound_def consume_token_def update_conv' distinct_update\<close>)

lemma consume_other:
  assumes "k \<noteq> key" "distinct (map fst (buckets M))"
  shows "map_of (buckets (consume_token k tokens now M)) key = map_of (buckets M) key"
    "distinct (map fst (buckets (consume_token k tokens now M)))"
  using assms by (simp_all add: consume_token_def update_conv' distinct_update)

lemma level_cong: "map_of (buckets M) key = map_of (buckets L) key \<Longrightarrow> level rate burst key M = level rate burst key L"
  by (simp add: level_def fun_eq_iff)

lemma sound_cong:
  "sound key L t \<Longrightarrow> map_of (buckets M) key = map_of (buckets L) key \<Longrightarrow> distinct (map fst (buckets M)) \<Longrightarrow>
   sound key M t"
  by (simp add: sound_def)

text \<open>What a request costs: the level of its bucket drops by one when it is admitted.\<close>

definition granted :: "string \<Rightarrow> request \<Rightarrow> limiter \<Rightarrow> rat" where
  "granted key q L =
     (if bucket_key L (r_user q) (r_endpoint q) = key \<and>
         (case fst (is_allowed q L) of Inl _ \<Rightarrow> False | Inr (ok, _) \<Rightarrow> ok) then 1 else 0)"

lemma request_cost:
  assumes snd: "sound key L t" and clk: "clock_runs t [q] u" and lim: "drawn_with key rate burst L q"
    and pos: "0 < rate" "0 \<le> burst" "burst \<le> 60 * rate"
  shows "same_settings L (snd (is_allowed q L)) \<and> sound key (snd (is_allowed q L)) (clock q 4) \<and>
    level rate burst key (snd (is_allowed q L)) (clock q 4) + granted key q L \<le>
      level rate burst key L t + of_int rate / 60 * (clock q 4 - t)"
proof -
  let ?k = "bucket_key L (r_user q) (r_endpoint q)" and ?r = "limit_or (r_rate q) (default_rate L)"
    and ?b = "limit_or (r_burst q) (default_burst L)"
  obtain tokens M where ref: "refill_tokens ?k ?r ?b (clock q 0) L = (tokens, M)"
    by (cases "refill_tokens ?k ?r ?b (clock q 0) L")
  let ?C = "consume_token ?k tokens (clock q 1) M" and ?u = "clock q 4"
  have out: "snd (is_allowed q L) = (if 1 \<le> tokens then periodic_cleanup (clock q) ?C else M)"
    using ref by (simp add: is_allowed_def Let_def)
  have settings: "same_settings L M" using ref same_settings_ops(2) [of L ?k ?r ?b "clock q 0"] by simp
  from clk have times: "t \<le> clock q 0" "clock q 0 \<le> clock q 1" "clock q 1 \<le> clock q 2" "clock q 2 \<le> clock q 3"
    "clock q 3 \<le> ?u" by auto
  have grow: "level rate burst key L ?u \<le> level rate burst key L t + of_int rate / 60 * (?u - t)"
    using level_grows [OF pos(1)] times by simp
  show ?thesis
  proof (cases "?k = key")
    case True
    with lim have [simp]: "?r = rate" "?b = burst" by (auto simp: drawn_with_def)
    note same = refill_same [OF snd times(1) pos(1,2), of tokens M]
    have r: "tokens = level rate burst key L (clock q 0)" "0 \<le> tokens" "tokens \<le> of_int burst"
      "map_of (buckets M) key = Some (tokens, clock q 0)" "distinct (map fst (buckets M))"
      using same ref True by simp_all
    have up: "tokens + of_int rate / 60 * (?u - clock q 0) \<le> level rate burst key L t + of_int rate / 60 * (?u - t)"
      using level_grows [OF pos(1) times(1), of burst key L] r(1) by (simp add: algebra_simps add_divide_distrib diff_divide_distrib)
    show ?thesis
    proof (cases "1 \<le> tokens")
      case admit: True
      have c: "sound key ?C (clock q 1)"
        "level rate burst key ?C ?u + 1 \<le> tokens + of_int rate / 60 * (?u - clock q 0)"
        using consume_same [OF r(4,5) admit r(3) pos(1), of "clock q 1" ?u] times True by auto
      have p: "level rate burst key (periodic_cleanup (clock q) ?C) ?u = level rate burst key ?C ?u"
        "sound key (periodic_cleanup (clock q) ?C) (clock q 1)"
        using cleanup_periodic [OF c(1), of "clock q" rate burst] times pos by auto
      have "granted key q L \<le> 1" by (simp add: granted_def)
      with admit out c p up settings sound_later [OF p(2), of ?u] times show ?thesis by simp
    next
      case deny: False
      have "granted key q L = 0" using ref deny by (simp add: granted_def is_allowed_def Let_def)
      moreover have "sound key M ?u" using r times by (simp add: sound_def)
      moreover have "level rate burst key M ?u \<le> tokens + of_int rate / 60 * (?u - clock q 0)"
        using r(4) by (simp add: level_def)
      ultimately show ?thesis using deny out up settings by simp
    qed
  next
    case False
    note other = refill_other [OF ref False snd]
    note M = level_cong [OF other(1)] sound_cong [OF snd other]
    note C = level_cong [OF consume_other(1) [OF False other(2)], of rate burst tokens "clock q 1"]
      sound_cong [OF M(2) consume_other [OF False other(2)]]
    have "granted key q L = 0" using False by (simp add: granted_def)
    moreover have "level rate burst key (periodic_cleanup (clock q) ?C) ?u = level rate burst key ?C ?u \<and>
      sound key (periodic_cleanup (clock q) ?C) t"
      using cleanup_periodic [OF C(2), of "clock q" rate burst] times pos by simp
    ultimately show ?thesis
      using out M C grow settings sound_later [of key _ t ?u] times by auto
  qed
qed

section \<open>The rate is kept\<close>

lemma key_of_settings: "same_settings L M \<Longrightarrow> bucket_key M = bucket_key L"
  by (simp add: same_settings_def bucket_key_def fun_eq_iff)

lemma drawn_settings: "same_settings L M \<Longrightarrow> drawn_with key rate burst M q = drawn_with key rate burst L q"
  by (simp add: drawn_with_def key_of_settings) (simp add: same_settings_def)

lemma admissions_cost:
  assumes "sound key L t" "clock_runs t qs u" "\<forall>q \<in> set qs. drawn_with key rate burst L q"
    and pos: "0 < rate" "0 \<le> burst" "burst \<le> 60 * rate"
  shows "of_nat (admitted key (fst (admissions qs L))) \<le> level rate burst key L t + of_int rate / 60 * (u - t)"
  using assms(1-3)
proof (induction qs arbitrary: L t)
  case Nil
  then have "0 \<le> level rate burst key L t" "0 \<le> of_int rate / 60 * (u - t)"
    using pos by (auto simp: level_def sound_def simp del: map_of_eq_Some_iff split: option.splits)
  then show ?case by (simp add: admitted_def)
next
  case (Cons q qs)
  let ?M = "snd (is_allowed q L)"
  from Cons.prems(2) have clk: "clock_runs t [q] (clock q 4)" and rest: "clock_runs (clock q 4) qs u" by auto
  from request_cost [OF Cons.prems(1) clk _ pos] Cons.prems(3) have step: "same_settings L ?M" "sound key ?M (clock q 4)"
    "level rate burst key ?M (clock q 4) + granted key q L \<le>
      level rate burst key L t + of_int rate / 60 * (clock q 4 - t)" by auto
  from step(1) Cons.prems(3) have "\<forall>q \<in> set qs. drawn_with key rate burst ?M q" by (simp add: drawn_settings)
  note ih = Cons.IH [OF step(2) rest this]
  have "of_nat (admitted key (fst (admissions (q # qs) L))) =
      granted key q L + of_nat (admitted key (fst (admissions qs ?M)))"
    by (auto simp: admitted_def granted_def split: prod.splits)
  also have "\<dots> \<le> granted key q L + (level rate burst key ?M (clock q 4) + of_int rate / 60 * (u - clock q 4))"
    using ih by simp
  also have "\<dots> \<le> level rate burst key L t + (of_int rate / 60 * (clock q 4 - t) + of_int rate / 60 * (u - clock q 4))"
    using step(3) by simp
  also have "of_int rate / 60 * (clock q 4 - t) + of_int rate / 60 * (u - clock q 4) = of_int rate / 60 * (u - t)"
    by (simp only: distrib_left [symmetric]) simp
  finally show ?case .
qed

text \<open>(C27) The limiter keeps its rate: whatever the other users do and whenever the cleanup runs,
  between two times no key is admitted more often than its burst plus the tokens the time
  earns. The limits of the key are the same in all its requests, and an hour earns at least a
  full burst, since the cleanup forgets buckets that were idle for an hour.\<close>

theorem limiter_keeps_rate:
  assumes "clock_runs t qs u" "\<forall>q \<in> set qs. drawn_with key rate burst L q"
    and "sound key L t" "0 < rate" "0 \<le> burst" "burst \<le> 60 * rate"
  shows "of_nat (admitted key (fst (admissions qs L))) \<le> of_int burst + of_int rate / 60 * (u - t)"
proof -
  have "level rate burst key L t \<le> of_int burst" by (simp add: level_def split: option.splits)
  with admissions_cost [OF assms(3,1,2,4,5,6)] show ?thesis by linarith
qed

text \<open>(C28) A denied request is not denied for ever: the same request one second after the advised
  waiting time is admitted, provided nothing else drew on its bucket in between.\<close>

theorem denied_request_retries:
  assumes "is_allowed q L = (Inr (False, info), M)"
    and "map_of (buckets N) (bucket_key L (r_user q) (r_endpoint q)) =
      map_of (buckets M) (bucket_key L (r_user q) (r_endpoint q))" "same_settings L N"
    and "q' = q\<lparr>clock := c\<rparr>" "dget info ''retry_after'' = VInt w" "clock q 0 + of_int w + 1 \<le> c 0"
    and "0 < limit_or (r_rate q) (default_rate L)" "1 \<le> limit_or (r_burst q) (default_burst L)"
  shows "\<exists>info' N'. is_allowed q' N = (Inr (True, info'), N')"
proof -
  let ?k = "bucket_key L (r_user q) (r_endpoint q)" and ?r = "limit_or (r_rate q) (default_rate L)"
    and ?b = "limit_or (r_burst q) (default_burst L)"
  obtain tokens K where ref: "refill_tokens ?k ?r ?b (clock q 0) L = (tokens, K)"
    by (cases "refill_tokens ?k ?r ?b (clock q 0) L")
  from assms(1) ref have low: "\<not> 1 \<le> tokens" and M: "M = K" and info: "info = denied_info ?r ?b tokens"
    using assms(7) by (auto simp: is_allowed_def Let_def split: if_splits)
  from ref have K: "map_of (buckets K) ?k = Some (tokens, clock q 0)"
    by (auto simp: refill_tokens_def Let_def update_conv' split: option.splits)
  have w: "w = trunc (max 1 ((1 - tokens) * (60 / of_int ?r)))"
    using assms(5) info by (simp add: denied_info_def retry_after_def dget_def)
  have "(1 - tokens) * (60 / of_int ?r) \<le> of_int w + 1"
  proof -
    have "max 1 ((1 - tokens) * (60 / of_int ?r)) \<le> of_int w + 1"
      unfolding w trunc_def by (simp add: max_def) linarith
    then show ?thesis by simp
  qed
  also have "\<dots> \<le> c 0 - clock q 0" using assms(6) by simp
  finally have "of_int ?r / 60 * ((1 - tokens) * (60 / of_int ?r)) \<le> of_int ?r / 60 * (c 0 - clock q 0)"
    using assms(7) by (intro mult_left_mono) auto
  then have enough: "1 \<le> min (of_int ?b) (tokens + of_int ?r / 60 * (c 0 - clock q 0))"
    using assms(7,8) by simp
  from assms(3) have same: "bucket_key N = bucket_key L" "default_rate N = default_rate L" "default_burst N = default_burst L"
    by (simp add: key_of_settings) (use assms(3) in \<open>simp_all add: same_settings_def\<close>)
  have "fst (refill_tokens ?k ?r ?b (c 0) N) = min (of_int ?b) (tokens + of_int ?r / 60 * (c 0 - clock q 0))"
    using assms(2) K M by (simp add: refill_tokens_def Let_def)
  with enough assms(4,7) same show ?thesis
    by (auto simp: is_allowed_def Let_def split: prod.splits)
qed

text \<open>The advised waiting time is rounded down: waiting exactly that long may be too short.\<close>

definition demo_limiter :: limiter where
  "demo_limiter = new_limiter 40 1 True False 0"

definition at_time :: "rat \<Rightarrow> request" where
  "at_time t = \<lparr>r_user = Some ''ann'', r_endpoint = None, r_rate = None, r_burst = None, clock = (\<lambda>_. t)\<rparr>"

definition demo_drained :: limiter where
  "demo_drained = snd (is_allowed (at_time 0) demo_limiter)"

lemma advised_wait_too_short:
  "(case fst (is_allowed (at_time 0) demo_drained) of Inl _ \<Rightarrow> False
      | Inr (ok, info) \<Rightarrow> \<not> ok \<and> dget info ''retry_after'' = VInt 1) \<and>
   (case fst (is_allowed (at_time 1) (snd (is_allowed (at_time 0) demo_drained))) of Inl _ \<Rightarrow> False
      | Inr (ok, _) \<Rightarrow> \<not> ok)"
  by code_simp

theorem limiter_keeps_rate_witness:
  "of_nat (admitted ''user:ann'' (fst (admissions (map at_time [0, 1, 2, 3]) demo_limiter))) \<le> (1 :: rat) + 40 / 60 * 3"
proof -
  let ?qs = "map at_time [0, 1, 2, 3]"
  have "clock_runs 0 ?qs 3" by (simp add: at_time_def)
  moreover have "\<forall>q \<in> set ?qs. drawn_with ''user:ann'' 40 1 demo_limiter q"
    by (simp add: drawn_with_def at_time_def demo_limiter_def new_limiter_def limit_or_def)
  moreover have "sound ''user:ann'' demo_limiter 0" by (simp add: sound_def demo_limiter_def new_limiter_def)
  ultimately have "of_nat (admitted ''user:ann'' (fst (admissions ?qs demo_limiter))) \<le>
      of_int 1 + of_int 40 / 60 * (3 - 0 :: rat)"
    by (rule limiter_keeps_rate) simp_all
  then show ?thesis by simp
qed

theorem denied_request_retries_witness:
  "\<exists>info' N'. is_allowed (at_time 2) (snd (is_allowed (at_time 0) demo_drained)) = (Inr (True, info'), N')"
proof -
  let ?M = "snd (is_allowed (at_time 0) demo_drained)"
  have c: "case fst (is_allowed (at_time 0) demo_drained) of Inl _ \<Rightarrow> False
      | Inr (ok, info) \<Rightarrow> \<not> ok \<and> dget info ''retry_after'' = VInt 1" by code_simp
  then obtain info where "fst (is_allowed (at_time 0) demo_drained) = Inr (False, info)"
    and w: "dget info ''retry_after'' = VInt 1"
    by (auto split: sum.splits)
  from this(1) have run: "is_allowed (at_time 0) demo_drained = (Inr (False, info), ?M)" by (rule run_of_fst)
  have "default_rate demo_drained = 40 \<and> default_burst demo_drained = 1 \<and> default_rate ?M = 40 \<and> default_burst ?M = 1 \<and>
    per_user demo_drained = per_user ?M \<and> per_endpoint demo_drained = per_endpoint ?M" by code_simp
  then have s: "same_settings demo_drained ?M" "limit_or None (default_rate demo_drained) = 40"
    "limit_or None (default_burst demo_drained) = 1"
    by (simp_all add: same_settings_def limit_or_def)
  show ?thesis
    by (rule denied_request_retries [OF run refl s(1), of "at_time 2" "\<lambda>_. 2" 1])
       (use w s in \<open>simp_all add: at_time_def\<close>)
qed

section \<open>Concurrent requests\<close>

text \<open>
  The handler's semaphore as its number of free slots. A wait for a slot ends with one, or with
  the timeout; both are steps. A release returns a slot whether or not one was taken.
\<close>

record handler =
  max_concurrent :: int
  slots :: int
  active :: int

definition new_handler :: "int \<Rightarrow> handler" where
  "new_handler n = \<lparr>max_concurrent = n, slots = n, active = 0\<rparr>"

definition acquire_slot :: "handler \<Rightarrow> bool \<times> handler" where
  "acquire_slot H =
     (if slots H > 0 then (True, H\<lparr>slots := slots H - 1, active := active H + 1\<rparr>) else (False, H))"

definition release_slot :: "handler \<Rightarrow> handler" where
  "release_slot H = H\<lparr>active := max 0 (active H - 1), slots := slots H + 1\<rparr>"

definition handler_stats :: "handler \<Rightarrow> doc" where
  "handler_stats H =
     [(''max_concurrent'', VInt (max_concurrent H)), (''active'', VInt (active H)),
      (''available'', VInt (max_concurrent H - active H)),
      (''utilization'', if max_concurrent H > 0
         then VFloat (of_int (active H) / of_int (max_concurrent H) * 100) else VInt 0)]"

inductive handler_step :: "handler \<Rightarrow> handler \<Rightarrow> bool" where
  acquired: "acquire_slot H = (True, H') \<Longrightarrow> handler_step H H'"
| timeout: "handler_step H H"
| released: "active H > 0 \<Longrightarrow> handler_step H (release_slot H)"

inductive_cases handler_stepE: "handler_step H H'"

lemma handler_step_slots:
  assumes "handler_step H H'" "slots H + active H = max_concurrent H" "0 \<le> slots H" "0 \<le> active H"
  shows "max_concurrent H' = max_concurrent H \<and> slots H' + active H' = max_concurrent H' \<and> 0 \<le> slots H' \<and> 0 \<le> active H'"
  using assms by (cases rule: handler_step.cases) (auto simp: acquire_slot_def release_slot_def split: if_splits)

text \<open>As long as only running requests release their slot, at most the configured number
  runs at once, and a slot is free exactly when fewer run.\<close>

theorem handler_bounds_requests:
  assumes "handler_step\<^sup>*\<^sup>* (new_handler n) H" "0 \<le> n"
  shows "0 \<le> active H \<and> active H \<le> n \<and> (fst (acquire_slot H) \<longleftrightarrow> active H < n)"
proof -
  from assms(1) have "max_concurrent H = n \<and> slots H + active H = max_concurrent H \<and> 0 \<le> slots H \<and> 0 \<le> active H"
  proof (induction rule: rtranclp_induct)
    case base
    with assms(2) show ?case by (simp add: new_handler_def)
  next
    case (step G H)
    then show ?case using handler_step_slots [OF step(2)] by simp
  qed
  then show ?thesis by (auto simp: acquire_slot_def)
qed

theorem handler_bounds_requests_witness:
  "\<exists>H. handler_step\<^sup>*\<^sup>* (new_handler 1) H \<and> active H = 1 \<and> \<not> fst (acquire_slot H)"
proof -
  let ?H = "\<lparr>max_concurrent = 1, slots = 0, active = 1\<rparr>"
  have "handler_step (new_handler 1) ?H"
    by (rule acquired) (simp add: acquire_slot_def new_handler_def)
  then have run: "handler_step\<^sup>*\<^sup>* (new_handler 1) ?H" by simp
  from handler_bounds_requests [OF run] run show ?thesis by auto
qed

end
