(* ===== verification/OtpService.thy ===== *)
theory OtpService
  imports PinAuth
begin

text \<open>
  One-time passwords and the reset tokens they are exchanged for (\<open>services/otp_service.py\<close>).

  The random digits and the random token are arguments of the methods that draw them. No method
  compares \<open>expires_at\<close> with the clock: expiry is left to the index that deletes old documents.
\<close>

section \<open>Operations\<close>

record 'db otp_service =
  ostore :: "'db store"
  otp_expiry_minutes :: int
  token_expiry_minutes :: int

abbreviation OTPS :: string where "OTPS \<equiv> ''auth_otps''"

abbreviation RESETS :: string where "RESETS \<equiv> ''auth_reset_tokens''"

definition otp_doc :: "'db otp_service \<Rightarrow> int \<Rightarrow> string \<Rightarrow> string \<Rightarrow> doc" where
  "otp_doc P now uid otp_code =
     [(''user_id'', VStr uid), (''code'', VStr otp_code), (''created_at'', naive now),
      (''expires_at'', naive (now + otp_expiry_minutes P * 60000000)), (''attempts'', VInt 0)]"

definition create_otp :: "'db otp_service \<Rightarrow> int \<Rightarrow> string \<Rightarrow> string \<Rightarrow> ('db, string) comp" where
  "create_otp P now otp_code uid =
     bindM (delete_many (ostore P) OTPS (user_filter uid)) (\<lambda>_.
     bindM (insert_one (ostore P) OTPS (otp_doc P now uid otp_code)) (\<lambda>_.
     returnM otp_code))"

definition attempts_used :: "doc \<Rightarrow> rat res" where
  "attempts_used r =
     (if \<not> dhas r ''attempts'' then Inl (KeyError ''attempts'')
      else (case num_of (dget r ''attempts'') of
              None \<Rightarrow> Inl (TypeError ''attempts is not a number'')
            | Some n \<Rightarrow> Inr n))"

definition verify_otp :: "'db otp_service \<Rightarrow> string \<Rightarrow> string \<Rightarrow> ('db, bool \<times> string) comp" where
  "verify_otp P uid code =
     bindM (find_one (ostore P) OTPS (user_filter uid)) (\<lambda>found.
     case found of
       None \<Rightarrow> returnM (False, ''OTP not found or expired'')
     | Some r \<Rightarrow>
         (if r = [] then returnM (False, ''OTP not found or expired'')
          else bindM (liftM (attempts_used r)) (\<lambda>n.
            if n \<ge> 5
            then bindM (delete_one (ostore P) OTPS (user_filter uid)) (\<lambda>_.
                 returnM (False, ''Too many failed attempts. Please request a new OTP.''))
            else bindM (raise_if (\<not> dhas r ''code'') (KeyError ''code'')) (\<lambda>_.
                 if dget r ''code'' \<noteq> VStr code
                 then bindM (update_one (ostore P) OTPS (user_filter uid) [(''$inc'', VDict [(''attempts'', VInt 1)])]) (\<lambda>_.
                      returnM (False, ''Invalid OTP code''))
                 else bindM (delete_one (ostore P) OTPS (user_filter uid)) (\<lambda>_.
                      returnM (True, ''Success''))))))"

definition reset_doc :: "'db otp_service \<Rightarrow> int \<Rightarrow> string \<Rightarrow> string \<Rightarrow> doc" where
  "reset_doc P now uid token =
     [(''user_id'', VStr uid), (''token'', VStr token), (''created_at'', naive now),
      (''expires_at'', naive (now + token_expiry_minutes P * 60000000))]"

definition create_reset_token :: "'db otp_service \<Rightarrow> int \<Rightarrow> string \<Rightarrow> string \<Rightarrow> ('db, string) comp" where
  "create_reset_token P now token uid =
     bindM (insert_one (ostore P) RESETS (reset_doc P now uid token)) (\<lambda>_. returnM token)"

text \<open>\<open>find_one_and_delete\<close> is one step of the database.\<close>

definition find_one_and_delete :: "'db store \<Rightarrow> string \<Rightarrow> query \<Rightarrow> ('db, doc option) comp" where
  "find_one_and_delete S c q = bindM (find_one S c q) (\<lambda>found. bindM (delete_one S c q) (\<lambda>_. returnM found))"

definition reset_filter :: "string \<Rightarrow> query" where
  "reset_filter token = [(''token'', CEq (VStr token))]"

definition validate_reset_token :: "'db otp_service \<Rightarrow> string \<Rightarrow> ('db, val) comp" where
  "validate_reset_token P token =
     bindM (find_one_and_delete (ostore P) RESETS (reset_filter token)) (\<lambda>found.
     case found of
       None \<Rightarrow> returnM VNone
     | Some r \<Rightarrow>
         (if r = [] then returnM VNone
          else bindM (raise_if (\<not> dhas r ''user_id'') (KeyError ''user_id'')) (\<lambda>_. returnM (dget r ''user_id''))))"

section \<open>Guessing\<close>

text \<open>The answers to a sequence of guesses, and the counter that specifies them: the code is good
  for one success within the first five guesses.\<close>

fun guesses :: "'db otp_service \<Rightarrow> string \<Rightarrow> string list \<Rightarrow> ('db, bool list) comp" where
  "guesses P uid [] = returnM []"
| "guesses P uid (c # cs) = bindM (verify_otp P uid c) (\<lambda>(ok, _). bindM (guesses P uid cs) (\<lambda>bs. returnM (ok # bs)))"

fun otp_spec :: "(nat \<times> string) option \<Rightarrow> string list \<Rightarrow> bool list" where
  "otp_spec st [] = []"
| "otp_spec None (c # cs) = False # otp_spec None cs"
| "otp_spec (Some (n, code)) (c # cs) =
     (if n \<ge> 5 then False # otp_spec None cs
      else if c = code then True # otp_spec None cs
      else False # otp_spec (Some (Suc n, code)) cs)"

lemma otp_spec_None: "otp_spec None cs = map (\<lambda>_. False) cs"
  by (induction cs) simp_all

lemma otp_spec_bound:
  "i < length cs \<Longrightarrow> otp_spec (Some (n, code)) cs ! i \<Longrightarrow> n + i < 5 \<and> cs ! i = code"
proof (induction cs arbitrary: n i)
  case (Cons c cs)
  show ?case
  proof (cases i)
    case 0
    with Cons.prems show ?thesis by (auto split: if_splits)
  next
    case (Suc j)
    with Cons.prems Cons.IH [of j "Suc n"] show ?thesis by (auto simp: otp_spec_None split: if_splits)
  qed
qed simp

lemma otp_spec_once: "length (filter id (otp_spec st cs)) \<le> 1"
proof (induction cs arbitrary: st)
  case (Cons c cs)
  then show ?case by (cases st) (auto simp: otp_spec_None)
qed simp

text \<open>The stored state of a user's OTP.\<close>

definition otp_record :: "doc \<Rightarrow> nat \<Rightarrow> string \<Rightarrow> bool" where
  "otp_record r n code \<longleftrightarrow> dget r ''attempts'' = VInt (int n) \<and> dget r ''code'' = VStr code"

lemma otp_record_has: "otp_record r n code \<Longrightarrow> dhas r ''attempts'' \<and> dhas r ''code'' \<and> r \<noteq> []"
  by (auto simp: otp_record_def dget_def dhas_def split: option.splits)

lemma filter_remove_first_single: "filter P xs = [r] \<Longrightarrow> filter P (remove_first P xs) = []"
  by (induction xs) (auto split: if_splits)

lemma inc_attempts:
  assumes "dget r ''attempts'' = VInt n"
  shows "apply_update [(''$inc'', VDict [(''attempts'', VInt 1)])] r = (Inr True, dput ''attempts'' (VInt (n + 1)) r)"
  using assms
  by (auto simp: apply_update_def run_simps dget_def dhas_def dget_or_def dict_or_empty_def Let_def split: option.splits)

context document_store
begin

definition otp_state :: "string \<Rightarrow> 'db \<Rightarrow> (nat \<times> string) option \<Rightarrow> bool" where
  "otp_state uid db st \<longleftrightarrow> (case st of
     None \<Rightarrow> filter (match_filter (user_filter uid)) (docs S OTPS db) = []
   | Some (n, code) \<Rightarrow> \<exists>r. filter (match_filter (user_filter uid)) (docs S OTPS db) = [r] \<and> otp_record r n code)"

lemma otp_deleted:
  assumes "filter (match_filter (user_filter uid)) (docs S OTPS db) = [r]" and "delete_one S OTPS (user_filter uid) db = (x, db')"
  shows "otp_state uid db' None"
  using assms delete_one_law
  by (auto simp: otp_state_def delete_one_def filter_remove_first_single split: prod.splits)

lemma otp_counted:
  assumes "filter (match_filter (user_filter uid)) (docs S OTPS db) = [r]" and "otp_record r n code"
    and "update_one S OTPS (user_filter uid) [(''$inc'', VDict [(''attempts'', VInt 1)])] db = (x, db')"
  shows "(\<exists>y. x = Inr y) \<and> otp_state uid db' (Some (Suc n, code))"
proof -
  let ?u = "[(''$inc'', VDict [(''attempts'', VInt 1)])]" and ?q = "match_filter (user_filter uid)"
  let ?r = "dput ''attempts'' (VInt (int n + 1)) r"
  from assms(2) have "apply_update ?u r = (Inr True, ?r)" by (intro inc_attempts) (simp add: otp_record_def)
  from update_one_some [OF assms(3,1) this]
  have x: "x = Inr (1, 1)" and docs: "docs S OTPS db' = update_first ?q (\<lambda>_. ?r) (docs S OTPS db)" by simp_all
  have "?q ?r" using filter_hd_sat [OF assms(1)] by (simp add: user_filter_def field_values_def doc_simps)
  with filter_update_first [OF assms(1), of ?q] filter_hd_sat [OF assms(1)] docs
  have "filter ?q (docs S OTPS db') = [?r]" by simp
  moreover have "otp_record ?r (Suc n) code" using assms(2) by (simp add: otp_record_def doc_simps)
  ultimately show ?thesis using x by (simp add: otp_state_def)
qed

lemma created_otp:
  assumes "ostore P = S" and "create_otp P now code uid db = (Inr x, db')"
  shows "x = code \<and> otp_state uid db' (Some (0, code))"
proof -
  from assms obtain n d1 i where d: "delete_many S OTPS (user_filter uid) db = (Inr n, d1)" and x: "x = code"
    and i: "insert_one S OTPS (otp_doc P now uid code) d1 = (Inr i, db')"
    by (auto simp: create_otp_def run_iff)
  let ?r = "dset_default ''_id'' i (otp_doc P now uid code)"
  from d have "filter (match_filter (user_filter uid)) (docs S OTPS d1) = []"
    using delete_many_law by (auto simp: delete_many_def split: prod.splits)
  moreover have f: "dget ?r ''user_id'' = VStr uid" "dget ?r ''attempts'' = VInt 0" "dget ?r ''code'' = VStr code"
    by (simp_all add: doc_simps) (simp_all add: otp_doc_def dget_def)
  moreover have "match_filter (user_filter uid) ?r" using f(1) by (simp add: user_filter_def field_values_def)
  ultimately have "filter (match_filter (user_filter uid)) (docs S OTPS db') = [?r]" "otp_record ?r 0 code"
    using insert_one_docs [OF i] by (auto simp: otp_record_def)
  with x show ?thesis by (simp add: otp_state_def)
qed

text \<open>One guess: the answer of the counter, and its next state.\<close>

lemma verify_otp_step:
  assumes "ostore P = S" and "otp_state uid db st"
  obtains msg db' st' where "verify_otp P uid c db = (Inr (hd (otp_spec st [c]), msg), db')" "otp_state uid db' st'"
    "\<forall>cs. otp_spec st (c # cs) = hd (otp_spec st [c]) # otp_spec st' cs"
proof (cases st)
  case None
  with assms have "verify_otp P uid c db = (Inr (False, ''OTP not found or expired''), db)"
    by (simp add: verify_otp_def otp_state_def find_one_run run_simps)
  with None assms(2) that [of _ db None] show thesis by simp
next
  case (Some p)
  obtain n code where p: "p = (n, code)" by (cases p)
  with Some assms(2) obtain r where r: "filter (match_filter (user_filter uid)) (docs S OTPS db) = [r]" "otp_record r n code"
    by (auto simp: otp_state_def)
  note has = otp_record_has [OF r(2)]
  have n: "attempts_used r = Inr (of_nat n)" using has r(2) by (simp add: attempts_used_def otp_record_def)
  have run: "verify_otp P uid c db = (if n \<ge> 5
      then bindM (delete_one S OTPS (user_filter uid)) (\<lambda>_. returnM (False, ''Too many failed attempts. Please request a new OTP.'')) db
      else if c \<noteq> code
      then bindM (update_one S OTPS (user_filter uid) [(''$inc'', VDict [(''attempts'', VInt 1)])]) (\<lambda>_. returnM (False, ''Invalid OTP code'')) db
      else bindM (delete_one S OTPS (user_filter uid)) (\<lambda>_. returnM (True, ''Success'')) db)"
    using r has n assms(1) by (auto simp: verify_otp_def find_one_run run_simps otp_record_def)
  obtain y d1 where d: "delete_one S OTPS (user_filter uid) db = (Inr y, d1)"
    by (cases "delete_one_doc S OTPS (user_filter uid) db") (auto simp: delete_one_def)
  obtain z d2 where u: "update_one S OTPS (user_filter uid) [(''$inc'', VDict [(''attempts'', VInt 1)])] db = (Inr z, d2)"
    "otp_state uid d2 (Some (Suc n, code))"
    using otp_counted [OF r] by (metis surj_pair)
  consider "n \<ge> 5" | "n < 5" "c \<noteq> code" | "n < 5" "c = code" by linarith
  then show thesis
  proof cases
    case 1
    with run d Some p show thesis by (intro that [of _ d1 None] otp_deleted [OF r(1) d]) (simp_all add: run_simps)
  next
    case 2
    with run u Some p show thesis by (intro that [of _ d2 "Some (Suc n, code)"]) (simp_all add: run_simps)
  next
    case 3
    with run d Some p show thesis by (intro that [of _ d1 None] otp_deleted [OF r(1) d]) (simp_all add: run_simps)
  qed
qed

lemma guesses_spec:
  assumes "ostore P = S" and "otp_state uid db st"
  shows "\<exists>db'. guesses P uid cs db = (Inr (otp_spec st cs), db')"
  using assms(2)
proof (induction cs arbitrary: db st)
  case (Cons c cs)
  obtain msg d1 st' where 1: "verify_otp P uid c db = (Inr (hd (otp_spec st [c]), msg), d1)" "otp_state uid d1 st'"
    "\<forall>cs. otp_spec st (c # cs) = hd (otp_spec st [c]) # otp_spec st' cs"
    by (rule verify_otp_step [OF assms(1) Cons.prems, where c = c])
  from Cons.IH [OF 1(2)] obtain d2 where "guesses P uid cs d1 = (Inr (otp_spec st' cs), d2)" by blast
  then have "guesses P uid (c # cs) db = (Inr (hd (otp_spec st [c]) # otp_spec st' cs), d2)"
    by (simp add: run_simps 1(1))
  with 1(3) show ?case by metis
qed (simp add: run_simps)

end

text \<open>(C20) Guessing an OTP: the service implements the counter of the specification. Whatever is
  guessed after an OTP was created, no guess raises, only the code itself succeeds, only within
  the first five guesses, and at most once.\<close>

theorem otp_implements_counter:
  assumes "document_store (ostore P)" and "create_otp P now code uid db = (Inr x, db')"
  shows "(\<exists>db''. guesses P uid cs db' = (Inr (otp_spec (Some (0, code)) cs), db'')) \<and>
    (\<forall>i < length cs. otp_spec (Some (0, code)) cs ! i \<longrightarrow> i < 5 \<and> cs ! i = code) \<and>
    length (filter id (otp_spec (Some (0, code)) cs)) \<le> 1"
  using document_store.guesses_spec [OF assms(1) refl] document_store.created_otp [OF assms(1) refl assms(2)]
    otp_spec_bound [of _ cs 0 code] otp_spec_once by auto

section \<open>Reset tokens\<close>

context document_store
begin

lemma reset_consumed:
  assumes "ostore P = S" and "filter (match_filter (reset_filter token)) (docs S RESETS db) = [r]"
    and "validate_reset_token P token db = (res, db')"
  shows "filter (match_filter (reset_filter token)) (docs S RESETS db') = []"
proof -
  from assms have "\<exists>n. delete_one S RESETS (reset_filter token) db = (Inr n, db')"
    by (auto simp: validate_reset_token_def find_one_and_delete_def find_one_run run_simps delete_one_def
        split: prod.splits if_splits)
  with assms(2) delete_one_law show ?thesis
    by (auto simp: delete_one_def filter_remove_first_single split: prod.splits)
qed

lemma reset_unknown:
  assumes "ostore P = S" and "filter (match_filter (reset_filter token)) (docs S RESETS db) = []"
  shows "fst (validate_reset_token P token db) = Inr VNone"
  using assms by (simp add: validate_reset_token_def find_one_and_delete_def find_one_run run_simps delete_one_def split: prod.splits)

lemma reset_known:
  assumes "ostore P = S" and "filter (match_filter (reset_filter token)) (docs S RESETS db) = [r]"
    and "dget r ''user_id'' = VStr uid"
  obtains db' where "validate_reset_token P token db = (Inr (VStr uid), db')"
proof -
  from assms(3) have "dhas r ''user_id''" "r \<noteq> []" by (auto simp: dget_def dhas_def split: option.splits)
  with assms have "fst (validate_reset_token P token db) = Inr (VStr uid)"
    by (simp add: validate_reset_token_def find_one_and_delete_def find_one_run run_simps delete_one_def split: prod.splits)
  with that show thesis by (metis prod.collapse)
qed

end

text \<open>A reset token works once: the token issued to a user gives back this user, and every
  further use of it gives nobody. No token of this name was stored before.\<close>

theorem reset_token_roundtrip:
  assumes "document_store (ostore P)"
    and "filter (match_filter (reset_filter token)) (docs (ostore P) RESETS db) = []"
    and "create_reset_token P now token uid db = (Inr t, db')"
  shows "\<exists>db''. validate_reset_token P t db' = (Inr (VStr uid), db'') \<and>
    fst (validate_reset_token P t db'') = Inr VNone"
proof -
  from assms(3) obtain i where t: "t = token" and ins: "insert_one (ostore P) RESETS (reset_doc P now uid token) db = (Inr i, db')"
    by (auto simp: create_reset_token_def run_iff)
  let ?r = "dset_default ''_id'' i (reset_doc P now uid token)"
  have f: "dget ?r ''token'' = VStr token" "dget ?r ''user_id'' = VStr uid"
    by (simp_all add: doc_simps) (simp_all add: reset_doc_def dget_def)
  then have "match_filter (reset_filter token) ?r" by (simp add: reset_filter_def field_values_def)
  with assms(2) document_store.insert_one_docs [OF assms(1) ins]
  have one: "filter (match_filter (reset_filter token)) (docs (ostore P) RESETS db') = [?r]" by auto
  obtain d2 where 2: "validate_reset_token P token db' = (Inr (VStr uid), d2)"
    by (rule document_store.reset_known [OF assms(1) refl one f(2)])
  from document_store.reset_unknown [OF assms(1) refl document_store.reset_consumed [OF assms(1) refl one 2]] 2 t
  show ?thesis by blast
qed

section \<open>Instances\<close>

definition demo_otps :: "memdb otp_service" where
  "demo_otps = \<lparr>ostore = mem_store show_nat (\<lambda>_. False), otp_expiry_minutes = 5, token_expiry_minutes = 15\<rparr>"

definition demo_otp_db :: memdb where
  "demo_otp_db = \<lparr>colls = (\<lambda>_. []), next_id = 0\<rparr>"

theorem otp_implements_counter_witness:
  "\<exists>db' db''. create_otp demo_otps 0 ''123456'' ''u1'' demo_otp_db = (Inr ''123456'', db') \<and>
     guesses demo_otps ''u1'' [''1'', ''123456'', ''123456''] db' = (Inr [False, True, False], db'')"
proof -
  have s: "document_store (ostore demo_otps)" by (simp add: demo_otps_def document_store_mem)
  have "fst (create_otp demo_otps 0 ''123456'' ''u1'' demo_otp_db) = Inr ''123456''" by code_simp
  then obtain db' where run: "create_otp demo_otps 0 ''123456'' ''u1'' demo_otp_db = (Inr ''123456'', db')"
    by (metis prod.collapse)
  have "otp_spec (Some (0, ''123456'')) [''1'', ''123456'', ''123456''] = [False, True, False]" by code_simp
  with otp_implements_counter [OF s run, of "[''1'', ''123456'', ''123456'']"] run show ?thesis by auto
qed

theorem reset_token_roundtrip_witness:
  "\<exists>db' db''. create_reset_token demo_otps 0 ''t'' ''u1'' demo_otp_db = (Inr ''t'', db') \<and>
     validate_reset_token demo_otps ''t'' db' = (Inr (VStr ''u1''), db'')"
proof -
  have s: "document_store (ostore demo_otps)" by (simp add: demo_otps_def document_store_mem)
  have "fst (create_reset_token demo_otps 0 ''t'' ''u1'' demo_otp_db) = Inr ''t''" by code_simp
  then obtain db' where run: "create_reset_token demo_otps 0 ''t'' ''u1'' demo_otp_db = (Inr ''t'', db')"
    by (metis prod.collapse)
  have "filter (match_filter (reset_filter ''t'')) (docs (ostore demo_otps) RESETS demo_otp_db) = []" by code_simp
  from reset_token_roundtrip [OF s this run] run show ?thesis by blast
qed

end
