(* ===== verification/Passwords.thy ===== *)
theory Passwords
  imports PinAuth
begin

text \<open>
  Passwords and PINs: \<open>utils/auth_utils.py\<close> (length and format rules, verification with its
  fallback, hashing) and \<open>utils/crypto_utils.py\<close> (the lookup hash of a PIN).

  The hashing libraries are functions of the record \<open>crypt\<close>: the methods of passlib's context,
  \<open>bcrypt.checkpw\<close> and SHA-256. The salt of a new hash is an argument.
\<close>

record crypt =
  pwd_identify :: "string \<Rightarrow> string option res"
  pwd_default_scheme :: "string res"
  pwd_needs_update :: "string \<Rightarrow> bool res"
  pwd_verify :: "string \<Rightarrow> string \<Rightarrow> bool res"
  pwd_hash :: "string \<Rightarrow> string \<Rightarrow> string"
  bcrypt_checkpw :: "string \<Rightarrow> string \<Rightarrow> bool res"
  sha256_hex :: "string \<Rightarrow> string"
  PIN_SALT :: "string option"
  crepr :: repr

definition BCRYPT_MAX_PASSWORD_BYTES :: nat where "BCRYPT_MAX_PASSWORD_BYTES = 72"

definition MIN_PASSWORD_LENGTH :: nat where "MIN_PASSWORD_LENGTH = 8"

definition MAX_PASSWORD_LENGTH :: nat where "MAX_PASSWORD_LENGTH = 128"

section \<open>Rules\<close>

definition validate_password :: "val \<Rightarrow> string res" where
  "validate_password v =
     (case v of
        VNone \<Rightarrow> Inl (ValueError ''Password required'')
      | VStr s \<Rightarrow>
          (if length s < MIN_PASSWORD_LENGTH \<or> length s > MAX_PASSWORD_LENGTH
           then Inl (ValueError ''Password length must be 8-128 characters'')
           else if strip s = [] then Inl (ValueError ''Password cannot be empty or whitespace'')
           else Inr s)
      | _ \<Rightarrow> Inl (TypeError ''Password must be string''))"

definition four_digits :: "string \<Rightarrow> bool" where
  "four_digits s = (length s = 4 \<and> list_all is_digit_char s)"

definition validate_pin :: "val \<Rightarrow> string res" where
  "validate_pin v =
     (case v of
        VStr s \<Rightarrow> if four_digits s then Inr s else Inl (ValueError ''PIN must be exactly 4 digits'')
      | _ \<Rightarrow> Inl (ValueError ''PIN must be exactly 4 digits''))"

definition is_bcrypt_hash :: "string \<Rightarrow> bool" where
  "is_bcrypt_hash s = list_ex (starts_with s) [''$2a$'', ''$2b$'', ''$2x$'', ''$2y$'']"

definition identify_password_hash :: "crypt \<Rightarrow> string \<Rightarrow> string" where
  "identify_password_hash C s =
     (if s = [] then ''unknown''
      else
        let scheme = (case pwd_identify C s of Inl _ \<Rightarrow> None | Inr x \<Rightarrow> x)
        in if scheme = Some ''argon2''
           then (if starts_with s ''$argon2id$'' then ''argon2id''
                 else if starts_with s ''$argon2i$'' then ''argon2i'' else ''argon2'')
           else if scheme = Some ''bcrypt'' \<or> is_bcrypt_hash s then ''bcrypt''
           else (case scheme of Some (c # cs) \<Rightarrow> c # cs | _ \<Rightarrow> ''unknown''))"

definition default_password_hash_algorithm :: "crypt \<Rightarrow> string" where
  "default_password_hash_algorithm C =
     (case pwd_default_scheme C of
        Inl _ \<Rightarrow> ''unknown''
      | Inr scheme \<Rightarrow> if scheme = ''argon2'' then ''argon2id'' else scheme)"

definition password_hash_needs_upgrade :: "crypt \<Rightarrow> string \<Rightarrow> bool" where
  "password_hash_needs_upgrade C s =
     (if s = [] then False
      else if identify_password_hash C s = ''bcrypt'' then default_password_hash_algorithm C = ''argon2id''
      else (case pwd_needs_update C s of Inl _ \<Rightarrow> False | Inr b \<Rightarrow> b))"

section \<open>Verification\<close>

definition verify_bcrypt_fallback :: "crypt \<Rightarrow> string \<Rightarrow> string \<Rightarrow> bool" where
  "verify_bcrypt_fallback C secret hashed =
     (if length secret > BCRYPT_MAX_PASSWORD_BYTES then False
      else (case bcrypt_checkpw C secret hashed of Inl _ \<Rightarrow> False | Inr b \<Rightarrow> b))"

definition verify_secret :: "crypt \<Rightarrow> string \<Rightarrow> val \<Rightarrow> bool" where
  "verify_secret C secret hashed =
     (if secret = [] \<or> \<not> truthy hashed then False
      else
        let h = (case hashed of VStr s \<Rightarrow> s | v \<Rightarrow> py_str (crepr C) v);
            hash_algorithm = identify_password_hash C h
        in if hash_algorithm = ''bcrypt'' \<and> length secret > BCRYPT_MAX_PASSWORD_BYTES then False
           else (case pwd_verify C secret h of
                   Inr b \<Rightarrow> b
                 | Inl _ \<Rightarrow> hash_algorithm = ''bcrypt'' \<and> verify_bcrypt_fallback C secret h))"

definition verify_password :: "crypt \<Rightarrow> val \<Rightarrow> val \<Rightarrow> bool" where
  "verify_password C plain hashed =
     (case validate_password plain of Inl _ \<Rightarrow> False | Inr s \<Rightarrow> verify_secret C s hashed)"

definition verify_pin_hash :: "crypt \<Rightarrow> val \<Rightarrow> val \<Rightarrow> bool" where
  "verify_pin_hash C pin hashed =
     (case validate_pin pin of Inl _ \<Rightarrow> False | Inr s \<Rightarrow> verify_secret C s hashed)"

section \<open>Hashing\<close>

definition hash_secret :: "crypt \<Rightarrow> string \<Rightarrow> string \<Rightarrow> string res" where
  "hash_secret C salt secret =
     (if default_password_hash_algorithm C = ''bcrypt'' \<and> length secret > BCRYPT_MAX_PASSWORD_BYTES
      then Inl (ValueError ''Password exceeds bcrypt 72-byte limit'')
      else Inr (pwd_hash C salt secret))"

definition get_password_hash :: "crypt \<Rightarrow> string \<Rightarrow> val \<Rightarrow> string res" where
  "get_password_hash C salt password = bindR (validate_password password) (hash_secret C salt)"

definition get_pin_hash :: "crypt \<Rightarrow> string \<Rightarrow> val \<Rightarrow> string res" where
  "get_pin_hash C salt pin = bindR (validate_pin pin) (hash_secret C salt)"

definition get_pin_lookup_hash :: "crypt \<Rightarrow> string \<Rightarrow> string res" where
  "get_pin_lookup_hash C pin =
     (case PIN_SALT C of
        Some (c # s) \<Rightarrow> Inr (sha256_hex C (c # s @ pin))
      | _ \<Rightarrow> Inl (ValueError ''PIN_SALT environment variable must be set for production use.''))"

section \<open>Facts\<close>

text \<open>What the hashing library documents: a hash it makes is not empty, is recognised as one of the
  default scheme, only bcrypt hashes look like bcrypt hashes, and it verifies the secret.\<close>

definition hashes_verify :: "crypt \<Rightarrow> string \<Rightarrow> string \<Rightarrow> bool" where
  "hashes_verify C salt secret \<longleftrightarrow>
     (\<exists>scheme. pwd_default_scheme C = Inr scheme \<and> pwd_identify C (pwd_hash C salt secret) = Inr (Some scheme) \<and>
       (is_bcrypt_hash (pwd_hash C salt secret) \<longrightarrow> scheme = ''bcrypt'')) \<and>
     pwd_hash C salt secret \<noteq> [] \<and> pwd_verify C secret (pwd_hash C salt secret) = Inr True"

lemma hashed_secret_verifies:
  assumes "hashes_verify C salt secret" "secret \<noteq> []" "hash_secret C salt secret = Inr h"
  shows "verify_secret C secret (VStr h)"
  using assms
  by (auto simp: hashes_verify_def hash_secret_def verify_secret_def identify_password_hash_def
      default_password_hash_algorithm_def Let_def split: if_splits list.splits)

text \<open>A password round trips: what \<open>get_password_hash\<close> returns verifies the password.\<close>

theorem password_roundtrip:
  assumes "get_password_hash C salt (VStr p) = Inr h" "hashes_verify C salt p"
  shows "verify_password C (VStr p) (VStr h)"
  using assms hashed_secret_verifies [of C salt p h]
  by (cases "p = []") (auto simp: get_password_hash_def verify_password_def validate_password_def MIN_PASSWORD_LENGTH_def run_iff split: if_splits)

lemma pin_roundtrip:
  assumes "get_pin_hash C salt pin = Inr h" "\<And>s. pin = VStr s \<Longrightarrow> hashes_verify C salt s"
  shows "verify_pin_hash C pin (VStr h)"
proof -
  from assms(1) obtain s where s: "pin = VStr s" "four_digits s" "hash_secret C salt s = Inr h"
    by (auto simp: get_pin_hash_def validate_pin_def run_iff split: val.splits if_splits)
  then have "s \<noteq> []" by (auto simp: four_digits_def)
  with s assms(2) hashed_secret_verifies [of C salt s h] show ?thesis
    by (simp add: verify_pin_hash_def validate_pin_def)
qed

lemma verify_password_string: "verify_password C v h \<Longrightarrow> \<exists>p. v = VStr p \<and> 8 \<le> length p \<and> length p \<le> 128"
  by (auto simp: verify_password_def validate_password_def MIN_PASSWORD_LENGTH_def MAX_PASSWORD_LENGTH_def
      split: val.splits if_splits)

definition demo_crypt :: crypt where
  "demo_crypt = \<lparr>pwd_identify = (\<lambda>_. Inr (Some ''argon2'')), pwd_default_scheme = Inr ''argon2'',
     pwd_needs_update = (\<lambda>_. Inr False), pwd_verify = (\<lambda>s h. Inr (h = ''$argon2id$'' @ s)),
     pwd_hash = (\<lambda>_ s. ''$argon2id$'' @ s), bcrypt_checkpw = (\<lambda>_ _. Inl (ValueError ''Invalid salt'')),
     sha256_hex = rev, PIN_SALT = Some ''salt'', crepr = (\<lambda>_. [])\<rparr>"

theorem password_roundtrip_witness:
  "get_password_hash demo_crypt ''x'' (VStr ''correct horse'') = Inr ''$argon2id$correct horse'' \<and>
   verify_password demo_crypt (VStr ''correct horse'') (VStr ''$argon2id$correct horse'')"
proof -
  have h: "get_password_hash demo_crypt ''x'' (VStr ''correct horse'') = Inr ''$argon2id$correct horse''" by code_simp
  have "hashes_verify demo_crypt ''x'' ''correct horse''" by (simp add: hashes_verify_def demo_crypt_def is_bcrypt_hash_def)
  from password_roundtrip [OF h this] h show ?thesis by blast
qed

end
