(* ===== verification/AuthLimits.thy ===== *)
theory AuthLimits
  imports PyValue "HOL-Library.AList"
begin

text \<open>
  The limits on failed logins (\<open>auth/rate_limiter.py\<close>) over the cache service
  (\<open>services/cache/manager.py\<close>) in its in-memory mode, the one without Redis.

  A cached value is serialised to JSON and parsed again; the lists of numbers kept here survive
  that unchanged. Times are seconds; a request reads the clock once.
\<close>

section \<open>The in-memory cache\<close>

record memcache =
  memory_cache :: "(string \<times> val \<times> rat) list"
  max_memory_size :: nat
  default_ttl :: int

definition cache_key :: "string \<Rightarrow> string \<Rightarrow> string" where
  "cache_key prefix key = prefix @ '':'' @ key"

definition cache_get :: "rat \<Rightarrow> string \<Rightarrow> string \<Rightarrow> (memcache, val) comp" where
  "cache_get now prefix key C =
     (case map_of (memory_cache C) (cache_key prefix key) of
        None \<Rightarrow> (Inr VNone, C)
      | Some (v, expiry) \<Rightarrow>
          (if expiry > now then (Inr v, C)
           else (Inr VNone, C\<lparr>memory_cache := AList.delete (cache_key prefix key) (memory_cache C)\<rparr>)))"

text \<open>A full cache drops the fifth of its entries that expires first.\<close>

definition evict :: "memcache \<Rightarrow> memcache" where
  "evict C =
     (if length (memory_cache C) \<ge> max_memory_size C
      then let sorted_items = sort_key (snd \<circ> snd) (memory_cache C);
               gone = map fst (take (max 1 (length sorted_items div 5)) sorted_items)
           in C\<lparr>memory_cache := filter (\<lambda>(k, _). k \<notin> set gone) (memory_cache C)\<rparr>
      else C)"

definition cache_set :: "rat \<Rightarrow> string \<Rightarrow> string \<Rightarrow> val \<Rightarrow> int \<Rightarrow> (memcache, bool) comp" where
  "cache_set now prefix key v ttl C =
     (let seconds = (if ttl = 0 then default_ttl C else ttl); C' = evict C
      in (Inr True, C'\<lparr>memory_cache := AList.update (cache_key prefix key) (v, now + of_int seconds) (memory_cache C')\<rparr>))"

definition cache_delete :: "string \<Rightarrow> string \<Rightarrow> (memcache, bool) comp" where
  "cache_delete prefix key C =
     (if map_of (memory_cache C) (cache_key prefix key) = None then (Inr False, C)
      else (Inr True, C\<lparr>memory_cache := AList.delete (cache_key prefix key) (memory_cache C)\<rparr>))"

definition clear_prefix :: "string \<Rightarrow> (memcache, nat) comp" where
  "clear_prefix prefix C =
     (let hit = (\<lambda>(k, _). starts_with k (prefix @ '':''))
      in (Inr (length (filter hit (memory_cache C))), C\<lparr>memory_cache := filter (Not \<circ> hit) (memory_cache C)\<rparr>))"

section \<open>Limits on failed logins\<close>

record http_request =
  client_host :: "string option"
  x_forwarded_for :: "string option"
  req_user_agent :: "string option"
  req_device_id :: "string option"

record limit_settings =
  RATE_LIMIT_ENABLED :: bool
  cache_available :: bool
  ip_max :: int
  ip_window :: int
  user_max :: int
  user_window :: int

definition TRUSTED_PROXIES :: "string list" where
  "TRUSTED_PROXIES = [''127.0.0.1'', ''::1'', ''172.17.0.1'', ''10.0.0.1'']"

definition client_ip :: "http_request \<Rightarrow> string" where
  "client_ip q =
     (let ip = (case client_host q of None \<Rightarrow> ''unknown'' | Some h \<Rightarrow> h)
      in case x_forwarded_for q of
           Some (c # f) \<Rightarrow> if ip \<in> set TRUSTED_PROXIES then strip (hd (split_at (CHR '','') (c # f))) else ip
         | _ \<Rightarrow> ip)"

definition get_rate_limit_key :: "http_request \<Rightarrow> string option \<Rightarrow> string" where
  "get_rate_limit_key q identifier =
     client_ip q @ '':'' @ (case identifier of Some (c # s) \<Rightarrow> c # s | _ \<Rightarrow> ''global'')"

definition recent_attempts :: "rat \<Rightarrow> int \<Rightarrow> val \<Rightarrow> val list res" where
  "recent_attempts now window v =
     (let attempts = list_or_empty v
      in if list_all (\<lambda>t. num_of t \<noteq> None) attempts
         then Inr (filter (\<lambda>t. now - the (num_of t) < of_int window) attempts)
         else Inl (TypeError ''unsupported operand type(s) for -''))"

definition limiter_allows :: "limit_settings \<Rightarrow> rat \<Rightarrow> string \<Rightarrow> int \<Rightarrow> int \<Rightarrow> (memcache, bool) comp" where
  "limiter_allows F now key max_attempts window =
     (if \<not> cache_available F then returnM True
      else bindM (cache_get now ''auth_rate_limit'' key) (\<lambda>v.
           bindM (liftM (recent_attempts now window v)) (\<lambda>valid.
           returnM (int (length valid) < max_attempts))))"

definition limiter_record :: "limit_settings \<Rightarrow> rat \<Rightarrow> string \<Rightarrow> int \<Rightarrow> (memcache, unit) comp" where
  "limiter_record F now key window =
     whenM (cache_available F)
       (bindM (cache_get now ''auth_rate_limit'' key) (\<lambda>v.
        bindM (liftM (recent_attempts now window v)) (\<lambda>valid.
        bindM (cache_set now ''auth_rate_limit'' key (VList (valid @ [VFloat now])) window) (\<lambda>_.
        returnM ()))))"

definition limiter_reset :: "limit_settings \<Rightarrow> string \<Rightarrow> (memcache, unit) comp" where
  "limiter_reset F key =
     whenM (cache_available F) (bindM (cache_delete ''auth_rate_limit'' key) (\<lambda>_. returnM ()))"

definition user_key :: "http_request \<Rightarrow> string option \<Rightarrow> string option" where
  "user_key q identifier =
     (case identifier of Some (c # s) \<Rightarrow> Some (get_rate_limit_key q identifier) | _ \<Rightarrow> None)"

definition check_auth_rate_limits :: "limit_settings \<Rightarrow> rat \<Rightarrow> http_request \<Rightarrow> string option \<Rightarrow> (memcache, unit) comp" where
  "check_auth_rate_limits F now q identifier =
     whenM (RATE_LIMIT_ENABLED F)
       (bindM (limiter_allows F now (get_rate_limit_key q None) (ip_max F) (ip_window F)) (\<lambda>ip_ok.
        bindM (raise_if (\<not> ip_ok)
          (HTTPException 429 ''Too many authentication attempts from this IP. Please try again later.'')) (\<lambda>_.
        case user_key q identifier of
          None \<Rightarrow> returnM ()
        | Some key \<Rightarrow>
            bindM (limiter_allows F now key (user_max F) (user_window F)) (\<lambda>ok.
            raise_if (\<not> ok) (HTTPException 429 ''Too many failed attempts for this account. Please try again later.'')))))"

definition record_auth_failure :: "limit_settings \<Rightarrow> rat \<Rightarrow> http_request \<Rightarrow> string option \<Rightarrow> (memcache, unit) comp" where
  "record_auth_failure F now q identifier =
     whenM (RATE_LIMIT_ENABLED F)
       (bindM (limiter_record F now (get_rate_limit_key q None) (ip_window F)) (\<lambda>_.
        case user_key q identifier of
          None \<Rightarrow> returnM ()
        | Some key \<Rightarrow> limiter_record F now key (user_window F)))"

definition reset_auth_limits :: "limit_settings \<Rightarrow> http_request \<Rightarrow> string option \<Rightarrow> (memcache, unit) comp" where
  "reset_auth_limits F q identifier =
     bindM (limiter_reset F (get_rate_limit_key q None)) (\<lambda>_.
     case user_key q identifier of None \<Rightarrow> returnM () | Some key \<Rightarrow> limiter_reset F key)"


section \<open>Failures lock out\<close>

abbreviation entry :: "memcache \<Rightarrow> string \<Rightarrow> (val \<times> rat) option" where
  "entry C key \<equiv> map_of (memory_cache C) (cache_key ''auth_rate_limit'' key)"

text \<open>The failures of a key that count at a time, and that the cached value holds numbers only.\<close>

definition failures :: "memcache \<Rightarrow> string \<Rightarrow> rat \<Rightarrow> int \<Rightarrow> nat" where
  "failures C key t window =
     (case entry C key of
        None \<Rightarrow> 0
      | Some (v, expiry) \<Rightarrow>
          if expiry > t then length (filter (\<lambda>x. t - the (num_of x) < of_int window) (list_or_empty v)) else 0)"

definition numeric :: "memcache \<Rightarrow> string \<Rightarrow> bool" where
  "numeric C key \<longleftrightarrow>
     (case entry C key of None \<Rightarrow> True | Some (v, _) \<Rightarrow> list_all (\<lambda>x. num_of x \<noteq> None) (list_or_empty v))"

text \<open>The cache has distinct keys and room for the two keys of a login.\<close>

definition roomy :: "memcache \<Rightarrow> string set \<Rightarrow> bool" where
  "roomy C keys \<longleftrightarrow> distinct (map fst (memory_cache C)) \<and>
     card (fst ` set (memory_cache C) - cache_key ''auth_rate_limit'' ` keys) + card keys < max_memory_size C"

lemma cache_key_eq [simp]: "cache_key p k = cache_key p l \<longleftrightarrow> k = l"
  by (simp add: cache_key_def)

lemma roomy_no_evict:
  assumes "roomy C keys" "finite keys"
  shows "evict C = C"
proof -
  let ?D = "fst ` set (memory_cache C)" and ?K = "cache_key ''auth_rate_limit'' ` keys"
  have "length (memory_cache C) = card ?D"
    using assms(1) distinct_card [of "map fst (memory_cache C)"] by (simp add: roomy_def)
  also have "\<dots> \<le> card ((?D - ?K) \<union> ?K)" using assms(2) by (intro card_mono) auto
  also have "\<dots> \<le> card (?D - ?K) + card keys"
    using card_Un_le [of "?D - ?K" ?K] card_image_le [OF assms(2), of "cache_key ''auth_rate_limit''"] by linarith
  finally show ?thesis using assms(1) by (simp add: evict_def roomy_def)
qed

lemma roomy_update:
  assumes "roomy C keys" "key \<in> keys"
  shows "roomy (C\<lparr>memory_cache := AList.update (cache_key ''auth_rate_limit'' key) x (memory_cache C)\<rparr>) keys"
proof -
  have "insert (cache_key ''auth_rate_limit'' key) A - cache_key ''auth_rate_limit'' ` keys = A - cache_key ''auth_rate_limit'' ` keys" for A
    using assms(2) by auto
  with assms(1) show ?thesis by (simp add: roomy_def dom_update distinct_update)
qed

lemma roomy_delete:
  assumes "roomy C keys"
  shows "roomy (C\<lparr>memory_cache := AList.delete k (memory_cache C)\<rparr>) keys"
proof -
  let ?K = "cache_key ''auth_rate_limit'' ` keys"
  have "fst ` set (AList.delete k (memory_cache C)) - ?K \<subseteq> fst ` set (memory_cache C) - ?K"
    using dom_delete_subset [of k "memory_cache C"] by auto
  then have "card (fst ` set (AList.delete k (memory_cache C)) - ?K) \<le> card (fst ` set (memory_cache C) - ?K)"
    by (rule card_mono [rotated]) simp
  with assms show ?thesis by (simp add: roomy_def distinct_delete)
qed

lemma cache_get_entry:
  assumes "cache_get now ''auth_rate_limit'' key C = (Inr v, C')"
  shows "(\<exists>e. entry C key = Some (v, e) \<and> e > now \<and> C' = C) \<or>
    v = VNone \<and> entry C' key = None \<and> (\<forall>e w. entry C key = Some (w, e) \<longrightarrow> e \<le> now) \<and>
    (C' = C \<or> C' = C\<lparr>memory_cache := AList.delete (cache_key ''auth_rate_limit'' key) (memory_cache C)\<rparr>)"
  using assms by (auto simp: cache_get_def delete_conv' split: option.splits if_splits)

text \<open>One recorded failure counts, and the failures of other keys stay as they were.\<close>

lemma record_counts:
  assumes "cache_available F" "roomy C keys" "finite keys" "key \<in> keys" "numeric C key"
  obtains C' where "limiter_record F now key window C = (Inr (), C')" "roomy C' keys" "numeric C' key"
    "now \<le> t \<and> t - now < of_int window \<and> 0 < window \<longrightarrow> Suc (failures C key t window) \<le> failures C' key t window"
    "\<And>k. k \<noteq> key \<Longrightarrow> entry C' k = entry C k"
proof -
  obtain v C1 where g: "cache_get now ''auth_rate_limit'' key C = (Inr v, C1)"
    by (cases "cache_get now ''auth_rate_limit'' key C") (auto simp: cache_get_def split: option.splits prod.splits if_splits)
  note g' = cache_get_entry [OF g]
  have room: "roomy C1 keys" using g' assms(2) roomy_delete by blast
  have other: "entry C1 k = entry C k" if "k \<noteq> key" for k
    using g' that by (auto simp: delete_conv')
  have num: "list_all (\<lambda>x. num_of x \<noteq> None) (list_or_empty v)"
    using g' assms(5) by (auto simp: numeric_def list_or_empty_def)
  let ?valid = "filter (\<lambda>x. now - the (num_of x) < of_int window) (list_or_empty v)"
  let ?new = "VList (?valid @ [VFloat now])"
  let ?e = "now + of_int (if window = 0 then default_ttl C1 else window)"
  let ?C = "C1\<lparr>memory_cache := AList.update (cache_key ''auth_rate_limit'' key) (?new, ?e) (memory_cache C1)\<rparr>"
  have run: "limiter_record F now key window C = (Inr (), ?C)"
    using assms(1) g num roomy_no_evict [OF room assms(3)]
    by (simp add: limiter_record_def run_simps recent_attempts_def cache_set_def Let_def)
  have entry: "entry ?C key = Some (?new, ?e)" by (simp add: update_conv')
  have "Suc (failures C key t window) \<le> failures ?C key t window"
    if "now \<le> t" "t - now < of_int window" "0 < window"
  proof -
    have late: "filter (\<lambda>x. t - the (num_of x) < of_int window) (filter (\<lambda>x. now - the (num_of x) < of_int window) xs) =
        filter (\<lambda>x. t - the (num_of x) < of_int window) xs" for xs
      using that(1) by (induction xs) auto
    have "failures C key t window \<le> length (filter (\<lambda>x. t - the (num_of x) < of_int window) ?valid)"
    proof (cases "\<exists>w e. entry C key = Some (w, e) \<and> e > t")
      case True
      with g' that(1) have "\<exists>e. entry C key = Some (v, e)" by auto
      with late show ?thesis by (auto simp: failures_def)
    next
      case False
      then show ?thesis by (auto simp: failures_def split: option.splits)
    qed
    moreover have "?e > t" using that by simp
    ultimately show ?thesis using entry that by (simp add: failures_def list_or_empty_def)
  qed
  moreover have "numeric ?C key"
    using entry num by (auto simp: numeric_def list_or_empty_def list_all_iff)
  moreover have "entry ?C k = entry C k" if "k \<noteq> key" for k
    using that other [OF that] by (simp add: update_conv')
  ultimately show thesis using that run roomy_update [OF room assms(4)] by blast
qed

lemma entry_facts:
  assumes "entry C' k = entry C k"
  shows "numeric C' k = numeric C k" "failures C' k t w = failures C k t w"
  using assms by (simp_all add: numeric_def failures_def)

text \<open>The failed logins of an account at the given times.\<close>

definition fail_at :: "limit_settings \<Rightarrow> http_request \<Rightarrow> string \<Rightarrow> rat list \<Rightarrow> (memcache, unit) comp" where
  "fail_at F q u ts = forM ts (\<lambda>t. record_auth_failure F t q (Some u))"

lemma user_key_other: "u \<noteq> [] \<Longrightarrow> user_key q (Some u) = Some (client_ip q @ '':'' @ u)"
  by (cases u) (simp_all add: user_key_def get_rate_limit_key_def)

lemma failures_add_up:
  assumes "RATE_LIMIT_ENABLED F" "cache_available F" "u \<notin> {[], ''global''}" "0 < user_window F"
    and "\<forall>t' \<in> set ts. t' \<le> t \<and> t - t' < of_int (user_window F)"
    and "roomy C {get_rate_limit_key q None, get_rate_limit_key q (Some u)}"
    and "numeric C (get_rate_limit_key q None)" "numeric C (get_rate_limit_key q (Some u))"
  obtains C' where "fail_at F q u ts C = (Inr (), C')"
    "numeric C' (get_rate_limit_key q None)" "numeric C' (get_rate_limit_key q (Some u))"
    "length ts + failures C (get_rate_limit_key q (Some u)) t (user_window F) \<le>
       failures C' (get_rate_limit_key q (Some u)) t (user_window F)"
  using assms(5-8)
proof (induction ts arbitrary: C thesis)
  case Nil
  then show ?case by (simp add: fail_at_def run_simps)
next
  case (Cons t' ts)
  let ?i = "get_rate_limit_key q None" and ?u = "get_rate_limit_key q (Some u)"
  from assms(3) have ne: "?u \<noteq> ?i" and uk: "user_key q (Some u) = Some ?u"
    by (cases u; simp add: get_rate_limit_key_def user_key_def)+
  obtain C1 where 1: "limiter_record F t' ?i (ip_window F) C = (Inr (), C1)" "roomy C1 {?i, ?u}" "numeric C1 ?i"
    "\<And>k. k \<noteq> ?i \<Longrightarrow> entry C1 k = entry C k"
    by (rule record_counts [where keys = "{?i, ?u}" and t = t and F = F and C = C and key = ?i and now = t' and window = "ip_window F"])
       (use Cons.prems assms(2) in auto)
  note same = entry_facts [OF 1(4) [OF ne]]
  obtain C2 where 2: "limiter_record F t' ?u (user_window F) C1 = (Inr (), C2)" "roomy C2 {?i, ?u}" "numeric C2 ?u"
    "t' \<le> t \<and> t - t' < of_int (user_window F) \<and> 0 < user_window F \<longrightarrow>
       Suc (failures C1 ?u t (user_window F)) \<le> failures C2 ?u t (user_window F)"
    "\<And>k. k \<noteq> ?u \<Longrightarrow> entry C2 k = entry C1 k"
    by (rule record_counts [where keys = "{?i, ?u}" and t = t and F = F and C = C1 and key = ?u and now = t' and window = "user_window F"])
       (use Cons.prems assms(2) 1(2) same in auto)
  from 1(3) have i2: "numeric C2 ?i" using entry_facts(1) [OF 2(5) [OF ne [symmetric]]] by simp
  obtain C3 where 3: "fail_at F q u ts C2 = (Inr (), C3)" "numeric C3 ?i" "numeric C3 ?u"
    "length ts + failures C2 ?u t (user_window F) \<le> failures C3 ?u t (user_window F)"
    by (rule Cons.IH [OF _ _ 2(2) i2 2(3)]) (use Cons.prems(2) in auto)
  have "fail_at F q u (t' # ts) C = (Inr (), C3)"
    using 3(1) assms(1) 1(1) 2(1) uk by (simp add: fail_at_def run_simps record_auth_failure_def)
  moreover from 2(4) Cons.prems(2) assms(4) same(2) have "Suc (failures C ?u t (user_window F)) \<le> failures C2 ?u t (user_window F)" by simp
  ultimately show ?case using Cons.prems(1) 3(2-4) by simp
qed

lemma limiter_allows_run:
  assumes "cache_available F" "numeric C key"
  obtains C' where "limiter_allows F now key m window C = (Inr (int (failures C key now window) < m), C')"
    "\<And>k. k \<noteq> key \<Longrightarrow> entry C' k = entry C k"
proof -
  obtain v C' where g: "cache_get now ''auth_rate_limit'' key C = (Inr v, C')"
    by (cases "cache_get now ''auth_rate_limit'' key C") (auto simp: cache_get_def split: option.splits prod.splits if_splits)
  note g' = cache_get_entry [OF g]
  have "list_all (\<lambda>x. num_of x \<noteq> None) (list_or_empty v)"
    using g' assms(2) by (auto simp: numeric_def list_or_empty_def)
  moreover have "length (filter (\<lambda>x. now - the (num_of x) < of_int window) (list_or_empty v)) = failures C key now window"
    using g' by (auto simp: failures_def list_or_empty_def not_less split: option.splits)
  ultimately have "limiter_allows F now key m window C = (Inr (int (failures C key now window) < m), C')"
    using assms(1) g by (simp add: limiter_allows_def run_simps recent_attempts_def Let_def)
  moreover have "entry C' k = entry C k" if "k \<noteq> key" for k
    using g' that by (auto simp: delete_conv')
  ultimately show thesis using that by blast
qed

text \<open>Guessing a password is limited: once the configured number of failures of an account was
  recorded from an address within the window, the next check from there is refused with status
  429, for the account or for the address. The cache has room for the counters, so that nothing
  is evicted, and the account is not called \<open>global\<close>, the name of the counter of the address.\<close>

theorem failures_lock_out:
  assumes "RATE_LIMIT_ENABLED F" "cache_available F" "u \<notin> {[], ''global''}" "0 < user_window F"
    and "roomy C {get_rate_limit_key q None, get_rate_limit_key q (Some u)}"
    and "numeric C (get_rate_limit_key q None)" "numeric C (get_rate_limit_key q (Some u))"
    and "\<forall>t' \<in> set ts. t' \<le> t \<and> t - t' < of_int (user_window F)" "user_max F \<le> int (length ts)"
  shows "\<exists>C' C'' msg. fail_at F q u ts C = (Inr (), C') \<and>
    check_auth_rate_limits F t q (Some u) C' = (Inl (HTTPException 429 msg), C'')"
proof -
  let ?i = "get_rate_limit_key q None" and ?u = "get_rate_limit_key q (Some u)"
  from assms(3) have ne: "?u \<noteq> ?i" and uk: "user_key q (Some u) = Some ?u"
    by (cases u; simp add: get_rate_limit_key_def user_key_def)+
  obtain C' where 1: "fail_at F q u ts C = (Inr (), C')" "numeric C' ?i" "numeric C' ?u"
    "length ts + failures C ?u t (user_window F) \<le> failures C' ?u t (user_window F)"
    by (rule failures_add_up [OF assms(1-4,8,5-7)])
  obtain D where D: "limiter_allows F t ?i (ip_max F) (ip_window F) C' = (Inr (int (failures C' ?i t (ip_window F)) < ip_max F), D)"
    "\<And>k. k \<noteq> ?i \<Longrightarrow> entry D k = entry C' k"
    by (rule limiter_allows_run [OF assms(2) 1(2)]) blast
  note same = entry_facts [OF D(2) [OF ne]]
  obtain E where "limiter_allows F t ?u (user_max F) (user_window F) D = (Inr (int (failures D ?u t (user_window F)) < user_max F), E)"
    by (rule limiter_allows_run [OF assms(2), of D ?u]) (use same 1(3) in auto)
  moreover have "\<not> int (failures D ?u t (user_window F)) < user_max F" using same(2) 1(4) assms(9) by simp
  ultimately show ?thesis
    using 1(1) D(1) assms(1) uk by (simp add: check_auth_rate_limits_def run_simps)
qed

section \<open>Instances\<close>

definition demo_limits :: limit_settings where
  "demo_limits = \<lparr>RATE_LIMIT_ENABLED = True, cache_available = True, ip_max = 20, ip_window = 300, user_max = 5, user_window = 900\<rparr>"

definition demo_request :: http_request where
  "demo_request = \<lparr>client_host = Some ''9.9.9.9'', x_forwarded_for = None, req_user_agent = None, req_device_id = None\<rparr>"

definition demo_cache :: memcache where
  "demo_cache = \<lparr>memory_cache = [], max_memory_size = 100, default_ttl = 3600\<rparr>"

theorem failures_lock_out_witness:
  "\<exists>C' C'' msg. fail_at demo_limits demo_request ''ann'' [0, 1, 2, 3, 4] demo_cache = (Inr (), C') \<and>
     check_auth_rate_limits demo_limits 60 demo_request (Some ''ann'') C' = (Inl (HTTPException 429 msg), C'')"
  by (rule failures_lock_out)
     (simp_all add: demo_limits_def demo_cache_def roomy_def numeric_def card_insert_if)

text \<open>A full cache forgets the counters: failures of other accounts push a locked one out.\<close>

lemma flooded_cache_forgets:
  "(case fail_at demo_limits demo_request ''ann'' [0, 1, 2, 3, 4] (demo_cache\<lparr>max_memory_size := 3\<rparr>) of (_, C) \<Rightarrow>
     (case check_auth_rate_limits demo_limits 60 demo_request (Some ''ann'') C of (Inl _, _) \<Rightarrow> True | _ \<Rightarrow> False) \<and>
     (case bindM (fail_at demo_limits demo_request ''x'' [10]) (\<lambda>_. bindM (fail_at demo_limits demo_request ''y'' [11]) (\<lambda>_.
           bindM (fail_at demo_limits demo_request ''z'' [12]) (\<lambda>_. check_auth_rate_limits demo_limits 60 demo_request (Some ''ann'')))) C of
        (Inr _, _) \<Rightarrow> True | _ \<Rightarrow> False))"
  by code_simp

end
