(* ===== verification/TokenService.thy ===== *)
theory TokenService
  imports PinAuth
begin

text \<open>
  Tokens: the checks of \<open>auth/jwt_provider.py\<close> on top of the token library, the access tokens of
  \<open>utils/auth_utils.py\<close>, and the refresh tokens of \<open>services/refresh_token.py\<close>, stored as
  hashes, one live token per user, rotated at every use.

  The signing library (authlib) is a pair of functions of the service record: \<open>jose_encode\<close> signs
  claims, \<open>jose_decode\<close> checks the signature of a token and returns its claims. SHA-256 is the
  function \<open>sha256\<close>. A method reads the clock once; the identifier of a new token is an argument.
\<close>

section \<open>The token provider\<close>

datatype jwt_error = ExpiredSignatureError | InvalidTokenError string

record jose =
  jose_encode :: "string \<Rightarrow> doc \<Rightarrow> string \<Rightarrow> string"
  jose_decode :: "string list \<Rightarrow> string \<Rightarrow> string \<Rightarrow> jwt_error + doc"

abbreviation utc :: "int \<Rightarrow> val" where
  "utc t \<equiv> VDate t (Some 0)"

definition CLOCK_SKEW_LEEWAY_SECONDS :: rat where
  "CLOCK_SKEW_LEEWAY_SECONDS = 30"

fun ensure_timestamp :: "val \<Rightarrow> rat option" where
  "ensure_timestamp (VDate t None) = Some (of_int t / 1000000)"
| "ensure_timestamp (VDate t (Some z)) = Some (of_int (t - z) / 1000000)"
| "ensure_timestamp (VStr s) = parse_float s"
| "ensure_timestamp v = num_of v"

definition encode :: "jose \<Rightarrow> doc \<Rightarrow> string \<Rightarrow> string \<Rightarrow> string" where
  "encode J payload key algorithm = jose_encode J algorithm payload key"

fun matches_audience :: "val \<Rightarrow> string \<Rightarrow> bool" where
  "matches_audience (VStr s) expected = (s = expected)"
| "matches_audience (VList xs) expected = py_in (VStr expected) xs"
| "matches_audience _ expected = False"

definition SUPPORTED_ALGORITHMS :: "string list" where
  "SUPPORTED_ALGORITHMS = [''HS256'', ''HS384'', ''HS512'']"

text \<open>The time claims; one that is present must be a timestamp.\<close>

definition check_exp :: "rat \<Rightarrow> doc \<Rightarrow> jwt_error + unit" where
  "check_exp now claims =
     (if \<not> dhas claims ''exp'' then Inr ()
      else (case ensure_timestamp (dget claims ''exp'') of
              None \<Rightarrow> Inl (InvalidTokenError ''Malformed 'exp' claim'')
            | Some limit \<Rightarrow> if now > limit + CLOCK_SKEW_LEEWAY_SECONDS then Inl ExpiredSignatureError else Inr ()))"

definition check_nbf :: "rat \<Rightarrow> doc \<Rightarrow> jwt_error + unit" where
  "check_nbf now claims =
     (if \<not> dhas claims ''nbf'' then Inr ()
      else (case ensure_timestamp (dget claims ''nbf'') of
              None \<Rightarrow> Inl (InvalidTokenError ''Malformed 'nbf' claim'')
            | Some start \<Rightarrow> if now < start - CLOCK_SKEW_LEEWAY_SECONDS
                then Inl (InvalidTokenError ''Token not yet valid (nbf)'') else Inr ()))"

definition check_claims :: "rat \<Rightarrow> string option \<Rightarrow> string option \<Rightarrow> doc \<Rightarrow> jwt_error + doc" where
  "check_claims now issuer audience claims =
     (case check_exp now claims of Inl e \<Rightarrow> Inl e | Inr _ \<Rightarrow>
      (case check_nbf now claims of Inl e \<Rightarrow> Inl e | Inr _ \<Rightarrow>
       (if (case issuer of None \<Rightarrow> False | Some i \<Rightarrow> dget claims ''iss'' \<noteq> VStr i)
        then Inl (InvalidTokenError ''Invalid issuer'')
        else if (case audience of None \<Rightarrow> False | Some a \<Rightarrow> \<not> matches_audience (dget claims ''aud'') a)
        then Inl (InvalidTokenError ''Invalid audience'')
        else Inr claims)))"

definition decode :: "jose \<Rightarrow> int \<Rightarrow> string \<Rightarrow> string \<Rightarrow> string list \<Rightarrow> string option \<Rightarrow> string option \<Rightarrow> jwt_error + doc" where
  "decode J now token key algorithms issuer audience =
     (if list_ex (\<lambda>a. a \<notin> set SUPPORTED_ALGORITHMS) algorithms
      then Inl (InvalidTokenError ''Unsupported algorithm(s)'')
      else (case jose_decode J (if algorithms = [] then SUPPORTED_ALGORITHMS else algorithms) key token of
              Inl e \<Rightarrow> Inl e
            | Inr claims \<Rightarrow> check_claims (of_int now / 1000000) issuer audience claims))"

section \<open>Access tokens\<close>

definition ISSUER :: string where "ISSUER = ''stk-verify-api''"

definition AUDIENCE :: string where "AUDIENCE = ''stk-verify-client''"

definition access_claims :: "doc \<Rightarrow> int \<Rightarrow> doc" where
  "access_claims data expire =
     dmerge data [(''exp'', utc expire), (''type'', VStr ''access''), (''iss'', VStr ISSUER), (''aud'', VStr AUDIENCE)]"

definition create_access_token :: "jose \<Rightarrow> doc \<Rightarrow> string \<Rightarrow> string \<Rightarrow> int \<Rightarrow> int \<Rightarrow> string" where
  "create_access_token J data secret_key algorithm now expires_delta =
     encode J (access_claims data (now + expires_delta)) secret_key algorithm"

section \<open>Refresh tokens\<close>

record 'db token_service =
  tstore :: "'db store"
  tjose :: jose
  trepr :: repr
  sha256 :: "string \<Rightarrow> string"
  refresh_secret_key :: string
  access_secret_key :: string
  algorithm :: string

definition refresh_token_expiry :: int where
  "refresh_token_expiry = 30 * 24 * 3600 * 1000000"

definition access_token_expiry :: int where
  "access_token_expiry = 15 * 60 * 1000000"

abbreviation REFRESH :: string where "REFRESH \<equiv> ''refresh_tokens''"

definition refresh_claims :: "doc \<Rightarrow> int \<Rightarrow> string \<Rightarrow> doc" where
  "refresh_claims data expire jti =
     dmerge data [(''exp'', utc expire), (''type'', VStr ''refresh''), (''jti'', VStr jti), (''iss'', VStr ISSUER),
       (''aud'', VStr AUDIENCE)]"

definition create_refresh_token :: "'db token_service \<Rightarrow> int \<Rightarrow> string \<Rightarrow> doc \<Rightarrow> string" where
  "create_refresh_token T now jti data =
     encode (tjose T) (refresh_claims data (now + refresh_token_expiry) jti) (refresh_secret_key T) (algorithm T)"

definition live_user_tokens :: "val \<Rightarrow> query" where
  "live_user_tokens username = [(''username'', CEq username), (''revoked'', CEq (VBool False))]"

definition revocation :: "int \<Rightarrow> int \<Rightarrow> doc" where
  "revocation now grace_period_seconds =
     [(''revoked'', VBool True), (''revoked_at'', utc now)] @
     (if grace_period_seconds > 0 then [(''grace_until'', utc (now + grace_period_seconds * 1000000))] else [])"

definition revoke_all_user_tokens :: "'db token_service \<Rightarrow> int \<Rightarrow> val \<Rightarrow> int \<Rightarrow> bool \<Rightarrow> ('db, nat) comp" where
  "revoke_all_user_tokens T now username grace raise_on_error = (\<lambda>db.
     case update_many (tstore T) REFRESH (live_user_tokens username) [(''$set'', VDict (revocation now grace))] db of
       (Inr (_, modified), db') \<Rightarrow> (Inr modified, db')
     | (Inl _, db') \<Rightarrow> (if raise_on_error then Inl (PyRuntimeError ''Failed to revoke existing refresh tokens'') else Inr 0, db'))"

definition cleanup_filter :: "int \<Rightarrow> query" where
  "cleanup_filter now =
     [(''$and'', CClauses
        [[(''$or'', CClauses [[(''grace_until'', CExists False)], [(''grace_until'', CCmp Lte (utc now))]])],
         [(''$or'', CClauses [[(''expires_at'', CCmp Lt (utc now))], [(''revoked'', CEq (VBool True))]])]])]"

definition cleanup_expired_tokens :: "'db token_service \<Rightarrow> int \<Rightarrow> ('db, unit) comp" where
  "cleanup_expired_tokens T now = bindM (delete_many (tstore T) REFRESH (cleanup_filter now)) (\<lambda>_. returnM ())"

text \<open>\<open>if value: document[key] = value\<close> for the optional fields.\<close>

definition optional_field :: "string \<Rightarrow> string option \<Rightarrow> doc" where
  "optional_field k v = (case v of Some (c # s) \<Rightarrow> [(k, VStr (c # s))] | _ \<Rightarrow> [])"

record client =
  ip_address :: "string option"
  user_agent :: "string option"
  device_id :: "string option"

definition no_client :: client where
  "no_client = \<lparr>ip_address = None, user_agent = None, device_id = None\<rparr>"

definition refresh_doc :: "'db token_service \<Rightarrow> int \<Rightarrow> string \<Rightarrow> val \<Rightarrow> val \<Rightarrow> client \<Rightarrow> doc" where
  "refresh_doc T now token username expires_at c =
     [(''token_hash'', VStr (sha256 T token)), (''username'', username), (''created_at'', utc now),
      (''expires_at'', expires_at), (''revoked'', VBool False)] @
     optional_field ''ip_address'' (ip_address c) @ optional_field ''user_agent'' (user_agent c) @
     optional_field ''device_id'' (device_id c)"

definition store_refresh_token :: "'db token_service \<Rightarrow> int \<Rightarrow> string \<Rightarrow> val \<Rightarrow> val \<Rightarrow> client \<Rightarrow> ('db, unit) comp" where
  "store_refresh_token T now token username expires_at c = (\<lambda>db.
     case bindM (revoke_all_user_tokens T now username 10 True) (\<lambda>_.
          bindM (insert_one (tstore T) REFRESH (refresh_doc T now token username expires_at c)) (\<lambda>_.
          cleanup_expired_tokens T now)) db of
       (Inr _, db') \<Rightarrow> (Inr (), db')
     | (Inl _, db') \<Rightarrow> (Inl (PyRuntimeError ''Failed to store refresh token''), db'))"

definition token_query :: "'db token_service \<Rightarrow> string \<Rightarrow> query" where
  "token_query T token =
     [(''$or'', CClauses [[(''token_hash'', CEq (VStr (sha256 T token)))], [(''token'', CEq (VStr token))]])]"

definition active_query :: "'db token_service \<Rightarrow> int \<Rightarrow> string \<Rightarrow> query" where
  "active_query T now token =
     [(''$and'', CClauses [token_query T token, [(''revoked'', CEq (VBool False))]]), (''expires_at'', CCmp Gt (utc now))]"

text \<open>The migration of a record that still holds the raw token; its failure is only logged.\<close>

definition migrate_record :: "'db token_service \<Rightarrow> string \<Rightarrow> doc \<Rightarrow> ('db, unit) comp" where
  "migrate_record T token stored = (\<lambda>db.
     if dget stored ''token'' = VStr token \<and> \<not> truthy (dget stored ''token_hash'')
     then (Inr (), if dhas stored ''_id''
        then snd (update_one (tstore T) REFRESH [(''_id'', CEq (dget stored ''_id''))]
               [(''$set'', VDict [(''token_hash'', VStr (sha256 T token))]), (''$unset'', VDict [(''token'', VStr [])])] db)
        else db)
     else (Inr (), db))"

definition verify_refresh_token :: "'db token_service \<Rightarrow> int \<Rightarrow> string \<Rightarrow> ('db, doc option) comp" where
  "verify_refresh_token T now token =
     (case decode (tjose T) now token (refresh_secret_key T) [algorithm T] (Some ISSUER) (Some AUDIENCE) of
        Inl _ \<Rightarrow> returnM None
      | Inr payload \<Rightarrow>
          (if dget payload ''type'' \<noteq> VStr ''refresh'' then returnM None
           else bindM (find_one (tstore T) REFRESH (active_query T now token)) (\<lambda>found.
                case found of
                  None \<Rightarrow> returnM None
                | Some stored \<Rightarrow>
                    (if stored = [] then returnM None
                     else bindM (migrate_record T token stored) (\<lambda>_. returnM (Some payload))))))"

definition revoke_token :: "'db token_service \<Rightarrow> int \<Rightarrow> string \<Rightarrow> ('db, bool) comp" where
  "revoke_token T now token =
     or_false (bindM (update_one (tstore T) REFRESH (token_query T token)
       [(''$set'', VDict [(''revoked'', VBool True), (''revoked_at'', utc now)])]) (\<lambda>(_, modified).
     returnM (modified > 0)))"

definition user_summary :: "'db token_service \<Rightarrow> val \<Rightarrow> val \<Rightarrow> doc option \<Rightarrow> doc" where
  "user_summary T username role profile =
     [(''username'', VStr (if truthy username then py_str (trepr T) username else [])),
      (''full_name'', VStr (case profile of None \<Rightarrow> []
         | Some p \<Rightarrow> if p = [] then [] else py_str (trepr T) (dget_or p ''full_name'' (VStr [])))),
      (''role'', VStr (if truthy role then py_str (trepr T) role else []))]"

definition refresh_access_token :: "'db token_service \<Rightarrow> int \<Rightarrow> string \<Rightarrow> string \<Rightarrow> ('db, doc option) comp" where
  "refresh_access_token T now jti token =
     bindM (verify_refresh_token T now token) (\<lambda>payload.
     case payload of
       None \<Rightarrow> returnM None
     | Some p \<Rightarrow>
         (if p = [] then returnM None
          else
            let username = dget p ''sub''; role = dget p ''role'';
                data = [(''sub'', username), (''role'', role)];
                fresh = create_refresh_token T now jti data
            in bindM (if truthy username then find_one (tstore T) ''users'' [(''username'', CEq username)] else returnM None) (\<lambda>profile.
               bindM (whenM (truthy username)
                 (store_refresh_token T now fresh (VStr (py_str (trepr T) username)) (utc (now + refresh_token_expiry)) no_client)) (\<lambda>_.
               bindM (revoke_token T now token) (\<lambda>_.
               returnM (Some
                 [(''access_token'', VStr (create_access_token (tjose T) data (access_secret_key T) (algorithm T) now access_token_expiry)),
                  (''refresh_token'', VStr fresh), (''token_type'', VStr ''bearer''),
                  (''expires_in'', VInt (access_token_expiry div 1000000)),
                  (''user'', VDict (user_summary T username role profile))]))))))"


section \<open>Facts\<close>

text \<open>What the provider accepts: a token whose signature the library confirms for a supported
  algorithm, whose time claims are timestamps and hold up to the leeway of thirty seconds, and
  whose issuer and audience are the expected ones; the claims are returned as they are.\<close>

theorem decode_accepts_iff:
  "decode J now token key [alg] (Some i) (Some a) = Inr claims \<longleftrightarrow>
     alg \<in> set SUPPORTED_ALGORITHMS \<and> jose_decode J [alg] key token = Inr claims \<and>
     (dhas claims ''exp'' \<longrightarrow> (\<exists>t. ensure_timestamp (dget claims ''exp'') = Some t \<and> of_int now / 1000000 \<le> t + 30)) \<and>
     (dhas claims ''nbf'' \<longrightarrow> (\<exists>t. ensure_timestamp (dget claims ''nbf'') = Some t \<and> t - 30 \<le> of_int now / 1000000)) \<and>
     dget claims ''iss'' = VStr i \<and> matches_audience (dget claims ''aud'') a"
  by (auto simp: decode_def check_claims_def check_exp_def check_nbf_def CLOCK_SKEW_LEEWAY_SECONDS_def not_less
      split: sum.splits option.splits if_splits)

lemma optional_field_keys: "fst ` set (optional_field k v) \<subseteq> {k}"
  by (auto simp: optional_field_def split: option.splits list.splits)

lemma map_of_optional: "j \<noteq> k \<Longrightarrow> map_of (optional_field k v) j = None"
  by (auto simp: optional_field_def split: option.splits list.splits)

lemma refresh_doc_fields:
  "k \<noteq> ''_id'' \<Longrightarrow> dget (dset_default ''_id'' i (refresh_doc T now token u e c)) k = dget (refresh_doc T now token u e c) k"
  "dget (refresh_doc T now token u e c) ''token_hash'' = VStr (sha256 T token)"
  "dget (refresh_doc T now token u e c) ''username'' = u"
  "dget (refresh_doc T now token u e c) ''expires_at'' = e"
  "dget (refresh_doc T now token u e c) ''revoked'' = VBool False"
  "dget (refresh_doc T now token u e c) ''token'' = VNone"
  by (simp_all add: doc_simps) (simp_all add: refresh_doc_def dget_def map_of_optional map_add_def)

text \<open>A revoked record is no longer live and still the record of its token.\<close>

lemma revocation_set:
  "match_filter [(''revoked'', CEq (VBool False))] (snd (apply_set (revocation now g) d)) = False"
  "k \<notin> {''revoked'', ''revoked_at'', ''grace_until''} \<Longrightarrow> dget (snd (apply_set (revocation now g) d)) k = dget d k"
proof -
  have "py_eq (dget (snd (apply_set (revocation now g) d)) ''revoked'') (VBool True)"
    by (rule apply_set_get) (auto simp: revocation_def)
  from eq_true_not_false [OF this]
  show "match_filter [(''revoked'', CEq (VBool False))] (snd (apply_set (revocation now g) d)) = False"
    by (simp add: field_values_def)
  show "k \<notin> {''revoked'', ''revoked_at'', ''grace_until''} \<Longrightarrow> dget (snd (apply_set (revocation now g) d)) k = dget d k"
    by (rule apply_set_other) (auto simp: revocation_def)
qed

lemma token_query_fields:
  assumes "dget d ''token_hash'' = dget e ''token_hash''" "dget d ''token'' = dget e ''token''"
  shows "match_filter (token_query T token) d = match_filter (token_query T token) e"
  using assms by (simp add: token_query_def field_values_def)

lemma active_query_parts:
  "match_filter (active_query T now token) d \<longleftrightarrow> match_filter (token_query T token) d \<and>
     match_filter [(''revoked'', CEq (VBool False))] d \<and> match_filter [(''expires_at'', CCmp Gt (utc now))] d"
  by (simp add: active_query_def)

lemma revoked_is_dead:
  "match_filter (token_query T token) (snd (apply_set (revocation now g) d)) = match_filter (token_query T token) d"
  "\<not> match_filter (active_query T t token') (snd (apply_set (revocation now g) d))"
  "\<not> match_filter (live_user_tokens u) (snd (apply_set (revocation now g) d))"
proof -
  show "match_filter (token_query T token) (snd (apply_set (revocation now g) d)) = match_filter (token_query T token) d"
    by (rule token_query_fields) (simp_all add: revocation_set(2))
  show "\<not> match_filter (active_query T t token') (snd (apply_set (revocation now g) d))"
    by (simp only: active_query_parts revocation_set(1)) simp
  show "\<not> match_filter (live_user_tokens u) (snd (apply_set (revocation now g) d))"
    using revocation_set(1) [of now g d] by (simp add: live_user_tokens_def)
qed

lemma update_first_at_hd: "filter P xs = d # ds \<Longrightarrow> update_first P (\<lambda>_. f d) xs = update_first P f xs"
  by (induction xs) (auto split: if_splits)

lemma filter_comm_le: "length (filter P (filter Q xs)) \<le> length (filter P xs)"
  by (induction xs) auto

lemma length_filter_update_first:
  "\<forall>x \<in> set xs. Q x \<longrightarrow> P x \<Longrightarrow> length (filter P (update_first Q f xs)) \<le> length (filter P xs)"
  by (induction xs) auto

context document_store
begin

lemma store_refresh_token_run:
  assumes "tstore T = S" and "store_refresh_token T now token u e c db = (Inr x, db')"
  obtains i where "docs S REFRESH db' = filter (Not \<circ> match_filter (cleanup_filter now))
      (map (\<lambda>d. if match_filter (live_user_tokens u) d then snd (apply_set (revocation now 10) d) else d) (docs S REFRESH db) @
       [dset_default ''_id'' i (refresh_doc T now token u e c)])"
proof -
  from assms obtain n d1 i d2 k where
    u: "update_many S REFRESH (live_user_tokens u) [(''$set'', VDict (revocation now 10))] db = (Inr n, d1)" and
    i: "insert_one S REFRESH (refresh_doc T now token u e c) d1 = (Inr i, d2)" and
    k: "delete_many S REFRESH (cleanup_filter now) d2 = (Inr k, db')"
    by (auto simp: store_refresh_token_def revoke_all_user_tokens_def cleanup_expired_tokens_def run_iff
        split: prod.splits sum.splits if_splits)
  from k have "docs S REFRESH db' = filter (Not \<circ> match_filter (cleanup_filter now)) (docs S REFRESH d2)"
    using delete_many_law by (auto simp: delete_many_def split: prod.splits)
  with insert_one_docs [OF i] update_many_law [OF u] show thesis
    by (intro that [of i]) (auto simp only: apply_set_update sum.inject)
qed

lemma revoke_token_run:
  assumes "tstore T = S" and "revoke_token T now token db = (r, db')"
  shows "docs S REFRESH db' = update_first (match_filter (token_query T token)) (\<lambda>d. snd (apply_set (revocation now 0) d)) (docs S REFRESH db)"
proof -
  let ?u = "[(''$set'', VDict (revocation now 0))]"
  have rev: "[(''revoked'', VBool True), (''revoked_at'', utc now)] = revocation now 0" by (simp add: revocation_def)
  obtain q d1 where up: "update_one S REFRESH (token_query T token) ?u db = (q, d1)"
    by (cases "update_one S REFRESH (token_query T token) ?u db")
  with assms have db': "db' = d1" unfolding revoke_token_def or_false_def rev
    by (auto simp: run_simps split: prod.splits sum.splits)
  show ?thesis
  proof (cases "filter (match_filter (token_query T token)) (docs S REFRESH db)")
    case Nil
    with update_one_none [OF up Nil] db' show ?thesis by (simp add: update_first_none)
  next
    case (Cons d ds)
    from apply_set_update_total [of "revocation now 0" d] update_one_some [OF up Cons]
    have "docs S REFRESH d1 = update_first (match_filter (token_query T token)) (\<lambda>_. snd (apply_set (revocation now 0) d)) (docs S REFRESH db)"
      by auto
    with db' update_first_at_hd [OF Cons, of "\<lambda>d. snd (apply_set (revocation now 0) d)"] show ?thesis by simp
  qed
qed


text \<open>At most one record of a token stays at most one while another token is stored.\<close>

lemma stored_other_token:
  assumes "tstore T = S" and "store_refresh_token T now fresh u e c db = (Inr x, db')"
    and "sha256 T fresh \<noteq> sha256 T token"
    and "length (filter (match_filter (token_query T token)) (docs S REFRESH db)) \<le> 1"
  shows "length (filter (match_filter (token_query T token)) (docs S REFRESH db')) \<le> 1"
proof -
  let ?q = "match_filter (token_query T token)"
  let ?f = "\<lambda>d. if match_filter (live_user_tokens u) d then snd (apply_set (revocation now 10) d) else d"
  obtain i where i: "docs S REFRESH db' = filter (Not \<circ> match_filter (cleanup_filter now))
      (map ?f (docs S REFRESH db) @ [dset_default ''_id'' i (refresh_doc T now fresh u e c)])"
    by (rule store_refresh_token_run [OF assms(1,2)])
  have same: "?q (?f d) = ?q d" for d by (simp add: revoked_is_dead(1))
  have new: "\<not> ?q (dset_default ''_id'' i (refresh_doc T now fresh u e c))"
    using assms(3) by (simp add: token_query_def field_values_def refresh_doc_fields)
  have "length (filter ?q (map ?f xs)) = length (filter ?q xs)" for xs
    using same by (induction xs) simp_all
  with new assms(4) have "length (filter ?q (map ?f (docs S REFRESH db) @ [dset_default ''_id'' i (refresh_doc T now fresh u e c)])) \<le> 1"
    by simp
  then show ?thesis unfolding i by (rule order_trans [OF filter_comm_le])
qed

lemma revoked_token_dead:
  assumes "tstore T = S" and "revoke_token T now token db = (r, db')"
    and "length (filter (match_filter (token_query T token)) (docs S REFRESH db)) \<le> 1"
  shows "filter (match_filter (active_query T t token)) (docs S REFRESH db') = []"
proof -
  have "filter (match_filter (active_query T t token))
     (update_first (match_filter (token_query T token)) (\<lambda>d. snd (apply_set (revocation now 0) d)) xs) = []"
    if "length (filter (match_filter (token_query T token)) xs) \<le> 1" for xs
    using that
  proof (induction xs)
    case (Cons d xs)
    show ?case
    proof (cases "match_filter (token_query T token) d")
      case True
      with Cons.prems have "filter (match_filter (token_query T token)) xs = []" by simp
      then have "filter (match_filter (active_query T t token)) xs = []"
        by (auto simp: filter_empty_conv active_query_parts)
      with True show ?thesis by (simp add: revoked_is_dead(2))
    next
      case False
      with Cons show ?thesis by (simp add: active_query_parts)
    qed
  qed simp
  from this [OF assms(3)] revoke_token_run [OF assms(1,2)] show ?thesis by simp
qed

lemma verify_dead:
  assumes "tstore T = S" and "filter (match_filter (active_query T now token)) (docs S REFRESH db) = []"
  shows "verify_refresh_token T now token db = (Inr None, db)"
  using assms by (simp add: verify_refresh_token_def find_one_run run_simps split: sum.splits)

text \<open>The migration keeps the one record of the token.\<close>

lemma migrate_keeps_one:
  assumes "tstore T = S" and "migrate_record T token d db = (r, db')"
    and "filter (match_filter (token_query T token)) (docs S REFRESH db) = [d]"
    and "filter (match_filter [(''_id'', CEq (dget d ''_id''))]) (docs S REFRESH db) = [d]"
  shows "length (filter (match_filter (token_query T token)) (docs S REFRESH db')) \<le> 1"
proof -
  let ?q = "match_filter (token_query T token)" and ?i = "[(''_id'', CEq (dget d ''_id''))]"
  let ?h = "[(''token_hash'', VStr (sha256 T token))]"
  let ?u = "[(''$set'', VDict ?h), (''$unset'', VDict [(''token'', VStr [])])]"
  show ?thesis
  proof (cases "(dget d ''token'' = VStr token \<and> \<not> truthy (dget d ''token_hash'')) \<and> dhas d ''_id''")
    case True
    obtain q d1 where up: "update_one S REFRESH ?i ?u db = (q, d1)" by (cases "update_one S REFRESH ?i ?u db")
    with True assms(1,2) have db': "db' = d1" by (simp add: migrate_record_def)
    have "apply_update ?u = apply_update [(''$set'', VDict ?h)]"
      by (rule ext) (simp add: apply_update_def dget_def dhas_def)
    with apply_set_update_total [of ?h d] obtain m where "apply_update ?u d = (Inr m, snd (apply_set ?h d))" by auto
    from update_one_some [OF up assms(4) this] db'
    have docs: "docs S REFRESH db' = update_first (match_filter ?i) (\<lambda>_. snd (apply_set ?h d)) (docs S REFRESH db)" by simp
    have "dget (snd (apply_set ?h d)) ''token'' = dget d ''token''" by (rule apply_set_other) simp
    with True have "?q (snd (apply_set ?h d))" by (simp add: token_query_def field_values_def)
    moreover have "match_filter ?i d" using filter_hd_sat [OF assms(4)] by blast
    moreover have "?q x" if "x \<in> set (docs S REFRESH db)" "match_filter ?i x" for x
    proof -
      from that have "x \<in> set (filter (match_filter ?i) (docs S REFRESH db))" by simp
      then have "x = d" unfolding assms(4) by simp
      with filter_hd_sat [OF assms(3)] show ?thesis by simp
    qed
    ultimately show ?thesis using docs assms(3) length_filter_update_first [of "docs S REFRESH db" "match_filter ?i" ?q] by auto
  next
    case False
    with assms(1,2) have "db' = db" by (auto simp: migrate_record_def split: if_splits)
    with assms(3) show ?thesis by simp
  qed
qed

lemma refresh_rotates:
  assumes "tstore T = S" and "refresh_access_token T now jti token db = (Inr (Some r), db')"
    and "filter (match_filter (token_query T token)) (docs S REFRESH db) = [d]"
    and "filter (match_filter [(''_id'', CEq (dget d ''_id''))]) (docs S REFRESH db) = [d]"
    and "dget r ''refresh_token'' = VStr fresh" "sha256 T fresh \<noteq> sha256 T token"
  shows "filter (match_filter (active_query T t token)) (docs S REFRESH db') = []"
proof -
  let ?q = "match_filter (token_query T token)"
  from assms(1,2,5) obtain p d1 d2 b where
    v: "verify_refresh_token T now token db = (Inr (Some p), d1)" and
    st: "whenM (truthy (dget p ''sub'')) (store_refresh_token T now fresh (VStr (py_str (trepr T) (dget p ''sub'')))
          (utc (now + refresh_token_expiry)) no_client) d1 = (Inr (), d2)" and
    rv: "revoke_token T now token d2 = (Inr b, db')"
    by (auto simp: refresh_access_token_def run_iff Let_def find_one_def dget_def split: option.splits if_splits)
  from v assms(1) obtain stored x where "find_one S REFRESH (active_query T now token) db = (Inr (Some stored), db)"
    and mig: "migrate_record T token stored db = (Inr x, d1)"
    by (auto simp: verify_refresh_token_def run_iff find_one_run split: sum.splits if_splits option.splits list.splits)
  then obtain ds where "filter (match_filter (active_query T now token)) (docs S REFRESH db) = stored # ds"
    by (auto simp: find_one_run split: list.splits)
  from filter_hd_sat [OF this] filter_eq_ConsD [OF this] have "?q stored" "stored \<in> set (docs S REFRESH db)"
    by (auto simp: active_query_parts)
  then have "stored \<in> set (filter ?q (docs S REFRESH db))" by simp
  then have "stored = d" unfolding assms(3) by simp
  with mig migrate_keeps_one [OF assms(1) _ assms(3,4)] have one: "length (filter ?q (docs S REFRESH d1)) \<le> 1" by blast
  have "length (filter ?q (docs S REFRESH d2)) \<le> 1"
  proof (cases "truthy (dget p ''sub'')")
    case True
    with st have "store_refresh_token T now fresh (VStr (py_str (trepr T) (dget p ''sub'')))
      (utc (now + refresh_token_expiry)) no_client d1 = (Inr (), d2)" by (simp add: run_simps)
    from stored_other_token [OF assms(1) this assms(6) one] show ?thesis .
  next
    case False
    with st one show ?thesis by (simp add: run_simps)
  qed
  from revoked_token_dead [OF assms(1) rv this] show ?thesis .
qed

lemma stored_single_session:
  assumes "tstore T = S" and "store_refresh_token T now token (VStr u) (utc e) c db = (Inr x, db')" and "now \<le> e"
  shows "\<exists>i. filter (match_filter (live_user_tokens (VStr u))) (docs S REFRESH db') = [dset_default ''_id'' i (refresh_doc T now token (VStr u) (utc e) c)]"
proof -
  let ?l = "match_filter (live_user_tokens (VStr u))"
  let ?f = "\<lambda>d. if ?l d then snd (apply_set (revocation now 10) d) else d"
  obtain i where i: "docs S REFRESH db' = filter (Not \<circ> match_filter (cleanup_filter now))
      (map ?f (docs S REFRESH db) @ [dset_default ''_id'' i (refresh_doc T now token (VStr u) (utc e) c)])"
    by (rule store_refresh_token_run [OF assms(1,2)])
  let ?d = "dset_default ''_id'' i (refresh_doc T now token (VStr u) (utc e) c)"
  have dead: "\<not> ?l (?f d)" for d by (simp add: revoked_is_dead(3))
  have "?l ?d" by (simp add: live_user_tokens_def field_values_def refresh_doc_fields)
  moreover have "\<not> match_filter (cleanup_filter now) ?d"
    using assms(3) by (auto simp: cleanup_filter_def field_values_def refresh_doc_fields)
  moreover have "filter ?l (filter P (map ?f xs)) = []" for P xs
    by (auto simp: filter_empty_conv revoked_is_dead(3))
  ultimately show ?thesis unfolding i by auto
qed

end

text \<open>(C18) Refresh tokens are used once: after a refresh with a token, the token is refused for ever,
  by the verification and by the refresh, and neither changes anything. The record of the token
  and its identifier are unique, by the indexes, and the two tokens have different hashes.\<close>

theorem rotated_token_refused:
  assumes "document_store (tstore T)"
    and "refresh_access_token T now jti token db = (Inr (Some r), db')"
    and "filter (match_filter (token_query T token)) (docs (tstore T) REFRESH db) = [d]"
    and "filter (match_filter [(''_id'', CEq (dget d ''_id''))]) (docs (tstore T) REFRESH db) = [d]"
    and "dget r ''refresh_token'' = VStr fresh" "sha256 T fresh \<noteq> sha256 T token"
  shows "verify_refresh_token T now' token db' = (Inr None, db') \<and>
    refresh_access_token T now' jti' token db' = (Inr None, db')"
proof -
  note dead = document_store.refresh_rotates [OF assms(1) refl assms(2-6)]
  from document_store.verify_dead [OF assms(1) refl dead] show ?thesis
    by (simp add: refresh_access_token_def run_simps)
qed

text \<open>One session per user: after a refresh token is stored for a user, the record of this
  token is the only live one of the user.\<close>

theorem one_session_per_user:
  assumes "document_store (tstore T)" and "store_refresh_token T now token (VStr u) (utc e) c db = (Inr x, db')" and "now \<le> e"
  shows "\<exists>i. filter (match_filter (live_user_tokens (VStr u))) (docs (tstore T) REFRESH db') =
    [dset_default ''_id'' i (refresh_doc T now token (VStr u) (utc e) c)]"
  by (rule document_store.stored_single_session [OF assms(1) refl assms(2,3)])

section \<open>Instances\<close>

text \<open>A library that signs with the key in front of the identifier of the token.\<close>

definition demo_jose :: jose where
  "demo_jose = \<lparr>jose_encode = (\<lambda>alg payload key. key @ (case dget payload ''jti'' of VStr j \<Rightarrow> j | _ \<Rightarrow> [])),
     jose_decode = (\<lambda>algs key token. if starts_with token key
       then Inr [(''sub'', VStr ''ann''), (''role'', VStr ''staff''), (''exp'', VInt 4000000), (''type'', VStr ''refresh''),
         (''iss'', VStr ISSUER), (''aud'', VStr AUDIENCE)]
       else Inl (InvalidTokenError ''bad_signature''))\<rparr>"

definition demo_tokens :: "memdb token_service" where
  "demo_tokens = \<lparr>tstore = mem_store show_nat (\<lambda>_. False), tjose = demo_jose, trepr = (\<lambda>_. []), sha256 = rev,
     refresh_secret_key = ''k'', access_secret_key = ''a'', algorithm = ''HS256''\<rparr>"

definition demo_token_db :: memdb where
  "demo_token_db = snd (store_refresh_token demo_tokens 0 ''k1'' (VStr ''ann'') (utc refresh_token_expiry) no_client
     \<lparr>colls = (\<lambda>_. []), next_id = 0\<rparr>)"

theorem rotated_token_refused_witness:
  "\<exists>r db'. refresh_access_token demo_tokens 5 ''2'' ''k1'' demo_token_db = (Inr (Some r), db') \<and>
     dget r ''refresh_token'' = VStr ''k2'' \<and>
     refresh_access_token demo_tokens 6 ''3'' ''k1'' db' = (Inr None, db')"
proof -
  have "case fst (refresh_access_token demo_tokens 5 ''2'' ''k1'' demo_token_db) of Inl _ \<Rightarrow> False | Inr None \<Rightarrow> False
      | Inr (Some r) \<Rightarrow> dget r ''refresh_token'' = VStr ''k2''" by code_simp
  then obtain r db' where run: "refresh_access_token demo_tokens 5 ''2'' ''k1'' demo_token_db = (Inr (Some r), db')"
    and r: "dget r ''refresh_token'' = VStr ''k2''"
    by (cases "refresh_access_token demo_tokens 5 ''2'' ''k1'' demo_token_db") (auto split: sum.splits option.splits)
  let ?d = "hd (colls demo_token_db REFRESH)"
  have s: "document_store (tstore demo_tokens)" by (simp add: demo_tokens_def document_store_mem)
  have d: "filter (match_filter (token_query demo_tokens ''k1'')) (docs (tstore demo_tokens) REFRESH demo_token_db) = [?d]"
    "filter (match_filter [(''_id'', CEq (dget ?d ''_id''))]) (docs (tstore demo_tokens) REFRESH demo_token_db) = [?d]"
    by code_simp+
  have "sha256 demo_tokens ''k2'' \<noteq> sha256 demo_tokens ''k1''" by code_simp
  from rotated_token_refused [OF s run d r this] run r show ?thesis by blast
qed

theorem one_session_per_user_witness:
  "\<exists>i db'. store_refresh_token demo_tokens 7 ''k2'' (VStr ''ann'') (utc refresh_token_expiry) no_client demo_token_db = (Inr (), db') \<and>
     filter (match_filter (live_user_tokens (VStr ''ann''))) (colls db' REFRESH) =
       [dset_default ''_id'' i (refresh_doc demo_tokens 7 ''k2'' (VStr ''ann'') (utc refresh_token_expiry) no_client)]"
proof -
  have "fst (store_refresh_token demo_tokens 7 ''k2'' (VStr ''ann'') (utc refresh_token_expiry) no_client demo_token_db) = Inr ()"
    by code_simp
  then obtain db' where run: "store_refresh_token demo_tokens 7 ''k2'' (VStr ''ann'') (utc refresh_token_expiry) no_client demo_token_db = (Inr (), db')"
    by (metis prod.collapse)
  have s: "document_store (tstore demo_tokens)" by (simp add: demo_tokens_def document_store_mem)
  have "(7 :: int) \<le> refresh_token_expiry" by (simp add: refresh_token_expiry_def)
  from one_session_per_user [OF s run this] run show ?thesis by (auto simp: demo_tokens_def)
qed

text \<open>The statement of \<open>decode_accepts_iff\<close> at an expired and at a valid token.\<close>

theorem decode_accepts_iff_witness:
  "decode demo_jose 0 ''k1'' ''k'' [''HS256''] (Some ISSUER) (Some AUDIENCE) \<noteq> Inl ExpiredSignatureError \<and>
   \<not> (\<exists>c. decode demo_jose 4000031000000 ''k1'' ''k'' [''HS256''] (Some ISSUER) (Some AUDIENCE) = Inr c)"
proof
  let ?c = "[(''sub'', VStr ''ann''), (''role'', VStr ''staff''), (''exp'', VInt 4000000), (''type'', VStr ''refresh''),
    (''iss'', VStr ISSUER), (''aud'', VStr AUDIENCE)]"
  have "decode demo_jose 0 ''k1'' ''k'' [''HS256''] (Some ISSUER) (Some AUDIENCE) = Inr ?c"
    unfolding decode_accepts_iff by (simp add: demo_jose_def SUPPORTED_ALGORITHMS_def dget_def dhas_def)
  then show "decode demo_jose 0 ''k1'' ''k'' [''HS256''] (Some ISSUER) (Some AUDIENCE) \<noteq> Inl ExpiredSignatureError" by simp
  show "\<not> (\<exists>c. decode demo_jose 4000031000000 ''k1'' ''k'' [''HS256''] (Some ISSUER) (Some AUDIENCE) = Inr c)"
    unfolding decode_accepts_iff by (auto simp: demo_jose_def dget_def dhas_def)
qed

end
