(* ===== verification/Permissions.thy ===== *)
theory Permissions
  imports TokenService
begin

text \<open>
  Who may call what: the permissions of roles and users (\<open>auth/permissions.py\<close>) and the
  dependencies that authenticate a request (\<open>auth/dependencies.py\<close>). A permission is its string
  value. The maintenance functions that edit the permission lists of a user use update operators
  the in-memory database does not have and are left out.
\<close>

section \<open>Permissions\<close>

definition ALL_PERMISSIONS :: "string list" where
  "ALL_PERMISSIONS =
     [''session.create'', ''session.read'', ''session.read_all'', ''session.update'', ''session.delete'', ''session.close'',
      ''count_line.create'', ''count_line.read'', ''count_line.update'', ''count_line.delete'', ''count_line.approve'',
      ''count_line.reject'', ''item.read'', ''item.search'', ''mrp.update'', ''mrp.bulk_update'', ''export.own'', ''export.all'',
      ''export.schedule'', ''activity_log.read'', ''error_log.read'', ''user.manage'', ''settings.manage'', ''db_mapping.manage'',
      ''sync.trigger'', ''sync.resolve_conflict'', ''review.create'', ''review.approve'', ''review.comment'', ''report.view'',
      ''report.financial'', ''report.analytics'']"

definition STAFF_PERMISSIONS :: "string list" where
  "STAFF_PERMISSIONS =
     [''session.create'', ''session.read'', ''session.update'', ''session.close'', ''count_line.create'', ''count_line.read'',
      ''count_line.update'', ''item.read'', ''item.search'', ''mrp.update'', ''export.own'', ''review.create'', ''review.comment'']"

definition SUPERVISOR_PERMISSIONS :: "string list" where
  "SUPERVISOR_PERMISSIONS =
     [''session.create'', ''session.read'', ''session.read_all'', ''session.update'', ''session.delete'', ''session.close'',
      ''count_line.create'', ''count_line.read'', ''count_line.update'', ''count_line.delete'', ''count_line.approve'',
      ''count_line.reject'', ''item.read'', ''item.search'', ''mrp.update'', ''mrp.bulk_update'', ''export.own'', ''export.all'',
      ''export.schedule'', ''activity_log.read'', ''error_log.read'', ''db_mapping.manage'', ''sync.trigger'',
      ''sync.resolve_conflict'', ''review.create'', ''review.approve'', ''review.comment'', ''report.view'', ''report.financial'',
      ''report.analytics'']"

definition ROLE_PERMISSIONS :: "(string \<times> string list) list" where
  "ROLE_PERMISSIONS = [(''staff'', STAFF_PERMISSIONS), (''supervisor'', SUPERVISOR_PERMISSIONS), (''admin'', ALL_PERMISSIONS)]"

text \<open>A role that is not hashable cannot be looked up.\<close>

definition get_role_permissions :: "val \<Rightarrow> string list res" where
  "get_role_permissions role =
     (case role of
        VStr r \<Rightarrow> Inr (case map_of ROLE_PERMISSIONS r of None \<Rightarrow> [] | Some ps \<Rightarrow> ps)
      | VList _ \<Rightarrow> Inl (TypeError ''unhashable type'')
      | VDict _ \<Rightarrow> Inl (TypeError ''unhashable type'')
      | _ \<Rightarrow> Inr [])"

text \<open>The elements of \<open>for p in v\<close>.\<close>

definition iterate :: "val \<Rightarrow> val list res" where
  "iterate v =
     (case v of
        VList xs \<Rightarrow> Inr xs
      | VStr s \<Rightarrow> Inr (map (\<lambda>c. VStr [c]) s)
      | VDict d \<Rightarrow> Inr (map (VStr \<circ> fst) d)
      | _ \<Rightarrow> Inl (TypeError ''object is not iterable''))"

fun insert_string :: "string \<Rightarrow> string list \<Rightarrow> string list" where
  "insert_string s [] = [s]"
| "insert_string s (t # ts) =
     (if s = t then t # ts else if string_less s t then s # t # ts else t # insert_string s ts)"

definition sorted_strings :: "string list \<Rightarrow> string list" where
  "sorted_strings xs = foldr insert_string xs []"

definition named_permissions :: "repr \<Rightarrow> doc \<Rightarrow> string \<Rightarrow> string list res" where
  "named_permissions rp user field =
     bindR (iterate (dget_or user field (VList []))) (\<lambda>xs. Inr (map (py_str rp) xs))"

definition get_user_permissions :: "repr \<Rightarrow> doc \<Rightarrow> string list res" where
  "get_user_permissions rp user =
     bindR (get_role_permissions (dget_or user ''role'' (VStr ''staff''))) (\<lambda>base.
     bindR (named_permissions rp user ''permissions'') (\<lambda>custom.
     bindR (named_permissions rp user ''disabled_permissions'') (\<lambda>disabled.
     Inr (sorted_strings (filter (\<lambda>p. p \<notin> set disabled) (base @ custom))))))"

definition has_permission :: "repr \<Rightarrow> doc \<Rightarrow> string \<Rightarrow> bool res" where
  "has_permission rp user permission = bindR (get_user_permissions rp user) (\<lambda>ps. Inr (permission \<in> set ps))"

definition has_any_permission :: "repr \<Rightarrow> doc \<Rightarrow> string list \<Rightarrow> bool res" where
  "has_any_permission rp user required = bindR (get_user_permissions rp user) (\<lambda>ps. Inr (list_ex (\<lambda>p. p \<in> set ps) required))"

definition has_all_permissions :: "repr \<Rightarrow> doc \<Rightarrow> string list \<Rightarrow> bool res" where
  "has_all_permissions rp user required = bindR (get_user_permissions rp user) (\<lambda>ps. Inr (list_all (\<lambda>p. p \<in> set ps) required))"

definition permission_checker :: "repr \<Rightarrow> string \<Rightarrow> doc option \<Rightarrow> doc res" where
  "permission_checker rp required current_user =
     (case current_user of
        None \<Rightarrow> Inl (HTTPException 401 ''Authentication required'')
      | Some user \<Rightarrow>
          bindR (has_permission rp user required) (\<lambda>ok.
          if ok then Inr user else Inl (HTTPException 403 (''Permission denied. Required: '' @ required))))"

section \<open>Authentication of a request\<close>

record 'db auth_deps =
  dstore :: "'db store"
  djose :: jose
  dsecret :: string
  dalgorithm :: string

record bearer =
  credentials :: "string option"
  cookie_token :: "string option"
  authorization :: "string option"

text \<open>\<open>auth_deps.secret_key\<close> and \<open>auth_deps.algorithm\<close> raise before the initialisation.\<close>

definition initialized :: "string \<Rightarrow> string res" where
  "initialized s = (if s = [] then Inl (HTTPException 500 ''Authentication not initialized'') else Inr s)"

definition normalize_cookie_token :: "string option \<Rightarrow> string option" where
  "normalize_cookie_token v =
     (case v of
        None \<Rightarrow> None
      | Some s \<Rightarrow>
          (let n = strip s;
               m = (if length n \<ge> 2 \<and> hd n = CHR 34 \<and> last n = CHR 34 then butlast (tl n) else n)
           in if m = [] then None else Some m))"

definition extract_token :: "bearer \<Rightarrow> string res" where
  "extract_token b =
     (case credentials b of
        Some t \<Rightarrow> Inr t
      | None \<Rightarrow>
          (case normalize_cookie_token (cookie_token b) of
             Some t \<Rightarrow> Inr t
           | None \<Rightarrow>
               (case authorization b of
                  Some h \<Rightarrow>
                    (if h \<noteq> [] \<and> starts_with h ''Bearer '' then Inr (split_at (CHR '' '') h ! 1)
                     else Inl (HTTPException 401 ''Authentication credentials were not provided''))
                | None \<Rightarrow> Inl (HTTPException 401 ''Authentication credentials were not provided''))))"

definition decode_token :: "'db auth_deps \<Rightarrow> int \<Rightarrow> string \<Rightarrow> doc res" where
  "decode_token D now token =
     bindR (initialized (dsecret D)) (\<lambda>key.
     bindR (initialized (dalgorithm D)) (\<lambda>alg.
     case decode (djose D) now token key [alg] None None of
       Inl ExpiredSignatureError \<Rightarrow> Inl (HTTPException 401 ''AUTH_TOKEN_EXPIRED'')
     | Inl (InvalidTokenError _) \<Rightarrow> Inl (HTTPException 401 ''AUTH_TOKEN_INVALID'')
     | Inr payload \<Rightarrow>
         (if dget payload ''sub'' = VNone then Inl (HTTPException 401 ''AUTH_TOKEN_INVALID'') else Inr payload)))"

definition get_current_user :: "'db auth_deps \<Rightarrow> int \<Rightarrow> bearer \<Rightarrow> ('db, doc) comp" where
  "get_current_user D now b =
     bindM (liftM (extract_token b)) (\<lambda>token.
     bindM (liftM (decode_token D now token)) (\<lambda>payload.
     bindM (find_one (dstore D) ''users'' [(''username'', CEq (dget payload ''sub''))]) (\<lambda>found.
     case found of
       None \<Rightarrow> raiseM (HTTPException 401 ''AUTH_USER_NOT_FOUND'')
     | Some user \<Rightarrow>
         bindM (raise_if (\<not> truthy (dget_or user ''is_active'' (VBool True))) (HTTPException 403 ''Account deactivated'')) (\<lambda>_.
         returnM user))))"

definition optional_get_current_user :: "'db auth_deps \<Rightarrow> int \<Rightarrow> bearer \<Rightarrow> ('db, doc option) comp" where
  "optional_get_current_user D now b = (\<lambda>db.
     case get_current_user D now b db of
       (Inl _, db') \<Rightarrow> (Inr None, db')
     | (Inr user, db') \<Rightarrow> (Inr (Some user), db'))"

definition require_admin :: "doc \<Rightarrow> doc res" where
  "require_admin user =
     (if dget_or user ''role'' (VStr []) \<noteq> VStr ''admin''
      then Inl (HTTPException 403 ''This endpoint requires admin privileges'') else Inr user)"

text \<open>\<open>p not in v\<close> of a required permission: substring test on a string.\<close>

definition contains :: "val \<Rightarrow> string \<Rightarrow> bool res" where
  "contains v p =
     (case v of
        VList xs \<Rightarrow> Inr (py_in (VStr p) xs)
      | VStr s \<Rightarrow> Inr (list_ex (\<lambda>i. starts_with (drop i s) p) [0..<Suc (length s)])
      | VDict d \<Rightarrow> Inr (dhas d p)
      | _ \<Rightarrow> Inl (TypeError ''argument is not iterable''))"

fun missing_permissions :: "val \<Rightarrow> string list \<Rightarrow> string list res" where
  "missing_permissions v [] = Inr []"
| "missing_permissions v (p # ps) =
     bindR (contains v p) (\<lambda>has. bindR (missing_permissions v ps) (\<lambda>ms. Inr (if has then ms else p # ms)))"

definition require_permissions :: "string list \<Rightarrow> doc \<Rightarrow> doc res" where
  "require_permissions required user =
     (if dget_or user ''role'' (VStr []) = VStr ''admin'' then Inr user
      else bindR (missing_permissions (dget_or user ''permissions'' (VList [])) required) (\<lambda>missing.
           if missing = [] then Inr user
           else Inl (HTTPException 403 (''Missing permissions: '' @ join '', '' missing))))"

definition require_role :: "string list \<Rightarrow> doc \<Rightarrow> doc res" where
  "require_role roles user =
     (if list_ex (\<lambda>r. dget_or user ''role'' (VStr []) = VStr r) roles then Inr user
      else Inl (HTTPException 403 (''Required role: '' @ join '' or '' roles)))"

section \<open>Facts\<close>

lemma insert_string_set: "set (insert_string s ts) = insert s (set ts)"
  by (induction ts) auto

lemma sorted_strings_set: "set (sorted_strings xs) = set xs"
  unfolding sorted_strings_def by (induction xs) (simp_all add: insert_string_set)

lemma insert_string_not: "x \<noteq> s \<Longrightarrow> x \<notin> set ts \<Longrightarrow> x \<notin> set (insert_string s ts)"
  by (simp add: insert_string_set)

text \<open>The strings a user document lists under a field.\<close>

definition lists_strings :: "doc \<Rightarrow> string \<Rightarrow> string list \<Rightarrow> bool" where
  "lists_strings user field ps \<longleftrightarrow> dget_or user field (VList []) = VList (map VStr ps)"

lemma named_permissions_strings: "lists_strings user field ps \<Longrightarrow> named_permissions rp user field = Inr ps"
  by (simp add: lists_strings_def named_permissions_def iterate_def comp_def)

text \<open>The permission check in front of a route admits exactly the users whose role grants the
  permission or who were given it, and from whom it was not taken away.\<close>

theorem permission_granted_iff:
  assumes "dget_or user ''role'' (VStr ''staff'') = VStr role"
    and "lists_strings user ''permissions'' custom" "lists_strings user ''disabled_permissions'' disabled"
  shows "permission_checker rp p (Some user) =
    (if (p \<in> set (case map_of ROLE_PERMISSIONS role of None \<Rightarrow> [] | Some ps \<Rightarrow> ps) \<or> p \<in> set custom) \<and> p \<notin> set disabled
     then Inr user else Inl (HTTPException 403 (''Permission denied. Required: '' @ p)))"
  using assms
  by (auto simp: permission_checker_def has_permission_def get_user_permissions_def get_role_permissions_def
      named_permissions_strings sorted_strings_set split: option.splits)

text \<open>Staff permissions are supervisor permissions, and these are admin permissions; no staff member
  may approve, reject or delete counts or manage users unless given the permission.\<close>

lemma role_permissions_nested:
  "set STAFF_PERMISSIONS \<subseteq> set SUPERVISOR_PERMISSIONS \<and> set SUPERVISOR_PERMISSIONS \<subseteq> set ALL_PERMISSIONS \<and>
   list_all (\<lambda>p. p \<notin> set STAFF_PERMISSIONS)
     [''count_line.approve'', ''count_line.reject'', ''count_line.delete'', ''review.approve'', ''user.manage'', ''settings.manage'']"
  by code_simp

text \<open>The user a request stands for: the token names the user and holds at the time.\<close>

definition authentic :: "'db auth_deps \<Rightarrow> int \<Rightarrow> bearer \<Rightarrow> 'db \<Rightarrow> doc \<Rightarrow> bool" where
  "authentic D now b db user \<longleftrightarrow>
     (\<exists>token payload. extract_token b = Inr token \<and> jose_decode (djose D) [dalgorithm D] (dsecret D) token = Inr payload \<and>
        dalgorithm D \<in> set SUPPORTED_ALGORITHMS \<and> dget payload ''sub'' \<noteq> VNone \<and>
        (dhas payload ''exp'' \<longrightarrow> (\<exists>t. ensure_timestamp (dget payload ''exp'') = Some t \<and> of_int now / 1000000 \<le> t + 30)) \<and>
        match_filter [(''username'', CEq (dget payload ''sub''))] user) \<and>
     user \<in> set (docs (dstore D) ''users'' db) \<and> truthy (dget_or user ''is_active'' (VBool True))"

text \<open>A request is authenticated only by a token that the library confirms under the access key
  and that has not expired beyond the leeway; the user it names exists and is active; and the
  database is not changed, whatever the outcome.\<close>

theorem authenticated_user_active:
  assumes "document_store (dstore D)" and "get_current_user D now b db = (r, db')"
  shows "db' = db \<and> (\<forall>user. r = Inr user \<longrightarrow> authentic D now b db user)"
proof (intro conjI allI impI)
  have "keeps (\<lambda>x. x = db) (get_current_user D now b)"
    unfolding get_current_user_def by (auto intro!: keeps_intros split: option.splits)
  from keepsD [OF this refl assms(2)] show "db' = db" .
  fix user assume "r = Inr user"
  with assms(2) obtain token payload u where t: "extract_token b = Inr token" "decode_token D now token = Inr payload"
    and f: "find_one (dstore D) ''users'' [(''username'', CEq (dget payload ''sub''))] u = (Inr (Some user), db')"
    and a: "truthy (dget_or user ''is_active'' (VBool True))" "u = db"
    by (auto simp: get_current_user_def run_iff split: option.splits)
  from f a(2) document_store.find_one_run [OF assms(1)]
  obtain ds where "filter (match_filter [(''username'', CEq (dget payload ''sub''))]) (docs (dstore D) ''users'' db) = user # ds"
    by (auto split: list.splits)
  from filter_hd_sat [OF this] have "user \<in> set (docs (dstore D) ''users'' db)" "match_filter [(''username'', CEq (dget payload ''sub''))] user"
    by auto
  moreover from t(2) have "jose_decode (djose D) [dalgorithm D] (dsecret D) token = Inr payload" "dget payload ''sub'' \<noteq> VNone"
    "dalgorithm D \<in> set SUPPORTED_ALGORITHMS"
    "dhas payload ''exp'' \<longrightarrow> (\<exists>t. ensure_timestamp (dget payload ''exp'') = Some t \<and> of_int now / 1000000 \<le> t + 30)"
    by (auto simp: decode_token_def run_iff initialized_def decode_def check_claims_def check_exp_def
        CLOCK_SKEW_LEEWAY_SECONDS_def not_less split: if_splits sum.splits jwt_error.splits option.splits)
  ultimately show "authentic D now b db user" unfolding authentic_def using t(1) a(1) by blast
qed

section \<open>Instances\<close>

definition demo_staff :: doc where
  "demo_staff = [(''_id'', VStr ''1''), (''username'', VStr ''ann''), (''role'', VStr ''staff''), (''permissions'', VList [VStr ''export.all''])]"

definition demo_deps :: "memdb auth_deps" where
  "demo_deps = \<lparr>dstore = mem_store show_nat (\<lambda>_. False), djose = demo_jose, dsecret = ''k'', dalgorithm = ''HS256''\<rparr>"

definition demo_users :: memdb where
  "demo_users = \<lparr>colls = (\<lambda>c. if c = ''users'' then [demo_staff] else []), next_id = 1\<rparr>"

theorem permission_granted_iff_witness:
  "permission_checker (\<lambda>_. []) ''export.all'' (Some demo_staff) = Inr demo_staff \<and>
   permission_checker (\<lambda>_. []) ''count_line.approve'' (Some demo_staff) =
     Inl (HTTPException 403 ''Permission denied. Required: count_line.approve'')"
proof -
  have u: "dget_or demo_staff ''role'' (VStr ''staff'') = VStr ''staff''"
    "lists_strings demo_staff ''permissions'' [''export.all'']" "lists_strings demo_staff ''disabled_permissions'' []"
    by (simp_all add: demo_staff_def dget_or_def lists_strings_def)
  from permission_granted_iff [OF u, of "\<lambda>_. []" "''export.all''"] permission_granted_iff [OF u, of "\<lambda>_. []" "''count_line.approve''"]
  show ?thesis by (simp add: ROLE_PERMISSIONS_def STAFF_PERMISSIONS_def)
qed

theorem authenticated_user_active_witness:
  "\<exists>db'. get_current_user demo_deps 0 \<lparr>credentials = Some ''k1'', cookie_token = None, authorization = None\<rparr> demo_users =
     (Inr demo_staff, db') \<and> db' = demo_users"
proof -
  let ?b = "\<lparr>credentials = Some ''k1'', cookie_token = None, authorization = None\<rparr>"
  have "fst (get_current_user demo_deps 0 ?b demo_users) = Inr demo_staff" by code_simp
  then obtain db' where run: "get_current_user demo_deps 0 ?b demo_users = (Inr demo_staff, db')" by (metis prod.collapse)
  have s: "document_store (dstore demo_deps)" by (simp add: demo_deps_def document_store_mem)
  from authenticated_user_active [OF s run] run show ?thesis by blast
qed

end
