(* ===== verification/AuthRoutes.thy ===== *)
theory AuthRoutes
  imports OtpService Passwords AuthLimits Permissions
begin

text \<open>
  The routes of \<open>api/auth_routes.py\<close>: registration, login by password and by PIN, changes of PIN
  and password, the reset of a forgotten password, refresh and logout; with the audit entries of
  \<open>services/audit_service.py\<close> and the \<open>Result\<close> values of \<open>utils/result.py\<close>.

  A route runs on the database and the cache of the login limits together. The cookies that repeat
  the returned tokens, log lines and the creation of indexes are left out. The outcome of a
  delivery over WhatsApp is a parameter (\<open>send_otp\<close>, \<open>send_confirmation\<close>). A route reads the clock once.
\<close>

section \<open>The application\<close>

datatype app_error =
    AuthenticationError string
  | AuthorizationError string
  | NotFoundError string
  | DatabaseConnectionError string
  | ValidationFailure string
  | Unexpected py_error

datatype delivery_error = WhatsAppDeliveryError | OtherDeliveryError

type_synonym 'a result = "app_error + 'a"

record 'db app =
  astore :: "'db store"
  atokens :: "'db token_service"
  aotps :: "'db otp_service"
  acrypt :: crypt
  alimits :: limit_settings
  arepr :: repr
  secret_key :: string
  jwt_algorithm :: string
  ACCESS_TOKEN_EXPIRE_MINUTES :: int
  REFRESH_TOKEN_EXPIRE_DAYS :: int
  AUTH_SINGLE_SESSION :: bool
  delivery_configured :: bool
  send_otp :: "val \<Rightarrow> string \<Rightarrow> delivery_error option"
  send_confirmation :: "val \<Rightarrow> delivery_error option"

type_synonym 'db web = "'db \<times> memcache"

text \<open>The conversions of an exception at the end of a route.\<close>

definition or_fail :: "(py_error \<Rightarrow> app_error) \<Rightarrow> ('s, 'a result) comp \<Rightarrow> ('s, 'a result) comp" where
  "or_fail f m = (\<lambda>s. case m s of (Inl e, t) \<Rightarrow> (Inr (Inl (f e)), t) | (Inr r, t) \<Rightarrow> (Inr r, t))"

definition keep_http :: "('s, 'a result) comp \<Rightarrow> ('s, 'a result) comp" where
  "keep_http m = (\<lambda>s. case m s of
       (Inl (HTTPException code msg), t) \<Rightarrow> (Inl (HTTPException code msg), t)
     | (Inl e, t) \<Rightarrow> (Inr (Inl (Unexpected e)), t)
     | (Inr r, t) \<Rightarrow> (Inr r, t))"

definition stamp :: "int \<Rightarrow> rat" where
  "stamp now = of_int now / 1000000"

section \<open>Audit entries\<close>

definition audit_doc :: "int \<Rightarrow> string \<Rightarrow> string \<Rightarrow> val \<Rightarrow> val \<Rightarrow> val \<Rightarrow> doc \<Rightarrow> doc" where
  "audit_doc now event_type status actor_id actor_username ip details =
     [(''timestamp'', utc now), (''event_type'', VStr event_type), (''actor_id'', actor_id),
      (''actor_username'', actor_username), (''ip_address'', ip), (''resource_id'', VNone),
      (''details'', VDict details), (''status'', VStr status)]"

definition log_event :: "'db app \<Rightarrow> int \<Rightarrow> string \<Rightarrow> string \<Rightarrow> val \<Rightarrow> val \<Rightarrow> val \<Rightarrow> doc \<Rightarrow> ('db, val) comp" where
  "log_event A now event_type status actor_id actor_username ip details =
     insert_one (astore A) ''audit_logs'' (audit_doc now event_type status actor_id actor_username ip details)"

definition opt_str :: "string option \<Rightarrow> val" where
  "opt_str v = (case v of None \<Rightarrow> VNone | Some s \<Rightarrow> VStr s)"

definition log_failed_login_attempt :: "'db app \<Rightarrow> int \<Rightarrow> string \<Rightarrow> string \<Rightarrow> string option \<Rightarrow> string \<Rightarrow> ('db, unit) comp" where
  "log_failed_login_attempt A now username ip agent error =
     bindM (attempt (insert_one (astore A) ''login_attempts''
       [(''username'', VStr username), (''ip_address'', VStr ip), (''user_agent'', opt_str agent), (''success'', VBool False),
        (''timestamp'', utc now), (''error'', VStr error)])) (\<lambda>_.
     attempt (log_event A now ''AUTH_LOGIN_FAILED'' ''FAILURE'' VNone (VStr username) (VStr ip)
       [(''error'', VStr error), (''user_agent'', opt_str agent)]))"

definition log_successful_login :: "'db app \<Rightarrow> int \<Rightarrow> doc \<Rightarrow> string \<Rightarrow> string option \<Rightarrow> ('db, unit) comp" where
  "log_successful_login A now user ip agent =
     bindM (attempt
       (bindM (liftM (ditem user ''_id'')) (\<lambda>uid.
        bindM (liftM (ditem user ''username'')) (\<lambda>uname.
        bindM (insert_one (astore A) ''login_attempts''
          [(''user_id'', uid), (''username'', uname), (''ip_address'', VStr ip), (''user_agent'', opt_str agent),
           (''success'', VBool True), (''timestamp'', utc now)]) (\<lambda>_.
        update_one (astore A) ''users'' [(''_id'', CEq uid)] [(''$set'', VDict [(''last_login_at'', utc now)])]))))) (\<lambda>_.
     attempt
       (bindM (liftM (ditem user ''_id'')) (\<lambda>uid.
        bindM (liftM (ditem user ''username'')) (\<lambda>uname.
        log_event A now ''AUTH_LOGIN_SUCCESS'' ''SUCCESS'' (VStr (py_str (arepr A) uid)) uname (VStr ip)
          [(''user_agent'', opt_str agent)]))))"

section \<open>Sessions\<close>

definition find_user_by_username :: "'db app \<Rightarrow> string \<Rightarrow> ('db, doc result) comp" where
  "find_user_by_username A username =
     bindM (find_one (astore A) ''users'' [(''username'', CEq (VStr username))]) (\<lambda>found.
     returnM (case found of
         None \<Rightarrow> Inl (NotFoundError ''User not found'')
       | Some user \<Rightarrow> if user = [] then Inl (NotFoundError ''User not found'') else Inr user))"

definition request_client :: "http_request \<Rightarrow> string \<Rightarrow> client" where
  "request_client q ip = \<lparr>ip_address = Some ip, user_agent = req_user_agent q, device_id = req_device_id q\<rparr>"

definition token_claims :: "doc \<Rightarrow> doc res" where
  "token_claims user = bindR (ditem user ''username'') (\<lambda>u. Inr [(''sub'', u), (''role'', dget_or user ''role'' (VStr ''staff''))])"

definition generate_auth_tokens :: "'db app \<Rightarrow> int \<Rightarrow> string \<Rightarrow> doc \<Rightarrow> string \<Rightarrow> http_request \<Rightarrow> ('db, doc result) comp" where
  "generate_auth_tokens A now jti user ip q =
     or_fail (\<lambda>_. DatabaseConnectionError ''Error generating authentication tokens'')
       (bindM (liftM (token_claims user)) (\<lambda>claims.
        bindM (liftM (initialized (secret_key A))) (\<lambda>key.
        bindM (liftM (initialized (jwt_algorithm A))) (\<lambda>alg.
        let lifetime = ACCESS_TOKEN_EXPIRE_MINUTES A * 60000000;
            access = create_access_token (tjose (atokens A)) claims key alg now lifetime;
            refresh = create_refresh_token (atokens A) now jti claims
        in bindM (store_refresh_token (atokens A) now refresh (dget user ''username'')
             (utc (now + REFRESH_TOKEN_EXPIRE_DAYS A * 24 * 3600000000)) (request_client q ip)) (\<lambda>_.
           returnM (Inr [(''access_token'', VStr access), (''refresh_token'', VStr refresh),
             (''expires_in'', VInt (ACCESS_TOKEN_EXPIRE_MINUTES A * 60))]))))))"

text \<open>The newest of the live sessions: \<open>sort=[("created_at", -1)]\<close>.\<close>

fun newest :: "doc list \<Rightarrow> doc" where
  "newest [] = []"
| "newest [d] = d"
| "newest (d # e # ds) = newest ((if val_less (dget d ''created_at'') (dget e ''created_at'') then e else d) # ds)"

definition get_active_session_record :: "'db app \<Rightarrow> int \<Rightarrow> val \<Rightarrow> ('db, doc) comp" where
  "get_active_session_record A now username =
     (if \<not> AUTH_SINGLE_SESSION A then returnM []
      else bindM (find_all (astore A) REFRESH
             (live_user_tokens username @ [(''expires_at'', CCmp Gt (utc now))])) (\<lambda>ds.
           returnM (newest ds)))"

definition session_belongs_to_current_client :: "doc \<Rightarrow> http_request \<Rightarrow> string \<Rightarrow> bool" where
  "session_belongs_to_current_client session q ip =
     (let device = opt_str (req_device_id q); session_device = dget session ''device_id'';
          session_ip = dget session ''ip_address'';
          agent = opt_str (req_user_agent q); session_agent = dget session ''user_agent''
      in if truthy device \<and> truthy session_device then py_eq device session_device
         else if ip \<noteq> [] \<and> truthy session_ip \<and> \<not> py_eq session_ip (VStr ip) then False
         else if truthy agent \<and> truthy session_agent then py_eq session_agent agent
         else ip \<noteq> [] \<and> truthy session_ip \<and> py_eq session_ip (VStr ip))"

definition ensure_single_session_for_login :: "'db app \<Rightarrow> int \<Rightarrow> val \<Rightarrow> http_request \<Rightarrow> string \<Rightarrow> ('db, doc result) comp" where
  "ensure_single_session_for_login A now username q ip =
     bindM (get_active_session_record A now username) (\<lambda>active.
     if active = [] then returnM (Inr [])
     else bindM (revoke_all_user_tokens (atokens A) now username 0 False) (\<lambda>n.
          returnM (Inr [(''same_client'', VBool (session_belongs_to_current_client active q ip)), (''revoked_count'', VInt (int n))])))"

section \<open>Login by password\<close>

definition validate_user_password :: "'db app \<Rightarrow> val \<Rightarrow> doc \<Rightarrow> bool result" where
  "validate_user_password A password user =
     (let hashed = py_or (dget user ''hashed_password'') (dget user ''password'')
      in if \<not> truthy hashed then Inl (AuthenticationError ''User account is corrupted. Please contact support.'')
         else if verify_password (acrypt A) password hashed then Inr True
         else Inl (AuthenticationError ''Incorrect username or password''))"

definition migrate_legacy_password :: "'db app \<Rightarrow> string \<Rightarrow> doc \<Rightarrow> val \<Rightarrow> ('db, unit) comp" where
  "migrate_legacy_password A salt user password =
     whenM (dhas user ''password'' \<and> \<not> dhas user ''hashed_password'')
       (attempt
         (bindM (liftM (ditem user ''_id'')) (\<lambda>uid.
          bindM (liftM (get_password_hash (acrypt A) salt password)) (\<lambda>h.
          update_one (astore A) ''users'' [(''_id'', CEq uid)]
            [(''$set'', VDict [(''hashed_password'', VStr h)]), (''$unset'', VDict [(''password'', VStr [])])]))))"

definition handle_login_failure :: "'db app \<Rightarrow> int \<Rightarrow> http_request \<Rightarrow> string \<Rightarrow> string \<Rightarrow> string \<Rightarrow> app_error \<Rightarrow> ('db web, 'a result) comp" where
  "handle_login_failure A now q username ip log_error return_error =
     bindM (on_fst (log_failed_login_attempt A now username ip (req_user_agent q) log_error)) (\<lambda>_.
     bindM (on_snd (record_auth_failure (alimits A) (stamp now) q (Some username))) (\<lambda>_.
     returnM (Inl return_error)))"

definition user_view :: "'db app \<Rightarrow> doc \<Rightarrow> doc res" where
  "user_view A user =
     bindR (ditem user ''_id'') (\<lambda>uid.
     bindR (ditem user ''username'') (\<lambda>uname.
     bindR (get_user_permissions (arepr A) user) (\<lambda>permissions.
     Inr [(''id'', VStr (py_str (arepr A) uid)), (''username'', uname), (''full_name'', dget_or user ''full_name'' (VStr [])),
          (''role'', dget_or user ''role'' (VStr ''staff'')), (''email'', dget user ''email''),
          (''is_active'', dget_or user ''is_active'' (VBool True)), (''permissions'', VList (map VStr permissions)),
          (''has_pin'', VBool (truthy (dget user ''pin_hash'')))])))"

definition build_login_response :: "'db app \<Rightarrow> doc \<Rightarrow> doc \<Rightarrow> doc res" where
  "build_login_response A tokens user =
     bindR (user_view A user) (\<lambda>view.
     Inr [(''access_token'', dget tokens ''access_token''), (''token_type'', VStr ''bearer''),
          (''expires_in'', dget tokens ''expires_in''), (''refresh_token'', dget tokens ''refresh_token''), (''user'', VDict view)])"

definition request_ip :: "http_request \<Rightarrow> string" where
  "request_ip q = (case client_host q of None \<Rightarrow> [] | Some h \<Rightarrow> h)"

definition session_conflict :: "('s, 'a) comp" where
  "session_conflict = raiseM (HTTPException 409 ''Unable to recover the existing active session'')"

text \<open>What both logins do once the user is known: tokens, log entries, the counters reset.\<close>

definition complete_login :: "'db app \<Rightarrow> int \<Rightarrow> string \<Rightarrow> http_request \<Rightarrow> string option \<Rightarrow> doc \<Rightarrow> ('db web, doc result) comp" where
  "complete_login A now jti q identifier user =
     bindM (on_fst (generate_auth_tokens A now jti user (request_ip q) q)) (\<lambda>tokens.
     case tokens of
       Inl e \<Rightarrow> returnM (Inl e)
     | Inr t \<Rightarrow>
         bindM (on_fst (log_successful_login A now user (request_ip q) (req_user_agent q))) (\<lambda>_.
         bindM (on_snd (reset_auth_limits (alimits A) q identifier)) (\<lambda>_.
         bindM (liftM (build_login_response A t user)) (\<lambda>r. returnM (Inr r)))))"

definition login :: "'db app \<Rightarrow> int \<Rightarrow> string \<Rightarrow> string \<Rightarrow> http_request \<Rightarrow> string \<Rightarrow> string \<Rightarrow> ('db web, doc result) comp" where
  "login A now jti salt q username password =
     keep_http
       (bindM (on_snd (check_auth_rate_limits (alimits A) (stamp now) q (Some username))) (\<lambda>_.
        bindM (on_fst (find_user_by_username A username)) (\<lambda>found.
        case found of
          Inl _ \<Rightarrow> handle_login_failure A now q username (request_ip q) ''User not found'' (AuthenticationError ''Incorrect username or password'')
        | Inr user \<Rightarrow>
            (case validate_user_password A (VStr password) user of
               Inl e \<Rightarrow> handle_login_failure A now q username (request_ip q) ''Invalid password'' e
             | Inr _ \<Rightarrow>
                 bindM (on_fst (migrate_legacy_password A salt user (VStr password))) (\<lambda>_.
                 if \<not> truthy (dget_or user ''is_active'' (VBool True))
                 then returnM (Inl (AuthorizationError ''Account is deactivated. Please contact support.''))
                 else bindM (if AUTH_SINGLE_SESSION A
                             then on_fst (ensure_single_session_for_login A now (VStr username) q (request_ip q)) else returnM (Inr [])) (\<lambda>resolved.
                      case resolved of
                        Inl _ \<Rightarrow> session_conflict
                      | Inr _ \<Rightarrow> complete_login A now jti q (Some username) user))))))"


section \<open>Login by PIN\<close>

definition find_user_by_fast_lookup :: "'db app \<Rightarrow> string \<Rightarrow> string \<Rightarrow> ('db, doc option) comp" where
  "find_user_by_fast_lookup A pin lookup_hash =
     bindM (find_one (astore A) ''users'' [(''pin_lookup_hash'', CEq (VStr lookup_hash))]) (\<lambda>found.
     returnM (case found of
         None \<Rightarrow> None
       | Some user \<Rightarrow>
           if user = [] \<or> \<not> verify_pin_hash (acrypt A) (VStr pin) (dget_or user ''pin_hash'' (VStr [])) then None else Some user))"

fun scan_users :: "'db app \<Rightarrow> string \<Rightarrow> string \<Rightarrow> doc list \<Rightarrow> ('db, doc option) comp" where
  "scan_users A pin lookup_hash [] = returnM None"
| "scan_users A pin lookup_hash (user # users) =
     (if verify_pin_hash (acrypt A) (VStr pin) (dget_or user ''pin_hash'' (VStr []))
      then bindM (attempt (bindM (liftM (ditem user ''_id'')) (\<lambda>uid.
             update_one (astore A) ''users'' [(''_id'', CEq uid)] [(''$set'', VDict [(''pin_lookup_hash'', VStr lookup_hash)])]))) (\<lambda>_.
           returnM (Some user))
      else scan_users A pin lookup_hash users)"

definition find_user_by_legacy_scan :: "'db app \<Rightarrow> string \<Rightarrow> string \<Rightarrow> ('db, doc option) comp" where
  "find_user_by_legacy_scan A pin lookup_hash =
     bindM (find_all (astore A) ''users'' [(''pin_hash'', CExists True)]) (\<lambda>users.
     scan_users A pin lookup_hash (take 1000 users))"

definition find_user_by_pin :: "'db app \<Rightarrow> string \<Rightarrow> string option \<Rightarrow> ('db, doc option) comp" where
  "find_user_by_pin A pin username =
     (case username of
        Some (c # u) \<Rightarrow>
          bindM (find_one (astore A) ''users'' [(''username'', CEq (VStr (c # u)))]) (\<lambda>found.
          returnM (case found of
              None \<Rightarrow> None
            | Some user \<Rightarrow>
                if user \<noteq> [] \<and> truthy (dget user ''pin_hash'') \<and> verify_pin_hash (acrypt A) (VStr pin) (dget user ''pin_hash'')
                then Some user else None))
      | _ \<Rightarrow>
          bindM (liftM (get_pin_lookup_hash (acrypt A) pin)) (\<lambda>lookup_hash.
          bindM (find_user_by_fast_lookup A pin lookup_hash) (\<lambda>found.
          case found of Some user \<Rightarrow> returnM (Some user) | None \<Rightarrow> find_user_by_legacy_scan A pin lookup_hash)))"

definition validate_pin_login_payload :: "string \<Rightarrow> string option \<Rightarrow> ('s, app_error option) comp" where
  "validate_pin_login_payload pin username =
     (if \<not> four_digits pin then returnM (Some (AuthenticationError ''Invalid PIN format. PIN must be 4 digits.''))
      else (case username of
              Some (c # u) \<Rightarrow> returnM None
            | _ \<Rightarrow> raiseM (HTTPException 400 ''Username is required for PIN login. Login with credentials first.'')))"

definition resolve_pin_login_user :: "'db app \<Rightarrow> int \<Rightarrow> http_request \<Rightarrow> string \<Rightarrow> string option \<Rightarrow> ('db web, doc result) comp" where
  "resolve_pin_login_user A now q pin username =
     bindM (on_fst (find_user_by_pin A pin username)) (\<lambda>found.
     case found of
       None \<Rightarrow>
         bindM (on_fst (log_failed_login_attempt A now
           (case username of Some (c # u) \<Rightarrow> c # u | _ \<Rightarrow> ''PIN_LOGIN'') (request_ip q) (req_user_agent q) ''Invalid PIN'')) (\<lambda>_.
         bindM (on_snd (record_auth_failure (alimits A) (stamp now) q username)) (\<lambda>_.
         returnM (Inl (AuthenticationError ''Invalid PIN''))))
     | Some user \<Rightarrow>
         if \<not> truthy (dget_or user ''is_active'' (VBool True))
         then returnM (Inl (AuthorizationError ''Account is deactivated. Please contact support.''))
         else if \<not> AUTH_SINGLE_SESSION A then returnM (Inr user)
         else bindM (liftM (ditem user ''username'')) (\<lambda>u.
              bindM (on_fst (ensure_single_session_for_login A now u q (request_ip q))) (\<lambda>resolved.
              case resolved of Inl _ \<Rightarrow> session_conflict | Inr _ \<Rightarrow> returnM (Inr user))))"

definition login_with_pin :: "'db app \<Rightarrow> int \<Rightarrow> string \<Rightarrow> http_request \<Rightarrow> string \<Rightarrow> string option \<Rightarrow> ('db web, doc result) comp" where
  "login_with_pin A now jti q pin username =
     bindM (validate_pin_login_payload pin username) (\<lambda>invalid.
     case invalid of
       Some e \<Rightarrow> returnM (Inl e)
     | None \<Rightarrow>
         keep_http
           (bindM (on_snd (check_auth_rate_limits (alimits A) (stamp now) q username)) (\<lambda>_.
            bindM (resolve_pin_login_user A now q pin username) (\<lambda>found.
            case found of Inl e \<Rightarrow> returnM (Inl e) | Inr user \<Rightarrow> complete_login A now jti q username user))))"

section \<open>Registration\<close>

record registration =
  reg_username :: string
  reg_password :: string
  reg_full_name :: string
  reg_role :: string
  reg_employee_id :: "string option"
  reg_phone :: "string option"

definition user_doc :: "int \<Rightarrow> registration \<Rightarrow> string \<Rightarrow> doc" where
  "user_doc now u hashed =
     [(''username'', VStr (reg_username u)), (''hashed_password'', VStr hashed), (''full_name'', VStr (reg_full_name u)),
      (''role'', VStr (reg_role u)), (''employee_id'', opt_str (reg_employee_id u)), (''phone'', opt_str (reg_phone u)),
      (''is_active'', VBool True), (''permissions'', VList []), (''created_at'', utc now)]"

definition registered_response :: "repr \<Rightarrow> registration \<Rightarrow> string \<Rightarrow> string \<Rightarrow> val \<Rightarrow> doc" where
  "registered_response rp u access refresh uid =
     [(''access_token'', VStr access), (''refresh_token'', VStr refresh), (''token_type'', VStr ''bearer''), (''expires_in'', VInt 900),
      (''user'', VDict [(''id'', VStr (py_str rp uid)), (''username'', VStr (reg_username u)), (''full_name'', VStr (reg_full_name u)),
         (''role'', VStr (reg_role u)), (''email'', VNone), (''employee_id'', opt_str (reg_employee_id u)),
         (''phone'', opt_str (reg_phone u)), (''is_active'', VBool True), (''permissions'', VList [])])]"

definition http_or_500 :: "('s, 'a) comp \<Rightarrow> ('s, 'a) comp" where
  "http_or_500 m = (\<lambda>s. case m s of
       (Inl (HTTPException code msg), t) \<Rightarrow> (Inl (HTTPException code msg), t)
     | (Inl e, t) \<Rightarrow> (Inl (HTTPException 500 ''An unexpected error occurred. Please try again or contact support.''), t)
     | (Inr x, t) \<Rightarrow> (Inr x, t))"

definition may_register :: "doc option \<Rightarrow> bool" where
  "may_register current_user = (case current_user of None \<Rightarrow> False | Some user \<Rightarrow> dget user ''role'' = VStr ''admin'')"

definition register :: "'db app \<Rightarrow> int \<Rightarrow> string \<Rightarrow> string \<Rightarrow> registration \<Rightarrow> doc option \<Rightarrow> ('db, doc) comp" where
  "register A now jti salt u current_user =
     bindM (count_documents (astore A) ''users'' []) (\<lambda>user_count.
     bindM (raise_if (user_count \<noteq> 0 \<and> \<not> may_register current_user)
       (HTTPException 403 ''Only administrators can register new users'')) (\<lambda>_.
     http_or_500
       (bindM (find_one (astore A) ''users'' [(''username'', CEq (VStr (reg_username u)))]) (\<lambda>existing.
        bindM (raise_if (case existing of None \<Rightarrow> False | Some d \<Rightarrow> d \<noteq> [])
          (HTTPException 400 ''Username already exists. Please choose a different username.'')) (\<lambda>_.
        bindM (liftM (get_password_hash (acrypt A) salt (VStr (reg_password u)))) (\<lambda>hashed.
        bindM (insert_one (astore A) ''users'' (user_doc now u hashed)) (\<lambda>uid.
        bindM (liftM (initialized (secret_key A))) (\<lambda>key.
        bindM (liftM (initialized (jwt_algorithm A))) (\<lambda>alg.
        let claims = [(''sub'', VStr (reg_username u)), (''role'', VStr (reg_role u))];
            access = create_access_token (tjose (atokens A)) claims key alg now (15 * 60000000);
            refresh = create_refresh_token (atokens A) now jti claims
        in bindM (store_refresh_token (atokens A) now refresh (VStr (reg_username u)) (utc (now + 30 * 24 * 3600000000)) no_client) (\<lambda>_.
           returnM (registered_response (arepr A) u access refresh uid)))))))))))"

section \<open>Changing PIN and password\<close>

definition WEAK_PINS :: "string list" where
  "WEAK_PINS = [''1234'', ''0000'', ''1111'', ''2222'', ''3333'', ''4444'', ''5555'', ''6666'', ''7777'', ''8888'', ''9999'', ''4321'']"

definition pin_fields :: "int \<Rightarrow> string \<Rightarrow> string \<Rightarrow> doc" where
  "pin_fields now hashed_pin lookup_hash =
     [(''pin_hash'', VStr hashed_pin), (''pin_lookup_hash'', VStr lookup_hash), (''updated_at'', utc now)]"

definition validate_pins_match :: "string \<Rightarrow> string \<Rightarrow> unit res" where
  "validate_pins_match pin confirm_pin =
     (if pin \<noteq> confirm_pin then Inl (ValueError ''PINs do not match'')
      else if \<not> four_digits pin then Inl (ValueError ''PIN must be 4 digits'')
      else if pin \<in> set WEAK_PINS then Inl (ValueError ''PIN is too weak'')
      else Inr ())"

definition pin_setup :: "'db app \<Rightarrow> int \<Rightarrow> string \<Rightarrow> string \<Rightarrow> string \<Rightarrow> doc \<Rightarrow> ('db, doc result) comp" where
  "pin_setup A now salt pin confirm_pin current_user =
     bindM (liftM (validate_pins_match pin confirm_pin)) (\<lambda>_.
     bindM (liftM (ditem current_user ''username'')) (\<lambda>username.
     or_fail Unexpected
       (bindM (find_one (astore A) ''users'' [(''username'', CEq username)]) (\<lambda>existing.
        if (case existing of None \<Rightarrow> False | Some d \<Rightarrow> truthy (dget d ''pin_hash''))
        then returnM (Inl (AuthorizationError ''A PIN is already set. Use /auth/change-pin to update it.''))
        else bindM (liftM (get_pin_hash (acrypt A) salt (VStr pin))) (\<lambda>hashed_pin.
             bindM (liftM (get_pin_lookup_hash (acrypt A) pin)) (\<lambda>lookup_hash.
             bindM (update_one (astore A) ''users'' [(''username'', CEq username)]
               [(''$set'', VDict (pin_fields now hashed_pin lookup_hash))]) (\<lambda>(_, modified).
             if modified = 0 then returnM (Inl (NotFoundError ''User not found''))
             else bindM (attempt (bindM (liftM (ditem current_user ''_id'')) (\<lambda>uid.
                    log_event A now ''AUTH_PIN_SETUP'' ''SUCCESS'' (VStr (py_str (arepr A) uid)) username VNone
                      [(''action'', VStr ''pin_setup'')]))) (\<lambda>_.
                  returnM (Inr [(''message'', VStr ''PIN setup successful'')])))))))))"

definition validate_new_pin_value :: "val \<Rightarrow> string res" where
  "validate_new_pin_value new_pin =
     (if \<not> truthy new_pin then Inl (HTTPException 400 ''new_pin is required'')
      else (case new_pin of
              VStr s \<Rightarrow>
                (if \<not> four_digits s then Inl (HTTPException 400 ''PIN must be exactly 4 digits'')
                 else if s \<in> set WEAK_PINS then Inl (HTTPException 400 ''PIN is too weak. Avoid sequential or repeated digits.'')
                 else Inr s)
            | _ \<Rightarrow> Inl (AttributeError ''isdigit'')))"

definition load_user_for_pin_change :: "'db app \<Rightarrow> val \<Rightarrow> ('db, doc) comp" where
  "load_user_for_pin_change A username =
     bindM (find_one (astore A) ''users'' [(''username'', CEq username)]) (\<lambda>found.
     case found of
       None \<Rightarrow> raiseM (HTTPException 404 ''User not found'')
     | Some user \<Rightarrow> if user = [] then raiseM (HTTPException 404 ''User not found'') else returnM user)"

definition validate_pin_change_identity :: "'db app \<Rightarrow> doc \<Rightarrow> val \<Rightarrow> val \<Rightarrow> unit res" where
  "validate_pin_change_identity A user current_pin current_password =
     (if truthy current_password then
        (if \<not> dhas user ''hashed_password'' then Inl (HTTPException 400 ''Cannot verify password'')
         else if \<not> verify_password (acrypt A) current_password (dget user ''hashed_password'')
         then Inl (HTTPException 400 ''Current password is incorrect'') else Inr ())
      else if truthy current_pin then
        (if \<not> dhas user ''pin_hash'' then Inl (HTTPException 400 ''No PIN is currently set. Use password to set a new PIN.'')
         else if \<not> verify_pin_hash (acrypt A) current_pin (dget user ''pin_hash'')
         then Inl (HTTPException 400 ''Current PIN is incorrect'') else Inr ())
      else Inl (HTTPException 400
        (if dhas user ''pin_hash'' then ''Please provide current_pin or current_password''
         else ''Please provide current_password to set a PIN'')))"

definition persist_user_pin :: "'db app \<Rightarrow> int \<Rightarrow> string \<Rightarrow> val \<Rightarrow> string \<Rightarrow> ('db, unit) comp" where
  "persist_user_pin A now salt username new_pin =
     bindM (liftM (get_pin_hash (acrypt A) salt (VStr new_pin))) (\<lambda>hashed_pin.
     bindM (liftM (get_pin_lookup_hash (acrypt A) new_pin)) (\<lambda>lookup_hash.
     bindM (update_one (astore A) ''users'' [(''username'', CEq username)]
       [(''$set'', VDict (pin_fields now hashed_pin lookup_hash))]) (\<lambda>_. returnM ())))"

definition change_pin :: "'db app \<Rightarrow> int \<Rightarrow> string \<Rightarrow> doc \<Rightarrow> doc \<Rightarrow> ('db, doc) comp" where
  "change_pin A now salt body current_user =
     bindM (liftM (validate_new_pin_value (dget body ''new_pin''))) (\<lambda>new_pin.
     bindM (liftM (ditem current_user ''username'')) (\<lambda>username.
     bindM (load_user_for_pin_change A username) (\<lambda>user.
     bindM (liftM (validate_pin_change_identity A user (dget body ''current_pin'') (dget body ''current_password''))) (\<lambda>_.
     bindM (persist_user_pin A now salt username new_pin) (\<lambda>_.
     bindM (attempt (bindM (liftM (ditem current_user ''_id'')) (\<lambda>uid.
       log_event A now ''AUTH_PIN_SETUP'' ''SUCCESS'' (VStr (py_str (arepr A) uid)) username VNone
         [(''action'', VStr ''response_change_pin'')]))) (\<lambda>_.
     returnM [(''success'', VBool True), (''message'', VStr ''PIN changed successfully'')]))))))"

definition val_length :: "val \<Rightarrow> nat res" where
  "val_length v =
     (case v of
        VStr s \<Rightarrow> Inr (length s)
      | VList xs \<Rightarrow> Inr (length xs)
      | VDict d \<Rightarrow> Inr (length d)
      | _ \<Rightarrow> Inl (TypeError ''object has no len()''))"

definition change_password :: "'db app \<Rightarrow> int \<Rightarrow> string \<Rightarrow> doc \<Rightarrow> doc \<Rightarrow> ('db, doc) comp" where
  "change_password A now salt body current_user =
     (let current_password = dget body ''current_password''; new_password = dget body ''new_password'' in
      bindM (raise_if (\<not> truthy current_password \<or> \<not> truthy new_password)
        (HTTPException 400 ''Both current_password and new_password are required'')) (\<lambda>_.
      bindM (liftM (val_length new_password)) (\<lambda>n.
      bindM (raise_if (n < 8) (HTTPException 400 ''Password must be at least 8 characters'')) (\<lambda>_.
      bindM (liftM (ditem current_user ''username'')) (\<lambda>username.
      bindM (find_one (astore A) ''users'' [(''username'', CEq username)]) (\<lambda>found.
      case found of
        None \<Rightarrow> raiseM (HTTPException 400 ''No password is currently set for this user'')
      | Some user \<Rightarrow>
          bindM (raise_if (\<not> dhas user ''hashed_password'') (HTTPException 400 ''No password is currently set for this user'')) (\<lambda>_.
          bindM (raise_if (\<not> verify_password (acrypt A) current_password (dget user ''hashed_password''))
            (HTTPException 400 ''Current password is incorrect'')) (\<lambda>_.
          bindM (liftM (get_password_hash (acrypt A) salt new_password)) (\<lambda>h.
          bindM (update_one (astore A) ''users'' [(''username'', CEq username)]
            [(''$set'', VDict [(''hashed_password'', VStr h), (''updated_at'', utc now)])]) (\<lambda>_.
          returnM [(''success'', VBool True), (''message'', VStr ''Password changed successfully'')]))))))))))"

section \<open>Resetting a forgotten password\<close>

text \<open>\<open>ApiResponse.success_response(data)\<close> and \<open>ApiResponse.error_response(error)\<close>.\<close>

datatype api_response = Success doc | Failure doc

definition build_password_reset_query :: "string option \<Rightarrow> string option \<Rightarrow> query" where
  "build_password_reset_query username phone_number =
     (case username of
        Some (c # s) \<Rightarrow> [(''username'', CEq (VStr (c # s)))]
      | _ \<Rightarrow> (case phone_number of Some (c # s) \<Rightarrow> [(''phone_number'', CEq (VStr (c # s)))] | _ \<Rightarrow> []))"

abbreviation message :: "string \<Rightarrow> doc" where
  "message s \<equiv> [(''message'', VStr s)]"

definition password_reset_request ::
  "'db app \<Rightarrow> int \<Rightarrow> string \<Rightarrow> string option \<Rightarrow> string option \<Rightarrow> ('db, api_response) comp" where
  "password_reset_request A now code username phone_number =
     (if \<not> delivery_configured A
      then returnM (Failure (message ''Password reset is temporarily unavailable because phone delivery is not configured.''))
      else bindM (find_one (astore A) ''users'' (build_password_reset_query username phone_number)) (\<lambda>found.
        case found of
          None \<Rightarrow> returnM (Success (message ''If an account exists, an OTP has been sent.''))
        | Some user \<Rightarrow>
            (if user = [] \<or> \<not> truthy (dget user ''phone_number'')
             then returnM (Success (message ''If an account exists, an OTP has been sent.''))
             else bindM (liftM (ditem user ''_id'')) (\<lambda>oid.
               let uid = py_str (arepr A) oid in
               bindM (create_otp (aotps A) now code uid) (\<lambda>otp_code.
               case send_otp A (dget user ''phone_number'') otp_code of
                 Some e \<Rightarrow>
                   bindM (delete_many (ostore (aotps A)) OTPS (user_filter uid)) (\<lambda>_.
                   returnM (Failure (message (case e of
                       WhatsAppDeliveryError \<Rightarrow> ''Password reset is temporarily unavailable. Please try again later.''
                     | OtherDeliveryError \<Rightarrow> ''Failed to process request''))))
               | None \<Rightarrow>
                   bindM (attempt (bindM (liftM (ditem user ''username'')) (\<lambda>uname.
                     log_event A now ''AUTH_PASSWORD_RESET_REQUEST'' ''SUCCESS'' (VStr uid) uname VNone
                       [(''phone_number'', dget user ''phone_number'')]))) (\<lambda>_.
                   returnM (Success (message ''If an account exists, an OTP has been sent.''))))))))"

definition password_reset_verify ::
  "'db app \<Rightarrow> int \<Rightarrow> string \<Rightarrow> string option \<Rightarrow> string option \<Rightarrow> string \<Rightarrow> ('db, api_response) comp" where
  "password_reset_verify A now token username phone_number otp =
     bindM (find_one (astore A) ''users'' (build_password_reset_query username phone_number)) (\<lambda>found.
     case found of
       None \<Rightarrow> returnM (Failure (message ''Invalid request''))
     | Some user \<Rightarrow>
         (if user = [] then returnM (Failure (message ''Invalid request''))
          else bindM (liftM (ditem user ''_id'')) (\<lambda>oid.
            let uid = py_str (arepr A) oid in
            bindM (verify_otp (aotps A) uid otp) (\<lambda>(success, msg).
            if \<not> success then returnM (Failure (message msg))
            else bindM (create_reset_token (aotps A) now token uid) (\<lambda>reset_token.
                 bindM (attempt (bindM (liftM (ditem user ''username'')) (\<lambda>uname.
                   log_event A now ''AUTH_PASSWORD_RESET_VERIFY'' ''SUCCESS'' (VStr uid) uname VNone
                     [(''otp_verified'', VBool True)]))) (\<lambda>_.
                 returnM (Success ([(''reset_token'', VStr reset_token)] @ message ''OTP verified''))))))))"

text \<open>\<open>ObjectId(v)\<close>.\<close>

definition to_object_id :: "'db app \<Rightarrow> val \<Rightarrow> val res" where
  "to_object_id A v =
     (case v of
        VStr s \<Rightarrow> if oid_valid (astore A) s then Inr (VOid s) else Inl (ValueError ''InvalidId'')
      | VOid s \<Rightarrow> Inr (VOid s)
      | _ \<Rightarrow> Inl (TypeError ''id must be an instance of (bytes, str, ObjectId)''))"

definition revoke_after_reset :: "'db app \<Rightarrow> val \<Rightarrow> ('db, unit) comp" where
  "revoke_after_reset A oid =
     attempt (bindM (find_one (astore A) ''users'' [(''_id'', CEq oid)]) (\<lambda>found.
       case found of
         None \<Rightarrow> returnM ()
       | Some user \<Rightarrow>
           whenM (user \<noteq> [])
             (bindM (delete_many (astore A) REFRESH [(''username'', CEq (dget user ''username''))]) (\<lambda>_. returnM ()))))"

text \<open>A failed confirmation over WhatsApp is ignored; any other failure is an error of the route.\<close>

definition confirm_delivery :: "'db app \<Rightarrow> val \<Rightarrow> ('db, unit) comp" where
  "confirm_delivery A oid =
     bindM (find_one (astore A) ''users'' [(''_id'', CEq oid)]) (\<lambda>found.
     case found of
       None \<Rightarrow> returnM ()
     | Some user \<Rightarrow>
         raise_if (truthy (dget user ''phone_number'') \<and> delivery_configured A \<and>
             send_confirmation A (dget user ''phone_number'') = Some OtherDeliveryError)
           (PyRuntimeError ''delivery failed''))"

definition password_reset_confirm :: "'db app \<Rightarrow> int \<Rightarrow> string \<Rightarrow> string \<Rightarrow> string \<Rightarrow> ('db, api_response) comp" where
  "password_reset_confirm A now salt reset_token new_password =
     bindM (validate_reset_token (aotps A) reset_token) (\<lambda>user_id.
     if \<not> truthy user_id then returnM (Failure (message ''Invalid or expired reset token''))
     else (\<lambda>db.
       case bindM (liftM (get_password_hash (acrypt A) salt (VStr new_password))) (\<lambda>h.
            bindM (liftM (to_object_id A user_id)) (\<lambda>oid.
            bindM (update_one (astore A) ''users'' [(''_id'', CEq oid)]
              [(''$set'', VDict [(''hashed_password'', VStr h), (''updated_at'', utc now)])]) (\<lambda>_.
            bindM (revoke_after_reset A oid) (\<lambda>_.
            bindM (confirm_delivery A oid) (\<lambda>_.
            attempt (log_event A now ''AUTH_PASSWORD_RESET_CONFIRM'' ''SUCCESS'' user_id VNone VNone
              [(''action'', VStr ''password_changed'')])))))) db of
         (Inr _, db') \<Rightarrow> (Inr (Success (message ''Password reset successful'')), db')
       | (Inl _, db') \<Rightarrow> (Inr (Failure (message ''Failed to reset password'')), db')))"

section \<open>Refresh and logout\<close>

text \<open>A token that is not a string is refused by the token library.\<close>

definition token_of_request :: "val \<Rightarrow> string option \<Rightarrow> val" where
  "token_of_request body_token cookie = (if truthy body_token then body_token else opt_str (normalize_cookie_token cookie))"

definition refresh_token_route :: "'db app \<Rightarrow> int \<Rightarrow> string \<Rightarrow> val \<Rightarrow> string option \<Rightarrow> ('db, doc result) comp" where
  "refresh_token_route A now jti body_token cookie =
     or_fail Unexpected
       (case token_of_request body_token cookie of
          VStr (c # s) \<Rightarrow>
            bindM (refresh_access_token (atokens A) now jti (c # s)) (\<lambda>refreshed.
            returnM (case refreshed of
                None \<Rightarrow> Inl (AuthenticationError ''Invalid or expired refresh token'')
              | Some d \<Rightarrow> if d = [] then Inl (AuthenticationError ''Invalid or expired refresh token'') else Inr d))
        | v \<Rightarrow>
            returnM (Inl (if truthy v then AuthenticationError ''Invalid or expired refresh token''
              else ValidationFailure ''Refresh token is required'')))"

definition logout :: "'db app \<Rightarrow> int \<Rightarrow> val \<Rightarrow> string option \<Rightarrow> ('db, doc) comp" where
  "logout A now body_token cookie = (\<lambda>db.
     case (case token_of_request body_token cookie of
             VStr (c # s) \<Rightarrow>
               bindM (verify_refresh_token (atokens A) now (c # s)) (\<lambda>payload.
               bindM (whenM (case payload of None \<Rightarrow> False | Some p \<Rightarrow> p \<noteq> [])
                 (bindM (revoke_token (atokens A) now (c # s)) (\<lambda>_. returnM ()))) (\<lambda>_.
               returnM (message ''Logged out successfully'')))
           | _ \<Rightarrow> returnM (message ''Logged out successfully'')) db of
       (Inl _, db') \<Rightarrow> (Inl (HTTPException 500 ''Logout failed''), db')
     | (Inr r, db') \<Rightarrow> (Inr r, db'))"


section \<open>Facts\<close>

lemma keep_http_ok: "keep_http m s = (Inr (Inr x), t) \<Longrightarrow> m s = (Inr (Inr x), t)"
  by (auto simp: keep_http_def split: prod.splits sum.splits py_error.splits)

lemma or_fail_ok: "or_fail f m s = (Inr (Inr x), t) \<Longrightarrow> m s = (Inr (Inr x), t)"
  by (auto simp: or_fail_def split: prod.splits sum.splits)

lemma http_or_500_ok [run_iff]: "http_or_500 m s = (Inr x, t) \<longleftrightarrow> m s = (Inr x, t)"
  by (auto simp: http_or_500_def split: prod.splits sum.splits py_error.splits)

lemma case_sum_iff [run_iff]:
  "(case x of Inl e \<Rightarrow> f e | Inr v \<Rightarrow> g v) s = (Inr y, t) \<longleftrightarrow>
     (\<exists>e. x = Inl e \<and> f e s = (Inr y, t)) \<or> (\<exists>v. x = Inr v \<and> g v s = (Inr y, t))"
  by (cases x) auto

lemma if_iff [run_iff]: "(if b then m else n) s = (Inr y, t) \<longleftrightarrow> (if b then m s = (Inr y, t) else n s = (Inr y, t))"
  by simp

text \<open>One route runs on one database.\<close>

definition one_database :: "'db app \<Rightarrow> bool" where
  "one_database A \<longleftrightarrow> document_store (astore A) \<and> tstore (atokens A) = astore A \<and> ostore (aotps A) = astore A"

context document_store
begin

lemma revoke_all_keeps:
  assumes "tstore T = S" and "k \<noteq> REFRESH"
  shows "keeps (\<lambda>db. P (docs S k db)) (revoke_all_user_tokens T now u g b)"
proof (rule keepsI)
  fix db r db' assume P: "P (docs S k db)" and run: "revoke_all_user_tokens T now u g b db = (r, db')"
  from run assms(1) obtain q where "update_many S REFRESH (live_user_tokens u) [(''$set'', VDict (revocation now g))] db = (q, db')"
    by (auto simp: revoke_all_user_tokens_def split: prod.splits sum.splits)
  with update_many_frame [OF this assms(2)] P show "P (docs S k db')" by simp
qed

lemma log_successful_login_keeps:
  assumes "astore A = S" and "k \<notin> {''login_attempts'', ''users'', ''audit_logs''}"
  shows "keeps (\<lambda>db. P (docs S k db)) (log_successful_login A now user ip agent)"
proof -
  from assms(2) have k: "k \<noteq> ''login_attempts''" "k \<noteq> ''users''" "k \<noteq> ''audit_logs''" by auto
  note other = keeps_insert_other [OF k(1)] keeps_update_other [OF k(2)] keeps_insert_other [OF k(3)]
  show ?thesis unfolding log_successful_login_def log_event_def assms(1)
    by (intro keeps_intros other)
qed

lemma store_refresh_token_keeps:
  assumes "tstore T = S" and "k \<noteq> REFRESH"
  shows "keeps (\<lambda>db. P (docs S k db)) (store_refresh_token T now token u e c)"
proof (rule keepsI)
  fix db r db' assume P: "P (docs S k db)" and run: "store_refresh_token T now token u e c db = (r, db')"
  have "keeps (\<lambda>db. P (docs S k db)) (bindM (revoke_all_user_tokens T now u 10 True) (\<lambda>_.
      bindM (insert_one S REFRESH (refresh_doc T now token u e c)) (\<lambda>_. cleanup_expired_tokens T now)))"
    (is "keeps _ ?m")
    unfolding cleanup_expired_tokens_def assms(1)
    by (intro keeps_intros keeps_insert_other keeps_delete_many_other revoke_all_keeps assms)
  moreover obtain q where "?m db = (q, db')"
    using run unfolding store_refresh_token_def assms(1) by (auto split: prod.splits sum.splits)
  ultimately show "P (docs S k db')" using P by (blast dest: keepsD)
qed

lemma generate_auth_tokens_run:
  assumes "astore A = S" "tstore (atokens A) = S" "dget user ''username'' = VStr u" "0 \<le> REFRESH_TOKEN_EXPIRE_DAYS A"
    and "generate_auth_tokens A now jti user ip q db = (Inr (Inr t), db')"
  obtains refresh e i where "dget t ''refresh_token'' = VStr refresh"
    "filter (match_filter (live_user_tokens (VStr u))) (docs S REFRESH db') =
       [dset_default ''_id'' i (refresh_doc (atokens A) now refresh (VStr u) (utc e) (request_client q ip))]"
proof -
  let ?e = "now + REFRESH_TOKEN_EXPIRE_DAYS A * 24 * 3600000000"
  from or_fail_ok [OF assms(5) [unfolded generate_auth_tokens_def]] assms(3) obtain refresh x where
    t: "dget t ''refresh_token'' = VStr refresh" and
    st: "store_refresh_token (atokens A) now refresh (VStr u) (utc ?e) (request_client q ip) db = (Inr x, db')"
    by (auto simp: run_iff Let_def dget_def)
  have "now \<le> ?e" using assms(4) by simp
  from stored_single_session [OF assms(2) st this] t that show thesis by blast
qed

lemma complete_login_run:
  assumes "astore A = S" "tstore (atokens A) = S" "dget user ''username'' = VStr u" "0 \<le> REFRESH_TOKEN_EXPIRE_DAYS A"
    and "complete_login A now jti q ident user (db, c) = (Inr (Inr resp), (db', c'))"
  obtains refresh e i where "dget resp ''refresh_token'' = VStr refresh"
    "filter (match_filter (live_user_tokens (VStr u))) (docs S REFRESH db') =
       [dset_default ''_id'' i (refresh_doc (atokens A) now refresh (VStr u) (utc e) (request_client q (request_ip q)))]"
proof -
  from assms(5) obtain t d1 where
    g: "generate_auth_tokens A now jti user (request_ip q) q db = (Inr (Inr t), d1)" and
    l: "log_successful_login A now user (request_ip q) (req_user_agent q) d1 = (Inr (), db')" and
    r: "build_login_response A t user = Inr resp"
    by (auto simp: complete_login_def run_iff)
  obtain refresh e i where f: "dget t ''refresh_token'' = VStr refresh"
    "filter (match_filter (live_user_tokens (VStr u))) (docs S REFRESH d1) =
       [dset_default ''_id'' i (refresh_doc (atokens A) now refresh (VStr u) (utc e) (request_client q (request_ip q)))]"
    by (rule generate_auth_tokens_run [OF assms(1-4) g])
  have "docs S REFRESH db' = docs S REFRESH d1"
    by (rule keeps_eqD [where f = "docs S REFRESH" and m = "log_successful_login A now user (request_ip q) (req_user_agent q)", OF _ l])
       (rule log_successful_login_keeps [OF assms(1)], simp)
  moreover from r f(1) have "dget resp ''refresh_token'' = VStr refresh"
    by (auto simp: build_login_response_def run_iff dget_def)
  ultimately show thesis using that f(2) by metis
qed

end


text \<open>(C17) A login that succeeds was not limited, names an active user whose stored hash the password
  verifies, and leaves the returned refresh token as the only live one of the user.\<close>

theorem login_sound:
  assumes "one_database A" "0 \<le> REFRESH_TOKEN_EXPIRE_DAYS A"
    and "login A now jti salt q username password (db, c) = (Inr (Inr resp), (db', c'))"
  shows "fst (check_auth_rate_limits (alimits A) (stamp now) q (Some username) c) = Inr () \<and>
    (\<exists>user. find_one (astore A) ''users'' [(''username'', CEq (VStr username))] db = (Inr (Some user), db) \<and>
       verify_password (acrypt A) (VStr password) (py_or (dget user ''hashed_password'') (dget user ''password'')) \<and>
       truthy (dget_or user ''is_active'' (VBool True)) \<and>
       (dget user ''username'' = VStr username \<longrightarrow>
          (\<exists>refresh e i. dget resp ''refresh_token'' = VStr refresh \<and>
             filter (match_filter (live_user_tokens (VStr username))) (docs (astore A) REFRESH db') =
               [dset_default ''_id'' i (refresh_doc (atokens A) now refresh (VStr username) (utc e) (request_client q (request_ip q)))])))"
proof -
  from assms(1) have S: "document_store (astore A)" "tstore (atokens A) = astore A" by (simp_all add: one_database_def)
  from keep_http_ok [OF assms(3) [unfolded login_def]] obtain c1 user x d2 where
    lim: "check_auth_rate_limits (alimits A) (stamp now) q (Some username) c = (Inr (), c1)" and
    find: "find_one (astore A) ''users'' [(''username'', CEq (VStr username))] db = (Inr (Some user), db)" and
    pw: "validate_user_password A (VStr password) user = Inr x" and
    active: "truthy (dget_or user ''is_active'' (VBool True))" and
    run: "complete_login A now jti q (Some username) user (d2, c1) = (Inr (Inr resp), (db', c'))"
    by (auto simp: run_iff handle_login_failure_def session_conflict_def find_user_by_username_def find_one_def readM_def
        split: if_splits option.split_asm)
  have "\<exists>refresh e i. dget resp ''refresh_token'' = VStr refresh \<and>
      filter (match_filter (live_user_tokens (VStr username))) (docs (astore A) REFRESH db') =
        [dset_default ''_id'' i (refresh_doc (atokens A) now refresh (VStr username) (utc e) (request_client q (request_ip q)))]"
    if "dget user ''username'' = VStr username"
    by (rule document_store.complete_login_run [OF S(1) refl S(2) that assms(2) run]) blast
  moreover from pw have "verify_password (acrypt A) (VStr password) (py_or (dget user ''hashed_password'') (dget user ''password''))"
    by (auto simp: validate_user_password_def Let_def split: if_splits)
  ultimately show ?thesis using lim find active by auto
qed


section \<open>Registration\<close>

lemma registration_effect:
  assumes "one_database A" and "register A now jti salt u current_user db = (Inr resp, db')"
  shows "(docs (astore A) ''users'' db = [] \<or> may_register current_user) \<and>
    filter (match_filter [(''username'', CEq (VStr (reg_username u)))]) (docs (astore A) ''users'' db) = [] \<and>
    (\<exists>i h. get_password_hash (acrypt A) salt (VStr (reg_password u)) = Inr h \<and>
       docs (astore A) ''users'' db' = docs (astore A) ''users'' db @ [dset_default ''_id'' i (user_doc now u h)])"
proof -
  from assms(1) have S: "document_store (astore A)" "tstore (atokens A) = astore A" by (simp_all add: one_database_def)
  let ?q = "[(''username'', CEq (VStr (reg_username u)))]"
  from assms(2) obtain n existing h d1 i refresh e x where
    n: "count_documents (astore A) ''users'' [] db = (Inr n, db)" "n = 0 \<or> may_register current_user" and
    f: "find_one (astore A) ''users'' ?q db = (Inr existing, db)" "\<not> (case existing of None \<Rightarrow> False | Some d \<Rightarrow> d \<noteq> [])" and
    h: "get_password_hash (acrypt A) salt (VStr (reg_password u)) = Inr h" and
    i: "insert_one (astore A) ''users'' (user_doc now u h) db = (Inr i, d1)" and
    st: "store_refresh_token (atokens A) now refresh (VStr (reg_username u)) e no_client d1 = (Inr x, db')"
    by (auto simp: register_def run_iff Let_def count_documents_def find_one_def)
  have "docs (astore A) ''users'' db = [] \<or> may_register current_user"
    using n document_store.count_documents_run [OF S(1)] by auto
  moreover have "filter (match_filter ?q) (docs (astore A) ''users'' db) = []"
  proof (cases "filter (match_filter ?q) (docs (astore A) ''users'' db)")
    case (Cons d ds)
    with f have "d = []" unfolding document_store.find_one_run [OF S(1)] by auto
    with filter_hd_sat [OF Cons] show ?thesis by (simp add: field_values_def dget_def)
  qed
  moreover have "docs (astore A) ''users'' db' = docs (astore A) ''users'' d1"
    by (rule keeps_eqD [where f = "docs (astore A) ''users''", OF document_store.store_refresh_token_keeps [OF S] st]) simp
  ultimately show ?thesis using document_store.insert_one_docs [OF S(1) i] h by auto
qed


text \<open>A registration that succeeds was asked for by an administrator, or there was no user at
  all; the name was free; and exactly one user is added, with a hash that \<open>get_password_hash\<close>
  made of the password.\<close>

theorem registration_guarded:
  assumes "one_database A" and "register A now jti salt u current_user db = (Inr resp, db')"
  shows "(docs (astore A) ''users'' db = [] \<or> may_register current_user) \<and>
    filter (match_filter [(''username'', CEq (VStr (reg_username u)))]) (docs (astore A) ''users'' db) = [] \<and>
    (\<exists>i h. get_password_hash (acrypt A) salt (VStr (reg_password u)) = Inr h \<and>
       docs (astore A) ''users'' db' = docs (astore A) ''users'' db @ [dset_default ''_id'' i (user_doc now u h)])"
  using registration_effect [OF assms] .

text \<open>A registered user cannot reset a forgotten password: the registration stores the number
  under \<open>phone\<close>, the reset looks for \<open>phone_number\<close>, so it answers that a code was sent and sends
  none; nothing is stored.\<close>

theorem registered_users_cannot_reset:
  assumes "one_database A" and "register A now jti salt u current_user db = (Inr resp, db')"
    and "reg_username u \<noteq> []" "delivery_configured A"
  shows "password_reset_request A now' code (Some (reg_username u)) phone db' =
    (Inr (Success (message ''If an account exists, an OTP has been sent.'')), db')"
proof -
  let ?q = "[(''username'', CEq (VStr (reg_username u)))]"
  from assms(1) have S: "document_store (astore A)" by (simp add: one_database_def)
  from registration_effect [OF assms(1,2)] obtain i h where
    "filter (match_filter ?q) (docs (astore A) ''users'' db) = []"
    "docs (astore A) ''users'' db' = docs (astore A) ''users'' db @ [dset_default ''_id'' i (user_doc now u h)]"
    by blast
  moreover have f: "dget (dset_default ''_id'' i (user_doc now u h)) ''username'' = VStr (reg_username u)"
    "dget (dset_default ''_id'' i (user_doc now u h)) ''phone_number'' = VNone"
    by (simp_all add: doc_simps) (simp_all add: user_doc_def dget_def)
  moreover have "match_filter ?q (dset_default ''_id'' i (user_doc now u h))" using f(1) by (simp add: field_values_def)
  ultimately have "filter (match_filter ?q) (docs (astore A) ''users'' db') = [dset_default ''_id'' i (user_doc now u h)]" by simp
  moreover have "build_password_reset_query (Some (reg_username u)) phone = ?q"
    using assms(3) by (cases "reg_username u") (simp_all add: build_password_reset_query_def)
  ultimately show ?thesis
    using assms(4) f(2) by (simp add: password_reset_request_def document_store.find_one_run [OF S] run_simps)
qed

section \<open>Changing a PIN\<close>

text \<open>A PIN is changed only by someone who knows the password or the PIN of the account, to four
  digits that are not on the list of weak PINs, and exactly the PIN fields of the first user of
  that name change.\<close>

theorem pin_change_guarded:
  assumes "document_store (astore A)" and "change_pin A now salt body current_user db = (Inr resp, db')"
  shows "\<exists>new_pin user h l. dget body ''new_pin'' = VStr new_pin \<and> four_digits new_pin \<and> new_pin \<notin> set WEAK_PINS \<and>
    find_one (astore A) ''users'' [(''username'', CEq (dget current_user ''username''))] db = (Inr (Some user), db) \<and>
    (verify_password (acrypt A) (dget body ''current_password'') (dget user ''hashed_password'') \<or>
     verify_pin_hash (acrypt A) (dget body ''current_pin'') (dget user ''pin_hash'')) \<and>
    get_pin_hash (acrypt A) salt (VStr new_pin) = Inr h \<and>
    docs (astore A) ''users'' db' = update_first (match_filter [(''username'', CEq (dget current_user ''username''))])
      (\<lambda>_. snd (apply_set (pin_fields now h l) user)) (docs (astore A) ''users'' db)"
proof -
  let ?q = "[(''username'', CEq (dget current_user ''username''))]"
  let ?log = "bindM (liftM (ditem current_user ''_id'')) (\<lambda>uid.
       log_event A now ''AUTH_PIN_SETUP'' ''SUCCESS'' (VStr (py_str (arepr A) uid)) (dget current_user ''username'') VNone
         [(''action'', VStr ''response_change_pin'')])"
  from assms(2) obtain new_pin user d0 h l n d1 x where
    pin: "validate_new_pin_value (dget body ''new_pin'') = Inr new_pin" and
    user: "load_user_for_pin_change A (dget current_user ''username'') db = (Inr user, d0)" and
    ident: "validate_pin_change_identity A user (dget body ''current_pin'') (dget body ''current_password'') = Inr x" and
    h: "get_pin_hash (acrypt A) salt (VStr new_pin) = Inr h" and
    up: "update_one (astore A) ''users'' ?q [(''$set'', VDict (pin_fields now h l))] d0 = (Inr n, d1)" and
    log: "attempt ?log d1 = (Inr (), db')"
    by (auto simp: change_pin_def persist_user_pin_def run_iff ditem_def split: if_splits)
  from user have find: "find_one (astore A) ''users'' ?q db = (Inr (Some user), db)" "d0 = db"
    by (auto simp: load_user_for_pin_change_def run_iff find_one_def readM_def split: option.split_asm if_splits)
  from pin have "dget body ''new_pin'' = VStr new_pin \<and> four_digits new_pin \<and> new_pin \<notin> set WEAK_PINS"
    by (auto simp: validate_new_pin_value_def split: val.split_asm if_splits)
  moreover from ident have "verify_password (acrypt A) (dget body ''current_password'') (dget user ''hashed_password'') \<or>
      verify_pin_hash (acrypt A) (dget body ''current_pin'') (dget user ''pin_hash'')"
    by (auto simp: validate_pin_change_identity_def split: if_splits)
  moreover have "docs (astore A) ''users'' db' = docs (astore A) ''users'' d1"
    by (rule keeps_eqD [where m = "attempt ?log", OF _ log])
       (unfold log_event_def, intro keeps_intros document_store.keeps_insert_other [OF assms(1)], simp)
  moreover obtain ds where first: "filter (match_filter ?q) (docs (astore A) ''users'' db) = user # ds"
    using find(1) document_store.find_one_run [OF assms(1)] by (auto split: list.splits)
  from apply_set_update_total [of "pin_fields now h l" user] up find(2)
  have "docs (astore A) ''users'' d1 = update_first (match_filter ?q) (\<lambda>_. snd (apply_set (pin_fields now h l) user)) (docs (astore A) ''users'' db)"
    using document_store.update_one_some [OF assms(1) _ first] by blast
  ultimately show ?thesis using find(1) h by auto
qed

section \<open>Resetting a password\<close>

context document_store
begin

lemma revoke_after_reset_run:
  assumes "astore A = S" and "filter (match_filter [(''_id'', CEq oid)]) (docs S ''users'' db) = user # us"
    and "user \<noteq> []" and "revoke_after_reset A oid db = (r, db')"
  shows "filter (match_filter [(''username'', CEq (dget user ''username''))]) (docs S REFRESH db') = []"
    "\<And>k. k \<noteq> REFRESH \<Longrightarrow> docs S k db' = docs S k db"
proof -
  have "revoke_after_reset A oid db = (Inr (), snd (delete_many S REFRESH [(''username'', CEq (dget user ''username''))] db))"
    using assms(1-3) by (simp add: revoke_after_reset_def attempt_snd run_simps find_one_run delete_many_def split: prod.splits)
  with assms(4) obtain n where d: "delete_many_doc S REFRESH [(''username'', CEq (dget user ''username''))] db = (n, db')"
    by (cases "delete_many_doc S REFRESH [(''username'', CEq (dget user ''username''))] db") (auto simp: delete_many_def)
  from delete_many_law [OF d] show "filter (match_filter [(''username'', CEq (dget user ''username''))]) (docs S REFRESH db') = []"
    by (auto simp: filter_empty_conv)
  fix k :: string assume "k \<noteq> REFRESH"
  with delete_many_frame [OF d] show "docs S k db' = docs S k db" by blast
qed

text \<open>The steps of a successful confirmation.\<close>

lemma password_reset_steps:
  assumes "astore A = S" "ostore (aotps A) = S"
    and "password_reset_confirm A now salt token pw db = (Inr (Success m), db')"
    and "filter (match_filter (reset_filter token)) (docs S RESETS db) = [r]" "dget r ''user_id'' = VStr uid"
  obtains h d1 n d2 d3 x where "get_password_hash (acrypt A) salt (VStr pw) = Inr h"
    "validate_reset_token (aotps A) token db = (Inr (VStr uid), d1)"
    "update_one S ''users'' [(''_id'', CEq (VOid uid))] [(''$set'', VDict [(''hashed_password'', VStr h), (''updated_at'', utc now)])] d1 = (Inr n, d2)"
    "revoke_after_reset A (VOid uid) d2 = (Inr x, d3)"
    "\<forall>k. k \<noteq> ''audit_logs'' \<longrightarrow> docs S k db' = docs S k d3"
proof -
  obtain d1 where v: "validate_reset_token (aotps A) token db = (Inr (VStr uid), d1)"
    by (rule reset_known [OF assms(2,4,5)])
  let ?log = "log_event A now ''AUTH_PASSWORD_RESET_CONFIRM'' ''SUCCESS'' (VStr uid) VNone VNone [(''action'', VStr ''password_changed'')]"
  from assms(1,3) v obtain h n d2 d3 x where h: "get_password_hash (acrypt A) salt (VStr pw) = Inr h"
    and u: "update_one S ''users'' [(''_id'', CEq (VOid uid))] [(''$set'', VDict [(''hashed_password'', VStr h), (''updated_at'', utc now)])] d1 = (Inr n, d2)"
    and r: "revoke_after_reset A (VOid uid) d2 = (Inr x, d3)" and c: "bindM (confirm_delivery A (VOid uid)) (\<lambda>_. attempt ?log) d3 = (Inr (), db')"
    by (auto simp: password_reset_confirm_def run_iff to_object_id_def bindM_run [of "validate_reset_token (aotps A) token"]
        split: sum.split_asm prod.split_asm if_splits)
  have "docs S k db' = docs S k d3" if "k \<noteq> ''audit_logs''" for k
    by (rule keeps_eqD [where f = "docs S k" and m = "bindM (confirm_delivery A (VOid uid)) (\<lambda>_. attempt ?log)", OF _ c])
       (unfold log_event_def confirm_delivery_def assms(1), auto intro!: keeps_intros keeps_insert_other that split: option.splits)
  with that h v u r show thesis by blast
qed

lemma reset_frame:
  assumes "ostore P = S" and "validate_reset_token P token db = (r, db')" and "k \<noteq> RESETS"
  shows "docs S k db' = docs S k db"
proof -
  have "keeps (\<lambda>db. Q (docs S k db)) (validate_reset_token P token)" for Q
    unfolding validate_reset_token_def find_one_and_delete_def assms(1)
    by (auto intro!: keeps_intros keeps_delete_one_other assms(3) split: option.splits)
  from keeps_eqD [where f = "docs S k", OF this assms(2)] show ?thesis .
qed

end

text \<open>Resetting a password: a confirmation that succeeds sets the hash of the new password on the
  user to whom the token was issued and on nobody else, removes all refresh tokens of this user,
  and the reset token is gone. Identifiers are unique.\<close>

theorem password_reset_effect:
  assumes "one_database A"
    and "password_reset_confirm A now salt token pw db = (Inr (Success m), db')"
    and "filter (match_filter (reset_filter token)) (docs (astore A) RESETS db) = [r]" "dget r ''user_id'' = VStr uid"
    and "filter (match_filter [(''_id'', CEq (VOid uid))]) (docs (astore A) ''users'' db) = [user]"
  shows "\<exists>h. get_password_hash (acrypt A) salt (VStr pw) = Inr h \<and>
    docs (astore A) ''users'' db' = update_first (match_filter [(''_id'', CEq (VOid uid))])
      (\<lambda>_. snd (apply_set [(''hashed_password'', VStr h), (''updated_at'', utc now)] user)) (docs (astore A) ''users'' db) \<and>
    filter (match_filter [(''username'', CEq (dget user ''username''))]) (docs (astore A) REFRESH db') = [] \<and>
    filter (match_filter (reset_filter token)) (docs (astore A) RESETS db') = []"
proof -
  from assms(1) have S: "document_store (astore A)" "ostore (aotps A) = astore A" by (simp_all add: one_database_def)
  let ?i = "[(''_id'', CEq (VOid uid))]"
  obtain h d1 n d2 d3 x where h: "get_password_hash (acrypt A) salt (VStr pw) = Inr h"
    and v: "validate_reset_token (aotps A) token db = (Inr (VStr uid), d1)"
    and u: "update_one (astore A) ''users'' ?i [(''$set'', VDict [(''hashed_password'', VStr h), (''updated_at'', utc now)])] d1 = (Inr n, d2)"
    and rv: "revoke_after_reset A (VOid uid) d2 = (Inr x, d3)"
    and last: "\<forall>k. k \<noteq> ''audit_logs'' \<longrightarrow> docs (astore A) k db' = docs (astore A) k d3"
    by (rule document_store.password_reset_steps [OF S(1) refl S(2) assms(2-4)])
  let ?f = "[(''hashed_password'', VStr h), (''updated_at'', utc now)]"
  let ?u = "snd (apply_set ?f user)"
  note v_frame = document_store.reset_frame [OF S v]
  have f1: "filter (match_filter ?i) (docs (astore A) ''users'' d1) = [user]" using v_frame assms(5) by simp
  from apply_set_update_total [of ?f user] document_store.update_one_some [OF S(1) u f1]
  have users: "docs (astore A) ''users'' d2 = update_first (match_filter ?i) (\<lambda>_. ?u) (docs (astore A) ''users'' db)"
    using v_frame by auto
  have kept: "dget ?u k = dget user k" if "k \<notin> {''hashed_password'', ''updated_at''}" for k
    using that by (intro apply_set_other) auto
  then have "match_filter ?i ?u" using filter_hd_sat [OF assms(5)] by (simp add: field_values_def)
  with filter_update_first [OF assms(5), of "match_filter ?i"] filter_hd_sat [OF assms(5)] users
  have f2: "filter (match_filter ?i) (docs (astore A) ''users'' d2) = [?u]" by simp
  have "?u \<noteq> []" using filter_hd_sat [OF f2] by (auto simp: field_values_def dget_def)
  note rev = document_store.revoke_after_reset_run [OF S(1) refl f2 this rv]
  have "filter (match_filter (reset_filter token)) (docs (astore A) RESETS d1) = []"
    by (rule document_store.reset_consumed [OF S assms(3) v])
  moreover have "docs (astore A) RESETS db' = docs (astore A) RESETS d1"
    using last rev(2) [of RESETS] document_store.update_one_frame [OF S(1) u, of RESETS] by simp
  moreover have "docs (astore A) ''users'' db' = docs (astore A) ''users'' d2" using last rev(2) by simp
  ultimately show ?thesis using h users rev(1) kept last by simp
qed


section \<open>Instances\<close>

definition demo_web_store :: "memdb store" where
  "demo_web_store = mem_store show_nat (\<lambda>_. True)"

definition demo_app :: "memdb app" where
  "demo_app = \<lparr>astore = demo_web_store, atokens = demo_tokens\<lparr>tstore := demo_web_store\<rparr>,
     aotps = demo_otps\<lparr>ostore := demo_web_store\<rparr>, acrypt = demo_crypt, alimits = demo_limits, arepr = (\<lambda>_. []),
     secret_key = ''a'', jwt_algorithm = ''HS256'', ACCESS_TOKEN_EXPIRE_MINUTES = 15, REFRESH_TOKEN_EXPIRE_DAYS = 30,
     AUTH_SINGLE_SESSION = True, delivery_configured = True, send_otp = (\<lambda>_ _. None), send_confirmation = (\<lambda>_. None)\<rparr>"

definition demo_user :: doc where
  "demo_user = [(''_id'', VStr ''7''), (''username'', VStr ''ann''), (''hashed_password'', VStr ''$argon2id$correct horse''),
     (''role'', VStr ''staff''), (''pin_hash'', VStr ''$argon2id$2580'')]"

definition demo_web_db :: memdb where
  "demo_web_db = \<lparr>colls = (\<lambda>c. if c = ''users'' then [demo_user]
     else if c = RESETS then [[(''_id'', VStr ''r1''), (''user_id'', VStr ''7''), (''token'', VStr ''t'')]] else []), next_id = 1\<rparr>"

definition demo_registration :: registration where
  "demo_registration = \<lparr>reg_username = ''bob'', reg_password = ''correct horse'', reg_full_name = ''Bob'', reg_role = ''staff'',
     reg_employee_id = None, reg_phone = Some ''555''\<rparr>"

lemma demo_app_one_database: "one_database demo_app"
  by (simp add: one_database_def demo_app_def demo_web_store_def document_store_mem)

theorem login_sound_witness:
  "\<exists>resp db' c' refresh. login demo_app 5 ''2'' ''s'' demo_request ''ann'' ''correct horse'' (demo_web_db, demo_cache) = (Inr (Inr resp), (db', c')) \<and>
     dget resp ''refresh_token'' = VStr refresh \<and>
     length (filter (match_filter (live_user_tokens (VStr ''ann''))) (docs (astore demo_app) REFRESH db')) = 1"
proof -
  let ?run = "login demo_app 5 ''2'' ''s'' demo_request ''ann'' ''correct horse'' (demo_web_db, demo_cache)"
  have "case fst ?run of Inr (Inr _) \<Rightarrow> True | _ \<Rightarrow> False" by code_simp
  then obtain resp db' c' where run: "?run = (Inr (Inr resp), (db', c'))"
    by (cases ?run) (auto split: sum.splits)
  have days: "0 \<le> REFRESH_TOKEN_EXPIRE_DAYS demo_app" by (simp add: demo_app_def)
  have "find_one (astore demo_app) ''users'' [(''username'', CEq (VStr ''ann''))] demo_web_db = (Inr (Some demo_user), demo_web_db)"
    by (simp add: find_one_def run_simps demo_app_def demo_web_store_def mem_store_def mem_find_def demo_web_db_def field_values_def demo_user_def dget_def)
  with login_sound [OF demo_app_one_database days run] have
    "\<exists>refresh e i. dget resp ''refresh_token'' = VStr refresh \<and> filter (match_filter (live_user_tokens (VStr ''ann''))) (docs (astore demo_app) REFRESH db') =
       [dset_default ''_id'' i (refresh_doc (atokens demo_app) 5 refresh (VStr ''ann'') (utc e) (request_client demo_request (request_ip demo_request)))]"
    by (auto simp: demo_user_def dget_def)
  with run show ?thesis by fastforce
qed


theorem registration_guarded_witness:
  "\<exists>resp db' i h. register demo_app 5 ''2'' ''s'' demo_registration (Some [(''role'', VStr ''admin'')]) demo_web_db = (Inr resp, db') \<and>
     docs (astore demo_app) ''users'' db' = docs (astore demo_app) ''users'' demo_web_db @ [dset_default ''_id'' i (user_doc 5 demo_registration h)]"
proof -
  let ?run = "register demo_app 5 ''2'' ''s'' demo_registration (Some [(''role'', VStr ''admin'')]) demo_web_db"
  have "case fst ?run of Inr _ \<Rightarrow> True | _ \<Rightarrow> False" by code_simp
  then obtain resp db' where run: "?run = (Inr resp, db')" by (cases ?run) (auto split: sum.splits)
  from registration_guarded [OF demo_app_one_database run] run show ?thesis by blast
qed

theorem registered_users_cannot_reset_witness:
  "\<exists>resp db'. register demo_app 5 ''2'' ''s'' demo_registration (Some [(''role'', VStr ''admin'')]) demo_web_db = (Inr resp, db') \<and>
     password_reset_request demo_app 6 ''123456'' (Some ''bob'') None db' =
       (Inr (Success (message ''If an account exists, an OTP has been sent.'')), db')"
proof -
  let ?run = "register demo_app 5 ''2'' ''s'' demo_registration (Some [(''role'', VStr ''admin'')]) demo_web_db"
  have "case fst ?run of Inr _ \<Rightarrow> True | _ \<Rightarrow> False" by code_simp
  then obtain resp db' where run: "?run = (Inr resp, db')" by (cases ?run) (auto split: sum.splits)
  have b: "reg_username demo_registration = ''bob''" "delivery_configured demo_app" by (simp_all add: demo_registration_def demo_app_def)
  from registered_users_cannot_reset [OF demo_app_one_database run _ b(2), unfolded b(1)] run show ?thesis by blast
qed

theorem pin_change_guarded_witness:
  "\<exists>resp db' l. change_pin demo_app 5 ''s'' [(''new_pin'', VStr ''1379''), (''current_pin'', VStr ''2580'')] demo_user demo_web_db = (Inr resp, db') \<and>
     docs (astore demo_app) ''users'' db' = [snd (apply_set (pin_fields 5 ''$argon2id$1379'' l) demo_user)]"
proof -
  let ?run = "change_pin demo_app 5 ''s'' [(''new_pin'', VStr ''1379''), (''current_pin'', VStr ''2580'')] demo_user demo_web_db"
  have "case fst ?run of Inr _ \<Rightarrow> True | _ \<Rightarrow> False" by code_simp
  then obtain resp db' where run: "?run = (Inr resp, db')" by (cases ?run) (auto split: sum.splits)
  have s: "document_store (astore demo_app)" using demo_app_one_database by (simp add: one_database_def)
  have users: "docs (astore demo_app) ''users'' demo_web_db = [demo_user]" by (simp add: demo_app_def demo_web_store_def demo_web_db_def)
  have hash: "get_pin_hash (acrypt demo_app) ''s'' (VStr ''1379'') = Inr ''$argon2id$1379''" by code_simp
  have match: "match_filter [(''username'', CEq (dget demo_user ''username''))] demo_user" by code_simp
  from pin_change_guarded [OF s run] obtain user h l where
    "find_one (astore demo_app) ''users'' [(''username'', CEq (dget demo_user ''username''))] demo_web_db = (Inr (Some user), demo_web_db)"
    "get_pin_hash (acrypt demo_app) ''s'' (VStr ''1379'') = Inr h"
    "docs (astore demo_app) ''users'' db' = update_first (match_filter [(''username'', CEq (dget demo_user ''username''))])
      (\<lambda>_. snd (apply_set (pin_fields 5 h l) user)) (docs (astore demo_app) ''users'' demo_web_db)"
    by (auto simp: dget_def)
  with users match hash run show ?thesis by (auto simp: document_store.find_one_run [OF s])
qed

theorem password_reset_effect_witness:
  "\<exists>m db'. password_reset_confirm demo_app 5 ''s'' ''t'' ''battery staple'' demo_web_db = (Inr (Success m), db') \<and>
     filter (match_filter (reset_filter ''t'')) (docs (astore demo_app) RESETS db') = []"
proof -
  let ?run = "password_reset_confirm demo_app 5 ''s'' ''t'' ''battery staple'' demo_web_db"
  have "case fst ?run of Inr (Success _) \<Rightarrow> True | _ \<Rightarrow> False" by code_simp
  then obtain m db' where run: "?run = (Inr (Success m), db')"
    by (cases ?run) (auto split: sum.splits api_response.splits)
  let ?r = "[(''_id'', VStr ''r1''), (''user_id'', VStr ''7''), (''token'', VStr ''t'')]"
  have d: "filter (match_filter (reset_filter ''t'')) (docs (astore demo_app) RESETS demo_web_db) = [?r]"
    "dget ?r ''user_id'' = VStr ''7''"
    "filter (match_filter [(''_id'', CEq (VOid ''7''))]) (docs (astore demo_app) ''users'' demo_web_db) = [demo_user]"
    by code_simp+
  from password_reset_effect [OF demo_app_one_database run d] run show ?thesis by blast
qed

end
