(* ===== verification/CountStateMachine.thy ===== *)
theory CountStateMachine
  imports Governance
begin

text \<open>
  The two status machines of the services: \<open>backend/services/count_state_machine.py\<close> (count lines,
  with roles) and \<open>backend/services/session_state_machine.py\<close> (the legacy session statuses).

  A status read from a document is any value; \<open>CountLineState(v)\<close> succeeds on the six words
  only. The write itself goes through \<open>CountLineWriteService.process_write\<close>, the parameter
  \<open>process_write\<close>: the identifier of the line, the fields to set, the session and the user.
  A missing optional document is the empty one.
\<close>

section \<open>Count line states\<close>

datatype count_line_state = DRAFT | SUBMITTED | PENDING_APPROVAL | APPROVED | REJECTED | LOCKED

primrec state_value :: "count_line_state \<Rightarrow> string" where
  "state_value DRAFT = ''draft''"
| "state_value SUBMITTED = ''submitted''"
| "state_value PENDING_APPROVAL = ''pending_approval''"
| "state_value APPROVED = ''approved''"
| "state_value REJECTED = ''rejected''"
| "state_value LOCKED = ''locked''"

definition ALL_STATES :: "count_line_state list" where
  "ALL_STATES = [DRAFT, SUBMITTED, PENDING_APPROVAL, APPROVED, REJECTED, LOCKED]"

text \<open>\<open>CountLineState(v)\<close>, \<open>None\<close> for the \<open>ValueError\<close>.\<close>

definition state_of :: "val \<Rightarrow> count_line_state option" where
  "state_of v =
     (case v of VStr s \<Rightarrow> List.find (\<lambda>st. state_value st = s) ALL_STATES | _ \<Rightarrow> None)"

primrec TRANSITIONS :: "count_line_state \<Rightarrow> (count_line_state \<times> string list) list" where
  "TRANSITIONS DRAFT = [(SUBMITTED, [''staff'', ''supervisor'', ''admin''])]"
| "TRANSITIONS SUBMITTED = [(PENDING_APPROVAL, [''system'']), (DRAFT, [''supervisor'', ''admin''])]"
| "TRANSITIONS PENDING_APPROVAL =
     [(APPROVED, [''supervisor'', ''admin'']), (REJECTED, [''supervisor'', ''admin''])]"
| "TRANSITIONS APPROVED = [(LOCKED, [''admin'']), (DRAFT, [''admin''])]"
| "TRANSITIONS REJECTED = [(DRAFT, [''staff'', ''supervisor'', ''admin''])]"
| "TRANSITIONS LOCKED = []"

definition can_transition :: "val \<Rightarrow> val \<Rightarrow> string \<Rightarrow> bool" where
  "can_transition current_state next_state user_role =
     (case (state_of current_state, state_of next_state) of
        (Some current, Some next_s) \<Rightarrow>
          (let required_roles = (case map_of (TRANSITIONS current) next_s of None \<Rightarrow> [] | Some rs \<Rightarrow> rs)
           in if ''system'' \<in> set required_roles then True else user_role \<in> set required_roles)
      | _ \<Rightarrow> False)"

definition get_allowed_transitions :: "val \<Rightarrow> string \<Rightarrow> string list" where
  "get_allowed_transitions current_state user_role =
     (case state_of current_state of
        None \<Rightarrow> []
      | Some current \<Rightarrow>
          map (\<lambda>(next_state, _). state_value next_state)
            (filter (\<lambda>(_, required_roles). user_role \<in> set required_roles \<or> ''system'' \<in> set required_roles)
              (TRANSITIONS current)))"

primrec EDIT_PERMISSIONS :: "count_line_state \<Rightarrow> (string \<times> bool) list" where
  "EDIT_PERMISSIONS DRAFT = [(''staff'', True), (''supervisor'', True), (''admin'', True)]"
| "EDIT_PERMISSIONS SUBMITTED = [(''staff'', False), (''supervisor'', True), (''admin'', True)]"
| "EDIT_PERMISSIONS PENDING_APPROVAL = [(''staff'', False), (''supervisor'', False), (''admin'', True)]"
| "EDIT_PERMISSIONS APPROVED = [(''staff'', False), (''supervisor'', False), (''admin'', True)]"
| "EDIT_PERMISSIONS REJECTED = [(''staff'', True), (''supervisor'', True), (''admin'', True)]"
| "EDIT_PERMISSIONS LOCKED = [(''staff'', False), (''supervisor'', False), (''admin'', False)]"

definition permits_edit :: "val \<Rightarrow> string \<Rightarrow> bool \<Rightarrow> bool" where
  "permits_edit state user_role is_owner =
     (case state_of state of
        None \<Rightarrow> False
      | Some st \<Rightarrow>
          (let can_edit_by_role =
             (case map_of (EDIT_PERMISSIONS st) user_role of None \<Rightarrow> False | Some b \<Rightarrow> b)
           in if user_role = ''staff'' \<and> \<not> is_owner then False else can_edit_by_role))"

definition permits_view :: "string \<Rightarrow> bool \<Rightarrow> bool" where
  "permits_view user_role is_owner =
     (if user_role \<in> {''supervisor'', ''admin''} then True
      else if user_role = ''staff'' \<and> is_owner then True
      else False)"

section \<open>The machine on stored lines\<close>

record 'db count_machine =
  cstore :: "'db store"
  crepr :: repr
  process_write :: "string \<Rightarrow> doc \<Rightarrow> string \<Rightarrow> string \<Rightarrow> ('db, unit) comp"

definition line_filter :: "string \<Rightarrow> query" where
  "line_filter count_line_id = [(''id'', CEq (VStr count_line_id))]"

definition stage_fields :: "int \<Rightarrow> string \<Rightarrow> string \<Rightarrow> val \<Rightarrow> doc" where
  "stage_fields now next_state user_id reason =
     (if next_state = ''submitted''
      then [(''submitted_at'', naive now), (''submitted_by'', VStr user_id)]
      else if next_state = ''approved''
      then [(''approved_at'', naive now), (''approved_by'', VStr user_id), (''approval_reason'', reason)]
      else if next_state = ''rejected''
      then [(''rejected_at'', naive now), (''rejected_by'', VStr user_id), (''rejection_reason'', reason)]
      else if next_state = ''locked''
      then [(''locked_at'', naive now), (''locked_by'', VStr user_id)]
      else [])"

definition transition_update :: "int \<Rightarrow> string \<Rightarrow> string \<Rightarrow> val \<Rightarrow> doc \<Rightarrow> doc" where
  "transition_update now next_state user_id reason metadata =
     [(''status'', VStr next_state), (''updated_at'', naive now), (''updated_by'', VStr user_id)] @
     stage_fields now next_state user_id reason @
     (if metadata = [] then []
      else (''state_metadata'', VDict metadata) #
           (if dhas metadata ''assigned_to'' then [(''assigned_to'', dget metadata ''assigned_to'')] else []))"

definition log_transition ::
  "'db count_machine \<Rightarrow> int \<Rightarrow> string \<Rightarrow> val \<Rightarrow> string \<Rightarrow> string \<Rightarrow> string \<Rightarrow> val \<Rightarrow> val \<Rightarrow> ('db, unit) comp" where
  "log_transition M now count_line_id from_state to_state user_id user_role reason metadata =
     bindM (insert_one (cstore M) ''activity_logs''
       [(''user_id'', VStr user_id), (''action'', VStr ''count_line_state_transition''),
        (''resource_type'', VStr ''count_line''), (''resource_id'', VStr count_line_id),
        (''metadata'', VDict [(''from_state'', from_state), (''to_state'', VStr to_state),
           (''user_role'', VStr user_role), (''reason'', reason), (''additional_metadata'', metadata)]),
        (''timestamp'', naive now)]) (\<lambda>_. returnM ())"

definition line_status :: "doc \<Rightarrow> val" where
  "line_status count_line = dget_or count_line ''status'' (VStr ''draft'')"

definition transition_line ::
  "'db count_machine \<Rightarrow> int \<Rightarrow> string \<Rightarrow> doc \<Rightarrow> string \<Rightarrow> string \<Rightarrow> string \<Rightarrow> val \<Rightarrow> doc option \<Rightarrow> ('db, doc) comp" where
  "transition_line M now count_line_id count_line next_state user_id user_role reason metadata =
     (let current_state = line_status count_line;
          meta = (case metadata of None \<Rightarrow> [] | Some m \<Rightarrow> m)
      in bindM (raise_if (\<not> can_transition current_state (VStr next_state) user_role)
           (ValueError (''Transition from '' @ py_str (crepr M) current_state @ '' to '' @ next_state @
              '' not allowed for role '' @ user_role))) (\<lambda>_.
         bindM (process_write M count_line_id (transition_update now next_state user_id reason meta)
           (py_str (crepr M) (py_or (dget count_line ''session_id'') (VStr []))) user_id) (\<lambda>_.
         bindM (log_transition M now count_line_id current_state next_state user_id user_role reason
           (case metadata of None \<Rightarrow> VNone | Some m \<Rightarrow> VDict m)) (\<lambda>_.
         returnM
           [(''success'', VBool True), (''count_line_id'', VStr count_line_id),
            (''previous_state'', current_state), (''new_state'', VStr next_state),
            (''transitioned_by'', VStr user_id), (''transitioned_at'', naive now)]))))"

definition transition ::
  "'db count_machine \<Rightarrow> int \<Rightarrow> string \<Rightarrow> string \<Rightarrow> string \<Rightarrow> string \<Rightarrow> val \<Rightarrow> doc option \<Rightarrow> ('db, doc) comp" where
  "transition M now count_line_id next_state user_id user_role reason metadata =
     bindM (find_one (cstore M) ''count_lines'' (line_filter count_line_id)) (\<lambda>r.
     (case (case r of None \<Rightarrow> [] | Some d \<Rightarrow> d) of
        [] \<Rightarrow> raiseM (ValueError (''Count line '' @ count_line_id @ '' not found''))
      | count_line \<Rightarrow>
          transition_line M now count_line_id count_line next_state user_id user_role reason metadata))"

definition owner_of :: "doc \<Rightarrow> string \<Rightarrow> bool" where
  "owner_of count_line user_id =
     (py_eq (dget count_line ''counted_by'') (VStr user_id) \<or> py_eq (dget count_line ''created_by'') (VStr user_id))"

definition can_edit :: "'db count_machine \<Rightarrow> string \<Rightarrow> string \<Rightarrow> string \<Rightarrow> ('db, bool) comp" where
  "can_edit M count_line_id user_id user_role =
     bindM (find_one (cstore M) ''count_lines'' (line_filter count_line_id)) (\<lambda>r.
     returnM (case (case r of None \<Rightarrow> [] | Some d \<Rightarrow> d) of
        [] \<Rightarrow> False
      | count_line \<Rightarrow> permits_edit (line_status count_line) user_role (owner_of count_line user_id)))"

definition can_view :: "'db count_machine \<Rightarrow> string \<Rightarrow> string \<Rightarrow> string \<Rightarrow> ('db, bool) comp" where
  "can_view M count_line_id user_id user_role =
     bindM (find_one (cstore M) ''count_lines'' (line_filter count_line_id)) (\<lambda>r.
     returnM (case (case r of None \<Rightarrow> [] | Some d \<Rightarrow> d) of
        [] \<Rightarrow> False
      | count_line \<Rightarrow> permits_view user_role (owner_of count_line user_id)))"

definition get_allowed_actions ::
  "'db count_machine \<Rightarrow> string \<Rightarrow> string \<Rightarrow> string option \<Rightarrow> ('db, doc) comp" where
  "get_allowed_actions M count_line_id user_role user_id =
     bindM (find_one (cstore M) ''count_lines'' (line_filter count_line_id)) (\<lambda>r.
     returnM (case (case r of None \<Rightarrow> [] | Some d \<Rightarrow> d) of
        [] \<Rightarrow> [(''can_edit'', VBool False), (''can_view'', VBool False), (''allowed_transitions'', VList [])]
      | count_line \<Rightarrow>
          (let state = line_status count_line;
               is_owner = (case user_id of
                   None \<Rightarrow> user_role = ''staff''
                 | Some u \<Rightarrow> if u = [] then user_role = ''staff'' else owner_of count_line u)
           in [(''current_state'', state), (''can_edit'', VBool (permits_edit state user_role is_owner)),
               (''can_view'', VBool (permits_view user_role is_owner)),
               (''allowed_transitions'', VList (map VStr (get_allowed_transitions state user_role)))])))"

section \<open>Legacy session statuses\<close>

datatype session_state = S_OPEN | S_ACTIVE | S_PAUSED | S_RECONCILE | S_COMPLETED | S_CLOSED | S_CANCELLED

primrec session_state_value :: "session_state \<Rightarrow> string" where
  "session_state_value S_OPEN = ''OPEN''"
| "session_state_value S_ACTIVE = ''ACTIVE''"
| "session_state_value S_PAUSED = ''PAUSED''"
| "session_state_value S_RECONCILE = ''RECONCILE''"
| "session_state_value S_COMPLETED = ''COMPLETED''"
| "session_state_value S_CLOSED = ''CLOSED''"
| "session_state_value S_CANCELLED = ''CANCELLED''"

primrec SESSION_STATE_TRANSITIONS :: "session_state \<Rightarrow> session_state list" where
  "SESSION_STATE_TRANSITIONS S_OPEN = [S_ACTIVE, S_RECONCILE, S_CANCELLED, S_CLOSED]"
| "SESSION_STATE_TRANSITIONS S_ACTIVE = [S_PAUSED, S_RECONCILE, S_COMPLETED, S_CLOSED, S_CANCELLED]"
| "SESSION_STATE_TRANSITIONS S_PAUSED = [S_ACTIVE, S_COMPLETED, S_CLOSED, S_CANCELLED]"
| "SESSION_STATE_TRANSITIONS S_RECONCILE = [S_CLOSED, S_COMPLETED]"
| "SESSION_STATE_TRANSITIONS S_COMPLETED = [S_CLOSED]"
| "SESSION_STATE_TRANSITIONS S_CLOSED = []"
| "SESSION_STATE_TRANSITIONS S_CANCELLED = []"

definition normalize_state :: "string \<Rightarrow> session_state option" where
  "normalize_state value =
     (if value = [] then None
      else List.find (\<lambda>st. session_state_value st = upper value)
        [S_OPEN, S_ACTIVE, S_PAUSED, S_RECONCILE, S_COMPLETED, S_CLOSED, S_CANCELLED])"

definition session_can_transition :: "string \<Rightarrow> string \<Rightarrow> bool" where
  "session_can_transition current_status next_status =
     (case (normalize_state current_status, normalize_state next_status) of
        (Some current, Some target) \<Rightarrow> target \<in> set (SESSION_STATE_TRANSITIONS current)
      | _ \<Rightarrow> False)"

section \<open>Facts\<close>

lemma state_of_value [simp]: "state_of (VStr (state_value st)) = Some st"
  by (cases st) (simp_all add: state_of_def ALL_STATES_def)

lemma state_of_Some: "state_of v = Some st \<longleftrightarrow> v = VStr (state_value st)"
proof
  assume "state_of v = Some st"
  then show "v = VStr (state_value st)"
    by (cases v) (auto simp: state_of_def dest!: find_Some_iff [THEN iffD1])
qed simp

lemma TRANSITIONS_distinct: "distinct (map fst (TRANSITIONS st))"
  by (cases st) simp_all

inductive count_step :: "string \<Rightarrow> count_line_state \<Rightarrow> count_line_state \<Rightarrow> bool" for user_role where
  count: "can_transition (VStr (state_value s)) (VStr (state_value t)) user_role \<Longrightarrow> count_step user_role s t"

inductive_simps count_step_iff: "count_step user_role s t"

lemma count_step_table:
  "count_step user_role s t \<longleftrightarrow>
     (\<exists>rs. (t, rs) \<in> set (TRANSITIONS s) \<and> (''system'' \<in> set rs \<or> user_role \<in> set rs))"
  using map_of_eq_Some_iff [OF TRANSITIONS_distinct, of s t] TRANSITIONS_distinct [of s]
  by (auto simp: count_step_iff can_transition_def Let_def split: option.splits if_splits)

lemma session_state_find [simp]: "normalize_state (session_state_value st) = Some st"
proof -
  have "list_all (\<lambda>st. normalize_state (session_state_value st) = Some st)
      [S_OPEN, S_ACTIVE, S_PAUSED, S_RECONCILE, S_COMPLETED, S_CLOSED, S_CANCELLED]" by code_simp
  then show ?thesis by (cases st) simp_all
qed

section \<open>Properties\<close>

text \<open>The two views of the count-line machine agree: a transition is permitted for a role exactly
  when its target is listed among the allowed transitions of the current state for that role.\<close>

theorem can_transition_iff_listed:
  "can_transition current (VStr (state_value t)) user_role \<longleftrightarrow>
     state_value t \<in> set (get_allowed_transitions current user_role)"
proof (cases "state_of current")
  case (Some s)
  have inj: "state_value a = state_value b \<longleftrightarrow> a = b" for a b
    by (cases a; cases b) simp_all
  from Some count_step_table [of user_role s t] show ?thesis
    by (auto simp: count_step_iff state_of_Some get_allowed_transitions_def inj image_iff)
qed (simp add: can_transition_def get_allowed_transitions_def)

text \<open>A locked count line is final: no role can move it to any state or edit it, owner or not.\<close>

theorem locked_line_final:
  "\<not> can_transition (VStr ''locked'') next_state user_role \<and>
   get_allowed_transitions (VStr ''locked'') user_role = [] \<and>
   \<not> permits_edit (VStr ''locked'') user_role is_owner"
proof -
  have "state_of (VStr ''locked'') = Some LOCKED" using state_of_value [of LOCKED] by simp
  then show ?thesis
    by (auto simp: can_transition_def get_allowed_transitions_def permits_edit_def Let_def
        split: option.splits if_splits)
qed

text \<open>Separation of duties: whatever sequence of transitions a member of staff performs on a line
  that is a draft, submitted or awaiting approval, it never becomes approved, rejected or
  locked, and after submission staff cannot edit it again.\<close>

theorem staff_cannot_decide:
  assumes "(count_step ''staff'')\<^sup>*\<^sup>* s t" and "s \<in> {DRAFT, SUBMITTED, PENDING_APPROVAL}"
  shows "t \<in> {DRAFT, SUBMITTED, PENDING_APPROVAL} \<and>
    (s \<noteq> DRAFT \<longrightarrow> t \<noteq> DRAFT \<and> \<not> permits_edit (VStr (state_value t)) ''staff'' is_owner)"
proof -
  have fwd: "u \<in> {SUBMITTED, PENDING_APPROVAL}" if "count_step ''staff'' w u" "w \<in> {DRAFT, SUBMITTED, PENDING_APPROVAL}" for w u
    using that by (auto simp: count_step_table)
  have "t \<in> {DRAFT, SUBMITTED, PENDING_APPROVAL} \<and> (s \<noteq> DRAFT \<longrightarrow> t \<noteq> DRAFT)"
    using assms(1)
  proof (induction rule: rtranclp_induct)
    case (step w u)
    then show ?case using fwd [of w u] by blast
  qed (use assms(2) in simp)
  moreover have "\<not> permits_edit (VStr (state_value u)) ''staff'' is_owner" if "u \<in> {SUBMITTED, PENDING_APPROVAL}" for u
    using that by (auto simp: permits_edit_def Let_def simp del: state_value.simps)
  ultimately show ?thesis by blast
qed

lemma staff_cannot_decide_witness:
  "(count_step ''staff'')\<^sup>*\<^sup>* SUBMITTED PENDING_APPROVAL \<and>
   \<not> permits_edit (VStr (state_value PENDING_APPROVAL)) ''staff'' True"
proof -
  have "count_step ''staff'' SUBMITTED PENDING_APPROVAL" by (simp add: count_step_table)
  then have "(count_step ''staff'')\<^sup>*\<^sup>* SUBMITTED PENDING_APPROVAL" by blast
  with staff_cannot_decide [OF this, of True] show ?thesis by simp
qed

text \<open>A refused count-line transition has no effect: when the line is missing or the role may not
  perform the transition, a \<open>ValueError\<close> is raised, nothing is written and nothing is logged; a
  transition that succeeds was permitted, wrote exactly the fields of the new state for that
  line, and reports the state the line was in.\<close>

theorem count_line_transition_guarded:
  assumes "document_store (cstore M)"
    and "transition M now line_id next_state user_id user_role reason metadata db = (r, db')"
  shows "(case filter (match_filter (line_filter line_id)) (docs (cstore M) ''count_lines'' db) of
      [] \<Rightarrow> (\<exists>e. r = Inl (ValueError e)) \<and> db' = db
    | line # _ \<Rightarrow> line \<noteq> [] \<longrightarrow>
        (if can_transition (line_status line) (VStr next_state) user_role
         then (\<forall>res. r = Inr res \<longrightarrow> dget res ''previous_state'' = line_status line \<and>
             dget res ''new_state'' = VStr next_state \<and>
             (\<exists>db1. process_write M line_id
               (transition_update now next_state user_id reason (case metadata of None \<Rightarrow> [] | Some m \<Rightarrow> m))
               (py_str (crepr M) (py_or (dget line ''session_id'') (VStr []))) user_id db = (Inr (), db1)))
         else (\<exists>e. r = Inl (ValueError e)) \<and> db' = db))"
proof (cases "filter (match_filter (line_filter line_id)) (docs (cstore M) ''count_lines'' db)")
  case Nil
  with assms(2) document_store.find_one_run [OF assms(1), of "''count_lines''" "line_filter line_id" db]
  show ?thesis by (auto simp: transition_def run_simps)
next
  case (Cons line rest)
  show ?thesis
  proof (cases line)
    case Nil
    with Cons show ?thesis by simp
  next
    case (Cons p ps)
    with \<open>filter _ _ = line # rest\<close> assms(2) document_store.find_one_run [OF assms(1), of "''count_lines''" "line_filter line_id" db]
    have run: "transition_line M now line_id line next_state user_id user_role reason metadata db = (r, db')"
      by (simp add: transition_def bindM_run)
    show ?thesis
    proof (cases "can_transition (line_status line) (VStr next_state) user_role")
      case True
      have "dget res ''previous_state'' = line_status line \<and> dget res ''new_state'' = VStr next_state \<and>
             (\<exists>db1. process_write M line_id
               (transition_update now next_state user_id reason (case metadata of None \<Rightarrow> [] | Some m \<Rightarrow> m))
               (py_str (crepr M) (py_or (dget line ''session_id'') (VStr []))) user_id db = (Inr (), db1))"
        if "r = Inr res" for res
        using run [unfolded that] by (auto simp: transition_line_def Let_def run_iff dget_def)
      with True \<open>filter _ _ = line # rest\<close> show ?thesis by simp
    next
      case False
      with run \<open>filter _ _ = line # rest\<close> show ?thesis by (auto simp: transition_line_def Let_def run_simps)
    qed
  qed
qed

definition demo_machine :: "memdb count_machine" where
  "demo_machine = \<lparr>cstore = mem_store show_nat (\<lambda>_. False), crepr = (\<lambda>_. []),
     process_write = (\<lambda>i upd sid user. bindM (update_one (mem_store show_nat (\<lambda>_. False)) ''count_lines''
       (line_filter i) [(''$set'', VDict upd)]) (\<lambda>_. returnM ()))\<rparr>"

definition demo_line_db :: memdb where
  "demo_line_db = \<lparr>colls = (\<lambda>c. if c = ''count_lines''
     then [[(''id'', VStr ''l1''), (''status'', VStr ''pending_approval'')]] else []), next_id = 0\<rparr>"

lemma count_line_transition_guarded_witness:
  "\<exists>e. transition demo_machine 1 ''l1'' ''approved'' ''u'' ''staff'' VNone None demo_line_db =
     (Inl (ValueError e), demo_line_db)"
proof -
  let ?line = "[(''id'', VStr ''l1''), (''status'', VStr ''pending_approval'')]"
  obtain r db' where run: "transition demo_machine 1 ''l1'' ''approved'' ''u'' ''staff'' VNone None demo_line_db = (r, db')"
    by (cases "transition demo_machine 1 ''l1'' ''approved'' ''u'' ''staff'' VNone None demo_line_db")
  have s: "document_store (cstore demo_machine)" by (simp add: demo_machine_def document_store_mem)
  have f: "filter (match_filter (line_filter ''l1'')) (docs (cstore demo_machine) ''count_lines'' demo_line_db) = [?line]"
    by code_simp
  have c: "\<not> can_transition (line_status ?line) (VStr ''approved'') ''staff''" by code_simp
  from count_line_transition_guarded [OF s run, unfolded f] c run show ?thesis by auto
qed

text \<open>The legacy session machine respects the canonical one: a transition it permits never moves
  the canonical status backwards, and closed and cancelled sessions have no transition.\<close>

theorem legacy_machine_never_backwards:
  assumes "session_can_transition current_status next_status"
  shows "session_rank (normalize_session_status rp (VStr current_status)) \<le>
      session_rank (normalize_session_status rp (VStr next_status)) \<and>
    upper current_status \<notin> {''CLOSED'', ''CANCELLED''}"
proof -
  from assms obtain s t where st: "normalize_state current_status = Some s" "normalize_state next_status = Some t"
    "t \<in> set (SESSION_STATE_TRANSITIONS s)"
    by (auto simp: session_can_transition_def split: option.splits)
  have u: "upper v = session_state_value a \<and> v \<noteq> []" if "normalize_state v = Some a" for v a
    using that by (auto simp: normalize_state_def find_Some_iff split: if_splits)
  have n: "normalize_session_status rp (VStr v) = normalize_session_status (\<lambda>_. []) (VStr (session_state_value a))"
    if "normalize_state v = Some a" for v a
  proof -
    have "list_all (\<lambda>a. strip (session_state_value a) = session_state_value a \<and>
        upper (session_state_value a) = session_state_value a \<and> session_state_value a \<noteq> [])
      [S_OPEN, S_ACTIVE, S_PAUSED, S_RECONCILE, S_COMPLETED, S_CLOSED, S_CANCELLED]" by code_simp
    then have "strip (session_state_value a) = session_state_value a \<and>
        upper (session_state_value a) = session_state_value a \<and> session_state_value a \<noteq> []" by (cases a) simp_all
    moreover have "upper (strip v) = strip (upper v)" by (simp add: strip_upper)
    ultimately show ?thesis using u [OF that] by (simp add: normalize_session_status_def Let_def)
  qed
  have "list_all (\<lambda>s. list_all (\<lambda>t. session_rank (normalize_session_status (\<lambda>_. []) (VStr (session_state_value s))) \<le>
      session_rank (normalize_session_status (\<lambda>_. []) (VStr (session_state_value t)))) (SESSION_STATE_TRANSITIONS s))
      [S_OPEN, S_ACTIVE, S_PAUSED, S_RECONCILE, S_COMPLETED, S_CLOSED, S_CANCELLED]" by code_simp
  then have "session_rank (normalize_session_status (\<lambda>_. []) (VStr (session_state_value s))) \<le>
      session_rank (normalize_session_status (\<lambda>_. []) (VStr (session_state_value t)))"
    using st(3) by (cases s) (auto simp: list_all_iff)
  moreover have "session_state_value s \<notin> {''CLOSED'', ''CANCELLED''}"
    using st(3) by (cases s) simp_all
  ultimately show ?thesis using u [OF st(1)] by (simp add: n [OF st(1)] n [OF st(2)])
qed

lemma legacy_machine_never_backwards_witness:
  "session_can_transition ''active'' ''paused'' \<and> upper ''active'' \<notin> {''CLOSED'', ''CANCELLED''}"
proof -
  have "session_can_transition ''active'' ''paused''" by code_simp
  with legacy_machine_never_backwards [OF this] show ?thesis by simp
qed

end
