(* ===== verification/RackLocks.thy ===== *)
theory RackLocks
  imports CountStateMachine
begin

text \<open>
  \<open>backend/services/locking/redis_manager.py\<close>: the rack locks, heartbeats and session locks kept in
  Redis.

  Redis itself is a service outside the repository: its commands are the fields of the record
  \<open>redis\<close>, with the documented behaviour as the laws of the locale \<open>redis_server\<close>, which
  \<open>mem_redis\<close>, a keyspace with deadlines, satisfies. The Lua scripts of the source are functions
  over these commands; a script runs atomically. Times are milliseconds.

  A call over the network has three outcomes: it is answered, or the connection breaks before or
  after the server executed it. \<open>link n\<close> is the outcome of the \<open>n\<close>-th call of an operation.
\<close>

section \<open>The server\<close>

datatype rvalue = RStr string | RHash "(string \<times> string) list"

type_synonym rentry = "rvalue \<times> int option"

record 'r redis =
  r_get :: "int \<Rightarrow> string \<Rightarrow> 'r \<Rightarrow> string option"
  r_set :: "int \<Rightarrow> string \<Rightarrow> string \<Rightarrow> int option \<Rightarrow> bool \<Rightarrow> 'r \<Rightarrow> bool \<times> 'r"
  r_del :: "int \<Rightarrow> string \<Rightarrow> 'r \<Rightarrow> int \<times> 'r"
  r_exists :: "int \<Rightarrow> string \<Rightarrow> 'r \<Rightarrow> int"
  r_expire :: "int \<Rightarrow> string \<Rightarrow> int \<Rightarrow> 'r \<Rightarrow> int \<times> 'r"
  r_ttl :: "int \<Rightarrow> string \<Rightarrow> 'r \<Rightarrow> int"
  r_hset :: "int \<Rightarrow> string \<Rightarrow> string \<Rightarrow> string \<Rightarrow> 'r \<Rightarrow> 'r"
  r_hgetall :: "int \<Rightarrow> string \<Rightarrow> 'r \<Rightarrow> (string \<times> string) list"
  r_scan :: "int \<Rightarrow> int \<Rightarrow> string \<Rightarrow> 'r \<Rightarrow> int \<times> string list"

datatype link = Answered | Lost_before | Lost_after

definition call :: "link \<Rightarrow> ('r \<Rightarrow> 'a \<times> 'r) \<Rightarrow> ('r, 'a) comp" where
  "call l f = (\<lambda>s. case l of
     Answered \<Rightarrow> (Inr (fst (f s)), snd (f s))
   | Lost_before \<Rightarrow> (Inl (PyRuntimeError ''Connection lost''), s)
   | Lost_after \<Rightarrow> (Inl (PyRuntimeError ''Connection lost''), snd (f s)))"

definition ask :: "link \<Rightarrow> ('r \<Rightarrow> 'a) \<Rightarrow> ('r, 'a) comp" where
  "ask l f = call l (\<lambda>s. (f s, s))"

text \<open>\<open>try: m except Exception: return False\<close>\<close>

definition or_false :: "('r, bool) comp \<Rightarrow> ('r, bool) comp" where
  "or_false m = (\<lambda>s. case m s of (Inl _, t) \<Rightarrow> (Inr False, t) | r \<Rightarrow> r)"

section \<open>Rack locks\<close>

definition rack_key :: "string \<Rightarrow> string" where
  "rack_key rack_id = ''rack:lock:'' @ rack_id"

definition acquire_rack_lock :: "'r redis \<Rightarrow> (nat \<Rightarrow> link) \<Rightarrow> int \<Rightarrow> string \<Rightarrow> string \<Rightarrow> int \<Rightarrow> ('r, bool) comp" where
  "acquire_rack_lock R link now rack_id user_id ttl =
     or_false (bindM (call (link 0) (r_set R now (rack_key rack_id) user_id (Some ttl) True)) (\<lambda>acquired.
       if acquired then returnM True
       else bindM (ask (link 1) (r_get R now (rack_key rack_id))) (\<lambda>_. returnM False)))"

definition RELEASE_SCRIPT :: "'r redis \<Rightarrow> int \<Rightarrow> string \<Rightarrow> string \<Rightarrow> 'r \<Rightarrow> int \<times> 'r" where
  "RELEASE_SCRIPT R now key arg s = (if r_get R now key s = Some arg then r_del R now key s else (0, s))"

definition RENEW_SCRIPT :: "'r redis \<Rightarrow> int \<Rightarrow> string \<Rightarrow> string \<Rightarrow> int \<Rightarrow> 'r \<Rightarrow> int \<times> 'r" where
  "RENEW_SCRIPT R now key arg ttl s = (if r_get R now key s = Some arg then r_expire R now key ttl s else (0, s))"

definition release_rack_lock :: "'r redis \<Rightarrow> (nat \<Rightarrow> link) \<Rightarrow> int \<Rightarrow> string \<Rightarrow> string \<Rightarrow> ('r, bool) comp" where
  "release_rack_lock R link now rack_id user_id =
     or_false (bindM (call (link 0) (RELEASE_SCRIPT R now (rack_key rack_id) user_id)) (\<lambda>result.
       if result \<noteq> 0 then returnM True
       else bindM (ask (link 1) (r_get R now (rack_key rack_id))) (\<lambda>_. returnM False)))"

definition renew_rack_lock :: "'r redis \<Rightarrow> (nat \<Rightarrow> link) \<Rightarrow> int \<Rightarrow> string \<Rightarrow> string \<Rightarrow> int \<Rightarrow> ('r, bool) comp" where
  "renew_rack_lock R link now rack_id user_id ttl =
     or_false (bindM (call (link 0) (RENEW_SCRIPT R now (rack_key rack_id) user_id ttl)) (\<lambda>result.
       if result \<noteq> 0 then returnM True
       else bindM (ask (link 1) (r_get R now (rack_key rack_id))) (\<lambda>_. returnM False)))"

definition get_rack_lock_owner :: "'r redis \<Rightarrow> link \<Rightarrow> int \<Rightarrow> string \<Rightarrow> ('r, string option) comp" where
  "get_rack_lock_owner R l now rack_id = ask l (r_get R now (rack_key rack_id))"

definition get_rack_lock_ttl :: "'r redis \<Rightarrow> link \<Rightarrow> int \<Rightarrow> string \<Rightarrow> ('r, int) comp" where
  "get_rack_lock_ttl R l now rack_id = ask l (r_ttl R now (rack_key rack_id))"

definition is_rack_locked :: "'r redis \<Rightarrow> link \<Rightarrow> int \<Rightarrow> string \<Rightarrow> ('r, bool) comp" where
  "is_rack_locked R l now rack_id = bindM (ask l (r_exists R now (rack_key rack_id))) (\<lambda>n. returnM (n > 0))"

section \<open>Presence\<close>

definition heartbeat_key :: "string \<Rightarrow> string" where
  "heartbeat_key user_id = ''user:heartbeat:'' @ user_id"

definition update_user_heartbeat :: "'r redis \<Rightarrow> link \<Rightarrow> int \<Rightarrow> string \<Rightarrow> int \<Rightarrow> ('r, unit) comp" where
  "update_user_heartbeat R l now user_id ttl =
     bindM (call l (r_set R now (heartbeat_key user_id) (show_int (now div 1000)) (Some ttl) False)) (\<lambda>_. returnM ())"

definition get_user_heartbeat :: "'r redis \<Rightarrow> link \<Rightarrow> int \<Rightarrow> string \<Rightarrow> ('r, int option) comp" where
  "get_user_heartbeat R l now user_id =
     bindM (ask l (r_get R now (heartbeat_key user_id))) (\<lambda>value.
     if value = None \<or> value = Some [] then returnM None
     else bindM (liftM (to_int (VStr (the value)))) (\<lambda>n. returnM (Some n)))"

definition is_user_active :: "'r redis \<Rightarrow> link \<Rightarrow> int \<Rightarrow> string \<Rightarrow> ('r, bool) comp" where
  "is_user_active R l now user_id = bindM (ask l (r_exists R now (heartbeat_key user_id))) (\<lambda>n. returnM (n > 0))"

text \<open>
  The loops over \<open>scan\<close> run until the cursor is zero again; \<open>None\<close> means that the fuel ran out
  before. The argument \<open>p\<close> of \<open>r_scan\<close> stands for the pattern \<open>p*\<close>.
\<close>

fun scan_loop :: "'r redis \<Rightarrow> (nat \<Rightarrow> link) \<Rightarrow> int \<Rightarrow> string \<Rightarrow> nat \<Rightarrow> nat \<Rightarrow> int \<Rightarrow> string list \<Rightarrow> ('r, string list option) comp" where
  "scan_loop R link now p 0 i cursor keys = returnM None"
| "scan_loop R link now p (Suc fuel) i cursor keys =
     bindM (ask (link i) (r_scan R now cursor p)) (\<lambda>(cursor', batch).
     if cursor' = 0 then returnM (Some (keys @ batch)) else scan_loop R link now p fuel (Suc i) cursor' (keys @ batch))"

text \<open>\<open>s.replace(p, "")\<close>\<close>

function remove_all :: "string \<Rightarrow> string \<Rightarrow> string" where
  "remove_all p s =
     (if s = [] then []
      else if p \<noteq> [] \<and> take (length p) s = p then remove_all p (drop (length p) s)
      else hd s # remove_all p (tl s))"
  by pat_completeness auto
termination
  by (relation "measure (\<lambda>(p, s). length s)") auto

declare remove_all.simps [simp del]

definition get_active_users :: "'r redis \<Rightarrow> (nat \<Rightarrow> link) \<Rightarrow> int \<Rightarrow> nat \<Rightarrow> ('r, string list option) comp" where
  "get_active_users R link now fuel =
     bindM (scan_loop R link now ''user:heartbeat:'' fuel 0 0 []) (\<lambda>keys.
     returnM (map_option (map (remove_all ''user:heartbeat:'')) keys))"

section \<open>Session locks\<close>

definition redis_session_key :: "string \<Rightarrow> string" where
  "redis_session_key session_id = ''session:lock:'' @ session_id"

definition session_lock_data :: "int \<Rightarrow> string \<Rightarrow> string \<Rightarrow> (string \<times> string) list" where
  "session_lock_data now user_id rack_id =
     [(''user_id'', user_id), (''rack_id'', rack_id), (''created_at'', show_int (now div 1000))]"

definition SESSION_SCRIPT :: "'r redis \<Rightarrow> int \<Rightarrow> string \<Rightarrow> int \<Rightarrow> (string \<times> string) list \<Rightarrow> 'r \<Rightarrow> int \<times> 'r" where
  "SESSION_SCRIPT R now key ttl args s =
     (if r_exists R now key s = 1 then (0, s)
      else (1, snd (r_expire R now key ttl (foldl (\<lambda>t (f, v). r_hset R now key f v t) s args))))"

definition create_session_lock ::
  "'r redis \<Rightarrow> (nat \<Rightarrow> link) \<Rightarrow> int \<Rightarrow> string \<Rightarrow> string \<Rightarrow> string \<Rightarrow> int \<Rightarrow> ('r, bool) comp" where
  "create_session_lock R link now session_id user_id rack_id ttl =
     or_false (bindM (call (link 0) (SESSION_SCRIPT R now (redis_session_key session_id) ttl (session_lock_data now user_id rack_id)))
       (\<lambda>result. returnM (result \<noteq> 0)))"

definition get_session_data :: "'r redis \<Rightarrow> link \<Rightarrow> int \<Rightarrow> string \<Rightarrow> ('r, (string \<times> string) list option) comp" where
  "get_session_data R l now session_id =
     bindM (ask l (r_hgetall R now (redis_session_key session_id))) (\<lambda>d. returnM (if d = [] then None else Some d))"

definition delete_session :: "'r redis \<Rightarrow> link \<Rightarrow> int \<Rightarrow> string \<Rightarrow> ('r, bool) comp" where
  "delete_session R l now session_id =
     bindM (call l (r_del R now (redis_session_key session_id))) (\<lambda>n. returnM (n > 0))"

section \<open>Holding and cleaning up\<close>

text \<open>\<open>rack_lock\<close>: the body runs between the acquisition at \<open>now\<close> and the release at \<open>finish\<close>.\<close>

definition rack_lock ::
  "'r redis \<Rightarrow> (nat \<Rightarrow> link) \<Rightarrow> (nat \<Rightarrow> link) \<Rightarrow> int \<Rightarrow> int \<Rightarrow> string \<Rightarrow> string \<Rightarrow> int \<Rightarrow> ('r, 'a) comp \<Rightarrow> ('r, 'a) comp" where
  "rack_lock R link link' now finish rack_id user_id ttl body =
     bindM (acquire_rack_lock R link now rack_id user_id ttl) (\<lambda>acquired.
     bindM (raise_if (\<not> acquired) (PyRuntimeError (''Failed to acquire lock on rack '' @ rack_id))) (\<lambda>_.
     finallyM body (bindM (release_rack_lock R link' finish rack_id user_id) (\<lambda>_. returnM ()))))"

definition cleanup_expired_locks :: "'r redis \<Rightarrow> (nat \<Rightarrow> link) \<Rightarrow> int \<Rightarrow> nat \<Rightarrow> ('r, nat option) comp" where
  "cleanup_expired_locks R link now fuel =
     bindM (scan_loop R link now ''rack:lock:'' fuel 0 0 []) (\<lambda>keys. returnM (map_option length keys))"

fun release_batch :: "'r redis \<Rightarrow> (nat \<Rightarrow> link) \<Rightarrow> int \<Rightarrow> string \<Rightarrow> nat \<Rightarrow> string list \<Rightarrow> ('r, nat) comp" where
  "release_batch R link now user_id i [] = returnM 0"
| "release_batch R link now user_id i (key # keys) =
     bindM (ask (link i) (r_get R now key)) (\<lambda>owner.
     bindM (if owner = Some user_id then bindM (call (link (Suc i)) (r_del R now key)) (\<lambda>_. returnM 1) else returnM 0) (\<lambda>n.
     bindM (release_batch R link now user_id (i + 2) keys) (\<lambda>m. returnM (n + m))))"

fun force_release_loop :: "'r redis \<Rightarrow> (nat \<Rightarrow> nat \<Rightarrow> link) \<Rightarrow> int \<Rightarrow> string \<Rightarrow> nat \<Rightarrow> int \<Rightarrow> nat \<Rightarrow> ('r, nat option) comp" where
  "force_release_loop R link now user_id 0 cursor released = returnM None"
| "force_release_loop R link now user_id (Suc fuel) cursor released =
     bindM (ask (link fuel 0) (r_scan R now cursor ''rack:lock:'')) (\<lambda>(cursor', batch).
     bindM (release_batch R (link fuel) now user_id 1 batch) (\<lambda>n.
     if cursor' = 0 then returnM (Some (released + n))
     else force_release_loop R link now user_id fuel cursor' (released + n)))"

definition force_release_all_user_locks ::
  "'r redis \<Rightarrow> (nat \<Rightarrow> nat \<Rightarrow> link) \<Rightarrow> int \<Rightarrow> string \<Rightarrow> nat \<Rightarrow> ('r, nat option) comp" where
  "force_release_all_user_locks R link now user_id fuel = force_release_loop R link now user_id fuel 0 0"

section \<open>The laws of the server\<close>

text \<open>The entry of a key at a time: what the keyspace holds for it, unless its deadline has passed.\<close>

definition live :: "('r \<Rightarrow> string \<Rightarrow> rentry option) \<Rightarrow> int \<Rightarrow> 'r \<Rightarrow> string \<Rightarrow> rentry option" where
  "live view t s k =
     (case view s k of
        None \<Rightarrow> None
      | Some (v, d) \<Rightarrow> (case d of None \<Rightarrow> Some (v, None) | Some e \<Rightarrow> if t < e then Some (v, Some e) else None))"

definition aged :: "int \<Rightarrow> rentry option \<Rightarrow> rentry option" where
  "aged t x = (case x of Some (v, Some d) \<Rightarrow> if t < d then x else None | _ \<Rightarrow> x)"

fun scan_cursor :: "'r redis \<Rightarrow> int \<Rightarrow> string \<Rightarrow> 'r \<Rightarrow> nat \<Rightarrow> int" where
  "scan_cursor R now p s 0 = 0"
| "scan_cursor R now p s (Suc n) = fst (r_scan R now (scan_cursor R now p s n) p s)"

definition scanned :: "'r redis \<Rightarrow> int \<Rightarrow> string \<Rightarrow> 'r \<Rightarrow> nat \<Rightarrow> string list" where
  "scanned R now p s n = concat (map (\<lambda>i. snd (r_scan R now (scan_cursor R now p s i) p s)) [0..<n])"

locale redis_server =
  fixes R :: "'r redis" and view :: "'r \<Rightarrow> string \<Rightarrow> rentry option"
  assumes get_law: "(\<And>h d. live view now s k \<noteq> Some (RHash h, d)) \<Longrightarrow>
      r_get R now k s = (case live view now s k of Some (RStr v, _) \<Rightarrow> Some v | _ \<Rightarrow> None)"
    and set_law: "0 < ttl \<Longrightarrow> r_set R now k v (Some ttl) nx s = (b, s') \<Longrightarrow>
      b = (nx \<longrightarrow> live view now s k = None) \<and>
      (\<forall>t \<ge> now. \<forall>j. live view t s' j =
         (if b \<and> j = k then aged t (Some (RStr v, Some (now + ttl * 1000))) else live view t s j))"
    and del_law: "r_del R now k s = (c, s') \<Longrightarrow>
      c = (if live view now s k = None then 0 else 1) \<and>
      (\<forall>t \<ge> now. \<forall>j. live view t s' j = (if j = k then None else live view t s j))"
    and exists_law: "r_exists R now k s = (if live view now s k = None then 0 else 1)"
    and expire_law: "0 < ttl \<Longrightarrow> r_expire R now k ttl s = (c, s') \<Longrightarrow>
      c = (if live view now s k = None then 0 else 1) \<and>
      (\<forall>t \<ge> now. \<forall>j. live view t s' j =
         (if j = k then aged t (map_option (\<lambda>(v, _). (v, Some (now + ttl * 1000))) (live view now s k)) else live view t s j))"
    and hset_law: "t \<ge> now \<Longrightarrow> j \<noteq> k \<Longrightarrow> live view t (r_hset R now k f v s) j = live view t s j"
    and hset_new: "live view now s k = None \<Longrightarrow> live view now (r_hset R now k f v s) k = Some (RHash [(f, v)], None)"
    and hset_old: "live view now s k = Some (RHash h, d) \<Longrightarrow>
      live view now (r_hset R now k f v s) k = Some (RHash (AList.update f v h), d)"
    and hgetall_law: "live view now s k = Some (RHash h, d) \<Longrightarrow> r_hgetall R now k s = h"
    and scan_ends: "\<exists>n. scan_cursor R now p s (Suc n) = 0"
    and scan_complete: "scan_cursor R now p s (Suc n) = 0 \<Longrightarrow> live view now s k \<noteq> None \<Longrightarrow> take (length p) k = p \<Longrightarrow>
      k \<in> set (scanned R now p s (Suc n))"
begin

lemma live_later: "now \<le> t \<Longrightarrow> live view t s k = aged t (live view now s k)"
  by (auto simp: live_def aged_def split: option.splits)

end

section \<open>Runs\<close>

lemma or_false_snd: "snd (or_false m s) = snd (m s)"
  by (simp add: or_false_def split: prod.splits sum.splits)

lemma ask_snd [simp]: "snd (ask l f s) = s"
  by (simp add: ask_def call_def split: link.splits)

lemma call_snd: "snd (call l f s) = (if l = Lost_before then s else snd (f s))"
  by (simp add: call_def split: link.splits)

lemma keeps_ask: "keeps P (ask l f)"
  by (simp add: keeps_def ask_def call_def split: link.splits)

lemma call_then_ask:
  "snd (bindM (call l f) (\<lambda>x. if P x then returnM a else bindM (ask l' g) (\<lambda>_. returnM b)) s) =
   (if l = Lost_before then s else snd (f s))"
  by (auto simp: bindM_def call_def ask_def returnM_def split: link.splits)

lemma bind_return_snd: "snd (bindM m (\<lambda>x. returnM (f x)) s) = snd (m s)"
  by (simp add: bindM_def returnM_def split: prod.splits sum.splits)

lemma lock_op_states:
  "snd (acquire_rack_lock R link now rack u ttl s) =
     (if link 0 = Lost_before then s else snd (r_set R now (rack_key rack) u (Some ttl) True s))"
  "snd (release_rack_lock R link now rack u s) =
     (if link 0 = Lost_before then s else snd (RELEASE_SCRIPT R now (rack_key rack) u s))"
  "snd (renew_rack_lock R link now rack u ttl s) =
     (if link 0 = Lost_before then s else snd (RENEW_SCRIPT R now (rack_key rack) u ttl s))"
  "snd (update_user_heartbeat R l now u ttl s) =
     (if l = Lost_before then s else snd (r_set R now (heartbeat_key u) (show_int (now div 1000)) (Some ttl) False s))"
  "snd (create_session_lock R link now sid u rack ttl s) =
     (if link 0 = Lost_before then s else snd (SESSION_SCRIPT R now (redis_session_key sid) ttl (session_lock_data now u rack) s))"
  "snd (delete_session R l now sid s) = (if l = Lost_before then s else snd (r_del R now (redis_session_key sid) s))"
  unfolding acquire_rack_lock_def release_rack_lock_def renew_rack_lock_def update_user_heartbeat_def
    create_session_lock_def delete_session_def or_false_snd call_then_ask bind_return_snd call_snd
  by (rule refl)+

lemma lock_op_results:
  "fst (acquire_rack_lock R link now rack u ttl s) =
     Inr (link 0 = Answered \<and> fst (r_set R now (rack_key rack) u (Some ttl) True s))"
  "fst (release_rack_lock R link now rack u s) =
     Inr (link 0 = Answered \<and> fst (RELEASE_SCRIPT R now (rack_key rack) u s) \<noteq> 0)"
  "fst (renew_rack_lock R link now rack u ttl s) =
     Inr (link 0 = Answered \<and> fst (RENEW_SCRIPT R now (rack_key rack) u ttl s) \<noteq> 0)"
  by (auto simp: acquire_rack_lock_def release_rack_lock_def renew_rack_lock_def or_false_def bindM_def
      call_def ask_def returnM_def split: link.splits)

lemma rack_key_eq [simp]: "rack_key a = rack_key b \<longleftrightarrow> a = b"
  by (simp add: rack_key_def)

lemma rack_key_other [simp]: "heartbeat_key b \<noteq> rack_key a" "redis_session_key c \<noteq> rack_key a"
  by (simp_all add: rack_key_def heartbeat_key_def redis_session_key_def)

section \<open>The lease of a rack\<close>

text \<open>
  What a rack lock promises: a lease with an owner and a deadline, that is taken when there is
  none, and given back or prolonged by its owner only.
\<close>

type_synonym lease = "(string \<times> int) option"

definition lease_at :: "int \<Rightarrow> lease \<Rightarrow> lease" where
  "lease_at t l = (case l of None \<Rightarrow> None | Some (u, d) \<Rightarrow> if t < d then Some (u, d) else None)"

definition take_lease :: "int \<Rightarrow> string \<Rightarrow> int \<Rightarrow> lease \<Rightarrow> bool \<times> lease" where
  "take_lease now u ttl l = (if lease_at now l = None then (True, Some (u, now + ttl * 1000)) else (False, l))"

definition drop_lease :: "int \<Rightarrow> string \<Rightarrow> lease \<Rightarrow> bool \<times> lease" where
  "drop_lease now u l = (if map_option fst (lease_at now l) = Some u then (True, None) else (False, l))"

definition prolong_lease :: "int \<Rightarrow> string \<Rightarrow> int \<Rightarrow> lease \<Rightarrow> bool \<times> lease" where
  "prolong_lease now u ttl l =
     (if map_option fst (lease_at now l) = Some u then (True, Some (u, now + ttl * 1000)) else (False, l))"

definition lease_of :: "('r \<Rightarrow> string \<Rightarrow> rentry option) \<Rightarrow> int \<Rightarrow> 'r \<Rightarrow> string \<Rightarrow> lease" where
  "lease_of view t s rack = (case live view t s (rack_key rack) of Some (RStr u, Some d) \<Rightarrow> Some (u, d) | _ \<Rightarrow> None)"

text \<open>Rack keys hold texts with a deadline; no other kind of entry is ever written under them.\<close>

definition racks_typed :: "('r \<Rightarrow> string \<Rightarrow> rentry option) \<Rightarrow> int \<Rightarrow> 'r \<Rightarrow> bool" where
  "racks_typed view now s \<longleftrightarrow>
     (\<forall>rack. case live view now s (rack_key rack) of None \<Rightarrow> True | Some (RStr _, Some _) \<Rightarrow> True | _ \<Rightarrow> False)"

lemma racks_typedE:
  assumes "racks_typed view now s"
  obtains "live view now s (rack_key rack) = None" "lease_of view now s rack = None"
  | u d where "live view now s (rack_key rack) = Some (RStr u, Some d)" "lease_of view now s rack = Some (u, d)" "now < d"
proof -
  from assms have "case live view now s (rack_key rack) of None \<Rightarrow> True | Some (RStr _, Some _) \<Rightarrow> True | _ \<Rightarrow> False"
    by (simp add: racks_typed_def)
  then show thesis using that
    by (auto simp: lease_of_def split: option.splits rvalue.splits)
       (auto simp: live_def split: option.splits if_splits)
qed

context redis_server
begin

lemma rack_get: "racks_typed view now s \<Longrightarrow> r_get R now (rack_key rack) s = map_option fst (lease_of view now s rack)"
  by (erule racks_typedE [of view now s rack]; subst get_law; simp)

lemma lease_later:
  assumes "racks_typed view now s" "now \<le> t"
  shows "lease_of view t s rack = lease_at t (lease_of view now s rack)"
  using assms(1) by (rule racks_typedE [of view now s rack])
    (simp_all add: lease_of_def lease_at_def live_later [OF assms(2)] aged_def)

lemma lease_now: "racks_typed view now s \<Longrightarrow> lease_at now (lease_of view now s rack) = lease_of view now s rack"
  using lease_later [of now s now rack] by simp

lemma acquire_refines:
  assumes typed: "racks_typed view now s" and ttl: "0 < ttl"
    and run: "acquire_rack_lock R (\<lambda>_. Answered) now rack u ttl s = (r, s')" and t: "now \<le> t"
  shows "r = Inr (fst (take_lease now u ttl (lease_of view now s rack)))"
    and "lease_of view t s' rack = lease_at t (snd (take_lease now u ttl (lease_of view now s rack)))"
    and "rack' \<noteq> rack \<Longrightarrow> lease_of view t s' rack' = lease_of view t s rack'"
proof -
  obtain b q where q: "r_set R now (rack_key rack) u (Some ttl) True s = (b, q)" by fastforce
  from run have rs: "r = Inr b" "s' = q"
    using lock_op_results(1) [of R "\<lambda>_. Answered" now rack u ttl s] lock_op_states(1) [of R "\<lambda>_. Answered" now rack u ttl s] q
    by simp_all
  note law = set_law [OF ttl q]
  from typed have free: "live view now s (rack_key rack) = None \<longleftrightarrow> lease_of view now s rack = None"
    by (rule racks_typedE [of view now s rack]) simp_all
  show "r = Inr (fst (take_lease now u ttl (lease_of view now s rack)))"
    using law rs free lease_now [OF typed] by (simp add: take_lease_def)
  show "lease_of view t s' rack = lease_at t (snd (take_lease now u ttl (lease_of view now s rack)))"
    using law rs free t lease_later [OF typed t, of rack] lease_now [OF typed, of rack]
    by (auto simp: take_lease_def lease_of_def [of view t q] aged_def lease_at_def lease_of_def [of view t s])
  show "rack' \<noteq> rack \<Longrightarrow> lease_of view t s' rack' = lease_of view t s rack'"
    using law rs t by (simp add: lease_of_def)
qed

lemma release_refines:
  assumes typed: "racks_typed view now s"
    and run: "release_rack_lock R (\<lambda>_. Answered) now rack u s = (r, s')" and t: "now \<le> t"
  shows "r = Inr (fst (drop_lease now u (lease_of view now s rack)))"
    and "lease_of view t s' rack = lease_at t (snd (drop_lease now u (lease_of view now s rack)))"
    and "rack' \<noteq> rack \<Longrightarrow> lease_of view t s' rack' = lease_of view t s rack'"
proof -
  obtain n q where q: "RELEASE_SCRIPT R now (rack_key rack) u s = (n, q)" by fastforce
  from run have rs: "r = Inr (n \<noteq> 0)" "s' = q"
    using lock_op_results(2) [of R "\<lambda>_. Answered" now rack u s] lock_op_states(2) [of R "\<lambda>_. Answered" now rack u s] q
    by simp_all
  have own: "map_option fst (lease_of view now s rack) = Some u \<Longrightarrow> live view now s (rack_key rack) \<noteq> None"
    by (auto simp: lease_of_def split: option.splits)
  have "(n \<noteq> 0 \<longleftrightarrow> map_option fst (lease_of view now s rack) = Some u) \<and>
    (\<forall>k. live view t q k = (if n \<noteq> 0 \<and> k = rack_key rack then None else live view t s k))"
  proof (cases "map_option fst (lease_of view now s rack) = Some u")
    case True
    with q rack_get [OF typed] have "r_del R now (rack_key rack) s = (n, q)" by (simp add: RELEASE_SCRIPT_def)
    from del_law [OF this] own True t show ?thesis by auto
  next
    case False
    with q rack_get [OF typed] show ?thesis by (simp add: RELEASE_SCRIPT_def)
  qed
  note law = this
  show "r = Inr (fst (drop_lease now u (lease_of view now s rack)))"
    using law rs by (simp add: drop_lease_def lease_now [OF typed])
  show "lease_of view t s' rack = lease_at t (snd (drop_lease now u (lease_of view now s rack)))"
    using law rs lease_later [OF typed t, of rack] 
    by (simp add: drop_lease_def lease_now [OF typed] lease_of_def [of view t q] lease_of_def [of view t s] lease_at_def [of _ None])
  show "rack' \<noteq> rack \<Longrightarrow> lease_of view t s' rack' = lease_of view t s rack'"
    using law rs by (simp add: lease_of_def)
qed

lemma renew_refines:
  assumes typed: "racks_typed view now s" and ttl: "0 < ttl"
    and run: "renew_rack_lock R (\<lambda>_. Answered) now rack u ttl s = (r, s')" and t: "now \<le> t"
  shows "r = Inr (fst (prolong_lease now u ttl (lease_of view now s rack)))"
    and "lease_of view t s' rack = lease_at t (snd (prolong_lease now u ttl (lease_of view now s rack)))"
    and "rack' \<noteq> rack \<Longrightarrow> lease_of view t s' rack' = lease_of view t s rack'"
proof -
  obtain n q where q: "RENEW_SCRIPT R now (rack_key rack) u ttl s = (n, q)" by fastforce
  from run have rs: "r = Inr (n \<noteq> 0)" "s' = q"
    using lock_op_results(3) [of R "\<lambda>_. Answered" now rack u ttl s] lock_op_states(3) [of R "\<lambda>_. Answered" now rack u ttl s] q
    by simp_all
  have "(n \<noteq> 0 \<longleftrightarrow> map_option fst (lease_of view now s rack) = Some u) \<and>
    (\<forall>k. live view t q k = (if n \<noteq> 0 \<and> k = rack_key rack then aged t (Some (RStr u, Some (now + ttl * 1000))) else live view t s k))"
  proof (cases "map_option fst (lease_of view now s rack) = Some u")
    case True
    then have own: "\<exists>d. live view now s (rack_key rack) = Some (RStr u, Some d)"
      using typed by (auto elim!: racks_typedE [of view now s rack])
    from True q rack_get [OF typed] have "r_expire R now (rack_key rack) ttl s = (n, q)" by (simp add: RENEW_SCRIPT_def)
    from expire_law [OF ttl this] own True t show ?thesis by auto
  next
    case False
    with q rack_get [OF typed] show ?thesis by (simp add: RENEW_SCRIPT_def)
  qed
  note law = this
  show "r = Inr (fst (prolong_lease now u ttl (lease_of view now s rack)))"
    using law rs by (simp add: prolong_lease_def lease_now [OF typed])
  show "lease_of view t s' rack = lease_at t (snd (prolong_lease now u ttl (lease_of view now s rack)))"
    using law rs lease_later [OF typed t, of rack]
    by (simp add: prolong_lease_def lease_now [OF typed] lease_of_def [of view t q] lease_of_def [of view t s]
        lease_at_def [of t "Some (u, now + ttl * 1000)"] aged_def)
  show "rack' \<noteq> rack \<Longrightarrow> lease_of view t s' rack' = lease_of view t s rack'"
    using law rs by (simp add: lease_of_def)
qed

end

section \<open>Other clients\<close>

text \<open>
  What may happen while \<open>u\<close> holds a rack: time passes, anybody tries to take any rack, other
  users (or \<open>u\<close>, on other racks) release and renew, presence and session locks are written,
  and the locks of another user are released by force, each over a connection that may break.
\<close>

inductive other_step :: "'r redis \<Rightarrow> string \<Rightarrow> string \<Rightarrow> int \<times> 'r \<Rightarrow> int \<times> 'r \<Rightarrow> bool" for R rack u where
  tick: "t \<le> t' \<Longrightarrow> other_step R rack u (t, s) (t', s)"
| acquire: "0 < ttl \<Longrightarrow> other_step R rack u (t, s) (t, snd (acquire_rack_lock R link t rack' v ttl s))"
| release: "v \<noteq> u \<or> rack' \<noteq> rack \<Longrightarrow> other_step R rack u (t, s) (t, snd (release_rack_lock R link t rack' v s))"
| renew: "v \<noteq> u \<or> rack' \<noteq> rack \<Longrightarrow> 0 < ttl \<Longrightarrow> other_step R rack u (t, s) (t, snd (renew_rack_lock R link t rack' v ttl s))"
| heartbeat: "0 < ttl \<Longrightarrow> other_step R rack u (t, s) (t, snd (update_user_heartbeat R l t v ttl s))"
| session: "0 < ttl \<Longrightarrow> other_step R rack u (t, s) (t, snd (create_session_lock R link t sid v rack' ttl s))"
| end_session: "other_step R rack u (t, s) (t, snd (delete_session R l t sid s))"
| force: "v \<noteq> u \<Longrightarrow> other_step R rack u (t, s) (t, snd (force_release_all_user_locks R links t v fuel s))"

context redis_server
begin

abbreviation held :: "string \<Rightarrow> string \<Rightarrow> int \<Rightarrow> int \<Rightarrow> 'r \<Rightarrow> bool" where
  "held rack u d t s \<equiv> live view t s (rack_key rack) = Some (RStr u, Some d)"

lemma held_get: "held rack u d t s \<Longrightarrow> r_get R t (rack_key rack) s = Some u"
  by (simp add: get_law)

lemma held_set:
  "held rack u d t s \<Longrightarrow> 0 < ttl \<Longrightarrow> nx \<or> k \<noteq> rack_key rack \<Longrightarrow> held rack u d t (snd (r_set R t k v (Some ttl) nx s))"
  using set_law [of ttl t k v nx s "fst (r_set R t k v (Some ttl) nx s)" "snd (r_set R t k v (Some ttl) nx s)"] by auto

lemma held_del: "held rack u d t s \<Longrightarrow> k \<noteq> rack_key rack \<Longrightarrow> held rack u d t (snd (r_del R t k s))"
  using del_law [of t k s "fst (r_del R t k s)" "snd (r_del R t k s)"] by auto

lemma held_expire: "held rack u d t s \<Longrightarrow> 0 < ttl \<Longrightarrow> k \<noteq> rack_key rack \<Longrightarrow> held rack u d t (snd (r_expire R t k ttl s))"
  using expire_law [of ttl t k s "fst (r_expire R t k ttl s)" "snd (r_expire R t k ttl s)"] by auto

lemma held_hsets:
  "held rack u d t s \<Longrightarrow> k \<noteq> rack_key rack \<Longrightarrow> held rack u d t (foldl (\<lambda>s (f, v). r_hset R t k f v s) s args)"
  by (induction args arbitrary: s) (auto simp: hset_law)

lemma held_release:
  assumes "held rack u d t s" "v \<noteq> u \<or> k \<noteq> rack_key rack"
  shows "held rack u d t (snd (RELEASE_SCRIPT R t k v s))"
proof (cases "k = rack_key rack")
  case True
  with assms held_get [OF assms(1)] show ?thesis by (simp add: RELEASE_SCRIPT_def)
qed (use assms(1) held_del in \<open>auto simp: RELEASE_SCRIPT_def\<close>)

lemma held_renew:
  assumes "held rack u d t s" "v \<noteq> u \<or> k \<noteq> rack_key rack" "0 < ttl"
  shows "held rack u d t (snd (RENEW_SCRIPT R t k v ttl s))"
proof (cases "k = rack_key rack")
  case True
  with assms held_get [OF assms(1)] show ?thesis by (simp add: RENEW_SCRIPT_def)
qed (use assms(1,3) held_expire in \<open>auto simp: RENEW_SCRIPT_def\<close>)

lemma keeps_owned_del:
  assumes "v \<noteq> u" "\<And>n. keeps (\<lambda>s. held rack u d t s) (f n)"
  shows "keeps (\<lambda>s. held rack u d t s) (bindM (ask l (r_get R t k)) (\<lambda>owner.
    bindM (if owner = Some v then bindM (call l' (r_del R t k)) (\<lambda>_. returnM 1) else returnM 0) f))"
proof (rule keepsI)
  fix s r s'
  assume held: "held rack u d t s"
    and run: "bindM (ask l (r_get R t k)) (\<lambda>owner.
      bindM (if owner = Some v then bindM (call l' (r_del R t k)) (\<lambda>_. returnM 1) else returnM 0) f) s = (r, s')"
  have del: "held rack u d t (snd (r_del R t k s))" if "r_get R t k s = Some v"
  proof -
    from that assms(1) held_get [OF held] have "k \<noteq> rack_key rack" by auto
    with held show ?thesis by (rule held_del)
  qed
  have next_held: "held rack u d t s'" if "f n q = (r, s')" "held rack u d t q" for n q
    using keepsD [OF assms(2) that(2,1)] .
  from run held del next_held show "held rack u d t s'"
    by (auto simp: ask_def call_def bindM_def returnM_def split: link.splits if_splits)
qed

lemma keeps_batch:
  assumes "v \<noteq> u"
  shows "keeps (held rack u d t) (release_batch R link t v i keys)"
proof (induction keys arbitrary: i)
  case (Cons k keys)
  show ?case
    unfolding release_batch.simps by (rule keeps_owned_del [OF assms]) (intro keeps_intros Cons)
qed (simp add: keeps_intros)

lemma keeps_force:
  assumes "v \<noteq> u"
  shows "keeps (held rack u d t) (force_release_loop R links t v fuel cursor released)"
proof (induction fuel arbitrary: cursor released)
  case (Suc fuel)
  then show ?case
    unfolding force_release_loop.simps
    by (auto intro!: keeps_intros keeps_ask keeps_batch [OF assms] simp del: release_batch.simps)
qed (simp add: keeps_intros)

lemma step_keeps_held:
  assumes "held rack u d t s" "other_step R rack u (t, s) (t', s')" "t' < d"
  shows "held rack u d t' s'"
  using assms(2)
proof cases
  case tick
  with assms(1,3) live_later [of t t' s "rack_key rack"] show ?thesis by (simp add: aged_def)
next
  case (force v links fuel)
  from keepsD [OF keeps_force [OF force(3)] assms(1)] force show ?thesis
    by (simp add: force_release_all_user_locks_def) (metis prod.collapse)
next
  case (acquire ttl link rack' v)
  with assms(1) held_set [OF assms(1)] show ?thesis by (simp add: lock_op_states)
next
  case (release v rack' link)
  with assms(1) held_release [OF assms(1), of v "rack_key rack'"] show ?thesis by (simp add: lock_op_states)
next
  case (renew v rack' ttl link)
  with assms(1) held_renew [OF assms(1), of v "rack_key rack'" ttl] show ?thesis by (simp add: lock_op_states)
next
  case (heartbeat ttl l v)
  with assms(1) held_set [OF assms(1)] show ?thesis by (simp add: lock_op_states)
next
  case (session ttl link sid v rack')
  with assms(1) show ?thesis
    by (auto simp: lock_op_states SESSION_SCRIPT_def intro!: held_expire held_hsets)
next
  case (end_session l sid)
  with assms(1) held_del [OF assms(1)] show ?thesis by (simp add: lock_op_states)
qed

lemma held_throughout:
  assumes "(other_step R rack u)\<^sup>*\<^sup>* (now, s) (t, s')" "held rack u d now s" "t < d"
  shows "held rack u d t s'"
proof -
  have "fst x < d \<longrightarrow> held rack u d (fst x) (snd x)" if "(other_step R rack u)\<^sup>*\<^sup>* (now, s) x" for x
    using that
  proof (induction rule: rtranclp_induct)
    case (step y z)
    obtain t0 s0 t1 s1 where yz: "y = (t0, s0)" "z = (t1, s1)" by (cases y, cases z)
    from step(2) yz have "t0 \<le> t1" by (auto elim: other_step.cases)
    have "held rack u d t1 s1" if "t1 < d"
      by (rule step_keeps_held [where t = t0 and s = s0]) (use step(2,3) that yz \<open>t0 \<le> t1\<close> in simp_all)
    with yz show ?case by simp
  qed (use assms(2) in simp)
  from this [OF assms(1)] assms(3) show ?thesis by simp
qed

lemma acquired_held:
  assumes "acquire_rack_lock R link now rack u ttl s = (Inr True, s')" "0 < ttl"
  shows "held rack u (now + ttl * 1000) now s'"
proof -
  obtain b q where q: "r_set R now (rack_key rack) u (Some ttl) True s = (b, q)" by fastforce
  from assms(1) q lock_op_results(1) [of R link now rack u ttl s] lock_op_states(1) [of R link now rack u ttl s]
  have "b" "s' = q" by (auto split: if_splits)
  with set_law [OF assms(2) q] assms(2) show ?thesis by (simp add: aged_def)
qed

lemma held_excludes:
  assumes "held rack u d t s" "0 < ttl"
  shows "fst (acquire_rack_lock R link t rack v ttl s) = Inr False"
proof -
  obtain b q where q: "r_set R t (rack_key rack) v (Some ttl) True s = (b, q)" by fastforce
  from set_law [OF assms(2) q] assms(1) have "\<not> b" by simp
  with q show ?thesis by (simp add: lock_op_results)
qed

lemma scan_step:
  "r_scan R now cursor p s = (c, batch) \<Longrightarrow> scan_loop R (\<lambda>_. Answered) now p (Suc fuel) i cursor keys s =
     (if c = 0 then (Inr (Some (keys @ batch)), s) else scan_loop R (\<lambda>_. Answered) now p fuel (Suc i) c (keys @ batch) s)"
  by (simp add: ask_def call_def run_simps)

lemma active_users_found:
  "\<exists>fuel us. get_active_users R (\<lambda>_. Answered) now fuel s = (Inr (Some us), s) \<and>
     (\<forall>u. live view now s (heartbeat_key u) \<noteq> None \<longrightarrow> remove_all ''user:heartbeat:'' (heartbeat_key u) \<in> set us)"
proof -
  let ?p = "''user:heartbeat:''"
  define n where "n = (LEAST n. scan_cursor R now ?p s (Suc n) = 0)"
  have n: "scan_cursor R now ?p s (Suc n) = 0" unfolding n_def by (rule LeastI_ex) (rule scan_ends)
  have less: "scan_cursor R now ?p s (Suc i) \<noteq> 0" if "i < n" for i using that not_less_Least unfolding n_def by blast
  have loop: "scan_loop R (\<lambda>_. Answered) now ?p (Suc (n - i)) i (scan_cursor R now ?p s i) (scanned R now ?p s i) s =
      (Inr (Some (scanned R now ?p s (Suc n))), s)" if "i \<le> n" for i
    using that
  proof (induction "n - i" arbitrary: i)
    case 0
    then have "i = n" by simp
    with n show ?case
      by (cases "r_scan R now (scan_cursor R now ?p s n) ?p s") (simp add: scan_step scanned_def del: scan_loop.simps)
  next
    case (Suc m)
    then have i: "i < n" "Suc i \<le> n" "m = n - Suc i" "n - i = Suc (n - Suc i)" by simp_all
    obtain c batch where scan: "r_scan R now (scan_cursor R now ?p s i) ?p s = (c, batch)" by fastforce
    with less [OF i(1)] have "c \<noteq> 0" "scan_cursor R now ?p s (Suc i) = c"
      "scanned R now ?p s (Suc i) = scanned R now ?p s i @ batch" by (simp_all add: scanned_def)
    with Suc(1) [OF i(3,2)] show ?case unfolding i(4) scan_step [OF scan] by simp
  qed
  have "get_active_users R (\<lambda>_. Answered) now (Suc n) s = (Inr (Some (map (remove_all ?p) (scanned R now ?p s (Suc n)))), s)"
    using loop [of 0] by (simp add: get_active_users_def run_simps scanned_def)
  moreover have "heartbeat_key u \<in> set (scanned R now ?p s (Suc n))" if "live view now s (heartbeat_key u) \<noteq> None" for u
    using scan_complete [OF n that] by (simp add: heartbeat_key_def)
  ultimately show ?thesis by (intro exI conjI) (assumption, simp)
qed

end

section \<open>A server\<close>

type_synonym keyspace = "(string \<times> rentry) list"

definition mem_redis :: "keyspace redis" where
  "mem_redis =
     \<lparr>r_get = (\<lambda>now k s. case live map_of now s k of Some (RStr v, _) \<Rightarrow> Some v | _ \<Rightarrow> None),
      r_set = (\<lambda>now k v ex nx s.
        if nx \<and> live map_of now s k \<noteq> None then (False, s)
        else (True, AList.update k (RStr v, map_option (\<lambda>e. now + e * 1000) ex) s)),
      r_del = (\<lambda>now k s. (if live map_of now s k = None then 0 else 1, AList.delete k s)),
      r_exists = (\<lambda>now k s. if live map_of now s k = None then 0 else 1),
      r_expire = (\<lambda>now k ttl s. case live map_of now s k of
          None \<Rightarrow> (0, s)
        | Some (v, _) \<Rightarrow> (1, AList.update k (v, Some (now + ttl * 1000)) s)),
      r_ttl = (\<lambda>now k s. case live map_of now s k of
          None \<Rightarrow> - 2
        | Some (_, None) \<Rightarrow> - 1
        | Some (_, Some d) \<Rightarrow> (d - now) div 1000),
      r_hset = (\<lambda>now k f v s. case live map_of now s k of
          None \<Rightarrow> AList.update k (RHash [(f, v)], None) s
        | Some (RHash h, d) \<Rightarrow> AList.update k (RHash (AList.update f v h), d) s
        | Some (RStr _, _) \<Rightarrow> s),
      r_hgetall = (\<lambda>now k s. case live map_of now s k of Some (RHash h, _) \<Rightarrow> h | _ \<Rightarrow> []),
      r_scan = (\<lambda>now c p s. (0, filter (\<lambda>k. live map_of now s k \<noteq> None \<and> take (length p) k = p) (map fst s)))\<rparr>"

lemma live_update: "live map_of t (AList.update k (v, d) s) j = (if j = k then aged t (Some (v, d)) else live map_of t s j)"
  by (auto simp: live_def aged_def update_conv' split: option.splits)

lemma live_delete: "live map_of t (AList.delete k s) j = (if j = k then None else live map_of t s j)"
  by (simp add: live_def delete_conv')

lemma live_none_later: "now \<le> t \<Longrightarrow> live view now s k = None \<Longrightarrow> live view t s k = None"
  by (auto simp: live_def split: option.splits if_splits)

lemma live_aged: "live view t s k = Some x \<Longrightarrow> aged t (Some x) = Some x"
  by (auto simp: live_def aged_def split: option.splits if_splits)

lemma live_key: "live map_of now s k \<noteq> None \<Longrightarrow> k \<in> fst ` set s"
  by (auto simp: live_def split: option.splits dest: map_of_SomeD intro: rev_image_eqI)

interpretation mem_server: redis_server mem_redis map_of
proof unfold_locales
  fix ttl now k v nx and s :: keyspace and b s' assume "0 < ttl" "r_set mem_redis now k v (Some ttl) nx s = (b, s')"
  then show "b = (nx \<longrightarrow> live map_of now s k = None) \<and> (\<forall>t \<ge> now. \<forall>j. live map_of t s' j =
      (if b \<and> j = k then aged t (Some (RStr v, Some (now + ttl * 1000))) else live map_of t s j))"
    by (cases "live map_of now s k") (auto simp: mem_redis_def live_update split: if_splits)
next
  fix now k and s :: keyspace and c s' assume "r_del mem_redis now k s = (c, s')"
  then show "c = (if live map_of now s k = None then 0 else 1) \<and>
      (\<forall>t \<ge> now. \<forall>j. live map_of t s' j = (if j = k then None else live map_of t s j))"
    by (auto simp: mem_redis_def live_delete)
next
  fix ttl now k and s :: keyspace and c s' assume "0 < ttl" "r_expire mem_redis now k ttl s = (c, s')"
  then show "c = (if live map_of now s k = None then 0 else 1) \<and> (\<forall>t \<ge> now. \<forall>j. live map_of t s' j =
      (if j = k then aged t (map_option (\<lambda>(v, _). (v, Some (now + ttl * 1000))) (live map_of now s k)) else live map_of t s j))"
    by (auto simp: mem_redis_def live_update live_none_later aged_def [of _ None] split: option.splits)
next
  fix now p and s :: keyspace show "\<exists>n. scan_cursor mem_redis now p s (Suc n) = 0"
    by (simp add: mem_redis_def)
next
  fix now p and s :: keyspace and n k
  assume "live map_of now s k \<noteq> None" "take (length p) k = p"
  with live_key show "k \<in> set (scanned mem_redis now p s (Suc n))"
    by (fastforce simp: scanned_def mem_redis_def)
next
  fix now and s :: keyspace and k f v assume "live map_of now s k = None"
  then show "live map_of now (r_hset mem_redis now k f v s) k = Some (RHash [(f, v)], None)"
    by (simp add: mem_redis_def live_update aged_def)
next
  fix now and s :: keyspace and k h d f v assume a: "live map_of now s k = Some (RHash h, d)"
  then have "now < e" if "d = Some e" for e using that by (auto simp: live_def split: option.splits if_splits)
  with a show "live map_of now (r_hset mem_redis now k f v s) k = Some (RHash (AList.update f v h), d)"
    by (cases d) (simp_all add: mem_redis_def live_update aged_def)
qed (auto simp: mem_redis_def live_update split: option.splits rvalue.splits)

section \<open>Properties\<close>

text \<open>(C31) Rack locks implement leases: over a working connection acquiring, releasing and renewing a
  rack answer what the lease answers, leave the rack with the lease it results in, at every later
  time, and leave the other racks alone.\<close>

theorem rack_lock_implements_lease:
  assumes "redis_server R view" "racks_typed view now s" "0 < ttl" "now \<le> t" "rack' \<noteq> rack"
  shows "let l = lease_of view now s rack; (r1, s1) = acquire_rack_lock R (\<lambda>_. Answered) now rack u ttl s;
      (r2, s2) = release_rack_lock R (\<lambda>_. Answered) now rack u s; (r3, s3) = renew_rack_lock R (\<lambda>_. Answered) now rack u ttl s in
    r1 = Inr (fst (take_lease now u ttl l)) \<and> lease_of view t s1 rack = lease_at t (snd (take_lease now u ttl l)) \<and>
    r2 = Inr (fst (drop_lease now u l)) \<and> lease_of view t s2 rack = lease_at t (snd (drop_lease now u l)) \<and>
    r3 = Inr (fst (prolong_lease now u ttl l)) \<and> lease_of view t s3 rack = lease_at t (snd (prolong_lease now u ttl l)) \<and>
    (\<forall>q \<in> {s1, s2, s3}. lease_of view t q rack' = lease_of view t s rack')"
proof -
  obtain r1 s1 r2 s2 r3 s3 where runs: "acquire_rack_lock R (\<lambda>_. Answered) now rack u ttl s = (r1, s1)"
    "release_rack_lock R (\<lambda>_. Answered) now rack u s = (r2, s2)" "renew_rack_lock R (\<lambda>_. Answered) now rack u ttl s = (r3, s3)"
    by (metis surj_pair)
  from redis_server.acquire_refines [OF assms(1-3) runs(1) assms(4)] redis_server.release_refines [OF assms(1,2) runs(2) assms(4)]
    redis_server.renew_refines [OF assms(1-3) runs(3) assms(4)] assms(5) show ?thesis
    by (simp add: runs Let_def)
qed


text \<open>Listing the active users ends, and finds everybody whose heartbeat is alive.\<close>

theorem active_users_complete:
  assumes "redis_server R view"
  shows "\<exists>fuel us. get_active_users R (\<lambda>_. Answered) now fuel s = (Inr (Some us), s) \<and>
     (\<forall>u. live view now s (heartbeat_key u) \<noteq> None \<longrightarrow> remove_all ''user:heartbeat:'' (heartbeat_key u) \<in> set us)"
  by (rule redis_server.active_users_found [OF assms])

section \<open>Examples\<close>

theorem rack_lock_implements_lease_witness:
  "lease_of map_of 59999 (snd (acquire_rack_lock mem_redis (\<lambda>_. Answered) 0 ''R1'' ''u1'' 60 [])) ''R1'' = Some (''u1'', 60000)"
proof -
  have typed: "racks_typed map_of 0 ([] :: keyspace)" by (simp add: racks_typed_def live_def)
  have "take_lease 0 ''u1'' 60 (lease_of map_of 0 ([] :: keyspace) ''R1'') = (True, Some (''u1'', 60000))"
    "lease_at 59999 (Some (''u1'', 60000)) = Some (''u1'', 60000)"
    by (simp_all add: take_lease_def lease_of_def live_def lease_at_def)
  with rack_lock_implements_lease [OF mem_server.redis_server_axioms typed, of 60 59999 "''R2''" "''R1''" "''u1''"] show ?thesis
    by (simp add: Let_def split: prod.splits)
qed


theorem active_users_complete_witness:
  "\<exists>fuel us. get_active_users mem_redis (\<lambda>_. Answered) 0 fuel [(''user:heartbeat:u1'', (RStr ''0'', Some 90000))] =
      (Inr (Some us), [(''user:heartbeat:u1'', (RStr ''0'', Some 90000))]) \<and> ''u1'' \<in> set us"
proof -
  let ?s = "[(''user:heartbeat:u1'', (RStr ''0'', Some 90000))]"
  have "live map_of 0 ?s (heartbeat_key ''u1'') \<noteq> None" by (simp add: live_def heartbeat_key_def)
  moreover have "remove_all ''user:heartbeat:'' (heartbeat_key ''u1'') = ''u1''" by code_simp
  ultimately show ?thesis using active_users_complete [OF mem_server.redis_server_axioms, of 0 ?s] by metis
qed

end
