(* ===== verification/RackApi.thy ===== *)
theory RackApi
  imports RackLocks
begin

text \<open>
  \<open>backend/api/rack_api.py\<close>: claiming, releasing, pausing and resuming a rack. The routes run on the
  database and on Redis together. The publication of an update is a parameter, the error it raises
  if any; so is the text of an exception. The two listings of racks and floors are left out.
\<close>

section \<open>The service\<close>

record ('db, 'r) rack_service =
  rstore :: "'db store"
  rrepr :: repr
  rredis :: "'r redis"
  publish :: "string \<Rightarrow> doc \<Rightarrow> py_error option"
  exception_text :: "py_error \<Rightarrow> string"

definition clock_time :: "int \<Rightarrow> val" where
  "clock_time now = VFloat (of_int now / 1000)"

definition by_rack :: "string \<Rightarrow> query" where
  "by_rack rack_id = [(''rack_id'', CEq (VStr rack_id))]"

definition new_rack :: "int \<Rightarrow> string \<Rightarrow> string \<Rightarrow> doc" where
  "new_rack now rack_id floor_name =
     [(''rack_id'', VStr rack_id), (''floor'', VStr floor_name), (''status'', VStr ''available''), (''claimed_by'', VNone),
      (''session_id'', VNone), (''lock_expires_at'', VNone), (''created_at'', clock_time now), (''updated_at'', clock_time now)]"

definition get_or_create_rack :: "('db, 'r) rack_service \<Rightarrow> int \<Rightarrow> string \<Rightarrow> string \<Rightarrow> ('db, doc) comp" where
  "get_or_create_rack A now rack_id floor_name =
     bindM (find_one (rstore A) ''rack_registry'' (by_rack rack_id)) (\<lambda>found.
     case found of
       Some (x # xs) \<Rightarrow> returnM (x # xs)
     | _ \<Rightarrow> bindM (insert_one (rstore A) ''rack_registry'' (new_rack now rack_id floor_name)) (\<lambda>i.
         returnM (dset_default ''_id'' i (new_rack now rack_id floor_name))))"

definition rack_status_fields :: "int \<Rightarrow> string \<Rightarrow> val \<Rightarrow> val \<Rightarrow> val \<Rightarrow> doc" where
  "rack_status_fields now status claimed_by session_id lock_expires_at =
     [(''status'', VStr status), (''claimed_by'', claimed_by), (''session_id'', session_id),
      (''lock_expires_at'', lock_expires_at), (''updated_at'', clock_time now)]"

definition update_rack_status ::
  "('db, 'r) rack_service \<Rightarrow> int \<Rightarrow> string \<Rightarrow> string \<Rightarrow> val \<Rightarrow> val \<Rightarrow> val \<Rightarrow> ('db, unit) comp" where
  "update_rack_status A now rack_id status claimed_by session_id lock_expires_at =
     bindM (update_one (rstore A) ''rack_registry'' (by_rack rack_id)
       [(''$set'', VDict (rack_status_fields now status claimed_by session_id lock_expires_at))]) (\<lambda>_. returnM ())"

definition forbidden_direct_write :: "string \<Rightarrow> py_error" where
  "forbidden_direct_write operation =
     GovernanceViolation (''CRITICAL: Direct DB write forbidden ('' @ operation @ ''). Use domain service.'')"

definition publish_rack_update :: "('db, 'r) rack_service \<Rightarrow> string \<Rightarrow> string \<Rightarrow> doc \<Rightarrow> ('s, unit) comp" where
  "publish_rack_update A rack_id event data =
     liftM (case publish A (''rack:updates:'' @ rack_id)
         [(''event'', VStr event), (''rack_id'', VStr rack_id), (''data'', VDict data)] of
       None \<Rightarrow> Inr () | Some e \<Rightarrow> Inl e)"

section \<open>Claiming\<close>

text \<open>The session of a claim, written after the direct write that the guard forbids.\<close>

definition open_claim ::
  "('db, 'r) rack_service \<Rightarrow> (nat \<Rightarrow> link) \<Rightarrow> int \<Rightarrow> string \<Rightarrow> string \<Rightarrow> string \<Rightarrow> ('db \<times> 'r, doc) comp" where
  "open_claim A link now rack_id user floor_name =
     (let sid = ''session_'' @ user @ ''_'' @ rack_id @ ''_'' @ show_int (now div 1000) in
      bindM (raiseM (forbidden_direct_write ''rack_api.claim_rack.verification_sessions_insert'')) (\<lambda>_ :: unit.
      bindM (on_snd (create_session_lock (rredis A) link now sid user rack_id 3600)) (\<lambda>_.
      bindM (on_fst (update_rack_status A now rack_id ''active'' (VStr user) (VStr sid) (clock_time (now + 60 * 1000)))) (\<lambda>_.
      bindM (publish_rack_update A rack_id ''claimed''
        [(''user_id'', VStr user), (''session_id'', VStr sid), (''floor'', VStr floor_name)]) (\<lambda>_.
      returnM [(''success'', VBool True), (''rack_id'', VStr rack_id), (''session_id'', VStr sid), (''floor'', VStr floor_name),
        (''lock_ttl'', VInt 60), (''message'', VStr (''Rack '' @ rack_id @ '' claimed successfully''))])))))"

definition claim_or_release ::
  "('db, 'r) rack_service \<Rightarrow> (nat \<Rightarrow> link) \<Rightarrow> (nat \<Rightarrow> link) \<Rightarrow> int \<Rightarrow> string \<Rightarrow> string \<Rightarrow> string \<Rightarrow> ('db \<times> 'r, doc) comp" where
  "claim_or_release A link link' now rack_id user floor_name = (\<lambda>s.
     case open_claim A link now rack_id user floor_name s of
       (Inr x, t) \<Rightarrow> (Inr x, t)
     | (Inl e, t) \<Rightarrow>
         bindM (on_snd (release_rack_lock (rredis A) link' now rack_id user)) (\<lambda>_.
         raiseM (HTTPException 500 (''Failed to claim rack: '' @ exception_text A e))) t)"

text \<open>\<open>links i\<close> is the connection of the \<open>i\<close>-th operation on Redis.\<close>

definition claim_rack ::
  "('db, 'r) rack_service \<Rightarrow> (nat \<Rightarrow> nat \<Rightarrow> link) \<Rightarrow> int \<Rightarrow> string \<Rightarrow> string \<Rightarrow> doc \<Rightarrow> ('db \<times> 'r, doc) comp" where
  "claim_rack A links now rack_id floor_name current_user =
     bindM (liftM (ditem current_user ''username'')) (\<lambda>username.
     let user = py_str (rrepr A) username in
     bindM (on_fst (get_or_create_rack A now rack_id floor_name)) (\<lambda>rack.
     bindM (liftM (ditem rack ''status'')) (\<lambda>status.
     bindM (raise_if (\<not> py_in status [VStr ''available'', VStr ''paused''])
       (HTTPException 409 (''Rack '' @ rack_id @ '' is not available (status: '' @ py_str (rrepr A) status @ '')''))) (\<lambda>_.
     bindM (on_snd (acquire_rack_lock (rredis A) (links 0) now rack_id user 60)) (\<lambda>acquired.
     if acquired then claim_or_release A (links 1) (links 2) now rack_id user floor_name
     else bindM (on_snd (get_rack_lock_owner (rredis A) (links 1 0) now rack_id)) (\<lambda>owner.
          raiseM (HTTPException 409 (''Rack '' @ rack_id @ '' is locked by '' @
            (case owner of None \<Rightarrow> ''None'' | Some o' \<Rightarrow> o')))))))))"

section \<open>Working on a claimed rack\<close>

definition claimed_rack :: "('db, 'r) rack_service \<Rightarrow> string \<Rightarrow> doc \<Rightarrow> ('db, doc \<times> string) comp" where
  "claimed_rack A rack_id current_user =
     bindM (liftM (ditem current_user ''username'')) (\<lambda>username.
     bindM (find_one (rstore A) ''rack_registry'' (by_rack rack_id)) (\<lambda>found.
     bindM (raise_if (found = None \<or> found = Some []) (HTTPException 404 (''Rack '' @ rack_id @ '' not found''))) (\<lambda>_.
     bindM (liftM (ditem (the found) ''claimed_by'')) (\<lambda>claimed_by.
     bindM (raise_if (\<not> py_eq claimed_by username) (HTTPException 403 (''Rack '' @ rack_id @ '' is not claimed by you''))) (\<lambda>_.
     returnM (the found, py_str (rrepr A) username))))))"

definition may_move :: "val \<Rightarrow> string \<Rightarrow> bool res" where
  "may_move status target =
     (case status of
        VStr s \<Rightarrow> Inr (session_can_transition s target)
      | _ \<Rightarrow> if truthy status then Inl (AttributeError ''upper'') else Inr False)"

text \<open>The session of a rack is only looked at: the write itself is forbidden.\<close>

definition move_session :: "('db, 'r) rack_service \<Rightarrow> doc \<Rightarrow> string \<Rightarrow> string \<Rightarrow> ('db, unit) comp" where
  "move_session A rack target operation =
     bindM (liftM (ditem rack ''session_id'')) (\<lambda>sid.
     whenM (truthy sid)
       (bindM (find_one (rstore A) ''verification_sessions'' [(''session_id'', CEq sid)]) (\<lambda>found.
        bindM (if found = None \<or> found = Some [] then returnM ()
          else bindM (liftM (may_move (dget_or (the found) ''status'' (VStr [])) target)) (\<lambda>ok.
               raise_if (\<not> ok) (HTTPException 409 (''Invalid session transition: '' @
                 py_str (rrepr A) (dget (the found) ''status'') @ '' -> '' @ target)))) (\<lambda>_.
        raiseM (forbidden_direct_write operation)))))"

definition release_rack ::
  "('db, 'r) rack_service \<Rightarrow> (nat \<Rightarrow> link) \<Rightarrow> int \<Rightarrow> string \<Rightarrow> doc \<Rightarrow> ('db \<times> 'r, doc) comp" where
  "release_rack A link now rack_id current_user =
     bindM (on_fst (claimed_rack A rack_id current_user)) (\<lambda>(rack, user).
     bindM (on_snd (release_rack_lock (rredis A) link now rack_id user)) (\<lambda>_.
     bindM (on_fst (update_rack_status A now rack_id ''available'' VNone VNone VNone)) (\<lambda>_.
     bindM (on_fst (move_session A rack ''completed'' ''rack_api.release_rack.verification_sessions_update'')) (\<lambda>_.
     bindM (publish_rack_update A rack_id ''released'' [(''user_id'', VStr user)]) (\<lambda>_.
     returnM [(''success'', VBool True), (''rack_id'', VStr rack_id),
       (''message'', VStr (''Rack '' @ rack_id @ '' released successfully''))])))))"

definition set_working ::
  "('db, 'r) rack_service \<Rightarrow> int \<Rightarrow> string \<Rightarrow> string \<Rightarrow> doc \<Rightarrow> ('db, unit) comp" where
  "set_working A now rack_id status rack =
     bindM (liftM (ditem rack ''claimed_by'')) (\<lambda>claimed_by.
     bindM (liftM (ditem rack ''session_id'')) (\<lambda>session_id.
     bindM (liftM (ditem rack ''lock_expires_at'')) (\<lambda>lock_expires_at.
     update_rack_status A now rack_id status claimed_by session_id lock_expires_at)))"

definition pause_rack :: "('db, 'r) rack_service \<Rightarrow> int \<Rightarrow> string \<Rightarrow> doc \<Rightarrow> ('db, doc) comp" where
  "pause_rack A now rack_id current_user =
     bindM (claimed_rack A rack_id current_user) (\<lambda>(rack, user).
     bindM (set_working A now rack_id ''paused'' rack) (\<lambda>_.
     bindM (move_session A rack ''paused'' ''rack_api.pause_rack.verification_sessions_update'') (\<lambda>_.
     bindM (publish_rack_update A rack_id ''paused'' [(''user_id'', VStr user)]) (\<lambda>_.
     returnM [(''success'', VBool True), (''rack_id'', VStr rack_id), (''status'', VStr ''paused'')]))))"

definition resume_rack :: "('db, 'r) rack_service \<Rightarrow> int \<Rightarrow> string \<Rightarrow> doc \<Rightarrow> ('db, doc) comp" where
  "resume_rack A now rack_id current_user =
     bindM (claimed_rack A rack_id current_user) (\<lambda>(rack, user).
     bindM (liftM (ditem rack ''status'')) (\<lambda>status.
     bindM (raise_if (\<not> py_eq status (VStr ''paused''))
       (HTTPException 400 (''Rack '' @ rack_id @ '' is not paused (status: '' @ py_str (rrepr A) status @ '')''))) (\<lambda>_.
     bindM (set_working A now rack_id ''active'' rack) (\<lambda>_.
     bindM (move_session A rack ''active'' ''rack_api.resume_rack.verification_sessions_update'') (\<lambda>_.
     bindM (publish_rack_update A rack_id ''resumed'' [(''user_id'', VStr user)]) (\<lambda>_.
     returnM [(''success'', VBool True), (''rack_id'', VStr rack_id), (''status'', VStr ''active'')]))))))"

section \<open>Claims\<close>

context redis_server
begin

text \<open>Taking a rack and giving it back at once leaves every lease as it was.\<close>

lemma acquire_release_lease:
  assumes typed: "racks_typed view now s"
    and a: "acquire_rack_lock R (\<lambda>_. Answered) now rack u 60 s = (Inr True, s1)"
    and r: "release_rack_lock R (\<lambda>_. Answered) now rack u s1 = (x, s2)" and t: "now \<le> t"
  shows "lease_of view t s2 rack' = lease_of view t s rack'"
proof -
  have acq: "lease_of view now s rack = None"
    using acquire_refines(1) [OF typed _ a t] lease_now [OF typed, of rack] by (simp add: take_lease_def split: if_splits)
  have live1: "live view now s1 (rack_key q) =
    (if q = rack then Some (RStr u, Some (now + 60000)) else live view now s (rack_key q))" for q
  proof -
    obtain b w where w: "r_set R now (rack_key rack) u (Some 60) True s = (b, w)" by fastforce
    from a w lock_op_results(1) [of R "\<lambda>_. Answered" now rack u 60 s] lock_op_states(1) [of R "\<lambda>_. Answered" now rack u 60 s]
    have "b" "s1 = w" by simp_all
    with set_law [OF _ w] show ?thesis by (simp add: aged_def)
  qed
  have typed1: "racks_typed view now s1"
    using typed by (simp add: racks_typed_def live1)
  have l1: "lease_of view now s1 rack = Some (u, now + 60000)" by (simp add: lease_of_def live1)
  show ?thesis
  proof (cases "rack' = rack")
    case True
    have "lease_of view t s2 rack = None"
      using release_refines(2) [OF typed1 r t] l1 by (simp add: drop_lease_def lease_at_def)
    moreover have "lease_of view t s rack = None" using lease_later [OF typed t] acq by (simp add: lease_at_def)
    ultimately show ?thesis using True by simp
  next
    case False
    with release_refines(3) [OF typed1 r t False] acquire_refines(3) [OF typed _ a t False] show ?thesis by simp
  qed
qed

end

lemma open_claim_refused:
  "open_claim A link now rack_id user fl s =
     (Inl (forbidden_direct_write ''rack_api.claim_rack.verification_sessions_insert''), s)"
  by (simp add: open_claim_def Let_def run_simps)

text \<open>A claim after its checks: the rack is taken, the claim is refused, and the rack is given back.\<close>

definition claim_tail ::
  "('db, 'r) rack_service \<Rightarrow> (nat \<Rightarrow> nat \<Rightarrow> link) \<Rightarrow> int \<Rightarrow> string \<Rightarrow> string \<Rightarrow> string \<Rightarrow> ('db \<times> 'r, doc) comp" where
  "claim_tail A links now rack_id floor_name user =
     bindM (on_snd (acquire_rack_lock (rredis A) (links 0) now rack_id user 60)) (\<lambda>acquired.
     if acquired then claim_or_release A (links 1) (links 2) now rack_id user floor_name
     else bindM (on_snd (get_rack_lock_owner (rredis A) (links 1 0) now rack_id)) (\<lambda>owner.
          raiseM (HTTPException 409 (''Rack '' @ rack_id @ '' is locked by '' @
            (case owner of None \<Rightarrow> ''None'' | Some o' \<Rightarrow> o')))))"

definition claim_outcome :: "('db, 'r) rack_service \<Rightarrow> (nat \<Rightarrow> nat \<Rightarrow> link) \<Rightarrow> int \<Rightarrow> string \<Rightarrow> 'r \<Rightarrow> doc res \<Rightarrow> 'r \<Rightarrow> bool" where
  "claim_outcome A links now rack_id s r s' \<longleftrightarrow> (\<exists>e. r = Inl e) \<and> (s' = s \<or>
     (\<exists>u b s1. acquire_rack_lock (rredis A) (links 0) now rack_id u 60 s = (Inr b, s1) \<and>
       (if b then \<exists>x. release_rack_lock (rredis A) (links 2) now rack_id u s1 = (x, s') else s' = s1)))"

lemma claim_tail_outcome:
  assumes "claim_tail A links now rack_id fl u (db, s) = (r, (db', s'))"
  shows "claim_outcome A links now rack_id s r s'"
proof -
  obtain b s1 where a: "acquire_rack_lock (rredis A) (links 0) now rack_id u 60 s = (Inr b, s1)"
    using lock_op_results(1) [of "rredis A" "links 0" now rack_id u 60 s] by (metis prod.collapse)
  obtain c s2 where rel: "release_rack_lock (rredis A) (links 2) now rack_id u s1 = (Inr c, s2)"
    using lock_op_results(2) [of "rredis A" "links 2" now rack_id u s1] by (metis prod.collapse)
  show ?thesis
  proof (cases b)
    case True
    with assms a rel have "(\<exists>e. r = Inl e) \<and> s' = s2"
      by (auto simp: claim_tail_def claim_or_release_def open_claim_refused bindM_def on_snd_def raiseM_def)
    with True a rel show ?thesis by (auto simp: claim_outcome_def)
  next
    case False
    with assms a have "(\<exists>e. r = Inl e) \<and> s' = s1"
      by (auto simp: claim_tail_def bindM_def on_snd_def raiseM_def get_rack_lock_owner_def ask_def call_def split: link.splits)
    with False a show ?thesis by (auto simp: claim_outcome_def)
  qed
qed

lemma claim_rack_outcome:
  assumes "claim_rack A links now rack_id fl current_user (db, s) = (r, (db', s'))"
  shows "claim_outcome A links now rack_id s r s'"
proof -
  have same: "claim_outcome A links now rack_id s (Inl e) s" for e by (simp add: claim_outcome_def)
  obtain q db1 where rack: "get_or_create_rack A now rack_id fl db = (q, db1)" by fastforce
  from assms rack same claim_tail_outcome show ?thesis
    unfolding claim_rack_def Let_def claim_tail_def [symmetric]
    by (fastforce simp: bindM_def liftM_def raise_if_def raiseM_def returnM_def on_fst_def split: sum.splits if_splits)
qed

section \<open>Properties\<close>

text \<open>No rack can be claimed: a claim always fails, because the session it opens is a direct
  write that the guard forbids. Over a working connection every lease is afterwards what it was
  before, at every later time.\<close>

theorem claim_never_succeeds:
  assumes "redis_server (rredis A) view" "racks_typed view now s" "now \<le> t"
    and "claim_rack A (\<lambda>_ _. Answered) now rack_id fl current_user (db, s) = (r, (db', s'))"
  shows "(\<exists>e. r = Inl e) \<and> lease_of view t s' rack' = lease_of view t s rack'"
proof -
  from claim_rack_outcome [OF assms(4)] consider (same) "s' = s"
    | (refused) u where "acquire_rack_lock (rredis A) (\<lambda>_. Answered) now rack_id u 60 s = (Inr False, s')"
    | (undone) u s1 x where "acquire_rack_lock (rredis A) (\<lambda>_. Answered) now rack_id u 60 s = (Inr True, s1)"
        "release_rack_lock (rredis A) (\<lambda>_. Answered) now rack_id u s1 = (x, s')"
    by (auto simp: claim_outcome_def split: if_splits)
  then have "lease_of view t s' rack' = lease_of view t s rack'"
  proof cases
    case refused
    show ?thesis
    proof (cases "rack' = rack_id")
      case True
      from redis_server.acquire_refines(1,2) [OF assms(1,2) _ refused assms(3)]
        redis_server.lease_later [OF assms(1-3)] redis_server.lease_now [OF assms(1,2)] True
      show ?thesis by (auto simp: take_lease_def split: if_splits)
    next
      case False
      with redis_server.acquire_refines(3) [OF assms(1,2) _ refused assms(3)] show ?thesis by simp
    qed
  next
    case undone
    then show ?thesis using redis_server.acquire_release_lease [OF assms(1,2) _ _ assms(3)] by blast
  qed simp
  with claim_rack_outcome [OF assms(4)] show ?thesis by (simp add: claim_outcome_def)
qed

lemma move_session_refused:
  assumes "document_store (rstore A)" "dhas rack ''session_id''" "truthy (dget rack ''session_id'')"
  shows "\<exists>e. move_session A rack target operation db = (Inl e, db)"
  using assms(2,3)
  by (auto simp: move_session_def ditem_def run_simps document_store.find_one_run [OF assms(1)] raise_if_def whenM_def
      split: sum.splits if_splits option.splits)

text \<open>Releasing a rack that belongs to a session is reported as a failure although the rack is
  released: its entry is made available and its lock is given back before the session is looked
  at, and the write of the session is forbidden.\<close>

theorem release_reports_failure:
  assumes store: "document_store (rstore A)" and "redis_server (rredis A) view" "racks_typed view now s" "now \<le> t"
    and rack: "filter (match_filter (by_rack rack_id)) (docs (rstore A) ''rack_registry'' db) = rack # rest" "rack \<noteq> []"
    and user: "dget current_user ''username'' = VStr u" "dget rack ''claimed_by'' = VStr u"
    and session: "truthy (dget rack ''session_id'')"
    and run: "release_rack A (\<lambda>_. Answered) now rack_id current_user (db, s) = (r, (db', s'))"
  shows "(\<exists>e. r = Inl e) \<and>
    (lease_of view now s rack_id = Some (u, d) \<longrightarrow> lease_of view t s' rack_id = None) \<and>
    (\<exists>row. dget row ''status'' = VStr ''available'' \<and> docs (rstore A) ''rack_registry'' db' =
       update_first (match_filter (by_rack rack_id)) (\<lambda>_. row) (docs (rstore A) ''rack_registry'' db))"
proof -
  have has: "dhas current_user ''username''" "dhas rack ''claimed_by''" "dhas rack ''session_id''"
    using user session by (auto simp: dhas_def dget_def split: option.splits)
  have "claimed_rack A rack_id current_user db = (Inr (rack, u), db)"
    using rack user has
    by (simp add: claimed_rack_def ditem_def run_simps document_store.find_one_run [OF store] raise_if_def)
  moreover obtain b s1 where rel: "release_rack_lock (rredis A) (\<lambda>_. Answered) now rack_id u s = (Inr b, s1)"
    using lock_op_results(2) [of "rredis A" "\<lambda>_. Answered" now rack_id u s] by (metis prod.collapse)
  moreover obtain db1 where upd: "update_rack_status A now rack_id ''available'' VNone VNone VNone db = (Inr (), db1)"
      "docs (rstore A) ''rack_registry'' db1 = update_first (match_filter (by_rack rack_id))
        (\<lambda>_. snd (apply_set (rack_status_fields now ''available'' VNone VNone VNone) rack)) (docs (rstore A) ''rack_registry'' db)"
    using document_store.update_one_set [OF store rack(1), of "rack_status_fields now ''available'' VNone VNone VNone" thesis]
    by (simp add: update_rack_status_def run_simps)
  moreover obtain e where "move_session A rack ''completed'' ''rack_api.release_rack.verification_sessions_update'' db1 = (Inl e, db1)"
    using move_session_refused [OF store has(3) session] by blast
  ultimately have "r = Inl e" "db' = db1" "s' = s1"
    using run by (auto simp: release_rack_def bindM_def on_fst_def on_snd_def)
  moreover have "dget (snd (apply_set (rack_status_fields now ''available'' VNone VNone VNone) rack)) ''status'' = VStr ''available''"
    by (rule apply_set_get_string) (simp_all add: rack_status_fields_def)
  ultimately show ?thesis
    using upd(2) redis_server.release_refines(2) [OF assms(2,3) rel assms(4)] redis_server.lease_now [OF assms(2,3), of rack_id]
    by (auto simp: drop_lease_def lease_at_def [of _ None])
qed

section \<open>Examples\<close>

definition demo_racks :: "(memdb, keyspace) rack_service" where
  "demo_racks = \<lparr>rstore = mem_store show_nat (\<lambda>_. False), rrepr = (\<lambda>_. []), rredis = mem_redis, publish = (\<lambda>_ _. None),
     exception_text = (\<lambda>_. [])\<rparr>"

definition demo_rack :: doc where
  "demo_rack = [(''rack_id'', VStr ''R1''), (''status'', VStr ''active''), (''claimed_by'', VStr ''u1''), (''session_id'', VStr ''S1'')]"

definition demo_rack_db :: memdb where
  "demo_rack_db = \<lparr>colls = (\<lambda>c. if c = ''rack_registry'' then [demo_rack] else []), next_id = 0\<rparr>"

definition demo_keyspace :: keyspace where
  "demo_keyspace = [(''rack:lock:R1'', (RStr ''u1'', Some 60000))]"

lemma demo_racks_parts:
  "document_store (rstore demo_racks)" "redis_server (rredis demo_racks) map_of"
  by (simp_all add: demo_racks_def mem.document_store_axioms mem_server.redis_server_axioms)

lemma demo_typed: "racks_typed map_of 0 ([] :: keyspace)" "racks_typed map_of 0 demo_keyspace"
  by (auto simp: racks_typed_def live_def demo_keyspace_def)

theorem claim_never_succeeds_witness:
  "\<exists>e. fst (claim_rack demo_racks (\<lambda>_ _. Answered) 0 ''R2'' ''Ground'' [(''username'', VStr ''u1'')] (demo_rack_db, [])) = Inl e"
proof -
  let ?run = "claim_rack demo_racks (\<lambda>_ _. Answered) 0 ''R2'' ''Ground'' [(''username'', VStr ''u1'')] (demo_rack_db, [])"
  obtain r db' s' where run: "?run = (r, (db', s'))" by (metis surj_pair)
  from claim_never_succeeds [OF demo_racks_parts(2) demo_typed(1) order.refl run] run show ?thesis by auto
qed

theorem release_reports_failure_witness:
  "\<exists>e db' s'. release_rack demo_racks (\<lambda>_. Answered) 0 ''R1'' [(''username'', VStr ''u1'')] (demo_rack_db, demo_keyspace) =
     (Inl e, (db', s')) \<and> lease_of map_of 1 s' ''R1'' = None"
proof -
  let ?run = "release_rack demo_racks (\<lambda>_. Answered) 0 ''R1'' [(''username'', VStr ''u1'')] (demo_rack_db, demo_keyspace)"
  obtain r db' s' where run: "?run = (r, (db', s'))" by (metis surj_pair)
  have rack: "filter (match_filter (by_rack ''R1'')) (docs (rstore demo_racks) ''rack_registry'' demo_rack_db) = [demo_rack]" "demo_rack \<noteq> []"
    "dget [(''username'', VStr ''u1'')] ''username'' = VStr ''u1''" "dget demo_rack ''claimed_by'' = VStr ''u1''"
    "truthy (dget demo_rack ''session_id'')" by code_simp+
  have "lease_of map_of 0 demo_keyspace ''R1'' = Some (''u1'', 60000)" by code_simp
  with release_reports_failure [OF demo_racks_parts demo_typed(2) _ rack run, of 1 60000] run show ?thesis by auto
qed

end
