(* ===== verification/CircuitBreaker.thy ===== *)
theory CircuitBreaker
  imports Prelude
begin

text \<open>
  \<open>backend/services/circuit_breaker.py\<close>: the circuit breaker, its registry and the decorator.

  A breaker is a record of its counters; every operation runs under the breaker's lock, so an
  execution is a sequence of whole operations in any order. Times are seconds. A last failure
  time of zero counts as none, as in \<open>if self._last_failure_time\<close>. The state-change callback,
  whose exceptions are swallowed, and the log lines are left out.
\<close>

section \<open>The breaker\<close>

datatype circuit_state = CLOSED | OPEN | HALF_OPEN

record breaker_config =
  failure_threshold :: int
  success_threshold :: int
  timeout_seconds :: rat
  half_open_max_calls :: int

definition default_config :: breaker_config where
  "default_config = \<lparr>failure_threshold = 5, success_threshold = 3, timeout_seconds = 30,
     half_open_max_calls = 3\<rparr>"

record breaker =
  bname :: string
  config :: breaker_config
  bstate :: circuit_state
  failure_count :: int
  success_count :: int
  last_failure_time :: "rat option"
  half_open_calls :: int

definition new_breaker :: "string \<Rightarrow> breaker_config \<Rightarrow> breaker" where
  "new_breaker name cfg =
     \<lparr>bname = name, config = cfg, bstate = CLOSED, failure_count = 0, success_count = 0,
      last_failure_time = None, half_open_calls = 0\<rparr>"

definition timed_out :: "rat \<Rightarrow> breaker \<Rightarrow> bool" where
  "timed_out now b =
     (case last_failure_time b of
        None \<Rightarrow> False
      | Some t \<Rightarrow> t \<noteq> 0 \<and> now - t \<ge> timeout_seconds (config b))"

definition is_available :: "rat \<Rightarrow> breaker \<Rightarrow> bool" where
  "is_available now b =
     (case bstate b of
        CLOSED \<Rightarrow> True
      | OPEN \<Rightarrow> timed_out now b
      | HALF_OPEN \<Rightarrow> half_open_calls b < half_open_max_calls (config b))"

definition transition_to :: "circuit_state \<Rightarrow> breaker \<Rightarrow> breaker" where
  "transition_to new_state b = (if bstate b \<noteq> new_state then b\<lparr>bstate := new_state\<rparr> else b)"

definition reset_counts :: "breaker \<Rightarrow> breaker" where
  "reset_counts b = b\<lparr>failure_count := 0, success_count := 0, half_open_calls := 0\<rparr>"

definition record_success :: "breaker \<Rightarrow> breaker" where
  "record_success b =
     (case bstate b of
        HALF_OPEN \<Rightarrow>
          (let b1 = b\<lparr>success_count := success_count b + 1, half_open_calls := max 0 (half_open_calls b - 1)\<rparr>
           in if success_count b1 \<ge> success_threshold (config b1)
              then reset_counts (transition_to CLOSED b1) else b1)
      | CLOSED \<Rightarrow> b\<lparr>failure_count := 0\<rparr>
      | OPEN \<Rightarrow> b)"

definition record_failure :: "rat \<Rightarrow> breaker \<Rightarrow> breaker" where
  "record_failure now b =
     (let b1 = b\<lparr>failure_count := failure_count b + 1\<rparr>
      in (case bstate b1 of
            HALF_OPEN \<Rightarrow> reset_counts (transition_to OPEN (b1\<lparr>last_failure_time := Some now\<rparr>))
          | CLOSED \<Rightarrow>
              (let b2 = b1\<lparr>last_failure_time := Some now\<rparr>
               in if failure_count b2 \<ge> failure_threshold (config b2) then transition_to OPEN b2 else b2)
          | OPEN \<Rightarrow> b1))"

definition acquire_call :: "rat \<Rightarrow> breaker \<Rightarrow> bool \<times> breaker" where
  "acquire_call now b =
     (case bstate b of
        CLOSED \<Rightarrow> (True, b)
      | OPEN \<Rightarrow>
          (if timed_out now b
           then (let b1 = reset_counts (transition_to HALF_OPEN b)
                 in (True, b1\<lparr>half_open_calls := half_open_calls b1 + 1\<rparr>))
           else (False, b))
      | HALF_OPEN \<Rightarrow>
          (if half_open_calls b < half_open_max_calls (config b)
           then (True, b\<lparr>half_open_calls := half_open_calls b + 1\<rparr>)
           else (False, b)))"

section \<open>Registry and decorator\<close>

type_synonym registry = "(string \<times> breaker) list"

definition get_or_create :: "string \<Rightarrow> breaker_config option \<Rightarrow> registry \<Rightarrow> breaker \<times> registry" where
  "get_or_create name cfg reg =
     (case map_of reg name of
        Some b \<Rightarrow> (b, reg)
      | None \<Rightarrow>
          (let b = new_breaker name (case cfg of None \<Rightarrow> default_config | Some c \<Rightarrow> c)
           in (b, reg @ [(name, b)])))"

definition get_breaker :: "string \<Rightarrow> registry \<Rightarrow> breaker option" where
  "get_breaker name reg = map_of reg name"

text \<open>
  The decorated call. The state is the breaker and the rest of the world; \<open>func\<close> and
  \<open>fallback\<close> act on the world only. \<open>now\<close> is the time of the acquisition, \<open>after\<close> the time of
  the recorded outcome. Every exception of the model is a Python \<open>Exception\<close>.
\<close>

definition with_circuit_breaker ::
  "rat \<Rightarrow> rat \<Rightarrow> ('w, 'a) comp \<Rightarrow> ('w, 'a) comp option \<Rightarrow> (breaker \<times> 'w, 'a) comp" where
  "with_circuit_breaker now after func fallback = (\<lambda>(b, w).
     case acquire_call now b of
       (False, b1) \<Rightarrow>
         (case fallback of
            Some f \<Rightarrow> on_snd f (b1, w)
          | None \<Rightarrow> (Inl (CircuitOpenError (''Circuit breaker '' @ [CHR 0x27] @ bname b1 @ [CHR 0x27] @ '' is open'')), (b1, w)))
     | (True, b1) \<Rightarrow>
         (case func w of
            (Inr x, w') \<Rightarrow> (Inr x, (record_success b1, w'))
          | (Inl e, w') \<Rightarrow> (Inl e, (record_failure after b1, w'))))"

section \<open>Executions\<close>

datatype breaker_op = Acquire rat | Success | Failure rat

fun run_op :: "breaker_op \<Rightarrow> breaker \<Rightarrow> breaker" where
  "run_op (Acquire now) b = snd (acquire_call now b)"
| "run_op Success b = record_success b"
| "run_op (Failure now) b = record_failure now b"

inductive reachable_breaker :: "string \<Rightarrow> breaker_config \<Rightarrow> breaker \<Rightarrow> bool" for name cfg where
  start: "reachable_breaker name cfg (new_breaker name cfg)"
| step: "reachable_breaker name cfg b \<Longrightarrow> reachable_breaker name cfg (run_op event b)"

definition sane_config :: "breaker_config \<Rightarrow> bool" where
  "sane_config c \<longleftrightarrow> failure_threshold c \<ge> 1 \<and> success_threshold c \<ge> 1 \<and> half_open_max_calls c \<ge> 1"

definition breaker_ok :: "breaker \<Rightarrow> bool" where
  "breaker_ok b \<longleftrightarrow>
     sane_config (config b) \<and> 0 \<le> failure_count b \<and> 0 \<le> success_count b \<and>
     0 \<le> half_open_calls b \<and> half_open_calls b \<le> half_open_max_calls (config b) \<and>
     (bstate b = CLOSED \<longrightarrow> failure_count b < failure_threshold (config b) \<and> half_open_calls b = 0) \<and>
     (bstate b = HALF_OPEN \<longrightarrow> success_count b < success_threshold (config b)) \<and>
     (bstate b = OPEN \<longrightarrow> last_failure_time b \<noteq> None \<and> half_open_calls b = 0)"

lemmas breaker_defs = record_success_def record_failure_def acquire_call_def transition_to_def
  reset_counts_def Let_def

lemma breaker_ok_new: "sane_config cfg \<Longrightarrow> breaker_ok (new_breaker name cfg)"
  by (simp add: breaker_ok_def new_breaker_def sane_config_def)

lemma breaker_ok_success: "breaker_ok b \<Longrightarrow> breaker_ok (record_success b)"
  by (cases "bstate b") (auto simp: breaker_ok_def breaker_defs sane_config_def)

lemma breaker_ok_failure: "breaker_ok b \<Longrightarrow> breaker_ok (record_failure now b)"
  by (cases "bstate b") (auto simp: breaker_ok_def breaker_defs sane_config_def)

lemma breaker_ok_acquire: "breaker_ok b \<Longrightarrow> breaker_ok (snd (acquire_call now b))"
  by (cases "bstate b") (auto simp: breaker_ok_def breaker_defs sane_config_def)

lemma config_run_op [simp]: "config (run_op event b) = config b"
  by (cases event; cases "bstate b") (auto simp: breaker_defs)

lemma reachable_config: "reachable_breaker name cfg b \<Longrightarrow> config b = cfg"
  by (induction rule: reachable_breaker.induct) (simp_all add: new_breaker_def)

definition failures :: "rat \<Rightarrow> nat \<Rightarrow> breaker \<Rightarrow> breaker" where
  "failures now n b = ((record_failure now) ^^ n) b"

lemma failures_closed:
  assumes "bstate b = CLOSED" "failure_count b + int n < failure_threshold (config b)"
  shows "bstate (failures now n b) = CLOSED \<and> failure_count (failures now n b) = failure_count b + int n \<and>
    config (failures now n b) = config b"
  using assms
proof (induction n)
  case (Suc n)
  then show ?case by (simp add: failures_def breaker_defs)
qed (simp add: failures_def)

lemma failures_open: "bstate b = OPEN \<Longrightarrow> bstate (failures now n b) = OPEN"
  by (induction n) (simp_all add: failures_def breaker_defs)

lemma failures_add: "failures now (m + n) b = failures now n (failures now m b)"
  by (simp add: failures_def funpow_add add.commute [of m])

definition successes :: "nat \<Rightarrow> breaker \<Rightarrow> breaker" where
  "successes n b = (record_success ^^ n) b"

lemma successes_half_open:
  assumes "bstate b = HALF_OPEN" "success_count b + int n < success_threshold (config b)"
  shows "bstate (successes n b) = HALF_OPEN \<and> success_count (successes n b) = success_count b + int n \<and>
    config (successes n b) = config b"
  using assms
proof (induction n)
  case (Suc n)
  then show ?case by (simp add: successes_def breaker_defs)
qed (simp add: successes_def)

section \<open>Properties\<close>



text \<open>The breaker opens exactly at the threshold: after n consecutive failures a fresh breaker is
  open if n has reached the failure threshold and still closed otherwise; and while it is open
  every call is refused, unchanged, until the timeout since the failure has passed, after which
  one call is admitted as the first half-open probe.\<close>

theorem breaker_opens_at_threshold:
  assumes "sane_config cfg"
  shows "bstate (failures now n (new_breaker name cfg)) =
      (if int n \<ge> failure_threshold cfg then OPEN else CLOSED) \<and>
    (bstate b = OPEN \<longrightarrow> last_failure_time b = Some t \<longrightarrow> t \<noteq> 0 \<longrightarrow>
       acquire_call later b =
         (if later - t \<ge> timeout_seconds (config b)
          then (True, b\<lparr>bstate := HALF_OPEN, failure_count := 0, success_count := 0, half_open_calls := 1\<rparr>)
          else (False, b)))"
proof -
  let ?b = "new_breaker name cfg" and ?k = "nat (failure_threshold cfg - 1)"
  have th: "failure_threshold cfg \<ge> 1" using assms by (simp add: sane_config_def)
  have "bstate (failures now n ?b) = (if int n \<ge> failure_threshold cfg then OPEN else CLOSED)"
  proof (cases "int n \<ge> failure_threshold cfg")
    case False
    then show ?thesis using failures_closed [of ?b n now] by (simp add: new_breaker_def)
  next
    case True
    with th have "?k + 1 \<le> n" by linarith
    then obtain m where m: "n = (?k + 1) + m" using le_iff_add by blast
    have "bstate (failures now ?k ?b) = CLOSED" "failure_count (failures now ?k ?b) = failure_threshold cfg - 1"
      "config (failures now ?k ?b) = cfg"
      using failures_closed [of ?b ?k now] th by (simp_all add: new_breaker_def)
    then have "bstate (failures now 1 (failures now ?k ?b)) = OPEN"
      by (simp add: failures_def breaker_defs)
    then have "bstate (failures now m (failures now 1 (failures now ?k ?b))) = OPEN" by (rule failures_open)
    then show ?thesis using True by (simp only: m failures_add) simp
  qed
  then show ?thesis by (simp add: breaker_defs timed_out_def)
qed

lemma breaker_opens_at_threshold_witness:
  "bstate (failures 7 5 (new_breaker ''db'' default_config)) = OPEN \<and>
   bstate (failures 7 4 (new_breaker ''db'' default_config)) = CLOSED"
proof -
  have "sane_config default_config" by (simp add: sane_config_def default_config_def)
  from breaker_opens_at_threshold [OF this, of 7 5] breaker_opens_at_threshold [OF this, of 7 4]
  show ?thesis by (simp add: default_config_def)
qed

text \<open>Recovery: a half-open breaker closes with all counters reset exactly when the successes
  since it became half-open reach the success threshold, and a single failure before that sends
  it back to open with a fresh failure time.\<close>

theorem breaker_recovers:
  assumes "bstate b = HALF_OPEN" and "success_count b = 0" and "sane_config (config b)"
    and "int n \<le> success_threshold (config b)"
  shows "(if int n < success_threshold (config b) then bstate (successes n b) = HALF_OPEN
      else successes n b = b\<lparr>bstate := CLOSED, failure_count := 0, success_count := 0, half_open_calls := 0\<rparr>) \<and>
    (int n < success_threshold (config b) \<longrightarrow>
       bstate (record_failure now (successes n b)) = OPEN \<and>
       last_failure_time (record_failure now (successes n b)) = Some now)"
proof (cases "int n < success_threshold (config b)")
  case True
  with successes_half_open [OF assms(1), of n] assms(2) have "bstate (successes n b) = HALF_OPEN" by simp
  with True show ?thesis by (simp add: breaker_defs)
next
  case False
  with assms(3,4) have n: "int n = success_threshold (config b)" "n \<noteq> 0" by (auto simp: sane_config_def)
  then obtain k where "n = Suc k" by (cases n) auto
  with n have k: "n = Suc k" "int k + 1 = success_threshold (config b)" by simp_all
  then have h: "bstate (successes k b) = HALF_OPEN" "success_count (successes k b) = int k"
    "config (successes k b) = config b"
    using successes_half_open [OF assms(1), of k] assms(2) by simp_all
  have "bname (successes k b) = bname b \<and> last_failure_time (successes k b) = last_failure_time b"
    by (induction k) (auto simp: successes_def breaker_defs split: circuit_state.splits)
  moreover have "successes n b = record_success (successes k b)" by (simp add: k successes_def)
  ultimately show ?thesis
    using h k False by (cases b; cases "successes k b") (simp add: breaker_defs)
qed

lemma breaker_recovers_witness:
  "bstate (successes 3 (snd (acquire_call 40 (failures 7 5 (new_breaker ''db'' default_config))))) = CLOSED"
proof -
  let ?b = "snd (acquire_call 40 (failures 7 5 (new_breaker ''db'' default_config)))"
  have "bstate ?b = HALF_OPEN" "success_count ?b = 0" "config ?b = default_config"
    by (simp_all add: failures_def new_breaker_def default_config_def breaker_defs timed_out_def eval_nat_numeral)
  with breaker_recovers [of ?b 3] show ?thesis by (simp add: sane_config_def default_config_def)
qed

text \<open>The decorator calls the protected function only with permission: when the breaker refuses,
  the function is not run, the breaker is unchanged and the caller gets the fallback's outcome
  or \<open>CircuitOpenError\<close>; when it admits, the function runs once and its outcome is returned and
  recorded.\<close>

theorem decorator_respects_breaker:
  "with_circuit_breaker now after func fallback (b, w) =
     (if is_available now b
      then (let (r, w') = func w; b1 = snd (acquire_call now b)
            in (r, (case r of Inr _ \<Rightarrow> record_success b1 | Inl _ \<Rightarrow> record_failure after b1), w'))
      else (case fallback of
          Some f \<Rightarrow> (let (r, w') = f w in (r, b, w'))
        | None \<Rightarrow> (Inl (CircuitOpenError (''Circuit breaker '' @ [CHR 0x27] @ bname b @ [CHR 0x27] @ '' is open'')), b, w)))"
  by (auto simp: with_circuit_breaker_def is_available_def acquire_call_def on_snd_def Let_def
      split: circuit_state.splits prod.splits sum.splits option.splits)

end
