(* ===== verification/Spec2Isabelle.thy ===== *)
theory Spec2Isabelle
  imports LineFinalization UpdatePreview InventoryAdjustment ApprovalReview SyncConflicts RateLimiter AuthRoutes RackApi CircuitBreaker
begin

text \<open>
  A verification development for the backend of the stock verification system: warehouse staff
  count items in sessions, supervisors review the counts, and finalized sessions become
  immutable. The backend (Python, under \<open>src/backend\<close>) keeps all of its state in a document
  database and routes every mutation through domain services. The development models the
  kernel of these services, the one that decides which writes are admitted and what they do.

  \<^bold>\<open>The parts and their theories.\<close>

  \<^item> \<open>Prelude\<close>: the exceptions and the state-and-exception monad. A coroutine of the program
    is a function from the database to a result (an exception or a value) and a database;
    writes made before an exception stay. The collections \<open>run_iff\<close>, \<open>run_simps\<close> and
    \<open>keeps_intros\<close> carry the inversion, evaluation and frame reasoning of all components.
  \<^item> \<open>PyValue\<close>: the dynamic values of documents and the Python operations on them.
  \<^item> \<open>DocumentStore\<close>: the database interface (locale \<open>document_store\<close>), the in-memory
    database of \<open>tests/utils/in_memory_db.py\<close> that implements it (interpretation \<open>mem\<close>), and
    the unit of work of \<open>core/uow.py\<close>.
  \<^item> \<open>Governance\<close>: \<open>services/governance_guard.py\<close> (status normalisation, the session state
    machine, the write gate \<open>assert_valid_write\<close>, the write authorities of the guarded
    collections), \<open>services/concurrency.py\<close> (version filters) and
    \<open>services/governance_audit_service.py\<close> (the audit trail).
  \<^item> \<open>CanonicalInventory\<close>: \<open>services/canonical_inventory.py\<close>, the effective review state of
    a count line, duplicates, finalization blockers and session totals.
  \<^item> \<open>Validation\<close>: \<open>services/validation_service.py\<close>, units of measure, quantities, serial
    numbers, and the checks of count lines and sessions.
  \<^item> \<open>ProjectionWriter\<close>: \<open>services/projections/writer.py\<close>, the read-side documents derived
    from sessions and count lines. The locale \<open>projection_writer\<close> states what the writer needs
    of the session locks.
  \<^item> \<open>MongoLocks\<close>: \<open>services/locking/mongo_service.py\<close> and the waiting loop of the
    projection writer. The locale \<open>unique_inserts\<close> adds the unique index to the store; the
    interpretations \<open>mem_unique\<close> and \<open>mem_writer\<close> discharge both locales.
  \<^item> \<open>SessionLifecycle\<close>: \<open>services/session_lifecycle_service.py\<close>, the only writer of sessions:
    creation, transitions, optimistic updates, baseline snapshots, recount requests and the
    canonical finalization. The locale \<open>lifecycle_service\<close> rests on the projection writer's
    frame and is interpreted by \<open>mem_lifecycle\<close>.
  \<^item> \<open>CountLineGovernance\<close>, \<open>CountLineWrite\<close>: the count line writer under
    \<open>services/count_lines\<close>. The first theory holds the idempotency keys and the guards, the
    second builds the documents (insert, update, the stamped authoritative fields) and commits
    them in the order of the source. \<open>UpdatePreview\<close> is the dry run of an update.
  \<^item> \<open>CountLineSafety\<close>, \<open>CountLineProperties\<close>: the locale \<open>line_writer\<close> states what the writer
    needs of the store, its successful runs are inverted step by step there, and the
    interpretation \<open>mem_lines\<close> gives the facts for the in-memory database.
  \<^item> \<open>LineFinalization\<close>: the composition of the lifecycle service and the count line writer; the
    locale \<open>wired_services\<close> extends both contracts.
  \<^item> \<open>PinAuth\<close>: \<open>services/pin_auth_service.py\<close> and the override tokens of supervisors.
  \<^item> \<open>InventoryAdjustment\<close>: the adjustments posted from approved counts, their rollback and
    authorization.
  \<^item> \<open>ApprovalEngine\<close>, \<open>ApprovalReview\<close>: \<open>services/approval_engine.py\<close> (the rules by which an
    observation is approved without a supervisor), and \<open>services/recount_service.py\<close> with the
    routes of \<open>api/approval_api.py\<close> that call both.
  \<^item> \<open>UnknownItems\<close>: \<open>services/unknown_item_service.py\<close>, reports of items the ERP does not know;
    it calls the lifecycle service, the count line writer and the audit trail.
  \<^item> \<open>EventProjection\<close>, \<open>EventReplay\<close>: \<open>services/projections/core.py\<close>, the read models kept from the
    event log: what each kind of event writes, the record of an application, the rebuild from the
    log. The locale \<open>event_projections\<close> (interpretation \<open>mem_projections\<close>) carries the proofs of
    the second theory.
  \<^item> \<open>EventService\<close>: \<open>services/event_service.py\<close>, the append-only log with its idempotency keys, and
    the events a write of count lines is mirrored to.
  \<^item> \<open>SyncConflicts\<close>: \<open>services/sync_conflicts_service.py\<close> and \<open>api/sync_conflicts_api.py\<close>; a
    resolution writes through the lifecycle service, the count line writer and the event log. The
    locale \<open>conflict_resolver\<close> extends \<open>wired_services\<close> by the one shared database and is
    interpreted by \<open>mem_resolver\<close>.
  \<^item> \<open>RackLocks\<close>, \<open>RackApi\<close>: \<open>services/locking/redis_manager.py\<close>, the locks of racks in Redis, and the
    routes of \<open>api/rack_api.py\<close>. The locale \<open>redis_server\<close> states what is documented of the commands
    of Redis; \<open>mem_server\<close> interprets it on a keyspace with deadlines.
  \<^item> \<open>RateLimiter\<close>: \<open>services/rate_limiting/limiter.py\<close>, token buckets and concurrent requests.
  \<^item> Authentication, in five layers: \<open>TokenService\<close> (\<open>auth/jwt_provider.py\<close>,
    \<open>services/refresh_token.py\<close>), \<open>OtpService\<close> (\<open>services/otp_service.py\<close>), \<open>Passwords\<close>
    (\<open>utils/auth_utils.py\<close>), \<open>AuthLimits\<close> (\<open>auth/rate_limiter.py\<close> over the in-memory mode of
    \<open>services/cache/manager.py\<close>), \<open>Permissions\<close> (\<open>auth/permissions.py\<close>,
    \<open>auth/dependencies.py\<close>); \<open>AuthRoutes\<close> composes them in the routes of \<open>api/auth_routes.py\<close>,
    which run on the database and the cache together.
  \<^item> \<open>CountStateMachine\<close>: \<open>services/count_state_machine.py\<close> (states of count lines, roles) and
    \<open>services/session_state_machine.py\<close> (the legacy session statuses).
  \<^item> \<open>CircuitBreaker\<close>: \<open>services/circuit_breaker.py\<close>.
  \<^item> \<open>Variance\<close>: \<open>services/variance_service.py\<close>.

  \<^bold>\<open>State and operations.\<close> A service object is a record of what its constructor stores: the
  database operations, the services it calls, its settings. Each method is one definition that
  takes this record, the time, and the arguments of the method. Long methods are split where
  the source has a block of its own, and the manifest lists the lines of each part.

  \<^bold>\<open>What the theorems show.\<close>

  \<^item> Lifecycle: optimistic updates lose no write; a transition follows the state machine and
    changes exactly its session; finalization starts in REVIEW without blockers; finalized
    sessions are immutable; with transactions a failed operation has no effect; a baseline
    snapshot is recorded once; recount requests run forward.
  \<^item> Governance: the write gate admits exactly the writes it documents; each guarded
    collection has exactly one writer; the session machine has no cycle; normalisation is
    idempotent.
  \<^item> Inventory and validation: totals are the counts they claim to be; no unreviewed line
    slips through finalization; the review state is materialised idempotently; accepted
    quantities and serial numbers are sound.
  \<^item> Projections and locks: a rebuild leaves one live row per line; synchronisation leaves the
    books alone; the writer's copies of the review rules agree with the canonical ones; the
    aggregates and financial figures balance; locks exclude each other and the waiting loop
    ends.
  \<^item> Count line states, circuit breaker, variance: separation of duties, finality of locked
    lines, bounds and thresholds of the breaker, rounding and default thresholds of variances.
  \<^item> Count lines: a repeated insert with the same idempotency key returns the first line and
    writes nothing; a stored line carries the authoritative fields of the caller and the
    session; every write needs an open session; the dry run of an update agrees with the
    update; once a session is finalized no operation of either service changes its lines.
  \<^item> PINs and adjustments: an override token is redeemed at most once and round trips through
    its encoding; repeated failures lock a PIN; an adjustment posts its movement once, a rollback
    nets it to zero, a closed adjustment does not change, and authorization needs a token.
  \<^item> Approvals: automatic approval needs clean evidence; a decision of a supervisor is logged
    and changes exactly its observation; a recount closes its request with the right outcome.
  \<^item> Unknown items: a report needs an active session; an escalation changes exactly its report.
  \<^item> Events: an event is applied once, writes the read models only and can be applied again after
    a failure; the snapshot of an item counts the change of each event; a rebuild replays the log
    once, in order, and a second one does nothing; the dashboard totals are the counts they claim
    to be; appending is idempotent and keeps the log well typed and without a repeated key.
  \<^item> Sync conflicts: a conflict is resolved once; with transactions a failed resolution leaves no
    trace; an approved or locked line is forked, never overwritten.
  \<^item> Rack locks: they implement leases with an owner and a deadline, and exclude other users until
    the deadline, whatever other clients do; listing the active users ends and misses nobody.
  \<^item> Rate limiter: the rate and the burst bound what is admitted, a refused request is admitted
    later, and the handler bounds the requests that run at once.
  \<^item> Authentication: a login needs the password of an active user and ends older sessions;
    failed logins lock an account; a refresh token is used once; a one-time password implements
    its counter; a reset reaches exactly its user and ends the sessions; only administrators
    register users; permissions are role and gift minus withdrawal.

  These theorems record defects: \<open>stale_own_lock_vanishes\<close>,
  \<open>observation_lookup_misses_duplicates\<close>, \<open>expired_lock_relocks\<close>, \<open>recounts_locked_out\<close>,
  \<open>zero_sql_quantity_blocked\<close>, \<open>sync_quantity_ignored\<close>, \<open>unknown_items_never_mapped\<close>,
  \<open>dismissal_never_stored\<close>, \<open>versionless_escalation_goes_astray\<close>,
  \<open>advised_wait_too_short\<close>, \<open>registered_users_cannot_reset\<close>, \<open>flooded_cache_forgets\<close>,
  \<open>scan_absorbed\<close>, \<open>update_counted_twice\<close>, \<open>invalid_resolution_500\<close>,
  \<open>finalizing_resolution_refused\<close>, \<open>resolution_leaves_queue_row\<close>, \<open>claim_never_succeeds\<close> and
  \<open>release_reports_failure\<close>.

  \<^bold>\<open>Parameters.\<close> Code outside the repository is an argument of the
  definitions that use it: the commands of Redis and the outcome of each call to it, SHA-256,
  the password hash, the HMAC of override tokens, the signing library of the tokens, fresh
  identifiers, the clock, the environment variables, the parser of ISO timestamps, the text of
  an exception, the outcome of a delivery over WhatsApp, the truth test of a database object and
  the field coercion of the model classes. The order operators of the query language
  (\<open>$lt\<close> and the like) never hold between values of different kinds, as the
  database documents it.

  \<^bold>\<open>Bounds and fuel.\<close> The waiting loop of the session lock is a recursion on a number of
  attempts; \<open>attempts_enough\<close>, timeout divided by delay plus two, suffices whenever each sleep
  lasts at least the delay, and \<open>session_lock_wait_ends\<close> proves it. Cursor limits
  (\<open>to_list(length=n)\<close>) are kept as written. The number of decimals of a quantity is searched
  up to 350 places, more than a binary64 float can print. The loops over Redis scans take fuel;
  \<open>active_users_complete\<close> proves that some fuel suffices.

  \<^bold>\<open>What is not modelled.\<close> Log lines, driver failures, the rounding errors of floats (a float
  is its exact rational value), interleavings inside one coroutine except where an environment
  is given explicitly (the waiting loop), most HTTP routes, the ERP synchronisation, reports
  and delivery services. The count line machine of \<open>CountStateMachine\<close> takes the write it
  triggers as a parameter.

  \<^bold>\<open>Next.\<close> The batch synchronisation of offline clients and the routes of sessions and count
  lines.
\<close>

end
